(* ===== verification/Prelude.thy ===== *)
theory Prelude
  imports Complex_Main "HOL-Library.Char_ord" "HOL-Library.List_Lexorder"
begin

text \<open>
  Shared vocabulary of the development: the errors the Python code can raise, the result type
  that carries them, the combinators in which the translated functions are written, text (a
  Python \<open>str\<close> is modelled by its UTF-8 encoding, so a \<open>string\<close> of HOL is at the same time a
  byte string and a text), and the generic lemmas the component theories use.
\<close>

section \<open>Errors and results\<close>

text \<open>
  One constructor per exception class that matters to an \<open>except\<close> clause of the code. The
  module-specific classes (\<open>ReportError\<close>, \<open>ManifestError\<close>, \<open>JSONDecodeError\<close>,
  \<open>UnicodeDecodeError\<close>) are subclasses of \<open>ValueError\<close> and are modelled as such.
\<close>

datatype py_error =
    ValueError string
  | OSError string
  | RuntimeError string
  | KeyError string
  | TypeError string
  | AttributeError string
  | IndexError string
  | StructError string
  | OverflowError string
  | RecursionError string
  | ImportError string
  | SubprocessError string
  | SystemExit string
  | KeyboardInterrupt

type_synonym 'a result = "py_error + 'a"

named_theorems result_simps \<open>unfolding rules of the result combinators\<close>

definition bind_result :: "'a result \<Rightarrow> ('a \<Rightarrow> 'b result) \<Rightarrow> 'b result" where
  "bind_result r f = (case r of Inl e \<Rightarrow> Inl e | Inr x \<Rightarrow> f x)"

definition catch_result :: "'a result \<Rightarrow> (py_error \<Rightarrow> 'a result) \<Rightarrow> 'a result" where
  "catch_result r f = (case r of Inl e \<Rightarrow> f e | Inr x \<Rightarrow> Inr x)"

definition require :: "bool \<Rightarrow> string \<Rightarrow> unit result" where
  "require c msg = (if c then Inr () else Inl (ValueError msg))"

text \<open>A loop whose body may raise: the first error leaves the loop.\<close>

fun each :: "('a \<Rightarrow> unit result) \<Rightarrow> 'a list \<Rightarrow> unit result" where
  "each f [] = Inr ()"
| "each f (x # xs) = bind_result (f x) (\<lambda>_. each f xs)"

fun map_result :: "('a \<Rightarrow> 'b result) \<Rightarrow> 'a list \<Rightarrow> 'b list result" where
  "map_result f [] = Inr []"
| "map_result f (x # xs) =
     bind_result (f x) (\<lambda>y. bind_result (map_result f xs) (\<lambda>ys. Inr (y # ys)))"

text \<open>A loop that threads a state through a body that may raise.\<close>

fun fold_result :: "('a \<Rightarrow> 's \<Rightarrow> 's result) \<Rightarrow> 'a list \<Rightarrow> 's \<Rightarrow> 's result" where
  "fold_result f [] s = Inr s"
| "fold_result f (x # xs) s = bind_result (f x s) (fold_result f xs)"

declare bind_result_def [code_unfold] catch_result_def [code_unfold]

lemma bind_result_simps [simp, result_simps]:
  "bind_result (Inl e) f = Inl e"
  "bind_result (Inr x) f = f x"
  by (simp_all add: bind_result_def)

lemma catch_result_simps [simp, result_simps]:
  "catch_result (Inl e) f = f e"
  "catch_result (Inr x) f = Inr x"
  by (simp_all add: catch_result_def)

lemma bind_result_Inr_iff [simp]:
  "bind_result r f = Inr y \<longleftrightarrow> (\<exists>x. r = Inr x \<and> f x = Inr y)"
  by (cases r) simp_all

lemma bind_result_Inl_iff:
  "bind_result r f = Inl e \<longleftrightarrow> r = Inl e \<or> (\<exists>x. r = Inr x \<and> f x = Inl e)"
  by (cases r) simp_all

lemma require_Inr_iff [simp]: "require c msg = Inr u \<longleftrightarrow> c"
  by (simp add: require_def)

lemma require_simps [simp]:
  "require True msg = Inr ()"
  "require False msg = Inl (ValueError msg)"
  by (simp_all add: require_def)

lemma require_Inl_iff: "require c msg = Inl e \<longleftrightarrow> \<not> c \<and> e = ValueError msg"
  by (auto simp: require_def)

lemma each_Inr_iff [simp]: "each f xs = Inr u \<longleftrightarrow> (\<forall>x\<in>set xs. f x = Inr ())"
  by (induction xs) (auto simp: old.unit.exhaust)

lemma map_result_Inr_length: "map_result f xs = Inr ys \<Longrightarrow> length ys = length xs"
  by (induction xs arbitrary: ys) auto

lemma map_result_Inr_iff:
  "map_result f xs = Inr ys \<longleftrightarrow> list_all2 (\<lambda>x y. f x = Inr y) xs ys"
  by (induction xs arbitrary: ys) (auto simp: list_all2_Cons1)

text \<open>A state invariant carried through a loop that may raise.\<close>

lemma fold_result_invariant:
  assumes "fold_result f xs s = Inr t" and "P s"
    and "\<And>x s t. x \<in> set xs \<Longrightarrow> P s \<Longrightarrow> f x s = Inr t \<Longrightarrow> P t"
  shows "P t"
  using assms by (induction xs arbitrary: s) auto

lemma fold_result_append:
  "fold_result f (xs @ ys) s = bind_result (fold_result f xs s) (fold_result f ys)"
proof (induction xs arbitrary: s)
  case (Cons x xs)
  then show ?case by (cases "f x s") simp_all
qed simp

text \<open>The classes that \<open>except (OSError, ValueError)\<close> catches.\<close>

fun os_or_value :: "py_error \<Rightarrow> bool" where
  "os_or_value (ValueError _) = True"
| "os_or_value (OSError _) = True"
| "os_or_value _ = False"

text \<open>The text \<open>str(error)\<close>; \<open>str(KeyError(k))\<close> is the repr of the key, which is stored.\<close>

fun error_text :: "py_error \<Rightarrow> string" where
  "error_text (ValueError m) = m"
| "error_text (OSError m) = m"
| "error_text (RuntimeError m) = m"
| "error_text (KeyError m) = m"
| "error_text (TypeError m) = m"
| "error_text (AttributeError m) = m"
| "error_text (IndexError m) = m"
| "error_text (StructError m) = m"
| "error_text (OverflowError m) = m"
| "error_text (RecursionError m) = m"
| "error_text (ImportError m) = m"
| "error_text (SubprocessError m) = m"
| "error_text (SystemExit m) = m"
| "error_text KeyboardInterrupt = ''''"

text \<open>\<open>type(error).__name__\<close>, up to the subclasses above.\<close>

fun error_class :: "py_error \<Rightarrow> string" where
  "error_class (ValueError _) = ''ValueError''"
| "error_class (OSError _) = ''OSError''"
| "error_class (RuntimeError _) = ''RuntimeError''"
| "error_class (KeyError _) = ''KeyError''"
| "error_class (TypeError _) = ''TypeError''"
| "error_class (AttributeError _) = ''AttributeError''"
| "error_class (IndexError _) = ''IndexError''"
| "error_class (StructError _) = ''error''"
| "error_class (OverflowError _) = ''OverflowError''"
| "error_class (RecursionError _) = ''RecursionError''"
| "error_class (ImportError _) = ''ImportError''"
| "error_class (SubprocessError _) = ''CalledProcessError''"
| "error_class (SystemExit _) = ''SystemExit''"
| "error_class KeyboardInterrupt = ''KeyboardInterrupt''"

section \<open>Text\<close>

type_synonym bytes = string

definition code :: "char \<Rightarrow> nat" where
  "code c = of_char c"

lemma code_less_256 [simp]: "code c < 256"
  by (simp add: code_def)

definition is_digit :: "char \<Rightarrow> bool" where
  "is_digit c \<longleftrightarrow> 48 \<le> code c \<and> code c \<le> 57"

definition is_lower_hex :: "char \<Rightarrow> bool" where
  "is_lower_hex c \<longleftrightarrow> is_digit c \<or> 97 \<le> code c \<and> code c \<le> 102"

definition is_any_hex :: "char \<Rightarrow> bool" where
  "is_any_hex c \<longleftrightarrow> is_lower_hex c \<or> 65 \<le> code c \<and> code c \<le> 70"

definition is_alpha :: "char \<Rightarrow> bool" where
  "is_alpha c \<longleftrightarrow> 65 \<le> code c \<and> code c \<le> 90 \<or> 97 \<le> code c \<and> code c \<le> 122"

definition is_word_char :: "char \<Rightarrow> bool" where
  "is_word_char c \<longleftrightarrow> is_alpha c \<or> is_digit c \<or> c = CHR ''_''"

text \<open>The value of a hexadecimal digit, and Python's \<open>int(s, 16)\<close> on digits alone.\<close>

text \<open>Values that can be large are \<open>int\<close>s, which the kernel computes in binary.\<close>

definition hex_value :: "char \<Rightarrow> int" where
  "hex_value c =
     (if is_digit c then of_char c - 48
      else if 97 \<le> code c then of_char c - 87 else of_char c - 55)"

definition hex_int :: "string \<Rightarrow> int" where
  "hex_int s = foldl (\<lambda>n c. 16 * n + hex_value c) 0 s"

definition dec_int :: "string \<Rightarrow> int" where
  "dec_int s = foldl (\<lambda>n c. 10 * n + (of_char c - 48)) 0 s"

function show_digits :: "int \<Rightarrow> string" where
  "show_digits n =
     (if n < 10 then [char_of (n + 48)] else show_digits (n div 10) @ [char_of (n mod 10 + 48)])"
  by pat_completeness auto
termination
  by (relation "measure nat") auto

declare show_digits.simps [simp del]

definition show_nat :: "nat \<Rightarrow> string" where
  "show_nat n = show_digits (int n)"

definition show_int :: "int \<Rightarrow> string" where
  "show_int i = (if i < 0 then CHR ''-'' # show_digits (- i) else show_digits i)"

definition lower_char :: "char \<Rightarrow> char" where
  "lower_char c = (if 65 \<le> code c \<and> code c \<le> 90 then char_of (code c + 32) else c)"

definition upper_char :: "char \<Rightarrow> char" where
  "upper_char c = (if 97 \<le> code c \<and> code c \<le> 122 then char_of (code c - 32) else c)"

text \<open>
  \<open>str.strip()\<close> removes every leading and trailing character for which \<open>str.isspace\<close> holds:
  the ASCII ones are single bytes, the others are given by their UTF-8 encodings
  (U+0085, U+00A0, U+1680, U+2000 to U+200A, U+2028, U+2029, U+202F, U+205F, U+3000).
\<close>

definition ascii_space :: "char \<Rightarrow> bool" where
  "ascii_space c \<longleftrightarrow> 9 \<le> code c \<and> code c \<le> 13 \<or> 28 \<le> code c \<and> code c \<le> 32"

definition wide_space2 :: "char \<Rightarrow> char \<Rightarrow> bool" where
  "wide_space2 a b \<longleftrightarrow> code a = 194 \<and> (code b = 133 \<or> code b = 160)"

definition wide_space3 :: "char \<Rightarrow> char \<Rightarrow> char \<Rightarrow> bool" where
  "wide_space3 a b c \<longleftrightarrow>
     code a = 225 \<and> code b = 154 \<and> code c = 128 \<or>
     code a = 226 \<and> code b = 128 \<and>
       (128 \<le> code c \<and> code c \<le> 138 \<or> code c = 168 \<or> code c = 169 \<or> code c = 175) \<or>
     code a = 226 \<and> code b = 129 \<and> code c = 159 \<or>
     code a = 227 \<and> code b = 128 \<and> code c = 128"

fun lstrip :: "string \<Rightarrow> string" where
  "lstrip [] = []"
| "lstrip [a] = (if ascii_space a then [] else [a])"
| "lstrip [a, b] =
     (if ascii_space a then lstrip [b] else if wide_space2 a b then [] else [a, b])"
| "lstrip (a # b # c # s) =
     (if ascii_space a then lstrip (b # c # s)
      else if wide_space2 a b then lstrip (c # s)
      else if wide_space3 a b c then lstrip s
      else a # b # c # s)"

text \<open>The same on the reversed text, where the bytes of a wide space come last to first.\<close>

fun rstrip_rev :: "string \<Rightarrow> string" where
  "rstrip_rev [] = []"
| "rstrip_rev [a] = (if ascii_space a then [] else [a])"
| "rstrip_rev [b, a] =
     (if ascii_space b then rstrip_rev [a] else if wide_space2 a b then [] else [b, a])"
| "rstrip_rev (c # b # a # s) =
     (if ascii_space c then rstrip_rev (b # a # s)
      else if wide_space2 b c then rstrip_rev (a # s)
      else if wide_space3 a b c then rstrip_rev s
      else c # b # a # s)"

definition strip :: "string \<Rightarrow> string" where
  "strip s = rev (rstrip_rev (rev (lstrip s)))"

text \<open>\<open>sep in s\<close>, \<open>s.startswith(p)\<close>, \<open>s.endswith(p)\<close> and \<open>s.split(c)\<close> for one character.\<close>

definition starts_with :: "string \<Rightarrow> string \<Rightarrow> bool" where
  "starts_with p s \<longleftrightarrow> take (length p) s = p"

definition ends_with :: "string \<Rightarrow> string \<Rightarrow> bool" where
  "ends_with p s \<longleftrightarrow> starts_with (rev p) (rev s)"

fun contains_text :: "string \<Rightarrow> string \<Rightarrow> bool" where
  "contains_text p [] = (p = [])"
| "contains_text p (c # s) = (starts_with p (c # s) \<or> contains_text p s)"

fun split_on :: "char \<Rightarrow> string \<Rightarrow> string list" where
  "split_on d [] = [[]]"
| "split_on d (c # s) =
     (if c = d then [] # split_on d s
      else case split_on d s of [] \<Rightarrow> [[c]] | w # ws \<Rightarrow> (c # w) # ws)"

fun join_with :: "string \<Rightarrow> string list \<Rightarrow> string" where
  "join_with sep [] = []"
| "join_with sep [w] = w"
| "join_with sep (w # ws) = w @ sep @ join_with sep ws"

definition sha256_shape :: "string \<Rightarrow> bool" where
  "sha256_shape s \<longleftrightarrow> length s = 64 \<and> list_all is_lower_hex s"

lemma split_on_not_Nil [simp]: "split_on d s \<noteq> []"
  by (induction s) (auto split: list.splits)

lemma split_on_no_sep: "w \<in> set (split_on d s) \<Longrightarrow> d \<notin> set w"
proof (induction s arbitrary: w)
  case (Cons c s)
  then show ?case by (cases "split_on d s") (auto split: if_splits)
qed simp

lemma join_split: "join_with [d] (split_on d s) = s"
proof (induction s)
  case (Cons c s)
  then show ?case
    by (cases "split_on d s"; cases "tl (split_on d s)") auto
qed simp

lemma split_join:
  "ws \<noteq> [] \<Longrightarrow> (\<And>w. w \<in> set ws \<Longrightarrow> d \<notin> set w) \<Longrightarrow> split_on d (join_with [d] ws) = ws"
proof (induction "[d]" ws rule: join_with.induct)
  case (2 w)
  then have "d \<notin> set w" by simp
  then show ?case by (induction w) auto
next
  case (3 w w' ws)
  then have IH: "split_on d (join_with [d] (w' # ws)) = w' # ws" and w: "d \<notin> set w"
    by auto
  from w have "split_on d (w @ d # t) = w # split_on d t" for t
    by (induction w) auto
  with IH show ?case by simp
qed simp

lemma starts_with_append [simp]: "starts_with p (p @ s)"
  by (simp add: starts_with_def)

lemma starts_with_iff: "starts_with p s \<longleftrightarrow> (\<exists>t. s = p @ t)"
  by (metis append_take_drop_id starts_with_append starts_with_def)

lemma contains_text_iff: "contains_text p s \<longleftrightarrow> (\<exists>u v. s = u @ p @ v)"
proof (induction s)
  case (Cons c s)
  show ?case
  proof
    assume "contains_text p (c # s)"
    then show "\<exists>u v. c # s = u @ p @ v"
      using Cons.IH by (auto simp: starts_with_iff) (metis append_Cons append_Nil)+
  next
    assume "\<exists>u v. c # s = u @ p @ v"
    then obtain u v where uv: "c # s = u @ p @ v" by blast
    then show "contains_text p (c # s)"
    proof (cases u)
      case Nil
      with uv have "starts_with p (c # s)" by simp
      then show ?thesis by simp
    next
      case (Cons a u')
      with uv Cons.IH show ?thesis by auto
    qed
  qed
qed auto

lemma show_digits_not_Nil [simp]: "show_digits n \<noteq> []"
  by (subst show_digits.simps) simp

lemma code_char_of [simp]: "n < 256 \<Longrightarrow> code (char_of n) = n"
  by (simp add: code_def)

lemma of_char_char_of_int: "0 \<le> n \<Longrightarrow> n < 256 \<Longrightarrow> (of_char (char_of n :: char) :: int) = n"
  by simp

lemma code_eq_int: "int (code c) = of_char c"
  by (simp add: code_def of_nat_of_char)

lemma is_digit_iff: "is_digit c \<longleftrightarrow> 48 \<le> (of_char c :: int) \<and> (of_char c :: int) \<le> 57"
  unfolding is_digit_def code_eq_int [symmetric] by auto

lemma dec_int_snoc [simp]: "dec_int (s @ [c]) = 10 * dec_int s + (of_char c - 48)"
  by (simp add: dec_int_def)

lemma dec_int_Nil [simp]: "dec_int [] = 0"
  by (simp add: dec_int_def)

lemma show_digits_digits: "0 \<le> n \<Longrightarrow> list_all is_digit (show_digits n)"
proof (induction n rule: show_digits.induct)
  case (1 n)
  show ?case
  proof (cases "n < 10")
    case True
    with "1.prems" show ?thesis by (subst show_digits.simps) (simp add: is_digit_iff)
  next
    case False
    then have "is_digit (char_of (n mod 10 + 48))"
      using pos_mod_bound [of 10 n] pos_mod_sign [of 10 n] by (simp add: is_digit_iff)
    with False "1" show ?thesis by (subst show_digits.simps) simp
  qed
qed

lemma dec_int_show_digits [simp]: "0 \<le> n \<Longrightarrow> dec_int (show_digits n) = n"
proof (induction n rule: show_digits.induct)
  case (1 n)
  show ?case
  proof (cases "n < 10")
    case True
    with "1.prems" show ?thesis by (subst show_digits.simps) (simp add: dec_int_def)
  next
    case False
    with "1" have IH: "dec_int (show_digits (n div 10)) = n div 10" by simp
    have "(of_char (char_of (n mod 10 + 48) :: char) :: int) = n mod 10 + 48"
      using pos_mod_bound [of 10 n] pos_mod_sign [of 10 n] by simp
    with False IH show ?thesis by (subst show_digits.simps) simp
  qed
qed

lemma show_digits_inj: "0 \<le> m \<Longrightarrow> 0 \<le> n \<Longrightarrow> show_digits m = show_digits n \<Longrightarrow> m = n"
  by (metis dec_int_show_digits)

text \<open>Evaluation compares byte values as integers, in binary.\<close>

lemma char_tests_code [code]:
  "ascii_space a \<longleftrightarrow> (let n = (of_char a :: int) in 9 \<le> n \<and> n \<le> 13 \<or> 28 \<le> n \<and> n \<le> 32)"
  "wide_space2 a b \<longleftrightarrow>
     (let m = (of_char a :: int); n = (of_char b :: int) in m = 194 \<and> (n = 133 \<or> n = 160))"
  "wide_space3 a b c \<longleftrightarrow>
     (let l = (of_char a :: int); m = (of_char b :: int); n = (of_char c :: int) in
      l = 225 \<and> m = 154 \<and> n = 128 \<or>
      l = 226 \<and> m = 128 \<and> (128 \<le> n \<and> n \<le> 138 \<or> n = 168 \<or> n = 169 \<or> n = 175) \<or>
      l = 226 \<and> m = 129 \<and> n = 159 \<or> l = 227 \<and> m = 128 \<and> n = 128)"
  "is_digit a \<longleftrightarrow> (let n = (of_char a :: int) in 48 \<le> n \<and> n \<le> 57)"
  "is_lower_hex a \<longleftrightarrow> is_digit a \<or> (let n = (of_char a :: int) in 97 \<le> n \<and> n \<le> 102)"
  "is_any_hex a \<longleftrightarrow> is_lower_hex a \<or> (let n = (of_char a :: int) in 65 \<le> n \<and> n \<le> 70)"
  "is_alpha a \<longleftrightarrow> (let n = (of_char a :: int) in 65 \<le> n \<and> n \<le> 90 \<or> 97 \<le> n \<and> n \<le> 122)"
  "hex_value a =
     (let n = (of_char a :: int) in if 48 \<le> n \<and> n \<le> 57 then n - 48 else if 97 \<le> n then n - 87 else n - 55)"
  unfolding ascii_space_def wide_space2_def wide_space3_def is_digit_def is_lower_hex_def
    is_any_hex_def is_alpha_def hex_value_def Let_def code_eq_int [symmetric] by auto

text \<open>Character literals evaluate.\<close>

lemma code_literal [simp]:
  "code (Char b0 b1 b2 b3 b4 b5 b6 b7) = of_char (Char b0 b1 b2 b3 b4 b5 b6 b7)"
  by (simp add: code_def)

lemma is_digit_literal [simp]:
  "is_digit (Char b0 b1 b2 b3 b4 b5 b6 b7) \<longleftrightarrow>
     48 \<le> code (Char b0 b1 b2 b3 b4 b5 b6 b7) \<and> code (Char b0 b1 b2 b3 b4 b5 b6 b7) \<le> 57"
  by (simp only: is_digit_def)

section \<open>Association lists as dictionaries\<close>

text \<open>
  A \<open>dict\<close> keeps insertion order; it is an association list with distinct keys, \<open>map_of\<close> is its
  lookup. Assigning to an existing key keeps the key's place.
\<close>

fun dict_set :: "'k \<Rightarrow> 'v \<Rightarrow> ('k \<times> 'v) list \<Rightarrow> ('k \<times> 'v) list" where
  "dict_set k v [] = [(k, v)]"
| "dict_set k v ((k', v') # d) = (if k = k' then (k, v) # d else (k', v') # dict_set k v d)"

definition dict_keys :: "('k \<times> 'v) list \<Rightarrow> 'k list" where
  "dict_keys d = map fst d"

lemma map_of_dict_set [simp]: "map_of (dict_set k v d) = (map_of d)(k \<mapsto> v)"
  by (induction d rule: dict_set.induct) auto

lemma set_keys_dict_set [simp]: "fst ` set (dict_set k v d) = insert k (fst ` set d)"
  by (induction d rule: dict_set.induct) auto

lemma distinct_dict_set: "distinct (map fst d) \<Longrightarrow> distinct (map fst (dict_set k v d))"
proof (induction d rule: dict_set.induct)
  case (2 k v k' v' d)
  then show ?case using set_keys_dict_set [of k v d] by auto
qed simp

text \<open>\<open>a = set(xs)\<close>-style comparisons of key inventories.\<close>

definition same_elements :: "'a list \<Rightarrow> 'a list \<Rightarrow> bool" where
  "same_elements xs ys \<longleftrightarrow> list_all (\<lambda>x. x \<in> set ys) xs \<and> list_all (\<lambda>y. y \<in> set xs) ys"

lemma same_elements_iff [simp]: "same_elements xs ys \<longleftrightarrow> set xs = set ys"
  by (auto simp: same_elements_def list_all_iff)

text \<open>No element twice: \<open>len(set(xs)) == len(xs)\<close>.\<close>

lemma card_set_distinct: "length (remdups xs) = length xs \<longleftrightarrow> distinct xs"
  by (metis length_remdups_card_conv card_distinct distinct_card)

end
