(* ===== verification/Effects.thy ===== *)
theory Effects
  imports Prelude
begin

text \<open>
  Code that acts on something outside it (the simulator, the clock, the file system) and may raise:
  a function from the state to a result and the next state. The state survives an exception, as it
  does in Python, which is what a \<open>finally\<close> clause relies on. \<open>keeps\<close> is the Hoare triple of such
  an action: one postcondition for a normal return and one for an exception.
\<close>

type_synonym ('s, 'a) effect = "'s \<Rightarrow> 'a result \<times> 's"

named_theorems effect_simps \<open>unfolding rules of the effect combinators\<close>

definition ret :: "'a \<Rightarrow> ('s, 'a) effect" where
  "ret x = (\<lambda>s. (Inr x, s))"

definition raise :: "py_error \<Rightarrow> ('s, 'a) effect" where
  "raise e = (\<lambda>s. (Inl e, s))"

definition lift :: "'a result \<Rightarrow> ('s, 'a) effect" where
  "lift r = (\<lambda>s. (r, s))"

definition and_then :: "('s, 'a) effect \<Rightarrow> ('a \<Rightarrow> ('s, 'b) effect) \<Rightarrow> ('s, 'b) effect" where
  "and_then m k = (\<lambda>s. case m s of (Inl e, t) \<Rightarrow> (Inl e, t) | (Inr x, t) \<Rightarrow> k x t)"

definition then_do :: "('s, 'a) effect \<Rightarrow> ('s, 'b) effect \<Rightarrow> ('s, 'b) effect" where
  "then_do m k = and_then m (\<lambda>_. k)"

definition handle :: "('s, 'a) effect \<Rightarrow> (py_error \<Rightarrow> ('s, 'a) effect) \<Rightarrow> ('s, 'a) effect" where
  "handle m k = (\<lambda>s. case m s of (Inl e, t) \<Rightarrow> k e t | (Inr x, t) \<Rightarrow> (Inr x, t))"

definition get_state :: "('s \<Rightarrow> 'a) \<Rightarrow> ('s, 'a) effect" where
  "get_state f = (\<lambda>s. (Inr (f s), s))"

definition put_state :: "('s \<Rightarrow> 's) \<Rightarrow> ('s, unit) effect" where
  "put_state f = (\<lambda>s. (Inr (), f s))"

definition check :: "bool \<Rightarrow> string \<Rightarrow> ('s, unit) effect" where
  "check c msg = lift (require c msg)"

fun do_each :: "('a \<Rightarrow> ('s, unit) effect) \<Rightarrow> 'a list \<Rightarrow> ('s, unit) effect" where
  "do_each f [] = ret ()"
| "do_each f (x # xs) = and_then (f x) (\<lambda>_. do_each f xs)"

declare and_then_def [code_unfold] handle_def [code_unfold]

lemma effect_run [simp, effect_simps]:
  "ret x s = (Inr x, s)"
  "raise e s = (Inl e, s)"
  "lift r s = (r, s)"
  "get_state f s = (Inr (f s), s)"
  "put_state g s = (Inr (), g s)"
  by (simp_all add: ret_def raise_def lift_def get_state_def put_state_def)

lemma check_run [simp, effect_simps]:
  "check c msg s = (if c then Inr () else Inl (ValueError msg), s)"
  by (simp add: check_def require_def)

lemma and_then_run [effect_simps]:
  "and_then m k s = (case m s of (Inl e, t) \<Rightarrow> (Inl e, t) | (Inr x, t) \<Rightarrow> k x t)"
  by (simp add: and_then_def)

lemma handle_run [effect_simps]:
  "handle m k s = (case m s of (Inl e, t) \<Rightarrow> k e t | (Inr x, t) \<Rightarrow> (Inr x, t))"
  by (simp add: handle_def)

section \<open>Triples\<close>

definition keeps ::
  "('s \<Rightarrow> bool) \<Rightarrow> ('s, 'a) effect \<Rightarrow> ('a \<Rightarrow> 's \<Rightarrow> bool) \<Rightarrow> (py_error \<Rightarrow> 's \<Rightarrow> bool) \<Rightarrow> bool"
where
  "keeps P m Q E \<longleftrightarrow>
     (\<forall>s. P s \<longrightarrow> (case m s of (Inl e, t) \<Rightarrow> E e t | (Inr x, t) \<Rightarrow> Q x t))"

lemma keepsI:
  "(\<And>s x t. P s \<Longrightarrow> m s = (Inr x, t) \<Longrightarrow> Q x t) \<Longrightarrow>
   (\<And>s e t. P s \<Longrightarrow> m s = (Inl e, t) \<Longrightarrow> E e t) \<Longrightarrow> keeps P m Q E"
  by (auto simp: keeps_def split: prod.splits sum.splits)

lemma keepsD_return: "keeps P m Q E \<Longrightarrow> P s \<Longrightarrow> m s = (Inr x, t) \<Longrightarrow> Q x t"
  by (fastforce simp: keeps_def)

lemma keepsD_raise: "keeps P m Q E \<Longrightarrow> P s \<Longrightarrow> m s = (Inl e, t) \<Longrightarrow> E e t"
  by (fastforce simp: keeps_def)

lemma keeps_and_then:
  assumes "keeps P m R E" and "\<And>x. keeps (R x) (k x) Q E"
  shows "keeps P (and_then m k) Q E"
proof (rule keepsI)
  fix s x t assume "P s" and "and_then m k s = (Inr x, t)"
  then obtain y u where "m s = (Inr y, u)" "k y u = (Inr x, t)"
    by (auto simp: and_then_run split: prod.splits sum.splits)
  with \<open>P s\<close> show "Q x t" using keepsD_return [OF assms(1)] keepsD_return [OF assms(2)] by blast
next
  fix s e t assume "P s" and "and_then m k s = (Inl e, t)"
  then consider "m s = (Inl e, t)" | y u where "m s = (Inr y, u)" "k y u = (Inl e, t)"
    by (auto simp: and_then_run split: prod.splits sum.splits)
  then show "E e t"
  proof cases
    case 1 with \<open>P s\<close> show ?thesis using keepsD_raise [OF assms(1)] by blast
  next
    case 2 with \<open>P s\<close> show ?thesis
      using keepsD_return [OF assms(1)] keepsD_raise [OF assms(2)] by blast
  qed
qed

lemma keeps_handle:
  assumes "keeps P m Q R" and "\<And>e. keeps (R e) (k e) Q E"
  shows "keeps P (handle m k) Q E"
proof (rule keepsI)
  fix s x t assume "P s" and "handle m k s = (Inr x, t)"
  then consider "m s = (Inr x, t)" | e u where "m s = (Inl e, u)" "k e u = (Inr x, t)"
    by (auto simp: handle_run split: prod.splits sum.splits)
  then show "Q x t"
  proof cases
    case 1 with \<open>P s\<close> show ?thesis using keepsD_return [OF assms(1)] by blast
  next
    case 2 with \<open>P s\<close> show ?thesis
      using keepsD_raise [OF assms(1)] keepsD_return [OF assms(2)] by blast
  qed
next
  fix s e t assume "P s" and "handle m k s = (Inl e, t)"
  then obtain d u where "m s = (Inl d, u)" "k d u = (Inl e, t)"
    by (auto simp: handle_run split: prod.splits sum.splits)
  with \<open>P s\<close> show "E e t" using keepsD_raise [OF assms(1)] keepsD_raise [OF assms(2)] by blast
qed

lemma keeps_weaken:
  assumes "keeps P' m Q' E'" and "\<And>s. P s \<Longrightarrow> P' s"
    and "\<And>x s. Q' x s \<Longrightarrow> Q x s" and "\<And>e s. E' e s \<Longrightarrow> E e s"
  shows "keeps P m Q E"
  by (rule keepsI) (use assms keepsD_return [OF assms(1)] keepsD_raise [OF assms(1)] in blast)+

lemma keeps_do_each:
  assumes "\<And>x. x \<in> set xs \<Longrightarrow> keeps P (f x) (\<lambda>_. P) E"
  shows "keeps P (do_each f xs) (\<lambda>_. P) E"
  using assms
proof (induction xs)
  case (Cons x xs)
  then show ?case by (auto intro!: keeps_and_then)
qed (simp add: keeps_def)

lemma keeps_basic:
  "keeps P (ret x) Q E \<longleftrightarrow> (\<forall>s. P s \<longrightarrow> Q x s)"
  "keeps P (raise e) Q E \<longleftrightarrow> (\<forall>s. P s \<longrightarrow> E e s)"
  "keeps P (lift r) Q E \<longleftrightarrow> (\<forall>s. P s \<longrightarrow> (case r of Inl e \<Rightarrow> E e s | Inr x \<Rightarrow> Q x s))"
  "keeps P (get_state f) Q E \<longleftrightarrow> (\<forall>s. P s \<longrightarrow> Q (f s) s)"
  "keeps P (put_state g) Q' E \<longleftrightarrow> (\<forall>s. P s \<longrightarrow> Q' () (g s))"
  "keeps P (check c msg) Q' E \<longleftrightarrow> (\<forall>s. P s \<longrightarrow> (if c then Q' () s else E (ValueError msg) s))"
  by (auto simp: keeps_def split: sum.splits)

end
