(* ===== verification/PyFloat.thy ===== *)
theory PyFloat
  imports Prelude "HOL-Library.Log_Nat"
begin

text \<open>
  Python's \<open>float\<close>: an IEEE 754 binary64 value. A finite value is the rational it denotes;
  the negative zero, the infinities and NaN are values of their own. \<open>round_float\<close> is
  round-to-nearest, ties-to-even, with gradual underflow and overflow to infinity: every
  operation of the code (parsing, subtraction, multiplication) is the exact rational operation
  followed by it. \<open>float_repr\<close> is \<open>repr(x)\<close>: the shortest decimal that reads back as \<open>x\<close>.
\<close>

datatype pyfloat = Fin rat | NegZero | PosInf | NegInf | NaN

fun float_val :: "pyfloat \<Rightarrow> rat option" where
  "float_val (Fin r) = Some r"
| "float_val NegZero = Some 0"
| "float_val _ = None"

definition is_finite :: "pyfloat \<Rightarrow> bool" where
  "is_finite x \<longleftrightarrow> float_val x \<noteq> None"

section \<open>Rounding\<close>

definition pow2 :: "int \<Rightarrow> rat" where
  "pow2 e = (if 0 \<le> e then 2 ^ nat e else 1 / 2 ^ nat (- e))"

text \<open>The \<open>e\<close> with \<open>2^e \<le> q < 2^(e+1)\<close>, for a positive \<open>q\<close>.\<close>

definition log2_floor :: "rat \<Rightarrow> int" where
  "log2_floor q =
     (let (n, d) = quotient_of q; b = bitlen n - bitlen d
      in if pow2 b \<le> q then b else b - 1)"

definition round_half_even :: "rat \<Rightarrow> int" where
  "round_half_even q =
     (let f = \<lfloor>q\<rfloor>; r = q - of_int f
      in if r < 1 / 2 then f else if 1 / 2 < r then f + 1 else if even f then f else f + 1)"

definition round_float :: "rat \<Rightarrow> pyfloat" where
  "round_float q =
     (if q = 0 then Fin 0
      else
        let m = \<bar>q\<bar>;
            e = max (- 1074) (log2_floor m - 52);
            v = of_int (round_half_even (m / pow2 e)) * pow2 e
        in if 2 ^ 1024 \<le> v then (if q < 0 then NegInf else PosInf)
           else if v = 0 \<and> q < 0 then NegZero
           else Fin (if q < 0 then - v else v))"

section \<open>Comparison and arithmetic\<close>

text \<open>The ordering: NaN is unordered, the zeros are equal.\<close>

fun float_less :: "pyfloat \<Rightarrow> pyfloat \<Rightarrow> bool" where
  "float_less NaN y = False"
| "float_less x NaN = False"
| "float_less PosInf y = False"
| "float_less x PosInf = True"
| "float_less x NegInf = False"
| "float_less NegInf y = True"
| "float_less x y = (the (float_val x) < the (float_val y))"

definition float_eq :: "pyfloat \<Rightarrow> pyfloat \<Rightarrow> bool" where
  "float_eq x y \<longleftrightarrow>
     x = y \<and> x \<noteq> NaN \<or> float_val x \<noteq> None \<and> float_val x = float_val y"

definition float_le :: "pyfloat \<Rightarrow> pyfloat \<Rightarrow> bool" where
  "float_le x y \<longleftrightarrow> float_less x y \<or> float_eq x y"

definition float_abs :: "pyfloat \<Rightarrow> pyfloat" where
  "float_abs x =
     (case x of Fin r \<Rightarrow> Fin \<bar>r\<bar> | NegZero \<Rightarrow> Fin 0 | NegInf \<Rightarrow> PosInf | _ \<Rightarrow> x)"

text \<open>Subtraction and multiplication of finite values.\<close>

definition float_sub :: "pyfloat \<Rightarrow> pyfloat \<Rightarrow> pyfloat" where
  "float_sub x y =
     (case (float_val x, float_val y) of
        (Some a, Some b) \<Rightarrow> if x = NegZero \<and> y = Fin 0 then NegZero else round_float (a - b)
      | _ \<Rightarrow>
         (if x = NaN \<or> y = NaN \<or> x = y then NaN
          else if x = PosInf \<or> y = NegInf then PosInf else NegInf))"

text \<open>Conversion of an \<open>int\<close>: values at or above \<open>2^1024\<close> raise \<open>OverflowError\<close>.\<close>

definition float_of_int :: "int \<Rightarrow> pyfloat" where
  "float_of_int i = round_float (of_int i)"

section \<open>Decimal text\<close>

text \<open>
  \<open>float_of_decimal neg ds fs e\<close> is the value of the literal with integer digits \<open>ds\<close>, fraction
  digits \<open>fs\<close> and exponent \<open>e\<close>.
\<close>

definition pow10 :: "int \<Rightarrow> rat" where
  "pow10 e = (if 0 \<le> e then 10 ^ nat e else 1 / 10 ^ nat (- e))"

definition float_of_decimal :: "bool \<Rightarrow> string \<Rightarrow> string \<Rightarrow> int \<Rightarrow> pyfloat" where
  "float_of_decimal neg ds fs e =
     (let q = of_int (dec_int (ds @ fs)) * pow10 (e - int (length fs));
          x = round_float (if neg then - q else q)
      in if neg \<and> q = 0 then NegZero else x)"

text \<open>The exponent \<open>k\<close> with \<open>10^k \<le> q < 10^(k+1)\<close>, searched from an estimate below it.\<close>

fun log10_search :: "nat \<Rightarrow> int \<Rightarrow> rat \<Rightarrow> int" where
  "log10_search 0 k q = k"
| "log10_search (Suc n) k q = (if pow10 (k + 1) \<le> q then log10_search n (k + 1) q else k)"

definition log10_floor :: "rat \<Rightarrow> int" where
  "log10_floor q = log10_search 8 (log2_floor q * 1233 div 4096 - 2) q"

text \<open>The shortest digits that read back: at most 17 are ever needed for binary64.\<close>

fun shortest :: "nat \<Rightarrow> nat \<Rightarrow> int \<Rightarrow> rat \<Rightarrow> int \<times> int" where
  "shortest fuel n k q =
     (let e = k - int n + 1; d = round_half_even (q / pow10 e)
      in case fuel of
           0 \<Rightarrow> (d, e)
         | Suc fuel' \<Rightarrow>
             if float_val (round_float (of_int d * pow10 e)) = Some q then (d, e)
             else shortest fuel' (n + 1) k q)"

fun strip_zeros :: "nat \<Rightarrow> int \<Rightarrow> int \<Rightarrow> int \<times> int" where
  "strip_zeros 0 d e = (d, e)"
| "strip_zeros (Suc fuel) d e =
     (if d \<noteq> 0 \<and> d mod 10 = 0 then strip_zeros fuel (d div 10) (e + 1) else (d, e))"

definition pad2 :: "int \<Rightarrow> string" where
  "pad2 n = (if n < 10 then CHR ''0'' # show_digits n else show_digits n)"

text \<open>Positional notation when the decimal exponent is in \<open>-4 .. 15\<close>, scientific otherwise.\<close>

definition positive_repr :: "rat \<Rightarrow> string" where
  "positive_repr q =
     (let (d0, e0) = shortest 16 1 (log10_floor q) q;
          (d, e) = strip_zeros 20 d0 e0;
          ds = show_digits d; n = int (length ds); x = e + n - 1
      in if - 4 \<le> x \<and> x < 16 then
           (if 0 \<le> e then ds @ replicate (nat e) (CHR ''0'') @ ''.0''
            else if - e < n then take (nat (n + e)) ds @ ''.'' @ drop (nat (n + e)) ds
            else ''0.'' @ replicate (nat (- e - n)) (CHR ''0'') @ ds)
         else
           take 1 ds @ (if 1 < n then ''.'' @ drop 1 ds else []) @ ''e'' @
           (if x < 0 then ''-'' else ''+'') @ pad2 \<bar>x\<bar>)"

definition float_repr :: "pyfloat \<Rightarrow> string" where
  "float_repr x =
     (case x of
        NaN \<Rightarrow> ''nan'' | PosInf \<Rightarrow> ''inf'' | NegInf \<Rightarrow> ''-inf'' | NegZero \<Rightarrow> ''-0.0''
      | Fin r \<Rightarrow>
          if r = 0 then ''0.0'' else if r < 0 then ''-'' @ positive_repr (- r)
          else positive_repr r)"

text \<open>\<open>f"{x:.{n}f}"\<close>: exactly rounded, ties to even, \<open>n\<close> digits after the point.\<close>

definition pad_left :: "nat \<Rightarrow> string \<Rightarrow> string" where
  "pad_left n s = replicate (n - length s) (CHR ''0'') @ s"

definition format_fixed :: "nat \<Rightarrow> pyfloat \<Rightarrow> string" where
  "format_fixed n x =
     (case float_val x of
        None \<Rightarrow> float_repr x
      | Some r \<Rightarrow>
          let d = round_half_even (\<bar>r\<bar> * 10 ^ n);
              sign = (if r < 0 \<or> x = NegZero then ''-'' else []);
              frac = (if n = 0 then [] else ''.'' @ pad_left n (show_digits (d mod 10 ^ n)))
          in sign @ show_digits (d div 10 ^ n) @ frac)"

section \<open>Facts\<close>

lemma round_float_0 [simp]: "round_float 0 = Fin 0"
  by (simp add: round_float_def)

lemma float_eq_refl_iff [simp]: "float_eq x x \<longleftrightarrow> x \<noteq> NaN"
  by (cases x) (auto simp: float_eq_def)

lemma float_eq_sym: "float_eq x y \<Longrightarrow> float_eq y x"
  by (auto simp: float_eq_def)

lemma float_less_irrefl [simp]: "\<not> float_less x x"
  by (cases x) auto

lemma float_less_asym: "float_less x y \<Longrightarrow> \<not> float_less y x"
  by (cases x; cases y) auto

lemma float_less_trans: "float_less x y \<Longrightarrow> float_less y z \<Longrightarrow> float_less x z"
  by (cases x; cases y; cases z) auto

text \<open>Trichotomy on everything but NaN.\<close>

lemma float_less_linear:
  "x \<noteq> NaN \<Longrightarrow> y \<noteq> NaN \<Longrightarrow> float_less x y \<or> float_eq x y \<or> float_less y x"
  by (cases x; cases y) (auto simp: float_eq_def)

lemma float_le_Fin [simp]: "float_le (Fin a) (Fin b) \<longleftrightarrow> a \<le> b"
  by (auto simp: float_le_def float_eq_def)

end
