(* ===== verification/PyValue.thy ===== *)
theory PyValue
  imports PyFloat
begin

text \<open>
  The values \<open>json.loads\<close> produces and the Python operations the code applies to them:
  \<open>dict.get\<close>, \<open>type(x) is int\<close> (which excludes \<open>bool\<close>), \<open>isinstance\<close>, \<open>==\<close> (where
  \<open>True == 1 == 1.0\<close> and dictionaries compare without order), truth and \<open>repr\<close>.
\<close>

datatype json =
    JNull
  | JBool bool
  | JInt int
  | JFloat pyfloat
  | JStr string
  | JList "json list"
  | JObj "(string \<times> json) list"

section \<open>Type tests\<close>

fun is_obj :: "json \<Rightarrow> bool" where
  "is_obj (JObj _) = True" | "is_obj _ = False"

fun is_list :: "json \<Rightarrow> bool" where
  "is_list (JList _) = True" | "is_list _ = False"

fun is_str :: "json \<Rightarrow> bool" where
  "is_str (JStr _) = True" | "is_str _ = False"

fun is_int :: "json \<Rightarrow> bool" where
  "is_int (JInt _) = True" | "is_int _ = False"

fun is_bool :: "json \<Rightarrow> bool" where
  "is_bool (JBool _) = True" | "is_bool _ = False"

text \<open>Total selectors, used after the test only; the other values get an inert default.\<close>

fun obj_items :: "json \<Rightarrow> (string \<times> json) list" where
  "obj_items (JObj d) = d" | "obj_items _ = []"

fun list_items :: "json \<Rightarrow> json list" where
  "list_items (JList xs) = xs" | "list_items _ = []"

fun str_of :: "json \<Rightarrow> string" where
  "str_of (JStr s) = s" | "str_of _ = []"

fun int_of :: "json \<Rightarrow> int" where
  "int_of (JInt i) = i" | "int_of _ = 0"

fun bool_of :: "json \<Rightarrow> bool" where
  "bool_of (JBool b) = b" | "bool_of _ = False"

text \<open>\<open>d.get(k)\<close> is \<open>None\<close> for a missing key; \<open>d.get(k, v)\<close>; \<open>k in d\<close>.\<close>

definition field :: "string \<Rightarrow> json \<Rightarrow> json" where
  "field k v = (case map_of (obj_items v) k of None \<Rightarrow> JNull | Some x \<Rightarrow> x)"

definition field_or :: "string \<Rightarrow> json \<Rightarrow> json \<Rightarrow> json" where
  "field_or k dflt v = (case map_of (obj_items v) k of None \<Rightarrow> dflt | Some x \<Rightarrow> x)"

definition has_field :: "string \<Rightarrow> json \<Rightarrow> bool" where
  "has_field k v \<longleftrightarrow> map_of (obj_items v) k \<noteq> None"

definition obj_keys :: "json \<Rightarrow> string list" where
  "obj_keys v = map fst (obj_items v)"

section \<open>Equality and truth\<close>

text \<open>The number a value is in a comparison: a \<open>bool\<close> is the integer 0 or 1.\<close>

fun as_number :: "json \<Rightarrow> pyfloat option" where
  "as_number (JBool b) = Some (Fin (if b then 1 else 0))"
| "as_number (JInt i) = Some (Fin (of_int i))"
| "as_number (JFloat x) = Some x"
| "as_number _ = None"

lemma size_zip_left [termination_simp]:
  "(a, b) \<in> set (zip xs ys) \<Longrightarrow> size a < Suc (size_list size xs)"
  by (meson le_imp_less_Suc order_refl set_zip_leftD size_list_estimation')

fun py_eq :: "json \<Rightarrow> json \<Rightarrow> bool" where
  "py_eq JNull y = (y = JNull)"
| "py_eq (JStr s) y = (y = JStr s)"
| "py_eq (JList xs) y =
     (case y of
        JList ys \<Rightarrow> length xs = length ys \<and> list_all (\<lambda>(a, b). py_eq a b) (zip xs ys)
      | _ \<Rightarrow> False)"
| "py_eq (JObj d) y =
     (case y of
        JObj e \<Rightarrow> length d = length e \<and>
          list_all (\<lambda>(k, v). case map_of e k of None \<Rightarrow> False | Some w \<Rightarrow> py_eq v w) d
      | _ \<Rightarrow> False)"
| "py_eq x y =
     (case (as_number x, as_number y) of (Some a, Some b) \<Rightarrow> float_eq a b | _ \<Rightarrow> False)"

fun truthy :: "json \<Rightarrow> bool" where
  "truthy JNull = False"
| "truthy (JBool b) = b"
| "truthy (JInt i) = (i \<noteq> 0)"
| "truthy (JFloat x) = (float_val x \<noteq> Some 0)"
| "truthy (JStr s) = (s \<noteq> [])"
| "truthy (JList xs) = (xs \<noteq> [])"
| "truthy (JObj d) = (d \<noteq> [])"

definition is_number :: "json \<Rightarrow> bool" where
  "is_number v \<longleftrightarrow> (case v of JInt _ \<Rightarrow> True | JFloat _ \<Rightarrow> True | _ \<Rightarrow> False)"

text \<open>
  The constructor \<open>JObj\<close> is applied to association lists with distinct keys only: that is the
  invariant of every dictionary the strict loaders produce.
\<close>

fun wf_json :: "json \<Rightarrow> bool" where
  "wf_json (JList xs) = list_all wf_json xs"
| "wf_json (JObj d) = (distinct (map fst d) \<and> list_all (\<lambda>(_, v). wf_json v) d)"
| "wf_json _ = True"

section \<open>repr\<close>

definition hex_digit :: "nat \<Rightarrow> char" where
  "hex_digit n = ''0123456789abcdef'' ! n"

definition hex2 :: "nat \<Rightarrow> string" where
  "hex2 n = [hex_digit (n div 16), hex_digit (n mod 16)]"

definition repr_char :: "char \<Rightarrow> char \<Rightarrow> string" where
  "repr_char q c =
     (if c = q \<or> c = char_of (92::nat) then [char_of (92::nat), c]
      else if code c = 9 then [char_of (92::nat), CHR ''t'']
      else if code c = 10 then [char_of (92::nat), CHR ''n'']
      else if code c = 13 then [char_of (92::nat), CHR ''r'']
      else if code c < 32 \<or> code c = 127 then [char_of (92::nat), CHR ''x''] @ hex2 (code c)
      else [c])"

definition squote :: char where "squote = char_of (39::nat)"

definition dquote :: char where "dquote = char_of (34::nat)"

definition repr_str :: "string \<Rightarrow> string" where
  "repr_str s =
     (let q = (if squote \<in> set s \<and> dquote \<notin> set s then dquote else squote)
      in q # concat (map (repr_char q) s) @ [q])"

fun repr_json :: "json \<Rightarrow> string" where
  "repr_json JNull = ''None''"
| "repr_json (JBool b) = (if b then ''True'' else ''False'')"
| "repr_json (JInt i) = show_int i"
| "repr_json (JFloat x) = float_repr x"
| "repr_json (JStr s) = repr_str s"
| "repr_json (JList xs) = ''['' @ join_with '', '' (map repr_json xs) @ '']''"
| "repr_json (JObj d) =
     ''{'' @ join_with '', '' (map (\<lambda>(k, v). repr_str k @ '': '' @ repr_json v) d) @ ''}''"

text \<open>\<open>str(v)\<close>, as an f-string without \<open>!r\<close> uses it.\<close>

fun str_json :: "json \<Rightarrow> string" where
  "str_json (JStr s) = s"
| "str_json v = repr_json v"

section \<open>Facts\<close>

lemmas type_tests = is_obj.simps is_list.simps is_str.simps is_int.simps is_bool.simps

lemma is_obj_iff: "is_obj v \<longleftrightarrow> (\<exists>d. v = JObj d)"
  by (cases v) auto

lemma is_list_iff: "is_list v \<longleftrightarrow> (\<exists>xs. v = JList xs)"
  by (cases v) auto

lemma is_str_iff: "is_str v \<longleftrightarrow> (\<exists>s. v = JStr s)"
  by (cases v) auto

lemma is_int_iff: "is_int v \<longleftrightarrow> (\<exists>i. v = JInt i)"
  by (cases v) auto

lemma is_bool_iff: "is_bool v \<longleftrightarrow> (\<exists>b. v = JBool b)"
  by (cases v) auto

lemmas json_iffs = is_obj_iff is_list_iff is_str_iff is_int_iff is_bool_iff

lemma field_simps_py [simp]:
  "field k (JObj d) = (case map_of d k of None \<Rightarrow> JNull | Some x \<Rightarrow> x)"
  "field k JNull = JNull"
  by (simp_all add: field_def)

lemma field_not_obj: "\<not> is_obj v \<Longrightarrow> field k v = JNull"
  by (cases v) (simp_all add: field_def)

lemma py_eq_JStr [simp]: "py_eq y (JStr s) \<longleftrightarrow> y = JStr s"
  by (cases y) auto

lemma py_eq_JNull [simp]: "py_eq y JNull \<longleftrightarrow> y = JNull"
  by (cases y) auto

lemma py_eq_JList_Nil [simp]: "py_eq y (JList []) \<longleftrightarrow> y = JList []"
  by (cases y) auto

lemma py_eq_int_iff: "is_int v \<Longrightarrow> py_eq v (JInt i) \<longleftrightarrow> v = JInt i"
  by (cases v) (auto simp: float_eq_def)

text \<open>On values without NaN and with distinct keys, equality is reflexive.\<close>

fun nan_free :: "json \<Rightarrow> bool" where
  "nan_free (JFloat x) = (x \<noteq> NaN)"
| "nan_free (JList xs) = list_all nan_free xs"
| "nan_free (JObj d) = list_all (\<lambda>(_, v). nan_free v) d"
| "nan_free _ = True"

lemma py_eq_refl: "wf_json v \<Longrightarrow> nan_free v \<Longrightarrow> py_eq v v"
proof (induction v)
  case (JList xs)
  then show ?case by (auto simp: list_all_iff zip_same)
next
  case (JObj d)
  have "py_eq v w" if "(k, v) \<in> set d" "map_of d k = Some w" for k v w
  proof -
    from JObj.prems that have "w = v" by simp
    moreover from JObj.prems that(1) have "wf_json v" "nan_free v"
      by (auto simp: list_all_iff)
    ultimately show ?thesis using JObj.IH [of "(k, v)" v] that(1) by simp
  qed
  moreover have "map_of d k \<noteq> None" if "(k, v) \<in> set d" for k v
    using weak_map_of_SomeI [OF that] by auto
  ultimately show ?case by (auto simp: list_all_iff split: option.splits)
qed (simp_all add: float_eq_def)

end
