(* ===== verification/JsonText.thy ===== *)
theory JsonText
  imports PyValue
begin

text \<open>
  The JSON text the tools exchange: \<open>json.loads\<close> with the hooks the code passes
  (\<open>object_pairs_hook\<close>, \<open>parse_constant\<close>) and \<open>json.dumps(indent=2, sort_keys=True,
  allow_nan=False)\<close>. Parse errors are \<open>ValueError\<close>s; their wording is not modelled. Nesting
  deeper than the interpreter's recursion limit, where CPython raises \<open>RecursionError\<close>, is not
  modelled.
\<close>

section \<open>Encoding\<close>

definition newline :: "nat \<Rightarrow> string" where
  "newline k = CHR 0x0A # replicate (2 * k) (CHR '' '')"

definition u_escape :: "int \<Rightarrow> string" where
  "u_escape n =
     [CHR 0x5C, CHR ''u'', hex_digit (nat (n div 4096 mod 16)), hex_digit (nat (n div 256 mod 16)),
      hex_digit (nat (n div 16 mod 16)), hex_digit (nat (n mod 16))]"

text \<open>Code points above U+FFFF are written as a surrogate pair.\<close>

definition point_escape :: "int \<Rightarrow> string" where
  "point_escape n =
     (if n < 65536 then u_escape n
      else u_escape (55296 + (n - 65536) div 1024) @ u_escape (56320 + (n - 65536) mod 1024))"

definition ascii_escape :: "char \<Rightarrow> string" where
  "ascii_escape c =
     (if c = CHR 0x22 \<or> c = CHR 0x5C then [CHR 0x5C, c]
      else if c = CHR 0x0A then [CHR 0x5C, CHR ''n'']
      else if c = CHR 0x0D then [CHR 0x5C, CHR ''r'']
      else if c = CHR 0x09 then [CHR 0x5C, CHR ''t'']
      else if c = CHR 0x0C then [CHR 0x5C, CHR ''f'']
      else if c = CHR 0x08 then [CHR 0x5C, CHR ''b'']
      else if code c < 32 \<or> code c = 127 then u_escape (of_char c)
      else [c])"

definition tail6 :: "char \<Rightarrow> int" where
  "tail6 c = of_char c mod 64"

fun escape :: "string \<Rightarrow> string" where
  "escape [] = []"
| "escape (a # s) =
     (if code a < 128 then ascii_escape a @ escape s
      else case s of
        b # s' \<Rightarrow>
          if code a < 224 then point_escape (of_char a mod 32 * 64 + tail6 b) @ escape s'
          else (case s' of
            c # s'' \<Rightarrow>
              if code a < 240 then
                point_escape (of_char a mod 16 * 4096 + tail6 b * 64 + tail6 c) @ escape s''
              else (case s'' of
                d # s''' \<Rightarrow>
                  point_escape (of_char a mod 8 * 262144 + tail6 b * 4096 + tail6 c * 64 + tail6 d)
                    @ escape s'''
              | [] \<Rightarrow> [])
          | [] \<Rightarrow> [])
      | [] \<Rightarrow> [])"

definition encode_str :: "string \<Rightarrow> string" where
  "encode_str s = CHR 0x22 # escape s @ [CHR 0x22]"

definition bracket :: "char \<Rightarrow> char \<Rightarrow> nat \<Rightarrow> string list \<Rightarrow> string" where
  "bracket l r k items =
     (if items = [] then [l, r]
      else l # newline (Suc k) @ join_with ('','' @ newline (Suc k)) items @ newline k @ [r])"

fun encode :: "nat \<Rightarrow> json \<Rightarrow> string" where
  "encode k JNull = ''null''"
| "encode k (JBool b) = (if b then ''true'' else ''false'')"
| "encode k (JInt i) = show_int i"
| "encode k (JFloat x) = float_repr x"
| "encode k (JStr s) = encode_str s"
| "encode k (JList xs) = bracket (CHR ''['') (CHR '']'') k (map (encode (Suc k)) xs)"
| "encode k (JObj d) =
     bracket (CHR ''{'') (CHR ''}'') k
       (map (\<lambda>(key, t). encode_str key @ '': '' @ t)
         (sort_key fst (map (\<lambda>(key, v). (key, encode (Suc k) v)) d)))"

fun all_finite :: "json \<Rightarrow> bool" where
  "all_finite (JFloat x) = is_finite x"
| "all_finite (JList xs) = list_all all_finite xs"
| "all_finite (JObj d) = list_all (\<lambda>(_, v). all_finite v) d"
| "all_finite _ = True"

definition dumps :: "json \<Rightarrow> string result" where
  "dumps v =
     (if all_finite v then Inr (encode 0 v)
      else Inl (ValueError ''Out of range float values are not JSON compliant''))"

section \<open>UTF-8\<close>

definition continuation :: "char \<Rightarrow> bool" where
  "continuation c \<longleftrightarrow> 128 \<le> code c \<and> code c < 192"

text \<open>\<open>bytes.decode("utf-8")\<close>: overlong forms, surrogates and values past U+10FFFF are refused.\<close>

fun valid_utf8 :: "bytes \<Rightarrow> bool" where
  "valid_utf8 [] = True"
| "valid_utf8 (a # s) =
     (if code a < 128 then valid_utf8 s
      else case s of
        [] \<Rightarrow> False
      | b # s' \<Rightarrow>
          if 194 \<le> code a \<and> code a < 224 then continuation b \<and> valid_utf8 s'
          else (case s' of
            [] \<Rightarrow> False
          | c # s'' \<Rightarrow>
              if 224 \<le> code a \<and> code a < 240 then
                continuation b \<and> continuation c \<and> (code a = 224 \<longrightarrow> 160 \<le> code b) \<and>
                (code a = 237 \<longrightarrow> code b < 160) \<and> valid_utf8 s''
              else (case s'' of
                [] \<Rightarrow> False
              | d # s''' \<Rightarrow>
                  240 \<le> code a \<and> code a < 245 \<and> continuation b \<and> continuation c \<and>
                  continuation d \<and> (code a = 240 \<longrightarrow> 144 \<le> code b) \<and>
                  (code a = 244 \<longrightarrow> code b < 144) \<and> valid_utf8 s''')))"

definition decode_utf8 :: "bytes \<Rightarrow> string result" where
  "decode_utf8 raw =
     (if valid_utf8 raw then Inr raw else Inl (ValueError ''utf-8 codec can't decode bytes''))"

section \<open>Decoding\<close>

type_synonym pairs_hook = "(string \<times> json) list \<Rightarrow> json result"
type_synonym constant_hook = "string \<Rightarrow> json result"
type_synonym 'a parse = "('a \<times> string) result"

definition json_error :: "'a result" where
  "json_error = Inl (ValueError ''invalid JSON'')"

definition json_space :: "char \<Rightarrow> bool" where
  "json_space c \<longleftrightarrow> code c = 32 \<or> code c = 9 \<or> code c = 10 \<or> code c = 13"

definition skip_space :: "string \<Rightarrow> string" where
  "skip_space s = dropWhile json_space s"

definition utf8_point :: "int \<Rightarrow> string" where
  "utf8_point n =
     (if n < 128 then [char_of n]
      else if n < 2048 then [char_of (192 + n div 64), char_of (128 + n mod 64)]
      else if n < 65536 then
        [char_of (224 + n div 4096), char_of (128 + n div 64 mod 64), char_of (128 + n mod 64)]
      else
        [char_of (240 + n div 262144), char_of (128 + n div 4096 mod 64),
         char_of (128 + n div 64 mod 64), char_of (128 + n mod 64)])"

definition unescape_char :: "char \<Rightarrow> char option" where
  "unescape_char c =
     (if c = CHR 0x22 \<or> c = CHR 0x5C \<or> c = CHR ''/'' then Some c
      else if c = CHR ''n'' then Some (CHR 0x0A)
      else if c = CHR ''r'' then Some (CHR 0x0D)
      else if c = CHR ''t'' then Some (CHR 0x09)
      else if c = CHR ''f'' then Some (CHR 0x0C)
      else if c = CHR ''b'' then Some (CHR 0x08)
      else None)"

fun take_hex4 :: "string \<Rightarrow> (int \<times> string) option" where
  "take_hex4 (a # b # c # d # s) =
     (if list_all is_any_hex [a, b, c, d] then Some (hex_int [a, b, c, d], s) else None)"
| "take_hex4 _ = None"

text \<open>
  The text after an opening quote up to the closing one. A \<open>\\uXXXX\<close> escape of a high surrogate
  followed by one of a low surrogate is a single code point; \<open>pending\<close> holds the high half.
\<close>

definition flush :: "int option \<Rightarrow> string" where
  "flush pending = (case pending of None \<Rightarrow> [] | Some h \<Rightarrow> utf8_point h)"

fun scan_string :: "nat \<Rightarrow> int option \<Rightarrow> string \<Rightarrow> string parse" where
  "scan_string 0 pending s = json_error"
| "scan_string (Suc n) pending [] = json_error"
| "scan_string (Suc n) pending (c # s) =
     (if c = CHR 0x22 then Inr (flush pending, s)
      else if code c < 32 then json_error
      else if c \<noteq> CHR 0x5C then
        bind_result (scan_string n None s) (\<lambda>(t, r). Inr (flush pending @ c # t, r))
      else case s of
        [] \<Rightarrow> json_error
      | e # s' \<Rightarrow>
          if e = CHR ''u'' then
            (case take_hex4 s' of
               None \<Rightarrow> json_error
             | Some (h, s'') \<Rightarrow>
                 (case pending of
                    Some hi \<Rightarrow>
                      if 56320 \<le> h \<and> h < 57344 then
                        bind_result (scan_string n None s'')
                          (\<lambda>(t, r). Inr (utf8_point (65536 + (hi - 55296) * 1024 + (h - 56320)) @ t, r))
                      else
                        bind_result (scan_string n (if 55296 \<le> h \<and> h < 56320 then Some h else None) s'')
                          (\<lambda>(t, r). Inr (utf8_point hi
                             @ (if 55296 \<le> h \<and> h < 56320 then [] else utf8_point h) @ t, r))
                  | None \<Rightarrow>
                      bind_result (scan_string n (if 55296 \<le> h \<and> h < 56320 then Some h else None) s'')
                        (\<lambda>(t, r).
                           Inr ((if 55296 \<le> h \<and> h < 56320 then [] else utf8_point h) @ t, r))))
          else
            (case unescape_char e of
               None \<Rightarrow> json_error
             | Some c' \<Rightarrow>
                 bind_result (scan_string n None s')
                   (\<lambda>(t, r). Inr (flush pending @ c' # t, r))))"

text \<open>The number regex \<open>(-?(?:0|[1-9]\d*))(\.\d+)?([eE][-+]?\d+)?\<close>.\<close>

definition scan_fraction :: "string \<Rightarrow> string \<times> string" where
  "scan_fraction s =
     (case s of
        c # t \<Rightarrow>
          if c = CHR ''.'' \<and> takeWhile is_digit t \<noteq> [] then
            (takeWhile is_digit t, dropWhile is_digit t)
          else ([], s)
      | [] \<Rightarrow> ([], s))"

definition scan_exponent :: "string \<Rightarrow> int option \<times> string" where
  "scan_exponent s =
     (case s of
        c # t \<Rightarrow>
          if c = CHR ''e'' \<or> c = CHR ''E'' then
            (let (neg, u) =
               (case t of
                  d # t' \<Rightarrow>
                    if d = CHR ''-'' then (True, t') else if d = CHR ''+'' then (False, t')
                    else (False, t)
                | [] \<Rightarrow> (False, t));
               ds = takeWhile is_digit u
             in if ds = [] then (None, s)
                else (Some (if neg then - dec_int ds else dec_int ds), dropWhile is_digit u))
          else (None, s)
      | [] \<Rightarrow> (None, s))"

definition number_tail :: "bool \<Rightarrow> string \<Rightarrow> string \<Rightarrow> json parse" where
  "number_tail neg ds s =
     (let (fs, s1) = scan_fraction s; (ex, s2) = scan_exponent s1
      in if fs = [] \<and> ex = None then
           Inr (JInt (if neg then - dec_int ds else dec_int ds), s)
         else
           Inr (JFloat (float_of_decimal neg ds fs (case ex of None \<Rightarrow> 0 | Some e \<Rightarrow> e)), s2))"

definition scan_number :: "bool \<Rightarrow> string \<Rightarrow> json parse" where
  "scan_number neg s =
     (case s of
        [] \<Rightarrow> json_error
      | c # t \<Rightarrow>
          if c = CHR ''0'' then number_tail neg [c] t
          else if is_digit c then number_tail neg (takeWhile is_digit s) (dropWhile is_digit s)
          else json_error)"

definition literals :: "(string \<times> json) list" where
  "literals = [(''null'', JNull), (''true'', JBool True), (''false'', JBool False)]"

definition constants :: "string list" where
  "constants = [''NaN'', ''Infinity'', ''-Infinity'']"

definition scan_literal :: "constant_hook \<Rightarrow> string \<Rightarrow> json parse option" where
  "scan_literal const s =
     (case find (\<lambda>(w, _). starts_with w s) literals of
        Some (w, v) \<Rightarrow> Some (Inr (v, drop (length w) s))
      | None \<Rightarrow>
          (case find (\<lambda>w. starts_with w s) constants of
             Some w \<Rightarrow> Some (bind_result (const w) (\<lambda>v. Inr (v, drop (length w) s)))
           | None \<Rightarrow> None))"

definition expect :: "char \<Rightarrow> string \<Rightarrow> string result" where
  "expect c s = (case s of [] \<Rightarrow> json_error | d # t \<Rightarrow> if d = c then Inr t else json_error)"

text \<open>
  The recursive descent. Fuel bounds the chain of calls; every element, member and nesting level
  of a text takes at least one character, so \<open>2 * length s + 2\<close> is enough (\<open>loads\<close>).
\<close>

fun parse_value :: "pairs_hook \<Rightarrow> constant_hook \<Rightarrow> nat \<Rightarrow> string \<Rightarrow> json parse"
  and parse_items :: "pairs_hook \<Rightarrow> constant_hook \<Rightarrow> nat \<Rightarrow> string \<Rightarrow> json list parse"
  and parse_members :: "pairs_hook \<Rightarrow> constant_hook \<Rightarrow> nat \<Rightarrow> string \<Rightarrow> (string \<times> json) list parse"
where
  "parse_value hook const 0 s = json_error"
| "parse_value hook const (Suc n) s =
     (case s of
        [] \<Rightarrow> json_error
      | c # t \<Rightarrow>
          if c = CHR 0x22 then
            bind_result (scan_string (Suc (length t)) None t) (\<lambda>(u, r). Inr (JStr u, r))
          else if c = CHR ''['' then
            (let t' = skip_space t in
             case t' of
               [] \<Rightarrow> json_error
             | d # t'' \<Rightarrow>
                 if d = CHR '']'' then Inr (JList [], t'')
                 else bind_result (parse_items hook const n t') (\<lambda>(xs, r). Inr (JList xs, r)))
          else if c = CHR ''{'' then
            (let t' = skip_space t in
             case t' of
               [] \<Rightarrow> json_error
             | d # t'' \<Rightarrow>
                 if d = CHR ''}'' then bind_result (hook []) (\<lambda>v. Inr (v, t''))
                 else bind_result (parse_members hook const n t')
                        (\<lambda>(ps, r). bind_result (hook ps) (\<lambda>v. Inr (v, r))))
          else
            (case scan_literal const s of
               Some r \<Rightarrow> r
             | None \<Rightarrow> if c = CHR ''-'' then scan_number True t else scan_number False s))"
| "parse_items hook const 0 s = json_error"
| "parse_items hook const (Suc n) s =
     bind_result (parse_value hook const n s) (\<lambda>(v, r).
       (case skip_space r of
          [] \<Rightarrow> json_error
        | d # r' \<Rightarrow>
            if d = CHR '']'' then Inr ([v], r')
            else if d = CHR '','' then
              bind_result (parse_items hook const n (skip_space r')) (\<lambda>(vs, r''). Inr (v # vs, r''))
            else json_error))"
| "parse_members hook const 0 s = json_error"
| "parse_members hook const (Suc n) s =
     bind_result (expect (CHR 0x22) s) (\<lambda>s1.
     bind_result (scan_string (Suc (length s1)) None s1) (\<lambda>(key, s2).
     bind_result (expect (CHR '':'') (skip_space s2)) (\<lambda>s3.
     bind_result (parse_value hook const n (skip_space s3)) (\<lambda>(v, r).
       (case skip_space r of
          [] \<Rightarrow> json_error
        | d # r' \<Rightarrow>
            if d = CHR ''}'' then Inr ([(key, v)], r')
            else if d = CHR '','' then
              bind_result (parse_members hook const n (skip_space r'))
                (\<lambda>(ps, r''). Inr ((key, v) # ps, r''))
            else json_error)))))"

definition loads :: "pairs_hook \<Rightarrow> constant_hook \<Rightarrow> string \<Rightarrow> json result" where
  "loads hook const s =
     (let t = skip_space s in
      bind_result (parse_value hook const (2 * length t + 2) t) (\<lambda>(v, r).
        if skip_space r = [] then Inr v else json_error))"

text \<open>The defaults: \<open>dict(pairs)\<close>, where the last of equal keys wins, and the float constants.\<close>

definition dict_hook :: pairs_hook where
  "dict_hook ps = Inr (JObj (fold (\<lambda>(k, v). dict_set k v) ps []))"

definition float_hook :: constant_hook where
  "float_hook w =
     Inr (JFloat (if w = ''NaN'' then NaN else if w = ''Infinity'' then PosInf else NegInf))"

text \<open>
  The hook the modules define under several names: the pairs are inserted one by one, and a key that
  is already present raises \<open>ValueError\<close> with the module's message.
\<close>

fun insert_pairs ::
  "(string \<Rightarrow> string) \<Rightarrow> (string \<times> json) list \<Rightarrow> (string \<times> json) list \<Rightarrow> json result"
where
  "insert_pairs msg [] acc = Inr (JObj acc)"
| "insert_pairs msg ((k, v) # ps) acc =
     (if k \<in> set (map fst acc) then Inl (ValueError (msg k))
      else insert_pairs msg ps (acc @ [(k, v)]))"

definition distinct_dict :: "(string \<Rightarrow> string) \<Rightarrow> pairs_hook" where
  "distinct_dict msg ps = insert_pairs msg ps []"

definition reject_constant :: "string \<Rightarrow> constant_hook" where
  "reject_constant msg w = Inl (ValueError (msg @ w))"

end
