(* ===== verification/Files.thy ===== *)
theory Files
  imports JsonText
begin

text \<open>
  The file system the tools read and write, and the \<open>pathlib\<close>/\<open>os.path\<close> operations they apply to
  it. A path is the list of its components from the root; a file system maps a path to its node.
  Symbolic links are resolved component by component as \<open>os.path.realpath\<close> does; at most
  \<open>link_limit\<close> links are followed (the kernel's own limit, 40), beyond it the resolution fails as
  a symlink loop does. \<open>host\<close> holds what the interpreter and the operating system supply: the
  SHA-256 function (hexadecimal digest), \<open>datetime.fromisoformat\<close> and the working directory.
\<close>

type_synonym path = "string list"

datatype node = Regular bytes | Unreadable | Directory | Symlink string

type_synonym fs = "path \<rightharpoonup> node"

record host =
  sha256 :: "bytes \<Rightarrow> string"
  iso_offset :: "string \<Rightarrow> bool option"
  cwd :: path

text \<open>
  \<open>iso_offset h s\<close> is \<open>None\<close> when \<open>datetime.fromisoformat(s)\<close> raises \<open>ValueError\<close>, otherwise
  whether the result has a UTC offset.
\<close>

section \<open>Paths\<close>

definition is_absolute :: "string \<Rightarrow> bool" where
  "is_absolute s \<longleftrightarrow> starts_with ''/'' s"

definition components :: "string \<Rightarrow> string list" where
  "components s = [w \<leftarrow> split_on (CHR ''/'') s. w \<noteq> [] \<and> w \<noteq> ''.'']"

definition path_text :: "path \<Rightarrow> string" where
  "path_text p = ''/'' @ join_with ''/'' p"

definition parent :: "path \<Rightarrow> path" where
  "parent p = butlast p"

definition base_name :: "path \<Rightarrow> string" where
  "base_name p = (if p = [] then [] else last p)"

text \<open>\<open>base / value\<close>: an absolute right operand replaces the left one.\<close>

definition join_path :: "path \<Rightarrow> string \<Rightarrow> string list" where
  "join_path base v = (if is_absolute v then components v else base @ components v)"

definition link_limit :: nat where "link_limit = 40"

definition link_target :: "fs \<Rightarrow> path \<Rightarrow> string option" where
  "link_target f p = (case f p of Some (Symlink t) \<Rightarrow> Some t | _ \<Rightarrow> None)"

function walk :: "fs \<Rightarrow> nat \<Rightarrow> path \<Rightarrow> string list \<Rightarrow> path option" where
  "walk f k acc [] = Some acc"
| "walk f k acc (c # rest) =
     (if c = ''..'' then walk f k (butlast acc) rest
      else case link_target f (acc @ [c]) of
        None \<Rightarrow> walk f k (acc @ [c]) rest
      | Some t \<Rightarrow>
          (case k of
             0 \<Rightarrow> None
           | Suc k' \<Rightarrow> walk f k' (if is_absolute t then [] else acc) (components t @ rest)))"
  by pat_completeness auto
termination
  by (relation "measures [\<lambda>(f, k, acc, rest). k, \<lambda>(f, k, acc, rest). length rest]") auto

definition has_nul :: "string \<Rightarrow> bool" where
  "has_nul s \<longleftrightarrow> CHR 0x00 \<in> set s"

text \<open>\<open>(base / value).resolve()\<close>.\<close>

definition resolve :: "fs \<Rightarrow> path \<Rightarrow> string \<Rightarrow> path result" where
  "resolve f base v =
     (if has_nul v then Inl (ValueError ''embedded null byte'')
      else case walk f link_limit [] (join_path base v) of
        None \<Rightarrow> Inl (RuntimeError (''Symlink loop from '' @ repr_str v))
      | Some p \<Rightarrow> Inr p)"

fun strip_common :: "path \<Rightarrow> path \<Rightarrow> path \<times> path" where
  "strip_common (a # p) (b # q) = (if a = b then strip_common p q else (a # p, b # q))"
| "strip_common p q = (p, q)"

text \<open>\<open>os.path.relpath(p, base)\<close> on absolute paths.\<close>

definition relpath :: "path \<Rightarrow> path \<Rightarrow> string" where
  "relpath p base =
     (let (p', b') = strip_common p base; cs = replicate (length b') ''..'' @ p'
      in if cs = [] then ''.'' else join_with ''/'' cs)"

text \<open>\<open>Path(p).relative_to(d)\<close> succeeds: \<open>p\<close> is \<open>d\<close> or below it.\<close>

definition is_under :: "path \<Rightarrow> path \<Rightarrow> bool" where
  "is_under p d \<longleftrightarrow> take (length d) p = d"

section \<open>Nodes\<close>

definition follow :: "fs \<Rightarrow> path \<Rightarrow> node option" where
  "follow f p =
     (case walk f link_limit [] p of
        None \<Rightarrow> None
      | Some [] \<Rightarrow> Some Directory
      | Some q \<Rightarrow> f q)"

text \<open>The node itself, without following a link at the last component.\<close>

definition lnode :: "fs \<Rightarrow> path \<Rightarrow> node option" where
  "lnode f p =
     (if p = [] then Some Directory
      else case walk f link_limit [] (butlast p) of
        None \<Rightarrow> None
      | Some q \<Rightarrow> f (q @ [last p]))"

definition is_file :: "fs \<Rightarrow> path \<Rightarrow> bool" where
  "is_file f p \<longleftrightarrow>
     (case follow f p of Some (Regular _) \<Rightarrow> True | Some Unreadable \<Rightarrow> True | _ \<Rightarrow> False)"

definition is_dir :: "fs \<Rightarrow> path \<Rightarrow> bool" where
  "is_dir f p \<longleftrightarrow> follow f p = Some Directory"

definition exists_path :: "fs \<Rightarrow> path \<Rightarrow> bool" where
  "exists_path f p \<longleftrightarrow> (case follow f p of None \<Rightarrow> False | Some (Symlink _) \<Rightarrow> False | _ \<Rightarrow> True)"

definition is_link :: "fs \<Rightarrow> path \<Rightarrow> bool" where
  "is_link f p \<longleftrightarrow> (case lnode f p of Some (Symlink _) \<Rightarrow> True | _ \<Rightarrow> False)"

definition read_bytes :: "fs \<Rightarrow> path \<Rightarrow> bytes result" where
  "read_bytes f p =
     (case follow f p of
        Some (Regular b) \<Rightarrow> Inr b
      | Some Unreadable \<Rightarrow> Inl (OSError (''Permission denied: '' @ path_text p))
      | Some Directory \<Rightarrow> Inl (OSError (''Is a directory: '' @ path_text p))
      | _ \<Rightarrow> Inl (OSError (''No such file or directory: '' @ path_text p)))"

section \<open>Facts\<close>


definition plain_name :: "string \<Rightarrow> bool" where
  "plain_name c \<longleftrightarrow> c \<noteq> [] \<and> c \<noteq> ''.'' \<and> c \<noteq> ''..'' \<and> CHR ''/'' \<notin> set c"

text \<open>A canonical path: plain names, and no proper prefix of it (nor itself) is a link.\<close>

definition canonical :: "fs \<Rightarrow> path \<Rightarrow> bool" where
  "canonical f p \<longleftrightarrow>
     list_all plain_name p \<and> (\<forall>n. 0 < n \<and> n \<le> length p \<longrightarrow> link_target f (take n p) = None)"

lemma canonical_Nil [simp]: "canonical f []"
  by (simp add: canonical_def)

lemma canonical_snoc [simp]:
  "canonical f (p @ [c]) \<longleftrightarrow> canonical f p \<and> plain_name c \<and> link_target f (p @ [c]) = None"
proof -
  have "(\<forall>n. 0 < n \<and> n \<le> Suc (length p) \<longrightarrow> link_target f (take n (p @ [c])) = None) \<longleftrightarrow>
    (\<forall>n. 0 < n \<and> n \<le> length p \<longrightarrow> link_target f (take n p) = None) \<and> link_target f (p @ [c]) = None"
    by (auto simp: le_Suc_eq)
  then show ?thesis by (auto simp: canonical_def)
qed

lemma canonical_butlast: "canonical f p \<Longrightarrow> canonical f (butlast p)"
  by (cases p rule: rev_cases) auto

lemma canonical_take: "canonical f p \<Longrightarrow> canonical f (take n p)"
proof (induction p rule: rev_induct)
  case (snoc c p)
  then show ?case by (cases "n \<le> length p") auto
qed simp

lemma canonical_append_left: "canonical f (p @ q) \<Longrightarrow> canonical f p"
  using canonical_take [of f "p @ q" "length p"] by simp

lemma components_names:
  "c \<in> set (components s) \<Longrightarrow> c \<noteq> [] \<and> c \<noteq> ''.'' \<and> CHR ''/'' \<notin> set c"
  by (auto simp: components_def dest: split_on_no_sep)

text \<open>Whatever the resolution returns is canonical: resolving it again changes nothing.\<close>

lemma walk_canonical:
  assumes "walk f k acc rest = Some q" and "canonical f acc"
    and "\<And>c. c \<in> set rest \<Longrightarrow> c \<noteq> [] \<and> c \<noteq> ''.'' \<and> CHR ''/'' \<notin> set c"
  shows "canonical f q"
  using assms
proof (induction f k acc rest rule: walk.induct)
  case (2 f k acc c rest)
  show ?case
  proof (cases "c = ''..''")
    case True
    with 2 show ?thesis by (simp add: canonical_butlast)
  next
    case False
    note dots = this
    show ?thesis
    proof (cases "link_target f (acc @ [c])")
      case None
      with 2 dots show ?thesis by (simp add: plain_name_def)
    next
      case (Some t)
      with 2 dots obtain k' where k: "k = Suc k'" by (cases k) auto
      have "canonical f (if is_absolute t then [] else acc)" using "2.prems" by simp
      moreover have "c' \<noteq> [] \<and> c' \<noteq> ''.'' \<and> CHR ''/'' \<notin> set c'"
        if "c' \<in> set (components t @ rest)" for c'
        using that "2.prems"(3) components_names by auto
      ultimately show ?thesis
        using "2.IH"(3) [OF dots Some k] "2.prems"(1) Some k dots by auto
    qed
  qed
qed simp

lemma walk_plain:
  assumes "canonical f (acc @ p)"
  shows "walk f k acc (p @ rest) = walk f k (acc @ p) rest"
  using assms
proof (induction p arbitrary: acc)
  case (Cons c p)
  have can: "canonical f ((acc @ [c]) @ p)" using Cons.prems by simp
  then have "canonical f (acc @ [c])" by (rule canonical_append_left)
  then have "link_target f (acc @ [c]) = None" and "c \<noteq> ''..''"
    by (auto simp: plain_name_def)
  then show ?case
    using Cons.IH [OF can] by simp
qed simp

lemma walk_self: "canonical f p \<Longrightarrow> walk f k [] p = Some p"
  using walk_plain [of f "[]" p k "[]"] by simp

lemma walk_up:
  "length ds \<le> length acc \<Longrightarrow>
   walk f k acc (replicate (length ds) ''..'' @ rest)
     = walk f k (take (length acc - length ds) acc) rest"
proof (induction ds arbitrary: acc)
  case (Cons d ds)
  then have "length ds \<le> length (butlast acc)" by simp
  with Cons show ?case by (simp add: butlast_conv_take min_def)
qed simp

lemma strip_common_prefix:
  "strip_common p q = (p', q') \<Longrightarrow> \<exists>r. p = r @ p' \<and> q = r @ q'"
proof (induction p q arbitrary: p' q' rule: strip_common.induct)
  case (1 a p b q)
  show ?case
  proof (cases "a = b")
    case True
    with 1 obtain r where "p = r @ p'" "q = r @ q'" by auto
    with True have "a # p = (a # r) @ p' \<and> b # q = (a # r) @ q'" by simp
    then show ?thesis by blast
  next
    case False
    with "1.prems" show ?thesis by auto
  qed
qed auto

lemma components_join:
  assumes "\<And>c. c \<in> set cs \<Longrightarrow> c \<noteq> [] \<and> c \<noteq> ''.'' \<and> CHR ''/'' \<notin> set c"
  shows "components (join_with ''/'' cs) = cs"
proof (cases "cs = []")
  case True
  then show ?thesis by (simp add: components_def)
next
  case False
  with assms have "split_on (CHR ''/'') (join_with ''/'' cs) = cs"
    by (intro split_join) auto
  with assms show ?thesis by (auto simp: components_def filter_id_conv)
qed

lemma join_not_absolute:
  assumes "\<And>c. c \<in> set cs \<Longrightarrow> c \<noteq> [] \<and> CHR ''/'' \<notin> set c"
  shows "\<not> is_absolute (join_with ''/'' cs)"
proof (cases cs)
  case (Cons c cs')
  with assms have c: "c \<noteq> []" "CHR ''/'' \<notin> set c" by auto
  then obtain x c' where "c = x # c'" "x \<noteq> CHR ''/''" by (cases c) auto
  with Cons show ?thesis by (cases cs') (auto simp: is_absolute_def starts_with_def)
qed (simp add: is_absolute_def starts_with_def)

text \<open>
  The stored paths read back: \<open>(base / os.path.relpath(p, base)).resolve()\<close> is \<open>p\<close>, for canonical
  \<open>p\<close> and \<open>base\<close>.
\<close>

lemma walk_relpath:
  assumes p: "canonical f p" and b: "canonical f base"
  shows "walk f k [] (join_path base (relpath p base)) = Some p"
proof -
  obtain p' b' where s: "strip_common p base = (p', b')" by fastforce
  from strip_common_prefix [OF s] obtain r where r: "p = r @ p'" "base = r @ b'" by blast
  define cs where "cs = replicate (length b') ''..'' @ p'"
  have names: "c \<noteq> [] \<and> c \<noteq> ''.'' \<and> CHR ''/'' \<notin> set c" if "c \<in> set cs" for c
    using that p by (auto simp: cs_def r canonical_def plain_name_def list_all_iff)
  have join: "join_path base (relpath p base) = base @ cs"
  proof (cases "cs = []")
    case True
    then show ?thesis
      by (simp add: relpath_def s cs_def Let_def join_path_def is_absolute_def starts_with_def
          components_def)
  next
    case False
    then have "relpath p base = join_with ''/'' cs"
      by (auto simp: relpath_def s cs_def Let_def)
    then show ?thesis
      using components_join [of cs] join_not_absolute [of cs] names by (auto simp: join_path_def)
  qed
  have "walk f k [] (base @ cs) = walk f k base cs"
    using walk_plain [of f "[]" base] b by simp
  also have "\<dots> = walk f k r p'"
    using walk_up [of b' base f k p'] by (simp add: cs_def r)
  also have "\<dots> = Some p"
    using walk_plain [of f r p' k "[]"] p by (simp add: r)
  finally show ?thesis by (simp add: join)
qed

lemma follow_canonical:
  "canonical f p \<Longrightarrow> follow f p = (if p = [] then Some Directory else f p)"
  by (cases p) (simp_all add: follow_def walk_self del: walk.simps)

lemma is_file_canonical:
  assumes "canonical f p"
  shows "is_file f p \<longleftrightarrow> p \<noteq> [] \<and> (f p = Some Unreadable \<or> (\<exists>b. f p = Some (Regular b)))"
  using follow_canonical [OF assms] by (auto simp: is_file_def split: option.splits node.splits)

lemma read_bytes_canonical:
  assumes "canonical f p"
  shows "read_bytes f p = Inr b \<longleftrightarrow> p \<noteq> [] \<and> f p = Some (Regular b)"
  using follow_canonical [OF assms] by (auto simp: read_bytes_def split: option.splits node.splits)

lemma resolve_canonical:
  assumes "resolve f base v = Inr p" and "canonical f base"
  shows "canonical f p"
proof -
  from assms(1) have w: "walk f link_limit [] (join_path base v) = Some p"
    by (auto simp: resolve_def split: if_splits option.splits)
  have "c \<noteq> [] \<and> c \<noteq> ''.'' \<and> CHR ''/'' \<notin> set c" if "c \<in> set (join_path base v)" for c
    using that assms(2) components_names
    by (auto simp: join_path_def canonical_def plain_name_def list_all_iff split: if_splits)
  then show ?thesis by (rule walk_canonical [OF w canonical_Nil])
qed

end
