(* ===== verification/StageReport.thy ===== *)
theory StageReport
  imports Files
begin

text \<open>
  \<open>scripts/carla/stage_report.py\<close>: scoped, fail-closed stage evidence. A report is a JSON object
  that names a stage and a scope, the checks it requires with their outcomes, an evidence file with
  its SHA-256 for every check, the sources, the command and the prerequisite reports. \<open>write_report\<close>
  stores PASS only when \<open>_content_errors\<close> finds nothing; \<open>validate_report\<close> checks everything again,
  recursively through the prerequisites. The model keeps the order of the checks, the messages and
  the \<open>except\<close> clauses of the code; the file system is passed explicitly and returned updated.
\<close>

section \<open>Helpers\<close>

definition max_prerequisite_depth :: nat where "max_prerequisite_depth = 32"

definition text_value :: "json \<Rightarrow> bool" where
  "text_value v \<longleftrightarrow> (case v of JStr s \<Rightarrow> strip s \<noteq> [] | _ \<Rightarrow> False)"

definition resolve_checked :: "fs \<Rightarrow> path \<Rightarrow> json \<Rightarrow> path result" where
  "resolve_checked f base v =
     (if \<not> text_value v then Inl (ValueError ''path must be a nonempty string'')
      else case resolve f base (str_of v) of
        Inl e \<Rightarrow> Inl (ValueError (''invalid path '' @ repr_json v @ '': '' @ error_text e))
      | Inr p \<Rightarrow> Inr p)"

definition digest :: "host \<Rightarrow> fs \<Rightarrow> path \<Rightarrow> string result" where
  "digest h f p =
     (if \<not> is_file f p then Inl (ValueError (''not a regular file: '' @ path_text p))
      else bind_result (read_bytes f p) (\<lambda>b. Inr (sha256 h b)))"

definition snapshot :: "host \<Rightarrow> fs \<Rightarrow> path \<Rightarrow> string \<Rightarrow> (string \<times> json) list" where
  "snapshot h f base v =
     (case resolve_checked f (cwd h) (JStr v) of
        Inl _ \<Rightarrow> [(''path'', JStr v), (''sha256'', JNull)]
      | Inr p \<Rightarrow>
          (case digest h f p of
             Inl _ \<Rightarrow> [(''path'', JStr (relpath p base)), (''sha256'', JNull)]
           | Inr d \<Rightarrow> [(''path'', JStr (relpath p base)), (''sha256'', JStr d)]))"

definition file_identity :: "fs \<Rightarrow> path \<Rightarrow> json \<Rightarrow> (path \<times> string) result" where
  "file_identity f base rec =
     (if \<not> is_obj rec then Inl (ValueError ''file evidence must be an object'')
      else bind_result (resolve_checked f base (field ''path'' rec)) (\<lambda>p.
        if is_str (field ''sha256'' rec) \<and> sha256_shape (str_of (field ''sha256'' rec))
        then Inr (p, str_of (field ''sha256'' rec))
        else Inl (ValueError (''missing or invalid SHA256 for '' @ path_text p))))"

definition unique_object :: pairs_hook where
  "unique_object = distinct_dict (\<lambda>k. ''duplicate JSON key: '' @ k)"

definition invalid_constant :: constant_hook where
  "invalid_constant = reject_constant ''invalid JSON constant: ''"

section \<open>The content checks\<close>

definition identity_errors :: "host \<Rightarrow> json \<Rightarrow> string \<Rightarrow> string \<Rightarrow> string list" where
  "identity_errors h r stage scope =
     (if field ''schema_version'' r = JInt 1 then []
      else [''unsupported or missing schema_version''])
     @ (if text_value (JStr stage) \<and> field ''stage_id'' r = JStr stage then []
        else [''stage_id must exactly match '' @ repr_str stage])
     @ (if text_value (JStr scope) \<and> field ''scope'' r = JStr scope then []
        else [''scope must exactly match '' @ repr_str scope])
     @ (case field ''created_at'' r of
          JStr s \<Rightarrow> if iso_offset h s = Some True then []
                   else [''created_at must be an ISO timestamp with timezone'']
        | _ \<Rightarrow> [''created_at must be an ISO timestamp with timezone''])
     @ (if field ''exit_code'' r = JInt 0 then []
        else [''process exit_code is not integer zero: '' @ repr_json (field ''exit_code'' r)])"

definition command_errors :: "json \<Rightarrow> string list" where
  "command_errors r =
     (case field ''command'' r of
        JList (x # xs) \<Rightarrow>
          if text_value x \<and> list_all is_str (x # xs) then []
          else [''command must be a nonempty argv list'']
      | _ \<Rightarrow> [''command must be a nonempty argv list''])"

definition source_errors :: "json \<Rightarrow> string list" where
  "source_errors r =
     (case field ''sources'' r of
        JObj (kv # kvs) \<Rightarrow>
          concat (map (\<lambda>(name, source).
            if text_value (JStr name) \<and> is_obj source \<and> text_value (field ''location'' source)
               \<and> text_value (field ''revision'' source) then []
            else [''source '' @ repr_str name @ '' requires location and revision'']) (kv # kvs))
      | _ \<Rightarrow> [''source provenance is required''])"

text \<open>The names the later loops use: \<open>required\<close> is emptied when it is not a list of names.\<close>

definition required_names :: "json \<Rightarrow> string list option" where
  "required_names r =
     (case field ''required_checks'' r of
        JList (x # xs) \<Rightarrow>
          if list_all text_value (x # xs) then Some (map str_of (x # xs)) else None
      | _ \<Rightarrow> None)"

definition required_of :: "json \<Rightarrow> string list" where
  "required_of r = (case required_names r of None \<Rightarrow> [] | Some ns \<Rightarrow> ns)"

definition required_errors :: "json \<Rightarrow> string list" where
  "required_errors r =
     (case required_names r of
        None \<Rightarrow> [''required_checks must be a nonempty list of names'']
      | Some ns \<Rightarrow> if distinct ns then [] else [''required_checks contains duplicate names''])"

text \<open>\<open>checks\<close> and \<open>evidence\<close> become \<open>{}\<close> when they are not nonempty objects.\<close>

definition entries_of :: "string \<Rightarrow> json \<Rightarrow> (string \<times> json) list" where
  "entries_of k r = obj_items (field k r)"

definition missing :: "string \<Rightarrow> string list \<Rightarrow> string list \<Rightarrow> string list" where
  "missing label present names = map (\<lambda>n. label @ n) [n \<leftarrow> names. n \<notin> set present]"

definition check_errors :: "json \<Rightarrow> string list" where
  "check_errors r =
     (let required = required_of r; checks = entries_of ''checks'' r in
      (if checks = [] then [''at least one named check is required''] else [])
      @ missing ''missing required check: '' (map fst checks) required
      @ concat (map (\<lambda>(name, status).
          (if text_value (JStr name) \<and> name \<in> set required then []
           else [''undeclared check: '' @ repr_str name])
          @ (if status = JStr ''PASS'' then []
             else [''check '' @ repr_str name @ '' is not PASS: '' @ repr_json status])) checks))"

text \<open>A \<open>try\<close> block of the loops: an \<open>OSError\<close> or \<open>ValueError\<close> becomes one message.\<close>

definition guarded :: "string \<Rightarrow> unit result \<Rightarrow> string list result" where
  "guarded label r =
     (case r of
        Inr _ \<Rightarrow> Inr []
      | Inl e \<Rightarrow> if os_or_value e then Inr [label @ '': '' @ error_text e] else Inl e)"

definition check_evidence :: "host \<Rightarrow> fs \<Rightarrow> path \<Rightarrow> string \<Rightarrow> json \<Rightarrow> unit result" where
  "check_evidence h f p name rec =
     (if \<not> text_value (JStr name) then Inl (ValueError ''evidence name must be nonempty'')
      else bind_result (file_identity f (parent p) rec) (\<lambda>(q, checksum).
        if q = p then Inl (ValueError ''a report cannot be its own evidence'')
        else bind_result (digest h f q) (\<lambda>d.
          if d \<noteq> checksum then Inl (ValueError (''SHA256 mismatch: '' @ path_text q))
          else Inr ())))"

definition evidence_entry_errors ::
  "host \<Rightarrow> fs \<Rightarrow> path \<Rightarrow> string \<times> json \<Rightarrow> string list result"
where
  "evidence_entry_errors h f p entry =
     guarded (''evidence '' @ repr_str (fst entry)) (check_evidence h f p (fst entry) (snd entry))"

definition evidence_errors :: "host \<Rightarrow> fs \<Rightarrow> json \<Rightarrow> path \<Rightarrow> string list result" where
  "evidence_errors h f r p =
     (let evidence = entries_of ''evidence'' r;
          named = remdups (required_of r @ map fst (entries_of ''checks'' r)) in
      bind_result
        (map_result (evidence_entry_errors h f p) evidence)
        (\<lambda>msgs. Inr (
           (if evidence = [] then [''at least one evidence file is required''] else [])
           @ missing ''missing evidence for check: '' (map fst evidence) named
           @ concat msgs)))"

text \<open>
  The loop over the prerequisites. \<open>seen\<close> holds the stage identities met so far; an identity is
  recorded before its file is examined. \<open>val\<close> is the recursive call of the validator.
\<close>

definition named_item :: "json \<Rightarrow> bool" where
  "named_item item \<longleftrightarrow>
     is_obj item \<and> text_value (field ''stage_id'' item) \<and> text_value (field ''scope'' item)"

definition stage_of :: "json \<Rightarrow> string" where
  "stage_of item = str_of (field ''stage_id'' item)"

definition scope_of :: "json \<Rightarrow> string" where
  "scope_of item = str_of (field ''scope'' item)"

definition check_prerequisite ::
  "fs \<Rightarrow> (path \<Rightarrow> string \<Rightarrow> string \<Rightarrow> string \<Rightarrow> json result) \<Rightarrow> path \<Rightarrow> string list \<Rightarrow> json
   \<Rightarrow> unit result"
where
  "check_prerequisite f val p seen item =
     (if \<not> named_item item then Inl (ValueError ''expected stage_id and scope are required'')
      else if stage_of item \<in> set seen then
        Inl (ValueError (''duplicate prerequisite stage_id: '' @ stage_of item))
      else bind_result (file_identity f (parent p) item) (\<lambda>(q, checksum).
        bind_result (val q (stage_of item) (scope_of item) checksum) (\<lambda>_. Inr ())))"

fun prerequisite_errors ::
  "fs \<Rightarrow> (path \<Rightarrow> string \<Rightarrow> string \<Rightarrow> string \<Rightarrow> json result) \<Rightarrow> path \<Rightarrow> nat \<Rightarrow> string list
   \<Rightarrow> json list \<Rightarrow> string list result"
where
  "prerequisite_errors f val p i seen [] = Inr []"
| "prerequisite_errors f val p i seen (item # items) =
     bind_result (guarded (''prerequisite '' @ show_nat i) (check_prerequisite f val p seen item))
       (\<lambda>msgs. bind_result
          (prerequisite_errors f val p (Suc i)
             (if named_item item then stage_of item # seen else seen) items)
          (\<lambda>rest. Inr (msgs @ rest)))"

definition content_errors ::
  "host \<Rightarrow> fs \<Rightarrow> (path \<Rightarrow> string \<Rightarrow> string \<Rightarrow> string \<Rightarrow> json result) \<Rightarrow> json \<Rightarrow> path
   \<Rightarrow> string \<Rightarrow> string \<Rightarrow> string list result"
where
  "content_errors h f val r p stage scope =
     bind_result (evidence_errors h f r p) (\<lambda>ev.
     bind_result
       (case field ''prerequisites'' r of
          JList items \<Rightarrow> prerequisite_errors f val p 0 [] items
        | _ \<Rightarrow> Inr [''prerequisites must be an explicit list''])
       (\<lambda>pre. Inr (identity_errors h r stage scope @ command_errors r @ source_errors r
          @ required_errors r @ check_errors r @ ev @ pre)))"

section \<open>Validation\<close>

definition parse_report :: "path \<Rightarrow> bytes \<Rightarrow> json result" where
  "parse_report p raw =
     (case bind_result (decode_utf8 raw) (loads unique_object invalid_constant) of
        Inl e \<Rightarrow> Inl (ValueError (''invalid report JSON: '' @ path_text p @ '': '' @ error_text e))
      | Inr r \<Rightarrow>
          if is_obj r then Inr r
          else Inl (ValueError (''report must be a JSON object: '' @ path_text p)))"

definition status_errors :: "json \<Rightarrow> string list" where
  "status_errors r =
     (if field ''status'' r = JStr ''PASS'' then [] else [''report status is not PASS''])
     @ (if field ''errors'' r = JList [] then [] else [''report errors must be an empty list''])"

function validate_file ::
  "host \<Rightarrow> fs \<Rightarrow> path list \<Rightarrow> string option \<Rightarrow> path \<Rightarrow> string \<Rightarrow> string \<Rightarrow> json result"
where
  "validate_file h f ancestors checksum p stage scope =
     (if p \<in> set ancestors then Inl (ValueError (''prerequisite cycle: '' @ path_text p))
      else if max_prerequisite_depth \<le> length ancestors then
        Inl (ValueError ''prerequisite depth limit exceeded'')
      else if \<not> is_file f p then
        Inl (ValueError (''report is not a regular file: '' @ path_text p))
      else bind_result (read_bytes f p) (\<lambda>raw.
        if checksum \<noteq> None \<and> Some (sha256 h raw) \<noteq> checksum then
          Inl (ValueError (''prerequisite SHA256 mismatch: '' @ path_text p))
        else bind_result (parse_report p raw) (\<lambda>r.
          bind_result
            (content_errors h f
               (\<lambda>q stage' scope' d. validate_file h f (ancestors @ [p]) (Some d) q stage' scope')
               r p stage scope)
            (\<lambda>errs.
               let all_errs = errs @ status_errors r in
               if all_errs = [] then Inr r
               else Inl (ValueError (path_text p @ '': '' @ join_with ''; '' all_errs))))))"
  by pat_completeness auto
termination
  by (relation "measure (\<lambda>(h, f, anc, c, p, s, t). max_prerequisite_depth - length anc)") auto

declare validate_file.simps [simp del]

definition validate_report :: "host \<Rightarrow> fs \<Rightarrow> string \<Rightarrow> string \<Rightarrow> string \<Rightarrow> json result" where
  "validate_report h f path stage scope =
     bind_result (resolve_checked f (cwd h) (JStr path)) (\<lambda>p.
       case validate_file h f [] None p stage scope of
         Inl (OSError m) \<Rightarrow> Inl (ValueError m)
       | r \<Rightarrow> r)"

section \<open>Writing\<close>

record write_args =
  wa_stage_id :: string
  wa_scope :: string
  wa_exit_code :: json
  wa_required :: json
  wa_checks :: json
  wa_evidence :: "(string \<times> string) list"
  wa_sources :: json
  wa_command :: json
  wa_prerequisites :: "(string \<times> string \<times> string) list"

definition evidence_record :: "host \<Rightarrow> fs \<Rightarrow> path \<Rightarrow> (string \<times> string) list \<Rightarrow> json" where
  "evidence_record h f base ev = JObj (map (\<lambda>(name, v). (name, JObj (snapshot h f base v))) ev)"

definition prerequisite_record :: "host \<Rightarrow> fs \<Rightarrow> path \<Rightarrow> (string \<times> string \<times> string) list \<Rightarrow> json" where
  "prerequisite_record h f base pre =
     JList (map (\<lambda>(stage, scope, v).
       JObj ([(''stage_id'', JStr stage), (''scope'', JStr scope)] @ snapshot h f base v)) pre)"

text \<open>The report with the given status and errors; \<open>now\<close> is the value of the clock.\<close>

definition report_of ::
  "host \<Rightarrow> fs \<Rightarrow> path \<Rightarrow> string \<Rightarrow> write_args \<Rightarrow> string \<Rightarrow> string list \<Rightarrow> json"
where
  "report_of h f p now a status errs =
     JObj [(''schema_version'', JInt 1), (''stage_id'', JStr (wa_stage_id a)),
       (''scope'', JStr (wa_scope a)), (''created_at'', JStr now),
       (''exit_code'', wa_exit_code a), (''required_checks'', wa_required a),
       (''checks'', wa_checks a),
       (''evidence'', evidence_record h f (parent p) (wa_evidence a)),
       (''sources'', wa_sources a), (''command'', wa_command a),
       (''prerequisites'', prerequisite_record h f (parent p) (wa_prerequisites a)),
       (''status'', JStr status), (''errors'', JList (map JStr errs))]"

fun make_dirs :: "fs \<Rightarrow> path \<Rightarrow> string list \<Rightarrow> fs result" where
  "make_dirs f acc [] = Inr f"
| "make_dirs f acc (c # cs) =
     (case f (acc @ [c]) of
        None \<Rightarrow> make_dirs (f(acc @ [c] \<mapsto> Directory)) (acc @ [c]) cs
      | Some n \<Rightarrow>
          if is_dir f (acc @ [c]) then make_dirs f (acc @ [c]) cs
          else Inl (OSError (''File exists: '' @ path_text (acc @ [c]))))"

text \<open>
  \<open>mkdir(parents=True, exist_ok=True)\<close> on the parent, then a write to a temporary file beside the
  target and \<open>replace\<close>: the target changes in one step, or not at all.
\<close>

definition write_atomic :: "fs \<Rightarrow> path \<Rightarrow> bytes \<Rightarrow> fs result" where
  "write_atomic f p b =
     bind_result (make_dirs f [] (parent p)) (\<lambda>f'.
       if p = [] \<or> f' p = Some Directory then Inl (OSError (''Is a directory: '' @ path_text p))
       else Inr (f'(p \<mapsto> Regular b)))"

definition write_report ::
  "host \<Rightarrow> fs \<Rightarrow> string \<Rightarrow> string \<Rightarrow> write_args \<Rightarrow> (json \<times> fs) result"
where
  "write_report h f now output a =
     bind_result (resolve_checked f (cwd h) (JStr output)) (\<lambda>p.
     bind_result
       (content_errors h f
          (\<lambda>q stage scope d. validate_file h f [p] (Some d) q stage scope)
          (report_of h f p now a ''FAIL'' []) p (wa_stage_id a) (wa_scope a))
       (\<lambda>errs.
          let report = report_of h f p now a (if errs = [] then ''PASS'' else ''FAIL'') errs in
          bind_result (dumps report) (\<lambda>text.
          bind_result (write_atomic f p (text @ [CHR 0x0A])) (\<lambda>f'.
            Inr (report, f')))))"

section \<open>The command line\<close>

text \<open>\<open>_named\<close>: a repeated name is a usage error, exit code 2.\<close>

fun named :: "string \<Rightarrow> (string \<times> 'a) list \<Rightarrow> (string \<times> 'a) list \<Rightarrow> (string \<times> 'a) list result" where
  "named option [] acc = Inr acc"
| "named option ((name, v) # es) acc =
     (if name \<in> set (map fst acc) then
        Inl (SystemExit (option @ '': duplicate name '' @ repr_str name))
      else named option es (acc @ [(name, v)]))"

record write_options =
  wo_output :: string
  wo_stage_id :: string
  wo_scope :: string
  wo_exit_code :: int
  wo_required :: "string list"
  wo_checks :: "(string \<times> string) list"
  wo_evidence :: "(string \<times> string) list"
  wo_sources :: "(string \<times> string \<times> string) list"
  wo_prerequisites :: "(string \<times> string \<times> string) list"
  wo_command :: "string list"

definition write_command ::
  "host \<Rightarrow> fs \<Rightarrow> string \<Rightarrow> write_options \<Rightarrow> (json \<times> fs) result"
where
  "write_command h f now opts =
     bind_result (named ''--check'' (wo_checks opts) []) (\<lambda>checks.
     bind_result (named ''--evidence'' (wo_evidence opts) []) (\<lambda>evidence.
     bind_result (named ''--source'' (wo_sources opts) []) (\<lambda>sources.
       write_report h f now (wo_output opts)
         \<lparr>wa_stage_id = wo_stage_id opts, wa_scope = wo_scope opts,
          wa_exit_code = JInt (wo_exit_code opts),
          wa_required = JList (map JStr (wo_required opts)),
          wa_checks = JObj (map (\<lambda>(n, s). (n, JStr s)) checks),
          wa_evidence = evidence,
          wa_sources = JObj (map (\<lambda>(n, l, rv).
            (n, JObj [(''location'', JStr l), (''revision'', JStr rv)])) sources),
          wa_command = JList (map JStr (wo_command opts)),
          wa_prerequisites = wo_prerequisites opts\<rparr>)))"

datatype action = WriteAction write_options | ValidateAction string string string

text \<open>\<open>main\<close>: the exit code and the file system afterwards.\<close>

definition main :: "host \<Rightarrow> fs \<Rightarrow> string \<Rightarrow> action \<Rightarrow> (int \<times> fs) result" where
  "main h f now act =
     (let outcome =
        (case act of
           WriteAction opts \<Rightarrow> write_command h f now opts
         | ValidateAction path stage scope \<Rightarrow>
             bind_result (validate_report h f path stage scope) (\<lambda>r. Inr (r, f)))
      in case outcome of
           Inl e \<Rightarrow>
             if os_or_value e then Inr (1, f)
             else (case e of SystemExit _ \<Rightarrow> Inr (2, f) | _ \<Rightarrow> Inl e)
         | Inr (r, f') \<Rightarrow> Inr (if field ''status'' r = JStr ''PASS'' then 0 else 1, f'))"

end
