(* ===== verification/FileOps.thy ===== *)
theory FileOps
  imports StageReport
begin

text \<open>
  The writing operations of the runtime tools on the explicit file system: \<open>write_bytes\<close> (which
  follows links), exclusive creation (which does not), hard links, removal, and \<open>absolute()\<close>.
\<close>

definition has_parent :: "fs \<Rightarrow> path \<Rightarrow> bool" where
  "has_parent f p \<longleftrightarrow> is_dir f (butlast p)"

definition no_entry :: "path \<Rightarrow> 'a result" where
  "no_entry p = Inl (OSError (''No such file or directory: '' @ path_text p))"

definition write_bytes :: "fs \<Rightarrow> path \<Rightarrow> bytes \<Rightarrow> fs result" where
  "write_bytes f p b =
     (case walk f link_limit [] p of
        None \<Rightarrow> Inl (OSError (''Too many levels of symbolic links: '' @ path_text p))
      | Some q \<Rightarrow>
          if q = [] \<or> f q = Some Directory then Inl (OSError (''Is a directory: '' @ path_text p))
          else if f q = Some Unreadable then Inl (OSError (''Permission denied: '' @ path_text p))
          else if \<not> has_parent f q then no_entry p
          else Inr (f(q \<mapsto> Regular b)))"

text \<open>\<open>open("xb")\<close> and \<open>os.link\<close>: the last component is not followed and must not exist.\<close>

definition entry_path :: "fs \<Rightarrow> path \<Rightarrow> path option" where
  "entry_path f p =
     (if p = [] then None else map_option (\<lambda>q. q @ [last p]) (walk f link_limit [] (butlast p)))"

definition create_new :: "fs \<Rightarrow> path \<Rightarrow> bytes \<Rightarrow> fs result" where
  "create_new f p b =
     (case entry_path f p of
        None \<Rightarrow> no_entry p
      | Some q \<Rightarrow>
          if f q \<noteq> None then Inl (OSError (''File exists: '' @ path_text p))
          else if \<not> has_parent f q then no_entry p
          else Inr (f(q \<mapsto> Regular b)))"

definition link_file :: "fs \<Rightarrow> path \<Rightarrow> path \<Rightarrow> fs result" where
  "link_file f src dst =
     (case follow f src of
        Some (Regular b) \<Rightarrow> create_new f dst b
      | _ \<Rightarrow> no_entry src)"

definition unlink_missing_ok :: "fs \<Rightarrow> path \<Rightarrow> fs" where
  "unlink_missing_ok f p =
     (case entry_path f p of None \<Rightarrow> f | Some q \<Rightarrow> if f q = Some Directory then f else f(q := None))"

text \<open>\<open>Path(v).absolute()\<close> joins without resolving links.\<close>

definition absolute :: "host \<Rightarrow> string \<Rightarrow> path" where
  "absolute h v = join_path (cwd h) v"

text \<open>The nonempty regular files; a file that cannot be read counts as nonempty.\<close>

definition nonempty_file :: "fs \<Rightarrow> path \<Rightarrow> bool" where
  "nonempty_file f p \<longleftrightarrow> is_file f p \<and> follow f p \<noteq> Some (Regular [])"

text \<open>\<open>shutil.copyfile\<close> refuses to copy a file onto itself.\<close>

definition copy_file :: "fs \<Rightarrow> path \<Rightarrow> path \<Rightarrow> fs result" where
  "copy_file f src dst =
     (if walk f link_limit [] dst = Some src then Inl (OSError ''are the same file'')
      else bind_result (read_bytes f src) (write_bytes f dst))"

text \<open>\<open>stat().st_size\<close>; a file that cannot be read reports no size.\<close>

definition file_size :: "fs \<Rightarrow> path \<Rightarrow> int" where
  "file_size f p = (case follow f p of Some (Regular b) \<Rightarrow> int (length b) | _ \<Rightarrow> - 1)"

text \<open>\<open>_sha256_file\<close> and the other digests that just open the file.\<close>

definition sha256_file :: "host \<Rightarrow> fs \<Rightarrow> path \<Rightarrow> string result" where
  "sha256_file h f p = bind_result (read_bytes f p) (\<lambda>b. Inr (sha256 h b))"

text \<open>A directory with a fresh name, as \<open>tempfile.mkdtemp\<close> makes it; nothing at a path, not even a link.\<close>

definition make_work_dir :: "fs \<Rightarrow> path \<Rightarrow> fs result" where
  "make_work_dir f p =
     (if f p \<noteq> None then Inl (OSError (''File exists: '' @ path_text p))
      else Inr (f(p \<mapsto> Directory)))"

definition vacant :: "fs \<Rightarrow> path \<Rightarrow> bool" where
  "vacant f p \<longleftrightarrow> \<not> exists_path f p \<and> \<not> is_link f p"

lemma create_new_fresh:
  assumes "create_new f p b = Inr f'"
  shows "\<exists>q. f q = None \<and> f' = f(q \<mapsto> Regular b)"
  using assms by (auto simp: create_new_def no_entry_def split: option.splits if_splits)

lemma entry_path_canonical: "canonical f p \<Longrightarrow> p \<noteq> [] \<Longrightarrow> entry_path f p = Some p"
  using walk_self [of f "butlast p"] canonical_butlast [of f p]
  by (simp add: entry_path_def del: walk.simps)

lemma create_new_canonical:
  "canonical f p \<Longrightarrow> p \<noteq> [] \<Longrightarrow>
   create_new f p b = Inr f' \<longleftrightarrow> f p = None \<and> has_parent f p \<and> f' = f(p \<mapsto> Regular b)"
  by (auto simp: create_new_def entry_path_canonical no_entry_def)

end
