(* ===== verification/PyNumber.thy ===== *)
theory PyNumber
  imports PyValue
begin

text \<open>
  Python's arithmetic on dynamic numbers, as the runtime gates use it: \<open>type(x) in (int, float)\<close>,
  \<open>math.isfinite\<close>, comparison of mixed operands (exact), subtraction (exact on two integers,
  binary64 otherwise), and the binary64 sum and product.
\<close>

section \<open>Binary64\<close>

definition float_neg :: "pyfloat \<Rightarrow> pyfloat" where
  "float_neg x =
     (case x of Fin r \<Rightarrow> if r = 0 then NegZero else Fin (- r) | NegZero \<Rightarrow> Fin 0
      | PosInf \<Rightarrow> NegInf | NegInf \<Rightarrow> PosInf | NaN \<Rightarrow> NaN)"

definition float_negative :: "pyfloat \<Rightarrow> bool" where
  "float_negative x \<longleftrightarrow> (case x of Fin r \<Rightarrow> r < 0 | NegZero \<Rightarrow> True | NegInf \<Rightarrow> True | _ \<Rightarrow> False)"

definition float_add :: "pyfloat \<Rightarrow> pyfloat \<Rightarrow> pyfloat" where
  "float_add x y =
     (case (float_val x, float_val y) of
        (Some a, Some b) \<Rightarrow> if x = NegZero \<and> y = NegZero then NegZero else round_float (a + b)
      | _ \<Rightarrow>
         (if x = NaN \<or> y = NaN \<or> (x = PosInf \<and> y = NegInf) \<or> (x = NegInf \<and> y = PosInf) then NaN
          else if x = PosInf \<or> y = PosInf then PosInf else NegInf))"

definition float_mul :: "pyfloat \<Rightarrow> pyfloat \<Rightarrow> pyfloat" where
  "float_mul x y =
     (let neg = (float_negative x \<noteq> float_negative y) in
      case (float_val x, float_val y) of
        (Some a, Some b) \<Rightarrow>
          if a * b = 0 then (if neg then NegZero else Fin 0) else round_float (a * b)
      | (None, Some b) \<Rightarrow> if x = NaN \<or> b = 0 then NaN else if neg then NegInf else PosInf
      | (Some a, None) \<Rightarrow> if y = NaN \<or> a = 0 then NaN else if neg then NegInf else PosInf
      | (None, None) \<Rightarrow> if x = NaN \<or> y = NaN then NaN else if neg then NegInf else PosInf)"

text \<open>\<open>max(a, b)\<close> keeps its first argument unless the second is greater.\<close>

definition float_max :: "pyfloat \<Rightarrow> pyfloat \<Rightarrow> pyfloat" where
  "float_max a b = (if float_less a b then b else a)"

definition decimal :: "int \<Rightarrow> int \<Rightarrow> pyfloat" where
  "decimal n d = round_float (of_int n / of_int d)"

section \<open>Dynamic numbers\<close>

fun num_float :: "json \<Rightarrow> pyfloat" where
  "num_float (JInt i) = float_of_int i"
| "num_float (JFloat x) = x"
| "num_float (JBool b) = Fin (if b then 1 else 0)"
| "num_float _ = NaN"

definition num_less :: "json \<Rightarrow> json \<Rightarrow> bool" where
  "num_less a b \<longleftrightarrow>
     (case (as_number a, as_number b) of (Some x, Some y) \<Rightarrow> float_less x y | _ \<Rightarrow> False)"

definition num_le :: "json \<Rightarrow> json \<Rightarrow> bool" where
  "num_le a b \<longleftrightarrow>
     (case (as_number a, as_number b) of (Some x, Some y) \<Rightarrow> float_le x y | _ \<Rightarrow> False)"

fun num_sub :: "json \<Rightarrow> json \<Rightarrow> json" where
  "num_sub (JInt i) (JInt j) = JInt (i - j)"
| "num_sub a b = JFloat (float_sub (num_float a) (num_float b))"

fun num_abs :: "json \<Rightarrow> json" where
  "num_abs (JInt i) = JInt \<bar>i\<bar>"
| "num_abs (JFloat x) = JFloat (float_abs x)"
| "num_abs v = v"

text \<open>\<open>math.isfinite(v)\<close> on an int or a float: an int too large for a float raises.\<close>

definition is_finite_number :: "json \<Rightarrow> bool result" where
  "is_finite_number v =
     (case v of
        JInt i \<Rightarrow>
          if float_val (float_of_int i) = None then
            Inl (OverflowError ''int too large to convert to float'')
          else Inr True
      | JFloat x \<Rightarrow> Inr (is_finite x)
      | _ \<Rightarrow> Inl (TypeError ''must be real number''))"

section \<open>Facts\<close>

lemma num_less_Int [simp]: "num_less (JInt i) (JInt j) \<longleftrightarrow> i < j"
  by (simp add: num_less_def)

lemma num_le_Int [simp]: "num_le (JInt i) (JInt j) \<longleftrightarrow> i \<le> j"
  by (simp add: num_le_def)

lemma is_finite_iff: "is_finite x \<longleftrightarrow> (\<exists>r. float_val x = Some r)"
  by (simp add: is_finite_def)

lemma float_max_less: "float_less c (float_max a b) \<longleftrightarrow> float_less c a \<or> float_less c b"
  if "a \<noteq> NaN" "b \<noteq> NaN"
proof -
  have "float_less c a \<Longrightarrow> float_less a b \<Longrightarrow> float_less c b"
    by (rule float_less_trans)
  moreover have "float_less c b \<Longrightarrow> \<not> float_less a b \<Longrightarrow> float_less c a"
    using that by (cases a; cases b; cases c) auto
  ultimately show ?thesis by (auto simp: float_max_def)
qed

text \<open>Evaluation of the constants: the floor of a fraction of numerals is an integer division.\<close>

lemma floor_fraction [simp]:
  "\<lfloor>numeral a / numeral b :: rat\<rfloor> = numeral a div numeral b"
  using floor_divide_of_int_eq [of "numeral a" "numeral b", where ?'a = rat] by simp

lemma log2_floor_step:
  "log2_floor (5 / 100) = - 5"
  "log2_floor (3602879701896397 / 72057594037927936) = - 5"
  by code_simp+

lemma decimal_step: "decimal 5 100 = Fin (3602879701896397 / 72057594037927936)"
  using log2_floor_step(1)
  by (simp add: decimal_def round_float_def pow2_def Let_def round_half_even_def)

lemma round_float_step:
  "round_float (3602879701896397 / 72057594037927936) = Fin (3602879701896397 / 72057594037927936)"
  by (simp add: round_float_def log2_floor_step pow2_def Let_def round_half_even_def)

lemma round_float_not_NaN [simp]: "round_float q \<noteq> NaN"
  by (simp add: round_float_def Let_def)

end
