(* ===== verification/Checks.thy ===== *)
theory Checks
  imports JsonText Files PyNumber
begin

text \<open>
  The vocabulary of the snapshot validators: \<open>require(...)\<close> in front of the rest of a function, loops
  over requirements, strict JSON files, the compact form of \<open>json.dumps\<close>, and the identifiers and
  addresses their regular expressions accept.
\<close>

definition req :: "bool \<Rightarrow> string \<Rightarrow> 'a result \<Rightarrow> 'a result" where
  "req c msg k = (if c then k else Inl (ValueError msg))"

declare req_def [code_unfold]

lemma req_Inr [simp]: "req c msg k = Inr x \<longleftrightarrow> c \<and> k = Inr x"
  by (simp add: req_def)

lemma req_simps: "req True msg k = k" "req False msg k = Inl (ValueError msg)"
  by (simp_all add: req_def)

lemma req_cong [cong]: "c = c' \<Longrightarrow> msg = msg' \<Longrightarrow> (c' \<Longrightarrow> k = k') \<Longrightarrow> req c msg k = req c' msg' k'"
  by (simp add: req_def)

text \<open>\<open>all(...)\<close> over a test that may itself raise: it stops at the first false one.\<close>

fun all_result :: "('a \<Rightarrow> bool result) \<Rightarrow> 'a list \<Rightarrow> bool result" where
  "all_result f [] = Inr True"
| "all_result f (x # xs) = bind_result (f x) (\<lambda>ok. if ok then all_result f xs else Inr False)"

lemma all_result_True: "all_result f xs = Inr True \<longleftrightarrow> (\<forall>x\<in>set xs. f x = Inr True)"
  by (induction xs) auto

text \<open>A loop that collects keys and refuses a key it has seen.\<close>

lemma fold_seen:
  assumes "\<And>x seen t. step x seen = Inr t \<longleftrightarrow> ok x \<and> key x \<notin> set seen \<and> t = key x # seen"
  shows "(\<exists>t. fold_result step xs seen = Inr t) \<longleftrightarrow>
    list_all ok xs \<and> distinct (map key xs) \<and> set (map key xs) \<inter> set seen = {}"
proof (induction xs arbitrary: seen)
  case (Cons x xs)
  have "(\<exists>t. fold_result step (x # xs) seen = Inr t) \<longleftrightarrow>
      ok x \<and> key x \<notin> set seen \<and> (\<exists>t. fold_result step xs (key x # seen) = Inr t)"
    by (auto simp: assms)
  then show ?case by (auto simp: Cons.IH)
qed simp

definition same_set :: "'a list \<Rightarrow> 'a list \<Rightarrow> bool" where
  "same_set xs ys \<longleftrightarrow> set xs = set ys"

definition int_in :: "json \<Rightarrow> int \<Rightarrow> int \<Rightarrow> bool" where
  "int_in v lo hi \<longleftrightarrow> is_int v \<and> lo \<le> int_of v \<and> int_of v \<le> hi"

lemma int_in_iff: "int_in v lo hi \<longleftrightarrow> (\<exists>i. v = JInt i \<and> lo \<le> i \<and> i \<le> hi)"
  by (cases v) (auto simp: int_in_def)

definition all_str :: "json list \<Rightarrow> bool" where
  "all_str xs \<longleftrightarrow> list_all is_str xs"

section \<open>Identifiers and addresses\<close>

definition is_identifier :: "string \<Rightarrow> bool" where
  "is_identifier s \<longleftrightarrow>
     (case s of c # cs \<Rightarrow> (is_alpha c \<or> c = CHR ''_'') \<and> list_all is_word_char cs | [] \<Rightarrow> False)"

definition vk_name :: "string \<Rightarrow> bool" where
  "vk_name s \<longleftrightarrow> starts_with ''VK_'' s \<and> 3 < length s \<and> list_all is_word_char (drop 3 s)"

definition is_address :: "string \<Rightarrow> bool" where
  "is_address s \<longleftrightarrow> starts_with ''0x'' s \<and> 2 < length s \<and> list_all is_lower_hex (drop 2 s)"

definition address_value :: "string \<Rightarrow> int" where
  "address_value s = hex_int (drop 2 s)"

definition file_name_ok :: "string \<Rightarrow> bool" where
  "file_name_ok s \<longleftrightarrow>
     (case s of
        c # cs \<Rightarrow> (is_alpha c \<or> is_digit c) \<and>
          list_all (\<lambda>d. is_word_char d \<or> d = CHR ''.'' \<or> d = CHR ''-'') cs
      | [] \<Rightarrow> False)"

section \<open>Files\<close>

text \<open>\<open>json.loads(Path(path).read_text(), ...)\<close>; line endings make no difference to JSON.\<close>

definition load_text :: "pairs_hook \<Rightarrow> constant_hook \<Rightarrow> fs \<Rightarrow> path \<Rightarrow> json result" where
  "load_text hook const f p =
     bind_result (read_bytes f p) (\<lambda>b. bind_result (decode_utf8 b) (loads hook const))"

section \<open>Compact JSON\<close>

definition json_float :: "pyfloat \<Rightarrow> string" where
  "json_float x =
     (case x of NaN \<Rightarrow> ''NaN'' | PosInf \<Rightarrow> ''Infinity'' | NegInf \<Rightarrow> ''-Infinity'' | _ \<Rightarrow> float_repr x)"

fun compact :: "json \<Rightarrow> string" where
  "compact JNull = ''null''"
| "compact (JBool b) = (if b then ''true'' else ''false'')"
| "compact (JInt i) = show_int i"
| "compact (JFloat x) = json_float x"
| "compact (JStr s) = encode_str s"
| "compact (JList xs) = ''['' @ join_with '','' (map compact xs) @ '']''"
| "compact (JObj d) =
     ''{'' @ join_with '','' (map (\<lambda>(k, t). encode_str k @ '':'' @ t)
       (sort_key fst (map (\<lambda>(k, v). (k, compact v)) d))) @ ''}''"

definition newline_char :: char where "newline_char = CHR 0x0A"

definition backslash :: string where "backslash = [CHR 0x5C]"

lemma plain_escape:
  "list_all is_word_char s \<Longrightarrow> escape s = s"
proof (induction s)
  case (Cons c s)
  then have c: "is_word_char c" and IH: "escape s = s" by auto
  from c have "48 \<le> code c \<and> code c \<le> 57 \<or> 65 \<le> code c \<and> code c \<le> 90 \<or> code c = 95 \<or>
      97 \<le> code c \<and> code c \<le> 122"
    by (auto simp: is_word_char_def is_alpha_def is_digit_def code_literal)
  then have "code c < 127" "32 \<le> code c" "code c \<noteq> 34" "code c \<noteq> 92" by auto
  moreover from this have "c \<noteq> CHR 0x22" "c \<noteq> CHR 0x5C" "c \<noteq> CHR 0x0A" "c \<noteq> CHR 0x0D" "c \<noteq> CHR 0x09"
      "c \<noteq> CHR 0x0C" "c \<noteq> CHR 0x08"
    by (auto simp: code_literal)
  ultimately show ?case using IH by (simp add: ascii_escape_def)
qed simp

lemma vk_name_chars: "vk_name s \<Longrightarrow> list_all is_word_char s"
proof -
  assume "vk_name s"
  then have s: "s = ''VK_'' @ drop 3 s" and d: "list_all is_word_char (drop 3 s)"
    unfolding vk_name_def starts_with_def by (metis append_take_drop_id length_Cons list.size(3) numeral_3_eq_3, simp)
  have "list_all is_word_char ''VK_''" by (simp add: is_word_char_def is_alpha_def code_literal)
  with d have "list_all is_word_char (''VK_'' @ drop 3 s)" by simp
  with s show ?thesis by simp
qed

end
