(* ===== verification/JsonForms.thy ===== *)
theory JsonForms
  imports Checks FileOps
begin

text \<open>
  The other forms of \<open>json.dumps\<close> in the repository: on one line or indented by two, with the keys in
  their own order or sorted, and with the default \<open>allow_nan=True\<close>; and two operations on dynamic
  values, \<open>len\<close> and \<open>in\<close>.
\<close>

fun render :: "bool \<Rightarrow> nat option \<Rightarrow> json \<Rightarrow> string" where
  "render by_key k JNull = ''null''"
| "render by_key k (JBool b) = (if b then ''true'' else ''false'')"
| "render by_key k (JInt i) = show_int i"
| "render by_key k (JFloat x) = json_float x"
| "render by_key k (JStr s) = encode_str s"
| "render by_key k (JList xs) =
     (let items = map (render by_key (map_option Suc k)) xs in
      case k of
        None \<Rightarrow> ''['' @ join_with '', '' items @ '']''
      | Some n \<Rightarrow> bracket (CHR ''['') (CHR '']'') n items)"
| "render by_key k (JObj d) =
     (let rendered = map (\<lambda>(key, v). (key, render by_key (map_option Suc k) v)) d;
          items = map (\<lambda>(key, t). encode_str key @ '': '' @ t)
            (if by_key then sort_key fst rendered else rendered) in
      case k of
        None \<Rightarrow> ''{'' @ join_with '', '' items @ ''}''
      | Some n \<Rightarrow> bracket (CHR ''{'') (CHR ''}'') n items)"

text \<open>\<open>dumps(v, indent=2)\<close> and \<open>dumps(v)\<close>, each with or without \<open>sort_keys\<close>.\<close>

definition indented :: "bool \<Rightarrow> json \<Rightarrow> string" where
  "indented by_key v = render by_key (Some 0) v"

definition one_line :: "bool \<Rightarrow> json \<Rightarrow> string" where
  "one_line by_key v = render by_key None v"

definition write_text_file :: "fs \<Rightarrow> path \<Rightarrow> string \<Rightarrow> fs result" where
  "write_text_file f p t = write_bytes f p (t @ [newline_char])"

text \<open>Strings are UTF-8 here; a code point has one byte that is not a continuation byte.\<close>

definition code_points :: "string \<Rightarrow> int" where
  "code_points s = int (length (filter (\<lambda>c. code c < 128 \<or> 192 \<le> code c) s))"

definition py_len :: "json \<Rightarrow> int result" where
  "py_len v =
     (case v of
        JStr s \<Rightarrow> Inr (code_points s)
      | JList xs \<Rightarrow> Inr (int (length xs))
      | JObj d \<Rightarrow> Inr (int (length d))
      | _ \<Rightarrow> Inl (TypeError ''object has no len()''))"

text \<open>\<open>s in v\<close> for a string \<open>s\<close>.\<close>

definition py_in :: "string \<Rightarrow> json \<Rightarrow> bool result" where
  "py_in s v =
     (case v of
        JStr t \<Rightarrow> Inr (contains_text s t)
      | JList xs \<Rightarrow> Inr (list_ex (\<lambda>x. x = JStr s) xs)
      | JObj d \<Rightarrow> Inr (s \<in> set (map fst d))
      | _ \<Rightarrow> Inl (TypeError ''argument is not iterable''))"

definition no_attribute :: "string \<Rightarrow> py_error" where
  "no_attribute name = AttributeError (''object has no attribute '' @ repr_str name)"

text \<open>\<open>v.get(k, d)\<close>: only a dictionary has the method.\<close>

definition py_get :: "string \<Rightarrow> json \<Rightarrow> json \<Rightarrow> json result" where
  "py_get k d v =
     (case v of
        JObj m \<Rightarrow> Inr (case map_of m k of Some x \<Rightarrow> x | None \<Rightarrow> d)
      | _ \<Rightarrow> Inl (no_attribute ''get''))"

text \<open>\<open>v[k]\<close> for a string \<open>k\<close>.\<close>

definition py_item :: "string \<Rightarrow> json \<Rightarrow> json result" where
  "py_item k v =
     (case v of
        JObj m \<Rightarrow> (case map_of m k of Some x \<Rightarrow> Inr x | None \<Rightarrow> Inl (KeyError (repr_str k)))
      | _ \<Rightarrow> Inl (TypeError ''object is not subscriptable by str''))"

lemma py_get_obj [simp]: "py_get k d (JObj m) = Inr (case map_of m k of Some x \<Rightarrow> x | None \<Rightarrow> d)"
  by (simp add: py_get_def)

lemma py_get_Inr: "py_get k d v = Inr x \<longleftrightarrow> (\<exists>m. v = JObj m \<and> x = (case map_of m k of Some y \<Rightarrow> y | None \<Rightarrow> d))"
  by (cases v) (auto simp: py_get_def)

end
