(* ===== verification/TextRecords.thy ===== *)
theory TextRecords
  imports Files
begin

text \<open>
  The text records the Vulkan diagnostics write: lines, words and \<open>key=value\<close> fields, as
  \<open>str.splitlines\<close>, \<open>str.split\<close>, \<open>str.partition\<close> and \<open>int\<close> read them. The decoded text is given by
  its UTF-8 bytes; \<open>read_text\<close> turns carriage returns into line feeds, which \<open>splitlines\<close> does not
  tell apart. Decimal digits outside ASCII count as no digits.
\<close>

section \<open>Lines\<close>

text \<open>The length of the line break a text starts with; 0 for none.\<close>

definition line_break1 :: "char \<Rightarrow> bool" where
  "line_break1 a \<longleftrightarrow> 10 \<le> code a \<and> code a \<le> 13 \<or> 28 \<le> code a \<and> code a \<le> 30"

definition line_break2 :: "char \<Rightarrow> char \<Rightarrow> bool" where
  "line_break2 a b \<longleftrightarrow> code a = 13 \<and> code b = 10 \<or> code a = 194 \<and> code b = 133"

definition line_break3 :: "char \<Rightarrow> char \<Rightarrow> char \<Rightarrow> bool" where
  "line_break3 a b c \<longleftrightarrow> code a = 226 \<and> code b = 128 \<and> (code c = 168 \<or> code c = 169)"

fun break_length :: "string \<Rightarrow> nat" where
  "break_length [] = 0"
| "break_length (a # s) =
     (case s of
        b # c # _ \<Rightarrow> if line_break2 a b then 2 else if line_break1 a then 1
          else if line_break3 a b c then 3 else 0
      | [b] \<Rightarrow> if line_break2 a b then 2 else if line_break1 a then 1 else 0
      | [] \<Rightarrow> if line_break1 a then 1 else 0)"

lemma line_break_code [code]:
  "line_break1 a \<longleftrightarrow> (let n = (of_char a :: int) in 10 \<le> n \<and> n \<le> 13 \<or> 28 \<le> n \<and> n \<le> 30)"
  "line_break2 a b \<longleftrightarrow>
     (let m = (of_char a :: int); n = (of_char b :: int) in m = 13 \<and> n = 10 \<or> m = 194 \<and> n = 133)"
  "line_break3 a b c \<longleftrightarrow>
     (let l = (of_char a :: int) in
      l = 226 \<and> (of_char b :: int) = 128 \<and> ((of_char c :: int) = 168 \<or> (of_char c :: int) = 169))"
  unfolding line_break1_def line_break2_def line_break3_def Let_def code_eq_int [symmetric] by auto

function cut_lines :: "string \<Rightarrow> string \<Rightarrow> string list" where
  "cut_lines w [] = (if w = [] then [] else [w])"
| "cut_lines w (c # s) =
     (case break_length (c # s) of
        0 \<Rightarrow> cut_lines (w @ [c]) s
      | Suc n \<Rightarrow> w # cut_lines [] (drop n s))"
  by pat_completeness auto
termination
  by (relation "measure (\<lambda>(w, s). length s)") auto

definition splitlines :: "string \<Rightarrow> string list" where
  "splitlines s = cut_lines [] s"

definition read_text :: "fs \<Rightarrow> path \<Rightarrow> string result" where
  "read_text f p = bind_result (read_bytes f p) decode_utf8"

definition read_lines :: "fs \<Rightarrow> path \<Rightarrow> string list result" where
  "read_lines f p = bind_result (read_text f p) (\<lambda>s. Inr (splitlines s))"

section \<open>Words and fields\<close>

fun space_length :: "string \<Rightarrow> nat" where
  "space_length [] = 0"
| "space_length (a # s) =
     (if ascii_space a then 1
      else case s of
        b # c # _ \<Rightarrow> if wide_space2 a b then 2 else if wide_space3 a b c then 3 else 0
      | [b] \<Rightarrow> if wide_space2 a b then 2 else 0
      | [] \<Rightarrow> 0)"

definition emit :: "string \<Rightarrow> string list" where
  "emit w = (if w = [] then [] else [w])"

function cut_words :: "string \<Rightarrow> string \<Rightarrow> string list" where
  "cut_words w [] = emit w"
| "cut_words w (c # s) =
     (case space_length (c # s) of
        0 \<Rightarrow> cut_words (w @ [c]) s
      | Suc n \<Rightarrow> emit w @ cut_words [] (drop n s))"
  by pat_completeness auto
termination
  by (relation "measure (\<lambda>(w, s). length s)") auto

definition split_words :: "string \<Rightarrow> string list" where
  "split_words s = cut_words [] s"

text \<open>\<open>s.partition(c)\<close>: the text before, whether the separator occurs, the text after.\<close>

fun partition_at :: "char \<Rightarrow> string \<Rightarrow> string \<times> bool \<times> string" where
  "partition_at d [] = ([], False, [])"
| "partition_at d (c # s) =
     (if c = d then ([], True, s)
      else case partition_at d s of (k, found, v) \<Rightarrow> (c # k, found, v))"

definition equals_sign :: char where "equals_sign = CHR ''=''"

type_synonym tags = "(string \<times> string) list"

definition tag_step :: "string \<Rightarrow> tags \<Rightarrow> tags" where
  "tag_step token d =
     (case partition_at equals_sign token of (k, found, v) \<Rightarrow> if found then dict_set k v d else d)"

definition parse_line :: "string \<Rightarrow> tags" where
  "parse_line line = fold tag_step (split_words line) []"

definition tag :: "string \<Rightarrow> tags \<Rightarrow> string option" where
  "tag k d = map_of d k"

definition need_tag :: "string \<Rightarrow> tags \<Rightarrow> string result" where
  "need_tag k d = (case map_of d k of None \<Rightarrow> Inl (KeyError (repr_str k)) | Some v \<Rightarrow> Inr v)"

section \<open>Numbers in text\<close>

text \<open>Digits with single underscores between them; \<open>None\<close> for anything else.\<close>

fun digit_run :: "(char \<Rightarrow> bool) \<Rightarrow> bool \<Rightarrow> string \<Rightarrow> string option" where
  "digit_run ok lead [] = (if lead then None else Some [])"
| "digit_run ok lead (c # s) =
     (if ok c then map_option ((#) c) (digit_run ok False s)
      else if c = CHR ''_'' \<and> \<not> lead then digit_run ok True s
      else None)"

definition base_value :: "int \<Rightarrow> string \<Rightarrow> int" where
  "base_value b s = foldl (\<lambda>n c. b * n + hex_value c) 0 s"

definition base_digit :: "int \<Rightarrow> char \<Rightarrow> bool" where
  "base_digit b c \<longleftrightarrow> is_any_hex c \<and> hex_value c < b"

definition base_prefix :: "int \<Rightarrow> string \<Rightarrow> bool" where
  "base_prefix b s \<longleftrightarrow>
     (case map lower_char (take 2 s) of
        [z, x] \<Rightarrow> z = CHR ''0'' \<and>
          (b = 16 \<and> x = CHR ''x'' \<or> b = 8 \<and> x = CHR ''o'' \<or> b = 2 \<and> x = CHR ''b'')
      | _ \<Rightarrow> False)"

text \<open>After a prefix one underscore may stand in front of the digits.\<close>

definition after_prefix :: "string \<Rightarrow> string" where
  "after_prefix s = (let t = drop 2 s in if starts_with ''_'' t then drop 1 t else t)"

definition digit_limit :: int where "digit_limit = 4300"

definition unsigned_int :: "int \<Rightarrow> string \<Rightarrow> int option" where
  "unsigned_int b s =
     (if b = 10 then
        case digit_run (base_digit 10) True s of
          None \<Rightarrow> None
        | Some ds \<Rightarrow> if digit_limit < int (length ds) then None else Some (base_value 10 ds)
      else map_option (base_value b)
        (digit_run (base_digit b) True (if base_prefix b s then after_prefix s else s)))"

definition literal_int :: "string \<Rightarrow> int option" where
  "literal_int s =
     (if base_prefix 16 s then unsigned_int 16 s
      else if base_prefix 8 s then unsigned_int 8 s
      else if base_prefix 2 s then unsigned_int 2 s
      else case unsigned_int 10 s of
        None \<Rightarrow> None
      | Some i \<Rightarrow> if starts_with ''0'' s \<and> i \<noteq> 0 then None else Some i)"

text \<open>\<open>int(s)\<close>, \<open>int(s, 16)\<close> and, with base 0, the integer literals.\<close>

definition int_text :: "int \<Rightarrow> string \<Rightarrow> int option" where
  "int_text b s =
     (let t = strip s; f = (if b = 0 then literal_int else unsigned_int b) in
      if starts_with ''-'' t then map_option uminus (f (drop 1 t))
      else if starts_with ''+'' t then f (drop 1 t)
      else f t)"

definition py_int :: "int \<Rightarrow> string \<Rightarrow> int result" where
  "py_int b s =
     (case int_text b s of
        None \<Rightarrow> Inl (ValueError (''invalid literal for int() with base '' @ show_int b @ '': '' @ repr_str s))
      | Some i \<Rightarrow> Inr i)"

definition int_field :: "string \<Rightarrow> tags \<Rightarrow> int result" where
  "int_field k d = bind_result (need_tag k d) (py_int 10)"

section \<open>Facts\<close>

definition plain_char :: "char \<Rightarrow> bool" where
  "plain_char c \<longleftrightarrow> 32 < code c \<and> code c < 127"

definition line_char :: "char \<Rightarrow> bool" where
  "line_char c \<longleftrightarrow> 32 \<le> code c \<and> code c < 127"

lemma break_length_line: "line_char c \<Longrightarrow> break_length (c # s) = 0"
  by (auto simp: line_char_def line_break1_def line_break2_def line_break3_def split: list.split)

lemma break_length_newline: "break_length (CHR 0x0A # s) = 1"
  by (simp add: line_break1_def line_break2_def line_break3_def split: list.split)

lemma cut_lines_line:
  "list_all line_char l \<Longrightarrow> cut_lines w (l @ CHR 0x0A # s) = (w @ l) # cut_lines [] s"
proof (induction l arbitrary: w)
  case (Cons c l)
  then show ?case by (simp add: break_length_line del: break_length.simps)
qed (simp add: break_length_newline del: break_length.simps)

text \<open>Printable lines that are written with a line feed each are read back.\<close>

lemma splitlines_join:
  "list_all (list_all line_char) ls \<Longrightarrow> splitlines (concat (map (\<lambda>l. l @ [CHR 0x0A]) ls)) = ls"
  by (induction ls) (simp_all add: splitlines_def cut_lines_line del: cut_lines.simps(2))

lemma space_length_plain: "plain_char c \<Longrightarrow> space_length (c # s) = 0"
  by (auto simp: plain_char_def ascii_space_def wide_space2_def wide_space3_def split: list.split)

lemma cut_words_word:
  "list_all plain_char l \<Longrightarrow> cut_words w (l @ CHR 0x20 # s) = emit (w @ l) @ cut_words [] s"
proof (induction l arbitrary: w)
  case (Cons c l)
  then show ?case by (simp add: space_length_plain del: space_length.simps)
qed (simp add: ascii_space_def code_literal)

lemma cut_words_last: "list_all plain_char l \<Longrightarrow> cut_words w l = emit (w @ l)"
proof (induction l arbitrary: w)
  case (Cons c l)
  then show ?case by (simp add: space_length_plain del: space_length.simps)
qed simp

lemma split_words_join:
  "list_all (list_all plain_char) ws \<Longrightarrow> [] \<notin> set ws \<Longrightarrow> split_words (join_with '' '' ws) = ws"
  unfolding split_words_def
proof (induction "'' ''" ws rule: join_with.induct)
  case (2 w)
  then show ?case by (simp add: cut_words_last emit_def)
next
  case (3 w w' ws)
  from 3 have "w \<noteq> []" by auto
  with 3 show ?case by (simp add: cut_words_word emit_def del: cut_words.simps(2))
qed (simp add: emit_def)

lemma partition_at_found: "d \<notin> set k \<Longrightarrow> partition_at d (k @ d # v) = (k, True, v)"
  by (induction k) auto

lemma partition_at_missing: "d \<notin> set s \<Longrightarrow> partition_at d s = (s, False, [])"
  by (induction s) auto

lemma digit_run_digits: "list_all ok ds \<Longrightarrow> ds \<noteq> [] \<or> \<not> lead \<Longrightarrow> digit_run ok lead ds = Some ds"
  by (induction ds arbitrary: lead) auto

end
