(* ===== verification/StageChecker.thy ===== *)
theory StageChecker
  imports Effects FileOps JsonForms TextRecords
begin

text \<open>
  What the Unreal stage checkers share (\<open>check_ue_interchange.py\<close>, \<open>check_ue_parser.py\<close>,
  \<open>check_ue_worker.py\<close>, \<open>check_staticmesh.py\<close>, \<open>check_legacy_hierarchy.py\<close>, \<open>check_carla_asset.py\<close>): the
  readers of native output, the identity and check list of a native report, guarded sections that turn an
  exception into an error message, and the diagnostic and stage report at the end. The state is what the
  functions keep in their local dictionaries. Directory listings and subprocesses are parameters.
\<close>

section \<open>State\<close>

record checker =
  ck_files :: fs
  ck_checks :: "(string \<times> string) list"
  ck_errors :: "string list"
  ck_evidence :: "(string \<times> path) list"
  ck_prerequisites :: "(string \<times> string \<times> string) list"

type_synonym 'a ck = "(checker, 'a) effect"

datatype tool_end = Exited int | TimedOut | NotStarted string

text \<open>
  \<open>ch_below\<close> is what \<open>rglob("*")\<close> yields for a directory; \<open>ch_tool\<close> is a
  subprocess: the files it leaves, its output and how it ends.
\<close>

record checker_host =
  ch_host :: host
  ch_now :: string
  ch_below :: "fs \<Rightarrow> path \<Rightarrow> path list"
  ch_tool :: "string list \<Rightarrow> fs \<Rightarrow> fs \<times> bytes \<times> tool_end"
  ch_script :: path

definition pass :: "string \<Rightarrow> unit ck" where
  "pass n = put_state (\<lambda>s. s\<lparr>ck_checks := dict_set n ''PASS'' (ck_checks s)\<rparr>)"

definition set_status :: "string \<Rightarrow> bool \<Rightarrow> unit ck" where
  "set_status n ok = put_state (\<lambda>s. s\<lparr>ck_checks := dict_set n (if ok then ''PASS'' else ''FAIL'') (ck_checks s)\<rparr>)"

definition cite :: "string \<Rightarrow> path \<Rightarrow> unit ck" where
  "cite n p = put_state (\<lambda>s. s\<lparr>ck_evidence := dict_set n p (ck_evidence s)\<rparr>)"

definition cite_all :: "(string \<times> path) list \<Rightarrow> unit ck" where
  "cite_all xs = put_state (\<lambda>s. s\<lparr>ck_evidence := fold (\<lambda>(n, p). dict_set n p) xs (ck_evidence s)\<rparr>)"

definition complain :: "string \<Rightarrow> unit ck" where
  "complain m = put_state (\<lambda>s. s\<lparr>ck_errors := ck_errors s @ [m]\<rparr>)"

definition with_files :: "(fs \<Rightarrow> 'a result) \<Rightarrow> 'a ck" where
  "with_files g = and_then (get_state ck_files) (\<lambda>f. lift (g f))"

definition on_files :: "(fs \<Rightarrow> fs result) \<Rightarrow> unit ck" where
  "on_files g = (\<lambda>s. case g (ck_files s) of Inl e \<Rightarrow> (Inl e, s) | Inr f \<Rightarrow> (Inr (), s\<lparr>ck_files := f\<rparr>))"

text \<open>\<open>try: ... except (...) as error: errors.append(str(error))\<close>.\<close>

definition guarded_section :: "(py_error \<Rightarrow> bool) \<Rightarrow> unit ck \<Rightarrow> unit ck" where
  "guarded_section caught m = handle m (\<lambda>e. if caught e then complain (error_text e) else raise e)"

text \<open>The states in between when a sequence of steps returns.\<close>

lemma and_then_Inr: "and_then m k s = (Inr x, t) \<longleftrightarrow> (\<exists>y u. m s = (Inr y, u) \<and> k y u = (Inr x, t))"
  by (auto simp: and_then_run split: prod.splits sum.splits)

lemma then_do_Inr: "then_do m k s = (Inr x, t) \<longleftrightarrow> (\<exists>y u. m s = (Inr y, u) \<and> k u = (Inr x, t))"
  by (simp add: then_do_def and_then_Inr)

section \<open>Readers\<close>

definition checker_object :: pairs_hook where
  "checker_object = distinct_dict (\<lambda>k. ''duplicate JSON key: '' @ k)"

definition checker_constant :: constant_hook where
  "checker_constant = reject_constant ''non-finite JSON value: ''"

definition read_json :: "fs \<Rightarrow> path \<Rightarrow> json result" where
  "read_json f p = load_text checker_object checker_constant f p"

definition elf_magic :: bytes where
  "elf_magic = [CHR 0x7F, CHR ''E'', CHR ''L'', CHR ''F'', CHR 0x02, CHR 0x01]"

definition native_elf :: "fs \<Rightarrow> path \<Rightarrow> bool result" where
  "native_elf f p =
     bind_result (read_bytes f p) (\<lambda>b.
       let data = take 20 b in
       Inr (length data = 20 \<and> take 6 data = elf_magic \<and> drop 18 data = [CHR 0xB7, CHR 0x00]))"

text \<open>\<open>str(Path(v))\<close>.\<close>

definition pure_path_text :: "string \<Rightarrow> string" where
  "pure_path_text v =
     (if is_absolute v then path_text (components v)
      else if components v = [] then ''.'' else join_with ''/'' (components v))"

definition suffix_of :: "string \<Rightarrow> string" where
  "suffix_of name =
     (let tail = takeWhile (\<lambda>c. c \<noteq> CHR ''.'') (rev name); n = length name - length tail in
      if length tail = length name \<or> tail = [] \<or> n \<le> 1 then [] else CHR ''.'' # rev tail)"

text \<open>\<open>path.parents\<close>, nearest first.\<close>

fun parents :: "path \<Rightarrow> path list" where
  "parents p = (case p of [] \<Rightarrow> [] | c # cs \<Rightarrow> butlast p # (if cs = [] then [] else parents (butlast p)))"

definition linked_parent :: "fs \<Rightarrow> path \<Rightarrow> path \<Rightarrow> bool" where
  "linked_parent f base p \<longleftrightarrow> list_ex (is_link f) (takeWhile (\<lambda>q. q \<noteq> base) (parents p))"

section \<open>Native reports\<close>

definition has_identity :: "string \<Rightarrow> string \<Rightarrow> json \<Rightarrow> bool" where
  "has_identity stage scope data \<longleftrightarrow>
     is_obj data \<and> field ''stage'' data = JStr stage \<and> field ''scope'' data = JStr scope \<and>
     field ''status'' data = JStr ''PASS'' \<and> field ''error'' data = JStr []"

text \<open>The source file is read only when everything before it in the condition holds.\<close>

definition check_identity ::
  "host \<Rightarrow> fs \<Rightarrow> string \<Rightarrow> string \<Rightarrow> json \<Rightarrow> path \<Rightarrow> string \<Rightarrow> unit result"
where
  "check_identity h f stage scope data fixture msg =
     req (has_identity stage scope data) msg
     (bind_result (sha256_file h f fixture) (\<lambda>d. require (field ''source_sha256'' data = JStr d) msg))"

type_synonym expected_checks = "(string \<times> nat) list"

definition expected_total :: "expected_checks \<Rightarrow> nat" where
  "expected_total ex = sum_list (map snd ex)"

text \<open>\<open>Counter(names) == EXPECTED\<close>.\<close>

definition counts_match :: "string list \<Rightarrow> expected_checks \<Rightarrow> bool" where
  "counts_match names ex \<longleftrightarrow>
     length names = expected_total ex \<and> list_all (\<lambda>(n, k). count_list names n = k) ex"

definition check_names :: "expected_checks \<Rightarrow> json \<Rightarrow> string \<Rightarrow> unit result" where
  "check_names ex data msg =
     (let names = field ''checks'' data in
      require (is_list names \<and> all_str (list_items names) \<and> counts_match (map str_of (list_items names)) ex \<and>
          field ''self_tests'' data = JInt (int (expected_total ex))) msg)"

section \<open>Output files\<close>

definition output_ok :: "fs \<Rightarrow> path \<Rightarrow> string \<Rightarrow> bool result" where
  "output_ok f area v =
     (if is_absolute v \<and> \<not> is_link f (components v) \<and> is_file f (components v) then
        bind_result (resolve f [] v) (\<lambda>p. Inr (is_under p area \<and> 0 < file_size f (components v)))
      else Inr False)"

definition check_output :: "fs \<Rightarrow> path \<Rightarrow> path \<Rightarrow> string \<Rightarrow> string \<Rightarrow> string \<Rightarrow> path result" where
  "check_output f base area unsafe linked v =
     bind_result (output_ok f area v) (\<lambda>ok.
     req ok unsafe
     (req (\<not> linked_parent f base (components v)) linked (Inr (components v))))"

definition suffix_count :: "string \<Rightarrow> path list \<Rightarrow> nat" where
  "suffix_count s ps = length (filter (\<lambda>p. suffix_of (base_name p) = s) ps)"

definition distinct_outputs :: "path list \<Rightarrow> nat \<Rightarrow> nat \<Rightarrow> bool" where
  "distinct_outputs ps itc payload \<longleftrightarrow>
     distinct ps \<and> length ps = itc + payload \<and> suffix_count ''.itc'' ps = itc \<and>
     suffix_count ''.payload'' ps = payload"

definition check_outputs ::
  "fs \<Rightarrow> path \<Rightarrow> path \<Rightarrow> json \<Rightarrow> nat \<Rightarrow> nat \<Rightarrow> string \<Rightarrow> string \<Rightarrow> string \<Rightarrow> string \<Rightarrow> path list result"
where
  "check_outputs f base area files itc payload incomplete unsafe linked kinds =
     req (is_list files \<and> length (list_items files) = itc + payload \<and> all_str (list_items files)) incomplete
     (bind_result (map_result (check_output f base area unsafe linked) (map str_of (list_items files))) (\<lambda>ps.
      req (distinct_outputs ps itc payload) kinds (Inr ps)))"

section \<open>The end of a checker\<close>

definition ufbx_stage :: string where "ufbx_stage = ''ufbx-fbx-static-backend''"

definition ufbx_scope :: string where
  "ufbx_scope = ''ufbx static FBX backend only; not Autodesk SDK ABI, UE Editor/Cook or RPC''"

definition ufbx_prerequisite :: "checker_host \<Rightarrow> string \<Rightarrow> unit ck" where
  "ufbx_prerequisite ch report =
     guarded_section os_or_value
       (then_do (with_files (\<lambda>f. validate_report (ch_host ch) f (pure_path_text report) ufbx_stage ufbx_scope))
       (then_do (put_state (\<lambda>s. s\<lparr>ck_prerequisites := ck_prerequisites s @
           [(ufbx_stage, ufbx_scope, pure_path_text report)]\<rparr>))
       (pass ''prerequisite'')))"

definition diagnostic_json :: "string \<Rightarrow> int \<Rightarrow> string list \<Rightarrow> json" where
  "diagnostic_json key rc errs = JObj [(''errors'', JList (map JStr errs)), (key, JInt rc)]"

definition write_diagnostic :: "path \<Rightarrow> string \<Rightarrow> int \<Rightarrow> unit ck" where
  "write_diagnostic p key rc =
     and_then (get_state ck_errors) (\<lambda>errs.
     then_do (on_files (\<lambda>f. write_text_file f p (indented False (diagnostic_json key rc errs))))
     (and_then (get_state ck_checks) (\<lambda>checks. cite_all (map (\<lambda>(n, _). (n, p)) checks))))"

text \<open>\<open>iterdir()\<close> and \<open>glob("*" + suffix)\<close>, from what lies below the directory.\<close>

definition children :: "checker_host \<Rightarrow> fs \<Rightarrow> path \<Rightarrow> path list" where
  "children ch f d = [p \<leftarrow> ch_below ch f d. length p = Suc (length d)]"

definition with_ending :: "string \<Rightarrow> path list \<Rightarrow> path list" where
  "with_ending suffix ps = [p \<leftarrow> ps. ends_with suffix (base_name p)]"

text \<open>\<open>for path in listing: if path.is_file() and path != report: evidence["run." + name] = path\<close>.\<close>

definition cite_run_files :: "path \<Rightarrow> path \<Rightarrow> (fs \<Rightarrow> path list) \<Rightarrow> unit ck" where
  "cite_run_files base report listing =
     and_then (get_state ck_files) (\<lambda>f.
       cite_all (map (\<lambda>p. (''run.'' @ join_with ''/'' (drop (length base) p), p))
         [p \<leftarrow> listing f. is_file f p \<and> p \<noteq> report]))"

definition cite_present :: "(string \<times> path) list \<Rightarrow> unit ck" where
  "cite_present xs = and_then (get_state ck_files) (\<lambda>f. cite_all [x \<leftarrow> xs. is_file f (snd x)])"

definition revision_of :: "fs \<Rightarrow> path \<Rightarrow> string result" where
  "revision_of f p = (if is_file f p then bind_result (read_text f p) (\<lambda>t. Inr (strip t)) else Inr ''unverified'')"

definition ue_source :: "string \<Rightarrow> string \<Rightarrow> string \<times> json" where
  "ue_source ue_root revision =
     (''ue'', JObj [(''location'', JStr (pure_path_text ue_root)), (''revision'', JStr revision)])"

definition all_checks_pass :: "(string \<times> string) list \<Rightarrow> bool" where
  "all_checks_pass checks \<longleftrightarrow> list_all (\<lambda>(_, v). v = ''PASS'') checks"

definition checker_args ::
  "string \<Rightarrow> string \<Rightarrow> string list \<Rightarrow> int \<Rightarrow> (string \<times> json) list \<Rightarrow> checker \<Rightarrow> write_args"
where
  "checker_args stage scope command rc sources s =
     \<lparr>wa_stage_id = stage, wa_scope = scope, wa_exit_code = JInt rc,
      wa_required = JList (map (\<lambda>(n, _). JStr n) (ck_checks s)),
      wa_checks = JObj (map (\<lambda>(n, v). (n, JStr v)) (ck_checks s)),
      wa_evidence = map (\<lambda>(n, p). (n, path_text p)) (ck_evidence s),
      wa_sources = JObj sources, wa_command = JList (map JStr command),
      wa_prerequisites = ck_prerequisites s\<rparr>"

definition checker_report ::
  "checker_host \<Rightarrow> path \<Rightarrow> (checker \<Rightarrow> write_args) \<Rightarrow> json ck"
where
  "checker_report ch p args = (\<lambda>s.
     case write_report (ch_host ch) (ck_files s) (ch_now ch) (path_text p) (args s) of
       Inl e \<Rightarrow> (Inl e, s)
     | Inr (report, f) \<Rightarrow> (Inr report, s\<lparr>ck_files := f\<rparr>))"

definition exit_status :: "json \<Rightarrow> int" where
  "exit_status report = (if field ''status'' report = JStr ''PASS'' then 0 else 1)"

definition start_checker :: "string list \<Rightarrow> fs \<Rightarrow> checker" where
  "start_checker names f =
     \<lparr>ck_files = f, ck_checks = map (\<lambda>n. (n, ''FAIL'')) names, ck_errors = [], ck_evidence = [],
      ck_prerequisites = []\<rparr>"

section \<open>Subprocesses\<close>

text \<open>\<open>subprocess.run(argv, stdout=log, stderr=STDOUT, timeout=...)\<close> with the log opened first, and with \<open>check=True\<close>.\<close>

definition run_tool :: "checker_host \<Rightarrow> string list \<Rightarrow> path \<Rightarrow> tool_end ck" where
  "run_tool ch argv out =
     then_do (on_files (\<lambda>f. write_bytes f out []))
     (and_then (get_state (\<lambda>s. ch_tool ch argv (ck_files s))) (\<lambda>(f, output, ending).
      then_do (put_state (\<lambda>s. s\<lparr>ck_files := f\<rparr>))
      (then_do (on_files (\<lambda>f. write_bytes f out output)) (ret ending))))"

definition run_checked :: "checker_host \<Rightarrow> string list \<Rightarrow> path \<Rightarrow> unit ck" where
  "run_checked ch argv out =
     and_then (run_tool ch argv out) (\<lambda>ending.
       case ending of
         Exited n \<Rightarrow> if n = 0 then ret () else raise (SubprocessError ''non-zero exit status'')
       | TimedOut \<Rightarrow> raise (SubprocessError ''timed out'')
       | NotStarted m \<Rightarrow> raise (OSError m))"

definition linkage_words :: "string list" where
  "linkage_words = [''not found'', ''undefined symbol'', ''libfbxsdk'']"

definition bad_linkage :: "string \<Rightarrow> bool" where
  "bad_linkage t \<longleftrightarrow> list_ex (\<lambda>w. contains_text w t) linkage_words"

text \<open>Which classes the sections catch.\<close>

definition section_errors :: "py_error \<Rightarrow> bool" where
  "section_errors e \<longleftrightarrow> os_or_value e \<or> (case e of TypeError _ \<Rightarrow> True | _ \<Rightarrow> False)"

definition tool_errors :: "py_error \<Rightarrow> bool" where
  "tool_errors e \<longleftrightarrow> os_or_value e \<or> (case e of SubprocessError _ \<Rightarrow> True | _ \<Rightarrow> False)"

definition build_errors :: "py_error \<Rightarrow> bool" where
  "build_errors e \<longleftrightarrow> section_errors e \<or> tool_errors e \<or> (case e of KeyError _ \<Rightarrow> True | _ \<Rightarrow> False)"

end
