(* ===== verification/NativeRun.thy ===== *)
theory NativeRun
  imports StageChecker
begin

text \<open>
  The arguments and the steps the evaluators of a native test share: the exit code of the test, the format of
  the program, a native log of another tool, and the confirmation of a report that says PASS.
\<close>

record native_args =
  na_program :: string
  na_input :: string
  na_run_dir :: string
  na_ue_root :: string
  na_ufbx_report :: string
  na_exit_code :: int

definition program_of :: "checker_host \<Rightarrow> native_args \<Rightarrow> path" where
  "program_of ch a = absolute (ch_host ch) (na_program a)"

definition fixture_of :: "checker_host \<Rightarrow> native_args \<Rightarrow> path" where
  "fixture_of ch a = absolute (ch_host ch) (na_input a)"

definition cite_outputs :: "path list \<Rightarrow> unit ck" where
  "cite_outputs ps = cite_all (map (\<lambda>(i, p). (''output.'' @ show_nat i, p)) (enumerate 0 ps))"

definition is_regular :: "path \<Rightarrow> bool ck" where
  "is_regular p = get_state (\<lambda>s. is_file (ck_files s) p)"

definition check_exit :: "string \<Rightarrow> int \<Rightarrow> unit ck" where
  "check_exit label rc = check (rc = 0) (label @ show_int rc)"

definition check_elf :: "path \<Rightarrow> string \<Rightarrow> unit ck" where
  "check_elf p msg = and_then (with_files (\<lambda>f. native_elf f p)) (\<lambda>ok. check ok msg)"

definition native_command :: "native_args \<Rightarrow> string list \<Rightarrow> string list" where
  "native_command a flags = pure_path_text (na_program a) # flags"

definition input_flag :: "native_args \<Rightarrow> string" where
  "input_flag a = ''-input='' @ pure_path_text (na_input a)"

definition strict_code :: "checker \<Rightarrow> int" where
  "strict_code s = (if ck_errors s = [] \<and> all_checks_pass (ck_checks s) then 0 else 1)"

definition cite_program :: "checker_host \<Rightarrow> native_args \<Rightarrow> string \<Rightarrow> unit ck" where
  "cite_program ch a name =
     cite_present [(''program'', program_of ch a), (''fixture'', fixture_of ch a), (name, ch_script ch)]"

text \<open>A report that says PASS is validated once more.\<close>

definition confirmed :: "checker_host \<Rightarrow> path \<Rightarrow> string \<Rightarrow> string \<Rightarrow> json \<Rightarrow> json ck" where
  "confirmed ch p stage scope report =
     (if field ''status'' report = JStr ''PASS'' then
        then_do (with_files (\<lambda>f. validate_report (ch_host ch) f (path_text p) stage scope)) (ret report)
      else ret report)"

definition deployed_folder :: "host \<Rightarrow> path \<Rightarrow> string \<Rightarrow> fs \<Rightarrow> path result" where
  "deployed_folder h base name f =
     bind_result (read_text f (base @ [name])) (\<lambda>t. Inr (join_path (cwd h) (strip t)))"

text \<open>\<open>run_dir.resolve()\<close>, with the directory made or not, and no report in it.\<close>

definition open_run ::
  "checker_host \<Rightarrow> fs \<Rightarrow> string \<Rightarrow> (fs \<Rightarrow> path \<Rightarrow> fs result) \<Rightarrow> (fs \<Rightarrow> path \<Rightarrow> bool) \<Rightarrow> string \<Rightarrow> (path \<times> fs) result"
where
  "open_run ch f run_dir mk free msg =
     bind_result (resolve f (cwd (ch_host ch)) run_dir) (\<lambda>base.
     bind_result (mk f base) (\<lambda>f1.
     req (free f1 (base @ [''stage-report.json''])) msg (Inr (base, f1))))"

definition make_all :: "fs \<Rightarrow> path \<Rightarrow> fs result" where
  "make_all f p = make_dirs f [] p"

definition make_none :: "fs \<Rightarrow> path \<Rightarrow> fs result" where
  "make_none f p = Inr f"

definition run_opened ::
  "string list \<Rightarrow> (path \<Rightarrow> json ck) \<Rightarrow> fs \<Rightarrow> (path \<times> fs) result \<Rightarrow> json result \<times> fs"
where
  "run_opened names body f opened =
     (case opened of
        Inl e \<Rightarrow> (Inl e, f)
      | Inr (base, f1) \<Rightarrow> (case body base (start_checker names f1) of (r, s) \<Rightarrow> (r, ck_files s)))"

section \<open>Steps of the asset and hierarchy checkers\<close>

definition check_regular :: "path \<Rightarrow> string \<Rightarrow> unit ck" where
  "check_regular p msg = and_then (is_regular p) (\<lambda>ok. check ok msg)"

definition check_linkage :: "checker_host \<Rightarrow> native_args \<Rightarrow> path \<Rightarrow> unit ck" where
  "check_linkage ch a base =
     (let out = base @ [''linkage-validation.log''] in
      then_do (run_checked ch [''ldd'', ''-r'', pure_path_text (na_program a)] out)
      (and_then (with_files (\<lambda>f. read_text f out)) (\<lambda>t.
       check (\<not> bad_linkage t) ''unresolved or SDK runtime dependency'')))"

definition check_sources :: "checker_host \<Rightarrow> path \<Rightarrow> unit ck" where
  "check_sources ch base =
     run_checked ch [''sha256sum'', ''--check'', path_text (base @ [''source-files.sha256''])]
       (base @ [''source-verification.log''])"

definition errors_code :: "checker \<Rightarrow> int" where
  "errors_code s = (if ck_errors s = [] then 0 else 1)"

text \<open>\<open>if type(data.get(name)) is not int or data[name] != n\<close>; only a dictionary has \<open>get\<close>.\<close>

definition int_is :: "string \<Rightarrow> int \<Rightarrow> json \<Rightarrow> bool result" where
  "int_is name n data = bind_result (py_get name JNull data) (\<lambda>v. Inr (v = JInt n))"

section \<open>The build graph\<close>

definition target_ok :: "string \<Rightarrow> json \<Rightarrow> bool" where
  "target_ok name data \<longleftrightarrow>
     field ''Name'' data = JStr name \<and> field ''Platform'' data = JStr ''Linux'' \<and>
     field ''Configuration'' data = JStr ''Development''"

definition needed_modules :: "string list" where
  "needed_modules = [''Core'', ''CoreUObject'', ''Engine'', ''CarlaUfbxMesh'', ''CarlaUfbxLegacy'']"

definition banned_modules :: "string list" where
  "banned_modules = [''UnrealEd'', ''FBX'', ''InterchangeFbxParser'']"

text \<open>\<open>modules.keys()\<close> and \<open>data.get\<close> need dictionaries.\<close>

definition module_keys :: "json \<Rightarrow> string list result" where
  "module_keys v = (if is_obj v then Inr (obj_keys v) else Inl (no_attribute ''keys''))"

definition scalar_profile :: "json \<Rightarrow> bool result" where
  "scalar_profile modules =
     bind_result (py_get ''IntelISPC'' (JObj []) modules) (\<lambda>ispc.
     bind_result (py_get ''PublicDefinitions'' (JList []) ispc) (py_in ''INTEL_ISPC=0''))"

definition validate_graph :: "string \<Rightarrow> string \<Rightarrow> string \<Rightarrow> json \<Rightarrow> unit result" where
  "validate_graph target wrong profile data =
     (if \<not> is_obj data then Inl (no_attribute ''get'')
      else req (target_ok target data) wrong
       (let modules = field_or ''Modules'' (JObj []) data in
        bind_result (module_keys modules) (\<lambda>keys.
        req (list_all (\<lambda>m. m \<in> set keys) needed_modules) ''missing real Engine/backend modules''
        (req (list_all (\<lambda>m. m \<notin> set keys) banned_modules) ''unexpected Editor or SDK dependency''
        (bind_result (scalar_profile modules) (\<lambda>ok. require ok profile))))))"

end
