(* ===== verification/AssetStage.thy ===== *)
theory AssetStage
  imports NativeRun
begin

text \<open>
  \<open>check_carla_asset.py\<close>: the evaluator of the probe that saves and reloads static mesh assets, which must
  leave two nonempty asset files.
\<close>

definition asset_stage :: string where "asset_stage = ''ue-ufbx-asset-roundtrip''"

definition asset_scope :: string where
  "asset_scope = ''Saved and reloaded uncooked UStaticMesh assets; not Editor reimport, Cook or GPU rendering''"

definition graph_ok :: "json \<Rightarrow> unit result" where
  "graph_ok data =
     validate_graph ''CarlaAssetProbe'' ''wrong asset target'' ''expected explicit scalar asset profile'' data"

definition validate_native :: "host \<Rightarrow> fs \<Rightarrow> json \<Rightarrow> path \<Rightarrow> unit result" where
  "validate_native h f data fixture =
     bind_result (check_identity h f asset_stage asset_scope data fixture
       ''native asset source, scope or result mismatch'') (\<lambda>_.
     each (\<lambda>n. require (field n data = JInt 2) (''incomplete two-asset native check: '' @ n))
       [''instances'', ''saved_assets'', ''reloaded_assets'', ''rebuilt_objects''])"

text \<open>\<open>any(...)\<close> over the steps stops at the first one that is not 0.\<close>

definition check_steps :: "json \<Rightarrow> unit result" where
  "check_steps processes =
     bind_result (all_result (\<lambda>step. int_is step 0 processes) [''graph'', ''build'', ''native'']) (\<lambda>ok.
       require ok ''missing successful process statuses'')"

definition asset_files :: "checker_host \<Rightarrow> path \<Rightarrow> fs \<Rightarrow> path list" where
  "asset_files ch base f =
     [p \<leftarrow> with_ending ''.uasset'' (children ch f (base @ [''assets''])). is_file f p]"

definition check_assets :: "checker_host \<Rightarrow> path \<Rightarrow> fs \<Rightarrow> unit result" where
  "check_assets ch base f =
     (let assets = asset_files ch base f in
      require (length assets = 2 \<and> list_all (nonempty_file f) assets) ''expected two nonempty saved asset files'')"

definition asset_checks :: "string list" where
  "asset_checks = [''graph'', ''build'', ''architecture'', ''linkage'', ''native'', ''sources'', ''assets'', ''prerequisite'']"

definition asset_section :: "checker_host \<Rightarrow> native_args \<Rightarrow> path \<Rightarrow> unit ck" where
  "asset_section ch a base =
     then_do (with_files (\<lambda>f. bind_result (read_json f (base @ [''target.json''])) graph_ok))
     (then_do (pass ''graph'')
     (then_do (check_exit ''native process exit='' (na_exit_code a))
     (then_do (with_files (\<lambda>f. bind_result (read_json f (base @ [''processes.json''])) check_steps))
     (then_do (check_regular (base @ [''build.log'']) ''missing actual UBT build log'')
     (then_do (pass ''build'')
     (then_do (check_elf (program_of ch a) ''not a native AArch64 Program'')
     (then_do (pass ''architecture'')
     (then_do (check_linkage ch a base)
     (then_do (pass ''linkage'')
     (then_do (with_files (\<lambda>f. bind_result (read_json f (base @ [''native.json'']))
         (\<lambda>data. validate_native (ch_host ch) f data (fixture_of ch a))))
     (then_do (pass ''native'')
     (then_do (check_sources ch base)
     (then_do (pass ''sources'')
     (then_do (with_files (check_assets ch base))
     (pass ''assets'')))))))))))))))"

definition asset_logs :: "path \<Rightarrow> (string \<times> path) list" where
  "asset_logs base =
     map (\<lambda>n. (n, base @ [n @ ''.log''])) [''build'', ''native'', ''linkage-validation'', ''source-verification'']
     @ [(''processes'', base @ [''processes.json''])]"

definition run_in :: "checker_host \<Rightarrow> native_args \<Rightarrow> path \<Rightarrow> json ck" where
  "run_in ch a base =
     (let report = base @ [''stage-report.json''] in
      then_do (guarded_section build_errors (asset_section ch a base))
      (then_do (ufbx_prerequisite ch (na_ufbx_report a))
      (then_do (write_diagnostic (base @ [''asset-diagnostic.json'']) ''process_exit_code'' (na_exit_code a))
      (then_do (cite_present (asset_logs base))
      (then_do (cite_run_files base report (\<lambda>f. ch_below ch f base))
      (then_do (cite_program ch a ''checker'')
      (and_then (with_files (\<lambda>f. revision_of f (base @ [''ue-commit.txt'']))) (\<lambda>revision.
       checker_report ch report (\<lambda>s.
         checker_args asset_stage asset_scope (native_command a [''-nullrhi'', input_flag a]) (errors_code s)
           [ue_source (na_ue_root a) revision] s)))))))))"

definition run :: "checker_host \<Rightarrow> fs \<Rightarrow> native_args \<Rightarrow> json result \<times> fs" where
  "run ch f a =
     run_opened asset_checks (run_in ch a) f
       (open_run ch f (na_run_dir a) make_none vacant ''refusing to overwrite asset stage report'')"

definition main :: "checker_host \<Rightarrow> fs \<Rightarrow> native_args \<Rightarrow> int result" where
  "main ch f a = bind_result (fst (run ch f a)) (\<lambda>report. Inr (exit_status report))"

end
