(* ===== verification/Bytes.thy ===== *)
theory Bytes
  imports Prelude "HOL-Library.Word"
begin

text \<open>
  \<open>struct.unpack_from\<close> on little-endian unsigned words, with the words kept at their width, and
  slices of bytes. A read past the end raises \<open>struct.error\<close>, which no caller catches.
\<close>

definition byte_val :: "char \<Rightarrow> 32 word" where
  "byte_val c = word_of_int (of_char c)"

definition le_word :: "char \<Rightarrow> char \<Rightarrow> char \<Rightarrow> char \<Rightarrow> 32 word" where
  "le_word a b c d =
     byte_val a + push_bit 8 (byte_val b) + push_bit 16 (byte_val c) + push_bit 24 (byte_val d)"

definition word_byte :: "nat \<Rightarrow> 32 word \<Rightarrow> char" where
  "word_byte n w = char_of (uint (drop_bit (8 * n) w))"

definition le_bytes :: "32 word \<Rightarrow> bytes" where
  "le_bytes w = [word_byte 0 w, word_byte 1 w, word_byte 2 w, word_byte 3 w]"

definition slice :: "nat \<Rightarrow> nat \<Rightarrow> bytes \<Rightarrow> bytes" where
  "slice i j b = drop i (take j b)"

definition u32_at :: "bytes \<Rightarrow> nat \<Rightarrow> 32 word result" where
  "u32_at b i =
     (if i + 4 \<le> length b then Inr (le_word (b ! i) (b ! (i + 1)) (b ! (i + 2)) (b ! (i + 3)))
      else Inl (StructError ''unpack_from requires a buffer of at least the given size''))"

lemma u32_at_in_range: "i + 4 \<le> length b \<Longrightarrow> \<exists>w. u32_at b i = Inr w"
  by (simp add: u32_at_def)

lemma u32_at_Inr: "u32_at b i = Inr w \<Longrightarrow> i + 4 \<le> length b"
  by (simp add: u32_at_def split: if_splits)

lemma uint_byte_val: "uint (byte_val c) = of_char c"
proof -
  have "(0::int) \<le> of_char c" "(of_char c :: int) < 256"
    using code_less_256 [of c] code_eq_int [of c] by linarith+
  then show ?thesis by (simp add: byte_val_def uint_word_of_int take_bit_int_eq_self)
qed

lemma of_char_range: "(0::int) \<le> of_char c" "(of_char c :: int) < 256"
  using code_less_256 [of c] code_eq_int [of c] by linarith+

lemma uint_le_word:
  "uint (le_word a b c d)
     = of_char a + 256 * of_char b + 65536 * of_char c + 16777216 * of_char d"
proof -
  note r = of_char_range
  have sum: "le_word a b c d = word_of_int
    (of_char a + 256 * of_char b + 65536 * of_char c + 16777216 * of_char d)"
    by (simp add: le_word_def byte_val_def push_bit_eq_mult)
  have "0 \<le> (of_char a + 256 * of_char b + 65536 * of_char c + 16777216 * of_char d :: int)"
    "(of_char a + 256 * of_char b + 65536 * of_char c + 16777216 * of_char d :: int) < 2 ^ 32"
    using r(1) [of a] r(1) [of b] r(1) [of c] r(1) [of d]
      r(2) [of a] r(2) [of b] r(2) [of c] r(2) [of d] by simp_all
  then show ?thesis unfolding sum uint_word_of_int take_bit_eq_mod by simp
qed

lemma of_char_word_byte: "(of_char (word_byte n w) :: int) = uint w div 2 ^ (8 * n) mod 256"
proof -
  have "take_bit 32 (uint w) = uint w"
    by (rule take_bit_int_eq_self) (use uint_lt2p [of w] in simp_all)
  then have "uint (drop_bit (8 * n) w) = drop_bit (8 * n) (uint w)"
    by (simp add: unsigned_drop_bit_eq)
  then show ?thesis unfolding word_byte_def of_char_of by (simp only: drop_bit_eq_div)
qed

lemma of_char_word_bytes:
  "(of_char (word_byte 0 w) :: int) = uint w mod 256"
  "(of_char (word_byte 1 w) :: int) = uint w div 256 mod 256"
  "(of_char (word_byte 2 w) :: int) = uint w div 65536 mod 256"
  "(of_char (word_byte 3 w) :: int) = uint w div 16777216 mod 256"
  by (simp_all add: of_char_word_byte)

lemma div_chain:
  fixes u :: int
  shows "u div 65536 = u div 256 div 256" and "u div 16777216 = u div 256 div 256 div 256"
proof -
  have two: "v div 65536 = v div 256 div 256" for v :: int
    using zdiv_zmult2_eq [of 256 v 256] by simp
  show "u div 65536 = u div 256 div 256" by (rule two)
  have "u div 16777216 = u div 256 div 65536" using zdiv_zmult2_eq [of 65536 u 256] by simp
  also have "\<dots> = u div 256 div 256 div 256" by (rule two)
  finally show "u div 16777216 = u div 256 div 256 div 256" .
qed

lemma digit_step:
  fixes a k :: int
  assumes "0 \<le> a" and "a < 256"
  shows "(a + 256 * k) div 256 = k" and "(a + 256 * k) mod 256 = a"
  using assms by simp_all

lemma digits_of_sum:
  fixes a b c d :: int
  assumes "0 \<le> a" "a < 256" "0 \<le> b" "b < 256" "0 \<le> c" "c < 256" "0 \<le> d" "d < 256"
    and "u = a + 256 * (b + 256 * (c + 256 * d))"
  shows "u mod 256 = a" "u div 256 mod 256 = b" "u div 65536 mod 256 = c" "u div 16777216 mod 256 = d"
proof -
  have u1: "u div 256 = b + 256 * (c + 256 * d)" and m: "u mod 256 = a"
    unfolding assms(9) by (rule digit_step [OF assms(1,2)])+
  have u2: "u div 256 div 256 = c + 256 * d" and m2: "u div 256 mod 256 = b"
    unfolding u1 by (rule digit_step [OF assms(3,4)])+
  have u3: "u div 256 div 256 div 256 = d" and m3: "u div 256 div 256 mod 256 = c"
    unfolding u2 by (rule digit_step [OF assms(5,6)])+
  show "u mod 256 = a" "u div 256 mod 256 = b" by (fact m m2)+
  have "u div 65536 = u div 256 div 256" by (rule div_chain)
  with m3 show "u div 65536 mod 256 = c" by simp
  have "u div 16777216 = u div 256 div 256 div 256"
    by (rule div_chain)
  with u3 assms(7,8) show "u div 16777216 mod 256 = d" by simp
qed

lemma sum_of_digits:
  fixes u :: int
  assumes "0 \<le> u" and "u < 4294967296"
  shows "u mod 256 + 256 * (u div 256 mod 256) + 65536 * (u div 65536 mod 256)
    + 16777216 * (u div 16777216 mod 256) = u"
proof -
  let ?v = "u div 256" let ?w = "?v div 256" let ?x = "?w div 256"
  have e: "u div 65536 = ?w" "u div 16777216 = ?x"
    by (rule div_chain)+
  have "0 \<le> ?x" "?x < 256" using assms by simp_all
  then have x: "?x mod 256 = ?x" by simp
  have chain: "m + 256 * n + 65536 * k + 16777216 * x = u"
    if "256 * v + m = u" "256 * w + n = v" "256 * x + k = w" for v w x m n k :: int
    using that by linarith
  show ?thesis unfolding e x by (rule chain [OF mult_div_mod_eq mult_div_mod_eq mult_div_mod_eq])
qed

lemma le_word_bytes: "le_word (word_byte 0 w) (word_byte 1 w) (word_byte 2 w) (word_byte 3 w) = w"
proof -
  have r: "0 \<le> uint w" "uint w < 4294967296" using uint_lt2p [of w] by simp_all
  have "uint (le_word (word_byte 0 w) (word_byte 1 w) (word_byte 2 w) (word_byte 3 w)) = uint w"
    unfolding uint_le_word of_char_word_bytes by (rule sum_of_digits [OF r])
  then show ?thesis by (simp add: word_uint_eq_iff)
qed

lemma byte_of_le_word:
  "word_byte 0 (le_word a b c d) = a" "word_byte 1 (le_word a b c d) = b"
  "word_byte 2 (le_word a b c d) = c" "word_byte 3 (le_word a b c d) = d"
proof -
  have sum: "uint (le_word a b c d) =
    of_char a + 256 * (of_char b + 256 * (of_char c + 256 * of_char d))"
    unfolding uint_le_word by simp
  note digits = digits_of_sum [OF of_char_range [of a] of_char_range [of b] of_char_range [of c]
      of_char_range [of d] sum]
  have "(of_char (word_byte 0 (le_word a b c d)) :: int) = of_char a"
    "(of_char (word_byte 1 (le_word a b c d)) :: int) = of_char b"
    "(of_char (word_byte 2 (le_word a b c d)) :: int) = of_char c"
    "(of_char (word_byte 3 (le_word a b c d)) :: int) = of_char d"
    unfolding of_char_word_bytes by (fact digits)+
  then show "word_byte 0 (le_word a b c d) = a" "word_byte 1 (le_word a b c d) = b"
    "word_byte 2 (le_word a b c d) = c" "word_byte 3 (le_word a b c d) = d"
    by (simp_all only: of_char_eq_iff)
qed

text \<open>A byte string of whole words is the concatenation of the words it holds.\<close>

fun words_of :: "bytes \<Rightarrow> 32 word list" where
  "words_of (a # b # c # d # s) = le_word a b c d # words_of s"
| "words_of _ = []"

definition bytes_of :: "32 word list \<Rightarrow> bytes" where
  "bytes_of ws = concat (map le_bytes ws)"

lemma length_bytes_of [simp]: "length (bytes_of ws) = 4 * length ws"
  by (induction ws) (simp_all add: bytes_of_def le_bytes_def)

lemma words_of_bytes_of [simp]: "words_of (bytes_of ws) = ws"
  by (induction ws) (simp_all add: bytes_of_def le_bytes_def le_word_bytes [simplified])

lemma bytes_of_words_of: "4 dvd length s \<Longrightarrow> bytes_of (words_of s) = s"
proof (induction s rule: words_of.induct)
  case (1 a b c d s)
  then have "4 dvd length s" by (simp add: dvd_def) presburger
  with 1 show ?case
    using byte_of_le_word [of a b c d] by (simp add: bytes_of_def le_bytes_def)
next
  case "2_3" then show ?case by (auto simp: bytes_of_def dest: dvd_imp_le)
next
  case "2_4" then show ?case by (auto simp: bytes_of_def dest: dvd_imp_le)
qed (auto simp: bytes_of_def dest: dvd_imp_le)

lemma length_words_of: "length (words_of s) = length s div 4"
  by (induction s rule: words_of.induct) auto

lemma u32_at_bytes_of:
  "u32_at (bytes_of ws) (4 * k) = (if k < length ws then Inr (ws ! k)
     else Inl (StructError ''unpack_from requires a buffer of at least the given size''))"
proof (cases "k < length ws")
  case True
  then show ?thesis
  proof (induction ws arbitrary: k)
    case (Cons w ws)
    show ?case
    proof (cases k)
      case 0
      with le_word_bytes [of w] show ?thesis
        by (simp add: u32_at_def bytes_of_def le_bytes_def)
    next
      case (Suc j)
      have shift: "u32_at (le_bytes w @ s) (4 * Suc j) = u32_at s (4 * j)" for s
        by (simp add: u32_at_def le_bytes_def add.commute)
      from Cons Suc show ?thesis
        using shift [of "bytes_of ws"] by (simp add: bytes_of_def)
    qed
  qed simp
next
  case False
  then show ?thesis by (simp add: u32_at_def)
qed

end
