(* ===== verification/ShaderContainers.thy ===== *)
theory ShaderContainers
  imports Bytes Files
begin

text \<open>
  \<open>scripts/carla/check-shader-output.py\<close>: the structural checks of the two shader containers the
  offline shader build produces, a SPIR-V module and a DXBC container with a DXIL program. The
  SPIR-V check is shown to accept exactly the modules of an abstract grammar; both are shown to
  read no byte outside the file.
\<close>

unbundle bit_operations_syntax

section \<open>SPIR-V\<close>

definition spirv_magic :: "32 word" where "spirv_magic = 0x07230203"

definition word_count :: "32 word \<Rightarrow> nat" where "word_count w = unat (drop_bit 16 w)"

definition opcode :: "32 word \<Rightarrow> 32 word" where "opcode w = w AND 0xFFFF"

text \<open>The instruction loop: \<open>offset\<close> grows by a positive number of words at every turn.\<close>

function spirv_scan :: "bytes \<Rightarrow> nat \<Rightarrow> bool \<Rightarrow> unit result" where
  "spirv_scan data offset entry_point =
     (if offset < length data then
        bind_result (u32_at data offset) (\<lambda>w.
          if word_count w = 0 \<or> length data < offset + word_count w * 4 then
            Inl (ValueError ''invalid SPIR-V instruction length'')
          else spirv_scan data (offset + word_count w * 4) (entry_point \<or> opcode w = 15))
      else if \<not> entry_point then Inl (ValueError ''SPIR-V has no entry point'')
      else Inr ())"
  by pat_completeness auto
termination
  by (relation "measure (\<lambda>(data, offset, _). length data - offset)") auto

declare spirv_scan.simps [simp del]

definition check_spirv :: "bytes \<Rightarrow> unit result" where
  "check_spirv data =
     (if length data < 20 \<or> length data mod 4 \<noteq> 0 then
        Inl (ValueError ''SPIR-V must contain a word-aligned header and instructions'')
      else
        bind_result (u32_at data 0) (\<lambda>magic. bind_result (u32_at data 4) (\<lambda>version.
        bind_result (u32_at data 8) (\<lambda>_. bind_result (u32_at data 12) (\<lambda>bound.
        bind_result (u32_at data 16) (\<lambda>schema.
          if magic \<noteq> spirv_magic \<or> \<not> (0x00010000 \<le> version \<and> version \<le> 0x00010600) then
            Inl (ValueError ''invalid SPIR-V magic or version'')
          else if bound = 0 \<or> schema \<noteq> 0 then
            Inl (ValueError ''invalid SPIR-V bound or schema'')
          else spirv_scan data 20 False))))))"

section \<open>DXIL\<close>

definition dxil_part :: "bytes \<Rightarrow> nat \<Rightarrow> nat \<Rightarrow> nat \<Rightarrow> bool \<Rightarrow> bool result" where
  "dxil_part data dsize parts index found =
     bind_result (u32_at data (32 + index * 4)) (\<lambda>off. let offset = unat off in
       if offset < 32 + parts * 4 \<or> dsize < offset + 8 then
         Inl (ValueError ''invalid DXIL part offset'')
       else bind_result (u32_at data (offset + 4)) (\<lambda>psize. let part_size = unat psize in
         if dsize < offset + 8 + part_size then Inl (ValueError ''truncated DXIL part'')
         else if slice offset (offset + 4) data = ''DXIL'' then
           (if part_size < 24 \<or> slice (offset + 16) (offset + 20) data \<noteq> ''DXIL'' then
              Inl (ValueError ''invalid DXIL program header'')
            else Inr True)
         else Inr found))"

definition check_dxil :: "bytes \<Rightarrow> unit result" where
  "check_dxil data =
     (if length data < 32 \<or> take 4 data \<noteq> ''DXBC'' then
        Inl (ValueError ''missing DXIL container header'')
      else
        bind_result (u32_at data 24) (\<lambda>size'. bind_result (u32_at data 28) (\<lambda>parts'.
          let dsize = unat size'; parts = unat parts' in
          if dsize \<noteq> length data \<or> parts = 0 \<or> dsize < 32 + parts * 4 then
            Inl (ValueError ''invalid DXIL container size or part table'')
          else bind_result (fold_result (dxil_part data dsize parts) [0..<parts] False) (\<lambda>found.
            if \<not> found then Inl (ValueError ''container has no DXIL program'') else Inr ()))))"

text \<open>The script: usage, then both files; no exception is caught.\<close>

definition check_outputs :: "host \<Rightarrow> fs \<Rightarrow> string list \<Rightarrow> string result" where
  "check_outputs h f argv =
     (case argv of
        [_, spv, dxil] \<Rightarrow>
          bind_result (read_bytes f (join_path (cwd h) spv)) (\<lambda>a.
          bind_result (check_spirv a) (\<lambda>_.
          bind_result (read_bytes f (join_path (cwd h) dxil)) (\<lambda>b.
          bind_result (check_dxil b) (\<lambda>_.
            Inr ''PASS shader containers: SPIR-V entry point and DXIL program''))))
      | _ \<Rightarrow> Inl (SystemExit ''Usage: check-shader-output.py shader.spv shader.dxil''))"

section \<open>The grammar of a module\<close>

definition is_instruction :: "32 word list \<Rightarrow> bool" where
  "is_instruction ws \<longleftrightarrow> ws \<noteq> [] \<and> word_count (hd ws) = length ws"

definition is_entry_point :: "32 word list \<Rightarrow> bool" where
  "is_entry_point ws \<longleftrightarrow> opcode (hd ws) = 15"

definition is_module :: "32 word list \<Rightarrow> bool" where
  "is_module ws \<longleftrightarrow>
     (\<exists>version generator bound ins. ws = [spirv_magic, version, generator, bound, 0] @ concat ins \<and>
        0x00010000 \<le> version \<and> version \<le> 0x00010600 \<and> bound \<noteq> 0 \<and>
        (\<forall>i\<in>set ins. is_instruction i) \<and> (\<exists>i\<in>set ins. is_entry_point i))"

definition code_ok :: "bool \<Rightarrow> 32 word list \<Rightarrow> bool" where
  "code_ok e ws \<longleftrightarrow>
     (\<exists>ins. ws = concat ins \<and> (\<forall>i\<in>set ins. is_instruction i) \<and> (e \<or> (\<exists>i\<in>set ins. is_entry_point i)))"

lemma code_ok_Nil [simp]: "code_ok e [] \<longleftrightarrow> e"
proof
  assume "code_ok e []"
  then obtain ins where "concat ins = []" "\<forall>i\<in>set ins. is_instruction i"
    "e \<or> (\<exists>i\<in>set ins. is_entry_point i)" by (auto simp: code_ok_def)
  then show e by (cases ins) (auto simp: is_instruction_def)
next
  assume e then show "code_ok e []" unfolding code_ok_def by (intro exI [of _ "[]"]) simp
qed

lemma code_ok_Cons:
  "code_ok e (w # ws) \<longleftrightarrow>
     word_count w \<noteq> 0 \<and> word_count w \<le> Suc (length ws) \<and>
     code_ok (e \<or> opcode w = 15) (drop (word_count w) (w # ws))"
proof
  assume "code_ok e (w # ws)"
  then obtain i ins where c: "w # ws = i @ concat ins" "is_instruction i"
    "\<forall>i\<in>set ins. is_instruction i" "e \<or> is_entry_point i \<or> (\<exists>i\<in>set ins. is_entry_point i)"
  proof -
    obtain ins where ins: "w # ws = concat ins" "\<forall>i\<in>set ins. is_instruction i"
      "e \<or> (\<exists>i\<in>set ins. is_entry_point i)"
      using \<open>code_ok e (w # ws)\<close> by (auto simp: code_ok_def)
    then show ?thesis by (cases ins) (auto intro: that)
  qed
  then have "i \<noteq> []" and n: "word_count (hd i) = length i" by (auto simp: is_instruction_def)
  with c(1) obtain i' where i: "i = w # i'" "ws = i' @ concat ins" by (cases i) auto
  with c n show "word_count w \<noteq> 0 \<and> word_count w \<le> Suc (length ws) \<and>
      code_ok (e \<or> opcode w = 15) (drop (word_count w) (w # ws))"
    by (auto simp: code_ok_def is_entry_point_def)
next
  assume a: "word_count w \<noteq> 0 \<and> word_count w \<le> Suc (length ws) \<and>
    code_ok (e \<or> opcode w = 15) (drop (word_count w) (w # ws))"
  then obtain ins where ins: "drop (word_count w) (w # ws) = concat ins"
    "\<forall>i\<in>set ins. is_instruction i" "(e \<or> opcode w = 15) \<or> (\<exists>i\<in>set ins. is_entry_point i)"
    by (auto simp: code_ok_def)
  let ?i = "take (word_count w) (w # ws)"
  have hd: "hd ?i = w" "?i \<noteq> []" using a by (cases "word_count w"; simp)+
  have "is_instruction ?i" using a hd by (auto simp: is_instruction_def)
  moreover have "w # ws = concat (?i # ins)" using ins(1) append_take_drop_id [of "word_count w" "w # ws"] by simp
  moreover have "e \<or> (\<exists>i\<in>set (?i # ins). is_entry_point i)"
    using ins(3) hd by (auto simp: is_entry_point_def)
  ultimately show "code_ok e (w # ws)"
    unfolding code_ok_def using ins(2) by (intro exI [of _ "?i # ins"]) auto
qed

lemma spirv_scan_code:
  "k \<le> length ws \<Longrightarrow> spirv_scan (bytes_of ws) (4 * k) e = Inr () \<longleftrightarrow> code_ok e (drop k ws)"
proof (induction "length ws - k" arbitrary: k e rule: less_induct)
  case less
  show ?case
  proof (cases "k < length ws")
    case True
    then have tail: "drop k ws = ws ! k # drop (Suc k) ws" by (simp add: Cons_nth_drop_Suc)
    let ?n = "word_count (ws ! k)"
    let ?e = "e \<or> opcode (ws ! k) = 15"
    have u: "u32_at (bytes_of ws) (4 * k) = Inr (ws ! k)" using True by (simp add: u32_at_bytes_of)
    have over: "4 * length ws < 4 * k + ?n * 4 \<longleftrightarrow> length ws < k + ?n" by linarith
    have next_offset: "4 * k + ?n * 4 = 4 * (k + ?n)" by simp
    have unfold: "spirv_scan (bytes_of ws) (4 * k) e =
      (if ?n = 0 \<or> length ws < k + ?n then Inl (ValueError ''invalid SPIR-V instruction length'')
       else spirv_scan (bytes_of ws) (4 * (k + ?n)) ?e)"
      using True
      by (subst spirv_scan.simps)
        (simp only: u bind_result_simps length_bytes_of over next_offset nat_mult_less_cancel1
          zero_less_numeral if_True)
    show ?thesis
    proof (cases "?n = 0 \<or> length ws < k + ?n")
      case True
      then have "spirv_scan (bytes_of ws) (4 * k) e \<noteq> Inr ()" unfolding unfold by simp
      moreover have "\<not> code_ok e (drop k ws)"
        unfolding tail code_ok_Cons using True \<open>k < length ws\<close> by auto
      ultimately show ?thesis by simp
    next
      case False
      with \<open>k < length ws\<close> have "spirv_scan (bytes_of ws) (4 * (k + ?n)) ?e = Inr () \<longleftrightarrow>
          code_ok ?e (drop (k + ?n) ws)"
        by (intro less.hyps) auto
      moreover have "drop (k + ?n) ws = drop ?n (ws ! k # drop (Suc k) ws)"
        by (simp flip: tail add: add.commute)
      moreover have "code_ok e (drop k ws) \<longleftrightarrow> code_ok ?e (drop ?n (ws ! k # drop (Suc k) ws))"
        unfolding tail code_ok_Cons using False \<open>k < length ws\<close> by auto
      ultimately show ?thesis unfolding unfold using False by simp
    qed
  next
    case False
    with less.prems show ?thesis by (subst spirv_scan.simps) simp
  qed
qed

lemma spirv_scan_reads:
  "4 dvd length data \<Longrightarrow> 4 dvd offset \<Longrightarrow> spirv_scan data offset e \<noteq> Inl (StructError m)"
proof (induction data offset e rule: spirv_scan.induct)
  case (1 data offset e)
  show ?case
  proof (cases "offset < length data")
    case True
    with 1(2,3) have "offset + 4 \<le> length data" by (auto simp: dvd_def)
    then obtain w where w: "u32_at data offset = Inr w" using u32_at_in_range by blast
    then show ?thesis
      using True 1 by (subst spirv_scan.simps) (auto intro: dvd_add)
  next
    case False
    then show ?thesis by (subst spirv_scan.simps) simp
  qed
qed

lemma check_spirv_words:
  "check_spirv (bytes_of ws) = Inr () \<longleftrightarrow> is_module ws"
proof (cases "\<exists>a b c d e s. ws = a # b # c # d # e # s")
  case True
  then obtain a b c d e s where ws: "ws = [a, b, c, d, e] @ s" by auto
  have len: "length ws = 5 + length s" by (simp add: ws)
  have scan: "spirv_scan (bytes_of ws) 20 False = Inr () \<longleftrightarrow> code_ok False s"
    using spirv_scan_code [of 5 ws False] by (simp add: ws)
  have at: "u32_at (bytes_of ws) 0 = Inr a" "u32_at (bytes_of ws) 4 = Inr b"
    "u32_at (bytes_of ws) 8 = Inr c" "u32_at (bytes_of ws) 12 = Inr d" "u32_at (bytes_of ws) 16 = Inr e"
    using u32_at_bytes_of [of ws 0] u32_at_bytes_of [of ws 1] u32_at_bytes_of [of ws 2]
      u32_at_bytes_of [of ws 3] u32_at_bytes_of [of ws 4] by (simp_all add: ws)
  have "check_spirv (bytes_of ws) = Inr () \<longleftrightarrow>
    a = spirv_magic \<and> 0x00010000 \<le> b \<and> b \<le> 0x00010600 \<and> d \<noteq> 0 \<and> e = 0 \<and> code_ok False s"
    unfolding check_spirv_def at bind_result_simps by (auto simp: scan len)
  also have "\<dots> \<longleftrightarrow> is_module ws"
    by (auto simp: is_module_def ws code_ok_def)
  finally show ?thesis .
next
  case False
  have "\<not> 5 \<le> length ws"
  proof
    assume "5 \<le> length ws"
    with False show False by (auto simp: Suc_le_length_iff eval_nat_numeral)
  qed
  then have "length ws < 5" by simp
  moreover have "\<not> is_module ws" using False by (auto simp: is_module_def)
  ultimately show ?thesis by (simp add: check_spirv_def)
qed

section \<open>DXIL containers\<close>

text \<open>The part with the given index lies inside the file, after the part table.\<close>

definition part_offset :: "bytes \<Rightarrow> nat \<Rightarrow> nat" where
  "part_offset data i = (case u32_at data (32 + i * 4) of Inr w \<Rightarrow> unat w | Inl _ \<Rightarrow> 0)"

definition part_size_at :: "bytes \<Rightarrow> nat \<Rightarrow> nat" where
  "part_size_at data off = (case u32_at data (off + 4) of Inr w \<Rightarrow> unat w | Inl _ \<Rightarrow> 0)"

definition part_inside :: "bytes \<Rightarrow> nat \<Rightarrow> nat \<Rightarrow> bool" where
  "part_inside data parts i \<longleftrightarrow>
     (let off = part_offset data i in
      32 + parts * 4 \<le> off \<and> off + 8 + part_size_at data off \<le> length data)"

definition is_program :: "bytes \<Rightarrow> nat \<Rightarrow> bool" where
  "is_program data i \<longleftrightarrow> (let off = part_offset data i in slice off (off + 4) data = ''DXIL'')"

definition program_ok :: "bytes \<Rightarrow> nat \<Rightarrow> bool" where
  "program_ok data i \<longleftrightarrow> (let off = part_offset data i in
     24 \<le> part_size_at data off \<and> slice (off + 16) (off + 20) data = ''DXIL'')"

lemma dxil_part_iff:
  assumes "i < parts" and "32 + parts * 4 \<le> length data"
  shows "dxil_part data (length data) parts i found = Inr found' \<longleftrightarrow>
    part_inside data parts i \<and> (is_program data i \<longrightarrow> program_ok data i) \<and>
    found' = (found \<or> is_program data i)"
    and "dxil_part data (length data) parts i found \<noteq> Inl (StructError m)"
proof -
  obtain w where w: "u32_at data (32 + i * 4) = Inr w"
    using u32_at_in_range [of "32 + i * 4" data] assms by auto
  have in_part: "\<exists>v. u32_at data (unat w + 4) = Inr v" if "unat w + 8 \<le> length data"
    using u32_at_in_range [of "unat w + 4" data] that by simp
  show "dxil_part data (length data) parts i found = Inr found' \<longleftrightarrow>
    part_inside data parts i \<and> (is_program data i \<longrightarrow> program_ok data i) \<and>
    found' = (found \<or> is_program data i)"
    using w in_part
    by (cases "unat w + 8 \<le> length data")
      (auto simp: dxil_part_def part_inside_def is_program_def program_ok_def part_offset_def
        part_size_at_def Let_def not_le not_less)
  show "dxil_part data (length data) parts i found \<noteq> Inl (StructError m)"
    using w in_part
    by (cases "unat w + 8 \<le> length data") (auto simp: dxil_part_def Let_def not_le split: if_splits)
qed

lemma dxil_parts_iff:
  assumes "32 + parts * 4 \<le> length data"
  shows "list_all (\<lambda>i. i < parts) is \<Longrightarrow>
    fold_result (dxil_part data (length data) parts) is found = Inr found' \<longleftrightarrow>
    (\<forall>i\<in>set is. part_inside data parts i \<and> (is_program data i \<longrightarrow> program_ok data i)) \<and>
    found' = (found \<or> (\<exists>i\<in>set is. is_program data i))"
proof (induction "is" arbitrary: found)
  case (Cons i "is")
  then show ?case using dxil_part_iff(1) [OF _ assms, of i found] by simp
qed auto

lemma dxil_parts_reads:
  assumes "32 + parts * 4 \<le> length data"
  shows "list_all (\<lambda>i. i < parts) is \<Longrightarrow>
    fold_result (dxil_part data (length data) parts) is found \<noteq> Inl (StructError m)"
proof (induction "is" arbitrary: found)
  case (Cons i "is")
  then show ?case using dxil_part_iff(2) [OF _ assms, of i found m] by (simp add: bind_result_Inl_iff)
qed simp

definition is_container :: "bytes \<Rightarrow> bool" where
  "is_container data \<longleftrightarrow>
     32 \<le> length data \<and> take 4 data = ''DXBC'' \<and>
     (\<exists>size parts. u32_at data 24 = Inr size \<and> u32_at data 28 = Inr parts \<and>
        unat size = length data \<and> 0 < unat parts \<and> 32 + unat parts * 4 \<le> length data \<and>
        (\<forall>i<unat parts. part_inside data (unat parts) i \<and> (is_program data i \<longrightarrow> program_ok data i)) \<and>
        (\<exists>i<unat parts. is_program data i))"

lemma dxil_header:
  assumes "32 \<le> length data"
  obtains size parts where "u32_at data 24 = Inr size" and "u32_at data 28 = Inr parts"
  using u32_at_in_range [of 24 data] u32_at_in_range [of 28 data] assms by fastforce

lemma check_dxil_container: "check_dxil data = Inr () \<longleftrightarrow> is_container data"
proof (cases "32 \<le> length data")
  case True
  then obtain size parts where at: "u32_at data 24 = Inr size" "u32_at data 28 = Inr parts"
    by (rule dxil_header)
  let ?n = "unat parts"
  let ?P = "\<forall>i<?n. part_inside data ?n i \<and> (is_program data i \<longrightarrow> program_ok data i)"
  let ?Q = "\<exists>i<?n. is_program data i"
  have loop: "fold_result (dxil_part data (length data) ?n) [0..<?n] False = Inr x \<longleftrightarrow> ?P \<and> x = ?Q"
    if "32 + ?n * 4 \<le> length data" for x
    using dxil_parts_iff [OF that, of "[0..<?n]" False x] by (simp add: list_all_iff Ball_def Bex_def)
  show ?thesis
  proof (cases "take 4 data = ''DXBC'' \<and> unat size = length data \<and> 0 < ?n \<and> 32 + ?n * 4 \<le> length data")
    case True
    with loop have "check_dxil data = Inr () \<longleftrightarrow> ?P \<and> ?Q"
      using \<open>32 \<le> length data\<close> by (auto simp: check_dxil_def at Let_def)
    with True \<open>32 \<le> length data\<close> show ?thesis by (simp add: is_container_def at)
  next
    case False
    then have "check_dxil data \<noteq> Inr ()"
      using \<open>32 \<le> length data\<close> by (auto simp: check_dxil_def at Let_def not_less)
    moreover from False have "\<not> is_container data" by (auto simp: is_container_def at)
    ultimately show ?thesis by simp
  qed
qed (simp add: check_dxil_def is_container_def)

lemma check_dxil_reads: "check_dxil data \<noteq> Inl (StructError m)"
proof (cases "32 \<le> length data")
  case True
  then obtain size parts where at: "u32_at data 24 = Inr size" "u32_at data 28 = Inr parts"
    by (rule dxil_header)
  then show ?thesis
    using True dxil_parts_reads [of "unat parts" data "[0..<unat parts]" False m]
    by (auto simp: check_dxil_def Let_def bind_result_Inl_iff list_all_iff)
qed (simp add: check_dxil_def)

lemma check_spirv_reads: "check_spirv data \<noteq> Inl (StructError m)"
proof (cases "length data < 20 \<or> length data mod 4 \<noteq> 0")
  case False
  then have d: "4 dvd length data" "20 \<le> length data" by auto
  then obtain a b c v e where "u32_at data 0 = Inr a" "u32_at data 4 = Inr b" "u32_at data 8 = Inr c"
    "u32_at data 12 = Inr v" "u32_at data 16 = Inr e"
    using u32_at_in_range [of 0 data] u32_at_in_range [of 4 data] u32_at_in_range [of 8 data]
      u32_at_in_range [of 12 data] u32_at_in_range [of 16 data] by fastforce
  with False spirv_scan_reads [OF d(1), of 20 False m] show ?thesis
    by (simp add: check_spirv_def)
qed (simp add: check_spirv_def)

section \<open>Properties\<close>

text \<open>C38: a SPIR-V file is accepted exactly when it is the little-endian encoding of a module of
  the grammar: header, then instructions whose word counts tile the rest, one of them an entry point.\<close>

theorem spirv_check_decides_grammar:
  "check_spirv data = Inr () \<longleftrightarrow> (\<exists>ws. data = bytes_of ws \<and> is_module ws)"
proof
  assume ok: "check_spirv data = Inr ()"
  then have "4 dvd length data" by (auto simp: check_spirv_def split: if_splits)
  then have data: "bytes_of (words_of data) = data" by (rule bytes_of_words_of)
  with ok check_spirv_words [of "words_of data"] show "\<exists>ws. data = bytes_of ws \<and> is_module ws"
    by metis
qed (auto simp: check_spirv_words)

text \<open>C39: a DXBC container is accepted exactly when its size field is the file size, every part of
  its table lies inside the file and after the table, and it has a DXIL program with a valid header.\<close>

theorem dxil_check_decides_layout: "check_dxil data = Inr () \<longleftrightarrow> is_container data"
  by (rule check_dxil_container)

text \<open>C40: neither check ever reads outside the bytes it was given, whatever they are.\<close>

theorem shader_checks_stay_in_bounds:
  "check_spirv data \<noteq> Inl (StructError m) \<and> check_dxil data \<noteq> Inl (StructError m)"
  by (simp add: check_spirv_reads check_dxil_reads)

end
