(* ===== verification/DriverMarkers.thy ===== *)
theory DriverMarkers
  imports TextRecords Bytes FileOps ShaderContainers
begin

text \<open>
  The files \<open>scripts/carla/analyze_vulkan_driver_entries.py\<close> reads: the marker written when a driver
  call is entered, the entry points of a SPIR-V module and the snapshot of a render pass, with the
  checks of \<open>fields\<close>, \<open>spirv_entries\<close> and \<open>render_pass_snapshot\<close>.
\<close>

section \<open>Patterns\<close>

definition nonempty_all :: "(char \<Rightarrow> bool) \<Rightarrow> string \<Rightarrow> bool" where
  "nonempty_all p s \<longleftrightarrow> s \<noteq> [] \<and> list_all p s"

definition all_digits :: "string \<Rightarrow> bool" where
  "all_digits s \<longleftrightarrow> nonempty_all is_digit s"

text \<open>\<open>0x[0-9a-fA-F]+\<close>.\<close>

definition hex_handle :: "string \<Rightarrow> bool" where
  "hex_handle s \<longleftrightarrow> starts_with ''0x'' s \<and> nonempty_all is_any_hex (drop 2 s)"

text \<open>A prefix, a run of digits and a rest: the digits end where the rest begins.\<close>

definition after_digits :: "string \<Rightarrow> string \<Rightarrow> string option" where
  "after_digits prefix s =
     (if starts_with prefix s \<and> takeWhile is_digit (drop (length prefix) s) \<noteq> [] then
        Some (dropWhile is_digit (drop (length prefix) s))
      else None)"

definition shader_path :: "string \<Rightarrow> bool" where
  "shader_path s \<longleftrightarrow> after_digits ''graphics-shaders/module-'' s = Some ''.spv''"

definition render_pass_path :: "string \<Rightarrow> bool" where
  "render_pass_path s \<longleftrightarrow>
     (case after_digits ''renderpasses/renderpass-'' s of
        None \<Rightarrow> False
      | Some t \<Rightarrow> starts_with ''-0x'' t \<and> takeWhile is_any_hex (drop 3 t) \<noteq> [] \<and>
          dropWhile is_any_hex (drop 3 t) = ''.txt'')"

section \<open>Sizes\<close>

text \<open>\<open>path.stat().st_size\<close> raises for a missing file; what cannot be read has no size here.\<close>

definition stat_size :: "fs \<Rightarrow> path \<Rightarrow> int result" where
  "stat_size f p =
     (if exists_path f p then Inr (file_size f p)
      else Inl (OSError (''No such file or directory: '' @ path_text p)))"

section \<open>Markers\<close>

definition marker_limit :: int where "marker_limit = 262144"

definition framed :: "string list \<Rightarrow> bool" where
  "framed ls \<longleftrightarrow> ls \<noteq> [] \<and> hd ls = ''schema=1'' \<and> last ls = ''end=1''"

definition inner_lines :: "string list \<Rightarrow> string list" where
  "inner_lines ls = butlast (tl ls)"

definition field_step :: "string \<Rightarrow> string \<Rightarrow> tags \<Rightarrow> tags result" where
  "field_step name line values =
     (case partition_at equals_sign line of (k, found, v) \<Rightarrow>
        if \<not> found then Inr values
        else if map_of values k \<noteq> None then Inl (ValueError (''duplicate field '' @ k @ '': '' @ name))
        else Inr (dict_set k v values))"

definition marker_values :: "string \<Rightarrow> string list \<Rightarrow> tags result" where
  "marker_values name ls =
     (if \<not> framed ls then Inl (ValueError (''partial marker: '' @ name))
      else bind_result (fold_result (field_step name) (inner_lines ls) []) (\<lambda>values.
        if tag ''phase'' values \<noteq> Some ''enter'' then Inl (ValueError (''not a driver-entry: '' @ name))
        else Inr values))"

definition marker_fields :: "fs \<Rightarrow> path \<Rightarrow> tags result" where
  "marker_fields f p =
     bind_result (stat_size f p) (\<lambda>n.
     if marker_limit < n then Inl (ValueError (''oversized marker: '' @ base_name p))
     else bind_result (read_lines f p) (marker_values (base_name p)))"

section \<open>SPIR-V entry points\<close>

type_synonym entry = "32 word \<times> string"

definition entry_name :: "32 word list \<Rightarrow> string" where
  "entry_name instruction = takeWhile (\<lambda>c. c \<noteq> CHR 0x00) (bytes_of (drop 3 instruction))"

definition ascii_text :: "string \<Rightarrow> string result" where
  "ascii_text s =
     (if list_all (\<lambda>c. (of_char c :: int) < 128) s then Inr s
      else Inl (ValueError ''ordinal not in range(128)''))"

function entry_scan :: "32 word list \<Rightarrow> entry list \<Rightarrow> entry list result" where
  "entry_scan ws found =
     (if ws = [] then Inr found
      else if word_count (hd ws) = 0 \<or> length ws < word_count (hd ws) then
        Inl (ValueError ''invalid SPIR-V instruction'')
      else if opcode (hd ws) = 15 then
        if word_count (hd ws) < 4 then Inl (ValueError ''short SPIR-V entry point'')
        else
          bind_result (ascii_text (entry_name (take (word_count (hd ws)) ws))) (\<lambda>name.
            entry_scan (drop (word_count (hd ws)) ws) ((ws ! 1, name) # found))
      else entry_scan (drop (word_count (hd ws)) ws) found)"
  by pat_completeness auto
termination
  by (relation "measure (\<lambda>(ws, found). length ws)") auto

declare entry_scan.simps [simp del]

definition module_limit :: int where "module_limit = 2097152"

definition module_entries :: "bytes \<Rightarrow> entry list result" where
  "module_entries b =
     (if length b < 20 \<or> module_limit < int (length b) \<or> length b mod 4 \<noteq> 0 then
        Inl (ValueError ''invalid SPIR-V length'')
      else if hd (words_of b) \<noteq> spirv_magic then Inl (ValueError ''invalid SPIR-V magic'')
      else entry_scan (drop 5 (words_of b)) [])"

definition spirv_entries :: "host \<Rightarrow> fs \<Rightarrow> path \<Rightarrow> (entry list \<times> string) result" where
  "spirv_entries h f p =
     bind_result (read_bytes f p) (\<lambda>b.
     bind_result (module_entries b) (\<lambda>entries. Inr (entries, sha256 h b)))"

section \<open>Render passes\<close>

definition pass_limit :: int where "pass_limit = 131072"

definition pass_step :: "string \<Rightarrow> string \<Rightarrow> tags \<Rightarrow> tags result" where
  "pass_step name line values =
     (case partition_at equals_sign line of (k, found, v) \<Rightarrow>
        if \<not> found \<or> map_of values k \<noteq> None then Inl (ValueError (''invalid render-pass field: '' @ name))
        else Inr (dict_set k v values))"

definition text_or :: "string \<Rightarrow> string \<Rightarrow> tags \<Rightarrow> string" where
  "text_or d k values = (case tag k values of None \<Rightarrow> d | Some v \<Rightarrow> v)"

definition count_of :: "string \<Rightarrow> tags \<Rightarrow> int result" where
  "count_of k values = py_int 10 (text_or ''-1'' k values)"

definition indexed :: "string \<Rightarrow> int \<Rightarrow> string list" where
  "indexed prefix n = map (\<lambda>i. prefix @ show_int i) [0..n - 1]"

definition all_present :: "string list \<Rightarrow> tags \<Rightarrow> bool" where
  "all_present ks values \<longleftrightarrow> list_all (\<lambda>k. tag k values \<noteq> None) ks"

definition attachment_ok :: "tags \<Rightarrow> string \<Rightarrow> bool" where
  "attachment_ok values k \<longleftrightarrow> length (split_on (CHR '','') (text_or [] k values)) = 9"

definition reference_lists :: "(string \<times> string) list" where
  "reference_lists = [(''inputs'', ''input''), (''colors'', ''color''), (''preserves'', ''preserve'')]"

definition check_references :: "string \<Rightarrow> tags \<Rightarrow> string \<Rightarrow> string \<times> string \<Rightarrow> unit result" where
  "check_references name values prefix = (\<lambda>(kind, suffix).
     bind_result (count_of (prefix @ ''_'' @ kind) values) (\<lambda>n.
       require (0 \<le> n \<and> n \<le> 64 \<and> all_present (indexed (prefix @ ''_'' @ suffix) n) values)
         (''missing render-pass references: '' @ name)))"

definition check_subpass :: "string \<Rightarrow> tags \<Rightarrow> string \<Rightarrow> unit result" where
  "check_subpass name values prefix =
     (if \<not> all_present [prefix @ ''_flags'', prefix @ ''_bind_point''] values then
        Inl (ValueError (''missing render-pass subpass: '' @ name))
      else
        bind_result (each (check_references name values prefix) reference_lists) (\<lambda>_.
        bind_result
          (if tag (prefix @ ''_resolves'') values = Some ''1'' then
             bind_result (int_field (prefix @ ''_colors'') values) (\<lambda>n.
               require (all_present (indexed (prefix @ ''_resolve'') n) values)
                 (''missing render-pass resolve: '' @ name))
           else Inr ()) (\<lambda>_.
        require (tag (prefix @ ''_depth'') values = Some ''1'' \<longrightarrow>
            tag (prefix @ ''_depth_ref'') values \<noteq> None)
          (''missing render-pass depth: '' @ name))))"

definition check_pass_parts :: "string \<Rightarrow> tags \<Rightarrow> int \<Rightarrow> int \<Rightarrow> int \<Rightarrow> unit result" where
  "check_pass_parts name values attachments subpasses dependencies =
     bind_result (require (list_all (attachment_ok values) (indexed ''attachment'' attachments))
       (''missing render-pass attachment: '' @ name)) (\<lambda>_.
     bind_result (each (check_subpass name values) (indexed ''subpass'' subpasses)) (\<lambda>_.
       require (all_present (indexed ''dependency'' dependencies) values)
         (''missing render-pass dependency: '' @ name)))"

definition same_handle :: "tags \<Rightarrow> string \<Rightarrow> bool result" where
  "same_handle values handle =
     bind_result (py_int 16 (text_or ''0'' ''handle'' values)) (\<lambda>a.
     bind_result (py_int 16 handle) (\<lambda>b. Inr (a = b)))"

definition pass_report :: "string \<Rightarrow> string \<Rightarrow> string \<Rightarrow> tags \<Rightarrow> json result" where
  "pass_report checksum name handle values =
     (if text_or [] ''api'' values \<notin> {''vkCreateRenderPass'', ''vkCreateRenderPass2KHR''} then
        Inl (ValueError (''render-pass identity mismatch: '' @ name))
      else
        bind_result (same_handle values handle) (\<lambda>same.
        if \<not> same \<or> text_or [] ''capture_complete'' values \<notin> {''0'', ''1''} then
          Inl (ValueError (''render-pass identity mismatch: '' @ name))
        else
          bind_result (count_of ''attachments'' values) (\<lambda>attachments.
          bind_result (count_of ''subpasses'' values) (\<lambda>subpasses.
          bind_result (count_of ''dependencies'' values) (\<lambda>dependencies.
          if \<not> (0 \<le> attachments \<and> attachments \<le> 64 \<and> 1 \<le> subpasses \<and> subpasses \<le> 8 \<and>
              0 \<le> dependencies \<and> dependencies \<le> 64) then
            Inl (ValueError (''invalid render-pass bounds: '' @ name))
          else
            bind_result
              (if text_or [] ''capture_complete'' values = ''1'' then
                 check_pass_parts name values attachments subpasses dependencies
               else Inr ()) (\<lambda>_.
              Inr (JObj
                [(''status'', JStr (if text_or [] ''capture_complete'' values = ''1'' then ''complete'' else ''incomplete'')),
                 (''file'', JStr name), (''api'', JStr (text_or [] ''api'' values)),
                 (''attachments'', JInt attachments), (''subpasses'', JInt subpasses),
                 (''dependencies'', JInt dependencies), (''sha256'', JStr checksum)])))))))"

definition pass_values :: "string \<Rightarrow> string list \<Rightarrow> tags result" where
  "pass_values name ls =
     (if \<not> framed ls then Inl (ValueError (''partial render-pass snapshot: '' @ name))
      else fold_result (pass_step name) (inner_lines ls) [])"

definition render_pass_snapshot :: "host \<Rightarrow> fs \<Rightarrow> path \<Rightarrow> string \<Rightarrow> string \<Rightarrow> json result" where
  "render_pass_snapshot h f dir name handle =
     (if name = ''unavailable'' then Inr (JObj [(''status'', JStr ''unavailable'')])
      else if \<not> render_pass_path name then Inl (ValueError (''invalid render-pass path: '' @ name))
      else
        (let p = dir @ components name in
         if \<not> is_file f p \<or> is_link f p \<or> pass_limit < file_size f p then
           Inl (ValueError (''missing render-pass snapshot: '' @ name))
         else
           bind_result (read_bytes f p) (\<lambda>b.
           bind_result (decode_utf8 b) (\<lambda>s.
           bind_result (pass_values name (splitlines s)) (\<lambda>values.
             pass_report (sha256 h b) name handle values)))))"

end
