(* ===== verification/DriverEntries.thy ===== *)
theory DriverEntries
  imports DriverMarkers
begin

text \<open>
  \<open>analyze\<close> of \<open>scripts/carla/analyze_vulkan_driver_entries.py\<close>: every driver call leaves a marker
  when it is entered and a result when it returns. The analysis checks each marker against the files
  it names and reports the call that did not return. The directory is listed by the operating
  system: \<open>listing\<close> holds the names in the run directory, which is given by an absolute path.
\<close>

section \<open>Names\<close>

text \<open>\<open>s.replace(old, new)\<close>, from the left.\<close>

function replace_text :: "string \<Rightarrow> string \<Rightarrow> string \<Rightarrow> string" where
  "replace_text old new [] = []"
| "replace_text old new (c # s) =
     (if old \<noteq> [] \<and> starts_with old (c # s) then new @ replace_text old new (drop (length old) (c # s))
      else c # replace_text old new s)"
  by pat_completeness auto
termination
  by (relation "measure (\<lambda>(old, new, s). length s)") (auto simp: Suc_le_eq)

definition enter_suffix :: string where "enter_suffix = ''.enter.txt''"

text \<open>\<open>glob("driver-<kind>-*.enter.txt")\<close>, sorted.\<close>

definition matches_marker :: "string \<Rightarrow> string \<Rightarrow> bool" where
  "matches_marker kind name \<longleftrightarrow>
     starts_with (''driver-'' @ kind @ ''-'') name \<and>
     ends_with enter_suffix (drop (length (''driver-'' @ kind @ ''-'')) name)"

definition markers_of :: "string \<Rightarrow> string list \<Rightarrow> (string \<times> string) list" where
  "markers_of kind listing = map (Pair kind) (sort (filter (matches_marker kind) listing))"

section \<open>Stages\<close>

record stage_record =
  st_stage :: string
  st_module :: string
  st_entry :: string
  st_hash :: string
  st_file :: string

definition upper_hex :: "char \<Rightarrow> bool" where
  "upper_hex c \<longleftrightarrow> is_digit c \<or> (c \<in> set ''ABCDEF'')"

definition hash_token :: "string \<Rightarrow> bool" where
  "hash_token s \<longleftrightarrow> s = ''unknown'' \<or> length s = 40 \<and> list_all upper_hex s"

definition stage_head :: "string \<Rightarrow> (string \<times> string \<times> string) option" where
  "stage_head s =
     (case split_on (CHR '','') s of
        [a, b, c] \<Rightarrow>
          if all_digits a \<and> hex_handle b \<and> nonempty_all is_word_char c then Some (a, b, c) else None
      | _ \<Rightarrow> None)"

text \<open>The value of a \<open>stage<i>\<close> field, matched as \<open>STAGE.fullmatch\<close> does; its parts hold no space.\<close>

definition parse_stage :: "string \<Rightarrow> stage_record option" where
  "parse_stage s =
     (case split_on (CHR '' '') s of
        [head, hash, file] \<Rightarrow>
          (case stage_head head of
             None \<Rightarrow> None
           | Some (a, b, c) \<Rightarrow>
               if starts_with ''hash='' hash \<and> hash_token (drop 5 hash) \<and> starts_with ''file='' file \<and>
                  (shader_path (drop 5 file) \<or> drop 5 file = ''unavailable'')
               then Some \<lparr>st_stage = a, st_module = b, st_entry = c, st_hash = drop 5 hash, st_file = drop 5 file\<rparr>
               else None)
      | _ \<Rightarrow> None)"

definition execution_models :: "(int \<times> 32 word) list" where
  "execution_models = [(1, 0), (2, 1), (4, 2), (8, 3), (16, 4)]"

section \<open>State\<close>

type_synonym module_info = "entry list \<times> string"

record scan_state =
  sc_modules :: "(path \<times> module_info) list"
  sc_passes :: "((string \<times> string) \<times> json) list"
  sc_unreturned :: "json list"
  sc_returned :: "string list"
  sc_interventions :: nat

definition empty_scan :: scan_state where
  "empty_scan =
     \<lparr>sc_modules = [], sc_passes = [], sc_unreturned = [], sc_returned = [], sc_interventions = 0\<rparr>"

definition cached_module :: "host \<Rightarrow> fs \<Rightarrow> path \<Rightarrow> scan_state \<Rightarrow> (module_info \<times> scan_state) result" where
  "cached_module h f p sc =
     (case map_of (sc_modules sc) p of
        Some m \<Rightarrow> Inr (m, sc)
      | None \<Rightarrow> bind_result (spirv_entries h f p) (\<lambda>m.
          Inr (m, sc\<lparr>sc_modules := dict_set p m (sc_modules sc)\<rparr>)))"

definition cached_pass ::
  "host \<Rightarrow> fs \<Rightarrow> path \<Rightarrow> string \<times> string \<Rightarrow> scan_state \<Rightarrow> (json \<times> scan_state) result"
where
  "cached_pass h f dir key sc =
     (case map_of (sc_passes sc) key of
        Some r \<Rightarrow> Inr (r, sc)
      | None \<Rightarrow> bind_result (render_pass_snapshot h f dir (fst key) (snd key)) (\<lambda>r.
          Inr (r, sc\<lparr>sc_passes := dict_set key r (sc_passes sc)\<rparr>)))"

section \<open>One marker\<close>

definition submitted_of :: "tags \<Rightarrow> string option" where
  "submitted_of details =
     (case tag ''submitted_cache'' details of None \<Rightarrow> tag ''cache'' details | Some s \<Rightarrow> Some s)"

definition submission_ok :: "tags \<Rightarrow> bool" where
  "submission_ok details \<longleftrightarrow>
     (case tag ''cache'' details of
        None \<Rightarrow> True
      | Some c \<Rightarrow> hex_handle c \<and> submitted_of details \<in> {Some c, Some ''0x0''})"

definition intervened :: "tags \<Rightarrow> bool" where
  "intervened details \<longleftrightarrow> tag ''cache'' details \<noteq> None \<and> submitted_of details \<noteq> tag ''cache'' details"

definition result_limit :: int where "result_limit = 4096"

text \<open>Whether the call returned: its result file exists and is complete.\<close>

definition has_returned :: "fs \<Rightarrow> path \<Rightarrow> string \<Rightarrow> bool result" where
  "has_returned f dir name =
     (let p = dir @ [replace_text enter_suffix ''.result.txt'' name] in
      if \<not> exists_path f p then Inr False
      else if result_limit < file_size f p then Inl (ValueError (''oversized result: '' @ base_name p))
      else bind_result (read_lines f p) (\<lambda>ls.
        if take 2 ls \<noteq> [''schema=1'', ''phase=return''] \<or> last ls \<noteq> ''end=1'' then
          Inl (ValueError (''partial return: '' @ base_name p))
        else Inr True))"

definition stage_item :: "stage_record \<Rightarrow> module_info \<Rightarrow> path \<Rightarrow> int \<Rightarrow> json result" where
  "stage_item s = (\<lambda>(entries, checksum) p stage.
     case map_of execution_models stage of
       None \<Rightarrow> Inl (ValueError (''entry differs from exact module: '' @ path_text p))
     | Some model \<Rightarrow>
         if (model, st_entry s) \<notin> set entries then
           Inl (ValueError (''entry differs from exact module: '' @ path_text p))
         else Inr (JObj
           [(''stage'', JInt stage), (''module'', JStr (st_module s)), (''entry'', JStr (st_entry s)),
            (''shader_hash'', JStr (st_hash s)), (''file'', JStr (st_file s)), (''sha256'', JStr checksum)]))"

definition exact_stage :: "tags \<Rightarrow> string \<Rightarrow> stage_record result" where
  "exact_stage details key =
     (case parse_stage (text_or [] key details) of
        None \<Rightarrow> Inl (ValueError (''missing exact stage: '' @ key))
      | Some s \<Rightarrow>
          if shader_path (st_file s) then Inr s else Inl (ValueError (''missing exact stage: '' @ key)))"

definition module_file :: "fs \<Rightarrow> path \<Rightarrow> stage_record \<Rightarrow> path result" where
  "module_file f dir s =
     (let p = dir @ components (st_file s) in
      if \<not> is_file f p \<or> is_link f p then Inl (ValueError (''missing exact module: '' @ path_text p)) else Inr p)"

definition check_stage ::
  "host \<Rightarrow> fs \<Rightarrow> path \<Rightarrow> tags \<Rightarrow> string \<Rightarrow> json list \<times> scan_state \<Rightarrow> (json list \<times> scan_state) result"
where
  "check_stage h f dir details key = (\<lambda>(stages, sc).
     bind_result (exact_stage details key) (\<lambda>s.
     bind_result (module_file f dir s) (\<lambda>p.
     bind_result (cached_module h f p sc) (\<lambda>(m, sc').
     bind_result (py_int 10 (st_stage s)) (\<lambda>stage.
     bind_result (stage_item s m p stage) (\<lambda>item.
       Inr (stages @ [item], sc')))))))"

text \<open>The cache data of a marker lie beside it, in the directory the marker names.\<close>

definition linked_cache :: "fs \<Rightarrow> path \<Rightarrow> string \<Rightarrow> string \<Rightarrow> bool" where
  "linked_cache f dir name recorded \<longleftrightarrow>
     (let p = components recorded; expected = dir @ [replace_text enter_suffix ''.cache.bin'' name] in
      is_absolute recorded \<and> base_name p = base_name expected \<and>
      base_name (parent p) = base_name dir \<and> base_name (parent (parent p)) = base_name (parent dir) \<and>
      is_file f expected \<and> \<not> is_link f expected)"

definition check_cache :: "fs \<Rightarrow> path \<Rightarrow> string \<Rightarrow> tags \<Rightarrow> unit result" where
  "check_cache f dir name details =
     (let data = text_or ''not_captured'' ''cache_data'' details in
      if data \<in> {''null'', ''not_captured''} then Inr ()
      else if \<not> linked_cache f dir name data then Inl (ValueError (''unlinked cache bytes: '' @ name))
      else
        bind_result (count_of ''cache_bytes'' details) (\<lambda>n.
          require (0 \<le> n \<and> file_size f (dir @ [replace_text enter_suffix ''.cache.bin'' name]) = n)
            (''cache byte count mismatch: '' @ name)))"

definition json_tag :: "string \<Rightarrow> tags \<Rightarrow> json" where
  "json_tag k details = (case tag k details of None \<Rightarrow> JNull | Some v \<Rightarrow> JStr v)"

definition cache_items :: "tags \<Rightarrow> (string \<times> json) list" where
  "cache_items details =
     (if tag ''cache'' details = None then []
      else [(''cache'', json_tag ''cache'' details),
            (''submitted_cache'', case submitted_of details of None \<Rightarrow> JNull | Some s \<Rightarrow> JStr s)])"

definition max_stages :: int where "max_stages = 5"

definition check_state :: "string \<Rightarrow> tags \<Rightarrow> unit result" where
  "check_state name details =
     (if tag ''replay_ready'' details \<noteq> Some ''0'' then Inl (ValueError (''unexpected replay status: '' @ name))
      else if tag ''layout_state'' details = Some ''unavailable'' \<or>
          tag ''render_pass_state'' details = Some ''unavailable'' then
        Inl (ValueError (''missing graphics layout or render pass: '' @ name))
      else Inr ())"

definition stage_count :: "string \<Rightarrow> tags \<Rightarrow> int result" where
  "stage_count name details =
     bind_result (py_int 10 (text_or ''0'' ''stages'' details)) (\<lambda>n.
       if n < 1 \<or> max_stages < n then Inl (ValueError (''invalid stage count: '' @ name)) else Inr n)"

definition graphics_item :: "string \<Rightarrow> tags \<Rightarrow> json list \<Rightarrow> json \<Rightarrow> json" where
  "graphics_item name details stages pass =
     JObj ([(''kind'', JStr ''graphics''), (''marker'', JStr name), (''stages'', JList stages),
            (''cache_data'', JStr (text_or ''not_captured'' ''cache_data'' details)),
            (''layout'', json_tag ''layout'' details), (''render_pass'', json_tag ''render_pass'' details),
            (''render_pass_snapshot'', pass)] @ cache_items details)"

definition graphics_marker ::
  "host \<Rightarrow> fs \<Rightarrow> path \<Rightarrow> string \<Rightarrow> tags \<Rightarrow> scan_state \<Rightarrow> (json \<times> scan_state) result"
where
  "graphics_marker h f dir name details sc =
     bind_result (check_state name details) (\<lambda>_.
     bind_result (stage_count name details) (\<lambda>n.
     bind_result (fold_result (check_stage h f dir details) (indexed ''stage'' n) ([], sc)) (\<lambda>(stages, sc1).
     bind_result (check_cache f dir name details) (\<lambda>_.
     bind_result (cached_pass h f dir
         (text_or ''unavailable'' ''render_pass_file'' details, text_or ''0x0'' ''render_pass'' details) sc1)
       (\<lambda>(pass, sc2). Inr (graphics_item name details stages pass, sc2))))))"

definition compute_item :: "string \<Rightarrow> tags \<Rightarrow> json" where
  "compute_item name details =
     JObj ([(''kind'', JStr ''compute''), (''marker'', JStr name), (''entry'', json_tag ''entry'' details)]
       @ cache_items details)"

definition finish_marker :: "string \<Rightarrow> bool \<Rightarrow> json \<Rightarrow> scan_state \<Rightarrow> scan_state" where
  "finish_marker kind returned item sc =
     (if returned then sc\<lparr>sc_returned := sc_returned sc @ [kind]\<rparr>
      else sc\<lparr>sc_unreturned := sc_unreturned sc @ [item]\<rparr>)"

definition count_intervention :: "tags \<Rightarrow> scan_state \<Rightarrow> scan_state" where
  "count_intervention details sc =
     sc\<lparr>sc_interventions := sc_interventions sc + (if intervened details then 1 else 0)\<rparr>"

definition entered_call ::
  "host \<Rightarrow> fs \<Rightarrow> path \<Rightarrow> string \<Rightarrow> string \<Rightarrow> tags \<Rightarrow> scan_state \<Rightarrow> (json \<times> scan_state) result"
where
  "entered_call h f dir kind name details sc =
     (if kind = ''compute'' then Inr (compute_item name details, sc)
      else graphics_marker h f dir name details sc)"

definition scan_marker ::
  "host \<Rightarrow> fs \<Rightarrow> path \<Rightarrow> string \<times> string \<Rightarrow> scan_state \<Rightarrow> scan_state result"
where
  "scan_marker h f dir = (\<lambda>(kind, name) sc.
     bind_result (marker_fields f (dir @ [name])) (\<lambda>details.
     if \<not> submission_ok details then Inl (ValueError (''invalid cache submission: '' @ name))
     else
       bind_result (has_returned f dir name) (\<lambda>returned.
       bind_result (entered_call h f dir kind name details (count_intervention details sc)) (\<lambda>(item, sc').
         Inr (finish_marker kind returned item sc')))))"

section \<open>The analysis\<close>

definition max_markers :: int where "max_markers = 4096"

definition amount_of :: "'a list \<Rightarrow> json" where "amount_of xs = JInt (int (length xs))"

definition scan_report :: "nat \<Rightarrow> nat \<Rightarrow> scan_state \<Rightarrow> json" where
  "scan_report graphics compute sc = JObj
     [(''status'', JStr (if sc_unreturned sc \<noteq> [] then ''CAPTURED_DRIVER_ENTRY'' else ''NO_UNRETURNED_ENTRY'')),
      (''graphics_enters'', JInt (int graphics)),
      (''graphics_returns'', amount_of (filter (\<lambda>k. k = ''graphics'') (sc_returned sc))),
      (''compute_enters'', JInt (int compute)),
      (''compute_returns'', amount_of (filter (\<lambda>k. k = ''compute'') (sc_returned sc))),
      (''cache_intervention_count'', JInt (int (sc_interventions sc))),
      (''validated_modules'', amount_of (sc_modules sc)),
      (''validated_render_pass_snapshots'',
        amount_of (filter (\<lambda>(_, r). field ''status'' r = JStr ''complete'') (sc_passes sc))),
      (''unreturned'', JList (sc_unreturned sc)), (''replay_ready'', JBool False),
      (''scope'', JStr ''Same-run marker and module validation; not a driver root-cause or runtime acceptance'')]"

definition analyze :: "host \<Rightarrow> fs \<Rightarrow> string list \<Rightarrow> path \<Rightarrow> json result" where
  "analyze h f listing dir =
     (let graphics = markers_of ''graphics'' listing; compute = markers_of ''compute'' listing in
      if graphics = [] \<or> compute = [] \<or> max_markers < int (length graphics + length compute) then
        Inl (ValueError ''missing or unbounded mixed driver-entry markers'')
      else
        bind_result (fold_result (scan_marker h f dir) (graphics @ compute) empty_scan) (\<lambda>sc.
        if 1 < length (sc_unreturned sc) then
          Inl (ValueError ''multiple unreturned entries despite mixed serialization'')
        else Inr (scan_report (length graphics) (length compute) sc)))"

definition main :: "host \<Rightarrow> fs \<Rightarrow> string list \<Rightarrow> path \<Rightarrow> path \<Rightarrow> (int \<times> fs) result" where
  "main h f listing dir output =
     (case bind_result (analyze h f listing dir) (\<lambda>r. write_bytes f output (encode 0 r @ [CHR 0x0A])) of
        Inr f' \<Rightarrow> Inr (0, f')
      | Inl e \<Rightarrow> (case e of
          OSError _ \<Rightarrow> Inr (2, f) | ValueError _ \<Rightarrow> Inr (2, f) | StructError _ \<Rightarrow> Inr (2, f) | _ \<Rightarrow> Inl e))"

end
