(* ===== verification/CacheLifecycle.thy ===== *)
theory CacheLifecycle
  imports DriverEntries
begin

text \<open>
  \<open>scripts/carla/analyze_vulkan_cache_lifecycle.py\<close>: the log of entered and returned operations on
  pipeline caches and on the objects pipelines are made of. The scan keeps the running operations,
  the live and queued handles, and lists the events that no well-behaved run has.
\<close>

section \<open>Events\<close>

record cache_event =
  ev_operation :: string
  ev_enter :: bool
  ev_thread :: string
  ev_cache :: string
  ev_other :: string
  ev_result :: string

definition object_kinds :: "string list" where
  "object_kinds = [''module'', ''layout'', ''pass'', ''descriptor'']"

definition cache_uses :: "string list" where
  "cache_uses = [''graphics'', ''compute'', ''get_data'', ''merge'']"

definition operation_names :: "string list" where
  "operation_names =
     [''create'', ''destroy'', ''merge'', ''get_data'', ''graphics'', ''compute''] @
     concat (map (\<lambda>k. [k @ ''_create'', k @ ''_enqueue'', k @ ''_destroy'']) object_kinds)"

text \<open>\<open>operation.partition("_")\<close>.\<close>

definition object_kind :: "string \<Rightarrow> string" where
  "object_kind operation = fst (partition_at (CHR ''_'') operation)"

definition object_action :: "string \<Rightarrow> string" where
  "object_action operation = snd (snd (partition_at (CHR ''_'') operation))"

definition lower_handle :: "string \<Rightarrow> bool" where
  "lower_handle s \<longleftrightarrow> starts_with ''0x'' s \<and> nonempty_all is_lower_hex (drop 2 s)"

definition signed_digits :: "string \<Rightarrow> bool" where
  "signed_digits s \<longleftrightarrow> all_digits (if starts_with ''-'' s then drop 1 s else s)"

text \<open>The value of a token \<open>key=value\<close> with the given key.\<close>

definition token_value :: "string \<Rightarrow> string \<Rightarrow> string option" where
  "token_value k t = (if starts_with (k @ ''='') t then Some (drop (length k + 1) t) else None)"

definition event_keys :: "string list" where
  "event_keys =
     [''event'', ''operation'', ''phase'', ''thread'', ''cache'', ''other'', ''result'', ''bytes'', ''end'']"

definition token_values :: "string \<Rightarrow> string option list" where
  "token_values line = map (\<lambda>(k, t). token_value k t) (zip event_keys (split_on (CHR '' '') line))"

text \<open>\<open>EVENT.fullmatch(line)\<close>: nine tokens with single spaces; the values hold no space.\<close>

definition match_event :: "string \<Rightarrow> (string \<times> cache_event) option" where
  "match_event line =
     (if length (split_on (CHR '' '') line) \<noteq> 9 then None
      else case token_values line of
        [Some n, Some operation, Some phase, Some thread, Some c, Some other, Some res, Some amount, Some e] \<Rightarrow>
          if all_digits n \<and> operation \<in> set operation_names \<and> phase \<in> {''enter'', ''return''} \<and>
             all_digits thread \<and> lower_handle c \<and> lower_handle other \<and> signed_digits res \<and>
             all_digits amount \<and> e = ''1''
          then Some (n, \<lparr>ev_operation = operation, ev_enter = (phase = ''enter''), ev_thread = thread,
                  ev_cache = c, ev_other = other, ev_result = res\<rparr>)
          else None
      | _ \<Rightarrow> None)"

definition read_cache_event :: "int \<Rightarrow> string \<Rightarrow> cache_event result" where
  "read_cache_event sequence line =
     (case match_event line of
        None \<Rightarrow> Inl (ValueError (''invalid cache event at sequence '' @ show_int sequence))
      | Some (n, e) \<Rightarrow> bind_result (py_int 10 n) (\<lambda>i.
          if i \<noteq> sequence then Inl (ValueError (''invalid cache event at sequence '' @ show_int sequence))
          else Inr e))"

section \<open>State\<close>

text \<open>A running operation: where it began, and the handles it was entered with.\<close>

record pending_use =
  pe_sequence :: int
  pe_operation :: string
  pe_thread :: string
  pe_cache :: string
  pe_submitted :: string

type_synonym pending_key = "string \<times> string"

record cache_state =
  cs_pending :: "(pending_key \<times> pending_use) list"
  cs_live :: "string set"
  cs_objects :: "string \<Rightarrow> string set"
  cs_queued :: "string \<Rightarrow> string set"
  cs_intervals :: "json list"
  cs_invalid :: "json list"
  cs_created :: nat

definition initial_state :: cache_state where
  "initial_state =
     \<lparr>cs_pending = [], cs_live = {}, cs_objects = (\<lambda>_. {}), cs_queued = (\<lambda>_. {}), cs_intervals = [],
      cs_invalid = [], cs_created = 0\<rparr>"

definition null_handle :: string where "null_handle = ''0x0''"

definition anomaly :: "int \<Rightarrow> string \<Rightarrow> (string \<times> json) list \<Rightarrow> cache_state \<Rightarrow> cache_state" where
  "anomaly sequence reason items s =
     s\<lparr>cs_invalid := cs_invalid s @ [JObj ([(''sequence'', JInt sequence), (''reason'', JStr reason)] @ items)]\<rparr>"

definition flag_when ::
  "bool \<Rightarrow> int \<Rightarrow> string \<Rightarrow> (string \<times> json) list \<Rightarrow> cache_state \<Rightarrow> cache_state"
where
  "flag_when c sequence reason items s = (if c then anomaly sequence reason items s else s)"

definition handle_items :: "string \<Rightarrow> string \<Rightarrow> (string \<times> json) list" where
  "handle_items kind handle = [(''kind'', JStr kind), (''handle'', JStr handle)]"

definition cache_item :: "string \<Rightarrow> (string \<times> json) list" where
  "cache_item c = [(''cache'', JStr c)]"

definition is_object :: "cache_event \<Rightarrow> bool" where
  "is_object e \<longleftrightarrow> object_kind (ev_operation e) \<in> set object_kinds"

definition event_key :: "cache_event \<Rightarrow> pending_key" where
  "event_key e = (ev_thread e, ev_operation e)"

section \<open>Steps\<close>

definition enqueue_step :: "int \<Rightarrow> cache_event \<Rightarrow> cache_state \<Rightarrow> cache_state" where
  "enqueue_step sequence e s =
     (let kind = object_kind (ev_operation e); c = ev_cache e;
          s1 = flag_when (ev_enter e \<or> c \<notin> cs_objects s kind) sequence ''unobserved enqueue''
            (handle_items kind c) s
      in s1\<lparr>cs_queued := (cs_queued s1)(kind := insert c (cs_queued s1 kind))\<rparr>)"

definition in_active_use :: "string \<Rightarrow> cache_state \<Rightarrow> bool" where
  "in_active_use c s \<longleftrightarrow>
     list_ex (\<lambda>(_, u). pe_operation u \<in> set cache_uses \<and> pe_cache u = c) (cs_pending s)"

definition concurrent_uses :: "pending_key \<Rightarrow> string \<Rightarrow> cache_state \<Rightarrow> string list" where
  "concurrent_uses key c s =
     [pe_operation u. (k, u) \<leftarrow> cs_pending s,
       k \<noteq> key \<and> pe_cache u = c \<and> c \<noteq> null_handle \<and> pe_operation u \<in> set cache_uses]"

definition overlap_item :: "int \<Rightarrow> cache_event \<Rightarrow> string list \<Rightarrow> json" where
  "overlap_item sequence e operations = JObj
     [(''sequence'', JInt sequence), (''cache'', JStr (ev_cache e)), (''operation'', JStr (ev_operation e)),
      (''concurrent'', JList (map JStr (sort (remdups operations))))]"

definition enter_flags :: "int \<Rightarrow> cache_event \<Rightarrow> cache_state \<Rightarrow> cache_state" where
  "enter_flags sequence e s =
     (let c = ev_cache e; operation = ev_operation e;
          s1 = flag_when (operation \<in> set (''destroy'' # cache_uses) \<and> c \<noteq> null_handle \<and> c \<notin> cs_live s)
            sequence ''unobserved cache'' (cache_item c) s;
          s2 = flag_when (operation = ''merge'' \<and> ev_other e \<noteq> null_handle \<and> ev_other e \<notin> cs_live s)
            sequence ''unobserved source'' (cache_item (ev_other e)) s1
      in flag_when (operation = ''destroy'' \<and> in_active_use c s) sequence ''destroy during active use''
           (cache_item c) s2)"

definition enter_use :: "bool \<Rightarrow> int \<Rightarrow> cache_event \<Rightarrow> pending_use" where
  "enter_use submitted sequence e =
     \<lparr>pe_sequence = sequence, pe_operation = ev_operation e, pe_thread = ev_thread e, pe_cache = ev_cache e,
      pe_submitted = (if ev_operation e \<in> {''graphics'', ''compute''} \<and> submitted then ev_other e else ev_cache e)\<rparr>"

definition enter_step :: "bool \<Rightarrow> int \<Rightarrow> cache_event \<Rightarrow> cache_state \<Rightarrow> cache_state result" where
  "enter_step submitted sequence e s =
     (if map_of (cs_pending s) (event_key e) \<noteq> None then
        Inl (ValueError (''nested '' @ ev_operation e @ '' on thread '' @ ev_thread e))
      else
        (let s1 = enter_flags sequence e s;
             s2 = s1\<lparr>cs_pending := dict_set (event_key e) (enter_use submitted sequence e) (cs_pending s1)\<rparr>;
             others = concurrent_uses (event_key e) (ev_cache e) s2
         in Inr (if ev_operation e \<in> set cache_uses \<and> others \<noteq> [] then
              s2\<lparr>cs_intervals := cs_intervals s2 @ [overlap_item sequence e others]\<rparr> else s2)))"

definition created_cache :: "cache_event \<Rightarrow> bool" where
  "created_cache e \<longleftrightarrow>
     ev_operation e = ''create'' \<and> int_text 10 (ev_result e) = Some 0 \<and> ev_cache e \<noteq> null_handle"

definition destroyed_cache :: "cache_event \<Rightarrow> bool" where
  "destroyed_cache e \<longleftrightarrow> ev_operation e = ''destroy'' \<and> ev_cache e \<noteq> null_handle"

definition return_cache :: "int \<Rightarrow> cache_event \<Rightarrow> cache_state \<Rightarrow> cache_state" where
  "return_cache sequence e s =
     (let c = ev_cache e in
      if created_cache e then
        (flag_when (c \<in> cs_live s) sequence ''duplicate create'' (cache_item c) s)
          \<lparr>cs_live := insert c (cs_live s), cs_created := cs_created s + 1\<rparr>
      else if destroyed_cache e then s\<lparr>cs_live := cs_live s - {c}\<rparr>
      else s)"

definition return_object :: "int \<Rightarrow> cache_event \<Rightarrow> cache_state \<Rightarrow> cache_state" where
  "return_object sequence e s =
     (let c = ev_cache e; kind = object_kind (ev_operation e); action = object_action (ev_operation e) in
      if is_object e \<and> action = ''create'' \<and> c \<noteq> null_handle then
        (flag_when (c \<in> cs_objects s kind) sequence ''duplicate object create'' (handle_items kind c) s)
          \<lparr>cs_objects := (cs_objects s)(kind := insert c (cs_objects s kind)),
           cs_queued := (cs_queued s)(kind := cs_queued s kind - {c})\<rparr>
      else if is_object e \<and> action = ''destroy'' then
        (flag_when (c \<notin> cs_objects s kind) sequence ''unobserved object destroy'' (handle_items kind c) s)
          \<lparr>cs_objects := (cs_objects s)(kind := cs_objects s kind - {c}),
           cs_queued := (cs_queued s)(kind := cs_queued s kind - {c})\<rparr>
      else s)"

text \<open>\<open>int(result)\<close> of a creation raises only beyond the interpreter's limit of 4300 digits.\<close>

definition return_step :: "int \<Rightarrow> cache_event \<Rightarrow> cache_state \<Rightarrow> cache_state result" where
  "return_step sequence e s =
     (case map_of (cs_pending s) (event_key e) of
        None \<Rightarrow> Inl (ValueError (''unpaired cache return at sequence '' @ show_int sequence))
      | Some start \<Rightarrow>
          if ev_operation e \<noteq> ''create'' \<and> object_action (ev_operation e) \<noteq> ''create'' \<and>
              ev_cache e \<noteq> pe_cache start then
            Inl (ValueError (''changed cache handle at sequence '' @ show_int sequence))
          else
            bind_result (if ev_operation e = ''create'' then py_int 10 (ev_result e) else Inr 0) (\<lambda>_.
              Inr (return_object sequence e (return_cache sequence e
                (s\<lparr>cs_pending := filter (\<lambda>(k, _). k \<noteq> event_key e) (cs_pending s)\<rparr>)))))"

definition cache_step :: "bool \<Rightarrow> int \<times> cache_event \<Rightarrow> cache_state \<Rightarrow> cache_state result" where
  "cache_step submitted = (\<lambda>(sequence, e) s.
     if is_object e \<and> object_action (ev_operation e) = ''enqueue'' then Inr (enqueue_step sequence e s)
     else if ev_enter e then enter_step submitted sequence e s
     else return_step sequence e s)"

definition line_step :: "bool \<Rightarrow> int \<times> string \<Rightarrow> cache_state \<Rightarrow> cache_state result" where
  "line_step submitted = (\<lambda>(sequence, line) s.
     bind_result (read_cache_event sequence line) (\<lambda>e. cache_step submitted (sequence, e) s))"

definition numbered :: "string list \<Rightarrow> (int \<times> string) list" where
  "numbered ls = zip (map int [1..<Suc (length ls)]) ls"

section \<open>The report\<close>

definition use_item :: "pending_use \<Rightarrow> json" where
  "use_item u = JObj
     [(''sequence'', JInt (pe_sequence u)), (''operation'', JStr (pe_operation u)), (''thread'', JStr (pe_thread u)),
      (''cache'', JStr (pe_cache u)), (''submitted_cache'', JStr (pe_submitted u))]"

text \<open>The running operation of the fault marker.\<close>

definition fault_uses :: "json \<Rightarrow> tags \<Rightarrow> cache_state \<Rightarrow> pending_use list" where
  "fault_uses fault marker s =
     [u. (_, u) \<leftarrow> cs_pending s,
       JStr (pe_operation u) = field ''kind'' fault \<and> Some (pe_cache u) = tag ''cache'' marker \<and>
       Some (pe_thread u) = tag ''thread'' marker]"

definition object_handle :: "string \<Rightarrow> string \<Rightarrow> tags \<Rightarrow> (string \<times> string) list" where
  "object_handle name k marker =
     (case tag k marker of None \<Rightarrow> [] | Some v \<Rightarrow> if v = [] then [] else [(name, v)])"

definition stage_field :: "string \<Rightarrow> bool" where
  "stage_field k \<longleftrightarrow> starts_with ''stage'' k \<and> all_digits (drop 5 k)"

definition stage_module :: "string \<times> string \<Rightarrow> (string \<times> string) list" where
  "stage_module = (\<lambda>(k, v).
     if \<not> stage_field k then []
     else case split_on (CHR '','') v of _ # b # _ # _ \<Rightarrow> [(''module_'' @ k, b)] | _ \<Rightarrow> [])"

definition fault_handles :: "json \<Rightarrow> tags \<Rightarrow> (string \<times> string) list" where
  "fault_handles fault marker =
     object_handle ''module'' ''module'' marker @ object_handle ''layout'' ''layout'' marker @
     (if field ''kind'' fault = JStr ''graphics'' then
        object_handle ''pass'' ''render_pass'' marker @ concat (map stage_module marker) else [])"

definition base_kind :: "string \<Rightarrow> string" where
  "base_kind name = fst (partition_at (CHR ''_'') name)"

definition handle_live :: "cache_state \<Rightarrow> string \<times> string \<Rightarrow> bool" where
  "handle_live s = (\<lambda>(name, handle). handle \<in> cs_objects s (base_kind name))"

definition handle_status :: "cache_state \<Rightarrow> string \<times> string \<Rightarrow> string \<times> json" where
  "handle_status s = (\<lambda>(name, handle). (name, JObj
     [(''handle'', JStr handle), (''live'', JBool (handle_live s (name, handle))),
      (''queued'', JBool (handle \<in> cs_queued s (base_kind name)))]))"

definition objects_observed :: "cache_state \<Rightarrow> string list \<Rightarrow> bool" where
  "objects_observed s ls \<longleftrightarrow>
     list_ex (\<lambda>k. cs_objects s k \<noteq> {}) object_kinds \<or>
     list_ex (\<lambda>l. contains_text ''_create'' l \<or> contains_text ''_destroy'' l) ls"

definition on_cache :: "string \<Rightarrow> json \<Rightarrow> bool" where
  "on_cache c item \<longleftrightarrow> field ''cache'' item = JStr c"

definition cache_report :: "cache_state \<Rightarrow> string list \<Rightarrow> json \<Rightarrow> tags \<Rightarrow> string \<Rightarrow> string \<Rightarrow> pending_use \<Rightarrow> json" where
  "cache_report s ls fault marker fault_cache submitted use =
     (let observed = objects_observed s ls;
          handles = (if observed then fault_handles fault marker else []);
          missing = map fst (filter (\<lambda>x. \<not> handle_live s x) handles);
          live = (fault_cache = null_handle \<or> fault_cache \<in> cs_live s);
          overlaps = filter (on_cache fault_cache) (cs_intervals s) in
      JObj
        [(''status'', JStr (if cs_invalid s \<noteq> [] \<or> \<not> live \<or> missing \<noteq> [] then ''CACHE_LIFETIME_ANOMALY''
            else ''CAPTURED_CACHE_HISTORY'')),
         (''event_count'', JInt (int (length ls))), (''created_caches'', JInt (int (cs_created s))),
         (''fault_cache'', JStr fault_cache), (''fault_submitted_cache'', JStr submitted),
         (''fault_cache_live_at_end'', JBool live), (''fault_operation'', use_item use),
         (''fault_objects'', JObj (map (handle_status s) handles)),
         (''object_lifecycle_observed'', JBool observed),
         (''missing_fault_objects'', JList (map JStr missing)),
         (''pending_operations'', JList (map (\<lambda>(_, u). use_item u) (cs_pending s))),
         (''invalid_lifetime_events'', JList (cs_invalid s)), (''overlapping_uses'', JList (cs_intervals s)),
         (''overlaps_on_fault_cache'', JList overlaps),
         (''overlaps_during_fault'',
           JList (filter (\<lambda>i. pe_sequence use \<le> int_of (field ''sequence'' i)) overlaps)),
         (''scope'', JStr ''Observed VulkanPipeline.cpp cache calls and selected module/layout/render-pass paths only; overlap is not proof of a data race'')])"

text \<open>The call that did not return, matched with the one running operation of its thread.\<close>

definition null_entry :: "string \<Rightarrow> bool" where
  "null_entry line \<longleftrightarrow>
     (case match_event line of None \<Rightarrow> False | Some (_, e) \<Rightarrow> ev_other e = null_handle)"

definition match_fault :: "cache_state \<Rightarrow> string list \<Rightarrow> json \<Rightarrow> tags \<Rightarrow> json result" where
  "match_fault s ls fault marker =
     (case fault_uses fault marker s of
        [use] \<Rightarrow>
          (let fault_cache = pe_cache use;
               submitted = (case tag ''submitted_cache'' marker of None \<Rightarrow> fault_cache | Some c \<Rightarrow> c) in
           if pe_submitted use \<noteq> submitted \<and> submitted \<noteq> null_handle then
             Inl (ValueError ''fault marker and cache operation disagree on submitted cache'')
           else if tag ''submitted_cache'' marker \<noteq> None \<and> submitted = null_handle \<and>
               \<not> null_entry (ls ! nat (pe_sequence use - 1)) then
             Inl (ValueError ''null-cache intervention lacks a matching lifecycle event'')
           else Inr (cache_report s ls fault marker fault_cache submitted use))
      | _ \<Rightarrow> Inl (ValueError ''fault marker has no matching unreturned cache operation''))"

definition lifecycle_limit :: int where "lifecycle_limit = 4194304"

definition max_lines :: int where "max_lines = 12000"

definition read_lifecycle :: "fs \<Rightarrow> path \<Rightarrow> string list result" where
  "read_lifecycle f dir =
     (let p = dir @ [''cache-lifecycle.txt''] in
      if \<not> is_file f p \<or> is_link f p \<or> lifecycle_limit < file_size f p then
        Inl (ValueError ''missing or oversized cache lifecycle file'')
      else
        bind_result (read_lines f p) (\<lambda>ls.
          if ls = [] \<or> max_lines < int (length ls) then
            Inl (ValueError ''missing or unbounded cache lifecycle events'')
          else Inr ls))"

definition unique_fault :: "json \<Rightarrow> json result" where
  "unique_fault driver =
     (if field ''status'' driver \<noteq> JStr ''CAPTURED_DRIVER_ENTRY'' \<or>
         length (list_items (field ''unreturned'' driver)) \<noteq> 1 then
        Inl (ValueError ''unique driver-entry fault required'')
      else Inr (hd (list_items (field ''unreturned'' driver))))"

definition analyze :: "host \<Rightarrow> fs \<Rightarrow> string list \<Rightarrow> path \<Rightarrow> json result" where
  "analyze h f listing dir =
     bind_result (DriverEntries.analyze h f listing dir) (\<lambda>driver.
     bind_result (unique_fault driver) (\<lambda>fault.
     bind_result (marker_fields f (dir @ [str_of (field ''marker'' fault)])) (\<lambda>marker.
     bind_result (read_lifecycle f dir) (\<lambda>ls.
     bind_result (fold_result (line_step (tag ''submitted_cache'' marker \<noteq> None)) (numbered ls) initial_state)
       (\<lambda>s. match_fault s ls fault marker)))))"

definition main :: "host \<Rightarrow> fs \<Rightarrow> string list \<Rightarrow> path \<Rightarrow> path \<Rightarrow> (int \<times> fs) result" where
  "main h f listing dir output =
     (case bind_result (analyze h f listing dir) (\<lambda>r.
        bind_result (write_bytes f output (encode 0 r @ [CHR 0x0A])) (\<lambda>f'. Inr (r, f'))) of
        Inr (r, f') \<Rightarrow> Inr (if field ''status'' r = JStr ''CAPTURED_CACHE_HISTORY'' then 0 else 3, f')
      | Inl e \<Rightarrow> if os_or_value e then Inr (2, f) else Inl e)"

end
