(* ===== verification/DriverEntriesFacts.thy ===== *)
theory DriverEntriesFacts
  imports DriverEntries
begin

text \<open>
  What an accepted set of driver markers guarantees: every entered call is accounted for, at most one
  did not return, and the stages reported for it name entry points of the modules they point to. The
  two caches of the scan only ever hold what a fresh read would return.
\<close>

section \<open>Entry points of a module\<close>

definition entry_ok :: "32 word list \<Rightarrow> bool" where
  "entry_ok i \<longleftrightarrow>
     (is_entry_point i \<longrightarrow> 4 \<le> length i \<and> list_all (\<lambda>c. (of_char c :: int) < 128) (entry_name i))"

definition entry_list :: "32 word list list \<Rightarrow> entry list" where
  "entry_list ins = map (\<lambda>i. (i ! 1, entry_name i)) (filter is_entry_point ins)"

definition instructions :: "32 word list list \<Rightarrow> bool" where
  "instructions ins \<longleftrightarrow> (\<forall>i\<in>set ins. is_instruction i \<and> entry_ok i)"

lemma instructions_simps [simp]:
  "instructions []"
  "instructions (i # ins) \<longleftrightarrow> is_instruction i \<and> entry_ok i \<and> instructions ins"
  by (auto simp: instructions_def)

lemma ascii_text_Inr [simp]:
  "ascii_text s = Inr t \<longleftrightarrow> t = s \<and> list_all (\<lambda>c. (of_char c :: int) < 128) s"
  by (auto simp: ascii_text_def)

lemma take_instruction:
  assumes "word_count (hd ws) \<noteq> 0" and "word_count (hd ws) \<le> length ws"
  shows "is_instruction (take (word_count (hd ws)) ws)"
  using assms by (cases ws) (auto simp: is_instruction_def)

lemma entry_scan_step:
  assumes "is_instruction i"
  shows "entry_scan (i @ ws) found =
    (if is_entry_point i then
       if length i < 4 then Inl (ValueError ''short SPIR-V entry point'')
       else bind_result (ascii_text (entry_name i)) (\<lambda>name. entry_scan ws ((i ! 1, name) # found))
     else entry_scan ws found)"
proof -
  from assms have i: "i \<noteq> []" "word_count (hd i) = length i" by (simp_all add: is_instruction_def)
  then have "hd (i @ ws) = hd i" "i @ ws \<noteq> []" by simp_all
  with i show ?thesis
    by (subst entry_scan.simps) (auto simp: is_entry_point_def nth_append numeral_eq_Suc)
qed

lemma entry_scan_instructions:
  "instructions ins \<Longrightarrow> entry_scan (concat ins) found = Inr (rev (entry_list ins) @ found)"
proof (induction ins arbitrary: found)
  case Nil
  then show ?case by (simp add: entry_list_def entry_scan.simps)
next
  case (Cons i ins)
  then show ?case
    by (auto simp: entry_scan_step entry_ok_def entry_list_def)
qed

lemma entry_scan_Inr:
  "entry_scan ws found = Inr es \<Longrightarrow>
   \<exists>ins. ws = concat ins \<and> instructions ins \<and> es = rev (entry_list ins) @ found"
proof (induction ws found rule: entry_scan.induct)
  case (1 ws found)
  let ?i = "take (word_count (hd ws)) ws"
  let ?ws = "drop (word_count (hd ws)) ws"
  show ?case
  proof (cases "ws = []")
    case True
    with "1.prems" show ?thesis
      by (intro exI [of _ "[]"]) (simp add: entry_scan.simps entry_list_def)
  next
    case False
    with "1.prems" have c: "word_count (hd ws) \<noteq> 0" "word_count (hd ws) \<le> length ws"
      by (auto simp: entry_scan.simps [of ws] split: if_splits)
    then have i: "is_instruction ?i" by (rule take_instruction)
    have split: "ws = ?i @ ?ws" by simp
    have head: "is_entry_point ?i \<longleftrightarrow> opcode (hd ws) = 15" using c False
      by (cases ws) (auto simp: is_entry_point_def)
    have step: "entry_scan ws found = (if is_entry_point ?i then
       if length ?i < 4 then Inl (ValueError ''short SPIR-V entry point'')
       else bind_result (ascii_text (entry_name ?i)) (\<lambda>name. entry_scan ?ws ((?i ! 1, name) # found))
     else entry_scan ?ws found)"
      using entry_scan_step [OF i, of ?ws found] by simp
    have len: "length ?i = word_count (hd ws)" using c by simp
    show ?thesis
    proof (cases "is_entry_point ?i")
      case True
      with "1.prems" step have e: "4 \<le> length ?i" "list_all (\<lambda>c. (of_char c :: int) < 128) (entry_name ?i)"
        "entry_scan ?ws ((?i ! 1, entry_name ?i) # found) = Inr es"
        by (auto split: if_splits)
      have "?i ! 1 = ws ! 1" using e(1) len by simp
      then have "\<exists>ins. ?ws = concat ins \<and> instructions ins \<and>
          es = rev (entry_list ins) @ (?i ! 1, entry_name ?i) # found"
        using "1.IH"(1) [OF False, of "entry_name ?i"] e c True head len by simp
      then obtain ins where "?ws = concat ins" "instructions ins"
        "es = rev (entry_list ins) @ (?i ! 1, entry_name ?i) # found" by blast
      with True e i split show ?thesis
        by (intro exI [of _ "?i # ins"]) (simp add: entry_ok_def entry_list_def)
    next
      case nonentry: False
      with "1.prems" step have "entry_scan ?ws found = Inr es" by simp
      then have "\<exists>ins. ?ws = concat ins \<and> instructions ins \<and> es = rev (entry_list ins) @ found"
        using "1.IH"(2) [OF False] c nonentry head by simp
      then obtain ins where "?ws = concat ins" "instructions ins" "es = rev (entry_list ins) @ found"
        by blast
      with nonentry i split show ?thesis
        by (intro exI [of _ "?i # ins"]) (simp add: entry_ok_def entry_list_def)
    qed
  qed
qed

definition module_form :: "bytes \<Rightarrow> 32 word list list \<Rightarrow> bool" where
  "module_form b ins \<longleftrightarrow>
     20 \<le> length b \<and> int (length b) \<le> module_limit \<and> length b mod 4 = 0 \<and>
     hd (words_of b) = spirv_magic \<and> drop 5 (words_of b) = concat ins \<and> instructions ins"

lemma module_entries_Inr:
  "module_entries b = Inr es \<longleftrightarrow> (\<exists>ins. module_form b ins \<and> es = rev (entry_list ins))"
  unfolding module_entries_def module_form_def
  by (auto dest!: entry_scan_Inr simp: entry_scan_instructions)

section \<open>The scan\<close>

definition stage_exact :: "host \<Rightarrow> fs \<Rightarrow> path \<Rightarrow> json \<Rightarrow> bool" where
  "stage_exact h f dir j \<longleftrightarrow>
     (\<exists>name b ins i.
        field ''file'' j = JStr name \<and> shader_path name \<and>
        is_file f (dir @ components name) \<and> \<not> is_link f (dir @ components name) \<and>
        read_bytes f (dir @ components name) = Inr b \<and> field ''sha256'' j = JStr (sha256 h b) \<and>
        module_form b ins \<and> i \<in> set ins \<and> is_entry_point i \<and>
        map_of execution_models (int_of (field ''stage'' j)) = Some (i ! 1) \<and>
        field ''entry'' j = JStr (entry_name i))"

definition item_exact :: "host \<Rightarrow> fs \<Rightarrow> path \<Rightarrow> json \<Rightarrow> bool" where
  "item_exact h f dir j \<longleftrightarrow>
     field ''kind'' j = JStr ''compute'' \<or>
     field ''kind'' j = JStr ''graphics'' \<and>
     (\<exists>ss. field ''stages'' j = JList ss \<and> 1 \<le> length ss \<and> length ss \<le> 5 \<and> list_all (stage_exact h f dir) ss)"

text \<open>The caches hold what reading again would give.\<close>

definition caches_ok :: "host \<Rightarrow> fs \<Rightarrow> path \<Rightarrow> scan_state \<Rightarrow> bool" where
  "caches_ok h f dir sc \<longleftrightarrow>
     (\<forall>e\<in>set (sc_modules sc). spirv_entries h f (fst e) = Inr (snd e)) \<and>
     (\<forall>e\<in>set (sc_passes sc). render_pass_snapshot h f dir (fst (fst e)) (snd (fst e)) = Inr (snd e))"

definition same_calls :: "scan_state \<Rightarrow> scan_state \<Rightarrow> bool" where
  "same_calls sc sc' \<longleftrightarrow>
     sc_unreturned sc' = sc_unreturned sc \<and> sc_returned sc' = sc_returned sc"

lemma set_dict_set: "set (dict_set k v d) \<subseteq> insert (k, v) (set d)"
  by (induction d rule: dict_set.induct) auto

lemma cached_module_Inr:
  assumes "cached_module h f p sc = Inr (m, sc')" and "caches_ok h f dir sc"
  shows "spirv_entries h f p = Inr m" and "caches_ok h f dir sc'" and "same_calls sc sc'"
  using assms set_dict_set [of p m "sc_modules sc"]
  by (auto simp: cached_module_def caches_ok_def same_calls_def split: option.splits dest!: map_of_SomeD)

lemma cached_pass_Inr:
  assumes "cached_pass h f dir key sc = Inr (r, sc')" and "caches_ok h f dir sc"
  shows "render_pass_snapshot h f dir (fst key) (snd key) = Inr r" and "caches_ok h f dir sc'"
    and "same_calls sc sc'"
  using assms set_dict_set [of key r "sc_passes sc"]
  by (auto simp: cached_pass_def caches_ok_def same_calls_def split: option.splits dest!: map_of_SomeD)

lemma entry_of_module:
  assumes "spirv_entries h f p = Inr (entries, checksum)" and "e \<in> set entries"
  shows "\<exists>b ins i. read_bytes f p = Inr b \<and> checksum = sha256 h b \<and> module_form b ins \<and>
    i \<in> set ins \<and> is_entry_point i \<and> e = (i ! 1, entry_name i)"
proof -
  from assms(1) obtain b ins where "read_bytes f p = Inr b" "module_form b ins"
    "entries = rev (entry_list ins)" "checksum = sha256 h b"
    by (auto simp: spirv_entries_def module_entries_Inr)
  with assms(2) show ?thesis by (auto simp: entry_list_def)
qed

lemma check_stage_Inr:
  assumes "check_stage h f dir details key (ss, sc) = Inr (ss', sc')" and "caches_ok h f dir sc"
  shows "\<exists>j. ss' = ss @ [j] \<and> stage_exact h f dir j" and "caches_ok h f dir sc'" and "same_calls sc sc'"
proof -
  from assms(1) obtain s p entries checksum stage j where e: "exact_stage details key = Inr s"
    and p: "module_file f dir s = Inr p"
    and m: "cached_module h f p sc = Inr ((entries, checksum), sc')"
    and j: "stage_item s (entries, checksum) p stage = Inr j" and ss: "ss' = ss @ [j]"
    by (auto simp: check_stage_def)
  from e have s: "shader_path (st_file s)"
    by (auto simp: exact_stage_def split: option.splits if_splits)
  from p have at: "p = dir @ components (st_file s)" "is_file f p" "\<not> is_link f p"
    by (auto simp: module_file_def Let_def split: if_splits)
  from j obtain model where model: "map_of execution_models stage = Some model" "(model, st_entry s) \<in> set entries"
    and item: "field ''file'' j = JStr (st_file s)" "field ''sha256'' j = JStr checksum"
      "field ''stage'' j = JInt stage" "field ''entry'' j = JStr (st_entry s)"
    by (auto simp: stage_item_def split: option.splits if_splits)
  note m = cached_module_Inr [OF m assms(2)]
  show "caches_ok h f dir sc'" "same_calls sc sc'" by (rule m)+
  from entry_of_module [OF m(1) model(2)] obtain b ins i where
    "read_bytes f p = Inr b" "checksum = sha256 h b" "module_form b ins"
    "i \<in> set ins" "is_entry_point i" "model = i ! 1" "st_entry s = entry_name i" by blast
  with s at model(1) item ss show "\<exists>j. ss' = ss @ [j] \<and> stage_exact h f dir j"
    by (auto simp: stage_exact_def)
qed

lemma check_stages_Inr:
  assumes "fold_result (check_stage h f dir details) keys (ss, sc) = Inr (ss', sc')"
    and "caches_ok h f dir sc" and "list_all (stage_exact h f dir) ss"
  shows "length ss' = length ss + length keys \<and> list_all (stage_exact h f dir) ss' \<and>
    caches_ok h f dir sc' \<and> same_calls sc sc'"
  using assms
proof (induction keys arbitrary: ss sc)
  case (Cons key keys)
  from Cons.prems(1) obtain ss1 sc1 where
    one: "check_stage h f dir details key (ss, sc) = Inr (ss1, sc1)"
    and rest: "fold_result (check_stage h f dir details) keys (ss1, sc1) = Inr (ss', sc')" by auto
  from check_stage_Inr [OF one Cons.prems(2)] Cons.prems(3)
  have "list_all (stage_exact h f dir) ss1" "length ss1 = Suc (length ss)" "caches_ok h f dir sc1"
    "same_calls sc sc1" by auto
  with Cons.IH [OF rest] show ?case by (simp add: same_calls_def)
qed (simp add: same_calls_def)

text \<open>The kind and the marker a reported call names.\<close>

definition identity :: "json \<Rightarrow> json \<times> json" where
  "identity item = (field ''kind'' item, field ''marker'' item)"

lemma graphics_marker_Inr:
  assumes "graphics_marker h f dir name details sc = Inr (item, sc')" and "caches_ok h f dir sc"
  shows "item_exact h f dir item" and "caches_ok h f dir sc'" and "same_calls sc sc'"
    and "identity item = (JStr ''graphics'', JStr name)"
proof -
  from assms(1) obtain n ss sc1 pass where n: "\<not> n < 1" "\<not> max_stages < n"
    and stages: "fold_result (check_stage h f dir details) (indexed ''stage'' n) ([], sc) = Inr (ss, sc1)"
    and pass: "cached_pass h f dir (text_or ''unavailable'' ''render_pass_file'' details,
        text_or ''0x0'' ''render_pass'' details) sc1 = Inr (pass, sc')"
    and item: "field ''kind'' item = JStr ''graphics''" "field ''stages'' item = JList ss" "field ''marker'' item = JStr name"
    by (auto simp: graphics_marker_def stage_count_def graphics_item_def split: if_splits)
  from check_stages_Inr [OF stages assms(2)] have ss: "length ss = nat n"
    "list_all (stage_exact h f dir) ss" "caches_ok h f dir sc1" "same_calls sc sc1"
    by (simp_all add: indexed_def)
  with n item show "item_exact h f dir item" by (auto simp: item_exact_def max_stages_def)
  from item show "identity item = (JStr ''graphics'', JStr name)" by (simp add: identity_def)
  from cached_pass_Inr [OF pass ss(3)] ss(4) show "caches_ok h f dir sc'" "same_calls sc sc'"
    by (auto simp: same_calls_def)
qed

text \<open>
  Whether the driver call of a marker returned, in terms of the files: its result file holds a complete result,
  or there is no result file.
\<close>

definition result_file :: "path \<Rightarrow> string \<Rightarrow> path" where
  "result_file dir name = dir @ [replace_text ''.enter.txt'' ''.result.txt'' name]"

definition call_returned :: "fs \<Rightarrow> path \<Rightarrow> string \<Rightarrow> bool" where
  "call_returned f dir name \<longleftrightarrow>
     exists_path f (result_file dir name) \<and> file_size f (result_file dir name) \<le> 4096 \<and>
     (case read_lines f (result_file dir name) of
        Inl _ \<Rightarrow> False
      | Inr ls \<Rightarrow> take 2 ls = [''schema=1'', ''phase=return''] \<and> last ls = ''end=1'')"

definition call_pending :: "fs \<Rightarrow> path \<Rightarrow> string \<Rightarrow> bool" where
  "call_pending f dir name \<longleftrightarrow> \<not> exists_path f (result_file dir name)"

lemma has_returned_Inr:
  "has_returned f dir name = Inr b \<longleftrightarrow> (if b then call_returned f dir name else call_pending f dir name)"
  by (auto simp: has_returned_def call_returned_def call_pending_def result_file_def Let_def enter_suffix_def
      result_limit_def not_less split: sum.split)

lemma returned_not_pending: "call_returned f dir name \<Longrightarrow> \<not> call_pending f dir name"
  by (simp add: call_returned_def call_pending_def)

definition returned_markers :: "fs \<Rightarrow> path \<Rightarrow> (string \<times> string) list \<Rightarrow> (string \<times> string) list" where
  "returned_markers f dir ms = filter (\<lambda>m. call_returned f dir (snd m)) ms"

definition pending_markers :: "fs \<Rightarrow> path \<Rightarrow> (string \<times> string) list \<Rightarrow> (string \<times> string) list" where
  "pending_markers f dir ms = filter (\<lambda>m. call_pending f dir (snd m)) ms"

definition named :: "string \<times> string \<Rightarrow> json \<times> json" where
  "named m = (JStr (fst m), JStr (snd m))"

text \<open>The state of the scan after the markers \<open>ms\<close>.\<close>

definition scan_inv :: "host \<Rightarrow> fs \<Rightarrow> path \<Rightarrow> (string \<times> string) list \<Rightarrow> scan_state \<Rightarrow> bool" where
  "scan_inv h f dir ms sc \<longleftrightarrow>
     caches_ok h f dir sc \<and> sc_returned sc = map fst (returned_markers f dir ms) \<and>
     map identity (sc_unreturned sc) = map named (pending_markers f dir ms) \<and>
     list_all (\<lambda>m. call_returned f dir (snd m) \<or> call_pending f dir (snd m)) ms \<and>
     list_all (item_exact h f dir) (sc_unreturned sc)"

lemma scan_inv_empty: "scan_inv h f dir [] empty_scan"
  by (simp add: scan_inv_def caches_ok_def empty_scan_def returned_markers_def pending_markers_def)

lemma scan_marker_inv:
  assumes "scan_marker h f dir (kind, name) sc = Inr sc'" and "scan_inv h f dir ms sc"
    and "kind \<in> {''graphics'', ''compute''}"
  shows "scan_inv h f dir (ms @ [(kind, name)]) sc'"
proof -
  from assms(1) obtain details returned item sc2 where
    ret: "has_returned f dir name = Inr returned"
    and call: "entered_call h f dir kind name details (count_intervention details sc) = Inr (item, sc2)"
    and sc': "sc' = finish_marker kind returned item sc2"
    by (auto simp: scan_marker_def split: if_splits)
  let ?sc = "count_intervention details sc"
  have ok: "caches_ok h f dir ?sc" "same_calls sc ?sc"
    using assms(2) by (auto simp: scan_inv_def caches_ok_def same_calls_def count_intervention_def)
  have item: "item_exact h f dir item \<and> caches_ok h f dir sc2 \<and> same_calls ?sc sc2 \<and> identity item = named (kind, name)"
  proof (cases "kind = ''compute''")
    case True
    with call ok(1) show ?thesis
      by (auto simp: entered_call_def item_exact_def compute_item_def same_calls_def identity_def named_def)
  next
    case False
    with call have "graphics_marker h f dir name details ?sc = Inr (item, sc2)"
      by (simp add: entered_call_def)
    from graphics_marker_Inr [OF this ok(1)] False assms(3) show ?thesis by (auto simp: named_def)
  qed
  have "if returned then call_returned f dir name \<and> \<not> call_pending f dir name
      else call_pending f dir name \<and> \<not> call_returned f dir name"
    using ret returned_not_pending by (auto simp: has_returned_Inr)
  with assms(2) ok(2) sc' item show ?thesis
    by (cases returned)
      (auto simp: scan_inv_def finish_marker_def same_calls_def caches_ok_def returned_markers_def pending_markers_def)
qed

lemma scan_markers_inv:
  assumes "fold_result (scan_marker h f dir) ns sc = Inr sc'" and "scan_inv h f dir ms sc"
    and "\<forall>(kind, name)\<in>set ns. kind \<in> {''graphics'', ''compute''}"
  shows "scan_inv h f dir (ms @ ns) sc'"
  using assms
proof (induction ns arbitrary: sc ms)
  case (Cons m ns)
  then obtain sc1 where one: "scan_marker h f dir m sc = Inr sc1"
      "fold_result (scan_marker h f dir) ns sc1 = Inr sc'" by auto
  obtain kind name where m: "m = (kind, name)" by (cases m)
  have "scan_inv h f dir (ms @ [m]) sc1"
    using scan_marker_inv [of h f dir kind name sc sc1 ms] one(1) Cons.prems(2,3) by (auto simp: m)
  from Cons.IH [OF one(2) this] Cons.prems(3) show ?case by simp
qed simp

lemma analyze_Inr:
  assumes "analyze h f listing dir = Inr r"
  obtains sc where
    "r = scan_report (length (markers_of ''graphics'' listing)) (length (markers_of ''compute'' listing)) sc"
    and "scan_inv h f dir (markers_of ''graphics'' listing @ markers_of ''compute'' listing) sc"
    and "length (sc_unreturned sc) \<le> 1"
proof -
  let ?g = "markers_of ''graphics'' listing"
  let ?c = "markers_of ''compute'' listing"
  from assms obtain sc where sc: "fold_result (scan_marker h f dir) (?g @ ?c) empty_scan = Inr sc"
      "\<not> 1 < length (sc_unreturned sc)" "r = scan_report (length ?g) (length ?c) sc"
    by (auto simp: analyze_def Let_def split: if_splits)
  have "\<forall>(kind, name)\<in>set (?g @ ?c). kind \<in> {''graphics'', ''compute''}"
    by (auto simp: markers_of_def)
  from scan_markers_inv [OF sc(1) scan_inv_empty this] sc that show thesis by (simp add: not_less)
qed

text \<open>The kinds in the list of returned calls count the returned markers of each kind.\<close>

lemma returns_of_kind:
  "length (filter (\<lambda>k. k = kind) (map fst (returned_markers f dir (markers_of kind' listing)))) =
     (if kind' = kind then length (returned_markers f dir (markers_of kind listing)) else 0)"
  by (auto simp: returned_markers_def markers_of_def filter_map comp_def)

definition number_at :: "string \<Rightarrow> json \<Rightarrow> int" where
  "number_at k r = int_of (field k r)"

section \<open>A concrete run\<close>

definition crash_listing :: "string list" where
  "crash_listing =
     [''driver-compute-1.enter.txt'', ''driver-compute-1.result.txt'', ''driver-graphics-1.enter.txt'']"

definition lines_text :: "string list \<Rightarrow> bytes" where
  "lines_text ls = concat (map (\<lambda>l. l @ [CHR 0x0A]) ls)"

definition crash_module :: bytes where
  "crash_module =
     [CHR 0x03, CHR 0x02, CHR 0x23, CHR 0x07, CHR 0x00, CHR 0x00, CHR 0x01, CHR 0x00,
      CHR 0x00, CHR 0x00, CHR 0x00, CHR 0x00, CHR 0x01, CHR 0x00, CHR 0x00, CHR 0x00,
      CHR 0x00, CHR 0x00, CHR 0x00, CHR 0x00, CHR 0x0F, CHR 0x00, CHR 0x04, CHR 0x00,
      CHR 0x00, CHR 0x00, CHR 0x00, CHR 0x00, CHR 0x01, CHR 0x00, CHR 0x00, CHR 0x00,
      CHR ''v'', CHR ''s'', CHR 0x00, CHR 0x00]"

definition crash_files :: fs where
  "crash_files p =
     (if p = [''r''] \<or> p = [''r'', ''graphics-shaders''] then Some Directory
      else if p = [''r'', ''driver-compute-1.enter.txt''] then
        Some (Regular (lines_text [''schema=1'', ''phase=enter'', ''end=1'']))
      else if p = [''r'', ''driver-compute-1.result.txt''] then
        Some (Regular (lines_text [''schema=1'', ''phase=return'', ''end=1'']))
      else if p = [''r'', ''driver-graphics-1.enter.txt''] then
        Some (Regular (lines_text
          [''schema=1'', ''phase=enter'', ''replay_ready=0'', ''stages=1'',
           ''stage0=1,0xa,vs hash=unknown file=graphics-shaders/module-1.spv'', ''end=1'']))
      else if p = [''r'', ''graphics-shaders'', ''module-1.spv''] then Some (Regular crash_module)
      else None)"

definition quiet_host :: host where
  "quiet_host = \<lparr>sha256 = (\<lambda>_. ''d''), iso_offset = (\<lambda>_. None), cwd = []\<rparr>"

lemma crash_accepted:
  "\<exists>r. analyze quiet_host crash_files crash_listing [''r''] = Inr r \<and>
     length (list_items (field ''unreturned'' r)) = 1"
proof -
  have "(case analyze quiet_host crash_files crash_listing [''r''] of
      Inl _ \<Rightarrow> False
    | Inr r \<Rightarrow> length (list_items (field ''unreturned'' r)) = 1)"
    by code_simp
  then show ?thesis by (cases "analyze quiet_host crash_files crash_listing [''r'']") auto
qed

section \<open>Properties\<close>

text \<open>C30: in an accepted run every driver call has a complete result file or none; the calls reported as
  returned are counted by the complete result files of their kind, the one reported as unreturned is the only
  call without a result file, and the status says whether there is one.\<close>

theorem driver_calls_are_accounted:
  assumes "analyze h f listing dir = Inr r"
  shows "let graphics = markers_of ''graphics'' listing; compute = markers_of ''compute'' listing in
    list_all (\<lambda>m. call_returned f dir (snd m) \<or> call_pending f dir (snd m)) (graphics @ compute) \<and>
    number_at ''graphics_enters'' r = int (length graphics) \<and> number_at ''compute_enters'' r = int (length compute) \<and>
    number_at ''graphics_returns'' r = int (length (returned_markers f dir graphics)) \<and>
    number_at ''compute_returns'' r = int (length (returned_markers f dir compute)) \<and>
    (\<exists>us. field ''unreturned'' r = JList us \<and> length us \<le> 1 \<and>
       map identity us = map named (pending_markers f dir (graphics @ compute)) \<and>
       (field ''status'' r = JStr ''CAPTURED_DRIVER_ENTRY'' \<longleftrightarrow> length us = 1))"
proof -
  from analyze_Inr [OF assms] obtain sc where
    r: "r = scan_report (length (markers_of ''graphics'' listing)) (length (markers_of ''compute'' listing)) sc"
    and inv: "scan_inv h f dir (markers_of ''graphics'' listing @ markers_of ''compute'' listing) sc"
    and one: "length (sc_unreturned sc) \<le> 1" .
  have "sc_returned sc = map fst (returned_markers f dir (markers_of ''graphics'' listing))
      @ map fst (returned_markers f dir (markers_of ''compute'' listing))"
    using inv by (simp add: scan_inv_def returned_markers_def)
  then have "amount_of (filter (\<lambda>k. k = kind) (sc_returned sc)) = JInt (int (length (returned_markers f dir (markers_of kind listing))))"
    if "kind \<in> {''graphics'', ''compute''}" for kind
    using that returns_of_kind by (auto simp: amount_of_def)
  with inv one show ?thesis
    by (auto simp: r scan_report_def number_at_def scan_inv_def Let_def le_Suc_eq)
qed

lemma driver_calls_are_accounted_witness:
  "\<exists>r us. analyze quiet_host crash_files crash_listing [''r''] = Inr r \<and> field ''unreturned'' r = JList us \<and>
     map identity us = [(JStr ''graphics'', JStr ''driver-graphics-1.enter.txt'')] \<and>
     number_at ''compute_returns'' r = 1 \<and> number_at ''graphics_returns'' r = 0"
proof -
  let ?g = "[(''graphics'', ''driver-graphics-1.enter.txt'')]" and ?c = "[(''compute'', ''driver-compute-1.enter.txt'')]"
  have ms: "markers_of ''graphics'' crash_listing = ?g \<and> markers_of ''compute'' crash_listing = ?c \<and>
      pending_markers crash_files [''r''] (?g @ ?c) = ?g \<and> returned_markers crash_files [''r''] ?g = [] \<and>
      returned_markers crash_files [''r''] ?c = ?c" by code_simp
  have "?thesis" if r: "analyze quiet_host crash_files crash_listing [''r''] = Inr r \<and>
      length (list_items (field ''unreturned'' r)) = 1" for r
    using driver_calls_are_accounted [OF conjunct1 [OF r]] r ms by (auto simp: Let_def named_def)
  with crash_accepted show ?thesis by (elim exE)
qed

text \<open>C32: a reported graphics call has one to five stages, and each stage names a regular file of the
  run directory whose digest is the recorded one, which is a well-formed SPIR-V module with an entry
  point of the recorded name and execution model.\<close>

theorem reported_stages_are_exact:
  assumes "analyze h f listing dir = Inr r"
  shows "list_all (item_exact h f dir) (list_items (field ''unreturned'' r))"
proof -
  from analyze_Inr [OF assms] obtain sc where
    "r = scan_report (length (markers_of ''graphics'' listing)) (length (markers_of ''compute'' listing)) sc"
    and "scan_inv h f dir (markers_of ''graphics'' listing @ markers_of ''compute'' listing) sc" .
  then show ?thesis by (simp add: scan_inv_def scan_report_def)
qed

lemma reported_stages_are_exact_witness:
  "\<exists>r. length (list_items (field ''unreturned'' r)) = 1 \<and>
     list_all (item_exact quiet_host crash_files [''r'']) (list_items (field ''unreturned'' r))"
proof -
  have "?thesis" if r: "analyze quiet_host crash_files crash_listing [''r''] = Inr r \<and>
      length (list_items (field ''unreturned'' r)) = 1" for r
    using reported_stages_are_exact [OF conjunct1 [OF r]] r by blast
  with crash_accepted show ?thesis by (elim exE)
qed

text \<open>The scan of a SPIR-V module returns exactly the entry points of its instructions: it
  succeeds if and only if the words after the header split into instructions of the announced lengths
  whose entry points have an ASCII name.\<close>

theorem module_scan_decides: "module_entries b = Inr es \<longleftrightarrow> (\<exists>ins. module_form b ins \<and> es = rev (entry_list ins))"
  by (rule module_entries_Inr)

end
