(* ===== verification/CacheLifecycleFacts.thy ===== *)
theory CacheLifecycleFacts
  imports CacheLifecycle DriverEntriesFacts
begin

text \<open>
  The sets the lifecycle scan keeps are what the log says: a handle is live if it was created and not
  destroyed since, an operation is running if it was entered and has not returned since. The scan
  flags no event exactly when every event is allowed by that reading of the events before it.
\<close>

declare split_paired_All [simp del] split_paired_Ex [simp del]

section \<open>Since\<close>

text \<open>An event satisfying \<open>P\<close> at position \<open>i\<close>, and none satisfying \<open>Q\<close> after it.\<close>

definition since_at :: "('a \<Rightarrow> bool) \<Rightarrow> ('a \<Rightarrow> bool) \<Rightarrow> 'a list \<Rightarrow> nat \<Rightarrow> bool" where
  "since_at P Q es i \<longleftrightarrow> i < length es \<and> P (es ! i) \<and> (\<forall>j. i < j \<and> j < length es \<longrightarrow> \<not> Q (es ! j))"

definition since :: "('a \<Rightarrow> bool) \<Rightarrow> ('a \<Rightarrow> bool) \<Rightarrow> 'a list \<Rightarrow> bool" where
  "since P Q es \<longleftrightarrow> (\<exists>i. since_at P Q es i)"

lemma since_at_snoc:
  "since_at P Q (es @ [e]) i \<longleftrightarrow> i = length es \<and> P e \<or> since_at P Q es i \<and> \<not> Q e"
  by (auto simp: since_at_def nth_append less_Suc_eq)

lemma since_snoc: "since P Q (es @ [e]) \<longleftrightarrow> P e \<or> since P Q es \<and> \<not> Q e"
  by (auto simp: since_def since_at_snoc)

lemma since_Nil [simp]: "\<not> since P Q []" "\<not> since_at P Q [] i"
  by (simp_all add: since_def since_at_def)

lemma since_at_nth: "since_at P Q es i \<Longrightarrow> (es @ [e]) ! i = es ! i"
  by (simp add: since_at_def nth_append)

section \<open>What a log says\<close>

definition is_enqueue :: "cache_event \<Rightarrow> bool" where
  "is_enqueue e \<longleftrightarrow> is_object e \<and> object_action (ev_operation e) = ''enqueue''"

definition enters :: "pending_key \<Rightarrow> cache_event \<Rightarrow> bool" where
  "enters k e \<longleftrightarrow> \<not> is_enqueue e \<and> ev_enter e \<and> event_key e = k"

definition returns :: "cache_event \<Rightarrow> bool" where
  "returns e \<longleftrightarrow> \<not> is_enqueue e \<and> \<not> ev_enter e"

definition returns_key :: "pending_key \<Rightarrow> cache_event \<Rightarrow> bool" where
  "returns_key k e \<longleftrightarrow> returns e \<and> event_key e = k"

definition creates :: "string \<Rightarrow> cache_event \<Rightarrow> bool" where
  "creates c e \<longleftrightarrow> returns e \<and> created_cache e \<and> ev_cache e = c"

definition destroys :: "string \<Rightarrow> cache_event \<Rightarrow> bool" where
  "destroys c e \<longleftrightarrow> returns e \<and> destroyed_cache e \<and> ev_cache e = c"

definition object_event :: "string \<Rightarrow> string \<Rightarrow> string \<Rightarrow> cache_event \<Rightarrow> bool" where
  "object_event action kind c e \<longleftrightarrow>
     is_object e \<and> object_kind (ev_operation e) = kind \<and> object_action (ev_operation e) = action \<and> ev_cache e = c"

definition makes :: "string \<Rightarrow> string \<Rightarrow> cache_event \<Rightarrow> bool" where
  "makes kind c e \<longleftrightarrow> returns e \<and> object_event ''create'' kind c e \<and> c \<noteq> null_handle"

definition drops :: "string \<Rightarrow> string \<Rightarrow> cache_event \<Rightarrow> bool" where
  "drops kind c e \<longleftrightarrow> returns e \<and> object_event ''destroy'' kind c e"

definition alive :: "cache_event list \<Rightarrow> string \<Rightarrow> bool" where
  "alive es c \<longleftrightarrow> since (creates c) (destroys c) es"

definition object_alive :: "cache_event list \<Rightarrow> string \<Rightarrow> string \<Rightarrow> bool" where
  "object_alive es kind c \<longleftrightarrow> since (makes kind c) (drops kind c) es"

definition running :: "bool \<Rightarrow> cache_event list \<Rightarrow> pending_key \<Rightarrow> pending_use \<Rightarrow> bool" where
  "running b es k u \<longleftrightarrow>
     (\<exists>i. since_at (enters k) (returns_key k) es i \<and> u = enter_use b (int i + 1) (es ! i))"

definition used_now :: "bool \<Rightarrow> cache_event list \<Rightarrow> string \<Rightarrow> bool" where
  "used_now b es c \<longleftrightarrow> (\<exists>k u. running b es k u \<and> pe_operation u \<in> set cache_uses \<and> pe_cache u = c)"

text \<open>An event that the events before it allow.\<close>

definition enter_ok :: "bool \<Rightarrow> cache_event list \<Rightarrow> cache_event \<Rightarrow> bool" where
  "enter_ok b past e \<longleftrightarrow>
     (ev_operation e \<in> set (''destroy'' # cache_uses) \<and> ev_cache e \<noteq> null_handle \<longrightarrow> alive past (ev_cache e)) \<and>
     (ev_operation e = ''merge'' \<and> ev_other e \<noteq> null_handle \<longrightarrow> alive past (ev_other e)) \<and>
     (ev_operation e = ''destroy'' \<longrightarrow> \<not> used_now b past (ev_cache e))"

definition return_ok :: "cache_event list \<Rightarrow> cache_event \<Rightarrow> bool" where
  "return_ok past e \<longleftrightarrow>
     (created_cache e \<longrightarrow> \<not> alive past (ev_cache e)) \<and>
     (\<forall>kind. (object_event ''create'' kind (ev_cache e) e \<and> ev_cache e \<noteq> null_handle \<longrightarrow>
          \<not> object_alive past kind (ev_cache e)) \<and>
        (object_event ''destroy'' kind (ev_cache e) e \<longrightarrow> object_alive past kind (ev_cache e)))"

definition event_ok :: "bool \<Rightarrow> cache_event list \<Rightarrow> cache_event \<Rightarrow> bool" where
  "event_ok b past e \<longleftrightarrow>
     (if is_enqueue e then \<not> ev_enter e \<and> object_alive past (object_kind (ev_operation e)) (ev_cache e)
      else if ev_enter e then enter_ok b past e
      else return_ok past e)"

definition well_behaved :: "bool \<Rightarrow> cache_event list \<Rightarrow> bool" where
  "well_behaved b es \<longleftrightarrow> (\<forall>i<length es. event_ok b (take i es) (es ! i))"

lemma well_behaved_snoc: "well_behaved b (es @ [e]) \<longleftrightarrow> well_behaved b es \<and> event_ok b es e"
  by (auto simp: well_behaved_def nth_append less_Suc_eq)

section \<open>Runs\<close>

inductive cache_run :: "bool \<Rightarrow> cache_event list \<Rightarrow> cache_state \<Rightarrow> bool" where
  start: "cache_run b [] initial_state"
| step: "cache_run b es s \<Longrightarrow> cache_step b (int (length es) + 1, e) s = Inr t \<Longrightarrow> cache_run b (es @ [e]) t"

definition tracks :: "bool \<Rightarrow> cache_event list \<Rightarrow> cache_state \<Rightarrow> bool" where
  "tracks b es s \<longleftrightarrow>
     (\<forall>c. c \<in> cs_live s \<longleftrightarrow> alive es c) \<and>
     (\<forall>kind c. c \<in> cs_objects s kind \<longleftrightarrow> object_alive es kind c) \<and>
     distinct (map fst (cs_pending s)) \<and>
     (\<forall>k u. map_of (cs_pending s) k = Some u \<longleftrightarrow> running b es k u) \<and>
     (cs_invalid s = [] \<longleftrightarrow> well_behaved b es)"

lemma flag_when_simps [simp]:
  "cs_live (flag_when c n r i s) = cs_live s"
  "cs_objects (flag_when c n r i s) = cs_objects s"
  "cs_queued (flag_when c n r i s) = cs_queued s"
  "cs_pending (flag_when c n r i s) = cs_pending s"
  "cs_invalid (flag_when c n r i s) = [] \<longleftrightarrow> \<not> c \<and> cs_invalid s = []"
  by (auto simp: flag_when_def anomaly_def)

lemma tracksD:
  assumes "tracks b es s"
  shows "c \<in> cs_live s \<longleftrightarrow> alive es c"
    and "c \<in> cs_objects s kind \<longleftrightarrow> object_alive es kind c"
    and "distinct (map fst (cs_pending s))"
    and "map_of (cs_pending s) k = Some u \<longleftrightarrow> running b es k u"
    and "cs_invalid s = [] \<longleftrightarrow> well_behaved b es"
  using assms by (simp_all add: tracks_def)

lemma tracks_used:
  assumes "tracks b es s"
  shows "in_active_use c s \<longleftrightarrow> used_now b es c"
proof -
  have "in_active_use c s \<longleftrightarrow>
      (\<exists>k u. (k, u) \<in> set (cs_pending s) \<and> pe_operation u \<in> set cache_uses \<and> pe_cache u = c)"
    by (auto simp: in_active_use_def list_ex_iff)
  moreover have "(k, u) \<in> set (cs_pending s) \<longleftrightarrow> running b es k u" for k u
    using map_of_eq_Some_iff [OF tracksD(3) [OF assms]] tracksD(4) [OF assms] by blast
  ultimately show ?thesis by (simp add: used_now_def)
qed

lemma quiet_snoc:
  assumes "\<And>c. \<not> creates c e" and "\<And>c. \<not> destroys c e"
  shows "alive (es @ [e]) c \<longleftrightarrow> alive es c"
  using assms by (simp add: alive_def since_snoc)

lemma quiet_object_snoc:
  assumes "\<And>kind c. \<not> makes kind c e" and "\<And>kind c. \<not> drops kind c e"
  shows "object_alive (es @ [e]) kind c \<longleftrightarrow> object_alive es kind c"
  using assms by (simp add: object_alive_def since_snoc)

lemma running_snoc:
  "running b (es @ [e]) k u \<longleftrightarrow>
     enters k e \<and> u = enter_use b (int (length es) + 1) e \<or> running b es k u \<and> \<not> returns_key k e"
proof
  assume "running b (es @ [e]) k u"
  then obtain i where i: "since_at (enters k) (returns_key k) (es @ [e]) i"
    "u = enter_use b (int i + 1) ((es @ [e]) ! i)" unfolding running_def by blast
  show "enters k e \<and> u = enter_use b (int (length es) + 1) e \<or> running b es k u \<and> \<not> returns_key k e"
  proof (cases "i = length es")
    case True
    with i show ?thesis by (simp add: since_at_def)
  next
    case False
    with i(1) have old: "since_at (enters k) (returns_key k) es i" "\<not> returns_key k e"
      unfolding since_at_snoc by simp_all
    then show ?thesis using i(2) since_at_nth [OF old(1)] unfolding running_def by auto
  qed
next
  assume "enters k e \<and> u = enter_use b (int (length es) + 1) e \<or> running b es k u \<and> \<not> returns_key k e"
  then show "running b (es @ [e]) k u"
  proof (elim disjE conjE)
    assume "enters k e" "u = enter_use b (int (length es) + 1) e"
    then show ?thesis unfolding running_def since_at_snoc by (intro exI [of _ "length es"]) simp
  next
    assume "running b es k u" "\<not> returns_key k e"
    then obtain i where "since_at (enters k) (returns_key k) es i" "u = enter_use b (int i + 1) (es ! i)"
      unfolding running_def by blast
    with \<open>\<not> returns_key k e\<close> show ?thesis
      unfolding running_def since_at_snoc by (intro exI [of _ i]) (simp add: since_at_nth)
  qed
qed

lemma tracks_enqueue:
  assumes "tracks b es s" and "is_enqueue e"
  shows "tracks b (es @ [e]) (enqueue_step (int (length es) + 1) e s)"
proof -
  have "\<not> creates c e" "\<not> destroys c e" "\<not> makes kind c e" "\<not> drops kind c e" "\<not> enters k e"
      "\<not> returns_key k e" for c kind k
    using assms(2) by (simp_all add: creates_def destroys_def makes_def drops_def enters_def returns_key_def returns_def)
  then show ?thesis
    using assms
    by (auto simp: tracks_def enqueue_step_def Let_def quiet_snoc quiet_object_snoc running_snoc
        well_behaved_snoc event_ok_def)
qed

lemma tracks_enter:
  assumes "tracks b es s" and "\<not> is_enqueue e" and "ev_enter e"
    and "enter_step b (int (length es) + 1) e s = Inr t"
  shows "tracks b (es @ [e]) t"
proof -
  let ?u = "enter_use b (int (length es) + 1) e"
  from assms(4) have new: "map_of (cs_pending s) (event_key e) = None"
    and live: "cs_live t = cs_live s" "cs_objects t = cs_objects s"
    and pending: "cs_pending t = dict_set (event_key e) ?u (cs_pending s)"
    and invalid: "cs_invalid t = [] \<longleftrightarrow> cs_invalid (enter_flags (int (length es) + 1) e s) = []"
    by (auto simp: enter_step_def Let_def enter_flags_def split: if_splits)
  have none: "\<not> creates c e" "\<not> destroys c e" "\<not> makes kind c e" "\<not> drops kind c e"
      "\<not> returns_key k e" "enters k e \<longleftrightarrow> k = event_key e" for c kind k
    using assms(2,3)
    by (auto simp: creates_def destroys_def makes_def drops_def enters_def returns_key_def returns_def)
  note old = tracksD [OF assms(1)]
  have "\<not> running b es (event_key e) u" for u
    using old(4) new by (metis option.distinct(1))
  then have run: "map_of (cs_pending t) k = Some u \<longleftrightarrow> running b (es @ [e]) k u" for k u
    by (auto simp: old(4) pending running_snoc none)
  have flags: "cs_invalid (enter_flags (int (length es) + 1) e s) = [] \<longleftrightarrow>
      cs_invalid s = [] \<and> enter_ok b es e"
    unfolding enter_ok_def
    by (auto simp: enter_flags_def Let_def old(1) tracks_used [OF assms(1), symmetric])
  show ?thesis
    unfolding tracks_def
  proof (intro conjI allI)
    show "cs_invalid t = [] \<longleftrightarrow> well_behaved b (es @ [e])"
      using assms(2,3) by (simp add: invalid flags old(5) well_behaved_snoc event_ok_def)
  next
    fix k u show "map_of (cs_pending t) k = Some u \<longleftrightarrow> running b (es @ [e]) k u" by (rule run)
  qed (simp_all add: live old(1-3) run quiet_snoc quiet_object_snoc none pending distinct_dict_set)
qed

lemma pending_removed:
  assumes "distinct (map fst d)"
  shows "map_of (filter (\<lambda>(k, _). k \<noteq> x) d) k = (if k = x then None else map_of d k)"
  using assms by (induction d) auto

lemma tracks_return:
  assumes "tracks b es s" and "\<not> is_enqueue e" and "\<not> ev_enter e"
    and "return_step (int (length es) + 1) e s = Inr t"
  shows "tracks b (es @ [e]) t"
proof -
  note old = tracksD [OF assms(1)]
  let ?n = "int (length es) + 1"
  let ?s = "s\<lparr>cs_pending := filter (\<lambda>(k, _). k \<noteq> event_key e) (cs_pending s)\<rparr>"
  from assms(4) have t: "t = return_object ?n e (return_cache ?n e ?s)"
    by (auto simp: return_step_def split: option.splits if_splits)
  have kinds: "returns e" "\<not> enters k e" "returns_key k e \<longleftrightarrow> k = event_key e" for k
    using assms(2,3) by (auto simp: returns_def returns_key_def enters_def)
  have only: "\<not> (created_cache e \<and> destroyed_cache e)"
    by (auto simp: created_cache_def destroyed_cache_def)
  have live: "cs_live t = (if created_cache e then insert (ev_cache e) (cs_live s)
      else if destroyed_cache e then cs_live s - {ev_cache e} else cs_live s)"
    by (simp add: t return_object_def return_cache_def Let_def)
  have objects: "c \<in> cs_objects t kind \<longleftrightarrow> makes kind c e \<or> object_alive es kind c \<and> \<not> drops kind c e" for c kind
    by (auto simp: t return_object_def return_cache_def Let_def old(2) makes_def drops_def object_event_def kinds)
  have pending: "cs_pending t = filter (\<lambda>(k, _). k \<noteq> event_key e) (cs_pending s)"
    by (simp add: t return_object_def return_cache_def Let_def)
  have invalid: "cs_invalid t = [] \<longleftrightarrow> cs_invalid s = [] \<and> return_ok es e"
    using only
    by (auto simp: t return_object_def return_cache_def Let_def return_ok_def old(1,2) object_event_def)
  show ?thesis
    unfolding tracks_def
  proof (intro conjI allI)
    fix c show "c \<in> cs_live t \<longleftrightarrow> alive (es @ [e]) c"
      using only by (auto simp: live old(1) alive_def since_snoc creates_def destroys_def kinds)
  next
    show "distinct (map fst (cs_pending t))" by (simp add: pending old(3) distinct_map_filter)
  next
    fix k u show "map_of (cs_pending t) k = Some u \<longleftrightarrow> running b (es @ [e]) k u"
      by (simp add: pending pending_removed [OF old(3)] old(4) running_snoc kinds)
  next
    show "cs_invalid t = [] \<longleftrightarrow> well_behaved b (es @ [e])"
      using assms(2,3) by (simp add: invalid old(5) well_behaved_snoc event_ok_def)
  qed (simp add: objects object_alive_def since_snoc)
qed

lemma cache_run_tracks: "cache_run b es s \<Longrightarrow> tracks b es s"
proof (induction rule: cache_run.induct)
  case (start b)
  show ?case
    by (simp add: tracks_def initial_state_def alive_def object_alive_def running_def well_behaved_def)
next
  case (step b es s e t)
  then show ?case
    using tracks_enqueue [of b es s e] tracks_enter [of b es s e t] tracks_return [of b es s e t]
    by (auto simp: cache_step_def is_enqueue_def split: if_splits)
qed

section \<open>From the file to the report\<close>

definition reads_events :: "string list \<Rightarrow> cache_event list \<Rightarrow> bool" where
  "reads_events ls es \<longleftrightarrow>
     length es = length ls \<and> (\<forall>i<length ls. read_cache_event (int i + 1) (ls ! i) = Inr (es ! i))"

lemma numbered_snoc: "numbered (ls @ [l]) = numbered ls @ [(int (length ls) + 1, l)]"
proof -
  have "[1..<Suc (length (ls @ [l]))] = [1..<Suc (length ls)] @ [Suc (length ls)]" by simp
  moreover have "length (map int [1..<Suc (length ls)]) = length ls"
    unfolding length_map length_upt by arith
  ultimately show ?thesis unfolding numbered_def by (simp only: map_append zip_append) (simp del: upt_Suc)
qed

lemma log_run:
  "fold_result (line_step b) (numbered ls) initial_state = Inr s \<Longrightarrow> \<exists>es. reads_events ls es \<and> cache_run b es s"
proof (induction ls arbitrary: s rule: rev_induct)
  case Nil
  then show ?case
    using cache_run.start [of b] by (auto simp: numbered_def reads_events_def)
next
  case (snoc l ls)
  then obtain u where u: "fold_result (line_step b) (numbered ls) initial_state = Inr u"
      "line_step b (int (length ls) + 1, l) u = Inr s"
    by (auto simp: numbered_snoc fold_result_append)
  from snoc.IH [OF u(1)] obtain es where es: "reads_events ls es" "cache_run b es u" by blast
  from u(2) obtain e where e: "read_cache_event (int (length ls) + 1) l = Inr e"
      "cache_step b (int (length ls) + 1, e) u = Inr s"
    by (auto simp: line_step_def)
  have "length ls = length es" using es(1) by (simp add: reads_events_def)
  with cache_run.step [OF es(2), of e s] e(2) have "cache_run b (es @ [e]) s" by simp
  moreover have "reads_events (ls @ [l]) (es @ [e])"
    using es(1) e(1) by (auto simp: reads_events_def nth_append less_Suc_eq)
  ultimately show ?case by blast
qed

lemma read_lifecycle_lines:
  "read_lifecycle f dir = Inr ls \<Longrightarrow> read_lines f (dir @ [''cache-lifecycle.txt'']) = Inr ls"
  by (auto simp: read_lifecycle_def Let_def split: if_splits)

section \<open>A concrete log\<close>

definition small_log :: "string list" where
  "small_log =
     [''event=1 operation=create phase=enter thread=1 cache=0x0 other=0x0 result=0 bytes=0 end=1'',
      ''event=2 operation=create phase=return thread=1 cache=0xc other=0x0 result=0 bytes=0 end=1'',
      ''event=3 operation=graphics phase=enter thread=1 cache=0xc other=0xc result=0 bytes=0 end=1'']"

definition cache_files :: fs where
  "cache_files p =
     (if p = [''r'', ''cache-lifecycle.txt''] then Some (Regular (lines_text small_log))
      else if p = [''r'', ''driver-graphics-1.enter.txt''] then
        Some (Regular (lines_text
          [''schema=1'', ''phase=enter'', ''replay_ready=0'', ''stages=1'', ''cache=0xc'', ''thread=1'',
           ''stage0=1,0xa,vs hash=unknown file=graphics-shaders/module-1.spv'', ''end=1'']))
      else crash_files p)"

lemma small_log_accepted:
  "\<exists>r. analyze quiet_host cache_files crash_listing [''r''] = Inr r \<and>
     field ''status'' r = JStr ''CAPTURED_CACHE_HISTORY''"
proof -
  have "(case analyze quiet_host cache_files crash_listing [''r''] of
      Inl _ \<Rightarrow> False
    | Inr r \<Rightarrow> field ''status'' r = JStr ''CAPTURED_CACHE_HISTORY'')"
    by code_simp
  then show ?thesis by (cases "analyze quiet_host cache_files crash_listing [''r'']") auto
qed

lemma small_log_runs: "\<exists>es s. reads_events small_log es \<and> cache_run False es s \<and> cs_live s = {''0xc''}"
proof -
  have "(case fold_result (line_step False) (numbered small_log) initial_state of
      Inl _ \<Rightarrow> False
    | Inr s \<Rightarrow> cs_live s = {''0xc''})"
    by code_simp
  then obtain s where "fold_result (line_step False) (numbered small_log) initial_state = Inr s"
      "cs_live s = {''0xc''}"
    by (cases "fold_result (line_step False) (numbered small_log) initial_state") auto
  with log_run show ?thesis by blast
qed

section \<open>Properties\<close>

text \<open>C7: after any prefix of a log, the scan's state is what the log says: the live caches and objects
  are those created and not destroyed since, the running operations are those entered and not
  returned since, and no event is flagged exactly when every event so far was allowed by the events
  before it.\<close>

theorem lifecycle_state_is_history: "cache_run b es s \<Longrightarrow> tracks b es s"
  by (rule cache_run_tracks)

lemma lifecycle_state_is_history_witness: "\<exists>es s. reads_events small_log es \<and> cs_live s = {''0xc''} \<and> tracks False es s"
proof -
  from small_log_runs obtain es s where "reads_events small_log es" "cache_run False es s" "cs_live s = {''0xc''}"
    by (elim exE conjE)
  with lifecycle_state_is_history [OF this(2)] show ?thesis by (intro exI conjI)
qed

text \<open>C8: a run reported as \<open>CAPTURED_CACHE_HISTORY\<close> has a well-behaved log: every cache in use was
  created before and not destroyed, none was destroyed while in use, no handle was created twice, and
  every object was alive when it was queued or destroyed.\<close>

theorem clean_history_is_well_behaved:
  assumes "analyze h f listing dir = Inr r" and "field ''status'' r = JStr ''CAPTURED_CACHE_HISTORY''"
  shows "\<exists>ls es b. read_lines f (dir @ [''cache-lifecycle.txt'']) = Inr ls \<and> reads_events ls es \<and> well_behaved b es"
proof -
  from assms(1) obtain fault marker ls s where ls: "read_lifecycle f dir = Inr ls"
    and s: "fold_result (line_step (tag ''submitted_cache'' marker \<noteq> None)) (numbered ls) initial_state = Inr s"
    and r: "match_fault s ls fault marker = Inr r"
    by (auto simp: analyze_def)
  from r assms(2) have "cs_invalid s = []"
    by (auto simp: match_fault_def cache_report_def Let_def split: list.splits if_splits)
  moreover from log_run [OF s] obtain es where "reads_events ls es"
      "cache_run (tag ''submitted_cache'' marker \<noteq> None) es s" by blast
  ultimately show ?thesis
    using tracksD(5) [OF cache_run_tracks] read_lifecycle_lines [OF ls] by blast
qed

lemma clean_history_is_well_behaved_witness:
  "\<exists>ls es b. read_lines cache_files [''r'', ''cache-lifecycle.txt''] = Inr ls \<and> reads_events ls es \<and> well_behaved b es"
proof -
  from small_log_accepted obtain r where "analyze quiet_host cache_files crash_listing [''r''] = Inr r"
    "field ''status'' r = JStr ''CAPTURED_CACHE_HISTORY''" by (elim exE conjE)
  from clean_history_is_well_behaved [OF this] show ?thesis by (simp only: append_Cons append_Nil)
qed

end
