(* ===== verification/DeviceSnapshot.thy ===== *)
theory DeviceSnapshot
  imports Checks FileOps
begin

text \<open>
  \<open>scripts/carla/vulkan_device_snapshot.py\<close>: the validator of a captured \<open>vkCreateDevice\<close> call and
  the generator of the C header that replays it. Only listed feature structures are accepted, each
  at most once, and every value is typed exactly. \<open>device_ok\<close> is the declarative reading of the
  validator.
\<close>

section \<open>The schema\<close>

definition core_fields :: "string list" where
  "core_fields =
    [''robustBufferAccess'', ''fullDrawIndexUint32'', ''imageCubeArray'', ''independentBlend'',
    ''geometryShader'', ''tessellationShader'', ''sampleRateShading'', ''dualSrcBlend'',
    ''logicOp'', ''multiDrawIndirect'', ''drawIndirectFirstInstance'', ''depthClamp'',
    ''depthBiasClamp'', ''fillModeNonSolid'', ''depthBounds'', ''wideLines'', ''largePoints'',
    ''alphaToOne'', ''multiViewport'', ''samplerAnisotropy'', ''textureCompressionETC2'',
    ''textureCompressionASTC_LDR'', ''textureCompressionBC'', ''occlusionQueryPrecise'',
    ''pipelineStatisticsQuery'', ''vertexPipelineStoresAndAtomics'', ''fragmentStoresAndAtomics'',
    ''shaderTessellationAndGeometryPointSize'', ''shaderImageGatherExtended'',
    ''shaderStorageImageExtendedFormats'', ''shaderStorageImageMultisample'',
    ''shaderStorageImageReadWithoutFormat'', ''shaderStorageImageWriteWithoutFormat'',
    ''shaderUniformBufferArrayDynamicIndexing'', ''shaderSampledImageArrayDynamicIndexing'',
    ''shaderStorageBufferArrayDynamicIndexing'', ''shaderStorageImageArrayDynamicIndexing'',
    ''shaderClipDistance'', ''shaderCullDistance'', ''shaderFloat64'', ''shaderInt64'',
    ''shaderInt16'', ''shaderResourceResidency'', ''shaderResourceMinLod'', ''sparseBinding'',
    ''sparseResidencyBuffer'', ''sparseResidencyImage2D'', ''sparseResidencyImage3D'',
    ''sparseResidency2Samples'', ''sparseResidency4Samples'', ''sparseResidency8Samples'',
    ''sparseResidency16Samples'', ''sparseResidencyAliased'', ''variableMultisampleRate'',
    ''inheritedQueries'']"

definition feature_structs :: "(int \<times> string \<times> string list) list" where
  "feature_structs =
    [(1000257000, ''VkPhysicalDeviceBufferDeviceAddressFeatures'',
      [''bufferDeviceAddress'', ''bufferDeviceAddressCaptureReplay'',
    ''bufferDeviceAddressMultiDevice'']),
     (1000207000, ''VkPhysicalDeviceTimelineSemaphoreFeatures'',
      [''timelineSemaphore'']),
     (1000297000, ''VkPhysicalDevicePipelineCreationCacheControlFeatures'',
      [''pipelineCreationCacheControl'']),
     (1000276000, ''VkPhysicalDeviceShaderDemoteToHelperInvocationFeatures'',
      [''shaderDemoteToHelperInvocation'']),
     (1000316002, ''VkPhysicalDeviceDescriptorBufferFeaturesEXT'',
      [''descriptorBuffer'', ''descriptorBufferCaptureReplay'',
    ''descriptorBufferImageLayoutIgnored'', ''descriptorBufferPushDescriptors'']),
     (1000225002, ''VkPhysicalDeviceSubgroupSizeControlFeatures'',
      [''subgroupSizeControl'', ''computeFullSubgroups'']),
     (1000261000, ''VkPhysicalDeviceHostQueryResetFeatures'',
      [''hostQueryReset'']),
     (1000161001, ''VkPhysicalDeviceDescriptorIndexingFeatures'',
      [''shaderInputAttachmentArrayDynamicIndexing'',
    ''shaderUniformTexelBufferArrayDynamicIndexing'',
    ''shaderStorageTexelBufferArrayDynamicIndexing'',
    ''shaderUniformBufferArrayNonUniformIndexing'', ''shaderSampledImageArrayNonUniformIndexing'',
    ''shaderStorageBufferArrayNonUniformIndexing'', ''shaderStorageImageArrayNonUniformIndexing'',
    ''shaderInputAttachmentArrayNonUniformIndexing'',
    ''shaderUniformTexelBufferArrayNonUniformIndexing'',
    ''shaderStorageTexelBufferArrayNonUniformIndexing'',
    ''descriptorBindingUniformBufferUpdateAfterBind'',
    ''descriptorBindingSampledImageUpdateAfterBind'',
    ''descriptorBindingStorageImageUpdateAfterBind'',
    ''descriptorBindingStorageBufferUpdateAfterBind'',
    ''descriptorBindingUniformTexelBufferUpdateAfterBind'',
    ''descriptorBindingStorageTexelBufferUpdateAfterBind'',
    ''descriptorBindingUpdateUnusedWhilePending'', ''descriptorBindingPartiallyBound'',
    ''descriptorBindingVariableDescriptorCount'', ''runtimeDescriptorArray'']),
     (1000053001, ''VkPhysicalDeviceMultiviewFeatures'',
      [''multiview'', ''multiviewGeometryShader'', ''multiviewTessellationShader'']),
     (1000314007, ''VkPhysicalDeviceSynchronization2Features'',
      [''synchronization2'']),
     (1000241000, ''VkPhysicalDeviceSeparateDepthStencilLayoutsFeatures'',
      [''separateDepthStencilLayouts'']),
     (1000221000, ''VkPhysicalDeviceScalarBlockLayoutFeatures'',
      [''scalarBlockLayout'']),
     (1000180000, ''VkPhysicalDeviceShaderAtomicInt64Features'',
      [''shaderBufferInt64Atomics'', ''shaderSharedInt64Atomics'']),
     (1000413000, ''VkPhysicalDeviceMaintenance4Features'',
      [''maintenance4'']),
     (1000470000, ''VkPhysicalDeviceMaintenance5FeaturesKHR'',
      [''maintenance5'']),
     (1000234000, ''VkPhysicalDeviceShaderImageAtomicInt64FeaturesEXT'',
      [''shaderImageInt64Atomics'', ''sparseImageInt64Atomics'']),
     (1000238000, ''VkPhysicalDeviceMemoryPriorityFeaturesEXT'',
      [''memoryPriority'']),
     (1000150013, ''VkPhysicalDeviceAccelerationStructureFeaturesKHR'',
      [''accelerationStructure'', ''accelerationStructureCaptureReplay'',
    ''accelerationStructureIndirectBuild'', ''accelerationStructureHostCommands'',
    ''descriptorBindingAccelerationStructureUpdateAfterBind'']),
     (1000347000, ''VkPhysicalDeviceRayTracingPipelineFeaturesKHR'',
      [''rayTracingPipeline'', ''rayTracingPipelineShaderGroupHandleCaptureReplay'',
    ''rayTracingPipelineShaderGroupHandleCaptureReplayMixed'',
    ''rayTracingPipelineTraceRaysIndirect'', ''rayTraversalPrimitiveCulling'']),
     (1000348013, ''VkPhysicalDeviceRayQueryFeaturesKHR'',
      [''rayQuery'']),
     (1000481000, ''VkPhysicalDeviceRayTracingPositionFetchFeaturesKHR'',
      [''rayTracingPositionFetch'']),
     (1000328000, ''VkPhysicalDeviceMeshShaderFeaturesEXT'',
      [''taskShader'', ''meshShader'', ''multiviewMeshShader'',
    ''primitiveFragmentShadingRateMeshShader'', ''meshShaderQueries'']),
     (1000156004, ''VkPhysicalDeviceSamplerYcbcrConversionFeatures'',
      [''samplerYcbcrConversion'']),
     (1000201000, ''VkPhysicalDeviceComputeShaderDerivativesFeaturesNV'',
      [''computeDerivativeGroupQuads'', ''computeDerivativeGroupLinear'']),
     (1000203000, ''VkPhysicalDeviceFragmentShaderBarycentricFeaturesKHR'',
      [''fragmentShaderBarycentric'']),
     (1000341000, ''VkPhysicalDeviceFaultFeaturesEXT'',
      [''deviceFault'', ''deviceFaultVendorBinary'']),
     (1000226003, ''VkPhysicalDeviceFragmentShadingRateFeaturesKHR'',
      [''pipelineFragmentShadingRate'', ''primitiveFragmentShadingRate'',
    ''attachmentFragmentShadingRate''])]"

definition lookup_struct :: "int \<Rightarrow> (string \<times> string list) option" where
  "lookup_struct stype = map_of feature_structs stype"

definition unique_object :: pairs_hook where
  "unique_object = distinct_dict (\<lambda>k. ''duplicate JSON field: '' @ k)"

definition invalid_constant :: constant_hook where
  "invalid_constant = reject_constant ''non-finite JSON value: ''"

definition load :: "fs \<Rightarrow> path \<Rightarrow> json result" where
  "load f p = load_text unique_object invalid_constant f p"

section \<open>Validation\<close>

definition bool_fields :: "json \<Rightarrow> string list \<Rightarrow> string \<Rightarrow> unit result" where
  "bool_fields v names label =
     req (is_obj v \<and> same_set (obj_keys v) names) (''incomplete or unexpected '' @ label)
     (require (list_all (\<lambda>(_, flag). is_bool flag) (obj_items v)) (''non-boolean '' @ label))"

definition extensions :: "json \<Rightarrow> json \<Rightarrow> string \<Rightarrow> unit result" where
  "extensions v count label =
     req (int_in count 0 128 \<and> is_list v \<and> int (length (list_items v)) = int_of count)
       (''invalid '' @ label @ '' inventory'')
     (req (list_all (\<lambda>name. is_str name \<and> vk_name (str_of name)) (list_items v))
       (''invalid '' @ label @ '' name'')
     (require (distinct (map str_of (list_items v))) (''duplicate '' @ label)))"

definition check_instance :: "json \<Rightarrow> unit result" where
  "check_instance instance =
     req (is_obj instance) ''missing actual instance configuration''
     (req (int_in (field ''api_version'' instance) 4206592 8388607) ''Vulkan 1.3+ instance required''
     (req (field ''flags'' instance = JInt 0 \<and> field ''pnext_empty'' instance = JBool True \<and>
           field ''layer_count'' instance = JInt 0) ''unsupported instance flags, pNext or layers''
     (extensions (field ''extensions'' instance) (field ''extension_count'' instance)
       ''instance extensions'')))"

text \<open>The two loops; \<open>seen\<close> is the set of structure types, or of queue families, met so far.\<close>

definition chain_node :: "json \<Rightarrow> int list \<Rightarrow> int list result" where
  "chain_node node seen =
     (let stype = int_of (field ''sType'' node) in
      req (is_obj node \<and> is_int (field ''sType'' node)) ''invalid pNext node''
      (req (lookup_struct stype \<noteq> None \<and> stype \<notin> set seen) ''unknown or duplicate pNext sType''
      (case lookup_struct stype of
         None \<Rightarrow> Inr seen
       | Some (name, names) \<Rightarrow>
           req (field ''type'' node = JStr name) ''pNext type differs from sType schema''
           (bind_result (bool_fields (field ''features'' node) names (name @ '' feature values''))
             (\<lambda>_. Inr (stype # seen))))))"

definition priority_ok :: "json \<Rightarrow> bool result" where
  "priority_ok p =
     (if \<not> is_number p then Inr False
      else bind_result (is_finite_number p) (\<lambda>ok.
        Inr (ok \<and> num_le (JInt 0) p \<and> num_le p (JInt 1))))"

definition check_queue :: "json \<Rightarrow> int list \<Rightarrow> int list result" where
  "check_queue queue seen =
     (let family = field ''queueFamilyIndex'' queue; count = field ''queueCount'' queue;
          priorities = field ''priorities'' queue in
      req (is_obj queue) ''invalid queue configuration''
      (req (int_in family 0 63 \<and> int_of family \<notin> set seen) ''invalid or duplicate queue family''
      (req (int_in count 1 64) ''invalid queue count''
      (req (field ''flags'' queue = JInt 0 \<and> field ''pnext_empty'' queue = JBool True)
        ''unsupported queue flags/pNext''
      (bind_result
        (if is_list priorities \<and> int (length (list_items priorities)) = int_of count
         then all_result priority_ok (list_items priorities) else Inr False)
        (\<lambda>ok. req ok ''invalid queue priorities'' (Inr (int_of family # seen))))))))"

definition validate :: "json \<Rightarrow> json result" where
  "validate state =
     req (is_obj state \<and> field ''schema_version'' state = JInt 2)
       ''complete schema_version=2 snapshot required''
     (req (field ''capture_complete'' state = JBool True) ''snapshot capture is incomplete''
     (req (field ''capture_errors'' state = JList []) ''snapshot has capture errors''
     (req (field ''capture_point'' state = JStr ''vkCreateDevice:entry'')
       ''snapshot must capture actual vkCreateDevice entry arguments''
     (bind_result (check_instance (field ''instance'' state)) (\<lambda>_.
     (req (field ''flags'' state = JInt 0 \<and> field ''layer_count'' state = JInt 0)
       ''unsupported device flags or layers''
     (bind_result (extensions (field ''device_extensions'' state) (field ''device_extension_count'' state)
       ''device extensions'') (\<lambda>_.
     (bind_result (bool_fields (field ''enabled_core_features'' state) core_fields
       ''enabled core features'') (\<lambda>_.
     (let chain = field ''feature_chain'' state; queues = field ''queue_create_infos'' state in
      req (is_list chain \<and> length (list_items chain) \<le> 64 \<and> field ''pnext_terminated'' state = JBool True)
        ''incomplete feature chain''
      (bind_result (fold_result chain_node (list_items chain) []) (\<lambda>_.
      (req (is_list queues \<and> 1 \<le> length (list_items queues) \<and> length (list_items queues) \<le> 16)
        ''missing actual queue-create infos''
      (bind_result (fold_result check_queue (list_items queues) []) (\<lambda>_.
        Inr state))))))))))))))))"

section \<open>The generated header\<close>

definition quote_mark :: string where "quote_mark = [CHR 0x22]"

definition text_lines :: "string list \<Rightarrow> string" where
  "text_lines = join_with [newline_char]"

definition c_bool :: "json \<Rightarrow> string" where
  "c_bool v = (if truthy v then ''VK_TRUE'' else ''VK_FALSE'')"

definition c_bool_fields :: "json \<Rightarrow> string" where
  "c_bool_fields features =
     join_with '', '' (map (\<lambda>(k, v). ''.'' @ k @ '' = '' @ c_bool v) (sort_key fst (obj_items features)))"

definition strings :: "json \<Rightarrow> string" where
  "strings names =
     (let t = join_with '', '' (map (\<lambda>n. encode_str (str_of n)) (list_items names))
      in if t = [] then ''NULL'' else t)"

definition support_head :: string where
  "support_head = text_lines
      [[],
       ''static int captured_extensions_supported(VkPhysicalDevice gpu, int instance)'',
       ''{'',
       ''    uint32_t count = 0;'',
       ''    VkResult result = instance ? vkEnumerateInstanceExtensionProperties(NULL, &count, NULL)'',
       ''                              : vkEnumerateDeviceExtensionProperties(gpu, NULL, &count, NULL);'',
       ''    if (result != VK_SUCCESS || count > 1024) return 0;'',
       ''    VkExtensionProperties *properties = calloc(count ? count : 1, sizeof(*properties));'',
       ''    if (!properties) return 0;'',
       ''    result = instance ? vkEnumerateInstanceExtensionProperties(NULL, &count, properties)'',
       ''                      : vkEnumerateDeviceExtensionProperties(gpu, NULL, &count, properties);'',
       ''    const char **names = instance ? captured_instance_extensions : captured_extensions;'',
       []]"

definition support_loop :: string where
  "support_loop = text_lines
      [''    int ok = result == VK_SUCCESS;'',
       ''    for (uint32_t i = 0; i < required; ++i) {'',
       ''        int found = 0;'',
       ''        for (uint32_t j = 0; j < count; ++j)'',
       ''            if (!strcmp(names[i], properties[j].extensionName)) found = 1;'',
       ''        if (!found) {'',
       ''            fprintf(stderr, '' @ quote_mark @ ''Captured extension unavailable: %s'' @ backslash @ ''n'' @ quote_mark @ '', names[i]);'',
       ''            ok = 0;'',
       ''        }'',
       ''    }'',
       ''    free(properties);'',
       ''    return ok;'',
       ''}'',
       ''static int configure_captured_instance(VkApplicationInfo *app, VkInstanceCreateInfo *info)'',
       ''{'',
       ''    if (!captured_extensions_supported(VK_NULL_HANDLE, 1)) return 0;'',
       []]"

definition device_head :: string where
  "device_head = text_lines
      [[],
       ''static int configure_captured_device(VkPhysicalDevice gpu, VkDeviceCreateInfo *info, uint32_t *family)'',
       ''{'',
       ''    if (!captured_extensions_supported(gpu, 0)) return 0;'',
       ''    VkPhysicalDeviceFeatures2 supported = {.sType = VK_STRUCTURE_TYPE_PHYSICAL_DEVICE_FEATURES_2};'',
       []]"

definition queue_head :: string where
  "queue_head = text_lines
      [[],
       ''    uint32_t count = 0;'',
       ''    vkGetPhysicalDeviceQueueFamilyProperties(gpu, &count, NULL);'',
       ''    if (!count || count > 64) return 0;'',
       ''    VkQueueFamilyProperties properties[64];'',
       ''    vkGetPhysicalDeviceQueueFamilyProperties(gpu, &count, properties);'',
       ''    *family = UINT32_MAX;'',
       []]"

definition show_int_of :: "json \<Rightarrow> string" where "show_int_of v = show_int (int_of v)"

definition node_lines :: "nat \<times> json \<Rightarrow> string list" where
  "node_lines = (\<lambda>(i, node).
     let stype = str_json (field ''sType'' node); t = str_json (field ''type'' node);
         init = ''.sType = (VkStructureType)'' @ stype @ '', '' @ c_bool_fields (field ''features'' node)
     in [''static '' @ t @ '' captured_node_'' @ show_nat i @ '' = {'' @ init @ ''};'',
         ''static '' @ t @ '' supported_node_'' @ show_nat i @ '' = {.sType = (VkStructureType)'' @ stype @ ''};''])"

definition priority_line :: "nat \<times> json \<Rightarrow> string" where
  "priority_line = (\<lambda>(i, queue).
     ''static const float captured_priorities_'' @ show_nat i @ ''[] = {'' @
     join_with '', '' (map (\<lambda>p. format_fixed 9 (num_float p) @ ''f'') (list_items (field ''priorities'' queue)))
     @ ''};'')"

definition queue_line :: "nat \<times> json \<Rightarrow> string" where
  "queue_line = (\<lambda>(i, queue).
     ''{.sType = VK_STRUCTURE_TYPE_DEVICE_QUEUE_CREATE_INFO,.queueFamilyIndex = '' @
     str_json (field ''queueFamilyIndex'' queue) @ '', .queueCount = '' @
     str_json (field ''queueCount'' queue) @ '',.pQueuePriorities = captured_priorities_'' @ show_nat i @
     ''},'')"

definition next_of :: "string \<Rightarrow> nat \<Rightarrow> nat \<Rightarrow> string" where
  "next_of prefix n i = (if i + 1 < n then ''&'' @ prefix @ show_nat (i + 1) else ''NULL'')"

definition link_lines :: "nat \<Rightarrow> nat \<Rightarrow> string list" where
  "link_lines n i =
     [''    supported_node_'' @ show_nat i @ ''.pNext = '' @ next_of ''supported_node_'' n i @ '';'',
      ''    captured_node_'' @ show_nat i @ ''.pNext = '' @ next_of ''captured_node_'' n i @ '';'']"

definition enabled :: "json \<Rightarrow> string list" where
  "enabled features = map fst [(k, v) \<leftarrow> obj_items features. truthy v]"

definition feature_checks :: "json \<Rightarrow> (string \<times> string) list" where
  "feature_checks state =
     map (\<lambda>k. (''supported.features.'' @ k, k)) (enabled (field ''enabled_core_features'' state)) @
     concat (map (\<lambda>(i, node). map (\<lambda>k. (''supported_node_'' @ show_nat i @ ''.'' @ k,
         str_json (field ''type'' node) @ ''.'' @ k)) (enabled (field ''features'' node)))
       (enumerate 0 (list_items (field ''feature_chain'' state))))"

definition check_line :: "string \<times> string \<Rightarrow> string" where
  "check_line = (\<lambda>(expression, label).
     ''    if (!'' @ expression @ '') { fprintf(stderr, '' @ quote_mark @ ''Captured feature unavailable: '' @
     label @ backslash @ ''n'' @ quote_mark @ ''); return 0; }'')"

definition family_lines :: "json \<Rightarrow> string list" where
  "family_lines queue =
     (let family = str_json (field ''queueFamilyIndex'' queue); count = str_json (field ''queueCount'' queue) in
      [''    if ('' @ family @ '' >= count || properties['' @ family @ ''].queueCount < '' @ count @ '') return 0;'',
       ''    if (*family == UINT32_MAX && (properties['' @ family @
         ''].queueFlags & VK_QUEUE_COMPUTE_BIT)) *family = '' @ family @ '';''])"

definition amount :: "json \<Rightarrow> string" where
  "amount v = show_nat (length (list_items v))"

definition header_lines :: "json \<Rightarrow> string \<Rightarrow> string list" where
  "header_lines state checksum =
     (let chain = list_items (field ''feature_chain'' state);
          queues = list_items (field ''queue_create_infos'' state);
          instance = field ''instance'' state; n = length chain in
      [''/* Generated from validated vkCreateDevice entry arguments. */'',
       ''#define CARLA_CAPTURED_DEVICE_STATE 1'',
       ''#define CARLA_DEVICE_SNAPSHOT_SHA256 '' @ quote_mark @ checksum @ quote_mark,
       ''static VkPhysicalDeviceFeatures captured_core = {'' @
         c_bool_fields (field ''enabled_core_features'' state) @ ''};'',
       ''static const char *captured_extensions[] = {'' @ strings (field ''device_extensions'' state) @ ''};'',
       ''static const char *captured_instance_extensions[] = {'' @ strings (field ''extensions'' instance) @ ''};'']
      @ concat (map node_lines (enumerate 0 chain))
      @ map priority_line (enumerate 0 queues)
      @ [''static VkDeviceQueueCreateInfo captured_queues[] = {'']
      @ map queue_line (enumerate 0 queues)
      @ [''};'', support_head,
         ''    uint32_t required = instance ? '' @ amount (field ''extensions'' instance) @ '' : '' @
           amount (field ''device_extensions'' state) @ '';'',
         support_loop,
         ''    app->apiVersion = '' @ str_json (field ''api_version'' instance) @ ''u;'',
         ''    info->enabledExtensionCount = '' @ amount (field ''extensions'' instance) @ '';'',
         ''    info->ppEnabledExtensionNames = captured_instance_extensions;'',
         text_lines [''    return 1;'', ''}''], device_head]
      @ concat (map (link_lines n) [0..<n])
      @ (if n = 0 then [] else [''    supported.pNext = &supported_node_0;''])
      @ [''    vkGetPhysicalDeviceFeatures2(gpu, &supported);'']
      @ map check_line (feature_checks state)
      @ [queue_head]
      @ concat (map family_lines queues)
      @ [''    if (*family == UINT32_MAX) return 0;'',
         ''    info->pEnabledFeatures = &captured_core;'',
         ''    info->pNext = '' @ (if n = 0 then ''NULL'' else ''&captured_node_0'') @ '';'',
         ''    info->enabledExtensionCount = '' @ amount (field ''device_extensions'' state) @ '';'',
         ''    info->ppEnabledExtensionNames = captured_extensions;'',
         ''    info->queueCreateInfoCount = '' @ show_nat (length queues) @ '';'',
         ''    info->pQueueCreateInfos = captured_queues;'',
         text_lines [''    return 1;'', ''}'']])"

definition generate_header :: "host \<Rightarrow> json \<Rightarrow> json \<Rightarrow> string result" where
  "generate_header h state snapshot_sha256 =
     bind_result (validate state) (\<lambda>_.
     let checksum = (if snapshot_sha256 = JNull then JStr (sha256 h (compact state)) else snapshot_sha256) in
     req (is_str checksum \<and> sha256_shape (str_of checksum)) ''invalid snapshot SHA256''
       (Inr (text_lines (header_lines state (str_of checksum)) @ [newline_char])))"

text \<open>\<open>main\<close>: exit code 2 with nothing written when the snapshot is rejected.\<close>

definition main :: "host \<Rightarrow> fs \<Rightarrow> path \<Rightarrow> path option \<Rightarrow> (int \<times> fs) result" where
  "main h f input header =
     (let outcome =
        bind_result (bind_result (load f input) validate) (\<lambda>state.
        bind_result (read_bytes f input) (\<lambda>b.
          case header of
            None \<Rightarrow> Inr f
          | Some p \<Rightarrow> bind_result (generate_header h state (JStr (sha256 h b))) (write_bytes f p)))
      in case outcome of
           Inr f' \<Rightarrow> Inr (0, f')
         | Inl e \<Rightarrow> if os_or_value e then Inr (2, f) else Inl e)"

end
