(* ===== verification/SourceDeployment.thy ===== *)
theory SourceDeployment
  imports Effects FileOps JsonForms TextRecords DeviceSnapshot
begin

text \<open>
  What \<open>prepare_interchange_parser.py\<close> and \<open>prepare_interchange_worker.py\<close> share: edits of engine
  sources, given by the text before and after, kept beside the engine and applied only to a source that
  still is what it was. The state is the file system; \<open>dp_diff\<close> is the text of \<open>difflib.unified_diff\<close> on
  the lines of both texts, \<open>dp_temp\<close> the random part of the name \<open>mkdtemp\<close> picks, and \<open>dp_meanwhile\<close> what other processes
  do to the files before the edits are applied.
\<close>

record deployer =
  dp_host :: host
  dp_script :: path
  dp_temp :: string
  dp_diff :: "string \<Rightarrow> string \<Rightarrow> string \<Rightarrow> string \<Rightarrow> string"
  dp_meanwhile :: "fs \<Rightarrow> fs"

section \<open>Replacing text\<close>

text \<open>\<open>s.count(p)\<close> and \<open>s.replace(p, r)\<close> for a nonempty \<open>p\<close>: occurrences do not overlap.\<close>

function count_text :: "string \<Rightarrow> string \<Rightarrow> nat" where
  "count_text p [] = 0"
| "count_text p (c # s) =
     (if p \<noteq> [] \<and> starts_with p (c # s) then Suc (count_text p (drop (length p) (c # s))) else count_text p s)"
  by pat_completeness auto
termination
  by (relation "measure (\<lambda>(p, s). length s)") (auto simp: neq_Nil_conv)

function replace_text :: "string \<Rightarrow> string \<Rightarrow> string \<Rightarrow> string" where
  "replace_text p r [] = []"
| "replace_text p r (c # s) =
     (if p \<noteq> [] \<and> starts_with p (c # s) then r @ replace_text p r (drop (length p) (c # s))
      else c # replace_text p r s)"
  by pat_completeness auto
termination
  by (relation "measure (\<lambda>(p, r, s). length s)") (auto simp: neq_Nil_conv)

text \<open>\<open>s.replace(p, r, 1)\<close>.\<close>

fun replace_first :: "string \<Rightarrow> string \<Rightarrow> string \<Rightarrow> string" where
  "replace_first p r [] = []"
| "replace_first p r (c # s) =
     (if starts_with p (c # s) then r @ drop (length p) (c # s) else c # replace_first p r s)"

definition guard_symbol :: string where "guard_symbol = ''CARLA_INTERCHANGE_UFBX_STATIC''"

definition guard_begin :: string where
  "guard_begin = ''#if !'' @ guard_symbol @ [newline_char]"

definition guard_end :: string where
  "guard_end = [newline_char] @ ''#endif // !'' @ guard_symbol @ [newline_char]"

definition guarded_source :: "string \<Rightarrow> bool" where
  "guarded_source t \<longleftrightarrow> starts_with guard_begin t \<and> ends_with guard_end t"

definition guard_source :: "string \<Rightarrow> string \<Rightarrow> string result" where
  "guard_source msg t =
     (if guarded_source t then Inr t
      else req (\<not> contains_text guard_symbol t) msg (Inr (guard_begin @ t @ guard_end)))"

definition tabs :: "nat \<Rightarrow> string" where "tabs n = replicate n (CHR 0x09)"

definition rule_marker :: string where
  "rule_marker = tabs 3 @ ''AddEngineThirdPartyPrivateStaticDependencies(Target,''"

definition rule_insert :: string where
  "rule_insert = text_lines
      [tabs 3 @ ''// CARLA opt-in static parser: the default Editor/SDK path is unchanged.'',
       tabs 3 @ ''string StaticBackend = System.Environment.GetEnvironmentVariable('' @ quote_mark @ ''CARLA_INTERCHANGE_UFBX_STATIC'' @ quote_mark @ '');'',
       tabs 3 @ ''if (!string.IsNullOrEmpty(StaticBackend) && StaticBackend != '' @ quote_mark @ ''0'' @ quote_mark @ '' && StaticBackend != '' @ quote_mark @ ''1'' @ quote_mark @ '')'',
       tabs 4 @ ''throw new BuildException('' @ quote_mark @ ''CARLA_INTERCHANGE_UFBX_STATIC must be 0 or 1'' @ quote_mark @ '');'',
       tabs 3 @ ''bool bStaticBackend = StaticBackend == '' @ quote_mark @ ''1'' @ quote_mark @ '';'',
       tabs 3 @ ''PublicDefinitions.Add('' @ quote_mark @ ''CARLA_INTERCHANGE_UFBX_STATIC='' @ quote_mark @ '' + (bStaticBackend ? '' @ quote_mark @ ''1'' @ quote_mark @ '' : '' @ quote_mark @ ''0'' @ quote_mark @ ''));'',
       tabs 3 @ ''if (bStaticBackend)'',
       tabs 3 @ ''{'',
       tabs 4 @ ''if (Target.Type != TargetType.Program || Target.Platform != UnrealTargetPlatform.Linux'',
       tabs 5 @ ''|| Target.Architecture != UnrealArch.Arm64 || Target.bCompileAgainstEngine)'',
       tabs 5 @ ''throw new BuildException('' @ quote_mark @ ''Static ufbx diagnostic requires a Linux ARM64 Program without Engine; not Editor'' @ quote_mark @ '');'',
       tabs 4 @ ''return;'',
       tabs 3 @ ''}'',
       [],
       []]"

section \<open>Edits\<close>

text \<open>A path below the engine, its bytes before, if it exists, and after.\<close>

type_synonym edit = "path \<times> bytes option \<times> bytes"

definition relative_text :: "path \<Rightarrow> string" where
  "relative_text p = join_with ''/'' p"

definition changed :: "edit \<Rightarrow> bool" where
  "changed e = (case e of (p, old, new) \<Rightarrow> old \<noteq> Some new)"

definition text_edit :: "(string \<Rightarrow> string result) \<Rightarrow> fs \<Rightarrow> path \<Rightarrow> path \<Rightarrow> edit result" where
  "text_edit change f ue p =
     bind_result (read_bytes f (ue @ p)) (\<lambda>raw.
     bind_result (bind_result (decode_utf8 raw) change) (\<lambda>t. Inr (p, Some raw, t)))"

definition existing :: "fs \<Rightarrow> path \<Rightarrow> bytes option result" where
  "existing f p = (if exists_path f p then bind_result (read_bytes f p) (\<lambda>b. Inr (Some b)) else Inr None)"

definition read_receipt :: "fs \<Rightarrow> path \<Rightarrow> json result" where
  "read_receipt f p = (if exists_path f p then load_text dict_hook float_hook f p else Inr (JObj []))"

text \<open>A generated source may be replaced when it is missing, current, or what the receipt says was written.\<close>

definition check_receipt :: "host \<Rightarrow> json \<Rightarrow> string \<Rightarrow> edit \<Rightarrow> unit result" where
  "check_receipt h receipt msg e =
     (case e of (p, old, new) \<Rightarrow>
       case old of
         None \<Rightarrow> Inr ()
       | Some b \<Rightarrow>
           if b = new then Inr ()
           else bind_result (py_get (relative_text p) JNull receipt) (\<lambda>r. require (r = JStr (sha256 h b)) msg))"

type_synonym 'a deploy = "(fs, 'a) effect"

definition update_files :: "(fs \<Rightarrow> fs result) \<Rightarrow> unit deploy" where
  "update_files g = (\<lambda>f. case g f of Inl e \<Rightarrow> (Inl e, f) | Inr f' \<Rightarrow> (Inr (), f'))"

definition from_files :: "(fs \<Rightarrow> 'a result) \<Rightarrow> 'a deploy" where
  "from_files g = (\<lambda>f. (g f, f))"

definition save_file :: "path \<Rightarrow> bytes \<Rightarrow> unit deploy" where
  "save_file p b =
     then_do (update_files (\<lambda>f. make_dirs f [] (parent p))) (update_files (\<lambda>f. write_bytes f p b))"

definition old_bytes :: "edit \<Rightarrow> bytes" where
  "old_bytes e = (case e of (p, old, new) \<Rightarrow> case old of None \<Rightarrow> [] | Some b \<Rightarrow> b)"

definition old_name :: "edit \<Rightarrow> string" where
  "old_name e = (case e of (p, old, new) \<Rightarrow> if old = None then ''/dev/null'' else ''a/'' @ relative_text p)"

definition edit_patch :: "deployer \<Rightarrow> edit \<Rightarrow> string result" where
  "edit_patch dp e =
     bind_result (decode_utf8 (old_bytes e)) (\<lambda>old.
     bind_result (decode_utf8 (snd (snd e))) (\<lambda>new.
       Inr (dp_diff dp old new (old_name e) (''b/'' @ relative_text (fst e)))))"

definition save_edit :: "deployer \<Rightarrow> path \<Rightarrow> edit \<Rightarrow> string deploy" where
  "save_edit dp run e =
     (case e of (p, old, new) \<Rightarrow>
       then_do (case old of None \<Rightarrow> ret () | Some b \<Rightarrow> save_file (run @ [''before''] @ p) b)
       (then_do (save_file (run @ [''after''] @ p) new)
       (lift (edit_patch dp e))))"

text \<open>The saved sources of every edit, after what is checked first, and the text of the patch.\<close>

fun save_edits :: "deployer \<Rightarrow> (edit \<Rightarrow> unit deploy) \<Rightarrow> path \<Rightarrow> edit list \<Rightarrow> string deploy" where
  "save_edits dp before_it run [] = ret []"
| "save_edits dp before_it run (e # es) =
     then_do (before_it e)
     (and_then (save_edit dp run e) (\<lambda>t.
      and_then (save_edits dp before_it run es) (\<lambda>ts. ret (t @ ts))))"

definition apply_edit :: "path \<Rightarrow> (path \<Rightarrow> string) \<Rightarrow> edit \<Rightarrow> unit deploy" where
  "apply_edit ue msg e =
     (case e of (p, old, new) \<Rightarrow>
       and_then (from_files (\<lambda>f. existing f (ue @ p))) (\<lambda>current.
       then_do (check (current = old) (msg p))
       (if changed e then update_files (\<lambda>f. write_bytes f (ue @ p) new) else ret ())))"

definition edit_digests :: "host \<Rightarrow> edit list \<Rightarrow> json" where
  "edit_digests h es = JObj (map (\<lambda>(p, old, new). (relative_text p, JStr (sha256 h new))) es)"

definition change_count :: "edit list \<Rightarrow> int" where
  "change_count es = int (length (filter changed es))"

definition deployment_json :: "host \<Rightarrow> string \<Rightarrow> string \<Rightarrow> edit list \<Rightarrow> json" where
  "deployment_json h kind preserved es =
     JObj [(''kind'', JStr kind), (''engine_files'', edit_digests h es), (''changes'', JInt (change_count es)),
       (preserved, JBool True)]"

text \<open>The directory of one run, with the saved sources and the patch in it.\<close>

definition keep_record ::
  "deployer \<Rightarrow> (edit \<Rightarrow> unit deploy) \<Rightarrow> path \<Rightarrow> edit list \<Rightarrow> unit deploy"
where
  "keep_record dp before_it run es =
     then_do (update_files (\<lambda>f. make_work_dir f run))
     (and_then (save_edits dp before_it run es) (\<lambda>patch.
       update_files (\<lambda>f. write_bytes f (run @ [''changes.patch'']) patch)))"

definition apply_edits :: "deployer \<Rightarrow> path \<Rightarrow> (path \<Rightarrow> string) \<Rightarrow> edit list \<Rightarrow> unit deploy" where
  "apply_edits dp ue msg es = then_do (put_state (dp_meanwhile dp)) (do_each (apply_edit ue msg) es)"

text \<open>The resolved engine and artifact directories; artifacts must lie outside the engine.\<close>

definition deploy_roots :: "deployer \<Rightarrow> string \<Rightarrow> string \<Rightarrow> string \<Rightarrow> fs \<Rightarrow> (path \<times> path) result" where
  "deploy_roots dp ue artifacts msg f =
     bind_result (resolve f (cwd (dp_host dp)) ue) (\<lambda>u.
     bind_result (resolve f (cwd (dp_host dp)) artifacts) (\<lambda>a.
       req (\<not> is_under a u) msg (Inr (u, a))))"

definition refuse_link :: "path \<Rightarrow> string \<Rightarrow> unit deploy" where
  "refuse_link p msg = from_files (\<lambda>f. require (\<not> is_link f p) msg)"

end
