(* ===== verification/ParserDeployment.thy ===== *)
theory ParserDeployment
  imports SourceDeployment
begin

text \<open>
  \<open>prepare_interchange_parser.py\<close>: the sources of the FBX parser module that need the SDK are wrapped in
  a guard, its build rules get the static backend, and two sources are generated. Every edit is decided
  before the first one is applied, and deploying again changes nothing.
\<close>

definition parser_module :: path where
  "parser_module = [''Engine'', ''Plugins'', ''Interchange'', ''Runtime'', ''Source'', ''Parsers'', ''Fbx'']"

definition sdk_units :: "string list" where
  "sdk_units = [''FbxAPI'', ''FbxAnimation'', ''FbxCamera'', ''FbxConvert'', ''FbxHelper'', ''FbxLight'',
     ''FbxMaterial'', ''FbxMesh'', ''FbxScene'', ''InterchangeFbxParser'']"

definition sdk_path :: "string \<Rightarrow> path" where
  "sdk_path name = parser_module @ [''Private'', name @ ''.cpp'']"

definition rule_path :: path where
  "rule_path = parser_module @ [''InterchangeFbxParser.Build.cs'']"

definition sdk_edit :: "fs \<Rightarrow> path \<Rightarrow> string \<Rightarrow> edit result" where
  "sdk_edit f ue name =
     text_edit (guard_source (''partial or conflicting source guard: '' @ relative_text (sdk_path name))) f ue
       (sdk_path name)"

definition add_rule :: "string \<Rightarrow> string result" where
  "add_rule t =
     (if contains_text rule_insert t then Inr t
      else req (\<not> contains_text guard_symbol t \<and> count_text rule_marker t = 1) ''conflicting parser build rules''
        (Inr (replace_text rule_marker (rule_insert @ rule_marker) t)))"

definition rule_edit :: "fs \<Rightarrow> path \<Rightarrow> edit result" where
  "rule_edit f ue = text_edit add_rule f ue rule_path"

definition engine_edits :: "fs \<Rightarrow> path \<Rightarrow> edit list result" where
  "engine_edits f ue =
     bind_result (map_result (sdk_edit f ue) sdk_units) (\<lambda>es.
     bind_result (rule_edit f ue) (\<lambda>e. Inr (es @ [e])))"

definition generated_sources :: "(string \<times> string) list" where
  "generated_sources = [(''Public'', ''InterchangeFbxStaticBackend.h''), (''Private'', ''InterchangeFbxStaticParser.cpp'')]"

definition template_path :: "deployer \<Rightarrow> string \<Rightarrow> path" where
  "template_path dp name = parent (dp_script dp) @ [''ue-parser'', name]"

definition generated_edit :: "deployer \<Rightarrow> json \<Rightarrow> path \<Rightarrow> fs \<Rightarrow> string \<times> string \<Rightarrow> edit result" where
  "generated_edit dp receipt ue f source =
     (case source of (folder, name) \<Rightarrow>
       let p = parser_module @ [folder, name] in
       bind_result (read_bytes f (template_path dp name)) (\<lambda>new.
       req (\<not> is_link f (ue @ p)) (''refusing to replace engine source symlink: '' @ relative_text p)
       (bind_result (existing f (ue @ p)) (\<lambda>old.
        bind_result (check_receipt (dp_host dp) receipt
            (''local generated-source edits would be overwritten: '' @ relative_text p) (p, old, new)) (\<lambda>_.
          Inr (p, old, new))))))"

definition parser_receipt :: "path \<Rightarrow> path" where
  "parser_receipt artifacts = artifacts @ [''parser-deployment.json'']"

definition parser_kind :: string where "parser_kind = ''source_deployment_not_build_evidence''"

definition parser_changed :: "path \<Rightarrow> string" where
  "parser_changed p = ''engine source changed during preparation: '' @ relative_text p"

definition write_deployment :: "deployer \<Rightarrow> path \<Rightarrow> path \<Rightarrow> edit list \<Rightarrow> edit list \<Rightarrow> unit deploy" where
  "write_deployment dp artifacts run es generated =
     then_do (update_files (\<lambda>f. write_text_file f (parser_receipt artifacts)
         (indented True (edit_digests (dp_host dp) generated))))
     (update_files (\<lambda>f. write_text_file f (run @ [''deployment.json''])
         (indented True (deployment_json (dp_host dp) parser_kind ''default_sdk_path_preserved'' es))))"

definition deploy_parser :: "deployer \<Rightarrow> path \<Rightarrow> path \<Rightarrow> edit list \<Rightarrow> edit list \<Rightarrow> path deploy" where
  "deploy_parser dp ue artifacts engine generated =
     (let es = engine @ generated; run = artifacts @ [''parser-prepare-'' @ dp_temp dp] in
      then_do (keep_record dp (\<lambda>e. refuse_link (ue @ fst e)
         (''refusing to edit source symlink: '' @ relative_text (fst e))) run es)
      (then_do (apply_edits dp ue parser_changed es)
      (then_do (write_deployment dp artifacts run es generated)
      (ret run))))"

definition prepare_parser :: "deployer \<Rightarrow> string \<Rightarrow> string \<Rightarrow> path deploy" where
  "prepare_parser dp ue_root artifact_root =
     and_then (from_files (deploy_roots dp ue_root artifact_root ''engine tree cannot contain deployment artifacts''))
       (\<lambda>(ue, artifacts).
     and_then (from_files (\<lambda>f. engine_edits f ue)) (\<lambda>engine.
     then_do (update_files (\<lambda>f. make_dirs f [] artifacts))
     (and_then (from_files (\<lambda>f. read_receipt f (parser_receipt artifacts))) (\<lambda>receipt.
     (and_then (from_files (\<lambda>f. map_result (generated_edit dp receipt ue f) generated_sources)) (\<lambda>generated.
      deploy_parser dp ue artifacts engine generated))))))"

text \<open>The sources a deployment covers.\<close>

definition deployed_sources :: "string list" where
  "deployed_sources =
     map (\<lambda>n. relative_text (sdk_path n)) sdk_units
     @ map (\<lambda>p. relative_text (parser_module @ p))
         [[''InterchangeFbxParser.Build.cs''], [''Public'', ''InterchangeFbxStaticBackend.h''],
          [''Private'', ''InterchangeFbxStaticParser.cpp'']]"

text \<open>The exit code.\<close>

definition main :: "deployer \<Rightarrow> string \<Rightarrow> string \<Rightarrow> fs \<Rightarrow> int result" where
  "main dp ue_root artifact_root f =
     (case fst (prepare_parser dp ue_root artifact_root f) of
        Inl e \<Rightarrow> if os_or_value e then Inr 1 else Inl e
      | Inr _ \<Rightarrow> Inr 0)"

end
