(* ===== verification/WorkerDeployment.thy ===== *)
theory WorkerDeployment
  imports SourceDeployment
begin

text \<open>
  \<open>prepare_interchange_worker.py\<close>: the edits of the InterchangeWorker program for the static backend. An
  edit replaces the one occurrence of an anchor, or finds its own result.
\<close>

definition worker_module :: path where
  "worker_module = [''Engine'', ''Source'', ''Programs'', ''InterchangeWorker'']"

definition replace_once :: "string \<Rightarrow> string \<Rightarrow> string \<Rightarrow> string result" where
  "replace_once anchor new t =
     (if contains_text new t then Inr t
      else req (count_text anchor t = 1) (''conflicting Worker source anchor: '' @ take 80 anchor)
        (Inr (replace_first anchor new t)))"

definition worker_marker :: string where
  "worker_marker = tabs 2 @ ''AddEngineThirdPartyPrivateStaticDependencies(Target,''"

definition worker_insert :: string where
  "worker_insert = replace_text (tabs 3) (tabs 2) rule_insert"

definition module_anchor :: string where
  "module_anchor = tabs 1 @ ''UE_SET_LOG_VERBOSITY(LogInterchangeWorker, Verbose);''"

definition module_text :: string where
  "module_text = text_lines
      [tabs 1 @ ''UE_SET_LOG_VERBOSITY(LogInterchangeWorker, Verbose);'',
       ''#if CARLA_INTERCHANGE_UFBX_STATIC'',
       ''    if (!FModuleManager::Get().LoadModule(TEXT('' @ quote_mark @ ''CarlaUfbxInterchange'' @ quote_mark @ ''))) return EXIT_FAILURE;'',
       ''#endif'']"

definition version_anchor :: string where
  "version_anchor = tabs 1 @ ''FString WorkerVersionError;''"

definition version_text :: string where
  "version_text = text_lines
      [tabs 1 @ ''FString WorkerVersionError;'',
       ''#if CARLA_INTERCHANGE_UFBX_STATIC'',
       ''    TArray<FString> Parts;'',
       ''    InterchangeDispatcherVersion.ParseIntoArray(Parts, TEXT('' @ quote_mark @ ''.'' @ quote_mark @ ''), false);'',
       ''    bool ValidVersion = Parts.Num() == 4;'',
       ''    for (int32 Index = 0; Index < Parts.Num(); ++Index)'',
       ''    {'',
       ''        ValidVersion &= !Parts[Index].IsEmpty() && Parts[Index].Len() <= 10;'',
       ''        for (TCHAR C : Parts[Index]) ValidVersion &= C >= TCHAR(48) && C <= TCHAR(57);'',
       ''        const uint64 Number = FCString::Strtoui64(*Parts[Index], nullptr, 10);'',
       ''        ValidVersion &= Number <= (Index == 3 ? 1u : uint64(MAX_int32));'',
       ''    }'',
       ''    if (!ValidVersion) WorkerVersionError = TEXT('' @ quote_mark @ ''Malformed dispatcher version'' @ quote_mark @ '');'',
       ''#endif'']"

definition run_anchor :: string where
  "run_anchor = tabs 2 @ ''Worker.Run(WorkerVersionError);''"

definition run_text :: string where
  "run_text = text_lines
      [''#if CARLA_INTERCHANGE_UFBX_STATIC'',
       ''        if (!Worker.Run(WorkerVersionError)) return EXIT_FAILURE;'',
       ''#else'',
       tabs 2 @ ''Worker.Run(WorkerVersionError);'',
       ''#endif'']"

definition init_anchor :: string where
  "init_anchor = tabs 1 @ ''GEngineLoop.PreInit(ArgC, ArgV);''"

definition init_text :: string where
  "init_text = text_lines
      [''#if CARLA_INTERCHANGE_UFBX_STATIC'',
       ''    const int32 InitResult = GEngineLoop.PreInit(ArgC, ArgV);'',
       ''    if (InitResult != 0) return InitResult;'',
       ''#else'',
       tabs 1 @ ''GEngineLoop.PreInit(ArgC, ArgV);'',
       ''#endif'']"

definition worker_program :: "string \<Rightarrow> string result" where
  "worker_program t =
     bind_result (replace_once module_anchor module_text t) (\<lambda>t1.
     bind_result (replace_once version_anchor version_text t1) (\<lambda>t2.
     bind_result (replace_once run_anchor run_text t2)
       (replace_once init_anchor init_text)))"

definition worker_edits :: "(string list \<times> (string \<Rightarrow> string result)) list" where
  "worker_edits =
     [([''InterchangeWorker.Build.cs''], replace_once worker_marker (worker_insert @ worker_marker)),
      ([''Private'', ''InterchangeWorker.cpp''], worker_program),
      ([''Private'', ''InterchangeWorkerImpl.cpp''], guard_source ''partial WorkerImpl guard'')]"

definition worker_edit :: "fs \<Rightarrow> path \<Rightarrow> string list \<times> (string \<Rightarrow> string result) \<Rightarrow> edit result" where
  "worker_edit f ue it =
     (case it of (name, change) \<Rightarrow>
       let p = worker_module @ name in
       req (\<not> is_link f (ue @ p)) (''source symlink: '' @ relative_text p) (text_edit change f ue p))"

definition static_path :: path where
  "static_path = worker_module @ [''Private'', ''InterchangeWorkerStatic.cpp'']"

definition static_edit :: "deployer \<Rightarrow> json \<Rightarrow> path \<Rightarrow> fs \<Rightarrow> edit result" where
  "static_edit dp receipt ue f =
     req (\<not> is_link f (ue @ static_path)) ''generated source symlink''
     (bind_result (existing f (ue @ static_path)) (\<lambda>old.
      bind_result (read_bytes f (parent (dp_script dp) @ [''ue-parser'', ''InterchangeWorkerStatic.cpp''])) (\<lambda>new.
      bind_result (check_receipt (dp_host dp) receipt ''local Worker source changes would be overwritten''
          (static_path, old, new)) (\<lambda>_.
        Inr (static_path, old, new)))))"

definition worker_receipt :: "path \<Rightarrow> path" where
  "worker_receipt artifacts = artifacts @ [''worker-deployment.json'']"

definition worker_kind :: string where "worker_kind = ''worker_source_not_runtime_evidence''"

definition write_worker_deployment :: "deployer \<Rightarrow> path \<Rightarrow> path \<Rightarrow> edit list \<Rightarrow> edit \<Rightarrow> unit deploy" where
  "write_worker_deployment dp artifacts run es generated =
     then_do (update_files (\<lambda>f. write_text_file f (worker_receipt artifacts)
         (indented False (edit_digests (dp_host dp) [generated]))))
     (update_files (\<lambda>f. write_text_file f (run @ [''deployment.json''])
         (indented False (deployment_json (dp_host dp) worker_kind ''default_path_preserved'' es))))"

definition deploy_worker :: "deployer \<Rightarrow> path \<Rightarrow> path \<Rightarrow> edit list \<Rightarrow> edit \<Rightarrow> path deploy" where
  "deploy_worker dp ue artifacts edits generated =
     (let es = edits @ [generated]; run = artifacts @ [''worker-prepare-'' @ dp_temp dp] in
      then_do (keep_record dp (\<lambda>_. ret ()) run es)
      (then_do (apply_edits dp ue (\<lambda>_. ''source changed during Worker preparation'') es)
      (then_do (write_worker_deployment dp artifacts run es generated)
      (ret run))))"

definition prepare_worker :: "deployer \<Rightarrow> string \<Rightarrow> string \<Rightarrow> path deploy" where
  "prepare_worker dp ue_root artifact_root =
     and_then (from_files (deploy_roots dp ue_root artifact_root ''artifacts must be outside UE'')) (\<lambda>(ue, artifacts).
     and_then (from_files (\<lambda>f. map_result (worker_edit f ue) worker_edits)) (\<lambda>edits.
     then_do (update_files (\<lambda>f. make_dirs f [] artifacts))
     (and_then (from_files (\<lambda>f. read_receipt f (worker_receipt artifacts))) (\<lambda>receipt.
     (and_then (from_files (static_edit dp receipt ue)) (deploy_worker dp ue artifacts edits))))))"

end
