(* ===== verification/JsonRoundtrip.thy ===== *)
theory JsonRoundtrip
  imports JsonText
begin

text \<open>
  The JSON codec reads back what it writes. \<open>object_hook\<close> is the interface between the parser and the
  modules that supply \<open>object_pairs_hook\<close> and \<open>parse_constant\<close>: a hook keeps objects with distinct
  keys as they are and only ever builds well-formed values. \<open>strict_hook\<close> adds that duplicate keys and
  the non-finite constants are refused. The round trip is proved once, for every hook.
\<close>

section \<open>Strings\<close>

definition ascii :: "string \<Rightarrow> bool" where
  "ascii s \<longleftrightarrow> list_all (\<lambda>c. code c < 128) s"

lemma ascii_simps [simp]: "ascii []" "ascii (c # s) \<longleftrightarrow> code c < 128 \<and> ascii s"
  by (simp_all add: ascii_def)

lemma hex_digit_table:
  "list_all (\<lambda>m. hex_value (hex_digit m) = int m \<and> is_any_hex (hex_digit m)) [0..<16]"
  by (simp add: upt_rec_numeral upt_rec hex_digit_def hex_value_def is_any_hex_def is_lower_hex_def)

lemma hex_digit_value:
  assumes "0 \<le> n" and "n < 16"
  shows "hex_value (hex_digit (nat n)) = n" and "is_any_hex (hex_digit (nat n))"
proof -
  from assms have "nat n \<in> set [0..<16]" by auto
  with hex_digit_table show "hex_value (hex_digit (nat n)) = n" "is_any_hex (hex_digit (nat n))"
    using assms(1) unfolding list_all_iff by (metis int_nat_eq)+
qed

lemma nibbles:
  fixes n :: int
  assumes "0 \<le> n" and "n < 65536"
  shows "4096 * (n div 4096 mod 16) + 256 * (n div 256 mod 16) + 16 * (n div 16 mod 16) + n mod 16 = n"
proof -
  have "n div (16 * 16) = n div 16 div 16" by (rule zdiv_zmult2_eq) simp
  then have a: "n div 256 = n div 16 div 16" by simp
  have "n div (256 * 16) = n div 256 div 16" by (rule zdiv_zmult2_eq) simp
  then have b: "n div 4096 = n div 256 div 16" by simp
  have "0 \<le> n div 4096" "n div 4096 < 16" using assms by linarith+
  then have c: "n div 4096 mod 16 = n div 4096" by (rule mod_pos_pos_trivial)
  have "n div 256 = 16 * (n div 4096) + n div 256 mod 16"
    using mult_div_mod_eq [of 16 "n div 256"] b by simp
  moreover have "n div 16 = 16 * (n div 256) + n div 16 mod 16"
    using mult_div_mod_eq [of 16 "n div 16"] a by simp
  moreover have "n = 16 * (n div 16) + n mod 16" by simp
  ultimately show ?thesis using c by linarith
qed

lemma hex4_value:
  assumes "\<And>x. x \<in> {a, b, c, d} \<Longrightarrow> 0 \<le> x \<and> x < (16::int)"
  shows "take_hex4 (hex_digit (nat a) # hex_digit (nat b) # hex_digit (nat c) # hex_digit (nat d) # t)
    = Some (4096 * a + 256 * b + 16 * c + d, t)"
  using assms by (simp add: hex_int_def hex_digit_value)

lemma take_hex4_u:
  assumes "0 \<le> n" and "n < 65536"
  shows "take_hex4 (drop 2 (u_escape n @ t)) = Some (n, t)"
proof -
  have "drop 2 (u_escape n @ t) = hex_digit (nat (n div 4096 mod 16)) # hex_digit (nat (n div 256 mod 16))
      # hex_digit (nat (n div 16 mod 16)) # hex_digit (nat (n mod 16)) # t"
    by (simp add: u_escape_def)
  also have "take_hex4 \<dots> = Some (4096 * (n div 4096 mod 16) + 256 * (n div 256 mod 16)
      + 16 * (n div 16 mod 16) + n mod 16, t)"
  proof (rule hex4_value)
    fix x assume "x \<in> {n div 4096 mod 16, n div 256 mod 16, n div 16 mod 16, n mod 16}"
    then obtain m where "x = m mod 16" by blast
    then show "0 \<le> x \<and> x < 16" by simp
  qed
  finally show ?thesis by (simp only: nibbles [OF assms])
qed

lemma of_char_ascii: "code c < 128 \<Longrightarrow> (of_char c :: int) < 128"
  by (simp flip: code_eq_int)

lemma of_char_nonneg [simp]: "0 \<le> (of_char c :: int)"
  by (simp flip: code_eq_int)

lemma utf8_point_ascii: "code c < 128 \<Longrightarrow> utf8_point (of_char c) = [c]"
  by (simp add: utf8_point_def of_char_ascii)

lemma scan_ascii_escape:
  assumes c: "code c < 128" and n: "length (ascii_escape c) \<le> n"
    and r: "\<And>m. n - length (ascii_escape c) \<le> m \<Longrightarrow> scan_string m None t = Inr (u, rest)"
  shows "scan_string n None (ascii_escape c @ t) = Inr (c # u, rest)"
proof (cases "ascii_escape c = u_escape (of_char c)")
  case True
  then have n6: "6 \<le> n" using n by (simp add: u_escape_def)
  then obtain n' where n': "n = Suc n'" by (cases n) auto
  have hex: "take_hex4 (drop 2 (u_escape (of_char c) @ t)) = Some (of_char c, t)"
    by (rule take_hex4_u) (use of_char_ascii [OF c] in simp_all)
  have "scan_string n' None t = Inr (u, rest)" using r True n' by (simp add: u_escape_def)
  then show ?thesis
    using hex c of_char_ascii [OF c] unfolding True n'
    by (simp add: u_escape_def utf8_point_ascii)
next
  case False
  have "ascii_escape c \<noteq> []" by (simp add: ascii_escape_def u_escape_def)
  with n obtain n' where n': "n = Suc n'" by (cases n) auto
  have rn: "scan_string n' None t = Inr (u, rest)"
    by (rule r) (use n' \<open>ascii_escape c \<noteq> []\<close> in \<open>cases "ascii_escape c"; simp\<close>)
  have plain: "32 \<le> code c" if "ascii_escape c = [c]"
    using that False by (auto simp: ascii_escape_def split: if_splits)
  from False show ?thesis
    unfolding n' using rn plain
    by (auto simp: ascii_escape_def unescape_char_def flush_def split: if_splits)
qed

lemma scan_escape:
  "ascii s \<Longrightarrow> length (escape s) < n \<Longrightarrow> scan_string n None (escape s @ CHR 0x22 # rest) = Inr (s, rest)"
proof (induction s arbitrary: n)
  case Nil
  then show ?case by (cases n) (simp_all add: flush_def)
next
  case (Cons c s)
  then have "code c < 128" "escape (c # s) = ascii_escape c @ escape s" by auto
  with Cons show ?case by (simp add: scan_ascii_escape)
qed

section \<open>Numbers\<close>

definition delimited :: "string \<Rightarrow> bool" where
  "delimited r \<longleftrightarrow> r = [] \<or> hd r = CHR '','' \<or> hd r = CHR 0x0A"

lemma delimited_tail:
  assumes "delimited r"
  shows "takeWhile is_digit r = []" "dropWhile is_digit r = r"
    "scan_fraction r = ([], r)" "scan_exponent r = (None, r)"
  using assms by (cases r; auto simp: delimited_def scan_fraction_def scan_exponent_def)+

lemma takeWhile_digits:
  assumes "list_all is_digit ds" and "delimited r"
  shows "takeWhile is_digit (ds @ r) = ds" "dropWhile is_digit (ds @ r) = r"
  using assms delimited_tail [OF assms(2)]
  by (simp_all add: list_all_iff takeWhile_append2 dropWhile_append2 takeWhile_append dropWhile_append)

lemma show_digits_head:
  "0 \<le> n \<Longrightarrow> hd (show_digits n) = CHR ''0'' \<Longrightarrow> show_digits n = [CHR ''0'']"
proof (induction n rule: show_digits.induct)
  case (1 n)
  show ?case
  proof (cases "n < 10")
    case True
    then have s: "show_digits n = [char_of (n + 48)]" by (subst show_digits.simps) simp
    with "1.prems" show ?thesis by simp
  next
    case False
    then have s: "show_digits n = show_digits (n div 10) @ [char_of (n mod 10 + 48)]"
      by (subst show_digits.simps) simp
    with "1.prems" have "hd (show_digits (n div 10)) = CHR ''0''" by simp
    with "1" False have "show_digits (n div 10) = [CHR ''0'']" by simp
    then have "dec_int (show_digits (n div 10)) = 0" by (simp add: dec_int_def)
    with False "1.prems" show ?thesis by simp
  qed
qed

lemma scan_number_show:
  assumes "0 \<le> n" and "delimited r"
  shows "scan_number neg (show_digits n @ r) = Inr (JInt (if neg then - n else n), r)"
proof (cases "hd (show_digits n) = CHR ''0''")
  case True
  then have s: "show_digits n = [CHR ''0'']" using assms(1) by (rule show_digits_head [rotated])
  then have "dec_int (show_digits n) = 0" by (simp add: dec_int_def)
  with assms(1) have "n = 0" by simp
  with s delimited_tail [OF assms(2)] show ?thesis
    by (simp add: scan_number_def number_tail_def dec_int_def)
next
  case False
  obtain c ds where cds: "show_digits n = c # ds" by (cases "show_digits n") simp_all
  have digits: "list_all is_digit (show_digits n)" using assms(1) by (rule show_digits_digits)
  have "dec_int (c # ds) = n" using assms(1) cds by (metis dec_int_show_digits)
  with False cds digits takeWhile_digits [OF digits assms(2)] delimited_tail [OF assms(2)]
  show ?thesis by (simp add: scan_number_def number_tail_def)
qed

lemma digit_head: "0 \<le> n \<Longrightarrow> \<exists>c ds. show_digits n = c # ds \<and> is_digit c"
  using show_digits_digits [of n] by (cases "show_digits n") auto

lemma digit_not_literal:
  "is_digit c \<Longrightarrow> c \<notin> {CHR ''n'', CHR ''t'', CHR ''f'', CHR ''N'', CHR ''I'', CHR ''-'', CHR 0x22,
    CHR ''['', CHR ''{''}"
  by auto

lemma scan_literal_digit: "is_digit c \<Longrightarrow> scan_literal const (c # s) = None"
  using digit_not_literal [of c]
  by (simp add: scan_literal_def literals_def constants_def starts_with_def)

lemma scan_literal_minus: "is_digit c \<Longrightarrow> scan_literal const (CHR ''-'' # c # s) = None"
  using digit_not_literal [of c]
  by (simp add: scan_literal_def literals_def constants_def starts_with_def)

lemma parse_int:
  assumes "delimited r"
  shows "parse_value hook const (Suc n) (show_int i @ r) = Inr (JInt i, r)"
proof (cases "i < 0")
  case True
  obtain c ds where cds: "show_digits (- i) = c # ds" "is_digit c"
    using digit_head [of "- i"] True by auto
  have "scan_number True (show_digits (- i) @ r) = Inr (JInt i, r)"
    using scan_number_show [of "- i" r True] True assms by simp
  with True cds show ?thesis by (simp add: show_int_def scan_literal_minus)
next
  case False
  obtain c ds where cds: "show_digits i = c # ds" "is_digit c"
    using digit_head [of i] False by auto
  then have "c \<noteq> CHR 0x22" "c \<noteq> CHR ''[''" "c \<noteq> CHR ''{''" "c \<noteq> CHR ''-''"
    using digit_not_literal [of c] by auto
  moreover have "scan_number False (show_digits i @ r) = Inr (JInt i, r)"
    using scan_number_show [of i r False] False assms by simp
  ultimately show ?thesis using False cds by (simp add: show_int_def scan_literal_digit)
qed

section \<open>Floats\<close>

text \<open>
  A float whose \<open>repr\<close> the number scanner reads back as the same float. Python documents this of every
  finite float; here it is computed for a given value.
\<close>

definition reads_back :: "pyfloat \<Rightarrow> bool" where
  "reads_back x \<longleftrightarrow>
     is_finite x \<and> ascii (float_repr x) \<and>
     (case float_repr x of
        [] \<Rightarrow> False
      | c # t \<Rightarrow> (if c = CHR ''-'' then scan_number True t else scan_number False (c # t)) = Inr (JFloat x, []))"

lemma span_delimited:
  assumes "delimited r"
  shows "takeWhile is_digit (s @ r) = takeWhile is_digit s"
    and "dropWhile is_digit (s @ r) = dropWhile is_digit s @ r"
  using delimited_tail [OF assms] by (induction s) simp_all

lemma scan_fraction_append:
  assumes "delimited r"
  shows "scan_fraction (s @ r) = (fst (scan_fraction s), snd (scan_fraction s) @ r)"
  using delimited_tail [OF assms] span_delimited [OF assms]
  by (cases s) (simp_all add: scan_fraction_def)

lemma scan_exponent_append:
  assumes "delimited r"
  shows "scan_exponent (s @ r) = (fst (scan_exponent s), snd (scan_exponent s) @ r)"
proof (cases s)
  case Nil
  with delimited_tail [OF assms] show ?thesis by (simp add: scan_exponent_def)
next
  case (Cons c t)
  note rules = delimited_tail(1,2) [OF assms] span_delimited [OF assms]
  show ?thesis
  proof (cases t)
    case Nil
    with Cons assms rules show ?thesis
      by (cases r) (auto simp: scan_exponent_def delimited_def Let_def)
  next
    case (Cons d u)
    with \<open>s = c # t\<close> rules show ?thesis by (simp add: scan_exponent_def Let_def)
  qed
qed

lemma number_tail_append:
  assumes "delimited r" and "number_tail neg ds s = Inr (v, t)"
  shows "number_tail neg ds (s @ r) = Inr (v, t @ r)"
proof -
  obtain fs s1 where f: "scan_fraction s = (fs, s1)" by fastforce
  obtain ex s2 where e: "scan_exponent s1 = (ex, s2)" by fastforce
  from assms(2) f e show ?thesis
    by (auto simp: number_tail_def Let_def scan_fraction_append [OF assms(1)] scan_exponent_append [OF assms(1)]
        split: if_splits)
qed

lemma scan_number_append:
  assumes "delimited r" and "scan_number neg s = Inr (v, t)"
  shows "scan_number neg (s @ r) = Inr (v, t @ r)"
proof (cases s)
  case (Cons c u)
  with assms(2) number_tail_append [OF assms(1)] span_delimited [OF assms(1), of s] show ?thesis
    by (auto simp: scan_number_def json_error_def split: if_splits)
qed (use assms in \<open>simp add: scan_number_def json_error_def\<close>)

lemma scan_number_head: "scan_number neg s = Inr v \<Longrightarrow> \<exists>c t. s = c # t \<and> is_digit c"
  by (cases s) (auto simp: scan_number_def json_error_def is_digit_def split: if_splits)

lemma parse_float:
  assumes "reads_back x" and "delimited r"
  shows "parse_value hook const (Suc n) (float_repr x @ r) = Inr (JFloat x, r)"
proof -
  from assms(1) obtain c t where ct: "float_repr x = c # t"
    and run: "(if c = CHR ''-'' then scan_number True t else scan_number False (c # t)) = Inr (JFloat x, [])"
    by (auto simp: reads_back_def split: list.splits)
  show ?thesis
  proof (cases "c = CHR ''-''")
    case True
    with run have "scan_number True t = Inr (JFloat x, [])" by simp
    from scan_number_head [OF this] scan_number_append [OF assms(2) this] obtain d u
      where "t = d # u" "is_digit d" "scan_number True (t @ r) = Inr (JFloat x, r)" by auto
    with True ct show ?thesis by (simp add: scan_literal_minus)
  next
    case False
    with run have "scan_number False (c # t) = Inr (JFloat x, [])" by simp
    from scan_number_head [OF this] scan_number_append [OF assms(2) this]
    have "is_digit c" "scan_number False (c # t @ r) = Inr (JFloat x, r)" by auto
    moreover from this(1) have "c \<noteq> CHR 0x22" "c \<noteq> CHR ''[''" "c \<noteq> CHR ''{''" using digit_not_literal [of c] by auto
    ultimately show ?thesis using False ct by (simp add: scan_literal_digit)
  qed
qed

lemma float_head: "reads_back x \<Longrightarrow> \<exists>c t. float_repr x = c # t \<and> (c = CHR ''-'' \<or> is_digit c)"
  by (auto simp: reads_back_def split: list.splits if_splits dest: scan_number_head)

lemma log2_floor_1: "log2_floor 1 = 0" by (simp add: log2_floor_def pow2_def)

lemma round_float_1: "round_float 1 = Fin 1"
  by (simp add: round_float_def log2_floor_1 pow2_def round_half_even_def Let_def)

lemma float_repr_1: "float_repr (Fin 1) = ''1.0''"
proof -
  have "log10_floor 1 = 0" by (simp add: log10_floor_def log2_floor_1 pow10_def numeral_eq_Suc)
  moreover have "shortest 16 (Suc 0) 0 1 = (1, 0)"
    by (simp add: numeral_eq_Suc pow10_def round_half_even_def round_float_1)
  moreover have "strip_zeros 20 1 0 = (1, 0)" by (simp add: numeral_eq_Suc)
  moreover have "show_digits 1 = ''1''" by (simp add: show_digits.simps char_of_def)
  ultimately show ?thesis
    by (simp add: float_repr_def positive_repr_def del: shortest.simps strip_zeros.simps)
qed

lemma one_reads_back: "reads_back (Fin 1)"
  by (simp add: reads_back_def float_repr_1 is_finite_def scan_number_def number_tail_def scan_fraction_def
      scan_exponent_def is_digit_def float_of_decimal_def dec_int_def pow10_def round_float_1)

lemma zeros_read_back: "reads_back (Fin 0)" "reads_back NegZero"
  by (simp_all add: reads_back_def float_repr_def is_finite_def scan_number_def number_tail_def scan_fraction_def
      scan_exponent_def is_digit_def float_of_decimal_def dec_int_def)

section \<open>Values\<close>

text \<open>Every string ASCII, and every object's keys in order.\<close>

fun ascii_json :: "json \<Rightarrow> bool" where
  "ascii_json (JStr s) = ascii s"
| "ascii_json (JList xs) = list_all ascii_json xs"
| "ascii_json (JObj d) = list_all (\<lambda>(k, v). ascii k \<and> ascii_json v) d"
| "ascii_json _ = True"

fun sorted_json :: "json \<Rightarrow> bool" where
  "sorted_json (JList xs) = list_all sorted_json xs"
| "sorted_json (JObj d) = (sorted (map fst d) \<and> list_all (\<lambda>(_, v). sorted_json v) d)"
| "sorted_json _ = True"

fun canon :: "json \<Rightarrow> json" where
  "canon (JList xs) = JList (map canon xs)"
| "canon (JObj d) = JObj (sort_key fst (map (\<lambda>(k, v). (k, canon v)) d))"
| "canon v = v"

fun exact_floats :: "json \<Rightarrow> bool" where
  "exact_floats (JFloat x) = reads_back x"
| "exact_floats (JList xs) = list_all exact_floats xs"
| "exact_floats (JObj d) = list_all (\<lambda>(_, v). exact_floats v) d"
| "exact_floats _ = True"

definition plain_json :: "json \<Rightarrow> bool" where
  "plain_json v \<longleftrightarrow> wf_json v \<and> exact_floats v \<and> ascii_json v"

text \<open>The fuel a value needs, and why the length of its text is enough.\<close>

fun need :: "json \<Rightarrow> nat" where
  "need (JList xs) = Suc (sum_list (map (\<lambda>x. Suc (need x)) xs))"
| "need (JObj d) = Suc (sum_list (map (\<lambda>(_, v). Suc (need v)) d))"
| "need _ = 1"

lemma skip_space_newline [simp]: "skip_space (newline k @ s) = skip_space s"
proof -
  have "dropWhile json_space (replicate n (CHR '' '') @ s) = dropWhile json_space s" for n
    by (induction n) (simp_all add: json_space_def)
  then show ?thesis by (simp add: skip_space_def newline_def json_space_def)
qed

definition starts_value :: "string \<Rightarrow> bool" where
  "starts_value s \<longleftrightarrow> s \<noteq> [] \<and> \<not> json_space (hd s) \<and> hd s \<notin> {CHR '']'', CHR ''}''}"

lemma skip_space_value [simp]: "starts_value s \<Longrightarrow> skip_space (s @ t) = s @ t"
  by (cases s) (simp_all add: starts_value_def skip_space_def)

lemma starts_value_encode: "exact_floats v \<Longrightarrow> starts_value (encode k v)"
proof (cases v)
  case (JInt i)
  have "starts_value (c # ds)" if "is_digit c" for c ds
    using that by (auto simp: starts_value_def json_space_def is_digit_def)
  with JInt show ?thesis
    using digit_head [of i] digit_head [of "- i"]
    by (auto simp: show_int_def starts_value_def json_space_def not_less)
next
  case (JFloat x)
  assume "exact_floats v"
  with JFloat float_head [of x] show ?thesis by (auto simp: starts_value_def json_space_def is_digit_def)
qed (auto simp: starts_value_def json_space_def encode_str_def bracket_def)

lemma parse_str:
  "ascii s \<Longrightarrow> parse_value hook const (Suc n) (encode_str s @ r) = Inr (JStr s, r)"
  by (simp add: encode_str_def scan_escape)

lemma skip_comma [simp]: "skip_space (CHR '','' # s) = CHR '','' # s"
  by (simp add: skip_space_def json_space_def)

lemma skip_close [simp]:
  "skip_space (CHR '']'' # s) = CHR '']'' # s" "skip_space (CHR ''}'' # s) = CHR ''}'' # s"
  "skip_space (CHR '':'' # s) = CHR '':'' # s" "skip_space (CHR '' '' # s) = skip_space s"
  by (simp_all add: skip_space_def json_space_def)

lemma delimited_sep [simp]:
  "delimited (newline k @ s)" "delimited (CHR '','' # s)"
  by (simp_all add: delimited_def newline_def)

lemma join_more: "join_with sep (w # y # ws) @ t = w @ sep @ join_with sep (y # ws) @ t"
  by simp

lemma parse_items_last:
  "parse_value hook const m s = Inr (v, r0) \<Longrightarrow> skip_space r0 = CHR '']'' # r \<Longrightarrow>
   parse_items hook const (Suc m) s = Inr ([v], r)"
  by simp

lemma parse_items_more:
  "parse_value hook const m s = Inr (v, CHR '','' # r1) \<Longrightarrow>
   parse_items hook const m (skip_space r1) = Inr (vs, r) \<Longrightarrow>
   parse_items hook const (Suc m) s = Inr (v # vs, r)"
  by simp

lemma parse_list:
  assumes "xs \<noteq> []" and "sum_list (map (\<lambda>x. Suc (need x)) xs) \<le> n"
    and "\<And>x. x \<in> set xs \<Longrightarrow> starts_value (encode k' x)"
    and "\<And>x n r. x \<in> set xs \<Longrightarrow> need x \<le> n \<Longrightarrow> delimited r \<Longrightarrow>
      parse_value hook const n (encode k' x @ r) = Inr (x, r)"
  shows "parse_items hook const n
      (join_with ('','' @ newline k') (map (encode k') xs) @ newline k @ CHR '']'' # r) = Inr (xs, r)"
  using assms
proof (induction xs arbitrary: n rule: list_nonempty_induct)
  case (single x)
  then obtain m where m: "n = Suc m" "need x \<le> m" by (cases n) auto
  with single show ?case
    by (simp add: parse_items_last [where ?r0.0 = "newline k @ CHR '']'' # r"] del: parse_items.simps)
next
  case (cons x xs)
  then obtain m where m: "n = Suc m" "need x \<le> m" "sum_list (map (\<lambda>x. Suc (need x)) xs) \<le> m"
    by (cases n) auto
  obtain y ys where xs: "xs = y # ys" using cons.hyps by (cases xs) auto
  define t where "t = join_with ('','' @ newline k') (map (encode k') xs) @ newline k @ CHR '']'' # r"
  have IH: "parse_items hook const m t = Inr (xs, r)"
    unfolding t_def by (rule cons.IH) (use m cons.prems in auto)
  have "starts_value (encode k' y)" using cons.prems xs by simp
  then have "skip_space t = t"
    unfolding t_def xs by (cases ys) simp_all
  with IH have "parse_items hook const m (skip_space (newline k' @ t)) = Inr (xs, r)" by simp
  moreover have "parse_value hook const m (encode k' x @ CHR '','' # newline k' @ t)
      = Inr (x, CHR '','' # newline k' @ t)"
    using cons.prems m by simp
  ultimately have "parse_items hook const n (encode k' x @ CHR '','' # newline k' @ t) = Inr (x # xs, r)"
    unfolding m(1) by (rule parse_items_more [rotated])
  then show ?case by (simp add: t_def xs join_more del: join_with.simps)
qed

lemma starts_value_quote [simp]: "starts_value (encode_str s)"
  by (simp add: encode_str_def starts_value_def json_space_def)

lemma parse_member_head:
  assumes "ascii key" and "skip_space s = s" and "parse_value hook const m s = Inr (v, r0)"
  shows "skip_space r0 = CHR ''}'' # r \<Longrightarrow>
      parse_members hook const (Suc m) (encode_str key @ '': '' @ s) = Inr ([(key, v)], r)"
    and "r0 = CHR '','' # r1 \<Longrightarrow> parse_members hook const m (skip_space r1) = Inr (ps, r) \<Longrightarrow>
      parse_members hook const (Suc m) (encode_str key @ '': '' @ s) = Inr ((key, v) # ps, r)"
  using assms by (simp_all add: encode_str_def expect_def scan_escape)

lemma parse_object:
  assumes "d \<noteq> []" and "sum_list (map (\<lambda>(_, v). Suc (need v)) d) \<le> n"
    and "\<And>k v. (k, v) \<in> set d \<Longrightarrow> ascii k \<and> starts_value (encode k' v)"
    and "\<And>k v n r. (k, v) \<in> set d \<Longrightarrow> need v \<le> n \<Longrightarrow> delimited r \<Longrightarrow>
      parse_value hook const n (encode k' v @ r) = Inr (v, r)"
  shows "parse_members hook const n
      (join_with ('','' @ newline k') (map (\<lambda>(key, v). encode_str key @ '': '' @ encode k' v) d)
        @ newline k @ CHR ''}'' # r) = Inr (d, r)"
  using assms
proof (induction d arbitrary: n rule: list_nonempty_induct)
  case (single kv)
  obtain key v where kv: "kv = (key, v)" by (cases kv)
  with single obtain m where m: "n = Suc m" "need v \<le> m" by (cases n) auto
  have "parse_value hook const m (encode k' v @ newline k @ CHR ''}'' # r)
      = Inr (v, newline k @ CHR ''}'' # r)"
    using single m kv by simp
  moreover have "skip_space (encode k' v @ t) = encode k' v @ t" "ascii key" for t
    using single kv by auto
  ultimately show ?case
    using parse_member_head(1) [of key "encode k' v @ newline k @ CHR ''}'' # r" hook const m v]
    by (simp add: kv m del: parse_members.simps)
next
  case (cons kv d)
  obtain key v where kv: "kv = (key, v)" by (cases kv)
  with cons obtain m where m: "n = Suc m" "need v \<le> m"
      "sum_list (map (\<lambda>(_, v). Suc (need v)) d) \<le> m"
    by (cases n) auto
  obtain y ys where d: "d = y # ys" using cons.hyps by (cases d) auto
  define t where "t = join_with ('','' @ newline k')
      (map (\<lambda>(key, v). encode_str key @ '': '' @ encode k' v) d) @ newline k @ CHR ''}'' # r"
  have IH: "parse_members hook const m t = Inr (d, r)"
    unfolding t_def
  proof (rule cons.IH)
    show "sum_list (map (\<lambda>(_, v). Suc (need v)) d) \<le> m" by (rule m(3))
  qed (use cons.prems(2,3) in \<open>meson list.set_intros(2)\<close>)+
  have "skip_space t = t"
    unfolding t_def d by (cases ys; cases y) simp_all
  with IH have more: "parse_members hook const m (skip_space (newline k' @ t)) = Inr (d, r)" by simp
  have "parse_value hook const m (encode k' v @ CHR '','' # newline k' @ t)
      = Inr (v, CHR '','' # newline k' @ t)"
    by (rule cons.prems(3) [of key]) (use m kv in simp_all)
  moreover have "skip_space (encode k' v @ u) = encode k' v @ u" "ascii key" for u
    using cons.prems(2) [of key v] kv by simp_all
  ultimately have "parse_members hook const n
      (encode_str key @ '': '' @ encode k' v @ CHR '','' # newline k' @ t) = Inr (kv # d, r)"
    using parse_member_head(2) [OF _ _ _ refl more] unfolding m(1) kv by blast
  then show ?case by (simp add: t_def kv d join_more del: join_with.simps)
qed

lemma parse_value_list:
  "parse_items hook const m s = Inr (xs, r) \<Longrightarrow> starts_value s \<Longrightarrow>
   parse_value hook const (Suc m) (CHR ''['' # newline k @ s) = Inr (JList xs, r)"
  using skip_space_value [of s "[]"] by (cases s) (simp_all add: starts_value_def)

lemma parse_value_object:
  "parse_members hook const m s = Inr (ps, r) \<Longrightarrow> starts_value s \<Longrightarrow> hook ps = Inr v \<Longrightarrow>
   parse_value hook const (Suc m) (CHR ''{'' # newline k @ s) = Inr (v, r)"
  using skip_space_value [of s "[]"] by (cases s) (simp_all add: starts_value_def)

lemma starts_value_append [simp]: "starts_value s \<Longrightarrow> starts_value (s @ t)"
  by (cases s) (simp_all add: starts_value_def)

lemma starts_value_join:
  "xs \<noteq> [] \<Longrightarrow> starts_value (hd xs) \<Longrightarrow> starts_value (join_with sep xs)"
  by (cases xs; cases "tl xs") simp_all

section \<open>Canonical order\<close>

text \<open>Sorting by key commutes with maps that keep the keys.\<close>

lemma insort_key_map:
  "insort_key fst (k, g v) (map (\<lambda>(k, v). (k, g v)) d)
     = map (\<lambda>(k, v). (k, g v)) (insort_key fst (k, v) d)"
  by (induction d) auto

lemma sort_key_map:
  "sort_key fst (map (\<lambda>(k, v). (k, g v)) d) = map (\<lambda>(k, v). (k, g v)) (sort_key fst d)"
  by (induction d) (auto simp: insort_key_map [symmetric])

lemma keys_sort_key: "map fst (sort_key fst d) = sort (map fst d)"
proof -
  have insert: "map fst (insort_key fst x d) = insort (fst x) (map fst d)" for x d
    by (induction d) auto
  show ?thesis by (induction d) (simp_all add: insert)
qed

lemma sum_list_sort_key: "sum_list (map h (sort_key g xs)) = sum_list (map h xs)"
  for h :: "'a \<Rightarrow> nat"
proof -
  have insert: "sum_list (map h (insort_key g x xs)) = h x + sum_list (map h xs)" for x xs
    by (induction xs) auto
  show ?thesis by (induction xs) (simp_all add: insert)
qed

lemma sorted_canon: "sorted_json (canon v)"
proof (induction v)
  case (JObj d)
  then show ?case by (auto simp: list_all_iff)
qed (auto simp: list_all_iff)

lemma canon_preserves:
  "wf_json (canon v) = wf_json v" "exact_floats (canon v) = exact_floats v"
  "ascii_json (canon v) = ascii_json v"
proof (induction v)
  case (JObj d)
  {
    case 1
    have "map fst (map (\<lambda>(k, v). (k, canon v)) d) = map fst d" by (induction d) auto
    then have "distinct (map fst (sort_key fst (map (\<lambda>(k, v). (k, canon v)) d))) \<longleftrightarrow> distinct (map fst d)"
      by (simp only: keys_sort_key distinct_sort)
    with JObj show ?case by (auto simp: list_all_iff)
  next
    case 2
    with JObj show ?case by (auto simp: list_all_iff)
  next
    case 3
    with JObj show ?case by (auto simp: list_all_iff)
  }
qed (auto simp: list_all_iff)

lemma encode_canon: "encode k (canon v) = encode k v"
proof (induction v arbitrary: k)
  case (JObj d)
  define e where "e = encode (Suc k)"
  have twice: "map (\<lambda>(k, v). (k, e v)) (map (\<lambda>(k, v). (k, canon v)) xs) = map (\<lambda>(k, v). (k, e (canon v))) xs"
    for xs :: "(string \<times> json) list"
    by (induction xs) auto
  have "sort_key fst (map (\<lambda>(k, v). (k, e v)) (sort_key fst (map (\<lambda>(k, v). (k, canon v)) d)))
      = sort_key fst (map (\<lambda>(k, v). (k, e (canon v))) (sort_key fst d))"
    by (simp only: sort_key_map twice)
  also have "\<dots> = map (\<lambda>(k, v). (k, e (canon v))) (sort_key fst d)"
    by (simp only: sort_key_map [of "\<lambda>v. e (canon v)"] sort_key_id_if_sorted sorted_sort_key)
  also have "\<dots> = map (\<lambda>(k, v). (k, e v)) (sort_key fst d)"
    using JObj by (auto simp: e_def)
  also have "\<dots> = sort_key fst (map (\<lambda>(k, v). (k, e v)) d)"
    by (simp only: sort_key_map)
  finally show ?case by (simp only: canon.simps encode.simps e_def)
next
  case (JList xs)
  then show ?case by (simp add: comp_def cong: map_cong)
qed simp_all

lemma length_join:
  "length (join_with sep ws) = sum_list (map length ws) + (length ws - 1) * length sep"
  by (induction sep ws rule: join_with.induct) auto

lemma length_bracket:
  "items \<noteq> [] \<Longrightarrow> sum_list (map length items) + 2 * length items \<le> length (bracket l r k items)"
  by (cases items) (auto simp: bracket_def length_join newline_def)

lemma sum_list_Suc: "sum_list (map (\<lambda>x. Suc (g x)) xs) = sum_list (map g xs) + length xs"
  by (induction xs) auto

lemma need_le_length: "exact_floats v \<Longrightarrow> need v \<le> length (encode k v)"
proof (induction v arbitrary: k)
  case (JInt i)
  then show ?case using starts_value_encode [of "JInt i" k] by (cases "show_int i") (auto simp: starts_value_def)
next
  case (JFloat x)
  then show ?case using float_head [of x] by auto
next
  case (JList xs)
  have "sum_list (map need xs) \<le> sum_list (map length (map (encode (Suc k)) xs))"
    using JList by (auto simp: comp_def list_all_iff intro!: sum_list_mono)
  then have "need (JList xs) \<le> length (encode k (JList xs))" if "xs \<noteq> []"
  proof -
    have "1 \<le> length xs" using that by (cases xs) simp_all
    then show ?thesis
      using \<open>sum_list (map need xs) \<le> _\<close> that
        length_bracket [of "map (encode (Suc k)) xs" "CHR ''[''" "CHR '']''" k]
      by (simp add: sum_list_Suc)
  qed
  then show ?case by (cases "xs = []") (simp_all add: bracket_def)
next
  case (JObj d)
  let ?items = "map (\<lambda>(key, t). encode_str key @ '': '' @ t)
    (sort_key fst (map (\<lambda>(key, v). (key, encode (Suc k) v)) d))"
  have "sum_list (map (\<lambda>(_, v). need v) d) \<le> sum_list (map (\<lambda>(_, v). length (encode (Suc k) v)) d)"
    using JObj by (auto simp: list_all_iff intro!: sum_list_mono)
  also have "\<dots> = sum_list (map (\<lambda>(_, t). length t) (map (\<lambda>(key, v). (key, encode (Suc k) v)) d))"
    by (simp add: comp_def split_def)
  also have "\<dots> = sum_list (map (\<lambda>(_, t). length t) (sort_key fst (map (\<lambda>(key, v). (key, encode (Suc k) v)) d)))"
    by (simp only: sum_list_sort_key)
  also have "\<dots> \<le> sum_list (map length ?items)"
    by (auto simp: comp_def split_def intro!: sum_list_mono)
  finally have texts: "sum_list (map (\<lambda>(_, v). need v) d) \<le> sum_list (map length ?items)" .
  have sucs: "sum_list (map (\<lambda>(_, v). Suc (need v)) d) = sum_list (map (\<lambda>(_, v). need v) d) + length d"
    by (induction d) auto
  have "need (JObj d) \<le> length (encode k (JObj d))" if "d \<noteq> []"
  proof -
    have "1 \<le> length d" using that by (cases d) simp_all
    moreover have "length ?items = length d" by simp
    with that have "?items \<noteq> []" by (metis length_0_conv)
    note length_bracket [OF this, of "CHR ''{''" "CHR ''}''" k]
    ultimately show ?thesis using texts sucs by simp
  qed
  then show ?case by (cases "d = []") (simp_all add: bracket_def)
qed (auto simp: encode_str_def)

text \<open>The text is ASCII, hence valid UTF-8.\<close>

lemma ascii_append [simp]: "ascii (s @ t) \<longleftrightarrow> ascii s \<and> ascii t"
  by (simp add: ascii_def)

lemma ascii_join: "ascii sep \<Longrightarrow> (\<And>w. w \<in> set ws \<Longrightarrow> ascii w) \<Longrightarrow> ascii (join_with sep ws)"
  by (induction sep ws rule: join_with.induct) auto

lemma hex_digit_ascii: "0 \<le> n \<Longrightarrow> n < 16 \<Longrightarrow> code (hex_digit (nat n)) < 128"
  using hex_digit_value(2) [of n] by (auto simp: is_any_hex_def is_lower_hex_def is_digit_def)

lemma ascii_u_escape: "ascii (u_escape n)"
  by (simp add: u_escape_def hex_digit_ascii)

lemma ascii_escape_text: "ascii s \<Longrightarrow> ascii (escape s)"
  by (induction s) (auto simp: ascii_escape_def ascii_u_escape)

lemma digit_ascii: "is_digit c \<Longrightarrow> code c < 128"
  by (simp add: is_digit_def)

lemma ascii_show_int: "ascii (show_int i)"
  using show_digits_digits [of i] show_digits_digits [of "- i"]
  by (auto simp: show_int_def ascii_def list_all_iff dest!: digit_ascii [rotated] intro: digit_ascii)

lemma ascii_newline [simp]: "ascii (newline k)"
  by (simp add: newline_def ascii_def list_all_iff)

lemma ascii_bracket: "code l < 128 \<Longrightarrow> code r < 128 \<Longrightarrow> (\<And>w. w \<in> set ws \<Longrightarrow> ascii w) \<Longrightarrow>
   ascii (bracket l r k ws)"
  by (auto simp: bracket_def intro!: ascii_join)

lemma ascii_encode: "ascii_json v \<Longrightarrow> exact_floats v \<Longrightarrow> ascii (encode k v)"
proof (induction v arbitrary: k)
  case (JObj d)
  have "ascii key \<and> ascii (encode (Suc k) w)" if "(key, w) \<in> set d" for key w
  proof -
    from JObj.prems that have "ascii key" "ascii_json w" "exact_floats w"
      by (auto simp: list_all_iff)
    with JObj.IH [OF that] show ?thesis by simp
  qed
  then show ?case by (auto simp: encode_str_def ascii_escape_text intro!: ascii_bracket)
next
  case (JList xs)
  then show ?case by (auto simp: list_all_iff intro!: ascii_bracket)
next
  case (JFloat x)
  then show ?case by (simp add: reads_back_def)
qed (auto simp: encode_str_def ascii_escape_text ascii_show_int)

lemma ascii_valid_utf8: "ascii s \<Longrightarrow> valid_utf8 s"
  by (induction s) auto

section \<open>The hooks\<close>

text \<open>
  What the modules that call \<open>json.loads\<close> supply. The parser's lemmas are proved for every such
  pair of hooks; the components interpret the locales on their own hooks.
\<close>

locale object_hook =
  fixes hook :: pairs_hook and const :: constant_hook
  assumes keeps_distinct: "distinct (map fst ps) \<Longrightarrow> hook ps = Inr (JObj ps)"
    and builds_wf: "hook ps = Inr v \<Longrightarrow> (\<And>k w. (k, w) \<in> set ps \<Longrightarrow> wf_json w) \<Longrightarrow> wf_json v"
    and const_wf: "const w = Inr v \<Longrightarrow> wf_json v"
begin

lemma parse_encode:
  "wf_json v \<Longrightarrow> exact_floats v \<Longrightarrow> ascii_json v \<Longrightarrow> sorted_json v \<Longrightarrow> need v \<le> n \<Longrightarrow> delimited r \<Longrightarrow>
   parse_value hook const n (encode k v @ r) = Inr (v, r)"
proof (induction v arbitrary: k n r)
  case JNull
  then show ?case by (cases n) (simp_all add: scan_literal_def literals_def starts_with_def)
next
  case (JBool b)
  then show ?case
    by (cases n; cases b) (simp_all add: scan_literal_def literals_def starts_with_def)
next
  case (JInt i)
  then show ?case by (cases n) (simp_all add: parse_int del: parse_value.simps)
next
  case (JFloat x)
  then show ?case by (cases n) (simp_all add: parse_float del: parse_value.simps)
next
  case (JStr s)
  then show ?case by (cases n) (simp_all add: parse_str del: parse_value.simps)
next
  case (JList xs)
  then obtain m where n: "n = Suc m" by (cases n) simp_all
  show ?case
  proof (cases "xs = []")
    case True
    then show ?thesis by (simp add: n bracket_def)
  next
    case False
    let ?t = "join_with ('','' @ newline (Suc k)) (map (encode (Suc k)) xs)"
    have "parse_items hook const m (?t @ newline k @ CHR '']'' # r) = Inr (xs, r)"
      by (rule parse_list [OF False])
        (use JList n in \<open>auto simp: list_all_iff intro!: starts_value_encode\<close>)
    moreover have "starts_value (?t @ newline k @ CHR '']'' # r)"
      using False JList.prems(2) by (cases xs) (simp_all add: starts_value_join starts_value_encode)
    ultimately have "parse_value hook const n
        (CHR ''['' # newline (Suc k) @ ?t @ newline k @ CHR '']'' # r) = Inr (JList xs, r)"
      unfolding n by (rule parse_value_list)
    with False show ?thesis by (simp add: bracket_def del: parse_value.simps)
  qed
next
  case (JObj d)
  then obtain m where n: "n = Suc m" by (cases n) simp_all
  have hook: "hook d = Inr (JObj d)" using JObj.prems(1) by (simp add: keeps_distinct)
  have enc: "encode k (JObj d) = bracket (CHR ''{'') (CHR ''}'') k
      (map (\<lambda>(key, v). encode_str key @ '': '' @ encode (Suc k) v) d)"
    using JObj.prems(4)
    by (simp add: sort_key_id_if_sorted comp_def split_def)
  show ?case
  proof (cases "d = []")
    case True
    with hook show ?thesis by (simp add: n bracket_def)
  next
    case False
    let ?t = "join_with ('','' @ newline (Suc k))
      (map (\<lambda>(key, v). encode_str key @ '': '' @ encode (Suc k) v) d)"
    have "parse_members hook const m (?t @ newline k @ CHR ''}'' # r) = Inr (d, r)"
    proof (rule parse_object [OF False])
      show "sum_list (map (\<lambda>(_, v). Suc (need v)) d) \<le> m" using JObj.prems(5) n by simp
      show "ascii key \<and> starts_value (encode (Suc k) v)" if "(key, v) \<in> set d" for key v
        using that JObj.prems(2,3) by (auto simp: list_all_iff intro!: starts_value_encode)
      show "parse_value hook const n' (encode (Suc k) v @ r') = Inr (v, r')"
        if "(key, v) \<in> set d" "need v \<le> n'" "delimited r'" for key v n' r'
        using JObj.IH [OF that(1)] that JObj.prems(1-4) by (fastforce simp: list_all_iff)
    qed
    moreover have "starts_value (?t @ newline k @ CHR ''}'' # r)"
      using False by (cases d) (auto simp: starts_value_join split_def)
    ultimately have "parse_value hook const n
        (CHR ''{'' # newline (Suc k) @ ?t @ newline k @ CHR ''}'' # r) = Inr (JObj d, r)"
      unfolding n by (rule parse_value_object) (rule hook)
    with False show ?thesis by (simp add: enc bracket_def del: parse_value.simps encode.simps)
  qed
qed

lemma loads_encode_sorted:
  assumes "wf_json v" "exact_floats v" "ascii_json v" "sorted_json v"
  shows "loads hook const (encode 0 v @ [CHR 0x0A]) = Inr v"
proof -
  let ?t = "encode 0 v @ [CHR 0x0A]"
  have "skip_space ?t = ?t"
    using starts_value_encode [OF assms(2), of 0] by (rule skip_space_value)
  moreover have "parse_value hook const (2 * length ?t + 2) ?t = Inr (v, [CHR 0x0A])"
    using assms need_le_length [of v 0]
    by (intro parse_encode) (simp_all add: delimited_def)
  ultimately show ?thesis
    by (simp add: loads_def Let_def skip_space_def json_space_def del: parse_value.simps)
qed

text \<open>The round trip: what \<open>dumps\<close> writes is read back, with the keys in order.\<close>

lemma loads_dumps:
  assumes "plain_json v" and "dumps v = Inr t"
  shows "loads hook const (t @ [CHR 0x0A]) = Inr (canon v)"
proof -
  from assms(2) have "t = encode 0 v" by (simp add: dumps_def split: if_splits)
  with assms(1) show ?thesis
    using loads_encode_sorted [of "canon v"]
    by (simp add: plain_json_def canon_preserves sorted_canon encode_canon)
qed

text \<open>Everything the parser returns is well-formed: the keys of every object are distinct.\<close>

lemma number_tail_wf: "number_tail neg ds s = Inr (v, r) \<Longrightarrow> wf_json v"
  by (auto simp: number_tail_def Let_def split: prod.splits if_splits)

lemma scan_number_wf: "scan_number neg s = Inr (v, r) \<Longrightarrow> wf_json v"
  by (auto simp: scan_number_def json_error_def split: list.splits if_splits dest: number_tail_wf)

lemma scan_literal_wf: "scan_literal const s = Some (Inr (v, r)) \<Longrightarrow> wf_json v"
  by (auto simp: scan_literal_def literals_def split: option.splits if_splits dest: const_wf)

lemma parse_wf:
  "parse_value hook const n s = Inr (v, r) \<Longrightarrow> wf_json v"
  "parse_items hook const n s = Inr (vs, r) \<Longrightarrow> list_all wf_json vs"
  "parse_members hook const n s = Inr (ps, r) \<Longrightarrow> list_all (\<lambda>(_, w). wf_json w) ps"
proof (induction n arbitrary: s v vs ps r)
  case (Suc n)
  {
    case 1
    show ?case
    proof (cases s)
      case Nil
      with 1 show ?thesis by (simp add: json_error_def)
    next
      case (Cons c t)
      have obj: "wf_json w" if "hook ps = Inr w" "list_all (\<lambda>(_, x). wf_json x) ps" for ps w
        using builds_wf [OF that(1)] that(2) by (auto simp: list_all_iff)
      from 1 show ?thesis
        unfolding Cons
        by (auto simp: json_error_def Let_def split: if_splits list.splits option.splits
            dest: Suc.IH(2) Suc.IH(3) intro: obj scan_number_wf scan_literal_wf)
    qed
  next
    case 2
    then obtain w r0 where item: "parse_value hook const n s = Inr (w, r0)"
      and tail: "(case skip_space r0 of
          [] \<Rightarrow> json_error
        | d # r' \<Rightarrow>
            if d = CHR '']'' then Inr ([w], r')
            else if d = CHR '','' then
              bind_result (parse_items hook const n (skip_space r')) (\<lambda>(vs, r''). Inr (w # vs, r''))
            else json_error) = Inr (vs, r)"
      unfolding parse_items.simps(2) bind_result_Inr_iff split_paired_Ex prod.case by blast
    have "wf_json w" using item by (rule Suc.IH(1))
    with tail show ?case
      by (auto simp: json_error_def split: if_splits list.splits dest: Suc.IH(2))
  next
    case 3
    then obtain key s3 w r0 where item: "parse_value hook const n (skip_space s3) = Inr (w, r0)"
      and tail: "(case skip_space r0 of
          [] \<Rightarrow> json_error
        | d # r' \<Rightarrow>
            if d = CHR ''}'' then Inr ([(key, w)], r')
            else if d = CHR '','' then
              bind_result (parse_members hook const n (skip_space r'))
                (\<lambda>(ps, r''). Inr ((key, w) # ps, r''))
            else json_error) = Inr (ps, r)"
      unfolding parse_members.simps(2) bind_result_Inr_iff split_paired_Ex prod.case by blast
    have "wf_json w" using item by (rule Suc.IH(1))
    with tail show ?case
      by (auto simp: json_error_def split: if_splits list.splits dest: Suc.IH(3))
  }
qed (simp_all add: json_error_def)

lemma loads_wf: "loads hook const s = Inr v \<Longrightarrow> wf_json v"
  by (auto simp: loads_def Let_def json_error_def simp del: parse_value.simps split: if_splits
      dest: parse_wf(1))

end

text \<open>The strict hooks refuse duplicate keys and the non-finite constants.\<close>

locale strict_hook = object_hook +
  assumes refuses_duplicates: "\<not> distinct (map fst ps) \<Longrightarrow> \<exists>m. hook ps = Inl (ValueError m)"
    and refuses_constants: "\<exists>m. const w = Inl (ValueError m)"
begin

lemma hook_Inr_iff: "hook ps = Inr v \<longleftrightarrow> distinct (map fst ps) \<and> v = JObj ps"
  using keeps_distinct [of ps] refuses_duplicates [of ps] by (cases "distinct (map fst ps)") auto

end

lemma insert_pairs_distinct:
  "distinct (map fst (acc @ ps)) \<Longrightarrow> insert_pairs msg ps acc = Inr (JObj (acc @ ps))"
  by (induction ps arbitrary: acc) auto

lemma insert_pairs_duplicate:
  "distinct (map fst acc) \<Longrightarrow> \<not> distinct (map fst (acc @ ps)) \<Longrightarrow>
   \<exists>m. insert_pairs msg ps acc = Inl (ValueError m)"
proof (induction ps arbitrary: acc)
  case (Cons p ps)
  obtain k v where p: "p = (k, v)" by (cases p)
  show ?case
  proof (cases "k \<in> fst ` set acc")
    case False
    then have "distinct (map fst (acc @ [(k, v)]))" using Cons.prems by simp
    moreover have "\<not> distinct (map fst ((acc @ [(k, v)]) @ ps))" using Cons.prems p by simp
    ultimately show ?thesis using Cons.IH [of "acc @ [(k, v)]"] False p by simp
  qed (simp add: p)
qed simp

interpretation distinct_dict: strict_hook "distinct_dict msg" "reject_constant msg'"
proof
  fix ps :: "(string \<times> json) list"
  show "distinct (map fst ps) \<Longrightarrow> distinct_dict msg ps = Inr (JObj ps)"
    using insert_pairs_distinct [of "[]" ps] by (simp add: distinct_dict_def)
  show dup: "\<not> distinct (map fst ps) \<Longrightarrow> \<exists>m. distinct_dict msg ps = Inl (ValueError m)"
    using insert_pairs_duplicate [of "[]" ps] by (simp add: distinct_dict_def)
  show "wf_json v" if "distinct_dict msg ps = Inr v" "\<And>k w. (k, w) \<in> set ps \<Longrightarrow> wf_json w" for v
  proof (cases "distinct (map fst ps)")
    case True
    with that insert_pairs_distinct [of "[]" ps] show ?thesis
      by (auto simp: distinct_dict_def list_all_iff)
  next
    case False
    with dup that show ?thesis by fastforce
  qed
qed (simp_all add: reject_constant_def)

section \<open>Fields of the canonical form\<close>

lemma map_of_sort_key: "distinct (map fst d) \<Longrightarrow> map_of (sort_key fst d) = map_of d"
  using map_of_inject_set [of "sort_key fst d" d] by (simp add: keys_sort_key)

lemma field_canon: "wf_json v \<Longrightarrow> field k (canon v) = canon (field k v)"
proof (cases v)
  case (JObj d)
  assume "wf_json v"
  with JObj have dist: "distinct (map fst d)" by simp
  have keys: "map fst (map (\<lambda>(k, v). (k, canon v)) d) = map fst d" by (induction d) auto
  have "map_of (sort_key fst (map (\<lambda>(k, v). (k, canon v)) d)) = map_of (map (\<lambda>(k, v). (k, canon v)) d)"
    by (rule map_of_sort_key) (simp only: keys dist)
  moreover have "map_of (map (\<lambda>(k, v). (k, canon v)) d) k = map_option canon (map_of d k)"
    by (induction d) auto
  ultimately show ?thesis using JObj by (cases "map_of d k") simp_all
qed (simp_all add: field_def)

lemma is_str_canon [simp]: "is_str (canon v) = is_str v"
  by (cases v) simp_all

lemma is_obj_canon [simp]: "is_obj (canon v) = is_obj v"
  by (cases v) simp_all

lemma canon_eq_scalar [simp]:
  "canon v = JInt i \<longleftrightarrow> v = JInt i" "canon v = JStr s \<longleftrightarrow> v = JStr s"
  "canon v = JList [] \<longleftrightarrow> v = JList []"
  by (cases v; simp)+

lemma str_of_canon [simp]: "str_of (canon v) = str_of v"
  by (cases v) simp_all

lemma wf_field: "wf_json v \<Longrightarrow> wf_json (field k v)"
  by (cases v) (auto simp: field_def list_all_iff split: option.splits dest!: map_of_SomeD)

lemma is_bool_canon [simp]: "is_bool (canon v) = is_bool v"
  by (cases v) simp_all

lemma canon_JBool [simp]: "canon v = JBool b \<longleftrightarrow> v = JBool b"
  by (cases v) simp_all

end
