(* ===== verification/DeploymentFacts.thy ===== *)
theory DeploymentFacts
  imports ParserDeployment WorkerDeployment JsonRoundtrip
begin

text \<open>
  Deploying twice: every edit of an engine source finds its own result, so that a second run changes nothing.
  An edit keeps a text that was inserted before it, because no anchor overlaps with one.
\<close>

section \<open>Replacing\<close>

lemma contains_start: "starts_with p s \<Longrightarrow> contains_text p s"
  by (cases s) (auto simp: starts_with_def)

lemma count_contains: "0 < count_text p t \<Longrightarrow> contains_text p t"
  by (induction p t rule: count_text.induct) (auto split: if_splits)

lemma replace_first_contains: "contains_text p t \<Longrightarrow> p \<noteq> [] \<Longrightarrow> contains_text r (replace_first p r t)"
  by (induction t) (auto simp: contains_start)

lemma replace_absent: "count_text p t = 0 \<Longrightarrow> replace_text p r t = t"
  by (induction p r t rule: replace_text.induct) (auto split: if_splits)

lemma replace_single: "count_text p t = 1 \<Longrightarrow> p \<noteq> [] \<Longrightarrow> replace_text p r t = replace_first p r t"
  by (induction p r t rule: replace_text.induct) (auto simp: replace_absent split: if_splits)

section \<open>Texts that do not overlap\<close>

fun compat :: "string \<Rightarrow> string \<Rightarrow> bool" where
  "compat (c # s) (d # q) = (c = d \<and> compat s q)"
| "compat _ _ = True"

text \<open>\<open>p\<close> does not begin inside \<open>a\<close>, even if it goes on after its end.\<close>

fun no_start :: "string \<Rightarrow> string \<Rightarrow> bool" where
  "no_start p [] = True"
| "no_start p (c # a) = (\<not> compat (c # a) p \<and> no_start p a)"

definition apart :: "string \<Rightarrow> string \<Rightarrow> bool" where
  "apart p a \<longleftrightarrow> no_start p a \<and> no_start a (tl p)"

lemma starts_compat: "starts_with a t \<Longrightarrow> starts_with p t \<Longrightarrow> compat a p"
proof (induction a p arbitrary: t rule: compat.induct)
  case (1 c s d q)
  then show ?case by (cases t) (auto simp: starts_with_def)
qed simp_all

lemma start_kept: "no_start p a \<Longrightarrow> starts_with a t \<Longrightarrow> starts_with a (replace_first p r t)"
proof (induction a arbitrary: t)
  case (Cons c a)
  then obtain s where t: "t = c # s" "starts_with a s" by (cases t) (auto simp: starts_with_def)
  have "\<not> starts_with p t" using Cons.prems starts_compat [of "c # a" t p] by auto
  with t Cons show ?case by (auto simp: starts_with_def)
qed (simp add: starts_with_def)

lemma contains_after: "no_start a q \<Longrightarrow> starts_with q t \<Longrightarrow> contains_text a t \<Longrightarrow> contains_text a (drop (length q) t)"
proof (induction q arbitrary: t)
  case (Cons c q)
  then obtain s where t: "t = c # s" "starts_with q s" by (cases t) (auto simp: starts_with_def)
  have "\<not> starts_with a t" using Cons.prems starts_compat [of "c # q" t a] by auto
  with t Cons show ?case by auto
qed simp

lemma contains_append: "contains_text a s \<Longrightarrow> contains_text a (r @ s)"
  by (induction r) auto

lemma text_kept:
  assumes "apart p a" and "a \<noteq> []" and "p \<noteq> []"
  shows "contains_text a t \<Longrightarrow> contains_text a (replace_first p r t)"
proof (induction t)
  case (Cons c t)
  show ?case
  proof (cases "starts_with p (c # t)")
    case True
    then have "\<not> starts_with a (c # t)"
      using assms starts_compat [of a "c # t" p] by (cases a) (auto simp: apart_def)
    then have "contains_text a t" using Cons.prems by simp
    moreover have "starts_with (tl p) t" using True by (cases p) (auto simp: starts_with_def)
    ultimately have "contains_text a (drop (length (tl p)) t)"
      using contains_after [of a "tl p" t] assms(1) by (simp add: apart_def)
    then have "contains_text a (drop (length p) (c # t))" using assms(3) by (cases p) auto
    with True show ?thesis by (simp add: contains_append)
  next
    case False
    show ?thesis
    proof (cases "starts_with a (c # t)")
      case True
      then have "starts_with a (replace_first p r (c # t))" using start_kept [of p a "c # t" r] assms(1) unfolding apart_def by blast
      then show ?thesis by (rule contains_start)
    next
      case a: False
      with Cons False show ?thesis by simp
    qed
  qed
qed (use assms in simp)

section \<open>UTF-8\<close>

lemma ascii_bits [code]: "ascii s \<longleftrightarrow> list_all (\<lambda>c. \<not> digit7 c) s"
proof -
  have "code c < 128 \<longleftrightarrow> \<not> digit7 c" for c
    by (cases c) (auto simp: code_def)
  then show ?thesis by (simp add: ascii_def)
qed

lemma ascii_drop: "ascii s \<Longrightarrow> ascii (drop n s)"
  unfolding ascii_def by (metis append_take_drop_id list_all_append)

lemma replace_text_ascii: "ascii t \<Longrightarrow> ascii r \<Longrightarrow> ascii (replace_text p r t)"
proof (induction p r t rule: replace_text.induct)
  case (2 p r c s)
  then show ?case using ascii_drop [of "c # s" "length p"] by (auto simp del: drop_Suc_Cons)
qed simp

lemma valid_append: "valid_utf8 x \<Longrightarrow> valid_utf8 (x @ y) = valid_utf8 y"
proof (induction x rule: valid_utf8.induct)
  case (2 a s)
  show ?case
  proof (cases "code a < 128")
    case True
    with 2 show ?thesis by simp
  next
    case high: False
    with 2(5) obtain b s1 where s: "s = b # s1" by (cases s) auto
    show ?thesis
    proof (cases "194 \<le> code a \<and> code a < 224")
      case True
      with 2 high s show ?thesis by simp
    next
      case three: False
      with 2(5) high s obtain c s2 where s1: "s1 = c # s2" by (cases s1) auto
      show ?thesis
      proof (cases "224 \<le> code a \<and> code a < 240")
        case True
        with 2 high three s s1 show ?thesis by simp
      next
        case False
        with 2(5) high three s s1 obtain d s3 where "s2 = d # s3" by (cases s2) auto
        with 2 high three False s s1 show ?thesis by simp
      qed
    qed
  qed
qed simp

lemma replace_first_high: "p \<noteq> [] \<Longrightarrow> ascii p \<Longrightarrow> \<not> code c < 128 \<Longrightarrow> replace_first p r (c # t) = c # replace_first p r t"
  by (cases p) (auto simp: starts_with_def)

lemma continuation_high: "continuation c \<Longrightarrow> \<not> code c < 128"
  by (simp add: continuation_def)

lemma replace_first_valid:
  assumes "p \<noteq> []" and "ascii p" and "ascii r"
  shows "valid_utf8 t \<Longrightarrow> valid_utf8 (replace_first p r t)"
proof (induction t rule: valid_utf8.induct)
  case (2 a s)
  note high_rule = replace_first_high [OF assms(1,2)]
  show ?case
  proof (cases "code a < 128")
    case True
    show ?thesis
    proof (cases "starts_with p (a # s)")
      case True
      then obtain y where y: "a # s = p @ y" by (auto simp: starts_with_iff)
      then have "valid_utf8 y" using 2(5) valid_append [OF ascii_valid_utf8 [OF assms(2)], of y] by simp
      moreover have "replace_first p r (a # s) = r @ drop (length p) (a # s)" using True by simp
      moreover have "drop (length p) (a # s) = y" unfolding y by simp
      ultimately show ?thesis using valid_append [OF ascii_valid_utf8 [OF assms(3)], of y] by simp
    next
      case False
      with True 2 show ?thesis by simp
    qed
  next
    case high: False
    with 2(5) obtain b s1 where s: "s = b # s1" by (cases s) auto
    show ?thesis
    proof (cases "194 \<le> code a \<and> code a < 224")
      case True
      with 2 high s show ?thesis by (simp add: high_rule continuation_high del: replace_first.simps(2))
    next
      case three: False
      with 2(5) high s obtain c s2 where s1: "s1 = c # s2" by (cases s1) auto
      show ?thesis
      proof (cases "224 \<le> code a \<and> code a < 240")
        case True
        with 2 high three s s1 show ?thesis by (simp add: high_rule continuation_high del: replace_first.simps(2))
      next
        case False
        with 2(5) high three s s1 obtain d s3 where "s2 = d # s3" by (cases s2) auto
        with 2 high three False s s1 show ?thesis
          by (simp add: high_rule continuation_high del: replace_first.simps(2))
      qed
    qed
  qed
qed simp

section \<open>Replaying an edit\<close>

text \<open>An edit of a source, as \<open>text_edit\<close> applies it, finds its own result.\<close>

definition replayed :: "(string \<Rightarrow> string result) \<Rightarrow> bool" where
  "replayed change \<longleftrightarrow>
     (\<forall>raw. case bind_result (decode_utf8 raw) change of
        Inr u \<Rightarrow> bind_result (decode_utf8 u) change = Inr u
      | Inl e \<Rightarrow> True)"

lemma replayed_intro:
  assumes "\<And>t u. change t = Inr u \<Longrightarrow> change u = Inr u"
    and "\<And>t u. change t = Inr u \<Longrightarrow> valid_utf8 t \<Longrightarrow> valid_utf8 u"
  shows "replayed change"
  using assms by (auto simp: replayed_def decode_utf8_def split: sum.split if_splits)

lemma guard_replayed: "replayed (guard_source msg)"
proof (rule replayed_intro)
  fix t u assume "guard_source msg t = Inr u"
  then have "u = t \<and> guarded_source t \<or> u = guard_begin @ t @ guard_end"
    by (auto simp: guard_source_def split: if_splits)
  moreover have "guarded_source (guard_begin @ t @ guard_end)"
    by (simp add: guarded_source_def ends_with_def starts_with_iff)
  moreover have "ascii guard_begin" "ascii guard_end" by code_simp+
  ultimately show "guard_source msg u = Inr u" "valid_utf8 t \<Longrightarrow> valid_utf8 u"
    using valid_append [OF ascii_valid_utf8 [of guard_begin]] valid_append [of t guard_end] ascii_valid_utf8 [of guard_end]
    by (auto simp: guard_source_def)
qed

lemma rule_ascii: "ascii rule_marker" "ascii rule_insert" "rule_marker \<noteq> []"
  by code_simp+

lemma add_rule_cases:
  assumes "add_rule t = Inr u"
  shows "contains_text rule_insert u \<and> (u = t \<or> u = replace_first rule_marker (rule_insert @ rule_marker) t)"
proof (cases "contains_text rule_insert t")
  case True
  with assms show ?thesis by (simp add: add_rule_def)
next
  case False
  with assms have n: "count_text rule_marker t = 1" and u: "u = replace_text rule_marker (rule_insert @ rule_marker) t"
    by (auto simp: add_rule_def)
  have u': "u = replace_first rule_marker (rule_insert @ rule_marker) t"
    using replace_single [OF n rule_ascii(3)] u by simp
  have "contains_text (rule_insert @ rule_marker) u"
    unfolding u' by (rule replace_first_contains) (use n rule_ascii(3) in \<open>simp_all add: count_contains\<close>)
  then have "contains_text rule_insert u" unfolding contains_text_iff by (metis append_assoc)
  with u' show ?thesis by blast
qed

lemma rule_replayed: "replayed add_rule"
proof (rule replayed_intro)
  fix t u assume "add_rule t = Inr u"
  note u = add_rule_cases [OF this]
  show "add_rule u = Inr u" using u by (simp add: add_rule_def)
  have "ascii (rule_insert @ rule_marker)" using rule_ascii by (simp add: ascii_def)
  then show "valid_utf8 t \<Longrightarrow> valid_utf8 u" using u replace_first_valid [OF rule_ascii(3) rule_ascii(1)] by auto
qed

lemma replace_once_cases:
  assumes "replace_once anchor new t = Inr u" and "anchor \<noteq> []"
  shows "contains_text new u \<and> (u = t \<or> u = replace_first anchor new t)"
  using assms by (auto simp: replace_once_def replace_first_contains count_contains split: if_splits)

lemma replace_once_valid:
  "replace_once anchor new t = Inr u \<Longrightarrow> anchor \<noteq> [] \<Longrightarrow> ascii anchor \<Longrightarrow> ascii new \<Longrightarrow> valid_utf8 t \<Longrightarrow> valid_utf8 u"
  using replace_once_cases [of anchor new t u] replace_first_valid [of anchor new t] by blast

lemma replace_once_keeps:
  "replace_once anchor new t = Inr u \<Longrightarrow> anchor \<noteq> [] \<Longrightarrow> apart anchor a \<Longrightarrow> a \<noteq> [] \<Longrightarrow> contains_text a t \<Longrightarrow> contains_text a u"
  using replace_once_cases [of anchor new t u] text_kept [of anchor a t new] by auto

lemma replace_once_again: "contains_text new u \<Longrightarrow> replace_once anchor new u = Inr u"
  by (simp add: replace_once_def)

lemma worker_ascii:
  "ascii module_anchor" "ascii version_anchor" "ascii run_anchor" "ascii init_anchor"
  "ascii module_text" "ascii version_text" "ascii run_text" "ascii init_text"
  "ascii worker_marker"
  by code_simp+

lemma worker_insert_ascii: "ascii worker_insert"
proof -
  have "ascii (tabs 2)" by code_simp
  then show ?thesis unfolding worker_insert_def by (rule replace_text_ascii [OF rule_ascii(2)])
qed

lemma worker_nonempty:
  "module_anchor \<noteq> []" "version_anchor \<noteq> []" "run_anchor \<noteq> []" "init_anchor \<noteq> []"
  "module_text \<noteq> []" "version_text \<noteq> []" "run_text \<noteq> []" "worker_marker \<noteq> []"
  by code_simp+

lemma worker_apart:
  "apart version_anchor module_text" "apart run_anchor module_text" "apart init_anchor module_text"
  "apart run_anchor version_text" "apart init_anchor version_text" "apart init_anchor run_text"
  by code_simp+

lemma once_replayed: "anchor \<noteq> [] \<Longrightarrow> ascii anchor \<Longrightarrow> ascii new \<Longrightarrow> replayed (replace_once anchor new)"
  by (rule replayed_intro) (use replace_once_cases replace_once_again replace_once_valid in blast)+

lemma program_replayed: "replayed worker_program"
proof (rule replayed_intro)
  fix t u assume "worker_program t = Inr u"
  then obtain t1 t2 t3 where steps: "replace_once module_anchor module_text t = Inr t1"
      "replace_once version_anchor version_text t1 = Inr t2" "replace_once run_anchor run_text t2 = Inr t3"
      "replace_once init_anchor init_text t3 = Inr u"
    by (auto simp: worker_program_def)
  note keeps = replace_once_keeps [OF steps(2) worker_nonempty(2)] replace_once_keeps [OF steps(3) worker_nonempty(3)]
    replace_once_keeps [OF steps(4) worker_nonempty(4)]
  have "contains_text module_text t1" "contains_text version_text t2" "contains_text run_text t3" "contains_text init_text u"
    using steps replace_once_cases worker_nonempty by blast+
  then have "contains_text module_text u" "contains_text version_text u" "contains_text run_text u" "contains_text init_text u"
    using keeps worker_apart worker_nonempty by blast+
  then show "worker_program u = Inr u" by (simp add: worker_program_def replace_once_again)
  assume "valid_utf8 t"
  then have "valid_utf8 t1" by (rule replace_once_valid [OF steps(1) worker_nonempty(1) worker_ascii(1,5)])
  then have "valid_utf8 t2" by (rule replace_once_valid [OF steps(2) worker_nonempty(2) worker_ascii(2,6)])
  then have "valid_utf8 t3" by (rule replace_once_valid [OF steps(3) worker_nonempty(3) worker_ascii(3,7)])
  then show "valid_utf8 u" by (rule replace_once_valid [OF steps(4) worker_nonempty(4) worker_ascii(4,8)])
qed

section \<open>Property\<close>

text \<open>C26: deploying again changes nothing: every edit of an engine source that succeeds, on any text, finds its
  own result and returns it as it is. This holds of the guard around the SDK sources, of the build rule of the
  parser, and of all three edits of the Worker, whose program file takes four insertions in a row.\<close>

theorem redeploying_changes_nothing:
  "replayed (guard_source msg) \<and> replayed add_rule \<and> list_all (\<lambda>(name, change). replayed change) worker_edits"
proof -
  have "ascii (worker_insert @ worker_marker)" using worker_insert_ascii worker_ascii(9) by simp
  from once_replayed [OF worker_nonempty(8) worker_ascii(9) this] show ?thesis
    by (simp add: worker_edits_def guard_replayed rule_replayed program_replayed)
qed

end
