(* ===== verification/DeviceCompare.thy ===== *)
theory DeviceCompare
  imports DeviceSnapshot JsonForms
begin

text \<open>
  \<open>compare_vulkan_device_state.py\<close>: whether a Vulkan device, as \<open>vulkaninfo\<close> describes it, offers what
  the engine's captured device uses. An offered feature is one whose flag is 1; a missing or odd flag
  leaves the requirement unverified.
\<close>

text \<open>The missing and the unverified requirements found so far.\<close>

record gaps =
  gap_missing :: "string list"
  gap_unverified :: "string list"

definition flag_value :: "json \<Rightarrow> bool option" where
  "flag_value v =
     (case v of
        JBool b \<Rightarrow> Some b
      | JInt i \<Rightarrow> if i = 0 then Some False else if i = 1 then Some True else None
      | _ \<Rightarrow> None)"

definition check_flag :: "json \<Rightarrow> string \<Rightarrow> string \<Rightarrow> gaps \<Rightarrow> gaps" where
  "check_flag values key label g =
     (case flag_value (field key values) of
        None \<Rightarrow> g\<lparr>gap_unverified := gap_unverified g @ [label]\<rparr>
      | Some False \<Rightarrow> g\<lparr>gap_missing := gap_missing g @ [label]\<rparr>
      | Some True \<Rightarrow> g)"

definition core_prefix :: string where "core_prefix = ''core_1_0.''"

definition check_core :: "json \<Rightarrow> string \<times> json \<Rightarrow> gaps \<Rightarrow> gaps" where
  "check_core features item g =
     (case item of (name, expected) \<Rightarrow>
       if \<not> truthy expected then g
       else if \<not> starts_with core_prefix name then g\<lparr>gap_unverified := gap_unverified g @ [name]\<rparr>
       else check_flag features (drop (length core_prefix) name) name g)"

definition node_values :: "json \<Rightarrow> string \<Rightarrow> json" where
  "node_values info typename =
     (let v = field typename info in
      if is_obj v then v
      else
        let w = field_or (typename @ ''KHR'') (field_or (typename @ ''EXT'') (JObj []) info) info in
        if is_obj w then w else JObj [])"

definition check_node :: "json \<Rightarrow> json \<Rightarrow> gaps \<Rightarrow> gaps" where
  "check_node info node g =
     (let typename = str_of (field ''type'' node); vals = node_values info typename in
      fold (\<lambda>(name, on) h. if truthy on then check_flag vals name (typename @ ''.'' @ name) h else h)
        (obj_items (field ''features'' node)) g)"

definition check_api :: "bool \<Rightarrow> json \<Rightarrow> json \<Rightarrow> gaps \<Rightarrow> gaps" where
  "check_api captured ue version g =
     (if \<not> captured then g
      else if \<not> is_int version then g\<lparr>gap_unverified := gap_unverified g @ [''api_version'']\<rparr>
      else if int_of version < int_of (field ''api_version'' (field ''instance'' ue)) then
        g\<lparr>gap_missing := gap_missing g @ [''api_version'']\<rparr>
      else g)"

definition expected_features :: "bool \<Rightarrow> json \<Rightarrow> (string \<times> json) list result" where
  "expected_features captured ue =
     (if captured then
        bind_result (validate ue) (\<lambda>_.
          Inr (map (\<lambda>(n, v). (core_prefix @ n, v)) (obj_items (field ''enabled_core_features'' ue))))
      else
        let old = field ''core_features'' ue in
        req (is_obj old \<and> obj_items old \<noteq> [] \<and> list_all (\<lambda>(_, v). is_bool v) (obj_items old))
          ''legacy snapshot has no valid core feature inventory'' (Inr (obj_items old)))"

definition extension_names :: "json \<Rightarrow> string list result" where
  "extension_names names =
     req (is_list names \<and> all_str (list_items names) \<and> distinct (list_items names))
       ''invalid device_extensions'' (Inr (map str_of (list_items names)))"

definition available_names :: "json \<Rightarrow> string list result" where
  "available_names inventory =
     req (is_list inventory \<and>
          list_all (\<lambda>i. is_obj i \<and> is_str (field ''extensionName'' i)) (list_items inventory))
       ''missing or invalid target extension inventory''
     (let names = map (\<lambda>i. str_of (field ''extensionName'' i)) (list_items inventory) in
      req (distinct names) ''duplicate target extension names'' (Inr names))"

definition check_properties :: "json \<Rightarrow> json \<Rightarrow> unit result" where
  "check_properties properties features =
     require (is_obj properties \<and> is_str (field ''deviceName'' properties) \<and>
         str_of (field ''deviceName'' properties) \<noteq> [] \<and> is_obj features)
       ''missing Vulkan device properties/features''"

definition feature_gaps :: "bool \<Rightarrow> json \<Rightarrow> json \<Rightarrow> (string \<times> json) list \<Rightarrow> json \<Rightarrow> json \<Rightarrow> gaps" where
  "feature_gaps captured ue info expected properties features =
     (let g0 = \<lparr>gap_missing = [],
                gap_unverified = (if captured then [] else [''actual_vkCreateDevice_feature_chain''])\<rparr>;
          g1 = fold (check_core features) expected g0;
          g2 = (if captured then fold (check_node info) (list_items (field ''feature_chain'' ue)) g1 else g1)
      in check_api captured ue (field ''apiVersion'' properties) g2)"

definition missing_names :: "string list \<Rightarrow> string list \<Rightarrow> string list" where
  "missing_names wanted available = sort (filter (\<lambda>n. n \<notin> set available) wanted)"

definition verdict :: "string list \<Rightarrow> gaps \<Rightarrow> string" where
  "verdict absent g =
     (if absent \<noteq> [] \<or> gap_missing g \<noteq> [] then ''FAIL''
      else if gap_unverified g \<noteq> [] then ''INCOMPLETE''
      else ''PASS'')"

definition count_chain :: "bool \<Rightarrow> json \<Rightarrow> int result" where
  "count_chain captured ue =
     (if captured then Inr (int (length (list_items (field ''feature_chain'' ue))))
      else py_len (field_or ''pnext_stypes'' (JList []) ue))"

definition strs :: "string list \<Rightarrow> json" where
  "strs xs = JList (map JStr xs)"

definition comparison :: "string list \<Rightarrow> string list \<Rightarrow> gaps \<Rightarrow> int \<Rightarrow> json \<Rightarrow> json" where
  "comparison wanted available g chain properties =
     (let absent = missing_names wanted available in
      JObj [(''schema_version'', JInt 1), (''status'', JStr (verdict absent g)),
        (''ue_device_extension_count'', JInt (int (length wanted))),
        (''available_device_extension_count'', JInt (int (length available))),
        (''missing_extensions'', strs absent), (''missing_core_features'', strs (sort (gap_missing g))),
        (''unverified_requirements'', strs (sort (gap_unverified g))),
        (''ue_pnext_s_type_count'', JInt chain), (''device_name'', field ''deviceName'' properties),
        (''vendor_id'', field ''vendorID'' properties), (''api_version'', field ''apiVersion'' properties),
        (''scope'', JStr ''capability comparison only; not UE VkDeviceCreateInfo replay'')])"

definition compare_devices :: "json \<Rightarrow> json \<Rightarrow> json result" where
  "compare_devices ue info =
     req (is_obj ue \<and> is_obj info) ''both inputs must be JSON objects''
     (let captured = py_eq (field ''schema_version'' ue) (JInt 2) in
      bind_result (expected_features captured ue) (\<lambda>expected.
      bind_result (extension_names (field ''device_extensions'' ue)) (\<lambda>wanted.
      let properties = field_or ''VkPhysicalDeviceProperties'' (JObj []) info;
          features = field_or ''VkPhysicalDeviceFeatures'' (JObj []) info in
      bind_result (check_properties properties features) (\<lambda>_.
      bind_result (available_names (field ''ArrayOfVkExtensionProperties'' info)) (\<lambda>available.
      bind_result (count_chain captured ue) (\<lambda>chain.
        Inr (comparison wanted available (feature_gaps captured ue info expected properties features)
          chain properties)))))))"

text \<open>\<open>main\<close>: 2 for inputs that are rejected; what neither clause catches propagates.\<close>

definition main :: "fs \<Rightarrow> path \<Rightarrow> path \<Rightarrow> path \<Rightarrow> (int \<times> fs) result" where
  "main f ue_path info_path output =
     (case bind_result (load f ue_path) (\<lambda>ue. bind_result (load f info_path) (compare_devices ue)) of
        Inl e \<Rightarrow> if os_or_value e then Inr (2, f) else Inl e
      | Inr report \<Rightarrow>
          bind_result (write_text_file f output (indented True report)) (\<lambda>f'.
            Inr (if field ''status'' report = JStr ''PASS'' then 0 else 1, f')))"

end
