(* ===== verification/DeviceCompareFacts.thy ===== *)
theory DeviceCompareFacts
  imports DeviceCompare
begin

text \<open>
  The verdict of \<open>compare_vulkan_device_state.py\<close> decides what it is about: PASS exactly when the device
  offers every extension, every enabled feature and the API version of the captured device.
\<close>

definition flag_on :: "json \<Rightarrow> bool" where
  "flag_on v \<longleftrightarrow> v = JBool True \<or> v = JInt 1"

text \<open>What the captured device uses is offered.\<close>

definition core_offered :: "json \<Rightarrow> json \<Rightarrow> bool" where
  "core_offered ue features \<longleftrightarrow>
     (\<forall>(name, on)\<in>set (obj_items (field ''enabled_core_features'' ue)). truthy on \<longrightarrow> flag_on (field name features))"

definition chain_offered :: "json \<Rightarrow> json \<Rightarrow> bool" where
  "chain_offered ue info \<longleftrightarrow>
     (\<forall>node\<in>set (list_items (field ''feature_chain'' ue)). \<forall>(name, on)\<in>set (obj_items (field ''features'' node)).
        truthy on \<longrightarrow> flag_on (field name (node_values info (str_of (field ''type'' node)))))"

definition extensions_offered :: "json \<Rightarrow> json \<Rightarrow> bool" where
  "extensions_offered ue info \<longleftrightarrow>
     (\<forall>n\<in>set (list_items (field ''device_extensions'' ue)).
        \<exists>i\<in>set (list_items (field ''ArrayOfVkExtensionProperties'' info)). field ''extensionName'' i = n)"

definition version_offered :: "json \<Rightarrow> json \<Rightarrow> bool" where
  "version_offered ue properties \<longleftrightarrow>
     is_int (field ''apiVersion'' properties) \<and>
     int_of (field ''api_version'' (field ''instance'' ue)) \<le> int_of (field ''apiVersion'' properties)"

definition device_supports :: "json \<Rightarrow> json \<Rightarrow> bool" where
  "device_supports ue info \<longleftrightarrow>
     py_eq (field ''schema_version'' ue) (JInt 2) \<and> extensions_offered ue info \<and>
     core_offered ue (field_or ''VkPhysicalDeviceFeatures'' (JObj []) info) \<and> chain_offered ue info \<and>
     version_offered ue (field_or ''VkPhysicalDeviceProperties'' (JObj []) info)"

section \<open>Gaps\<close>

definition no_gaps :: "gaps \<Rightarrow> bool" where
  "no_gaps g \<longleftrightarrow> gap_missing g = [] \<and> gap_unverified g = []"

lemma no_gaps_empty: "no_gaps \<lparr>gap_missing = [], gap_unverified = []\<rparr>"
  by (simp add: no_gaps_def)

lemma flag_value_True: "flag_value v = Some True \<longleftrightarrow> flag_on v"
  by (cases v) (auto simp: flag_value_def flag_on_def)

lemma no_gaps_flag: "no_gaps (check_flag vals key label g) \<longleftrightarrow> no_gaps g \<and> flag_on (field key vals)"
  by (auto simp: check_flag_def no_gaps_def flag_value_True [symmetric] split: option.split bool.split)

lemma no_gaps_fold:
  assumes "\<And>x g. no_gaps (step x g) \<longleftrightarrow> no_gaps g \<and> ok x"
  shows "no_gaps (fold step xs g) \<longleftrightarrow> no_gaps g \<and> (\<forall>x\<in>set xs. ok x)"
  by (induction xs arbitrary: g) (auto simp: assms)

lemma no_gaps_core:
  "no_gaps (check_core features (name, on) g) \<longleftrightarrow>
     no_gaps g \<and> (truthy on \<longrightarrow> starts_with core_prefix name \<and> flag_on (field (drop (length core_prefix) name) features))"
  by (simp add: check_core_def no_gaps_flag) (simp add: no_gaps_def)

lemma no_gaps_cores:
  "no_gaps (fold (check_core features) xs g) \<longleftrightarrow>
     no_gaps g \<and> (\<forall>(name, on)\<in>set xs. truthy on \<longrightarrow>
       starts_with core_prefix name \<and> flag_on (field (drop (length core_prefix) name) features))"
  by (rule no_gaps_fold) (auto simp: no_gaps_core)

lemma no_gaps_node:
  "no_gaps (check_node info node g) \<longleftrightarrow>
     no_gaps g \<and> (\<forall>(name, on)\<in>set (obj_items (field ''features'' node)).
       truthy on \<longrightarrow> flag_on (field name (node_values info (str_of (field ''type'' node)))))"
  unfolding check_node_def Let_def by (rule no_gaps_fold) (auto simp: no_gaps_flag split: if_splits)

lemma no_gaps_nodes:
  "no_gaps (fold (check_node info) nodes g) \<longleftrightarrow>
     no_gaps g \<and> (\<forall>node\<in>set nodes. \<forall>(name, on)\<in>set (obj_items (field ''features'' node)).
       truthy on \<longrightarrow> flag_on (field name (node_values info (str_of (field ''type'' node)))))"
  by (rule no_gaps_fold) (rule no_gaps_node)

lemma no_gaps_api:
  "no_gaps (check_api True ue version g) \<longleftrightarrow>
     no_gaps g \<and> is_int version \<and> int_of (field ''api_version'' (field ''instance'' ue)) \<le> int_of version"
  by (auto simp: check_api_def no_gaps_def)

lemma gaps_of_captured:
  "no_gaps (feature_gaps True ue info (map (\<lambda>(n, v). (core_prefix @ n, v)) (obj_items (field ''enabled_core_features'' ue)))
      properties features) \<longleftrightarrow>
     core_offered ue features \<and> chain_offered ue info \<and> version_offered ue properties"
  by (auto simp: feature_gaps_def Let_def no_gaps_api no_gaps_nodes no_gaps_cores core_offered_def chain_offered_def
      version_offered_def no_gaps_empty)

text \<open>A legacy snapshot never shows the feature chain, so a gap remains.\<close>

lemma unverified_grows:
  "gap_unverified g \<noteq> [] \<Longrightarrow> gap_unverified (check_flag vals key label g) \<noteq> []"
  by (simp add: check_flag_def split: option.split bool.split)

lemma unverified_cores:
  "gap_unverified g \<noteq> [] \<Longrightarrow> gap_unverified (fold (check_core features) xs g) \<noteq> []"
proof (induction xs arbitrary: g)
  case (Cons x xs)
  then show ?case by (cases x) (simp add: check_core_def unverified_grows)
qed simp

lemma legacy_gaps: "\<not> no_gaps (feature_gaps False ue info expected properties features)"
  by (simp add: feature_gaps_def Let_def check_api_def no_gaps_def unverified_cores)

lemma verdict_pass: "verdict absent g = ''PASS'' \<longleftrightarrow> absent = [] \<and> no_gaps g"
  by (auto simp: verdict_def no_gaps_def)

lemma nothing_missing:
  assumes "extension_names (field ''device_extensions'' ue) = Inr wanted"
    and "available_names (field ''ArrayOfVkExtensionProperties'' info) = Inr available"
  shows "missing_names wanted available = [] \<longleftrightarrow> extensions_offered ue info"
proof -
  let ?names = "list_items (field ''device_extensions'' ue)"
  let ?items = "list_items (field ''ArrayOfVkExtensionProperties'' info)"
  from assms(1) have w: "wanted = map str_of ?names" "list_all is_str ?names"
    by (auto simp: extension_names_def all_str_def)
  from assms(2) have a: "available = map (\<lambda>i. str_of (field ''extensionName'' i)) ?items"
      "list_all (\<lambda>i. is_obj i \<and> is_str (field ''extensionName'' i)) ?items"
    by (auto simp: available_names_def Let_def)
  have "str_of n = str_of m \<longleftrightarrow> n = m" if "is_str n" "is_str m" for n m
    using that by (cases n; cases m) auto
  with w(2) a(2) have "(\<forall>n\<in>set ?names. str_of n \<in> set available) \<longleftrightarrow> extensions_offered ue info"
    by (fastforce simp: extensions_offered_def a(1) list_all_iff)
  moreover have "sort xs = [] \<longleftrightarrow> xs = []" for xs :: "string list" by (metis length_0_conv length_sort)
  ultimately show ?thesis by (simp add: missing_names_def filter_empty_conv w(1))
qed

section \<open>Property\<close>

text \<open>When the inputs are accepted, the verdict is PASS exactly when the device supports what the captured
  device uses: every extension, every enabled core feature, every enabled feature of the chain, and at least
  the API version.\<close>

theorem comparison_decides_support:
  "case compare_devices ue info of
     Inr report \<Rightarrow> field ''status'' report = JStr ''PASS'' \<longleftrightarrow> device_supports ue info
   | Inl e \<Rightarrow> True"
proof (cases "compare_devices ue info")
  case (Inr report)
  let ?captured = "py_eq (field ''schema_version'' ue) (JInt 2)"
  let ?properties = "field_or ''VkPhysicalDeviceProperties'' (JObj []) info"
  let ?features = "field_or ''VkPhysicalDeviceFeatures'' (JObj []) info"
  from Inr obtain expected wanted available chain where
    e: "expected_features ?captured ue = Inr expected"
    and w: "extension_names (field ''device_extensions'' ue) = Inr wanted"
    and a: "available_names (field ''ArrayOfVkExtensionProperties'' info) = Inr available"
    and r: "report = comparison wanted available (feature_gaps ?captured ue info expected ?properties ?features) chain ?properties"
    by (auto simp: compare_devices_def Let_def)
  have status: "field ''status'' report = JStr ''PASS'' \<longleftrightarrow>
      extensions_offered ue info \<and> no_gaps (feature_gaps ?captured ue info expected ?properties ?features)"
    by (simp add: r comparison_def Let_def verdict_pass nothing_missing [OF w a])
  show ?thesis
  proof (cases ?captured)
    case True
    with e have "expected = map (\<lambda>(n, v). (core_prefix @ n, v)) (obj_items (field ''enabled_core_features'' ue))"
      by (auto simp: expected_features_def)
    with True Inr status show ?thesis by (simp add: gaps_of_captured device_supports_def)
  next
    case False
    with Inr status show ?thesis by (simp add: legacy_gaps device_supports_def)
  qed
qed simp

end
