(* ===== verification/ComputeBatch.thy ===== *)
theory ComputeBatch
  imports StageChecker
begin

text \<open>
  \<open>batch_vulkan_compute.py\<close>: the captured compute shaders of a directory are replayed one by one, each in a fresh
  process after a run of the SPIR-V validator. The whole inventory is validated before the first process
  starts. A process, the clock and the listing of the directory are arguments.
\<close>

section \<open>Metadata\<close>

definition required_metadata :: "string list" where
  "required_metadata = [''shader'', ''entry'', ''bytes'', ''bindless'', ''wave_size'', ''flags'']"

definition hash_shape :: "string \<Rightarrow> bool" where
  "hash_shape s \<longleftrightarrow> length s = 40 \<and> list_all (\<lambda>c. is_digit c \<or> is_any_hex c \<and> \<not> is_lower_hex c) s"

definition entry_shape :: "string \<Rightarrow> bool" where
  "entry_shape s \<longleftrightarrow>
     length s = 22 \<and> take 5 s = ''main_'' \<and> list_all is_lower_hex (take 8 (drop 5 s)) \<and>
     take 1 (drop 13 s) = ''_'' \<and> list_all is_lower_hex (drop 14 s)"

definition is_decimal :: "string \<Rightarrow> bool" where
  "is_decimal s \<longleftrightarrow> s \<noteq> [] \<and> list_all is_digit s"

definition take_metadata :: "path \<Rightarrow> string \<Rightarrow> tags \<Rightarrow> tags result" where
  "take_metadata p line entries =
     (case partition_at equals_sign line of (key, found, v) \<Rightarrow>
        req (found \<and> key \<notin> set (map fst entries) \<and> key \<in> set required_metadata)
          (''unexpected compute metadata: '' @ path_text p) (Inr (entries @ [(key, v)])))"

definition tag_of :: "string \<Rightarrow> tags \<Rightarrow> string" where
  "tag_of k entries = (case map_of entries k of None \<Rightarrow> [] | Some v \<Rightarrow> v)"

definition metadata_complete :: "tags \<Rightarrow> bool" where
  "metadata_complete entries \<longleftrightarrow> same_set (map fst entries) required_metadata \<and> entry_shape (tag_of ''entry'' entries)"

definition check_metadata :: "fs \<Rightarrow> path \<Rightarrow> path \<Rightarrow> tags \<Rightarrow> tags result" where
  "check_metadata f p spv entries =
     req (metadata_complete entries) (''incomplete compute metadata: '' @ path_text p)
     (req (tag_of ''bindless'' entries \<in> set [''0'', ''1'']) (''invalid bindless flag: '' @ path_text p)
     (req (list_all (\<lambda>k. is_decimal (tag_of k entries)) [''bytes'', ''wave_size'', ''flags''])
       (''invalid numeric metadata: '' @ path_text p)
     (req (dec_int (tag_of ''bytes'' entries) = file_size f spv)
       (''compute shader byte count differs: '' @ path_text p) (Inr entries))))"

definition metadata :: "fs \<Rightarrow> path \<Rightarrow> path \<Rightarrow> tags result" where
  "metadata f p spv =
     bind_result (read_lines f p) (\<lambda>ls. bind_result (fold_result (take_metadata p) ls []) (check_metadata f p spv))"

section \<open>Processes\<close>

text \<open>The files a process leaves, its standard output and error stream, and how it ends.\<close>

record batch_host =
  bc_host :: host
  bc_tool :: "string list \<Rightarrow> fs \<Rightarrow> fs \<times> bytes \<times> bytes \<times> tool_end"
  bc_seconds :: "path \<Rightarrow> pyfloat"
  bc_below :: "fs \<Rightarrow> path \<Rightarrow> path list"

record batch_args =
  bt_program :: path
  bt_validator :: path
  bt_shader_dir :: path
  bt_run_dir :: path
  bt_backend :: string
  bt_timeout :: int

type_synonym 'a bc = "(fs, 'a) effect"

definition fs_read :: "(fs \<Rightarrow> 'a result) \<Rightarrow> 'a bc" where
  "fs_read g = and_then (get_state (\<lambda>f. f)) (\<lambda>f. lift (g f))"

definition fs_write :: "(fs \<Rightarrow> fs result) \<Rightarrow> unit bc" where
  "fs_write g = (\<lambda>f. case g f of Inl e \<Rightarrow> (Inl e, f) | Inr f' \<Rightarrow> (Inr (), f'))"

text \<open>What \<open>text=True\<close> makes of an output: line breaks become line feeds.\<close>

fun universal :: "string \<Rightarrow> string" where
  "universal [] = []"
| "universal [c] = [if c = CHR 0x0D then newline_char else c]"
| "universal (c # d # s) =
     (if c = CHR 0x0D then newline_char # universal (if d = CHR 0x0A then s else d # s) else c # universal (d # s))"

definition text_output :: "bytes \<Rightarrow> string result" where
  "text_output b = bind_result (decode_utf8 b) (\<lambda>t. Inr (universal t))"

text \<open>\<open>bytes.decode(errors="replace")\<close>: a maximal part of an ill-formed sequence becomes U+FFFD.\<close>

definition replacement :: string where "replacement = utf8_point 65533"

definition second_ok :: "char \<Rightarrow> char \<Rightarrow> bool" where
  "second_ok a b \<longleftrightarrow>
     continuation b \<and> (code a = 224 \<longrightarrow> 160 \<le> code b) \<and> (code a = 237 \<longrightarrow> code b < 160) \<and>
     (code a = 240 \<longrightarrow> 144 \<le> code b) \<and> (code a = 244 \<longrightarrow> code b < 144)"

definition sequence_length :: "char \<Rightarrow> nat" where
  "sequence_length a =
     (if code a < 128 then 1 else if 194 \<le> code a \<and> code a < 224 then 2
      else if 224 \<le> code a \<and> code a < 240 then 3 else if 240 \<le> code a \<and> code a < 245 then 4 else 0)"

text \<open>How many of the bytes after the first belong to the sequence.\<close>

definition sequence_tail :: "char \<Rightarrow> bytes \<Rightarrow> nat" where
  "sequence_tail a s =
     (case take (sequence_length a - 1) s of
        [] \<Rightarrow> 0
      | b # bs \<Rightarrow> if second_ok a b then Suc (length (takeWhile continuation bs)) else 0)"

function decode_replace :: "bytes \<Rightarrow> string" where
  "decode_replace [] = []"
| "decode_replace (a # s) =
     (let n = sequence_tail a s in
      (if Suc n = sequence_length a then a # take n s else replacement) @ decode_replace (drop n s))"
  by pat_completeness auto
termination
  by (relation "measure length") (auto simp: less_Suc_eq_le)

section \<open>One shader\<close>

record shader_record =
  sr_shader :: string
  sr_entry :: string
  sr_digest :: string
  sr_metadata :: string
  sr_status :: string
  sr_returncode :: "int option"
  sr_seconds :: json
  sr_error :: string

definition shader_json :: "shader_record \<Rightarrow> json" where
  "shader_json r =
     JObj [(''shader'', JStr (sr_shader r)), (''entry'', JStr (sr_entry r)),
       (''shader_sha256'', JStr (sr_digest r)), (''metadata_sha256'', JStr (sr_metadata r)),
       (''status'', JStr (sr_status r)),
       (''returncode'', case sr_returncode r of None \<Rightarrow> JNull | Some n \<Rightarrow> JInt n),
       (''seconds'', sr_seconds r), (''error'', JStr (sr_error r))]"

definition strict_object :: pairs_hook where
  "strict_object = distinct_dict (\<lambda>k. ''duplicate JSON field: '' @ k)"

definition invalid_number :: constant_hook where
  "invalid_number = reject_constant ''invalid JSON number: ''"

definition result_matches :: "string \<Rightarrow> string \<Rightarrow> json \<Rightarrow> bool" where
  "result_matches backend entry v \<longleftrightarrow>
     is_obj v \<and> field ''status'' v = JStr ''PASS'' \<and> field ''backend'' v = JStr backend \<and>
     field ''entry'' v = JStr entry \<and> field ''mode'' v = JStr ''create'' \<and>
     field ''ue_exact_replay'' v = JBool False \<and> field ''layout_source'' v = JStr ''spirv-reflect'' \<and>
     py_eq (field ''readback_words'' v) (JInt 0)"

definition check_result :: "string \<Rightarrow> string \<Rightarrow> string \<Rightarrow> unit result" where
  "check_result backend entry out =
     bind_result (loads strict_object invalid_number out) (\<lambda>v.
       require (result_matches backend entry v) ''replay result does not match requested shader and scope'')"

datatype phase_end = Done int string | Stopped string

text \<open>\<open>subprocess.run(argv, text=True, timeout=...)\<close> and the log of the phase.\<close>

definition run_phase :: "batch_host \<Rightarrow> string \<Rightarrow> int \<Rightarrow> string list \<Rightarrow> path \<Rightarrow> phase_end bc" where
  "run_phase bh phase timeout argv output =
     and_then (get_state (bc_tool bh argv)) (\<lambda>(f, out, err, ending).
     then_do (put_state (\<lambda>_. f))
     (case ending of
        NotStarted m \<Rightarrow> raise (OSError m)
      | TimedOut \<Rightarrow>
          then_do (fs_write (\<lambda>f. write_bytes f (output @ [phase @ ''.log'']) (decode_replace err)))
          (ret (Stopped (phase @ '' timed out after '' @ show_int timeout @ ''s'')))
      | Exited n \<Rightarrow>
          and_then (lift (text_output out)) (\<lambda>out_text.
          and_then (lift (text_output err)) (\<lambda>err_text.
          then_do (fs_write (\<lambda>f. write_bytes f (output @ [phase @ ''.log'']) err_text))
          (ret (Done n out_text))))))"

definition failed :: "string \<Rightarrow> shader_record \<Rightarrow> shader_record" where
  "failed m r = r\<lparr>sr_error := m\<rparr>"

definition exited :: "string \<Rightarrow> int \<Rightarrow> string" where
  "exited phase n = phase @ '' exited '' @ show_int n"

definition validation_argv :: "batch_args \<Rightarrow> path \<Rightarrow> string list" where
  "validation_argv a shader = [path_text (bt_validator a), ''--target-env'', ''vulkan1.3'', path_text shader]"

definition create_argv :: "batch_args \<Rightarrow> path \<Rightarrow> string \<Rightarrow> string list" where
  "create_argv a shader entry = [path_text (bt_program a), path_text shader, bt_backend a, entry, ''create'']"

definition value_or_type :: "py_error \<Rightarrow> bool" where
  "value_or_type e \<longleftrightarrow> (case e of ValueError _ \<Rightarrow> True | TypeError _ \<Rightarrow> True | _ \<Rightarrow> False)"

definition judge_create :: "string \<Rightarrow> string \<Rightarrow> int \<Rightarrow> string \<Rightarrow> shader_record \<Rightarrow> shader_record result" where
  "judge_create backend entry n out r =
     (let r' = r\<lparr>sr_returncode := Some n\<rparr> in
      if n \<noteq> 0 then Inr (failed (exited ''create'' n) r')
      else
        (case check_result backend entry out of
           Inr _ \<Rightarrow> Inr (r'\<lparr>sr_status := ''PASS''\<rparr>)
         | Inl e \<Rightarrow>
             if value_or_type e then Inr (failed (''invalid replay result: '' @ error_text e) r') else Inl e))"

definition create_phase :: "batch_host \<Rightarrow> batch_args \<Rightarrow> path \<Rightarrow> shader_record \<Rightarrow> shader_record bc" where
  "create_phase bh a output r =
     and_then (run_phase bh ''create'' (bt_timeout a)
         (create_argv a (output @ [''shader.spv'']) (sr_entry r)) output) (\<lambda>ending.
       case ending of
         Stopped m \<Rightarrow> ret (failed m r)
       | Done n out \<Rightarrow>
           then_do (fs_write (\<lambda>f. write_bytes f (output @ [''result.json'']) out))
           (lift (judge_create (bt_backend a) (sr_entry r) n out r)))"

definition both_phases :: "batch_host \<Rightarrow> batch_args \<Rightarrow> path \<Rightarrow> shader_record \<Rightarrow> shader_record bc" where
  "both_phases bh a output r =
     and_then (run_phase bh ''validation'' (bt_timeout a) (validation_argv a (output @ [''shader.spv''])) output) (\<lambda>ending.
       case ending of
         Stopped m \<Rightarrow> ret (failed m r)
       | Done n _ \<Rightarrow> if n \<noteq> 0 then ret (failed (exited ''validation'' n) r) else create_phase bh a output r)"

text \<open>\<open>path.stem\<close> and \<open>path.with_suffix(".txt")\<close>.\<close>

definition stem_of :: "path \<Rightarrow> string" where
  "stem_of p = (let n = base_name p in take (length n - length (suffix_of n)) n)"

definition metadata_path :: "path \<Rightarrow> path" where
  "metadata_path p = parent p @ [stem_of p @ ''.txt'']"

definition make_dir :: "fs \<Rightarrow> path \<Rightarrow> fs result" where
  "make_dir f p = (if has_parent f p then make_work_dir f p else no_entry p)"

definition unchanged_copy :: "batch_host \<Rightarrow> path \<Rightarrow> path \<Rightarrow> fs \<Rightarrow> bool result" where
  "unchanged_copy bh src dst f =
     bind_result (sha256_file (bc_host bh) f src) (\<lambda>d. bind_result (sha256_file (bc_host bh) f dst) (\<lambda>e. Inr (d = e)))"

definition copy_inputs :: "batch_host \<Rightarrow> path \<Rightarrow> path \<Rightarrow> unit bc" where
  "copy_inputs bh source output =
     (let shader = output @ [''shader.spv'']; meta = output @ [''metadata.txt'']; changed = ''source changed during capture: '' @ path_text source in
      then_do (fs_write (\<lambda>f. copy_file f source shader))
      (then_do (fs_write (\<lambda>f. copy_file f (metadata_path source) meta))
      (and_then (fs_read (unchanged_copy bh source shader)) (\<lambda>same.
       then_do (check same changed)
       (and_then (fs_read (unchanged_copy bh (metadata_path source) meta)) (\<lambda>same'. check same' changed))))))"

definition new_record :: "batch_host \<Rightarrow> path \<Rightarrow> path \<Rightarrow> string \<Rightarrow> fs \<Rightarrow> shader_record result" where
  "new_record bh source output entry f =
     bind_result (sha256_file (bc_host bh) f (output @ [''shader.spv''])) (\<lambda>d.
     bind_result (sha256_file (bc_host bh) f (output @ [''metadata.txt''])) (\<lambda>m.
       Inr \<lparr>sr_shader = stem_of source, sr_entry = entry, sr_digest = d, sr_metadata = m, sr_status = ''FAIL'',
         sr_returncode = None, sr_seconds = JNull, sr_error = []\<rparr>))"

definition run_one :: "batch_host \<Rightarrow> batch_args \<Rightarrow> path \<Rightarrow> shader_record bc" where
  "run_one bh a source =
     (let output = bt_run_dir a @ [stem_of source] in
      then_do (fs_write (\<lambda>f. make_dir f output))
      (then_do (copy_inputs bh source output)
      (and_then (fs_read (\<lambda>f. metadata f (output @ [''metadata.txt'']) (output @ [''shader.spv'']))) (\<lambda>entries.
       then_do (fs_write (\<lambda>f. write_text_file f (output @ [''command.json''])
           (one_line False (JList (map JStr (create_argv a (output @ [''shader.spv'']) (tag_of ''entry'' entries)))))))
       (and_then (fs_read (new_record bh source output (tag_of ''entry'' entries))) (\<lambda>r.
        and_then (both_phases bh a output r) (\<lambda>r'.
         ret (r'\<lparr>sr_seconds := JFloat (bc_seconds bh source)\<rparr>))))))))"

section \<open>The batch\<close>

definition listed :: "batch_host \<Rightarrow> batch_args \<Rightarrow> string \<Rightarrow> fs \<Rightarrow> path list" where
  "listed bh a suffix f =
     with_ending suffix [p \<leftarrow> bc_below bh f (bt_shader_dir a). length p = Suc (length (bt_shader_dir a))]"

definition check_arguments :: "batch_args \<Rightarrow> fs \<Rightarrow> unit result" where
  "check_arguments a f =
     req (bt_backend a \<in> set [''lavapipe'', ''gb10''] \<and> 0 < bt_timeout a \<and> bt_timeout a \<le> 120)
       ''invalid backend or per-shader timeout''
     (req (is_file f (bt_program a) \<and> is_file f (bt_validator a)) ''missing replay program or SPIR-V validator''
     (req (is_dir f (bt_shader_dir a) \<and> is_dir f (bt_run_dir a)) ''missing captured shader directory or run directory''
     (require (\<not> exists_path f (bt_run_dir a @ [''batch-result.json'']))
       ''refusing to overwrite an existing batch result'')))"

definition check_shader :: "fs \<Rightarrow> path \<Rightarrow> unit result" where
  "check_shader f shader =
     req (is_file f shader \<and> is_file f (metadata_path shader))
       (''missing regular shader or metadata: '' @ path_text shader)
       (bind_result (metadata f (metadata_path shader) shader) (\<lambda>_. Inr ()))"

definition inventory :: "batch_host \<Rightarrow> batch_args \<Rightarrow> fs \<Rightarrow> path list result" where
  "inventory bh a f =
     (let shaders = sort (listed bh a ''.spv'' f) in
      bind_result (check_arguments a f) (\<lambda>_.
      req (1 \<le> length shaders \<and> length shaders \<le> 64 \<and> list_all (\<lambda>p. hash_shape (stem_of p)) shaders)
        ''expected 1..64 hashed captured shaders''
      (req (same_set (map stem_of shaders) (map stem_of (listed bh a ''.txt'' f)))
        ''shader and metadata inventories differ''
      (bind_result (each (check_shader f) shaders) (\<lambda>_. Inr shaders)))))"

fun run_each :: "batch_host \<Rightarrow> batch_args \<Rightarrow> path list \<Rightarrow> shader_record list bc" where
  "run_each bh a [] = ret []"
| "run_each bh a (p # ps) = and_then (run_one bh a p) (\<lambda>r. and_then (run_each bh a ps) (\<lambda>rs. ret (r # rs)))"

definition batch_status :: "shader_record list \<Rightarrow> string" where
  "batch_status rs = (if list_all (\<lambda>r. sr_status r = ''PASS'') rs then ''PASS'' else ''FAIL'')"

definition batch_json :: "batch_args \<Rightarrow> shader_record list \<Rightarrow> json" where
  "batch_json a rs =
     JObj [(''schema_version'', JInt 1), (''backend'', JStr (bt_backend a)), (''mode'', JStr ''create''),
       (''scope'', JStr ''one new Vulkan device and pipeline per shader; not UE-exact or shared-device replay''),
       (''shader_count'', JInt (int (length rs))),
       (''passed'', JInt (int (length (filter (\<lambda>r. sr_status r = ''PASS'') rs)))),
       (''status'', JStr (batch_status rs)), (''results'', JList (map shader_json rs))]"

definition run :: "batch_host \<Rightarrow> batch_args \<Rightarrow> json bc" where
  "run bh a =
     and_then (fs_read (inventory bh a)) (\<lambda>shaders.
     and_then (run_each bh a shaders) (\<lambda>rs.
     then_do (fs_write (\<lambda>f. write_text_file f (bt_run_dir a @ [''batch-result.json'']) (indented False (batch_json a rs))))
     (ret (batch_json a rs))))"

definition main :: "batch_host \<Rightarrow> batch_args \<Rightarrow> int bc" where
  "main bh a =
     handle (and_then (run bh a) (\<lambda>summary. ret (exit_status summary)))
       (\<lambda>e. if os_or_value e then ret 2 else raise e)"

section \<open>What a summary says\<close>

text \<open>
  The summary covers the whole inventory in order, and a PASS means that the validator and then the replay
  program ran on the copy of the shader, ended with 0, and that the program printed a report of this request.
\<close>


















end
