(* ===== verification/DiagnosticCompare.thy ===== *)
theory DiagnosticCompare
  imports ComputeBatch
begin

text \<open>
  \<open>compare_gb10_vulkan_diagnostics.py\<close>: the runtime gate once per diagnostic configuration, each run classified
  as PASS, FAIL or BLOCKED, and an overall verdict that refuses to compare when the environment never reached
  the product. The gate is an argument: what it leaves, prints and how it ends.
\<close>

section \<open>Configurations\<close>

record config =
  cf_name :: string
  cf_env :: "(string \<times> string) list"
  cf_purpose :: string

definition configs :: "config list" where
  "configs =
     [\<lparr>cf_name = ''control'', cf_env = [],
        cf_purpose = ''Baseline: expected to reach the NVIDIA SPIR-V compiler crash.''\<rparr>,
      \<lparr>cf_name = ''debug-utils'', cf_env = [(''RUNTIME_VULKAN_DEBUG_UTILS'', ''1'')],
        cf_purpose = ''Instance debug-utils extension and messenger only, no layer.''\<rparr>,
      \<lparr>cf_name = ''validation'', cf_env = [(''RUNTIME_VULKAN_VALIDATION'', ''1'')],
        cf_purpose = ''Khronos validation layer, the configuration audit 9.74 recorded as PASS.''\<rparr>,
      \<lparr>cf_name = ''serialize-driver-calls'', cf_env = [(''GB10_SERIALIZE_DRIVER_CALLS'', ''1'')],
        cf_purpose = ''Diagnostic serialization of the instrumented driver entry points.''\<rparr>]"

section \<open>The decision of a run\<close>

definition take_decision :: "string \<Rightarrow> tags \<Rightarrow> tags" where
  "take_decision line decision =
     (let stripped = strip line in
      if starts_with ''- '' stripped then
        (case partition_at (CHR '':'') (drop 2 stripped) of (key, found, v) \<Rightarrow>
           if found then dict_set (strip key) (strip v) decision else decision)
      else decision)"

definition parse_decision :: "string \<Rightarrow> tags" where
  "parse_decision t = fold take_decision (splitlines t) []"

definition classify :: "string \<Rightarrow> string" where
  "classify t =
     (let decision = parse_decision t in
      if tag ''Status'' decision = Some ''PASS'' then ''PASS''
      else if tag ''Step'' decision = Some ''preflight'' then ''BLOCKED''
      else if tag ''Client abort'' decision = Some ''device-creation'' then ''BLOCKED''
      else ''FAIL'')"

definition blocked_reason :: "string \<Rightarrow> string" where
  "blocked_reason t =
     (let decision = parse_decision t in
      if tag ''Step'' decision = Some ''preflight'' then ''gate preflight failed before the client started''
      else if tag ''Client abort'' decision = Some ''device-creation'' then
        ''vkCreateDevice was rejected; the product shader path was never reached''
      else [])"

definition artifact_prefix :: string where "artifact_prefix = ''artifacts=''"

definition parse_artifact_path :: "string \<Rightarrow> string option" where
  "parse_artifact_path out =
     map_option (drop (length artifact_prefix)) (find (starts_with artifact_prefix) (split_words out))"

definition path_parts :: "string \<Rightarrow> string list" where
  "path_parts s = (if is_absolute s then ''/'' # components s else components s)"

definition host_run_dir :: "fs \<Rightarrow> path \<Rightarrow> string \<Rightarrow> path option" where
  "host_run_dir f artifacts container =
     (let parts = path_parts container; candidate = artifacts @ drop 2 parts in
      if 3 \<le> length parts \<and> parts ! 1 = ''artifacts'' \<and> is_dir f candidate then Some candidate else None)"

definition optional_digest :: "host \<Rightarrow> fs \<Rightarrow> path \<Rightarrow> json result" where
  "optional_digest h f p = (if is_file f p then bind_result (sha256_file h f p) (\<lambda>d. Inr (JStr d)) else Inr JNull)"

section \<open>One configuration\<close>

record compare_args =
  cp_repo_root :: path
  cp_artifact_dir :: path
  cp_report_dir :: "path option"
  cp_configs :: string
  cp_make_args :: "string list"
  cp_client_binary :: "path option"
  cp_timeout :: int
  cp_run_all :: bool
  cp_dry_run :: bool

record compare_host =
  ch_gate_host :: host
  ch_gate :: "string list \<Rightarrow> fs \<Rightarrow> fs \<times> bytes \<times> bytes \<times> tool_end"
  ch_stamp :: string
  ch_generated :: string

definition env_json :: "config \<Rightarrow> json" where
  "env_json c = JObj (map (\<lambda>(k, v). (k, JStr v)) (cf_env c))"

definition gate_command :: "config \<Rightarrow> compare_args \<Rightarrow> string list" where
  "gate_command c a =
     [''make'', ''carla-town10-gb10-runtime''] @ cp_make_args a @ map (\<lambda>(k, v). k @ ''='' @ v) (cf_env c)"

text \<open>The records of the early returns have neither a purpose nor a decision.\<close>

definition blocked_record :: "config \<Rightarrow> string \<Rightarrow> json" where
  "blocked_record c reason =
     JObj [(''config'', JStr (cf_name c)), (''make_env'', env_json c), (''status'', JStr ''BLOCKED''),
       (''run_dir'', JNull), (''reason'', JStr reason)]"

definition decision_json :: "tags \<Rightarrow> json" where
  "decision_json d = JObj (map (\<lambda>(k, v). (k, JStr v)) d)"

definition judged_record :: "config \<Rightarrow> path \<Rightarrow> string \<Rightarrow> json" where
  "judged_record c run_dir t =
     JObj ([(''config'', JStr (cf_name c)), (''purpose'', JStr (cf_purpose c)), (''make_env'', env_json c),
       (''run_dir'', JStr (path_text run_dir)), (''decision'', decision_json (parse_decision t)),
       (''status'', JStr (classify t))]
       @ (if blocked_reason t = [] then [] else [(''reason'', JStr (blocked_reason t))]))"

definition decision_text :: "fs \<Rightarrow> path \<Rightarrow> string result" where
  "decision_text f run_dir =
     (let p = run_dir @ [''decision.md''] in if is_file f p then read_text f p else Inr [])"

definition found_run_dir :: "fs \<Rightarrow> path \<Rightarrow> string \<Rightarrow> path option" where
  "found_run_dir f artifacts out =
     (case parse_artifact_path out of
        None \<Rightarrow> None
      | Some p \<Rightarrow> if p = [] then None else host_run_dir f artifacts p)"

definition judge_gate :: "compare_args \<Rightarrow> config \<Rightarrow> string \<Rightarrow> json bc" where
  "judge_gate a c out =
     and_then (get_state (\<lambda>f. found_run_dir f (cp_repo_root a @ [''artifacts'']) out)) (\<lambda>dir.
       case dir of
         None \<Rightarrow> ret (blocked_record c ''gate did not report a run directory'')
       | Some d \<Rightarrow> and_then (fs_read (\<lambda>f. decision_text f d)) (\<lambda>t. ret (judged_record c d t)))"

definition run_config :: "compare_host \<Rightarrow> compare_args \<Rightarrow> config \<Rightarrow> json bc" where
  "run_config ch a c =
     and_then (get_state (ch_gate ch (gate_command c a))) (\<lambda>(f, out, err, ending).
     then_do (put_state (\<lambda>_. f))
     (case ending of
        NotStarted m \<Rightarrow> raise (OSError m)
      | TimedOut \<Rightarrow> ret (blocked_record c (''gate did not finish within '' @ show_int (cp_timeout a) @ ''s''))
      | Exited n \<Rightarrow>
          and_then (lift (text_output out)) (\<lambda>out_text.
          and_then (lift (text_output err)) (\<lambda>_. judge_gate a c out_text))))"

section \<open>All configurations\<close>

definition status_of :: "json \<Rightarrow> string" where
  "status_of rec = str_of (field ''status'' rec)"

definition control_status :: "json list \<Rightarrow> json" where
  "control_status runs =
     (case map_of (rev (map (\<lambda>r. (str_of (field ''config'' r), field ''status'' r)) runs)) ''control'' of
        None \<Rightarrow> JNull | Some v \<Rightarrow> v)"

definition verdict :: "string \<Rightarrow> json \<Rightarrow> json" where
  "verdict status reason = JObj [(''status'', JStr status), (''reason'', reason)]"

definition summarize :: "json list \<Rightarrow> json" where
  "summarize runs =
     (case filter (\<lambda>r. status_of r = ''BLOCKED'') runs of
        r # _ \<Rightarrow> verdict ''BLOCKED'' (field_or ''reason'' (JStr ''first configuration was blocked'') r)
      | [] \<Rightarrow>
          if control_status runs \<noteq> JStr ''FAIL'' then
            verdict ''BLOCKED'' (JStr (''control did not reproduce the baseline crash (control='' @
              str_json (control_status runs) @ '')''))
          else verdict ''COMPARABLE''
            (JStr ''control reproduced the baseline crash and every configuration produced a verdict''))"

definition skipped_record :: "config \<Rightarrow> json" where
  "skipped_record c =
     JObj [(''config'', JStr (cf_name c)), (''purpose'', JStr (cf_purpose c)), (''make_env'', env_json c),
       (''run_dir'', JNull), (''decision'', JObj []), (''status'', JStr ''NOT-RUN''),
       (''reason'', JStr ''skipped because an earlier configuration was blocked'')]"

fun run_configs :: "compare_host \<Rightarrow> compare_args \<Rightarrow> config list \<Rightarrow> json list bc" where
  "run_configs ch a [] = ret []"
| "run_configs ch a (c # cs) =
     and_then (run_config ch a c) (\<lambda>r.
       if status_of r = ''BLOCKED'' \<and> \<not> cp_run_all a then ret (r # map skipped_record cs)
       else and_then (run_configs ch a cs) (\<lambda>rs. ret (r # rs)))"

definition compare_scope :: string where
  "compare_scope =
     ''Diagnostic comparison of the GB10 Town10 gate; a run that aborts before the product rendering path is not a product result.''"

definition compare_report :: "compare_host \<Rightarrow> compare_args \<Rightarrow> path \<Rightarrow> json \<Rightarrow> json list \<Rightarrow> json" where
  "compare_report ch a binary d runs =
     JObj [(''schema'', JInt 1), (''generated_utc'', JStr (ch_generated ch)), (''client_binary'', JStr (path_text binary)),
       (''client_binary_sha256'', d), (''extra_make_args'', JList (map JStr (cp_make_args a))),
       (''overall'', summarize runs), (''runs'', JList runs), (''scope'', JStr compare_scope)]"

definition row_cells :: "json \<Rightarrow> string list result" where
  "row_cells rec =
     bind_result (py_item ''decision'' rec) (\<lambda>decision.
       let dir = field ''run_dir'' rec; cell = (\<lambda>k. str_json (field_or k (JStr ''-'') decision)) in
       Inr [str_of (field ''config'' rec), status_of rec, cell ''Client abort'', cell ''Server stop code'',
         if truthy dir then base_name (components (str_of dir)) else ''-''])"

definition row_line :: "json \<Rightarrow> string result" where
  "row_line rec = bind_result (row_cells rec) (\<lambda>cells. Inr (''| '' @ join_with '' | '' cells @ '' |''))"

definition summary_head :: "json \<Rightarrow> string list" where
  "summary_head report =
     [''# GB10 Vulkan diagnostic comparison'', [],
      ''- Overall: '' @ str_json (field ''status'' (field ''overall'' report)),
      ''- Reason: '' @ str_json (field ''reason'' (field ''overall'' report)),
      ''- Client binary: '' @ str_json (field ''client_binary'' report) @ '' ('' @
        str_json (field ''client_binary_sha256'' report) @ '')'', [],
      ''| Configuration | Status | Client abort | Stop code | Run |'', ''| --- | --- | --- | --- | --- |'']"

definition summary_text :: "json \<Rightarrow> json list \<Rightarrow> string result" where
  "summary_text report runs =
     bind_result (map_result row_line runs) (\<lambda>rows.
       Inr (join_with [newline_char] (summary_head report @ rows)))"

definition wanted_names :: "string \<Rightarrow> string list" where
  "wanted_names s = [n \<leftarrow> map strip (split_on (CHR '','') s). n \<noteq> []]"

definition selected_configs :: "string list \<Rightarrow> config list" where
  "selected_configs wanted = [c \<leftarrow> configs. wanted = [] \<or> cf_name c \<in> set wanted]"

definition unknown_names :: "string list \<Rightarrow> string list" where
  "unknown_names wanted = sort (remdups [n \<leftarrow> wanted. n \<notin> set (map cf_name configs)])"

definition client_binary :: "compare_args \<Rightarrow> path" where
  "client_binary a =
     (case cp_client_binary a of
        Some p \<Rightarrow> p
      | None \<Rightarrow> cp_artifact_dir a @
          [''cooked-client-full'', ''CarlaUnreal'', ''Binaries'', ''LinuxArm64'', ''CarlaUnreal''])"

definition run_root :: "compare_host \<Rightarrow> compare_args \<Rightarrow> path" where
  "run_root ch a =
     (case cp_report_dir a of Some p \<Rightarrow> p | None \<Rightarrow> cp_repo_root a @ [''artifacts''])
       @ [''gb10-vulkan-comparison'', ch_stamp ch]"

definition comparable_code :: "json \<Rightarrow> int" where
  "comparable_code report = (if field ''status'' (field ''overall'' report) = JStr ''COMPARABLE'' then 0 else 3)"

definition write_results :: "compare_host \<Rightarrow> compare_args \<Rightarrow> json list \<Rightarrow> int bc" where
  "write_results ch a runs =
     and_then (fs_read (\<lambda>f. optional_digest (ch_gate_host ch) f (client_binary a))) (\<lambda>d.
     let report = compare_report ch a (client_binary a) d runs in
     then_do (fs_write (\<lambda>f. write_text_file f (run_root ch a @ [''comparison.json'']) (indented True report)))
     (and_then (lift (summary_text report runs)) (\<lambda>t.
      then_do (fs_write (\<lambda>f. write_text_file f (run_root ch a @ [''summary.md'']) t))
      (ret (comparable_code report)))))"

definition main :: "compare_host \<Rightarrow> compare_args \<Rightarrow> int bc" where
  "main ch a =
     (let wanted = wanted_names (cp_configs a) in
      if unknown_names wanted \<noteq> [] then raise (SystemExit ''unknown configuration(s)'')
      else if cp_dry_run a then ret 0
      else
        then_do (fs_write (\<lambda>f. make_dirs f [] (run_root ch a)))
        (and_then (run_configs ch a (selected_configs wanted)) (write_results ch a)))"

end
