(* ===== verification/DiagnosticFacts.thy ===== *)
theory DiagnosticFacts
  imports DiagnosticCompare
begin

text \<open>
  The verdict of the diagnostic comparison, and the gap in it: the record of a gate that did not finish has no
  decision, so the summary of such a comparison cannot be written.
\<close>

definition product_verdict :: "json \<Rightarrow> bool" where
  "product_verdict r \<longleftrightarrow> status_of r = ''PASS'' \<or> status_of r = ''FAIL''"

definition run_status :: "json \<Rightarrow> bool" where
  "run_status r \<longleftrightarrow> product_verdict r \<or> status_of r = ''BLOCKED''"

lemma classify_range: "classify t \<in> {''PASS'', ''FAIL'', ''BLOCKED''}"
  by (simp add: classify_def Let_def)

lemma judged_status: "run_status (judged_record c d t)"
  using classify_range [of t] by (auto simp: run_status_def product_verdict_def status_of_def judged_record_def)

lemma blocked_status: "run_status (blocked_record c m)" "status_of (blocked_record c m) = ''BLOCKED''"
  by (simp_all add: run_status_def product_verdict_def status_of_def blocked_record_def)

lemma run_config_status:
  assumes "run_config ch a c f = (Inr r, g)"
  shows "run_status r"
proof -
  obtain f1 out err ending where gate: "ch_gate ch (gate_command c a) f = (f1, out, err, ending)"
    by (cases "ch_gate ch (gate_command c a) f") auto
  show ?thesis
  proof (cases ending)
    case (Exited n)
    with assms gate obtain t u where "judge_gate a c t u = (Inr r, g)"
      by (auto simp: run_config_def and_then_Inr then_do_Inr)
    then show ?thesis
      by (auto simp: judge_gate_def and_then_Inr intro: judged_status blocked_status split: option.splits)
  next
    case TimedOut
    with assms gate show ?thesis by (auto simp: run_config_def and_then_Inr then_do_Inr blocked_status)
  next
    case (NotStarted m)
    with assms gate show ?thesis by (auto simp: run_config_def and_then_Inr then_do_Inr)
  qed
qed

text \<open>Configurations are skipped only after a blocked one.\<close>

definition consistent_runs :: "json list \<Rightarrow> bool" where
  "consistent_runs runs \<longleftrightarrow> list_all run_status runs \<or> list_ex (\<lambda>r. status_of r = ''BLOCKED'') runs"

lemma run_configs_consistent: "run_configs ch a cs f = (Inr runs, g) \<Longrightarrow> consistent_runs runs"
proof (induction cs arbitrary: f runs)
  case (Cons c cs)
  then obtain r u where r: "run_config ch a c f = (Inr r, u)"
    and k: "(if status_of r = ''BLOCKED'' \<and> \<not> cp_run_all a then ret (r # map skipped_record cs)
       else and_then (run_configs ch a cs) (\<lambda>rs. ret (r # rs))) u = (Inr runs, g)"
    by (auto simp: and_then_Inr)
  from run_config_status [OF r] have "run_status r" .
  with k show ?case using Cons.IH [of u]
    by (auto simp: consistent_runs_def and_then_Inr split: if_splits)
qed (simp add: consistent_runs_def)

lemma comparable_iff:
  "field ''status'' (summarize runs) = JStr ''COMPARABLE'' \<longleftrightarrow>
     \<not> list_ex (\<lambda>r. status_of r = ''BLOCKED'') runs \<and> control_status runs = JStr ''FAIL''"
  by (auto simp: summarize_def verdict_def list_ex_iff filter_empty_conv split: list.split dest: filter_eq_ConsD)

text \<open>A comparison counts as comparable exactly when every configuration produced a PASS or FAIL of the
  product and the control run reproduced the crash.\<close>

theorem comparable_exactly_with_verdicts:
  "case run_configs ch a cs f of (r, g) \<Rightarrow>
     (case r of
        Inl e \<Rightarrow> True
      | Inr runs \<Rightarrow>
          field ''status'' (summarize runs) = JStr ''COMPARABLE'' \<longleftrightarrow>
            list_all product_verdict runs \<and> control_status runs = JStr ''FAIL'')"
proof (cases "run_configs ch a cs f")
  case (Pair r g)
  show ?thesis
  proof (cases r)
    case (Inr runs)
    with Pair run_configs_consistent have "consistent_runs runs" by blast
    then have "\<not> list_ex (\<lambda>r. status_of r = ''BLOCKED'') runs \<longleftrightarrow> list_all product_verdict runs"
      by (fastforce simp: consistent_runs_def run_status_def product_verdict_def list_all_iff list_ex_iff)
    with Pair Inr show ?thesis by (simp add: comparable_iff)
  qed (use Pair in simp)
qed

section \<open>A gate that does not finish\<close>

lemma row_without_decision: "row_line (blocked_record c m) = Inl (KeyError (repr_str ''decision''))"
  by (simp add: row_line_def row_cells_def blocked_record_def py_item_def)

lemma rows_without_decision:
  "blocked_record c m \<in> set runs \<Longrightarrow> \<exists>e. summary_text report runs = Inl e"
proof -
  assume "blocked_record c m \<in> set runs"
  then have "\<exists>e. map_result row_line runs = Inl e"
  proof (induction runs)
    case (Cons r rs)
    then show ?case
      by (cases "row_line r"; cases "map_result row_line rs") (auto simp: row_without_decision)
  qed simp
  then show ?thesis by (auto simp: summary_text_def)
qed

text \<open>A comparison with a gate that timed out or named no run directory ends with an exception, whatever the others did.\<close>

lemma blocked_gate_loses_the_summary:
  assumes "blocked_record c m \<in> set runs"
  shows "\<exists>e. fst (write_results ch a runs f) = Inl e"
proof (cases "write_results ch a runs f")
  case (Pair r g)
  have "r \<noteq> Inr n" for n
    using Pair rows_without_decision [OF assms]
    by (auto simp: write_results_def Let_def and_then_Inr then_do_Inr) (metis Inl_Inr_False)
  then show ?thesis using Pair by (cases r) auto
qed

lemma timed_out_record:
  "ch_gate ch (gate_command c a) f = (g, out, err, TimedOut) \<Longrightarrow> \<exists>m. run_config ch a c f = (Inr (blocked_record c m), g)"
  by (auto simp: run_config_def and_then_run then_do_def)

text \<open>C24: when the gate of the first configuration times out, the verdict is BLOCKED, as intended, but the results
  cannot be written: the summary fails on the record of this gate, which has no decision.\<close>

theorem timed_out_gate_loses_the_summary:
  assumes "ch_gate ch (gate_command c a) f = (g, out, err, TimedOut)" and "\<not> cp_run_all a"
  shows "\<exists>runs e g'. run_configs ch a (c # cs) f = (Inr runs, g) \<and>
    field ''status'' (summarize runs) = JStr ''BLOCKED'' \<and> write_results ch a runs g = (Inl e, g')"
proof -
  from timed_out_record [OF assms(1)] obtain m where r: "run_config ch a c f = (Inr (blocked_record c m), g)" by blast
  let ?runs = "blocked_record c m # map skipped_record cs"
  have "run_configs ch a (c # cs) f = (Inr ?runs, g)"
    using assms(2) by (simp add: and_then_run r blocked_status)
  moreover have "field ''status'' (summarize ?runs) = JStr ''BLOCKED''"
    by (simp add: summarize_def verdict_def blocked_status)
  moreover obtain e g' where "write_results ch a ?runs g = (Inl e, g')"
    using blocked_gate_loses_the_summary [of c m ?runs ch a g] by (cases "write_results ch a ?runs g") auto
  ultimately show ?thesis by blast
qed

definition stuck_host :: compare_host where
  "stuck_host =
     \<lparr>ch_gate_host = \<lparr>sha256 = (\<lambda>_. ''d''), iso_offset = (\<lambda>_. None), cwd = []\<rparr>, ch_gate = \<lambda>argv f. (f, [], [], TimedOut), ch_stamp = ''20260101T000000Z'',
      ch_generated = ''2026-01-01T00:00:00+00:00''\<rparr>"

definition plain_args :: compare_args where
  "plain_args =
     \<lparr>cp_repo_root = [''r''], cp_artifact_dir = [''a''], cp_report_dir = None, cp_configs = [], cp_make_args = [],
      cp_client_binary = None, cp_timeout = 900, cp_run_all = False, cp_dry_run = False\<rparr>"

lemma timed_out_gate_loses_the_summary_witness:
  "\<exists>runs e g. run_configs stuck_host plain_args configs (\<lambda>p. None) = (Inr runs, \<lambda>p. None) \<and>
     field ''status'' (summarize runs) = JStr ''BLOCKED'' \<and>
     write_results stuck_host plain_args runs (\<lambda>p. None) = (Inl e, g)"
proof -
  have "ch_gate stuck_host (gate_command (hd configs) plain_args) (\<lambda>p. None) = (\<lambda>p. None, [], [], TimedOut)"
    and "\<not> cp_run_all plain_args" by (simp_all add: stuck_host_def plain_args_def)
  from timed_out_gate_loses_the_summary [OF this, of "tl configs"] show ?thesis by (simp add: configs_def)
qed

end
