(* ===== verification/JsonBytes.thy ===== *)
theory JsonBytes
  imports JsonText
begin

text \<open>
  \<open>json.loads\<close> on \<open>bytes\<close>: the encoding is detected from a byte order mark or the pattern of the
  first zero bytes, and decoded with \<open>surrogatepass\<close>, so that encoded surrogates are accepted.
\<close>

datatype encoding = Utf8 | Utf8Sig | Utf16LE | Utf16BE | Utf32LE | Utf32BE

fun leading :: "nat list \<Rightarrow> bytes \<Rightarrow> bool" where
  "leading [] b = True"
| "leading (n # ns) [] = False"
| "leading (n # ns) (c # b) = (code c = n \<and> leading ns b)"

text \<open>A byte order mark is part of the encoding: the number of its bytes is returned with it.\<close>

definition detect_encoding :: "bytes \<Rightarrow> encoding \<times> nat" where
  "detect_encoding b =
     (let zero = (\<lambda>i. code (b ! i) = 0) in
      if leading [0, 0, 254, 255] b then (Utf32BE, 4)
      else if leading [255, 254, 0, 0] b then (Utf32LE, 4)
      else if leading [254, 255] b then (Utf16BE, 2)
      else if leading [255, 254] b then (Utf16LE, 2)
      else if leading [239, 187, 191] b then (Utf8Sig, 3)
      else if 4 \<le> length b then
        (if zero 0 then (if zero 1 then (Utf32BE, 0) else (Utf16BE, 0))
         else if zero 1 then (if zero 2 \<and> zero 3 then (Utf32LE, 0) else (Utf16LE, 0))
         else (Utf8, 0))
      else if length b = 2 then
        (if zero 0 then (Utf16BE, 0) else if zero 1 then (Utf16LE, 0) else (Utf8, 0))
      else (Utf8, 0))"

definition decode_error :: "'a result" where
  "decode_error = Inl (ValueError ''codec can't decode bytes'')"

text \<open>UTF-8 in which the three-byte forms of surrogates are allowed.\<close>

fun passed_utf8 :: "bytes \<Rightarrow> bool" where
  "passed_utf8 [] = True"
| "passed_utf8 (a # s) =
     (if code a < 128 then passed_utf8 s
      else case s of
        [] \<Rightarrow> False
      | b # s' \<Rightarrow>
          if 194 \<le> code a \<and> code a < 224 then continuation b \<and> passed_utf8 s'
          else (case s' of
            [] \<Rightarrow> False
          | c # s'' \<Rightarrow>
              if 224 \<le> code a \<and> code a < 240 then
                continuation b \<and> continuation c \<and> (code a = 224 \<longrightarrow> 160 \<le> code b) \<and> passed_utf8 s''
              else (case s'' of
                [] \<Rightarrow> False
              | d # s''' \<Rightarrow>
                  240 \<le> code a \<and> code a < 245 \<and> continuation b \<and> continuation c \<and>
                  continuation d \<and> (code a = 240 \<longrightarrow> 144 \<le> code b) \<and>
                  (code a = 244 \<longrightarrow> code b < 144) \<and> passed_utf8 s''')))"

fun units16 :: "bool \<Rightarrow> bytes \<Rightarrow> int list option" where
  "units16 big [] = Some []"
| "units16 big [a] = None"
| "units16 big (a # b # s) =
     map_option (Cons (if big then 256 * of_char a + of_char b else 256 * of_char b + of_char a))
       (units16 big s)"

fun points16 :: "int list \<Rightarrow> string" where
  "points16 [] = []"
| "points16 [u] = utf8_point u"
| "points16 (u # v # s) =
     (if 55296 \<le> u \<and> u < 56320 \<and> 56320 \<le> v \<and> v < 57344 then
        utf8_point (65536 + (u - 55296) * 1024 + (v - 56320)) @ points16 s
      else utf8_point u @ points16 (v # s))"

fun points32 :: "bool \<Rightarrow> bytes \<Rightarrow> string result" where
  "points32 big [] = Inr []"
| "points32 big (a # b # c # d # s) =
     (let n = (if big then ((of_char a * 256 + of_char b) * 256 + of_char c) * 256 + of_char d
               else ((of_char d * 256 + of_char c) * 256 + of_char b) * 256 + of_char a) :: int
      in if 1114112 \<le> n then decode_error
         else bind_result (points32 big s) (\<lambda>t. Inr (utf8_point n @ t)))"
| "points32 big _ = decode_error"

definition decode_as :: "encoding \<Rightarrow> bytes \<Rightarrow> string result" where
  "decode_as enc b =
     (case enc of
        Utf8 \<Rightarrow> if passed_utf8 b then Inr b else decode_error
      | Utf8Sig \<Rightarrow> if passed_utf8 b then Inr b else decode_error
      | Utf16LE \<Rightarrow> (case units16 False b of None \<Rightarrow> decode_error | Some us \<Rightarrow> Inr (points16 us))
      | Utf16BE \<Rightarrow> (case units16 True b of None \<Rightarrow> decode_error | Some us \<Rightarrow> Inr (points16 us))
      | Utf32LE \<Rightarrow> points32 False b
      | Utf32BE \<Rightarrow> points32 True b)"

definition loads_bytes :: "pairs_hook \<Rightarrow> constant_hook \<Rightarrow> bytes \<Rightarrow> json result" where
  "loads_bytes hook const b =
     (let (enc, mark) = detect_encoding b in
      bind_result (decode_as enc (drop mark b)) (loads hook const))"

section \<open>Plain UTF-8 text\<close>

lemma valid_passed_utf8: "valid_utf8 b \<Longrightarrow> passed_utf8 b"
proof (induction b rule: valid_utf8.induct)
  case (2 a s)
  consider "code a < 128" | b s' where "\<not> code a < 128" "s = b # s'" "194 \<le> code a \<and> code a < 224"
    | b c s' where "\<not> code a < 128" "s = b # c # s'" "\<not> (194 \<le> code a \<and> code a < 224)"
        "224 \<le> code a \<and> code a < 240"
    | b c d s' where "\<not> code a < 128" "s = b # c # d # s'" "\<not> (194 \<le> code a \<and> code a < 224)"
        "\<not> (224 \<le> code a \<and> code a < 240)"
    using "2.prems" unfolding valid_utf8.simps(2) [of a s]
    by (cases "code a < 128"; cases s; cases "tl s"; cases "tl (tl s)")
      (simp_all split: if_splits)
  then show ?case
  proof cases
    case 1 with 2 show ?thesis by simp
  next
    case 2 with "2.prems" "2.IH"(2) show ?thesis by simp
  next
    case 3 with "2.prems" "2.IH"(3) show ?thesis by simp
  next
    case 4 with "2.prems" "2.IH"(4) show ?thesis by simp
  qed
qed simp

text \<open>A text that starts with two nonzero ASCII bytes is read as it is.\<close>

lemma loads_bytes_ascii:
  assumes "valid_utf8 (a # b # s)" and "0 < code a" "code a < 128" "0 < code b" "code b < 128"
  shows "loads_bytes hook const (a # b # s) = loads hook const (a # b # s)"
proof -
  have "detect_encoding (a # b # s) = (Utf8, 0)"
    using assms(2-) by (simp add: detect_encoding_def)
  with valid_passed_utf8 [OF assms(1)] show ?thesis
    by (simp add: loads_bytes_def decode_as_def del: passed_utf8.simps)
qed

end
