(* ===== verification/RuntimeChecks.thy ===== *)
theory RuntimeChecks
  imports FileOps PyNumber JsonBytes Bytes
begin

text \<open>
  The pure checks of \<open>scripts/carla/check_carla_runtime.py\<close>: the stages, the provenance file, the
  client binary, the version policy, world snapshots, sensor packets, camera images and LiDAR
  clouds. What the simulator's objects hold is dynamic, so their attributes are \<open>json\<close> values and
  every type test of the code is kept.
\<close>

section \<open>Constants\<close>

definition stages :: "(string \<times> string \<times> string) list" where
  "stages =
     [(''rpc'', ''carla-runtime-rpc'',
       ''Endpoint CARLA RPC/world/synchronous ticks and observed client architecture; server architecture/build, sensors and ROS/Autoware unverified''),
      (''sensors'', ''carla-runtime-sensors'',
       ''Endpoint CARLA RGB/LiDAR alignment/payloads and observed client architecture; server architecture/build, GPU/backend and ROS/Autoware unverified''),
      (''actors'', ''carla-runtime-actors'',
       ''Endpoint CARLA Traffic Manager vehicle motion, AI walker motion, and observed client architecture; server architecture/build, sensors and ROS/Autoware unverified'')]"

definition step_seconds :: pyfloat where "step_seconds = decimal 5 100"
definition tolerance :: pyfloat where "tolerance = decimal 1 10000"
definition image_width :: int where "image_width = 320"
definition image_height :: int where "image_height = 240"
definition queue_size :: nat where "queue_size = 32"
definition max_sensor_bytes :: int where "max_sensor_bytes = 16777216"

section \<open>Dynamic values\<close>

definition finite_number :: "json \<Rightarrow> string \<Rightarrow> json result" where
  "finite_number v name =
     (if is_number v then
        bind_result (is_finite_number v) (\<lambda>ok.
          if ok then Inr v else Inl (ValueError (name @ '' must be finite'')))
      else Inl (ValueError (name @ '' must be finite'')))"

definition integer :: "json \<Rightarrow> string \<Rightarrow> int \<Rightarrow> json result" where
  "integer v name least =
     (if is_int v \<and> least \<le> int_of v then Inr v
      else Inl (ValueError (name @ '' must be an integer >= '' @ show_int least)))"

definition unique_object :: pairs_hook where
  "unique_object = distinct_dict (\<lambda>k. ''duplicate JSON key: '' @ k)"

definition invalid_constant :: constant_hook where
  "invalid_constant = reject_constant ''non-finite JSON constant: ''"

section \<open>Provenance\<close>

definition provenance_names :: "string list" where
  "provenance_names = [''carla'', ''ue'']"

definition check_source :: "json \<Rightarrow> string \<Rightarrow> unit result" where
  "check_source sources name =
     (let source = field name sources in
      bind_result (require (is_obj source) (''missing provenance source: '' @ name)) (\<lambda>_.
        each (\<lambda>k. require (text_value (field k source)) (name @ ''.'' @ k @ '' must be nonempty''))
          [''location'', ''revision'']))"

definition check_provenance :: "json \<Rightarrow> json result" where
  "check_provenance data =
     bind_result (require (is_obj data) ''provenance must be a JSON object'') (\<lambda>_.
     bind_result (require (field ''schema_version'' data = JInt 1)
       ''provenance schema_version must be integer 1'') (\<lambda>_.
     let sources = field ''sources'' data in
     bind_result (require (is_obj sources) ''provenance sources must be an object'') (\<lambda>_.
     bind_result (each (check_source sources) provenance_names) (\<lambda>_.
       Inr (JObj (map (\<lambda>n. (n, field n sources)) provenance_names))))))"

definition read_provenance :: "fs \<Rightarrow> path \<Rightarrow> json result" where
  "read_provenance f p =
     bind_result (read_bytes f p) (\<lambda>b.
     bind_result (loads_bytes unique_object invalid_constant b) check_provenance)"

section \<open>The environment\<close>

definition runtime_environment :: "fs \<Rightarrow> string \<Rightarrow> json result" where
  "runtime_environment f machine =
     (let docker = is_file f [''.dockerenv''] in
      bind_result (require (docker \<and> machine \<in> {''aarch64'', ''arm64''})
        ''production CLI requires Docker and ARM64'') (\<lambda>_.
        Inr (JObj [(''docker'', JBool docker), (''machine'', JStr machine), (''injected'', JBool False)])))"

text \<open>The attributes of a loaded module; an absent one is \<open>None\<close>.\<close>

record module_attrs =
  attr_file :: json
  attr_name :: json

definition nonempty_text :: "json \<Rightarrow> bool" where
  "nonempty_text v \<longleftrightarrow> is_str v \<and> str_of v \<noteq> []"

definition module_path :: "host \<Rightarrow> fs \<Rightarrow> module_attrs \<Rightarrow> string \<Rightarrow> path result" where
  "module_path h f m label =
     bind_result (require (nonempty_text (attr_file m)) (label @ ''.__file__ is missing'')) (\<lambda>_.
       resolve f (cwd h) (str_of (attr_file m)))"

definition snapshot_client_binary ::
  "host \<Rightarrow> fs \<Rightarrow> path \<Rightarrow> string list \<Rightarrow> module_attrs \<Rightarrow> module_attrs result \<Rightarrow> (json \<times> fs) result"
where
  "snapshot_client_binary h f work suffixes carla libcarla =
     bind_result (module_path h f carla ''carla'') (\<lambda>first.
     bind_result
       (if base_name first \<in> {''__init__.py'', ''__init__.pyc''} then
          bind_result libcarla (\<lambda>m.
          bind_result (module_path h f m ''carla.libcarla'') (\<lambda>p. Inr (m, p)))
        else Inr (carla, first)) (\<lambda>(extension, source).
     bind_result (require (nonempty_file f source \<and> list_ex (\<lambda>s. ends_with s (base_name source)) suffixes)
       ''loaded CARLA module must identify a nonempty native extension, not __init__.py'') (\<lambda>_.
     bind_result (require (nonempty_text (attr_name extension)) ''loaded CARLA module name is missing'') (\<lambda>_.
     let destination = work @ [base_name source] in
     bind_result (copy_file f source destination) (\<lambda>f'.
     bind_result (sha256_file h f' source) (\<lambda>checksum.
     bind_result (sha256_file h f' destination) (\<lambda>copied.
     bind_result (require (copied = checksum) ''client extension changed while copying evidence'') (\<lambda>_.
       Inr (JObj [(''module'', attr_name extension), (''loaded_path'', JStr (path_text source)),
              (''snapshot_path'', JStr (path_text destination)), (''sha256'', JStr checksum),
              (''scope'', JStr ''observed client extension only; endpoint/server build unverified'')],
            f')))))))))"

definition validate_versions :: "json \<Rightarrow> json \<Rightarrow> json result" where
  "validate_versions client server =
     bind_result (require (text_value client \<and> text_value server)
       ''version strings must be nonempty'') (\<lambda>_.
     bind_result (require (client = server) ''client/server version mismatch (policy: exact)'') (\<lambda>_.
       Inr (JObj [(''policy'', JStr ''exact''), (''client'', client), (''server'', server)])))"

section \<open>World snapshots\<close>

record world_snapshot =
  ws_frame :: json
  ws_stamp_frame :: json
  ws_elapsed :: json
  ws_delta :: json

definition close_to_step :: "json \<Rightarrow> bool" where
  "close_to_step v \<longleftrightarrow>
     num_le (num_abs (num_sub v (JFloat step_seconds))) (JFloat tolerance)"

definition follows :: "json \<Rightarrow> json \<Rightarrow> json \<Rightarrow> json \<Rightarrow> unit result" where
  "follows previous frame elapsed delta =
     bind_result (require (int_of frame = int_of (field ''frame'' previous) + 1)
       ''world frames are not consecutive'') (\<lambda>_.
     let before = field ''elapsed_seconds'' previous in
     bind_result (require (num_less before elapsed) ''world time is not strictly increasing'') (\<lambda>_.
     require (close_to_step (num_sub elapsed before) \<and> close_to_step delta)
       ''world timestep differs from fixed delta''))"

definition validate_snapshot ::
  "world_snapshot \<Rightarrow> json option \<Rightarrow> json \<Rightarrow> json result"
where
  "validate_snapshot s previous tick_frame =
     bind_result (integer (ws_frame s) ''snapshot frame'' 0) (\<lambda>frame.
     bind_result (integer (ws_stamp_frame s) ''timestamp frame'' 0) (\<lambda>stamp.
     bind_result (require (stamp = frame) ''snapshot/timestamp frame mismatch'') (\<lambda>_.
     bind_result (finite_number (ws_elapsed s) ''elapsed_seconds'') (\<lambda>elapsed.
     bind_result (finite_number (ws_delta s) ''delta_seconds'') (\<lambda>delta.
     bind_result (require (num_le (JInt 0) elapsed \<and> num_le (JInt 0) delta) ''negative world time'') (\<lambda>_.
     bind_result
       (if tick_frame = JNull then Inr ()
        else bind_result (integer tick_frame ''tick frame'' 0) (\<lambda>t.
          require (t = frame) ''tick/snapshot frame mismatch'')) (\<lambda>_.
     bind_result
       (case previous of None \<Rightarrow> Inr () | Some p \<Rightarrow> follows p frame elapsed delta) (\<lambda>_.
       Inr (JObj [(''frame'', frame), (''elapsed_seconds'', elapsed), (''delta_seconds'', delta)])))))))))"

section \<open>Sensor packets\<close>

record packet =
  pk_frame :: json
  pk_timestamp :: json
  pk_raw :: bytes
  pk_width :: json
  pk_height :: json

definition packet_frame :: "packet \<Rightarrow> json \<Rightarrow> unit result" where
  "packet_frame p world =
     bind_result (integer (pk_frame p) ''sensor frame'' 0) (\<lambda>frame.
     bind_result (require (frame = field ''frame'' world) ''sensor/world frame mismatch'') (\<lambda>_.
     bind_result (finite_number (pk_timestamp p) ''sensor timestamp'') (\<lambda>stamp.
       require (num_le (num_abs (num_sub stamp (field ''elapsed_seconds'' world))) (JFloat tolerance))
         ''sensor/world timestamp mismatch'')))"

definition payload :: "packet \<Rightarrow> bytes result" where
  "payload p =
     bind_result (require (int (length (pk_raw p)) \<le> max_sensor_bytes)
       ''sensor payload exceeds size limit'') (\<lambda>_. Inr (pk_raw p))"

text \<open>\<open>data[k::4]\<close>.\<close>

fun every_fourth :: "nat \<Rightarrow> 'a list \<Rightarrow> 'a list" where
  "every_fourth k [] = []"
| "every_fourth 0 (x # xs) = x # every_fourth 3 xs"
| "every_fourth (Suc k) (x # xs) = every_fourth k xs"

fun uniform :: "'a list \<Rightarrow> bool" where
  "uniform [] = True"
| "uniform (x # xs) = list_all (\<lambda>y. y = x) xs"

definition validate_image :: "host \<Rightarrow> bytes \<Rightarrow> json \<Rightarrow> json \<Rightarrow> json result" where
  "validate_image h b width height =
     bind_result (integer width ''image width'' 1) (\<lambda>_.
     bind_result (integer height ''image height'' 1) (\<lambda>_.
     bind_result (require (width = JInt image_width \<and> height = JInt image_height)
       ''camera dimensions differ from requested dimensions'') (\<lambda>_.
     bind_result (require (int (length b) = int_of width * int_of height * 4)
       ''BGRA payload size mismatch'') (\<lambda>_.
     let channels = [every_fourth 0 b, every_fourth 1 b, every_fourth 2 b] in
     bind_result (require (list_ex (\<lambda>c. \<not> uniform c) channels)
       ''spatially constant RGB image (alpha ignored)'') (\<lambda>_.
       Inr (JObj [(''width'', width), (''height'', height), (''bytes'', JInt (int (length b))),
              (''rgb_sha256'', JStr (sha256 h (concat channels))),
              (''bgra_sha256'', JStr (sha256 h b))]))))))"

text \<open>A binary32 value from its bits; every one of them is a binary64 value.\<close>

definition float32_val :: "32 word \<Rightarrow> pyfloat" where
  "float32_val w =
     (let n = uint w; neg = (2147483648 \<le> n); e = n div 8388608 mod 256; m = n mod 8388608 in
      if e = 255 then (if m = 0 then (if neg then NegInf else PosInf) else NaN)
      else if e = 0 \<and> m = 0 then (if neg then NegZero else Fin 0)
      else
        let q = (if e = 0 then of_int m * pow2 (- 149) else of_int (8388608 + m) * pow2 (e - 150))
        in Fin (if neg then - q else q))"

definition radius_squared :: "pyfloat \<Rightarrow> pyfloat \<Rightarrow> pyfloat \<Rightarrow> pyfloat" where
  "radius_squared x y z = float_add (float_add (float_mul x x) (float_mul y y)) (float_mul z z)"

definition lidar_point :: "32 word \<times> 32 word \<times> 32 word \<times> 32 word \<Rightarrow> pyfloat \<Rightarrow> pyfloat result" where
  "lidar_point p best =
     (case p of (a, b, c, d) \<Rightarrow>
       let x = float32_val a; y = float32_val b; z = float32_val c; i = float32_val d in
       bind_result (require (list_all is_finite [x, y, z, i]) ''non-finite LiDAR point'') (\<lambda>_.
         Inr (float_max best (radius_squared x y z))))"

fun quads :: "'a list \<Rightarrow> ('a \<times> 'a \<times> 'a \<times> 'a) list" where
  "quads (a # b # c # d # s) = (a, b, c, d) # quads s"
| "quads _ = []"

definition validate_lidar :: "host \<Rightarrow> bytes \<Rightarrow> json result" where
  "validate_lidar h b =
     bind_result (require (b \<noteq> [] \<and> length b mod 16 = 0)
       ''LiDAR payload must contain nonempty XYZI float32 points'') (\<lambda>_.
     bind_result (fold_result lidar_point (quads (words_of b)) (Fin 0)) (\<lambda>best.
     bind_result (require (float_less (decimal 1 1000000000000) best)
       ''LiDAR contains only zero-range points'') (\<lambda>_.
       Inr (JObj [(''points'', JInt (int (length b div 16))), (''bytes'', JInt (int (length b))),
              (''format'', JStr ''little-endian float32 XYZI''), (''sha256'', JStr (sha256 h b))]))))"

end
