(* ===== verification/AlignedQueue.thy ===== *)
theory AlignedQueue
  imports RuntimeChecks
begin

text \<open>
  \<open>AlignedQueue\<close> of \<open>check_carla_runtime.py\<close>: a bounded queue between the simulator's sensor
  callback and the tick loop. Callbacks run in threads of their own, so one may be interrupted between any two
  accesses to the object: \<open>call_step\<close> is one access, and \<open>aq_calls\<close> holds the callbacks in progress,
  each at the access it makes next. The consumer \<open>frame\<close> takes a schedule that says, for each
  turn of its loop, whether the deadline has passed and which accesses callbacks make before and
  during the wait; the schedule is arbitrary. A second model of the same object is the step relation
  \<open>queue_step\<close>, in which accesses of callbacks, takes and \<open>close\<close> interleave freely; its invariants
  are proved by rule induction.
\<close>

text \<open>A callback, by the access it makes next; the two \<open>Record\<close> points are the assignments of \<open>failure\<close>.\<close>

datatype call =
    ReadFailure packet
  | ReadOverflow packet
  | RecordDetected
  | ReadClosed packet
  | Put packet
  | SetOverflow packet
  | RecordOverflow packet

record aligned_queue =
  aq_items :: "packet list"
  aq_overflow :: bool
  aq_failure :: "py_error option"
  aq_closed :: bool
  aq_stale :: nat
  aq_calls :: "call list"

definition new_queue :: aligned_queue where
  "new_queue =
     \<lparr>aq_items = [], aq_overflow = False, aq_failure = None, aq_closed = False, aq_stale = 0, aq_calls = []\<rparr>"

section \<open>The callback\<close>

text \<open>
  The next access of \<open>__call__\<close>, and where the callback is after it; \<open>None\<close> when it has returned.
  \<open>put_nowait\<close> holds the lock of the queue, and raises \<open>queue.Full\<close> at \<open>QUEUE_SIZE\<close> items.
\<close>

fun call_step :: "call \<Rightarrow> aligned_queue \<Rightarrow> call option \<times> aligned_queue" where
  "call_step (ReadFailure p) q = (if aq_failure q \<noteq> None then None else Some (ReadOverflow p), q)"
| "call_step (ReadOverflow p) q = (Some (if aq_overflow q then RecordDetected else ReadClosed p), q)"
| "call_step RecordDetected q =
     (None, q\<lparr>aq_failure := Some (ValueError ''sensor queue overflow detected before packet enqueue'')\<rparr>)"
| "call_step (ReadClosed p) q = (if aq_closed q then None else Some (Put p), q)"
| "call_step (Put p) q =
     (if length (aq_items q) < queue_size then (None, q\<lparr>aq_items := aq_items q @ [p]\<rparr>)
      else (Some (SetOverflow p), q))"
| "call_step (SetOverflow p) q = (Some (RecordOverflow p), q\<lparr>aq_overflow := True\<rparr>)"
| "call_step (RecordOverflow p) q =
     (None, q\<lparr>aq_failure := Some (ValueError (''sensor queue overflow while receiving frame '' @ str_json (pk_frame p)))\<rparr>)"

text \<open>A callback that nothing interrupts.\<close>

fun accesses_left :: "call \<Rightarrow> nat" where
  "accesses_left (ReadFailure p) = 6"
| "accesses_left (ReadOverflow p) = 5"
| "accesses_left (ReadClosed p) = 4"
| "accesses_left (Put p) = 3"
| "accesses_left (SetOverflow p) = 2"
| "accesses_left _ = 1"

function run_call :: "call \<Rightarrow> aligned_queue \<Rightarrow> aligned_queue" where
  "run_call c q = (case call_step c q of (None, q') \<Rightarrow> q' | (Some c', q') \<Rightarrow> run_call c' q')"
  by pat_completeness auto

lemma accesses_decrease: "call_step c q = (Some c', q') \<Longrightarrow> accesses_left c' < accesses_left c"
  by (cases c) (auto split: if_splits)

termination run_call
  by (relation "measure (\<lambda>(c, q). accesses_left c)") (auto dest: accesses_decrease [OF sym])

declare run_call.simps [simp del]

definition deliver :: "packet \<Rightarrow> aligned_queue \<Rightarrow> aligned_queue" where
  "deliver p q = run_call (ReadFailure p) q"

text \<open>What other threads do to the object: a whole callback, the start of one, or the next access of one.\<close>

datatype arrival = Whole packet | Begin packet | Advance nat

definition replace_call :: "nat \<Rightarrow> call option \<Rightarrow> call list \<Rightarrow> call list" where
  "replace_call i next cs = take i cs @ (case next of None \<Rightarrow> [] | Some c \<Rightarrow> [c]) @ drop (Suc i) cs"

definition advance :: "nat \<Rightarrow> aligned_queue \<Rightarrow> aligned_queue" where
  "advance i q =
     (if i < length (aq_calls q) then
        (case call_step (aq_calls q ! i) q of
           (next, q') \<Rightarrow> q'\<lparr>aq_calls := replace_call i next (aq_calls q)\<rparr>)
      else q)"

fun arrive :: "arrival \<Rightarrow> aligned_queue \<Rightarrow> aligned_queue" where
  "arrive (Whole p) q = deliver p q"
| "arrive (Begin p) q = q\<lparr>aq_calls := aq_calls q @ [ReadFailure p]\<rparr>"
| "arrive (Advance i) q = advance i q"

definition deliver_all :: "arrival list \<Rightarrow> aligned_queue \<Rightarrow> aligned_queue" where
  "deliver_all ms q = fold arrive ms q"

definition close_queue :: "aligned_queue \<Rightarrow> aligned_queue" where
  "close_queue q = q\<lparr>aq_closed := True\<rparr>"

definition check_failure :: "aligned_queue \<Rightarrow> unit result" where
  "check_failure q =
     (case aq_failure q of
        Some e \<Rightarrow> Inl e
      | None \<Rightarrow> if aq_overflow q then Inl (ValueError ''sensor queue overflow'') else Inr ())"

text \<open>The four outcomes of a callback without interruption.\<close>

lemma deliver_unfold [code]:
  "deliver p q =
     (if aq_failure q \<noteq> None then q
      else if aq_overflow q then
        q\<lparr>aq_failure := Some (ValueError ''sensor queue overflow detected before packet enqueue'')\<rparr>
      else if aq_closed q then q
      else if length (aq_items q) < queue_size then q\<lparr>aq_items := aq_items q @ [p]\<rparr>
      else q\<lparr>aq_overflow := True,
             aq_failure := Some (ValueError
               (''sensor queue overflow while receiving frame '' @ str_json (pk_frame p)))\<rparr>)"
  by (simp add: deliver_def run_call.simps)

section \<open>The consumer\<close>

text \<open>
  One turn of the loop as the outside world shapes it: what callbacks do before the overflow test,
  whether the deadline has passed, and what they do during \<open>queue.get(timeout=...)\<close>.
\<close>

record turn =
  before_get :: "arrival list"
  expired :: bool
  during_get :: "arrival list"

text \<open>
  \<open>queue.get\<close>: the head of the queue, or the first packet that is put while it waits; \<open>None\<close> is
  \<open>queue.Empty\<close>. What is left of \<open>arriving\<close> happens before the caller looks at the object again.
\<close>

fun get_packet :: "arrival list \<Rightarrow> aligned_queue \<Rightarrow> packet option \<times> aligned_queue" where
  "get_packet [] q =
     (case aq_items q of [] \<Rightarrow> (None, q) | p # ps \<Rightarrow> (Some p, q\<lparr>aq_items := ps\<rparr>))"
| "get_packet (m # ms) q =
     (case aq_items q of
        [] \<Rightarrow> get_packet ms (arrive m q)
      | p # ps \<Rightarrow> (Some p, deliver_all (m # ms) (q\<lparr>aq_items := ps\<rparr>)))"

definition timed_out :: "int \<Rightarrow> 'a result" where
  "timed_out expected =
     Inl (ValueError (''sensor timeout waiting for frame '' @ show_int expected))"

fun frame_loop :: "int \<Rightarrow> turn list \<Rightarrow> aligned_queue \<Rightarrow> packet result \<times> aligned_queue" where
  "frame_loop expected [] q =
     (if aq_overflow q then (Inl (ValueError ''sensor queue overflow''), q) else (timed_out expected, q))"
| "frame_loop expected (t # ts) q0 =
     (let q = deliver_all (before_get t) q0 in
      if aq_overflow q then (Inl (ValueError ''sensor queue overflow''), q)
      else if expired t then (timed_out expected, q)
      else
        (case get_packet (during_get t) q of
           (None, q') \<Rightarrow> (timed_out expected, q')
         | (Some p, q') \<Rightarrow>
             (case integer (pk_frame p) ''sensor frame'' 0 of
                Inl e \<Rightarrow> (Inl e, q')
              | Inr _ \<Rightarrow>
                  if int_of (pk_frame p) < expected then
                    frame_loop expected ts (q'\<lparr>aq_stale := aq_stale q' + 1\<rparr>)
                  else if int_of (pk_frame p) \<noteq> expected then
                    (Inl (ValueError ''sensor delivered a future/misaligned frame''), q')
                  else if aq_overflow q' then (Inl (ValueError ''sensor queue overflow''), q')
                  else (Inr p, q'))))"

definition frame :: "int \<Rightarrow> turn list \<Rightarrow> aligned_queue \<Rightarrow> packet result \<times> aligned_queue" where
  "frame expected turns q =
     (case check_failure q of Inl e \<Rightarrow> (Inl e, q) | Inr _ \<Rightarrow> frame_loop expected turns q)"

section \<open>The object between two accesses\<close>

text \<open>The accesses that set \<open>overflow\<close> and \<open>failure\<close> are apart, so one may be set without the other.\<close>

definition recording :: "call \<Rightarrow> bool" where
  "recording c \<longleftrightarrow> (case c of RecordOverflow _ \<Rightarrow> True | _ \<Rightarrow> False)"

definition queue_ok :: "aligned_queue \<Rightarrow> bool" where
  "queue_ok q \<longleftrightarrow>
     length (aq_items q) \<le> queue_size \<and>
     (aq_overflow q \<longleftrightarrow> aq_failure q \<noteq> None \<or> (\<exists>c\<in>set (aq_calls q). recording c)) \<and>
     (RecordDetected \<in> set (aq_calls q) \<longrightarrow> aq_overflow q)"

lemma recording_simps [simp]:
  "\<not> recording (ReadFailure p)" "\<not> recording (ReadOverflow p)" "\<not> recording RecordDetected"
  "\<not> recording (ReadClosed p)" "\<not> recording (Put p)" "\<not> recording (SetOverflow p)" "recording (RecordOverflow p)"
  by (simp_all add: recording_def)

lemma call_step_keeps [simp]:
  "aq_calls (snd (call_step c q)) = aq_calls q" "aq_stale (snd (call_step c q)) = aq_stale q"
  "aq_closed (snd (call_step c q)) = aq_closed q"
  by (cases c; simp)+

lemma call_step_ok:
  assumes "queue_ok q" and "aq_calls q = us @ c # vs"
  shows "queue_ok ((snd (call_step c q))\<lparr>aq_calls := us @ (case fst (call_step c q) of None \<Rightarrow> [] | Some d \<Rightarrow> [d]) @ vs\<rparr>)"
proof -
  define cs where "cs = set us \<union> set vs"
  have "length (aq_items q) \<le> queue_size"
    and "aq_overflow q \<longleftrightarrow> aq_failure q \<noteq> None \<or> recording c \<or> (\<exists>d\<in>cs. recording d)"
    and "c = RecordDetected \<or> RecordDetected \<in> cs \<longrightarrow> aq_overflow q"
    using assms by (auto simp: queue_ok_def cs_def)
  moreover have iff: "queue_ok (r\<lparr>aq_calls := us @ ds @ vs\<rparr>) \<longleftrightarrow>
      length (aq_items r) \<le> queue_size \<and>
      (aq_overflow r \<longleftrightarrow> aq_failure r \<noteq> None \<or> (\<exists>d\<in>set ds. recording d) \<or> (\<exists>d\<in>cs. recording d)) \<and>
      (RecordDetected \<in> set ds \<or> RecordDetected \<in> cs \<longrightarrow> aq_overflow r)" for r ds
    by (auto simp: queue_ok_def cs_def)
  ultimately show ?thesis by (simp only: iff) (cases c; auto)
qed

lemma advance_ok: "queue_ok q \<Longrightarrow> queue_ok (advance i q)"
proof (cases "i < length (aq_calls q)")
  case True
  assume "queue_ok q"
  have "aq_calls q = take i (aq_calls q) @ aq_calls q ! i # drop (Suc i) (aq_calls q)"
    using True by (rule id_take_nth_drop)
  from call_step_ok [OF \<open>queue_ok q\<close> this] True show ?thesis
    by (simp add: advance_def replace_call_def split_def)
qed (simp add: advance_def)

lemma deliver_ok: "queue_ok q \<Longrightarrow> queue_ok (deliver p q)"
  by (auto simp: queue_ok_def deliver_unfold)

lemma begin_ok: "queue_ok q \<Longrightarrow> queue_ok (q\<lparr>aq_calls := aq_calls q @ [ReadFailure p]\<rparr>)"
  by (auto simp: queue_ok_def)

lemma arrive_ok: "queue_ok q \<Longrightarrow> queue_ok (arrive m q)"
  by (cases m) (simp_all add: deliver_ok advance_ok begin_ok)

lemma deliver_all_ok: "queue_ok q \<Longrightarrow> queue_ok (deliver_all ms q)"
  unfolding deliver_all_def by (induction ms arbitrary: q) (auto intro: arrive_ok)

lemma call_step_appends: "\<exists>new. aq_items (snd (call_step c q)) = aq_items q @ new"
  by (cases c) auto

lemma arrive_appends: "\<exists>new. aq_items (arrive m q) = aq_items q @ new"
proof (cases m)
  case (Advance i)
  then show ?thesis
    using call_step_appends [of "aq_calls q ! i" q] by (auto simp: advance_def split: prod.split)
qed (auto simp: deliver_unfold)

lemma arrive_stale [simp]: "aq_stale (arrive m q) = aq_stale q"
proof (cases m)
  case (Advance i)
  then show ?thesis
    using call_step_keeps(2) [of "aq_calls q ! i" q]
    by (cases "call_step (aq_calls q ! i) q") (auto simp: advance_def simp del: call_step_keeps)
qed (auto simp: deliver_unfold)

lemma deliver_all_stale [simp]: "aq_stale (deliver_all ms q) = aq_stale q"
  unfolding deliver_all_def by (induction ms arbitrary: q) auto

text \<open>A failure may be replaced by a later one, but it does not go away.\<close>

lemma arrive_failed: "aq_failure q \<noteq> None \<Longrightarrow> aq_failure (arrive m q) \<noteq> None"
proof (cases m)
  case (Advance i)
  assume "aq_failure q \<noteq> None"
  then have "aq_failure (snd (call_step (aq_calls q ! i) q)) \<noteq> None" by (cases "aq_calls q ! i") auto
  with Advance \<open>aq_failure q \<noteq> None\<close> show ?thesis by (auto simp: advance_def split: prod.split)
qed (auto simp: deliver_unfold)

section \<open>Interleaving\<close>

text \<open>
  The steps of all threads, in any order: an access of a callback, a take by the consumer, what it does with
  the packet it holds (count it as stale, or leave \<open>frame\<close>), closing. \<open>given\<close> records the packets
  that were put and \<open>taken\<close> those that went out.
\<close>

record trace =
  obj :: aligned_queue
  given :: "packet list"
  taken :: "packet list"
  held :: "packet option"

definition arrived :: "arrival \<Rightarrow> trace \<Rightarrow> trace" where
  "arrived m s =
     s\<lparr>obj := arrive m (obj s),
       given := given s @ drop (length (aq_items (obj s))) (aq_items (arrive m (obj s)))\<rparr>"

inductive queue_step :: "trace \<Rightarrow> trace \<Rightarrow> bool" where
  callback: "queue_step s (arrived m s)"
| take_packet:
    "held s = None \<Longrightarrow> aq_items (obj s) = p # ps \<Longrightarrow>
     queue_step s (s\<lparr>obj := (obj s)\<lparr>aq_items := ps\<rparr>, taken := taken s @ [p], held := Some p\<rparr>)"
| count_stale:
    "held s = Some p \<Longrightarrow> queue_step s (s\<lparr>obj := (obj s)\<lparr>aq_stale := aq_stale (obj s) + 1\<rparr>, held := None\<rparr>)"
| hand_over: "held s = Some p \<Longrightarrow> queue_step s (s\<lparr>held := None\<rparr>)"
| close_it: "queue_step s (s\<lparr>obj := close_queue (obj s)\<rparr>)"

inductive_cases queue_stepE: "queue_step s t"

definition start :: trace where
  "start = \<lparr>obj = new_queue, given = [], taken = [], held = None\<rparr>"

definition reachable :: "trace \<Rightarrow> bool" where
  "reachable s \<longleftrightarrow> queue_step\<^sup>*\<^sup>* start s"

definition queue_inv :: "trace \<Rightarrow> bool" where
  "queue_inv s \<longleftrightarrow>
     queue_ok (obj s) \<and> given s = taken s @ aq_items (obj s) \<and>
     aq_stale (obj s) + (if held s = None then 0 else 1) \<le> length (taken s)"

lemma new_queue_ok: "queue_ok new_queue"
  by (simp add: queue_ok_def new_queue_def queue_size_def)

lemma queue_inv_start: "queue_inv start"
  using new_queue_ok by (simp add: queue_inv_def start_def) (simp add: new_queue_def)

lemma queue_inv_step: "queue_step s t \<Longrightarrow> queue_inv s \<Longrightarrow> queue_inv t"
proof (induction rule: queue_step.induct)
  case (callback s m)
  then show ?case using arrive_ok [of "obj s" m] arrive_appends [of m "obj s"]
    by (auto simp: queue_inv_def arrived_def)
qed (auto simp: queue_inv_def queue_ok_def close_queue_def)

lemma reachable_inv: "reachable s \<Longrightarrow> queue_inv s"
  unfolding reachable_def
  by (induction rule: rtranclp_induct) (auto intro: queue_inv_start queue_inv_step)

lemma reachable_arrived: "reachable s \<Longrightarrow> reachable (arrived m s)"
  unfolding reachable_def by (erule rtranclp.rtrancl_into_rtrancl) (rule queue_step.callback)

lemma failure_remains: "queue_step\<^sup>*\<^sup>* s t \<Longrightarrow> aq_failure (obj s) \<noteq> None \<Longrightarrow> aq_failure (obj t) \<noteq> None"
proof (induction rule: rtranclp_induct)
  case (step t u)
  from step.hyps(2) step.IH [OF step.prems] show ?case
    by (induction rule: queue_step.induct) (simp_all add: arrived_def close_queue_def arrive_failed del: not_None_eq)
qed

section \<open>The consumer's promise\<close>

lemma get_packet_ok:
  "queue_ok q \<Longrightarrow> get_packet ms q = (r, q') \<Longrightarrow> queue_ok q' \<and> aq_stale q' = aq_stale q"
proof (induction ms q arbitrary: r q' rule: get_packet.induct)
  case (2 m ms q)
  have pop: "aq_items q = p # ps \<Longrightarrow> queue_ok (q\<lparr>aq_items := ps\<rparr>)" for p ps
    using 2(2) by (auto simp: queue_ok_def)
  show ?case
  proof (cases "aq_items q")
    case Nil
    with 2(1) [OF Nil arrive_ok [OF 2(2)]] 2(3) show ?thesis by simp
  next
    case (Cons p ps)
    with 2(3) have "q' = deliver_all (m # ms) (q\<lparr>aq_items := ps\<rparr>)" by simp
    then show ?thesis using deliver_all_ok [OF pop [OF Cons]] by (simp only: deliver_all_stale) simp
  qed
qed (auto simp: queue_ok_def split: list.splits)

lemma frame_loop_ok:
  "queue_ok q \<Longrightarrow> frame_loop expected turns q = (r, q') \<Longrightarrow>
     queue_ok q' \<and>
     (\<forall>p. r = Inr p \<longrightarrow> pk_frame p = JInt expected \<and> 0 \<le> expected \<and>
        \<not> aq_overflow q' \<and> aq_failure q' = None)"
proof (induction expected turns q arbitrary: r q' rule: frame_loop.induct)
  case (1 expected q)
  then show ?case by (auto simp: timed_out_def split: if_splits)
next
  case (2 expected t ts q0)
  let ?q = "deliver_all (before_get t) q0"
  have ok: "queue_ok ?q" using 2(2) by (rule deliver_all_ok)
  show ?case
  proof (cases "aq_overflow ?q \<or> expired t")
    case True
    with 2(3) ok show ?thesis by (auto simp: Let_def timed_out_def split: if_splits)
  next
    case False
    obtain g q1 where g: "get_packet (during_get t) ?q = (g, q1)" by fastforce
    note q1 = conjunct1 [OF get_packet_ok [OF ok g]]
    show ?thesis
    proof (cases g)
      case None
      with 2(3) False g q1 show ?thesis by (auto simp: Let_def timed_out_def)
    next
      case (Some p)
      show ?thesis
      proof (cases "is_int (pk_frame p) \<and> 0 \<le> int_of (pk_frame p) \<and> int_of (pk_frame p) < expected")
        case True
        have "queue_ok (q1\<lparr>aq_stale := aq_stale q1 + 1\<rparr>)" using q1 by (auto simp: queue_ok_def)
        moreover have "frame_loop expected ts (q1\<lparr>aq_stale := aq_stale q1 + 1\<rparr>) = (r, q')"
          using 2(3) False g Some True by (simp add: Let_def integer_def)
        ultimately show ?thesis
          using 2(1) [of ?q g q1 p "pk_frame p"] False g Some True by (auto simp: integer_def)
      next
        case loop: False
        with 2(3) False g Some q1 show ?thesis
          by (auto simp: Let_def integer_def is_int_iff queue_ok_def split: if_splits)
      qed
    qed
  qed
qed

lemma frame_ok:
  assumes "queue_ok q" and "frame expected turns q = (Inr p, q')"
  shows "pk_frame p = JInt expected" and "\<not> aq_overflow q'" and "aq_failure q = None" and "queue_ok q'"
  using assms frame_loop_ok [OF assms(1)]
  by (auto simp: frame_def check_failure_def split: sum.splits option.splits if_splits)

section \<open>Properties\<close>

text \<open>C17: in every state reachable by any interleaving of the accesses of callbacks with takes and closing,
  the queue holds at most 32 packets, the packets put are exactly the packets taken followed by the packets
  waiting, in order, and \<open>overflow\<close> is set exactly when a failure is recorded or a callback in progress is
  about to record it; so no overflow goes unrecorded once the callbacks have returned.\<close>

theorem queue_invariant:
  assumes "reachable s"
  shows "length (aq_items (obj s)) \<le> 32 \<and> given s = taken s @ aq_items (obj s) \<and>
    (aq_overflow (obj s) \<longleftrightarrow>
       aq_failure (obj s) \<noteq> None \<or> (\<exists>p. RecordOverflow p \<in> set (aq_calls (obj s)))) \<and>
    aq_stale (obj s) \<le> length (taken s)"
proof -
  have "recording c \<longleftrightarrow> (\<exists>p. c = RecordOverflow p)" for c by (cases c) auto
  with reachable_inv [OF assms] show ?thesis
    by (auto simp: queue_inv_def queue_ok_def queue_size_def)
qed

definition pkt :: "int \<Rightarrow> packet" where
  "pkt n = \<lparr>pk_frame = JInt n, pk_timestamp = JInt 0, pk_raw = [], pk_width = JNull, pk_height = JNull\<rparr>"

text \<open>The accesses of one callback, one by one.\<close>

definition accesses :: "packet \<Rightarrow> arrival list" where
  "accesses p = [Begin p, Advance 0, Advance 0, Advance 0, Advance 0]"

definition one_given :: trace where
  "one_given = fold arrived (accesses (pkt 3)) start"

lemma queue_invariant_witness:
  "reachable one_given \<and> given one_given = [pkt 3] \<and> length (aq_items (obj one_given)) \<le> 32 \<and>
   given one_given = taken one_given @ aq_items (obj one_given)"
proof -
  have "reachable (fold arrived ms s)" if "reachable s" for ms s
    using that by (induction ms arbitrary: s) (auto intro: reachable_arrived)
  then have r: "reachable one_given" by (simp add: one_given_def reachable_def start_def)
  have "given one_given = [pkt 3]"
    by (simp add: one_given_def accesses_def arrived_def start_def new_queue_def advance_def replace_call_def
        queue_size_def)
  with r queue_invariant [OF r] show ?thesis by blast
qed

text \<open>
  The comment in \<open>__call__\<close> promises that the first error stays. It does not when two callbacks overlap: the
  second read \<open>failure\<close> before the first recorded its overflow, and replaces it.
\<close>

definition full_queue :: aligned_queue where
  "full_queue = new_queue\<lparr>aq_items := replicate 32 (pkt 0)\<rparr>"

definition first_overflow :: "arrival list" where
  "first_overflow = [Begin (pkt 7), Begin (pkt 8), Advance 1] @ replicate 6 (Advance 0)"

lemma first_error_is_replaced:
  "aq_failure (deliver_all first_overflow full_queue) \<noteq> None \<and>
   aq_failure (deliver_all (first_overflow @ [Advance 0, Advance 0]) full_queue)
     \<noteq> aq_failure (deliver_all first_overflow full_queue)"
  by (simp add: deliver_all_def first_overflow_def full_queue_def new_queue_def advance_def replace_call_def
      queue_size_def pkt_def numeral_eq_Suc)

text \<open>C18: whatever the callback delivers and whenever the deadline passes, a packet that \<open>frame\<close>
  returns has exactly the expected frame number, and it is returned only if the queue had not
  failed before the call and has not overflowed during it.\<close>

theorem frame_is_aligned:
  assumes "queue_ok q" and "frame expected turns q = (Inr p, q')"
  shows "pk_frame p = JInt expected \<and> aq_failure q = None \<and> \<not> aq_overflow q' \<and> queue_ok q'"
  using frame_ok [OF assms] by blast

definition two_turns :: "turn list" where
  "two_turns = [\<lparr>before_get = [], expired = False, during_get = accesses (pkt 4)\<rparr>,
                \<lparr>before_get = [Whole (pkt 5)], expired = False, during_get = []\<rparr>]"

lemma frame_is_aligned_witness:
  "\<exists>p q'. frame 5 two_turns new_queue = (Inr p, q') \<and> pk_frame p = JInt 5 \<and> aq_stale q' = 1"
proof -
  have run: "frame 5 two_turns new_queue
    = (Inr (pkt 5), new_queue\<lparr>aq_stale := 1\<rparr>)"
    by (simp add: frame_def two_turns_def accesses_def new_queue_def check_failure_def deliver_all_def deliver_unfold
        advance_def replace_call_def integer_def pkt_def queue_size_def)
  from frame_is_aligned [OF new_queue_ok run] run show ?thesis by simp
qed

end
