(* ===== verification/Simulator.thy ===== *)
theory Simulator
  imports AlignedQueue Effects
begin

text \<open>
  The CARLA client library as \<open>check_carla_runtime.py\<close> uses it, and the state of the gate. The library
  is not part of the repository: \<open>carla_api\<close> holds one operation for every call the gate makes, each an
  effect on a simulator state of any type \<open>'w\<close> that may return any value or raise. Sensor callbacks run
  on other threads; they are drawn from the simulator at the points where the gate looks at a queue,
  which covers every interleaving. \<open>gate\<close> holds the local variables of \<open>run_gate\<close>.
\<close>

section \<open>Values of the library\<close>

record location =
  loc_x :: pyfloat
  loc_y :: pyfloat
  loc_z :: pyfloat

record transform =
  tr_location :: location
  tr_pitch :: pyfloat
  tr_yaw :: pyfloat
  tr_roll :: pyfloat

record actor =
  actor_ref :: nat
  actor_id :: json

record blueprint =
  bp_ref :: nat
  bp_id :: string

text \<open>A settings object: its identity and its attributes.\<close>

record settings =
  set_ref :: nat
  set_value :: "string \<Rightarrow> json"

record 'w carla_api =
  api_connect :: "json \<Rightarrow> json \<Rightarrow> ('w, unit) effect"
  api_set_timeout :: "json \<Rightarrow> ('w, unit) effect"
  api_client_version :: "('w, json) effect"
  api_server_version :: "('w, json) effect"
  api_get_world :: "('w, unit) effect"
  api_map_name :: "('w, json) effect"
  api_snapshot :: "('w, world_snapshot) effect"
  api_get_settings :: "('w, settings) effect"
  api_apply_settings :: "settings \<Rightarrow> json \<Rightarrow> ('w, unit) effect"
  api_same_settings :: "settings \<Rightarrow> settings \<Rightarrow> bool"
  api_tick :: "json \<Rightarrow> ('w, json) effect"
  api_spawn_points :: "('w, transform list) effect"
  api_find :: "string \<Rightarrow> ('w, blueprint) effect"
  api_filter :: "string \<Rightarrow> ('w, blueprint list) effect"
  api_has_attribute :: "blueprint \<Rightarrow> string \<Rightarrow> ('w, bool) effect"
  api_set_attribute :: "blueprint \<Rightarrow> string \<Rightarrow> string \<Rightarrow> ('w, unit) effect"
  api_spawn :: "blueprint \<Rightarrow> transform \<Rightarrow> actor option \<Rightarrow> ('w, actor option) effect"
  api_random_location :: "('w, location option) effect"
  api_traffic_manager :: "('w, nat) effect"
  api_tm_port :: "nat \<Rightarrow> ('w, json) effect"
  api_tm_synchronous :: "nat \<Rightarrow> bool \<Rightarrow> ('w, unit) effect"
  api_tm_seed :: "nat \<Rightarrow> int \<Rightarrow> ('w, unit) effect"
  api_autopilot :: "actor \<Rightarrow> bool \<Rightarrow> json \<Rightarrow> ('w, json) effect"
  api_listen :: "actor \<Rightarrow> ('w, unit) effect"
  api_set_transform :: "actor \<Rightarrow> transform \<Rightarrow> ('w, unit) effect"
  api_location :: "actor \<Rightarrow> ('w, location) effect"
  api_velocity :: "actor \<Rightarrow> ('w, location) effect"
  api_is_listening :: "actor \<Rightarrow> ('w, bool) effect"
  api_stop :: "actor \<Rightarrow> ('w, unit) effect"
  api_destroy :: "actor \<Rightarrow> ('w, json) effect"
  api_controller_start :: "actor \<Rightarrow> ('w, unit) effect"
  api_controller_go :: "actor \<Rightarrow> location \<Rightarrow> ('w, json) effect"
  api_controller_speed :: "actor \<Rightarrow> pyfloat \<Rightarrow> ('w, json) effect"
  api_controller_stop :: "actor \<Rightarrow> ('w, unit) effect"
  api_arrivals :: "string \<Rightarrow> 'w \<Rightarrow> arrival list \<times> 'w"
  api_turns :: "string \<Rightarrow> 'w \<Rightarrow> turn list \<times> 'w"

text \<open>The functions of the platform's mathematics library; their last bit is not specified.\<close>

record math_library =
  math_sin :: "pyfloat \<Rightarrow> pyfloat"
  math_sqrt :: "pyfloat \<Rightarrow> pyfloat"
  math_dist :: "location \<Rightarrow> location \<Rightarrow> pyfloat"

section \<open>The gate\<close>

record 'w gate =
  g_world :: 'w
  g_files :: fs
  g_active :: string
  g_checks :: "(string \<times> string) list"
  g_raw :: "(string \<times> json) list"
  g_errors :: "string list"
  g_cleanup :: "string list"
  g_failures :: "string list"
  g_evidence :: "(string \<times> path) list"
  g_sources :: json
  g_provenance :: "string option"
  g_owned :: "actor list"
  g_streams :: "(string \<times> aligned_queue) list"
  g_controllers :: "actor list"
  g_vehicle :: "actor option"
  g_walker :: "actor option"
  g_traffic :: "nat option"
  g_original :: "settings option"
  g_attempted :: bool
  g_samples :: "json list"
  g_ticks :: "json list"
  g_warmup :: "json list"

type_synonym ('w, 'a) step = "('w gate, 'a) effect"

definition sim :: "('w, 'a) effect \<Rightarrow> ('w, 'a) step" where
  "sim m = (\<lambda>s. case m (g_world s) of (r, w) \<Rightarrow> (r, s\<lparr>g_world := w\<rparr>))"

definition observe :: "('w \<Rightarrow> 'a \<times> 'w) \<Rightarrow> ('w, 'a) step" where
  "observe m = (\<lambda>s. case m (g_world s) of (x, w) \<Rightarrow> (Inr x, s\<lparr>g_world := w\<rparr>))"

definition do_all :: "('s, unit) effect list \<Rightarrow> ('s, unit) effect" where
  "do_all ms = do_each (\<lambda>m. m) ms"

definition do_when :: "bool \<Rightarrow> ('s, unit) effect \<Rightarrow> ('s, unit) effect" where
  "do_when c m = (if c then m else ret ())"

fun for_each :: "('a \<Rightarrow> ('s, 'b) effect) \<Rightarrow> 'a list \<Rightarrow> ('s, 'b list) effect" where
  "for_each f [] = ret []"
| "for_each f (x # xs) = and_then (f x) (\<lambda>y. and_then (for_each f xs) (\<lambda>ys. ret (y # ys)))"

definition is_exception :: "py_error \<Rightarrow> bool" where
  "is_exception e \<longleftrightarrow> (case e of SystemExit _ \<Rightarrow> False | KeyboardInterrupt \<Rightarrow> False | _ \<Rightarrow> True)"

text \<open>
  \<open>attempt\<close> is \<open>try: ... except Exception as error: cleanup_errors.append(f"...: {error}")\<close>; an interrupt
  is not an \<open>Exception\<close> and passes through. \<open>finally_do\<close> is \<open>try: ... finally: ...\<close>.
\<close>

definition attempt :: "string \<Rightarrow> ('w, unit) step \<Rightarrow> ('w, unit) step" where
  "attempt label m =
     handle m (\<lambda>e.
       if is_exception e then
         put_state (\<lambda>s. s\<lparr>g_failures := g_failures s @ [label @ '': '' @ error_text e]\<rparr>)
       else raise e)"

definition finally_do :: "('s, 'a) effect \<Rightarrow> ('s, unit) effect \<Rightarrow> ('s, 'a) effect" where
  "finally_do m c = (\<lambda>s. case m s of (r, t) \<Rightarrow> (case c t of (Inl e, u) \<Rightarrow> (Inl e, u) | (Inr _, u) \<Rightarrow> (r, u)))"

text \<open>Assignments to the locals.\<close>

definition set_active :: "string \<Rightarrow> ('w, unit) step" where
  "set_active name = put_state (\<lambda>s. s\<lparr>g_active := name\<rparr>)"

definition set_check :: "string \<Rightarrow> string \<Rightarrow> ('w, unit) step" where
  "set_check name v = put_state (\<lambda>s. s\<lparr>g_checks := dict_set name v (g_checks s)\<rparr>)"

definition pass_active :: "('w, unit) step" where
  "pass_active = put_state (\<lambda>s. s\<lparr>g_checks := dict_set (g_active s) ''PASS'' (g_checks s)\<rparr>)"

definition set_raw :: "string \<Rightarrow> json \<Rightarrow> ('w, unit) step" where
  "set_raw k v = put_state (\<lambda>s. s\<lparr>g_raw := dict_set k v (g_raw s)\<rparr>)"

definition raw_append :: "string \<Rightarrow> json \<Rightarrow> ('w, unit) step" where
  "raw_append k v = put_state (\<lambda>s.
     s\<lparr>g_raw := dict_set k (JList (list_items (field k (JObj (g_raw s))) @ [v])) (g_raw s)\<rparr>)"

definition add_error :: "string \<Rightarrow> ('w, unit) step" where
  "add_error m = put_state (\<lambda>s. s\<lparr>g_errors := g_errors s @ [m]\<rparr>)"

definition set_evidence :: "string \<Rightarrow> path \<Rightarrow> ('w, unit) step" where
  "set_evidence k p = put_state (\<lambda>s. s\<lparr>g_evidence := dict_set k p (g_evidence s)\<rparr>)"

definition add_cleanup :: "string \<Rightarrow> ('w, unit) step" where
  "add_cleanup m = put_state (\<lambda>s. s\<lparr>g_cleanup := g_cleanup s @ [m]\<rparr>)"

definition own :: "actor \<Rightarrow> ('w, unit) step" where
  "own a = then_do (put_state (\<lambda>s. s\<lparr>g_owned := g_owned s @ [a]\<rparr>))
     (raw_append ''owned_actor_ids'' (actor_id a))"

definition open_stream :: "string \<Rightarrow> ('w, unit) step" where
  "open_stream name = put_state (\<lambda>s. s\<lparr>g_streams := dict_set name new_queue (g_streams s)\<rparr>)"

definition write_file :: "path \<Rightarrow> bytes \<Rightarrow> ('w, unit) step" where
  "write_file p b = (\<lambda>s.
     case write_bytes (g_files s) p b of
       Inl e \<Rightarrow> (Inl e, s)
     | Inr f \<Rightarrow> (Inr (), s\<lparr>g_files := f\<rparr>))"

text \<open>Packets that arrive before the gate looks at a queue.\<close>

definition receive :: "'w carla_api \<Rightarrow> string \<Rightarrow> ('w, unit) step" where
  "receive a name =
     and_then (observe (api_arrivals a name)) (\<lambda>ps.
       put_state (\<lambda>s. s\<lparr>g_streams := map (\<lambda>(n, q). (n, if n = name then deliver_all ps q else q)) (g_streams s)\<rparr>))"

definition receive_all :: "'w carla_api \<Rightarrow> ('w, unit) step" where
  "receive_all a = and_then (get_state g_streams) (\<lambda>qs. do_each (receive a) (map fst qs))"

definition check_streams :: "'w carla_api \<Rightarrow> ('w, unit) step" where
  "check_streams a =
     then_do (receive_all a) (and_then (get_state g_streams) (\<lambda>qs. lift (each (\<lambda>(_, q). check_failure q) qs)))"

section \<open>Numbers\<close>

definition num_int :: "json \<Rightarrow> int option" where
  "num_int v = (case v of JInt i \<Rightarrow> Some i | JBool b \<Rightarrow> Some (if b then 1 else 0) | _ \<Rightarrow> None)"

definition to_float :: "json \<Rightarrow> pyfloat result" where
  "to_float v =
     (case num_int v of
        Some i \<Rightarrow>
          if float_val (float_of_int i) = None then Inl (OverflowError ''int too large to convert to float'')
          else Inr (float_of_int i)
      | None \<Rightarrow> (case v of JFloat x \<Rightarrow> Inr x | _ \<Rightarrow> Inl (TypeError ''unsupported operand type(s)'')))"

definition num_mul :: "json \<Rightarrow> json \<Rightarrow> json result" where
  "num_mul u v =
     (case (num_int u, num_int v) of
        (Some i, Some j) \<Rightarrow> Inr (JInt (i * j))
      | _ \<Rightarrow> bind_result (to_float u) (\<lambda>x. bind_result (to_float v) (\<lambda>y. Inr (JFloat (float_mul x y)))))"

text \<open>\<open>x ** 2\<close> on a float raises when a finite operand overflows.\<close>

definition square :: "pyfloat \<Rightarrow> pyfloat result" where
  "square x =
     (let y = float_mul x x in
      if is_finite x \<and> \<not> is_finite y then Inl (OverflowError ''Numerical result out of range'') else Inr y)"

definition norm3 :: "math_library \<Rightarrow> pyfloat \<Rightarrow> pyfloat \<Rightarrow> pyfloat \<Rightarrow> pyfloat result" where
  "norm3 m x y z =
     bind_result (square x) (\<lambda>a. bind_result (square y) (\<lambda>b. bind_result (square z) (\<lambda>c.
       Inr (math_sqrt m (float_add (float_add a b) c)))))"

definition travelled_meters :: "math_library \<Rightarrow> location \<Rightarrow> location \<Rightarrow> pyfloat result" where
  "travelled_meters m u v =
     norm3 m (float_sub (loc_x v) (loc_x u)) (float_sub (loc_y v) (loc_y u)) (float_sub (loc_z v) (loc_z u))"

definition speed :: "math_library \<Rightarrow> location \<Rightarrow> pyfloat result" where
  "speed m v = norm3 m (loc_x v) (loc_y v) (loc_z v)"

definition location_xyz :: "location \<Rightarrow> json" where
  "location_xyz l = JList [JFloat (loc_x l), JFloat (loc_y l), JFloat (loc_z l)]"

definition pose :: "transform \<Rightarrow> pyfloat \<Rightarrow> pyfloat \<Rightarrow> transform" where
  "pose base yaw_offset pitch =
     \<lparr>tr_location = (tr_location base)\<lparr>loc_z := float_add (loc_z (tr_location base)) (decimal 5 2)\<rparr>,
      tr_pitch = pitch, tr_yaw = float_add (tr_yaw base) yaw_offset, tr_roll = Fin 0\<rparr>"

end
