(* ===== verification/RuntimeSetup.thy ===== *)
theory RuntimeSetup
  imports Simulator
begin

text \<open>
  The set-up operations of \<open>check_carla_runtime.py\<close>: the settings that are recorded, the sensors, and
  the vehicle, walker and controller of the actors mode. Every actor that the simulator hands out is
  owned before anything else can fail, which the cleanup relies on.
\<close>

definition settings_fields :: "string list" where
  "settings_fields =
     [''synchronous_mode'', ''no_rendering_mode'', ''fixed_delta_seconds'', ''substepping'',
      ''max_substep_delta_time'', ''max_substeps'', ''max_culling_distance'',
      ''deterministic_ragdolls'', ''tile_stream_distance'', ''actor_active_distance'', ''spectator_as_ego'']"

definition setting_ok :: "json \<Rightarrow> string \<Rightarrow> unit result" where
  "setting_ok v name =
     (if v \<noteq> JNull \<and> \<not> is_bool v then bind_result (finite_number v name) (\<lambda>_. Inr ()) else Inr ())"

definition settings_view :: "settings \<Rightarrow> json result" where
  "settings_view st =
     bind_result (each (\<lambda>n. setting_ok (set_value st n) n) settings_fields) (\<lambda>_.
       Inr (JObj (map (\<lambda>n. (n, set_value st n)) settings_fields)))"

definition blueprint_attribute ::
  "'w carla_api \<Rightarrow> blueprint \<Rightarrow> string \<Rightarrow> string \<Rightarrow> string \<Rightarrow> ('w, unit) step"
where
  "blueprint_attribute a b name v type_id =
     and_then (sim (api_has_attribute a b name)) (\<lambda>has.
     then_do (check has (type_id @ '' missing attribute '' @ name))
       (sim (api_set_attribute a b name v)))"

text \<open>\<open>_require(x is not None, ...)\<close> in front of the uses of \<open>x\<close>.\<close>

definition present :: "'a option \<Rightarrow> string \<Rightarrow> 'a result" where
  "present v msg = (case v of Some x \<Rightarrow> Inr x | None \<Rightarrow> Inl (ValueError msg))"

definition first_of :: "'a list \<Rightarrow> string \<Rightarrow> 'a result" where
  "first_of xs msg = (case xs of x # _ \<Rightarrow> Inr x | [] \<Rightarrow> Inl (ValueError msg))"

definition spawn_owned ::
  "'w carla_api \<Rightarrow> blueprint \<Rightarrow> transform \<Rightarrow> actor option \<Rightarrow> string \<Rightarrow> ('w, actor) step"
where
  "spawn_owned a b t attach msg =
     and_then (sim (api_spawn a b t attach)) (\<lambda>r.
     and_then (lift (present r msg)) (\<lambda>x. then_do (own x) (ret x)))"

section \<open>Sensors\<close>

definition camera_attributes :: "(string \<times> string) list" where
  "camera_attributes =
     [(''image_size_x'', show_int image_width), (''image_size_y'', show_int image_height), (''fov'', ''90''),
      (''sensor_tick'', ''0''), (''enable_postprocess_effects'', ''false'')]"

definition lidar_attributes :: "(string \<times> string) list" where
  "lidar_attributes =
     [(''channels'', ''16''), (''range'', ''50''), (''points_per_second'', ''32000''),
      (''rotation_frequency'', ''20''), (''upper_fov'', ''10''), (''lower_fov'', ''-30''),
      (''sensor_tick'', ''0''), (''noise_stddev'', ''0''), (''dropoff_general_rate'', ''0'')]"

definition text_dict :: "(string \<times> string) list \<Rightarrow> json" where
  "text_dict d = JObj (map (\<lambda>(k, v). (k, JStr v)) d)"

definition sensor_attributes :: json where
  "sensor_attributes =
     JObj [(''camera'', text_dict camera_attributes), (''lidar'', text_dict lidar_attributes)]"

definition spawn_sensor ::
  "'w carla_api \<Rightarrow> transform \<Rightarrow> string \<Rightarrow> string \<Rightarrow> pyfloat \<Rightarrow> (string \<times> string) list \<Rightarrow> ('w, unit) step"
where
  "spawn_sensor a base name type_id pitch attributes =
     and_then (sim (api_find a type_id)) (\<lambda>b.
     then_do (do_each (\<lambda>(k, v). blueprint_attribute a b k v type_id) attributes)
     (and_then (spawn_owned a b (pose base (Fin 0) pitch) None (''could not spawn '' @ type_id)) (\<lambda>x.
     then_do (open_stream name) (sim (api_listen a x)))))"

definition spawn_sensors :: "'w carla_api \<Rightarrow> ('w, transform) step" where
  "spawn_sensors a =
     and_then (sim (api_spawn_points a)) (\<lambda>points.
     and_then (lift (first_of points ''sensors require map spawn points and visible geometry'')) (\<lambda>base.
     then_do (spawn_sensor a base ''camera'' ''sensor.camera.rgb'' (Fin (- 15)) camera_attributes)
     (then_do (spawn_sensor a base ''lidar'' ''sensor.lidar.ray_cast'' (Fin 0) lidar_attributes)
     (then_do (set_raw ''sensor_attributes'' sensor_attributes)
     (then_do (set_raw ''camera_motion''
        (JStr ''owned sensor yaw sweep: 30*sin(measured_tick/10) degrees''))
     (ret base))))))"

section \<open>Actors\<close>

definition pick_blueprint :: "'w carla_api \<Rightarrow> string \<Rightarrow> string \<Rightarrow> string \<Rightarrow> ('w, blueprint) step" where
  "pick_blueprint a pattern prefix msg =
     and_then (sim (api_filter a pattern)) (\<lambda>bs.
     let candidates = filter (\<lambda>b. starts_with prefix (bp_id b)) bs in
     and_then (if candidates = [] then sim (api_filter a pattern) else ret candidates) (\<lambda>cs.
       lift (first_of cs msg)))"

definition pick_vehicle_blueprint :: "'w carla_api \<Rightarrow> ('w, blueprint) step" where
  "pick_vehicle_blueprint a =
     pick_blueprint a ''vehicle.*'' ''vehicle.tesla.model3'' ''map has no vehicle blueprints''"

definition pick_walker_blueprint :: "'w carla_api \<Rightarrow> ('w, blueprint) step" where
  "pick_walker_blueprint a =
     pick_blueprint a ''walker.pedestrian.*'' ''walker.pedestrian.0001'' ''map has no walker blueprints''"

definition set_if_present :: "'w carla_api \<Rightarrow> blueprint \<Rightarrow> string \<Rightarrow> string \<Rightarrow> ('w, unit) step" where
  "set_if_present a b name v =
     and_then (sim (api_has_attribute a b name)) (\<lambda>has. do_when has (sim (api_set_attribute a b name v)))"

definition origin_transform :: transform where
  "origin_transform = \<lparr>tr_location = \<lparr>loc_x = Fin 0, loc_y = Fin 0, loc_z = Fin 0\<rparr>,
     tr_pitch = Fin 0, tr_yaw = Fin 0, tr_roll = Fin 0\<rparr>"

definition spawn_vehicle :: "'w carla_api \<Rightarrow> ('w, blueprint \<times> actor) step" where
  "spawn_vehicle a =
     and_then (sim (api_spawn_points a)) (\<lambda>points.
     and_then (lift (first_of points ''actors mode requires map vehicle spawn points'')) (\<lambda>point.
     and_then (pick_vehicle_blueprint a) (\<lambda>b.
     then_do (set_if_present a b ''role_name'' ''lavapipe_actor_gate'')
     (and_then (spawn_owned a b point None ''could not spawn Traffic Manager vehicle'') (\<lambda>v.
     ret (b, v))))))"

text \<open>A call that must not return \<open>False\<close>.\<close>

definition not_refused :: "('w, json) effect \<Rightarrow> string \<Rightarrow> ('w, unit) step" where
  "not_refused m msg = and_then (sim m) (\<lambda>r. check (r \<noteq> JBool False) msg)"

definition register_vehicle :: "'w carla_api \<Rightarrow> actor \<Rightarrow> ('w, nat \<times> json) step" where
  "register_vehicle a v =
     and_then (sim (api_traffic_manager a)) (\<lambda>tm.
     and_then (sim (api_tm_port a tm)) (\<lambda>port.
     then_do (sim (api_tm_synchronous a tm True))
     (then_do (sim (api_tm_seed a tm 1729))
     (then_do (not_refused (api_autopilot a v True port)
        ''Traffic Manager did not accept vehicle registration'')
     (ret (tm, port))))))"

text \<open>At most 20 candidates; a candidate that is not available counts as distance -1.\<close>

definition far_enough :: "math_library \<Rightarrow> location \<Rightarrow> location option \<Rightarrow> bool" where
  "far_enough m origin candidate =
     float_le (Fin 10) (case candidate of None \<Rightarrow> Fin (- 1) | Some l \<Rightarrow> math_dist m l origin)"

fun find_destination :: "'w carla_api \<Rightarrow> math_library \<Rightarrow> location \<Rightarrow> nat \<Rightarrow> ('w, location option) step" where
  "find_destination a m origin 0 = ret None"
| "find_destination a m origin (Suc n) =
     and_then (sim (api_random_location a)) (\<lambda>candidate.
       if far_enough m origin candidate then ret candidate else find_destination a m origin n)"

definition walker_route :: "'w carla_api \<Rightarrow> math_library \<Rightarrow> ('w, location \<times> location) step" where
  "walker_route a m =
     and_then (sim (api_random_location a)) (\<lambda>o1.
     and_then (lift (present o1 ''walker navigation mesh is unavailable'')) (\<lambda>origin.
     and_then (find_destination a m origin 20) (\<lambda>d.
     and_then (lift (present d ''walker navigation has no destination at least 10m away'')) (\<lambda>destination.
     ret (origin, destination)))))"

definition spawn_walker :: "'w carla_api \<Rightarrow> location \<Rightarrow> ('w, blueprint \<times> actor) step" where
  "spawn_walker a origin =
     and_then (pick_walker_blueprint a) (\<lambda>b.
     then_do (set_if_present a b ''is_invincible'' ''false'')
     (and_then (spawn_owned a b
        (origin_transform\<lparr>tr_location := origin\<lparr>loc_z := float_add (loc_z origin) (Fin 1)\<rparr>\<rparr>) None
        ''could not spawn walker'') (\<lambda>w.
     ret (b, w))))"

definition spawn_controller :: "'w carla_api \<Rightarrow> actor \<Rightarrow> location \<Rightarrow> ('w, unit) step" where
  "spawn_controller a walker destination =
     and_then (sim (api_find a ''controller.ai.walker'')) (\<lambda>b.
     and_then (spawn_owned a b origin_transform (Some walker) ''could not spawn walker AI controller'') (\<lambda>c.
     and_then (sim (api_tick a (JFloat (Fin 10)))) (\<lambda>_.
     then_do (sim (api_controller_start a c))
     (then_do (not_refused (api_controller_go a c destination)
        ''walker AI controller rejected navigation destination'')
     (not_refused (api_controller_speed a c (decimal 14 10))
        ''walker AI controller rejected maximum speed'')))))"

definition actors_record :: "blueprint \<Rightarrow> blueprint \<Rightarrow> json \<Rightarrow> location \<Rightarrow> location \<Rightarrow> json" where
  "actors_record vb wb port origin destination =
     JObj [(''vehicle_type_id'', JStr (bp_id vb)), (''walker_type_id'', JStr (bp_id wb)),
       (''traffic_manager_port'', port), (''traffic_manager_synchronous'', JBool True),
       (''traffic_manager_seed'', JInt 1729), (''walker_origin'', location_xyz origin),
       (''walker_destination'', location_xyz destination)]"

definition spawn_actors :: "'w carla_api \<Rightarrow> math_library \<Rightarrow> ('w, actor \<times> actor \<times> nat) step" where
  "spawn_actors a m =
     and_then (spawn_vehicle a) (\<lambda>(vb, vehicle).
     and_then (register_vehicle a vehicle) (\<lambda>(tm, port).
     and_then (walker_route a m) (\<lambda>(origin, destination).
     and_then (spawn_walker a origin) (\<lambda>(wb, walker).
     then_do (spawn_controller a walker destination)
     (then_do (set_raw ''actors'' (actors_record vb wb port origin destination))
     (ret (vehicle, walker, tm)))))))"

end
