(* ===== verification/RuntimeGate.thy ===== *)
theory RuntimeGate
  imports RuntimeSetup Checks
begin

text \<open>
  \<open>run_gate\<close> of \<open>check_carla_runtime.py\<close>: preparation of the run directory, the phases of the \<open>try\<close>
  block, the handler, the \<open>finally\<close> block, the re-checks of the evidence, and the report. A phase is an
  effect on the locals (\<open>gate\<close>), so that what an exception leaves behind is what the handler and the
  cleanup see. The interpreter, the machine and the mathematics library are \<open>platform\<close>; what other
  processes do to the files while the gate runs is its \<open>pl_interference\<close>. Progress messages are
  omitted. A copy that \<open>snapshot_client_binary\<close> leaves when it fails is dropped: nothing reads it.
\<close>

record gate_args =
  ga_mode :: string
  ga_run_dir :: string
  ga_provenance :: string
  ga_host :: json
  ga_port :: json
  ga_ticks :: json
  ga_timeout :: json
  ga_allow :: json
  ga_injected :: bool

record platform =
  pl_host :: host
  pl_machine :: string
  pl_suffixes :: "string list"
  pl_carla :: "module_attrs result"
  pl_libcarla :: "module_attrs result"
  pl_executable :: string
  pl_script :: path
  pl_writer :: path
  pl_temp :: string
  pl_now :: string
  pl_math :: math_library
  pl_interference :: "fs \<Rightarrow> fs"

text \<open>The values that \<open>run_gate\<close> computes before its \<open>try\<close> block.\<close>

record gate_context =
  gc_args :: gate_args
  gc_run_dir :: path
  gc_provenance :: path
  gc_work :: path
  gc_stage :: string
  gc_scope :: string

section \<open>Preparation\<close>

definition warmup_ticks :: int where "warmup_ticks = 10"
definition actor_warmup_ticks :: int where "actor_warmup_ticks = 2"
definition min_travelled_meters :: pyfloat where "min_travelled_meters = decimal 1 10"

definition required_checks :: "string \<Rightarrow> string list" where
  "required_checks mode =
     [''environment'', ''provenance'', ''permission'', ''handshake'', ''world'', ''sync-settings'', ''ticks'']
     @ (if mode = ''sensors'' then [''sensor-setup'', ''alignment'', ''camera'', ''lidar''] else [])
     @ (if mode = ''actors'' then [''actor-setup'', ''vehicle-motion'', ''walker-motion''] else [])
     @ [''cleanup'']"

definition stage_and_scope :: "string \<Rightarrow> bool \<Rightarrow> (string \<times> string) result" where
  "stage_and_scope mode injected =
     (case map_of stages mode of
        None \<Rightarrow> Inl (ValueError ''mode must be rpc, sensors or actors'')
      | Some (stage, scope) \<Rightarrow>
          if injected then Inr (''harness-test.'' @ stage, ''HARNESS TEST ONLY; '' @ scope)
          else Inr (stage, scope))"

definition report_path :: "path \<Rightarrow> path" where
  "report_path run_dir = run_dir @ [''stage-report.json'']"

definition prepare :: "platform \<Rightarrow> fs \<Rightarrow> gate_args \<Rightarrow> (gate_context \<times> fs) result" where
  "prepare pl f a =
     bind_result (stage_and_scope (ga_mode a) (ga_injected a)) (\<lambda>(stage, scope).
     bind_result (resolve f (cwd (pl_host pl)) (ga_run_dir a)) (\<lambda>run_dir.
     bind_result (resolve f (cwd (pl_host pl)) (ga_provenance a)) (\<lambda>provenance.
     bind_result (make_dirs f [] run_dir) (\<lambda>f1.
     req (\<not> exists_path f1 (report_path run_dir) \<and> \<not> is_link f1 (report_path run_dir))
       ''refusing to overwrite existing stage report''
     (let work = run_dir @ [''runtime-checks-'' @ pl_temp pl] in
      bind_result (make_work_dir f1 work) (\<lambda>f2.
        Inr (\<lparr>gc_args = a, gc_run_dir = run_dir, gc_provenance = provenance, gc_work = work,
               gc_stage = stage, gc_scope = scope\<rparr>, f2)))))))"

definition gate_command :: "platform \<Rightarrow> gate_context \<Rightarrow> string list" where
  "gate_command pl c =
     (let a = gc_args c in
      [pl_executable pl, path_text (pl_script pl), ''--mode'', ga_mode a, ''--host'', str_json (ga_host a),
       ''--port'', str_json (ga_port a), ''--ticks'', str_json (ga_ticks a),
       ''--timeout'', str_json (ga_timeout a), ''--run-dir'', path_text (gc_run_dir c),
       ''--provenance'', path_text (gc_provenance c)]
      @ (if truthy (ga_allow a) then [''--allow-world-mutation''] else []))"

definition client_artifacts :: "string list" where
  "client_artifacts = [''client-install.log'', ''wheel.sha256'', ''client-install.command.json'']"

definition initial_evidence :: "platform \<Rightarrow> fs \<Rightarrow> gate_context \<Rightarrow> (string \<times> path) list" where
  "initial_evidence pl f c =
     [(''provenance-file'', gc_provenance c), (''evaluator'', pl_script pl),
      (''stage-report-writer'', pl_writer pl)]
     @ map (\<lambda>n. (''client-artifact.'' @ n, gc_run_dir c @ [n]))
         [n \<leftarrow> client_artifacts. exists_path f (gc_run_dir c @ [n]) \<or> is_link f (gc_run_dir c @ [n])]"

definition initial_raw :: "gate_args \<Rightarrow> (string \<times> json) list" where
  "initial_raw a =
     [(''mode'', JStr (ga_mode a)), (''test_only'', JBool (ga_injected a)), (''owned_actor_ids'', JList []),
      (''endpoint'', JObj [(''host'', JStr (str_json (ga_host a))), (''port'', JStr (str_json (ga_port a))),
        (''server_architecture'', JStr ''unverified'')]),
      (''provenance_policy'', JStr ''caller-supplied sources; server binary/build binding unverified'')]"

definition start_gate :: "platform \<Rightarrow> gate_context \<Rightarrow> fs \<Rightarrow> 'w \<Rightarrow> 'w gate" where
  "start_gate pl c f w =
     \<lparr>g_world = w, g_files = f, g_active = ''environment'',
      g_checks = map (\<lambda>n. (n, ''MISSING'')) (required_checks (ga_mode (gc_args c))),
      g_raw = initial_raw (gc_args c), g_errors = [], g_cleanup = [], g_failures = [],
      g_evidence = initial_evidence pl f c, g_sources = JObj [], g_provenance = None,
      g_owned = [], g_streams = [], g_controllers = [], g_vehicle = None, g_walker = None,
      g_traffic = None, g_original = None, g_attempted = False,
      g_samples = [], g_ticks = [], g_warmup = []\<rparr>"

section \<open>Phases before the ticks\<close>

definition least_ticks :: "string \<Rightarrow> int" where
  "least_ticks mode = (if mode = ''sensors'' then 2 else 1)"

definition check_arguments :: "gate_args \<Rightarrow> unit result" where
  "check_arguments a =
     req (is_str (ga_host a) \<and> strip (str_of (ga_host a)) \<noteq> []) ''host must be nonempty''
     (req (int_in (ga_port a) 1 65535) ''port must be in 1..65535''
     (req (int_in (ga_ticks a) (least_ticks (ga_mode a)) 10000)
        ''ticks must be in 1..10000 (sensors/actors need at least 2)''
     (req (is_number (ga_timeout a) \<and> num_less (JInt 0) (ga_timeout a) \<and> num_le (ga_timeout a) (JInt 120))
        ''timeout must be in (0, 120]'' (Inr ()))))"

definition environment_record :: "platform \<Rightarrow> gate_args \<Rightarrow> fs \<Rightarrow> json result" where
  "environment_record pl a f =
     (if ga_injected a then Inr (JObj [(''injected'', JBool True), (''native_validation'', JBool False)])
      else runtime_environment f (pl_machine pl))"

definition environment_phase :: "platform \<Rightarrow> gate_context \<Rightarrow> ('w, unit) step" where
  "environment_phase pl c =
     then_do (lift (check_arguments (gc_args c)))
     (and_then (get_state g_files) (\<lambda>f.
      and_then (lift (environment_record pl (gc_args c) f)) (\<lambda>env.
      then_do (set_raw ''environment'' env)
      (then_do (set_raw ''requested_ticks'' (ga_ticks (gc_args c)))
      (then_do (set_raw ''fixed_delta_seconds'' (JFloat step_seconds))
       pass_active)))))"

definition provenance_copy :: "gate_context \<Rightarrow> path" where
  "provenance_copy c = gc_work c @ [''provenance.json'']"

definition provenance_phase :: "platform \<Rightarrow> gate_context \<Rightarrow> ('w, unit) step" where
  "provenance_phase pl c =
     then_do (set_active ''provenance'')
     (and_then (get_state g_files) (\<lambda>f.
      and_then (lift (read_bytes f (gc_provenance c))) (\<lambda>b.
      then_do (write_file (provenance_copy c) b)
      (then_do (put_state (\<lambda>s. s\<lparr>g_provenance := Some (sha256 (pl_host pl) b)\<rparr>))
      (then_do (set_evidence ''provenance-file'' (provenance_copy c))
      (then_do (set_raw ''provenance''
         (JObj [(''provided_path'', JStr (path_text (gc_provenance c))),
           (''snapshot_path'', JStr (path_text (provenance_copy c))),
           (''sha256'', JStr (sha256 (pl_host pl) b))]))
      (and_then (get_state g_files) (\<lambda>f'.
       and_then (lift (read_provenance f' (provenance_copy c))) (\<lambda>sources.
       then_do (put_state (\<lambda>s. s\<lparr>g_sources := sources\<rparr>)) pass_active)))))))))"

definition permission_phase :: "gate_context \<Rightarrow> ('w, unit) step" where
  "permission_phase c =
     then_do (set_active ''permission'')
     (then_do (check (ga_allow (gc_args c) = JBool True)
        ''--allow-world-mutation is required; use an idle world with no other tick owner'')
      pass_active)"

definition client_binary :: "platform \<Rightarrow> gate_context \<Rightarrow> ('w, unit) step" where
  "client_binary pl c =
     (if ga_injected (gc_args c) then
        set_raw ''client_libcarla'' (JObj [(''injected'', JBool True), (''native_binary_inspected'', JBool False)])
      else
        and_then (lift (pl_carla pl)) (\<lambda>carla.
        and_then (get_state g_files) (\<lambda>f.
        and_then (lift (snapshot_client_binary (pl_host pl) f (gc_work c) (pl_suffixes pl) carla
          (pl_libcarla pl))) (\<lambda>(binary, f').
        then_do (put_state (\<lambda>s. s\<lparr>g_files := f'\<rparr>))
        (then_do (set_raw ''client_libcarla'' binary)
        (set_evidence ''client-libcarla''
          (join_path [] (str_of (field ''snapshot_path'' binary)))))))))"

definition handshake_phase :: "platform \<Rightarrow> gate_context \<Rightarrow> 'w carla_api \<Rightarrow> ('w, unit) step" where
  "handshake_phase pl c api =
     then_do (set_active ''handshake'')
     (then_do (client_binary pl c)
     (then_do (sim (api_connect api (ga_host (gc_args c)) (ga_port (gc_args c))))
     (then_do (sim (api_set_timeout api (ga_timeout (gc_args c))))
     (and_then (sim (api_client_version api)) (\<lambda>client.
      and_then (sim (api_server_version api)) (\<lambda>server.
      and_then (lift (validate_versions client server)) (\<lambda>versions.
      then_do (set_raw ''versions'' versions) pass_active)))))))"

definition take_snapshot :: "'w carla_api \<Rightarrow> json option \<Rightarrow> json \<Rightarrow> ('w, json) step" where
  "take_snapshot api previous tick_frame =
     and_then (sim (api_snapshot api)) (\<lambda>s. lift (validate_snapshot s previous tick_frame))"

definition world_phase :: "'w carla_api \<Rightarrow> ('w, unit) step" where
  "world_phase api =
     then_do (set_active ''world'')
     (then_do (sim (api_get_world api))
     (and_then (sim (api_map_name api)) (\<lambda>name.
      then_do (set_raw ''map'' name)
      (then_do (check (is_str name \<and> strip (str_of name) \<noteq> []) ''world map name is missing'')
      (and_then (take_snapshot api None JNull) (\<lambda>initial.
       then_do (set_raw ''initial_snapshot'' initial) pass_active))))))"

definition check_substeps :: "settings \<Rightarrow> unit result" where
  "check_substeps st =
     (if truthy (set_value st ''substepping'') then
        bind_result (num_mul (set_value st ''max_substep_delta_time'') (set_value st ''max_substeps''))
          (\<lambda>span. require (num_le (JFloat step_seconds) span)
             ''existing physics substeps cannot accommodate 0.05 seconds'')
      else Inr ())"

definition desired_settings :: "string \<Rightarrow> settings \<Rightarrow> settings" where
  "desired_settings mode st =
     st\<lparr>set_value := (set_value st)
        (''synchronous_mode'' := JBool True, ''fixed_delta_seconds'' := JFloat step_seconds,
         ''no_rendering_mode'' := JBool (mode \<noteq> ''sensors''))\<rparr>"

definition apply_desired :: "gate_context \<Rightarrow> 'w carla_api \<Rightarrow> settings \<Rightarrow> ('w, unit) step" where
  "apply_desired c api desired =
     then_do (put_state (\<lambda>s. s\<lparr>g_attempted := True\<rparr>))
     (then_do (sim (api_apply_settings api desired (ga_timeout (gc_args c))))
     (and_then (sim (api_get_settings api)) (\<lambda>current.
      then_do (check (api_same_settings api current desired)
        ''synchronous world settings were not applied'')
      (and_then (lift (settings_view desired)) (\<lambda>view.
       then_do (set_raw ''applied_settings'' view) pass_active)))))"

definition settings_phase :: "gate_context \<Rightarrow> 'w carla_api \<Rightarrow> ('w, unit) step" where
  "settings_phase c api =
     then_do (set_active ''sync-settings'')
     (and_then (sim (api_get_settings api)) (\<lambda>original.
      then_do (put_state (\<lambda>s. s\<lparr>g_original := Some original\<rparr>))
      (and_then (sim (api_get_settings api)) (\<lambda>desired.
       then_do (check (set_ref original \<noteq> set_ref desired) ''world settings must be independent snapshots'')
       (and_then (lift (settings_view original)) (\<lambda>view.
        then_do (set_raw ''original_settings'' view)
        (then_do (lift (check_substeps desired))
         (apply_desired c api (desired_settings (ga_mode (gc_args c)) desired)))))))))"

definition sensors_phase :: "'w carla_api \<Rightarrow> ('w, transform option) step" where
  "sensors_phase api =
     then_do (set_active ''sensor-setup'')
     (and_then (spawn_sensors api) (\<lambda>base. then_do pass_active (ret (Some base))))"

definition actors_phase :: "platform \<Rightarrow> 'w carla_api \<Rightarrow> ('w, transform option) step" where
  "actors_phase pl api =
     then_do (set_active ''actor-setup'')
     (and_then (spawn_actors api (pl_math pl)) (\<lambda>(vehicle, walker, tm).
      then_do (put_state (\<lambda>s. s\<lparr>g_vehicle := Some vehicle, g_walker := Some walker, g_traffic := Some tm\<rparr>))
      (then_do (put_state (\<lambda>s. s\<lparr>g_controllers := g_controllers s @ [last (g_owned s)]\<rparr>))
      (then_do pass_active (ret None)))))"

text \<open>The camera's place is returned for the yaw sweep; only the sensors mode has one.\<close>

definition setup_phase :: "platform \<Rightarrow> gate_context \<Rightarrow> 'w carla_api \<Rightarrow> ('w, transform option) step" where
  "setup_phase pl c api =
     (if ga_mode (gc_args c) = ''sensors'' then sensors_phase api
      else if ga_mode (gc_args c) = ''actors'' then actors_phase pl api
      else ret None)"

end
