(* ===== verification/EntryReport.thy ===== *)
theory EntryReport
  imports RuntimeGate
begin

text \<open>
  \<open>runtime_entry_report.py\<close>: \<open>capture\<close> pins the six inputs of a runtime invocation in a manifest,
  \<open>verify-inputs\<close> compares them again, and \<open>finalize\<close> writes the report of the whole invocation on top of
  the runtime gate's own report. What other processes do to the files while \<open>finalize\<close> runs is an
  argument: \<open>en_during\<close> acts while the endpoint report is validated, \<open>en_before\<close> before the report is
  written. A path that does not exist yet is made without \<open>..\<close> components. Nesting too deep for the
  interpreter (\<open>RecursionError\<close>) is not modelled.
\<close>

record entry_host =
  en_host :: host
  en_executable :: string
  en_script :: path
  en_now :: string
  en_temp :: string
  en_pending :: string
  en_during :: "fs \<Rightarrow> fs"
  en_before :: "fs \<Rightarrow> fs"

definition entry_stage :: string where "entry_stage = ''carla-runtime-invocation''"

definition labels :: "string list" where
  "labels = [''wheel'', ''wrapper'', ''evaluator'', ''stage-writer'', ''provenance'', ''entry-reporter'']"

definition input_check :: "string \<Rightarrow> string" where
  "input_check label = ''input-'' @ label"

definition entry_checks :: "string list" where
  "entry_checks = [''outer-exit'', ''manifest''] @ map input_check labels @ [''endpoint'']"

definition entry_logs :: "string list" where
  "entry_logs = [''client-install.log'', ''client-install.command.json'', ''wheel.sha256'',
     ''entry-command.json'', ''client.log'']"

definition root_scope :: "string \<Rightarrow> string" where
  "root_scope mode =
     ''Complete container CARLA client invocation and exact '' @ mode
     @ '' endpoint prerequisites; NOT server architecture/build or Cook''"

definition entry_digest :: "host \<Rightarrow> fs \<Rightarrow> path \<Rightarrow> string result" where
  "entry_digest h f p =
     req (is_file f p) (''missing or nonregular file: '' @ path_text p) (sha256_file h f p)"

definition entry_object :: pairs_hook where
  "entry_object = distinct_dict (\<lambda>k. ''duplicate JSON key: '' @ k)"

definition entry_constant :: constant_hook where
  "entry_constant = reject_constant ''invalid JSON constant: ''"

definition encode_json :: "json \<Rightarrow> bytes result" where
  "encode_json v = bind_result (dumps v) (\<lambda>t. Inr (t @ [CHR 0x0A]))"

definition make_parents :: "fs \<Rightarrow> path \<Rightarrow> fs result" where
  "make_parents f p = (if is_dir f p then Inr f else make_dirs f [] p)"

section \<open>Capture\<close>

definition file_record :: "string \<Rightarrow> string \<Rightarrow> json" where
  "file_record p d = JObj [(''path'', JStr p), (''sha256'', JStr d)]"

definition capture_file ::
  "host \<Rightarrow> fs \<Rightarrow> string \<times> string \<Rightarrow> (string \<times> json) list \<Rightarrow> (string \<times> json) list result"
where
  "capture_file h f lf records =
     (case lf of (label, filename) \<Rightarrow>
       req (label \<in> set labels) (''unknown input label: '' @ label)
       (req (label \<notin> set (map fst records)) (''duplicate input label: '' @ label)
       (bind_result (entry_digest h f (absolute h filename)) (\<lambda>d.
         Inr (records @ [(label, file_record (path_text (absolute h filename)) d)])))))"

definition manifest_json :: "(string \<times> json) list \<Rightarrow> json" where
  "manifest_json records = JObj [(''schema_version'', JInt 1), (''files'', JObj records)]"

definition capture :: "host \<Rightarrow> fs \<Rightarrow> string \<Rightarrow> (string \<times> string) list \<Rightarrow> (string \<times> fs) result" where
  "capture h f output files =
     (let out = absolute h output in
      req (vacant f out) (''refusing to overwrite '' @ path_text out)
      (bind_result (fold_result (capture_file h f) files []) (\<lambda>records.
       req (same_set (map fst records) labels) ''all six fixed input labels are required''
       (bind_result (encode_json (manifest_json records)) (\<lambda>b.
        bind_result (make_parents f (parent out)) (\<lambda>f1.
        bind_result (create_new f1 out b) (\<lambda>f2. Inr (sha256 h b, f2))))))))"

section \<open>The state of the inputs\<close>

record input_state =
  in_checks :: "(string \<times> string) list"
  in_inputs :: "(string \<times> json) list"
  in_errors :: "string list"
  in_evidence :: "(string \<times> path) list"
  in_expected :: "(string \<times> string \<times> string) list"

definition start_inputs :: "path \<Rightarrow> input_state" where
  "start_inputs run_dir =
     \<lparr>in_checks = map (\<lambda>n. (n, ''FAIL'')) (''manifest'' # map input_check labels),
      in_inputs = [], in_errors = [], in_evidence = [(''inputs-manifest'', run_dir @ [''inputs.json''])],
      in_expected = []\<rparr>"

definition any_sha256 :: "json \<Rightarrow> bool" where
  "any_sha256 v \<longleftrightarrow> is_str v \<and> length (str_of v) = 64 \<and> list_all is_any_hex (str_of v)"

definition pinned :: "json \<Rightarrow> string" where
  "pinned v = map lower_char (str_of v)"

definition read_manifest :: "host \<Rightarrow> fs \<Rightarrow> path \<Rightarrow> json \<Rightarrow> json result" where
  "read_manifest h f p pin =
     req (any_sha256 pin) ''input-sha256 must be a pinned 64-digit SHA256''
     (req (is_file f p) (''missing or nonregular manifest: '' @ path_text p)
     (bind_result (read_bytes f p) (\<lambda>b.
      req (sha256 h b = pinned pin) ''manifest SHA256 mismatch''
      (bind_result (loads_bytes entry_object entry_constant b) (\<lambda>m.
       req (is_obj m \<and> field ''schema_version'' m = JInt 1) ''invalid input manifest schema''
       (req (is_obj (field ''files'' m) \<and> same_set (obj_keys (field ''files'' m)) labels)
          ''manifest requires exactly six labels''
        (Inr (field ''files'' m))))))))"

definition input_record :: "string \<Rightarrow> json \<Rightarrow> (string \<times> string) result" where
  "input_record label r =
     req (is_obj r) (label @ '': file record must be an object'')
     (req (is_str (field ''path'' r) \<and> is_absolute (str_of (field ''path'' r)))
        (label @ '': path must be absolute'')
     (req (is_str (field ''sha256'' r) \<and> sha256_shape (str_of (field ''sha256'' r)))
        (label @ '': invalid SHA256'')
      (Inr (str_of (field ''path'' r), str_of (field ''sha256'' r)))))"

definition observation :: "string \<Rightarrow> string \<Rightarrow> json \<Rightarrow> json" where
  "observation filename expected actual =
     JObj [(''path'', JStr filename), (''expected_sha256'', JStr expected), (''actual_sha256'', actual)]"

definition input_error :: "string \<Rightarrow> py_error \<Rightarrow> input_state \<Rightarrow> input_state" where
  "input_error label e s = s\<lparr>in_errors := in_errors s @ [input_check label @ '': '' @ error_text e]\<rparr>"

definition compare_input ::
  "host \<Rightarrow> fs \<Rightarrow> string \<Rightarrow> string \<Rightarrow> string \<Rightarrow> input_state \<Rightarrow> input_state"
where
  "compare_input h f label filename expected s =
     (case entry_digest h f (components filename) of
        Inl e \<Rightarrow> input_error label e
          (s\<lparr>in_inputs := in_inputs s @ [(label, observation filename expected JNull)]\<rparr>)
      | Inr d \<Rightarrow>
          let s' = s\<lparr>in_inputs := in_inputs s @ [(label, observation filename expected (JStr d))]\<rparr> in
          if d = expected then s'\<lparr>in_checks := dict_set (input_check label) ''PASS'' (in_checks s')\<rparr>
          else input_error label (ValueError (label @ '': input SHA256 mismatch'')) s')"

definition check_input :: "host \<Rightarrow> fs \<Rightarrow> json \<Rightarrow> string \<Rightarrow> input_state \<Rightarrow> input_state" where
  "check_input h f records label s =
     (case input_record label (field label records) of
        Inl e \<Rightarrow> input_error label e s
      | Inr (filename, expected) \<Rightarrow>
          compare_input h f label filename expected
            (s\<lparr>in_evidence := in_evidence s @ [(''file-'' @ label, components filename)],
               in_expected := in_expected s @ [(''file-'' @ label, input_check label, expected)]\<rparr>))"

definition accept_manifest :: "json \<Rightarrow> input_state \<Rightarrow> input_state" where
  "accept_manifest pin s =
     s\<lparr>in_checks := dict_set ''manifest'' ''PASS'' (in_checks s),
       in_expected := in_expected s @ [(''inputs-manifest'', ''manifest'', pinned pin)]\<rparr>"

definition read_inputs :: "host \<Rightarrow> fs \<Rightarrow> path \<Rightarrow> json \<Rightarrow> input_state" where
  "read_inputs h f run_dir pin =
     (let s = start_inputs run_dir in
      case read_manifest h f (run_dir @ [''inputs.json'']) pin of
        Inl e \<Rightarrow> s\<lparr>in_errors := in_errors s @ [''manifest: '' @ error_text e]\<rparr>
      | Inr records \<Rightarrow> fold (check_input h f records) labels (accept_manifest pin s))"

definition all_passed :: "(string \<times> string) list \<Rightarrow> bool" where
  "all_passed checks \<longleftrightarrow> list_all (\<lambda>(_, v). v = ''PASS'') checks"

definition verify_inputs :: "host \<Rightarrow> fs \<Rightarrow> string \<Rightarrow> json \<Rightarrow> unit result" where
  "verify_inputs h f run_dir pin =
     bind_result (resolve f (cwd h) run_dir) (\<lambda>d.
       let s = read_inputs h f d pin in
       require (all_passed (in_checks s))
         (if in_errors s = [] then ''input verification incomplete'' else join_with ''; '' (in_errors s)))"

section \<open>Finalize\<close>

record final_args =
  fa_run_dir :: string
  fa_mode :: string
  fa_exit :: json
  fa_pin :: json

text \<open>The locals of \<open>finalize\<close> that the report is made from.\<close>

record final_state =
  fi_checks :: "(string \<times> string) list"
  fi_inputs :: "(string \<times> json) list"
  fi_errors :: "string list"
  fi_evidence :: "(string \<times> path) list"
  fi_sources :: json
  fi_child :: "string option"

definition outer_exit :: "json \<Rightarrow> final_state \<Rightarrow> final_state" where
  "outer_exit rc s =
     (if rc = JInt 0 then s\<lparr>fi_checks := dict_set ''outer-exit'' ''PASS'' (fi_checks s)\<rparr>
      else s\<lparr>fi_errors := fi_errors s @ [''outer process exit code is not integer zero: '' @ repr_json rc]\<rparr>)"

definition add_inputs :: "input_state \<Rightarrow> final_state \<Rightarrow> final_state" where
  "add_inputs i s =
     s\<lparr>fi_checks := fold (\<lambda>(n, v). dict_set n v) (in_checks i) (fi_checks s),
       fi_inputs := in_inputs i, fi_errors := fi_errors s @ in_errors i, fi_evidence := in_evidence i\<rparr>"

definition child_path :: "path \<Rightarrow> path" where
  "child_path run_dir = run_dir @ [''endpoint'', ''stage-report.json'']"

definition child_identity :: "string \<Rightarrow> (string \<times> string) result" where
  "child_identity mode =
     (case map_of stages mode of
        None \<Rightarrow> Inl (ValueError ''mode must be rpc or sensors'')
      | Some sc \<Rightarrow> Inr sc)"

definition endpoint_error :: "py_error \<Rightarrow> final_state \<Rightarrow> final_state result" where
  "endpoint_error e s =
     (if os_or_value e then Inr (s\<lparr>fi_errors := fi_errors s @ [''endpoint: '' @ error_text e]\<rparr>) else Inl e)"

definition validate_child ::
  "entry_host \<Rightarrow> fs \<Rightarrow> path \<Rightarrow> string \<Rightarrow> string \<Rightarrow> string \<Rightarrow> json result"
where
  "validate_child en f child stage scope d =
     bind_result (validate_report (en_host en) f (path_text child) stage scope) (\<lambda>verified.
     bind_result (entry_digest (en_host en) (en_during en f) child) (\<lambda>d'.
     req (d' = d) ''endpoint report changed during validation'' (Inr (field ''sources'' verified))))"

definition check_endpoint ::
  "entry_host \<Rightarrow> fs \<Rightarrow> path \<Rightarrow> string \<Rightarrow> string \<Rightarrow> final_state \<Rightarrow> final_state result"
where
  "check_endpoint en f child stage scope s =
     (case entry_digest (en_host en) f child of
        Inl e \<Rightarrow> endpoint_error e s
      | Inr d \<Rightarrow>
          let s' = s\<lparr>fi_child := Some d\<rparr> in
          (case validate_child en f child stage scope d of
             Inl e \<Rightarrow> endpoint_error e s'
           | Inr sources \<Rightarrow>
               Inr (s'\<lparr>fi_sources := sources, fi_checks := dict_set ''endpoint'' ''PASS'' (fi_checks s')\<rparr>)))"

definition entry_evidence :: "fs \<Rightarrow> path \<Rightarrow> path \<Rightarrow> (string \<times> path) list \<Rightarrow> (string \<times> path) list" where
  "entry_evidence f run_dir res ev =
     fold (\<lambda>(n, p). dict_set n p)
       (map (\<lambda>n. (''log-'' @ n, run_dir @ [n]))
          [n \<leftarrow> entry_logs. exists_path f (run_dir @ [n]) \<or> is_link f (run_dir @ [n])]
        @ map (\<lambda>n. (n, res)) entry_checks @ [(''finalize-result'', res)]) ev"

definition raw_result :: "final_args \<Rightarrow> int \<Rightarrow> final_state \<Rightarrow> json" where
  "raw_result a rc s =
     JObj [(''mode'', JStr (fa_mode a)), (''outer_exit_code'', fa_exit a), (''input_sha256'', fa_pin a),
       (''checks'', JObj (map (\<lambda>(n, v). (n, JStr v)) (fi_checks s))), (''inputs'', JObj (fi_inputs s)),
       (''errors'', JList (map JStr (fi_errors s))), (''root_exit_code'', JInt rc)]"

definition outer_failure :: "json \<Rightarrow> int" where
  "outer_failure rc = (if is_int rc \<and> int_of rc \<noteq> 0 then int_of rc else 1)"

definition entry_command :: "entry_host \<Rightarrow> path \<Rightarrow> final_args \<Rightarrow> string list" where
  "entry_command en run_dir a =
     [en_executable en, path_text (en_script en), ''finalize'', ''--run-dir'', path_text run_dir,
      ''--mode'', fa_mode a, ''--exit-code'', str_json (fa_exit a), ''--input-sha256'', str_json (fa_pin a)]"

definition final_report_args ::
  "entry_host \<Rightarrow> path \<Rightarrow> final_args \<Rightarrow> string \<times> string \<Rightarrow> final_state \<Rightarrow> int \<Rightarrow> write_args"
where
  "final_report_args en run_dir a child s rc =
     \<lparr>wa_stage_id = entry_stage, wa_scope = root_scope (fa_mode a), wa_exit_code = JInt rc,
      wa_required = JList (map JStr entry_checks),
      wa_checks = JObj (map (\<lambda>(n, v). (n, JStr v)) (fi_checks s)),
      wa_evidence = map (\<lambda>(n, p). (n, path_text p)) (fi_evidence s),
      wa_sources = fi_sources s, wa_command = JList (map JStr (entry_command en run_dir a)),
      wa_prerequisites = [(fst child, snd child, path_text (child_path run_dir))]\<rparr>"

section \<open>Late changes\<close>

definition recorded_sha256 :: "json \<Rightarrow> string \<Rightarrow> json" where
  "recorded_sha256 report name = field ''sha256'' (field name (field ''evidence'' report))"

definition late_input ::
  "json \<Rightarrow> string \<times> string \<times> string \<Rightarrow> (string \<times> string) list \<times> string list \<Rightarrow> (string \<times> string) list \<times> string list"
where
  "late_input report item acc =
     (case (item, acc) of ((name, chk, expected), (checks, errs)) \<Rightarrow>
       if recorded_sha256 report name = JStr expected then (checks, errs)
       else (dict_set chk ''FAIL'' checks, errs @ [name @ '': SHA256 changed before final report'']))"

definition recorded_child :: "json \<Rightarrow> json" where
  "recorded_child report =
     (case field ''prerequisites'' report of JList (r # _) \<Rightarrow> field ''sha256'' r | _ \<Rightarrow> JNull)"

definition late_child ::
  "json \<Rightarrow> string option \<Rightarrow> (string \<times> string) list \<times> string list \<Rightarrow> (string \<times> string) list \<times> string list"
where
  "late_child report child acc =
     (case child of
        None \<Rightarrow> acc
      | Some d \<Rightarrow>
          if recorded_child report = JStr d then acc
          else (dict_set ''endpoint'' ''FAIL'' (fst acc),
                snd acc @ [''endpoint report changed before final report'']))"

definition late_changes ::
  "json \<Rightarrow> (string \<times> string \<times> string) list \<Rightarrow> final_state \<Rightarrow> (string \<times> string) list \<times> string list"
where
  "late_changes report expected s =
     late_child report (fi_child s) (fold (late_input report) expected (fi_checks s, []))"

definition report_errors :: "json \<Rightarrow> string list" where
  "report_errors report = map str_of (list_items (field ''errors'' report))"

section \<open>Publishing\<close>

record final_paths =
  fp_run_dir :: path
  fp_output :: path
  fp_result :: path
  fp_pending :: path

definition write_final ::
  "entry_host \<Rightarrow> fs \<Rightarrow> final_paths \<Rightarrow> final_args \<Rightarrow> string \<times> string \<Rightarrow> final_state \<Rightarrow> int \<Rightarrow> (json \<times> fs) result"
where
  "write_final en f ps a child s rc =
     write_report (en_host en) f (en_now en) (path_text (fp_pending ps))
       (final_report_args en (fp_run_dir ps) a child s rc)"

definition final_result ::
  "fs \<Rightarrow> final_paths \<Rightarrow> final_args \<Rightarrow> int \<Rightarrow> final_state \<Rightarrow> fs result"
where
  "final_result f ps a rc s =
     bind_result (encode_json (raw_result a rc s)) (\<lambda>b. write_bytes f (fp_result ps) b)"

text \<open>The second report, when the first one shows a change or fails although every check had passed.\<close>

definition settle_report ::
  "entry_host \<Rightarrow> fs \<Rightarrow> final_paths \<Rightarrow> final_args \<Rightarrow> string \<times> string \<Rightarrow> final_state \<Rightarrow>
   (string \<times> string \<times> string) list \<Rightarrow> int \<Rightarrow> json \<Rightarrow> (json \<times> fs) result"
where
  "settle_report en f ps a child s expected rc report =
     (case late_changes report expected s of (checks, late) \<Rightarrow>
       let s' = s\<lparr>fi_checks := checks\<rparr> in
       if late \<noteq> [] \<or> (field ''status'' report \<noteq> JStr ''PASS'' \<and> rc = 0) then
         let s'' = s'\<lparr>fi_errors := fi_errors s' @ late @ report_errors report\<rparr> in
         bind_result (final_result f ps a (outer_failure (fa_exit a)) s'') (\<lambda>f'.
           write_final en f' ps a child s'' (outer_failure (fa_exit a)))
       else Inr (report, f))"

definition publish ::
  "entry_host \<Rightarrow> fs \<Rightarrow> final_paths \<Rightarrow> final_args \<Rightarrow> string \<times> string \<Rightarrow> final_state \<Rightarrow>
   (string \<times> string \<times> string) list \<Rightarrow> int \<Rightarrow> (json \<times> fs) result"
where
  "publish en f ps a child s expected rc =
     bind_result (write_final en (en_before en f) ps a child s rc) (\<lambda>(report, f1).
     bind_result (settle_report en f1 ps a child s expected rc report) (\<lambda>(report', f2).
     bind_result (link_file f2 (fp_pending ps) (fp_output ps)) (\<lambda>f3.
       Inr (report', unlink_missing_ok f3 (fp_pending ps)))))"

definition start_final :: "entry_host \<Rightarrow> string \<Rightarrow> final_state" where
  "start_final en d =
     \<lparr>fi_checks = map (\<lambda>n. (n, ''FAIL'')) entry_checks, fi_inputs = [], fi_errors = [], fi_evidence = [],
      fi_sources = JObj [(''entry-reporter'', JObj [(''location'', JStr (path_text (en_script en))),
        (''revision'', JStr (''sha256:'' @ d))])],
      fi_child = None\<rparr>"

definition finalize_in ::
  "entry_host \<Rightarrow> fs \<Rightarrow> final_paths \<Rightarrow> final_args \<Rightarrow> string \<times> string \<Rightarrow> (json \<times> fs) result"
where
  "finalize_in en f ps a child =
     (let i = read_inputs (en_host en) f (fp_run_dir ps) (fa_pin a) in
      bind_result (entry_digest (en_host en) f (en_script en)) (\<lambda>d.
      let s1 = add_inputs i (outer_exit (fa_exit a) (start_final en d));
          s2 = s1\<lparr>fi_evidence := dict_set ''entry-reporter'' (en_script en) (fi_evidence s1)\<rparr> in
      bind_result (check_endpoint en f (child_path (fp_run_dir ps)) (fst child) (snd child) s2) (\<lambda>s3.
      let s4 = s3\<lparr>fi_evidence := entry_evidence f (fp_run_dir ps) (fp_result ps) (fi_evidence s3)\<rparr>;
          rc = (if all_passed (fi_checks s4) then 0 else outer_failure (fa_exit a)) in
      bind_result (final_result f ps a rc s4) (\<lambda>f1.
      bind_result (create_new f1 (fp_pending ps) []) (\<lambda>f2.
        publish en f2 ps a child s4 (in_expected i) rc)))))"

text \<open>The run directory with a fresh work directory in it and no report yet.\<close>

definition finalize_open :: "entry_host \<Rightarrow> fs \<Rightarrow> string \<Rightarrow> (path \<times> fs) result" where
  "finalize_open en f dir =
     bind_result (resolve f (cwd (en_host en)) dir) (\<lambda>run_dir.
     bind_result (make_dirs f [] run_dir) (\<lambda>f1.
     let out = run_dir @ [''stage-report.json''] in
     req (vacant f1 out) (''refusing to overwrite '' @ path_text out)
     (bind_result (make_work_dir f1 (run_dir @ [''entry-finalize-'' @ en_temp en])) (\<lambda>f2.
       Inr (run_dir, f2)))))"

definition paths_in :: "entry_host \<Rightarrow> path \<Rightarrow> final_paths" where
  "paths_in en run_dir =
     \<lparr>fp_run_dir = run_dir, fp_output = run_dir @ [''stage-report.json''],
      fp_result = run_dir @ [''entry-finalize-'' @ en_temp en, ''finalize-result.json''],
      fp_pending = run_dir @ [''.runtime-entry-'' @ en_pending en @ ''.json'']\<rparr>"

definition finalize :: "entry_host \<Rightarrow> fs \<Rightarrow> final_args \<Rightarrow> (json \<times> fs) result" where
  "finalize en f a =
     bind_result (child_identity (fa_mode a)) (\<lambda>child.
     bind_result (finalize_open en f (fa_run_dir a)) (\<lambda>(run_dir, f1).
       finalize_in en f1 (paths_in en run_dir) a child))"

section \<open>The command\<close>

datatype entry_action =
    Capture string "(string \<times> string) list"
  | VerifyInputs string string
  | Finalize string string int string

definition exit_of :: "'a result \<Rightarrow> ('a \<Rightarrow> int) \<Rightarrow> int result" where
  "exit_of r k = (case r of Inl e \<Rightarrow> if os_or_value e then Inr 1 else Inl e | Inr x \<Rightarrow> Inr (k x))"

definition main :: "entry_host \<Rightarrow> fs \<Rightarrow> entry_action \<Rightarrow> int result" where
  "main en f act =
     (case act of
        Capture output files \<Rightarrow> exit_of (capture (en_host en) f output files) (\<lambda>_. 0)
      | VerifyInputs run_dir pin \<Rightarrow> exit_of (verify_inputs (en_host en) f run_dir (JStr pin)) (\<lambda>_. 0)
      | Finalize run_dir mode rc pin \<Rightarrow>
          exit_of (finalize en f \<lparr>fa_run_dir = run_dir, fa_mode = mode, fa_exit = JInt rc, fa_pin = JStr pin\<rparr>)
            (\<lambda>(report, _). if field ''status'' report = JStr ''PASS'' then 0 else 1))"

end
