(* ===== verification/StageReportFacts.thy ===== *)
theory StageReportFacts
  imports StageReport JsonRoundtrip
begin

text \<open>
  What \<open>stage_report.py\<close> promises. \<open>content_ok\<close> is the declarative reading of
  \<open>_content_errors\<close>; \<open>genuine\<close> is the abstract specification of a verified report, a least fixed
  point over the prerequisite reports; the validator is sound for it, and complete up to the depth
  limit of the code.
\<close>

section \<open>The declarative reading of the checks\<close>

definition identity_ok :: "host \<Rightarrow> json \<Rightarrow> string \<Rightarrow> string \<Rightarrow> bool" where
  "identity_ok h r stage scope \<longleftrightarrow>
     field ''schema_version'' r = JInt 1 \<and>
     text_value (JStr stage) \<and> field ''stage_id'' r = JStr stage \<and>
     text_value (JStr scope) \<and> field ''scope'' r = JStr scope \<and>
     (\<exists>s. field ''created_at'' r = JStr s \<and> iso_offset h s = Some True) \<and>
     field ''exit_code'' r = JInt 0"

definition command_ok :: "json \<Rightarrow> bool" where
  "command_ok r \<longleftrightarrow>
     (\<exists>x xs. field ''command'' r = JList (x # xs) \<and> text_value x \<and> (\<forall>y\<in>set xs. is_str y))"

definition sources_ok :: "json \<Rightarrow> bool" where
  "sources_ok r \<longleftrightarrow>
     is_obj (field ''sources'' r) \<and> entries_of ''sources'' r \<noteq> [] \<and>
     (\<forall>(name, s)\<in>set (entries_of ''sources'' r). text_value (JStr name) \<and> is_obj s \<and>
        text_value (field ''location'' s) \<and> text_value (field ''revision'' s))"

definition checks_ok :: "json \<Rightarrow> bool" where
  "checks_ok r \<longleftrightarrow>
     required_names r \<noteq> None \<and> distinct (required_of r) \<and>
     set (map fst (entries_of ''checks'' r)) = set (required_of r) \<and>
     (\<forall>(name, status)\<in>set (entries_of ''checks'' r). status = JStr ''PASS'')"

text \<open>An evidence record names a regular file other than the report whose digest is the stored one.\<close>

definition evidence_matches :: "host \<Rightarrow> fs \<Rightarrow> path \<Rightarrow> json \<Rightarrow> bool" where
  "evidence_matches h f p rec \<longleftrightarrow>
     (\<exists>q b. file_identity f (parent p) rec = Inr (q, sha256 h b) \<and> q \<noteq> p \<and> is_file f q \<and>
            read_bytes f q = Inr b)"

definition evidence_ok :: "host \<Rightarrow> fs \<Rightarrow> json \<Rightarrow> path \<Rightarrow> bool" where
  "evidence_ok h f r p \<longleftrightarrow>
     entries_of ''evidence'' r \<noteq> [] \<and>
     set (required_of r) \<union> fst ` set (entries_of ''checks'' r) \<subseteq> fst ` set (entries_of ''evidence'' r) \<and>
     (\<forall>(name, rec)\<in>set (entries_of ''evidence'' r).
        text_value (JStr name) \<and> evidence_matches h f p rec)"

definition content_ok :: "host \<Rightarrow> fs \<Rightarrow> json \<Rightarrow> path \<Rightarrow> string \<Rightarrow> string \<Rightarrow> bool" where
  "content_ok h f r p stage scope \<longleftrightarrow>
     identity_ok h r stage scope \<and> command_ok r \<and> sources_ok r \<and> checks_ok r \<and>
     evidence_ok h f r p"

lemma text_value_iff: "text_value v \<longleftrightarrow> (\<exists>s. v = JStr s \<and> strip s \<noteq> [])"
  by (cases v) (auto simp: text_value_def)

lemma text_value_is_str: "text_value v \<Longrightarrow> is_str v"
  by (auto simp: text_value_iff)

lemma strip_Nil [simp]: "strip [] = []"
  by (simp add: strip_def)

lemma identity_errors_Nil: "identity_errors h r stage scope = [] \<longleftrightarrow> identity_ok h r stage scope"
  by (auto simp: identity_errors_def identity_ok_def split: json.splits)

lemma command_errors_Nil: "command_errors r = [] \<longleftrightarrow> command_ok r"
  by (auto simp: command_errors_def command_ok_def list_all_iff text_value_is_str
      split: json.splits list.splits)

lemma concat_map_Nil [simp]: "concat (map g xs) = [] \<longleftrightarrow> (\<forall>x\<in>set xs. g x = [])"
  by (induction xs) auto

lemma missing_Nil: "missing label present names = [] \<longleftrightarrow> set names \<subseteq> set present"
  by (auto simp: missing_def filter_empty_conv)

lemma source_errors_Nil: "source_errors r = [] \<longleftrightarrow> sources_ok r"
proof (cases "field ''sources'' r")
  case (JObj d)
  then show ?thesis
    by (cases d) (auto simp: source_errors_def sources_ok_def entries_of_def split_beta
        simp del: concat.simps list.map simp flip: concat_map_Nil)
qed (simp_all add: source_errors_def sources_ok_def)

lemma required_errors_Nil:
  "required_errors r = [] \<longleftrightarrow> required_names r \<noteq> None \<and> distinct (required_of r)"
  by (auto simp: required_errors_def required_of_def split: option.splits)

lemma map_str_of_text:
  "list_all text_value xs \<Longrightarrow> n \<in> set (map str_of xs) \<Longrightarrow> text_value (JStr n)"
  by (induction xs) (auto simp: text_value_iff)

lemma required_names_nonempty:
  assumes "required_names r = Some ns"
  shows "ns \<noteq> []" and "n \<in> set ns \<Longrightarrow> text_value (JStr n)"
proof -
  from assms obtain x xs where "list_all text_value (x # xs)" "ns = map str_of (x # xs)"
    by (auto simp: required_names_def split: json.splits list.splits if_splits)
  then show "ns \<noteq> []" and "n \<in> set ns \<Longrightarrow> text_value (JStr n)"
    using map_str_of_text [of "x # xs" n] by auto
qed

lemma check_errors_Nil:
  assumes "required_names r \<noteq> None"
  shows "check_errors r = [] \<longleftrightarrow>
    set (map fst (entries_of ''checks'' r)) = set (required_of r) \<and>
    (\<forall>(name, status)\<in>set (entries_of ''checks'' r). status = JStr ''PASS'')"
proof -
  from assms obtain ns where ns: "required_names r = Some ns" by blast
  define cs where "cs = entries_of ''checks'' r"
  have "check_errors r = [] \<longleftrightarrow> cs \<noteq> [] \<and> (\<forall>n\<in>set ns. n \<in> fst ` set cs) \<and>
    (\<forall>(name, status)\<in>set cs. text_value (JStr name) \<and> name \<in> set ns \<and> status = JStr ''PASS'')"
    by (simp add: check_errors_def Let_def required_of_def ns cs_def split_beta missing_Nil) blast
  also have "\<dots> \<longleftrightarrow> fst ` set cs = set ns \<and> (\<forall>(name, status)\<in>set cs. status = JStr ''PASS'')"
    using required_names_nonempty [OF ns] by (auto simp: split_beta)
  finally show ?thesis by (simp add: required_of_def ns cs_def)
qed

lemma checks_ok_iff: "required_errors r = [] \<and> check_errors r = [] \<longleftrightarrow> checks_ok r"
  by (metis checks_ok_def required_errors_Nil check_errors_Nil)

lemma guarded_Nil [simp]: "guarded label r = Inr [] \<longleftrightarrow> r = Inr ()"
  by (auto simp: guarded_def split: sum.splits if_splits)

lemma check_evidence_Inr:
  "check_evidence h f p name rec = Inr () \<longleftrightarrow> text_value (JStr name) \<and> evidence_matches h f p rec"
  by (auto simp: check_evidence_def evidence_matches_def digest_def split: if_splits)

lemma map_result_all_Nil:
  "(\<exists>ys. map_result g xs = Inr ys \<and> concat ys = []) \<longleftrightarrow> (\<forall>x\<in>set xs. g x = Inr [])"
  by (induction xs) fastforce+

lemma evidence_errors_Nil: "evidence_errors h f r p = Inr [] \<longleftrightarrow> evidence_ok h f r p"
proof -
  define ev where "ev = entries_of ''evidence'' r"
  have entry: "evidence_entry_errors h f p x = Inr [] \<longleftrightarrow>
    text_value (JStr (fst x)) \<and> evidence_matches h f p (snd x)" for x
    by (simp add: evidence_entry_errors_def check_evidence_Inr)
  have "evidence_errors h f r p = Inr [] \<longleftrightarrow>
    ev \<noteq> [] \<and> set (required_of r) \<union> fst ` set (entries_of ''checks'' r) \<subseteq> fst ` set ev \<and>
    (\<exists>ys. map_result (evidence_entry_errors h f p) ev = Inr ys \<and> concat ys = [])"
    by (cases "map_result (evidence_entry_errors h f p) ev")
      (simp_all add: evidence_errors_def Let_def ev_def missing_Nil)
  then show ?thesis
    unfolding map_result_all_Nil evidence_ok_def by (simp add: entry ev_def split_beta)
qed

definition accepted ::
  "fs \<Rightarrow> (path \<Rightarrow> string \<Rightarrow> string \<Rightarrow> string \<Rightarrow> json result) \<Rightarrow> path \<Rightarrow> json \<Rightarrow> bool"
where
  "accepted f val p item \<longleftrightarrow>
     named_item item \<and>
     (\<exists>q d r'. file_identity f (parent p) item = Inr (q, d) \<and>
               val q (stage_of item) (scope_of item) d = Inr r')"

lemma prerequisite_errors_Nil:
  "prerequisite_errors f val p i seen items = Inr [] \<longleftrightarrow>
     (\<forall>item\<in>set items. accepted f val p item) \<and> distinct (map stage_of items) \<and>
     set (map stage_of items) \<inter> set seen = {}"
proof (induction items arbitrary: i seen)
  case (Cons item items)
  have "check_prerequisite f val p seen item = Inr () \<longleftrightarrow>
    accepted f val p item \<and> stage_of item \<notin> set seen"
    by (auto simp: check_prerequisite_def accepted_def)
  then show ?case
    using Cons.IH by (auto simp: accepted_def)
qed simp

lemma content_errors_Nil:
  "content_errors h f val r p stage scope = Inr [] \<longleftrightarrow>
     content_ok h f r p stage scope \<and>
     (\<exists>items. field ''prerequisites'' r = JList items \<and>
        (\<forall>item\<in>set items. accepted f val p item) \<and> distinct (map stage_of items))"
  unfolding content_errors_def content_ok_def
  by (auto simp: identity_errors_Nil command_errors_Nil source_errors_Nil checks_ok_iff [symmetric]
      evidence_errors_Nil prerequisite_errors_Nil split: json.splits)

section \<open>The abstract specification\<close>

definition report_at :: "fs \<Rightarrow> path \<Rightarrow> bytes \<Rightarrow> json \<Rightarrow> bool" where
  "report_at f p raw r \<longleftrightarrow> is_file f p \<and> read_bytes f p = Inr raw \<and> parse_report p raw = Inr r"

text \<open>
  \<open>genuine h f n p stage scope r\<close>: the file at \<open>p\<close> is a PASS report of that exact stage and scope
  with content \<open>r\<close>, all its checks passed and all its evidence unchanged, and the same holds of every
  prerequisite report it names, at most \<open>n\<close> levels deep, each with the recorded digest.
\<close>

inductive genuine :: "host \<Rightarrow> fs \<Rightarrow> nat \<Rightarrow> path \<Rightarrow> string \<Rightarrow> string \<Rightarrow> json \<Rightarrow> bool" for h f where
  genuineI:
    "report_at f p raw r \<Longrightarrow> content_ok h f r p stage scope \<Longrightarrow>
     field ''status'' r = JStr ''PASS'' \<Longrightarrow> field ''errors'' r = JList [] \<Longrightarrow>
     field ''prerequisites'' r = JList items \<Longrightarrow> distinct (map stage_of items) \<Longrightarrow>
     (\<And>item. item \<in> set items \<Longrightarrow>
        named_item item \<and>
        (\<exists>q b r'. file_identity f (parent p) item = Inr (q, sha256 h b) \<and> read_bytes f q = Inr b \<and>
                  genuine h f n q (stage_of item) (scope_of item) r')) \<Longrightarrow>
     genuine h f (Suc n) p stage scope r"

inductive_cases genuineE: "genuine h f n p stage scope r"

lemma status_errors_Nil:
  "status_errors r = [] \<longleftrightarrow> field ''status'' r = JStr ''PASS'' \<and> field ''errors'' r = JList []"
  by (simp add: status_errors_def)

lemma validate_file_Inr:
  "validate_file h f anc c p stage scope = Inr r \<longleftrightarrow>
     p \<notin> set anc \<and> length anc < max_prerequisite_depth \<and>
     (\<exists>raw. report_at f p raw r \<and> (c = None \<or> c = Some (sha256 h raw)) \<and>
        content_errors h f (\<lambda>q s t d. validate_file h f (anc @ [p]) (Some d) q s t) r p stage scope
          = Inr [] \<and>
        status_errors r = [])"
  by (subst validate_file.simps) (auto simp: report_at_def Let_def)

lemma validate_file_genuine:
  "validate_file h f anc c p stage scope = Inr r \<Longrightarrow>
     genuine h f (max_prerequisite_depth - length anc) p stage scope r \<and>
     (\<forall>d. c = Some d \<longrightarrow> (\<exists>b. read_bytes f p = Inr b \<and> sha256 h b = d))"
proof (induction "max_prerequisite_depth - length anc" arbitrary: anc c p stage scope r
    rule: less_induct)
  case less
  let ?val = "\<lambda>q s t d. validate_file h f (anc @ [p]) (Some d) q s t"
  let ?n = "max_prerequisite_depth - length (anc @ [p])"
  from less.prems obtain raw where depth: "length anc < max_prerequisite_depth"
    and at: "report_at f p raw r" and sum: "c = None \<or> c = Some (sha256 h raw)"
    and content: "content_errors h f ?val r p stage scope = Inr []"
    and status: "status_errors r = []"
    by (auto simp: validate_file_Inr)
  from content obtain items where ok: "content_ok h f r p stage scope"
    and items: "field ''prerequisites'' r = JList items" "distinct (map stage_of items)"
    and acc: "\<And>item. item \<in> set items \<Longrightarrow> accepted f ?val p item"
    by (auto simp: content_errors_Nil)
  have smaller: "?n < max_prerequisite_depth - length anc" using depth by simp
  have sub: "named_item item \<and>
      (\<exists>q b r'. file_identity f (parent p) item = Inr (q, sha256 h b) \<and> read_bytes f q = Inr b \<and>
        genuine h f ?n q (stage_of item) (scope_of item) r')"
    if "item \<in> set items" for item
    using acc [OF that] less.hyps [OF smaller] unfolding accepted_def by blast
  have "genuine h f (Suc ?n) p stage scope r"
    using genuineI [OF at ok _ _ items(1,2) sub] status by (simp add: status_errors_Nil)
  moreover have "Suc ?n = max_prerequisite_depth - length anc" using depth by simp
  ultimately show ?case using at sum by (auto simp: report_at_def)
qed

text \<open>The prerequisite graph, and why a genuine report never depends on itself.\<close>

definition depends :: "fs \<Rightarrow> path \<Rightarrow> path \<Rightarrow> bool" where
  "depends f p q \<longleftrightarrow>
     (\<exists>raw r items item d. report_at f p raw r \<and> field ''prerequisites'' r = JList items \<and>
        item \<in> set items \<and> file_identity f (parent p) item = Inr (q, d))"

lemma report_at_unique: "report_at f p raw r \<Longrightarrow> report_at f p raw' r' \<Longrightarrow> raw' = raw \<and> r' = r"
  by (auto simp: report_at_def)

lemma genuine_accessible: "genuine h f n p stage scope r \<Longrightarrow> Wellfounded.accp (\<lambda>q p. depends f p q) p"
proof (induction rule: genuine.induct)
  case (genuineI p raw r stage scope items n)
  show ?case
  proof (rule accpI)
    fix q assume "depends f p q"
    then obtain raw' r' items' item d where "report_at f p raw' r'"
      "field ''prerequisites'' r' = JList items'" "item \<in> set items'"
      "file_identity f (parent p) item = Inr (q, d)"
      by (auto simp: depends_def)
    with genuineI report_at_unique [OF genuineI(1)] show "Wellfounded.accp (\<lambda>q p. depends f p q) q"
      by fastforce
  qed
qed

lemma cycle_step: "R\<^sup>+\<^sup>+ p p \<Longrightarrow> \<exists>q. R p q \<and> R\<^sup>+\<^sup>+ q q"
  by (metis rtranclp_into_tranclp1 tranclpD)

lemma accessible_irreflexive:
  "Wellfounded.accp (\<lambda>q p. depends f p q) p \<Longrightarrow> \<not> (depends f)\<^sup>+\<^sup>+ p p"
  by (erule accp_induct) (use cycle_step [of "depends f"] in blast)

lemma genuine_validates:
  "genuine h f n p stage scope r \<Longrightarrow> length anc + n \<le> max_prerequisite_depth \<Longrightarrow>
   (\<And>a. a \<in> set anc \<Longrightarrow> (depends f)\<^sup>+\<^sup>+ a p) \<Longrightarrow>
   (\<And>d. c = Some d \<Longrightarrow> \<exists>b. read_bytes f p = Inr b \<and> sha256 h b = d) \<Longrightarrow>
   validate_file h f anc c p stage scope = Inr r"
proof (induction arbitrary: anc c rule: genuine.induct)
  case (genuineI p raw r stage scope items n)
  let ?val = "\<lambda>q s t d. validate_file h f (anc @ [p]) (Some d) q s t"
  have gen: "genuine h f (Suc n) p stage scope r"
    by (rule genuine.genuineI [OF genuineI.hyps]) (use genuineI.IH in blast)
  have "p \<notin> set anc"
    using accessible_irreflexive [OF genuine_accessible [OF gen]] genuineI.prems(2) by blast
  moreover have "accepted f ?val p item" if item: "item \<in> set items" for item
  proof -
    from genuineI.IH [OF item] obtain q b r' where named: "named_item item"
      and q: "file_identity f (parent p) item = Inr (q, sha256 h b)" "read_bytes f q = Inr b"
      and IH: "\<And>anc c. length anc + n \<le> max_prerequisite_depth \<Longrightarrow>
        (\<And>a. a \<in> set anc \<Longrightarrow> (depends f)\<^sup>+\<^sup>+ a q) \<Longrightarrow>
        (\<And>d. c = Some d \<Longrightarrow> \<exists>b. read_bytes f q = Inr b \<and> sha256 h b = d) \<Longrightarrow>
        validate_file h f anc c q (stage_of item) (scope_of item) = Inr r'"
      by blast
    have edge: "depends f p q"
      using genuineI.hyps(1,5) item q(1) unfolding depends_def by blast
    have "?val q (stage_of item) (scope_of item) (sha256 h b) = Inr r'"
    proof (rule IH)
      show "length (anc @ [p]) + n \<le> max_prerequisite_depth" using genuineI.prems(1) by simp
      show "(depends f)\<^sup>+\<^sup>+ a q" if "a \<in> set (anc @ [p])" for a
        using that edge genuineI.prems(2) by (auto intro: tranclp.trancl_into_trancl)
    qed (use q in auto)
    with named q show ?thesis by (auto simp: accepted_def)
  qed
  moreover from this have "content_errors h f ?val r p stage scope = Inr []"
    using genuineI.hyps by (simp add: content_errors_Nil)
  moreover have "c = None \<or> c = Some (sha256 h raw)"
    using genuineI.hyps(1) genuineI.prems(3) by (cases c) (auto simp: report_at_def)
  ultimately show ?case
    using genuineI.hyps(1,3,4) genuineI.prems(1)
    unfolding validate_file_Inr status_errors_Nil by auto
qed

end
