(* ===== verification/StageReportRoundtrip.thy ===== *)
theory StageReportRoundtrip
  imports StageReportFacts
begin

text \<open>
  From \<open>write_report\<close> to \<open>validate_report\<close>: a file system that only gained nodes keeps every verified
  report verified, canonical re-ordering of a report's keys changes none of the checks, and
  therefore a report written as PASS is accepted by the validator.
\<close>

section \<open>File systems that only gain nodes\<close>

definition extends_fs :: "fs \<Rightarrow> fs \<Rightarrow> bool" where
  "extends_fs f f' \<longleftrightarrow> (\<forall>x. link_target f' x = link_target f x) \<and> (\<forall>x. f x = None \<or> f' x = f x)"

text \<open>The same nodes but for what is at \<open>p\<close>, which is no link.\<close>

definition differs_at :: "fs \<Rightarrow> fs \<Rightarrow> path \<Rightarrow> bool" where
  "differs_at f f' p \<longleftrightarrow>
     (\<forall>x. link_target f' x = link_target f x) \<and> (\<forall>x. x \<noteq> p \<longrightarrow> f x = None \<or> f' x = f x)"

lemma walk_links: "(\<And>x. link_target f' x = link_target f x) \<Longrightarrow> walk f' k acc rest = walk f k acc rest"
proof (induction f k acc rest rule: walk.induct)
  case (2 f k acc c rest)
  show ?case
    using 2 by (cases "c = ''..''"; cases "link_target f (acc @ [c])"; cases k) simp_all
qed simp

lemma differs_resolve: "differs_at f f' p \<Longrightarrow> resolve f' base v = resolve f base v"
  using walk_links [of f' f] by (simp add: resolve_def differs_at_def)

lemma differs_resolve_checked:
  "differs_at f f' p \<Longrightarrow> resolve_checked f' base v = resolve_checked f base v"
  by (simp add: resolve_checked_def differs_resolve)

lemma differs_file_identity:
  "differs_at f f' p \<Longrightarrow> file_identity f' base rec = file_identity f base rec"
  by (simp add: file_identity_def differs_resolve_checked)

lemma resolve_checked_canonical:
  "resolve_checked f base v = Inr p \<Longrightarrow> canonical f base \<Longrightarrow> canonical f p"
  by (auto simp: resolve_checked_def split: if_splits sum.splits dest: resolve_canonical)

lemma file_identity_canonical:
  "file_identity f base rec = Inr (q, d) \<Longrightarrow> canonical f base \<Longrightarrow> canonical f q"
  by (auto simp: file_identity_def split: if_splits dest: resolve_checked_canonical)

lemma canonical_links:
  "(\<And>x. link_target f' x = link_target f x) \<Longrightarrow> canonical f' p = canonical f p"
  by (simp add: canonical_def)

lemma differs_read:
  assumes "differs_at f f' p" and "canonical f q" and "q \<noteq> p" and "read_bytes f q = Inr b"
  shows "read_bytes f' q = Inr b" and "is_file f' q"
proof -
  have c: "canonical f' q" using assms(1,2) canonical_links [of f' f] by (simp add: differs_at_def)
  from assms(2,4) have "q \<noteq> []" "f q = Some (Regular b)" by (auto simp: read_bytes_canonical)
  moreover from this assms(1,3) have "f' q = Some (Regular b)" by (auto simp: differs_at_def)
  ultimately show "read_bytes f' q = Inr b" "is_file f' q"
    using c by (auto simp: read_bytes_canonical is_file_canonical)
qed

lemma differs_evidence:
  assumes "differs_at f f' p" and "canonical f (parent p)" and "evidence_matches h f p rec"
  shows "evidence_matches h f' p rec"
proof -
  from assms(3) obtain q b where q: "file_identity f (parent p) rec = Inr (q, sha256 h b)" "q \<noteq> p"
      "is_file f q" "read_bytes f q = Inr b"
    by (auto simp: evidence_matches_def)
  have "canonical f q" using file_identity_canonical [OF q(1) assms(2)] .
  with differs_read [OF assms(1)] q show ?thesis
    unfolding evidence_matches_def by (auto simp: differs_file_identity [OF assms(1)])
qed

text \<open>A file system that extends another differs from it nowhere that was occupied.\<close>

lemma extends_differs: "extends_fs f f' \<Longrightarrow> f p = None \<Longrightarrow> differs_at f f' p"
  by (auto simp: extends_fs_def differs_at_def)

lemma extends_read:
  assumes "extends_fs f f'" and "canonical f q" and "read_bytes f q = Inr b"
  shows "read_bytes f' q = Inr b" and "is_file f' q"
proof -
  have c: "canonical f' q" using assms(1,2) canonical_links [of f' f] by (simp add: extends_fs_def)
  from assms have "q \<noteq> []" "f q = Some (Regular b)" by (auto simp: read_bytes_canonical)
  moreover from this assms(1) have "f' q = Some (Regular b)"
    unfolding extends_fs_def by (metis option.distinct(1))
  ultimately show "read_bytes f' q = Inr b" "is_file f' q"
    using c by (auto simp: read_bytes_canonical is_file_canonical)
qed

lemma extends_file_identity:
  "extends_fs f f' \<Longrightarrow> file_identity f' base rec = file_identity f base rec"
  using walk_links [of f' f]
  by (simp add: extends_fs_def file_identity_def resolve_checked_def resolve_def)

lemma extends_evidence:
  assumes "extends_fs f f'" and "canonical f (parent p)" and "evidence_matches h f p rec"
  shows "evidence_matches h f' p rec"
proof -
  from assms(3) obtain q b where q: "file_identity f (parent p) rec = Inr (q, sha256 h b)" "q \<noteq> p"
      "is_file f q" "read_bytes f q = Inr b"
    by (auto simp: evidence_matches_def)
  have "canonical f q" using file_identity_canonical [OF q(1) assms(2)] .
  with extends_read [OF assms(1)] q show ?thesis
    unfolding evidence_matches_def by (auto simp: extends_file_identity [OF assms(1)])
qed

lemma genuine_extends:
  "genuine h f n p stage scope r \<Longrightarrow> extends_fs f f' \<Longrightarrow> canonical f p \<Longrightarrow>
   genuine h f' n p stage scope r"
proof (induction rule: genuine.induct)
  case (genuineI p raw r stage scope items n)
  have par: "canonical f (parent p)" using genuineI.prems(2) by (simp add: parent_def canonical_butlast)
  show ?case
  proof (rule genuine.genuineI)
    show "report_at f' p raw r"
      using genuineI.hyps(1) extends_read [OF genuineI.prems] by (simp add: report_at_def)
    show "content_ok h f' r p stage scope"
      using genuineI.hyps(2) extends_evidence [OF genuineI.prems(1) par]
      by (auto simp: content_ok_def evidence_ok_def)
    fix item assume item: "item \<in> set items"
    from genuineI.IH [OF item] obtain q b r' where "named_item item"
      and q: "file_identity f (parent p) item = Inr (q, sha256 h b)" "read_bytes f q = Inr b"
      and IH: "extends_fs f f' \<Longrightarrow> canonical f q \<Longrightarrow> genuine h f' n q (stage_of item) (scope_of item) r'"
      by blast
    have "canonical f q" using file_identity_canonical [OF q(1) par] .
    with IH genuineI.prems extends_read [OF genuineI.prems(1)] q \<open>named_item item\<close>
    show "named_item item \<and> (\<exists>q b r'. file_identity f' (parent p) item = Inr (q, sha256 h b) \<and>
        read_bytes f' q = Inr b \<and> genuine h f' n q (stage_of item) (scope_of item) r')"
      by (auto simp: extends_file_identity)
  qed (use genuineI.hyps in auto)
qed

section \<open>Canonical order changes no check\<close>

lemma set_entries_canon:
  "wf_json r \<Longrightarrow> set (entries_of k (canon r)) = (\<lambda>(n, v). (n, canon v)) ` set (entries_of k r)"
  by (cases "field k r") (simp_all add: entries_of_def field_canon)

lemma text_value_canon [simp]: "text_value (canon v) = text_value v"
  by (cases v) (simp_all add: text_value_def)

lemma wf_entries: "wf_json r \<Longrightarrow> (n, v) \<in> set (entries_of k r) \<Longrightarrow> wf_json v"
  using wf_field [of r k] by (cases "field k r") (auto simp: entries_of_def list_all_iff)

lemma file_identity_canon: "wf_json rec \<Longrightarrow> file_identity f base (canon rec) = file_identity f base rec"
proof -
  assume wf: "wf_json rec"
  have "resolve_checked f base (canon v) = resolve_checked f base v" for v
    by (cases v) (simp_all add: resolve_checked_def text_value_def)
  with wf show ?thesis by (simp add: file_identity_def field_canon cong: if_cong)
qed

lemma required_names_canon: "wf_json r \<Longrightarrow> required_names (canon r) = required_names r"
proof -
  assume wf: "wf_json r"
  have "list_all text_value (map canon xs) = list_all text_value xs" for xs
    by (induction xs) simp_all
  moreover have "map (str_of \<circ> canon) xs = map str_of xs" for xs
    by (induction xs) simp_all
  ultimately show ?thesis
    using wf by (simp add: required_names_def field_canon comp_def split: json.splits list.splits)
qed

lemma identity_ok_canon: "wf_json r \<Longrightarrow> identity_ok h (canon r) stage scope = identity_ok h r stage scope"
  by (simp add: identity_ok_def field_canon)

lemma command_ok_canon: "wf_json r \<Longrightarrow> command_ok r \<Longrightarrow> command_ok (canon r)"
  by (auto simp: command_ok_def field_canon)

lemma sources_ok_canon: "wf_json r \<Longrightarrow> sources_ok r \<Longrightarrow> sources_ok (canon r)"
proof -
  assume wf: "wf_json r" and ok: "sources_ok r"
  have "entries_of ''sources'' (canon r) \<noteq> []"
    using ok set_entries_canon [OF wf, of "''sources''"] by (auto simp: sources_ok_def)
  moreover have "text_value (field k (canon v)) = text_value (field k v)"
    if "(n, v) \<in> set (entries_of ''sources'' r)" for k n v
    using field_canon [OF wf_entries [OF wf that]] by simp
  ultimately show ?thesis
    using wf ok unfolding sources_ok_def set_entries_canon [OF wf] by (auto simp: field_canon)
qed

lemma checks_ok_canon: "wf_json r \<Longrightarrow> checks_ok r \<Longrightarrow> checks_ok (canon r)"
  unfolding checks_ok_def set_map set_entries_canon required_of_def
  by (auto simp: required_names_canon image_image split_def)

lemma evidence_ok_canon: "wf_json r \<Longrightarrow> evidence_ok h f r p \<Longrightarrow> evidence_ok h f (canon r) p"
proof -
  assume wf: "wf_json r" and ok: "evidence_ok h f r p"
  have "evidence_matches h f p (canon v) = evidence_matches h f p v"
    if "(n, v) \<in> set (entries_of ''evidence'' r)" for n v
    using file_identity_canon [OF wf_entries [OF wf that]] by (simp add: evidence_matches_def)
  moreover have "entries_of ''evidence'' (canon r) \<noteq> []"
    using ok set_entries_canon [OF wf, of "''evidence''"] by (auto simp: evidence_ok_def)
  ultimately show ?thesis
    using ok unfolding evidence_ok_def set_entries_canon [OF wf] required_of_def
    by (auto simp: required_names_canon [OF wf] image_image split_def)
qed

lemma content_ok_canon:
  "wf_json r \<Longrightarrow> content_ok h f r p stage scope \<Longrightarrow> content_ok h f (canon r) p stage scope"
  by (simp add: content_ok_def identity_ok_canon command_ok_canon sources_ok_canon checks_ok_canon
      evidence_ok_canon)

section \<open>Writing\<close>

lemma make_dirs_grows:
  "make_dirs f acc cs = Inr f' \<Longrightarrow> f x = None \<and> f' x \<in> {None, Some Directory} \<or> f' x = f x"
proof (induction f acc cs rule: make_dirs.induct)
  case (2 f acc c cs)
  show ?case
  proof (cases "f (acc @ [c])")
    case None
    with "2.prems" have "make_dirs (f(acc @ [c] \<mapsto> Directory)) (acc @ [c]) cs = Inr f'" by simp
    from "2.IH"(1) [OF None this] None show ?thesis by (cases "x = acc @ [c]") auto
  next
    case (Some n)
    with 2 show ?thesis by (auto split: if_splits)
  qed
qed simp

lemma write_atomic_effect:
  assumes "write_atomic f p b = Inr f'" and "canonical f p"
  shows "differs_at f f' p" and "f' p = Some (Regular b)" and "p \<noteq> []"
    and "f p = None \<Longrightarrow> extends_fs f f'"
proof -
  from assms(1) obtain g where g: "make_dirs f [] (parent p) = Inr g" "f' = g(p \<mapsto> Regular b)" "p \<noteq> []"
    by (auto simp: write_atomic_def split: if_splits)
  have link: "link_target f p = None"
    using assms(2) g(3) canonical_snoc [of f "butlast p" "last p"] by simp
  have links: "link_target f' x = link_target f x" for x
    using make_dirs_grows [OF g(1), of x] link g(2)
    by (auto simp: link_target_def split: option.splits node.splits)
  then show "differs_at f f' p"
    using make_dirs_grows [OF g(1)] g(2) by (auto simp: differs_at_def)
  show "f p = None \<Longrightarrow> extends_fs f f'"
    using make_dirs_grows [OF g(1)] links g(2) by (auto simp: extends_fs_def)
qed (use assms in \<open>auto simp: write_atomic_def split: if_splits\<close>)

lemma report_fields:
  "field ''status'' (report_of h f p now a status errs) = JStr status"
  "field ''errors'' (report_of h f p now a status errs) = JList (map JStr errs)"
  by (simp_all add: report_of_def)

lemma content_ok_status:
  "content_ok h f (report_of h f p now a status errs) q stage scope
     = content_ok h f (report_of h f p now a status' errs') q stage scope"
  by (simp add: content_ok_def identity_ok_def command_ok_def sources_ok_def checks_ok_def
      evidence_ok_def entries_of_def required_of_def required_names_def report_of_def)

lemma prerequisites_of_report:
  "field ''prerequisites'' (report_of h f p now a status errs)
     = prerequisite_record h f (parent p) (wa_prerequisites a)"
  by (simp add: report_of_def)

lemma write_report_Inr:
  assumes "write_report h f now output a = Inr (r, f')"
  obtains p errs enc where "resolve_checked f (cwd h) (JStr output) = Inr p"
    and "content_errors h f (\<lambda>q stage scope d. validate_file h f [p] (Some d) q stage scope)
      (report_of h f p now a ''FAIL'' []) p (wa_stage_id a) (wa_scope a) = Inr errs"
    and "r = report_of h f p now a (if errs = [] then ''PASS'' else ''FAIL'') errs"
    and "dumps r = Inr enc" and "write_atomic f p (enc @ [CHR 0x0A]) = Inr f'"
  using assms by (auto simp: write_report_def Let_def)

lemma parse_report_dumps:
  assumes "plain_json r" and "is_obj r" and "dumps r = Inr enc"
  shows "parse_report p (enc @ [CHR 0x0A]) = Inr (canon r)"
proof -
  have enc: "enc = encode 0 r" using assms(3) by (simp add: dumps_def split: if_splits)
  have "ascii (enc @ [CHR 0x0A])"
    using assms(1) ascii_encode [of r 0] by (simp add: enc plain_json_def)
  then have "decode_utf8 (enc @ [CHR 0x0A]) = Inr (enc @ [CHR 0x0A])"
    by (simp add: decode_utf8_def ascii_valid_utf8 del: valid_utf8.simps)
  moreover have "loads unique_object invalid_constant (enc @ [CHR 0x0A]) = Inr (canon r)"
    unfolding unique_object_def invalid_constant_def
    by (rule distinct_dict.loads_dumps [OF assms(1,3)])
  ultimately show ?thesis using assms(2) by (simp add: parse_report_def)
qed

lemma wf_items: "wf_json r \<Longrightarrow> field k r = JList items \<Longrightarrow> item \<in> set items \<Longrightarrow> wf_json item"
  using wf_field [of r k] by (auto simp: list_all_iff)

lemma item_canon [simp]:
  "wf_json item \<Longrightarrow> stage_of (canon item) = stage_of item"
  "wf_json item \<Longrightarrow> scope_of (canon item) = scope_of item"
  "wf_json item \<Longrightarrow> named_item (canon item) = named_item item"
  by (simp_all add: stage_of_def scope_of_def named_item_def field_canon)

text \<open>The conditions under which the new file system keeps the prerequisites verified.\<close>

lemma accepted_after_write:
  assumes acc: "accepted f (\<lambda>q s t d. validate_file h f [p] (Some d) q s t) p item"
    and ext: "extends_fs f f'" and can: "canonical f p" and wf: "wf_json item"
  shows "named_item (canon item) \<and>
    (\<exists>q b r'. file_identity f' (parent p) (canon item) = Inr (q, sha256 h b) \<and>
       read_bytes f' q = Inr b \<and>
       genuine h f' (max_prerequisite_depth - 1) q (stage_of (canon item)) (scope_of (canon item)) r')"
proof -
  from acc obtain q d r' where named: "named_item item"
    and q: "file_identity f (parent p) item = Inr (q, d)"
    and val: "validate_file h f [p] (Some d) q (stage_of item) (scope_of item) = Inr r'"
    by (auto simp: accepted_def)
  from validate_file_genuine [OF val] obtain b where
      gen: "genuine h f (max_prerequisite_depth - 1) q (stage_of item) (scope_of item) r'"
    and b: "read_bytes f q = Inr b" "sha256 h b = d"
    by auto
  have can_q: "canonical f q"
    using file_identity_canonical [OF q] can by (simp add: parent_def canonical_butlast)
  have "genuine h f' (max_prerequisite_depth - 1) q (stage_of item) (scope_of item) r'"
    by (rule genuine_extends [OF gen ext can_q])
  then show ?thesis
    using named q b extends_read(1) [OF ext can_q b(1)] wf
    by (auto simp: file_identity_canon extends_file_identity [OF ext])
qed

lemma written_is_genuine:
  assumes written: "write_report h f now output a = Inr (r, f')"
    and pass: "field ''status'' r = JStr ''PASS''"
    and cwd: "canonical f (cwd h)" and plain: "plain_json r"
    and p: "resolve_checked f (cwd h) (JStr output) = Inr p"
    and fresh: "f p = None \<or> wa_prerequisites a = []"
  shows "genuine h f' max_prerequisite_depth p (wa_stage_id a) (wa_scope a) (canon r)"
    and "differs_at f f' p"
proof -
  from written p obtain errs enc where
    errs: "content_errors h f (\<lambda>q stage scope d. validate_file h f [p] (Some d) q stage scope)
      (report_of h f p now a ''FAIL'' []) p (wa_stage_id a) (wa_scope a) = Inr errs"
    and r: "r = report_of h f p now a (if errs = [] then ''PASS'' else ''FAIL'') errs"
    and enc: "dumps r = Inr enc" and w: "write_atomic f p (enc @ [CHR 0x0A]) = Inr f'"
    by (auto elim: write_report_Inr)
  from pass r have none: "errs = []" by (simp add: report_fields split: if_splits)
  have can: "canonical f p" using resolve_checked_canonical [OF p cwd] .
  then have par: "canonical f (parent p)" by (simp add: parent_def canonical_butlast)
  note effect = write_atomic_effect [OF w can]
  then show diff: "differs_at f f' p" by blast
  have can': "canonical f' p"
    using can canonical_links [of f' f] diff by (simp add: differs_at_def)
  have wf: "wf_json r" using plain by (simp add: plain_json_def)
  from errs [unfolded none content_errors_Nil prerequisites_of_report]
  obtain items where content: "content_ok h f r p (wa_stage_id a) (wa_scope a)"
    and items: "prerequisite_record h f (parent p) (wa_prerequisites a) = JList items"
    and acc: "\<And>item. item \<in> set items \<Longrightarrow>
      accepted f (\<lambda>q s t d. validate_file h f [p] (Some d) q s t) p item"
    and dist: "distinct (map stage_of items)"
    using content_ok_status [where status = "''FAIL''" and errs = "[]" and status' = "''PASS''" and errs' = "[]"]
    by (auto simp: r none)
  have items_r: "field ''prerequisites'' r = JList items"
    using items by (simp add: r prerequisites_of_report)
  have "genuine h f' (Suc (max_prerequisite_depth - 1)) p (wa_stage_id a) (wa_scope a) (canon r)"
  proof (rule genuine.genuineI)
    show "report_at f' p (enc @ [CHR 0x0A]) (canon r)"
      using effect(2,3) can' parse_report_dumps [OF plain _ enc]
      by (simp add: report_at_def is_file_canonical read_bytes_canonical r report_of_def)
    show "content_ok h f' (canon r) p (wa_stage_id a) (wa_scope a)"
      using content_ok_canon [OF wf content] differs_evidence [OF diff par]
      by (auto simp: content_ok_def evidence_ok_def)
    have "field ''errors'' r = JList []" by (simp add: r none report_fields)
    with pass show "field ''status'' (canon r) = JStr ''PASS''" "field ''errors'' (canon r) = JList []"
      by (simp_all add: field_canon [OF wf])
    show "field ''prerequisites'' (canon r) = JList (map canon items)"
      by (simp add: field_canon [OF wf] items_r)
    have wf_item: "wf_json item" if "item \<in> set items" for item
      using wf_items [OF wf items_r that] .
    then have "map stage_of (map canon items) = map stage_of items" by simp
    with dist show "distinct (map stage_of (map canon items))" by (simp only:)
    fix item' assume "item' \<in> set (map canon items)"
    then obtain item where item: "item \<in> set items" "item' = canon item" by auto
    then have "wa_prerequisites a \<noteq> []" using items by (auto simp: prerequisite_record_def)
    then have "extends_fs f f'" using fresh effect(4) by blast
    from accepted_after_write [OF acc [OF item(1)] this can wf_item [OF item(1)]]
    show "named_item item' \<and>
      (\<exists>q b r'. file_identity f' (parent p) item' = Inr (q, sha256 h b) \<and> read_bytes f' q = Inr b \<and>
        genuine h f' (max_prerequisite_depth - 1) q (stage_of item') (scope_of item') r')"
      by (simp add: item(2))
  qed
  then show "genuine h f' max_prerequisite_depth p (wa_stage_id a) (wa_scope a) (canon r)"
    by (simp add: max_prerequisite_depth_def)
qed

section \<open>Written reports\<close>

lemma written_report:
  assumes "write_report h f now out a = Inr (r, f')"
  shows "field ''exit_code'' r = wa_exit_code a"
    and "field ''status'' r = JStr ''FAIL'' \<or> field ''status'' r = JStr ''PASS'' \<and> wa_exit_code a = JInt 0"
proof -
  from write_report_Inr [OF assms] obtain p errs where
    e: "content_errors h f (\<lambda>q stage scope d. validate_file h f [p] (Some d) q stage scope)
      (report_of h f p now a ''FAIL'' []) p (wa_stage_id a) (wa_scope a) = Inr errs"
    and r: "r = report_of h f p now a (if errs = [] then ''PASS'' else ''FAIL'') errs" by metis
  show "field ''exit_code'' r = wa_exit_code a" by (simp add: r report_of_def)
  show "field ''status'' r = JStr ''FAIL'' \<or> field ''status'' r = JStr ''PASS'' \<and> wa_exit_code a = JInt 0"
  proof (cases "errs = []")
    case True
    with e have "field ''exit_code'' (report_of h f p now a ''FAIL'' []) = JInt 0"
      by (simp add: content_errors_Nil content_ok_def identity_ok_def)
    with True r show ?thesis by (simp add: report_fields report_of_def)
  qed (simp add: r report_fields)
qed

end
