(* ===== verification/EntryReportFacts.thy ===== *)
theory EntryReportFacts
  imports EntryReport StageReportRoundtrip
begin

text \<open>
  What the report of a runtime invocation says: a PASS binds the run to the pinned manifest, to the digests
  of its six inputs and to a valid report of the endpoint; a failed process keeps its exit code.
\<close>

section \<open>The inputs\<close>

lemma all_passed_lookup: "all_passed checks \<Longrightarrow> map_of checks n = Some v \<Longrightarrow> v = ''PASS''"
  by (auto simp: all_passed_def list_all_iff dest!: map_of_SomeD)

lemma input_check_inject [simp]: "input_check l = input_check l' \<longleftrightarrow> l = l'"
  by (simp add: input_check_def)

text \<open>What a PASS of one input means: its record is well formed, its file has the digest, which is expected later.\<close>

definition input_proved :: "host \<Rightarrow> fs \<Rightarrow> json \<Rightarrow> string \<Rightarrow> input_state \<Rightarrow> bool" where
  "input_proved h f records l s \<longleftrightarrow>
     (\<exists>filename d. input_record l (field l records) = Inr (filename, d) \<and>
        entry_digest h f (components filename) = Inr d \<and>
        (''file-'' @ l, input_check l, d) \<in> set (in_expected s))"

definition only_proved :: "host \<Rightarrow> fs \<Rightarrow> json \<Rightarrow> input_state \<Rightarrow> bool" where
  "only_proved h f records s \<longleftrightarrow>
     (\<forall>l. map_of (in_checks s) (input_check l) = Some ''PASS'' \<longrightarrow> input_proved h f records l s)"

lemma compare_input_expected [simp]:
  "in_expected (compare_input h f l p d s) = in_expected s"
  by (simp add: compare_input_def input_error_def Let_def split: sum.split)

lemma compare_input_checks:
  "in_checks (compare_input h f l p d s) =
     (if entry_digest h f (components p) = Inr d then dict_set (input_check l) ''PASS'' (in_checks s) else in_checks s)"
  by (simp add: compare_input_def input_error_def Let_def split: sum.split)

lemma check_input_expected:
  "in_expected (check_input h f records l s) =
     in_expected s @ (case input_record l (field l records) of
       Inl e \<Rightarrow> [] | Inr (p, d) \<Rightarrow> [(''file-'' @ l, input_check l, d)])"
  by (simp add: check_input_def input_error_def split: sum.split prod.split)

lemma check_input_checks:
  "in_checks (check_input h f records l s) =
     (case input_record l (field l records) of
        Inl e \<Rightarrow> in_checks s
      | Inr (p, d) \<Rightarrow> if entry_digest h f (components p) = Inr d
          then dict_set (input_check l) ''PASS'' (in_checks s) else in_checks s)"
  by (simp add: check_input_def input_error_def compare_input_checks split: sum.split prod.split)

lemma input_proved_mono:
  "input_proved h f records l s \<Longrightarrow> input_proved h f records l (check_input h f records l' s)"
  by (auto simp: input_proved_def check_input_expected)

lemma check_input_proves:
  assumes "only_proved h f records s"
  shows "only_proved h f records (check_input h f records l s)"
  unfolding only_proved_def
proof (intro allI impI)
  fix l' assume passed: "map_of (in_checks (check_input h f records l s)) (input_check l') = Some ''PASS''"
  show "input_proved h f records l' (check_input h f records l s)"
  proof (cases "map_of (in_checks s) (input_check l') = Some ''PASS''")
    case True
    with assms show ?thesis by (simp add: only_proved_def input_proved_mono)
  next
    case False
    then obtain p d where "input_record l (field l records) = Inr (p, d)" "l' = l"
      "entry_digest h f (components p) = Inr d"
      using passed by (auto simp: check_input_checks split: sum.splits prod.splits if_splits)
    then show ?thesis by (auto simp: input_proved_def check_input_expected)
  qed
qed

lemma fold_check_input:
  "only_proved h f records s \<Longrightarrow> only_proved h f records (fold (check_input h f records) ls s)"
  by (induction ls arbitrary: s) (simp_all add: check_input_proves)

lemma start_inputs_check: "map_of (in_checks (start_inputs d)) n \<noteq> Some ''PASS''"
  by (auto simp: start_inputs_def dest!: map_of_SomeD)

lemma input_check_not_manifest [simp]: "input_check l \<noteq> ''manifest''"
  by (simp add: input_check_def)

lemma read_inputs_passed:
  assumes "map_of (in_checks (read_inputs h f d pin)) ''manifest'' = Some ''PASS''"
  obtains records where "read_manifest h f (d @ [''inputs.json'']) pin = Inr records"
    and "only_proved h f records (read_inputs h f d pin)"
    and "(''inputs-manifest'', ''manifest'', pinned pin) \<in> set (in_expected (read_inputs h f d pin))"
proof (cases "read_manifest h f (d @ [''inputs.json'']) pin")
  case (Inl e)
  with assms show ?thesis using start_inputs_check [of d "''manifest''"] by (simp add: read_inputs_def Let_def)
next
  case (Inr records)
  let ?s = "accept_manifest pin (start_inputs d)"
  have s: "only_proved h f records ?s"
    using start_inputs_check [of d] by (simp add: only_proved_def accept_manifest_def)
  have mono: "set (in_expected s) \<subseteq> set (in_expected (fold (check_input h f records) ls s))" for ls s
  proof (induction ls arbitrary: s)
    case (Cons l ls)
    have "set (in_expected s) \<subseteq> set (in_expected (check_input h f records l s))"
      by (simp add: check_input_expected)
    also have "\<dots> \<subseteq> set (in_expected (fold (check_input h f records) ls (check_input h f records l s)))"
      by (rule Cons.IH)
    finally show ?case by simp
  qed simp
  have "(''inputs-manifest'', ''manifest'', pinned pin) \<in> set (in_expected ?s)" by (simp add: accept_manifest_def)
  with Inr show ?thesis
    using that [of records] fold_check_input [OF s, of labels] mono [of ?s labels]
    by (auto simp: read_inputs_def Let_def)
qed
lemma check_input_keys:
  "input_check l \<in> fst ` set (in_checks s) \<Longrightarrow>
   fst ` set (in_checks (check_input h f r l s)) = fst ` set (in_checks s)"
  by (simp add: check_input_checks insert_absorb split: sum.split)

lemma fold_check_input_keys:
  "input_check ` set ls \<subseteq> fst ` set (in_checks s) \<Longrightarrow>
   fst ` set (in_checks (fold (check_input h f r) ls s)) = fst ` set (in_checks s)"
  by (induction ls arbitrary: s) (simp_all add: check_input_keys)

lemma fold_check_input_distinct:
  "distinct (map fst (in_checks s)) \<Longrightarrow> distinct (map fst (in_checks (fold (check_input h f r) ls s)))"
  by (induction ls arbitrary: s) (simp_all add: check_input_checks distinct_dict_set split: sum.split)

abbreviation input_names :: "string set" where
  "input_names \<equiv> insert ''manifest'' (input_check ` set labels)"

lemma start_inputs_keys:
  "distinct (map fst (in_checks (start_inputs d)))" "fst ` set (in_checks (start_inputs d)) = input_names"
  "distinct (map fst (in_checks (accept_manifest pin (start_inputs d))))"
  "fst ` set (in_checks (accept_manifest pin (start_inputs d))) = input_names"
proof -
  show s: "distinct (map fst (in_checks (start_inputs d)))" "fst ` set (in_checks (start_inputs d)) = input_names"
    by (simp add: start_inputs_def labels_def input_check_def) (auto simp: start_inputs_def image_image)
  then show "distinct (map fst (in_checks (accept_manifest pin (start_inputs d))))"
    "fst ` set (in_checks (accept_manifest pin (start_inputs d))) = input_names"
    by (simp_all add: accept_manifest_def distinct_dict_set)
qed

lemma read_inputs_keys:
  "distinct (map fst (in_checks (read_inputs h f d pin)))"
  "fst ` set (in_checks (read_inputs h f d pin)) = input_names"
proof -
  have sub: "input_check ` set labels \<subseteq> fst ` set (in_checks (accept_manifest pin (start_inputs d)))"
    using start_inputs_keys(4) [where d = d and pin = pin] by auto
  note f = fold_check_input_distinct [OF start_inputs_keys(3) [where d = d and pin = pin]]
    fold_check_input_keys [OF sub]
  show "distinct (map fst (in_checks (read_inputs h f d pin)))"
    "fst ` set (in_checks (read_inputs h f d pin)) = input_names"
    using start_inputs_keys(1,2) [of d] f start_inputs_keys(4) [where d = d and pin = pin]
    by (simp_all add: read_inputs_def Let_def split: sum.split)
qed

section \<open>Late changes\<close>

lemma fold_late_input:
  "snd (fold (late_input report) xs (c, e)) = e @ [name @ '': SHA256 changed before final report''.
     (name, chk, d) \<leftarrow> xs, recorded_sha256 report name \<noteq> JStr d]"
  by (induction xs arbitrary: c e) (auto simp: late_input_def split: prod.split)

lemma no_late_changes:
  assumes "late_changes report expected s = (c, [])"
  shows "\<forall>(name, chk, d)\<in>set expected. recorded_sha256 report name = JStr d"
    and "fi_child s = Some d \<Longrightarrow> recorded_child report = JStr d"
proof -
  let ?acc = "fold (late_input report) expected (fi_checks s, [])"
  have none: "snd ?acc = []"
    using assms by (auto simp: late_changes_def late_child_def split: option.splits if_splits)
  then show "\<forall>(name, chk, d)\<in>set expected. recorded_sha256 report name = JStr d"
    by (fastforce simp: fold_late_input split: if_splits)
  assume "fi_child s = Some d"
  then show "recorded_child report = JStr d"
    using assms by (auto simp: late_changes_def late_child_def split: if_splits)
qed

section \<open>The endpoint\<close>

lemma endpoint_run:
  assumes "check_endpoint en f child stage scope s = Inr t"
  shows "n \<noteq> ''endpoint'' \<Longrightarrow> map_of (fi_checks t) n = map_of (fi_checks s) n"
    and "map_of (fi_checks t) ''endpoint'' = Some ''PASS'' \<Longrightarrow> map_of (fi_checks s) ''endpoint'' \<noteq> Some ''PASS'' \<Longrightarrow>
      \<exists>r d. validate_report (en_host en) f (path_text child) stage scope = Inr r \<and>
        entry_digest (en_host en) f child = Inr d \<and> fi_child t = Some d"
    and "map_of (fi_checks s) ''endpoint'' \<noteq> None \<Longrightarrow> map_of (fi_checks t) ''endpoint'' \<noteq> None"
  using assms
  by (auto simp: check_endpoint_def validate_child_def endpoint_error_def Let_def bind_result_Inl_iff
      split: sum.splits if_splits)

lemma map_of_fold_set:
  "map_of (fold (\<lambda>(n, v). dict_set n v) xs d) k =
     (case map_of (rev xs) k of None \<Rightarrow> map_of d k | Some v \<Rightarrow> Some v)"
  by (induction xs arbitrary: d) (auto simp: map_add_def split: option.split)

section \<open>A PASS of the whole invocation\<close>

text \<open>The manifest with the pinned digest, and for each input the digest it had, it is listed with and it is reported with.\<close>

definition inputs_bound :: "host \<Rightarrow> fs \<Rightarrow> path \<Rightarrow> json \<Rightarrow> json \<Rightarrow> bool" where
  "inputs_bound h f d pin report \<longleftrightarrow>
     (\<exists>records. read_manifest h f (d @ [''inputs.json'']) pin = Inr records \<and>
        recorded_sha256 report ''inputs-manifest'' = JStr (pinned pin) \<and>
        (\<forall>l\<in>set labels. \<exists>filename x. input_record l (field l records) = Inr (filename, x) \<and>
           entry_digest h f (components filename) = Inr x \<and> recorded_sha256 report (''file-'' @ l) = JStr x))"

definition endpoint_bound :: "host \<Rightarrow> fs \<Rightarrow> path \<Rightarrow> string \<Rightarrow> json \<Rightarrow> bool" where
  "endpoint_bound h f d mode report \<longleftrightarrow>
     (\<exists>stage scope r x. map_of stages mode = Some (stage, scope) \<and>
        validate_report h f (path_text (child_path d)) stage scope = Inr r \<and>
        entry_digest h f (child_path d) = Inr x \<and> recorded_child report = JStr x)"

lemma passed_inputs:
  assumes all: "all_passed (fi_checks s)"
    and merged: "\<And>n. n \<notin> {''endpoint''} \<Longrightarrow>
      map_of (fi_checks s) n = map_of (fold (\<lambda>(n, v). dict_set n v) (in_checks i) base) n"
    and i: "i = read_inputs h f d pin" and n: "n \<in> input_names"
  shows "map_of (in_checks i) n = Some ''PASS''"
proof -
  obtain v where v: "map_of (in_checks i) n = Some v"
    using n read_inputs_keys(2) [of h f d pin] i by (metis domD dom_map_of_conv_image_fst)
  moreover have "map_of (rev (in_checks i)) n = map_of (in_checks i) n"
    using read_inputs_keys(1) [of h f d pin] i
    by (metis distinct_map distinct_rev map_of_eqI map_of_inject_set rev_map set_rev)
  moreover have "n \<notin> {''endpoint''}" using n by (auto simp: input_check_def)
  ultimately have "map_of (fi_checks s) n = Some v" using merged [of n] by (simp add: map_of_fold_set)
  with v all_passed_lookup [OF all] show ?thesis by simp
qed

lemma inputs_bound_intro:
  assumes i: "i = read_inputs h f d pin"
    and pass: "\<And>n. n \<in> input_names \<Longrightarrow> map_of (in_checks i) n = Some ''PASS''"
    and same: "\<forall>(name, chk, x)\<in>set (in_expected i). recorded_sha256 report name = JStr x"
  shows "inputs_bound h f d pin report"
proof -
  from pass [of "''manifest''"] i obtain records where r: "read_manifest h f (d @ [''inputs.json'']) pin = Inr records"
      "only_proved h f records i" "(''inputs-manifest'', ''manifest'', pinned pin) \<in> set (in_expected i)"
    using read_inputs_passed [of h f d pin thesis] by auto
  have "\<exists>filename x. input_record l (field l records) = Inr (filename, x) \<and>
      entry_digest h f (components filename) = Inr x \<and> recorded_sha256 report (''file-'' @ l) = JStr x"
    if "l \<in> set labels" for l
  proof -
    from that have "input_proved h f records l i" using r(2) pass [of "input_check l"] by (simp add: only_proved_def)
    then show ?thesis using same by (fastforce simp: input_proved_def)
  qed
  moreover have "recorded_sha256 report ''inputs-manifest'' = JStr (pinned pin)" using same r(3) by auto
  ultimately show ?thesis using r(1) by (auto simp: inputs_bound_def)
qed

lemma outer_failure_not_zero: "outer_failure rc \<noteq> 0"
  by (simp add: outer_failure_def)

text \<open>A published report either fails, with the code it was written with or the code of the failure, or it is the
  first one written, with exit code 0 and no late change.\<close>

lemma published_report:
  assumes "publish en f ps a child s expected rc = Inr (report, f')"
  obtains (failed) "field ''status'' report = JStr ''FAIL''"
      "field ''exit_code'' report = JInt rc \<or> field ''exit_code'' report = JInt (outer_failure (fa_exit a))"
  | (passed) c where "rc = 0" "field ''status'' report = JStr ''PASS''" "late_changes report expected s = (c, [])"
proof -
  from assms obtain r0 f1 f2 where first: "write_final en (en_before en f) ps a child s rc = Inr (r0, f1)"
    and settled: "settle_report en f1 ps a child s expected rc r0 = Inr (report, f2)"
    by (auto simp: publish_def)
  note w0 = written_report [OF first [unfolded write_final_def]]
  obtain c late where l: "late_changes r0 expected s = (c, late)" by fastforce
  show thesis
  proof (cases "late \<noteq> [] \<or> (field ''status'' r0 \<noteq> JStr ''PASS'' \<and> rc = 0)")
    case True
    with settled l obtain g s'' where "write_final en g ps a child s'' (outer_failure (fa_exit a)) = Inr (report, f2)"
      by (auto simp: settle_report_def Let_def)
    from written_report [OF this [unfolded write_final_def]] show thesis
      using outer_failure_not_zero [of "fa_exit a"] by (auto simp: final_report_args_def intro: failed)
  next
    case False
    with settled l have same: "report = r0" by (auto simp: settle_report_def Let_def)
    show thesis
    proof (cases "field ''status'' r0 = JStr ''PASS''")
      case True
      with w0(2) have "rc = 0" by (auto simp: final_report_args_def)
      with True False l same show thesis by (intro passed) auto
    next
      case status: False
      with w0 same show thesis by (intro failed) (auto simp: final_report_args_def)
    qed
  qed
qed

lemma outer_exit_check:
  "map_of (fi_checks (outer_exit rc (start_final en d))) ''outer-exit'' = Some ''PASS'' \<longleftrightarrow> rc = JInt 0"
  by (simp add: outer_exit_def start_final_def entry_checks_def)

lemma start_endpoint:
  "map_of (fi_checks (outer_exit rc (start_final en d))) ''endpoint'' \<noteq> Some ''PASS''"
  by (auto simp: outer_exit_def start_final_def dest!: map_of_SomeD)

lemma inputs_other_keys: "n \<notin> input_names \<Longrightarrow> map_of (in_checks (read_inputs h f d pin)) n = None"
  using read_inputs_keys(2) [of h f d pin] by (simp add: map_of_eq_None_iff)

section \<open>Properties\<close>

lemma merged_other:
  assumes "n \<notin> input_names"
  shows "map_of (fold (\<lambda>(k, v). dict_set k v) (in_checks (read_inputs h f d pin)) c) n = map_of c n"
proof -
  from assms have "map_of (rev (in_checks (read_inputs h f d pin))) n = None"
    using read_inputs_keys(2) [of h f d pin] by (simp add: map_of_eq_None_iff)
  then show ?thesis by (simp add: map_of_fold_set)
qed

lemma not_inputs: "''endpoint'' \<notin> input_names" "''outer-exit'' \<notin> input_names"
  by (simp_all add: labels_def input_check_def)

lemma finalize_in_cases:
  assumes run: "finalize_in en f ps a child = Inr (report, f')"
  obtains d s4 f2 rc where "publish en f2 ps a child s4 (in_expected (read_inputs (en_host en) f (fp_run_dir ps) (fa_pin a))) rc
      = Inr (report, f')"
    and "rc = (if all_passed (fi_checks s4) then 0 else outer_failure (fa_exit a))"
    and "\<And>n. n \<noteq> ''endpoint'' \<Longrightarrow> map_of (fi_checks s4) n = map_of (fold (\<lambda>(n, v). dict_set n v)
      (in_checks (read_inputs (en_host en) f (fp_run_dir ps) (fa_pin a)))
      (fi_checks (outer_exit (fa_exit a) (start_final en d)))) n"
    and "map_of (fi_checks s4) ''endpoint'' = Some ''PASS'' \<Longrightarrow>
      \<exists>r x. validate_report (en_host en) f (path_text (child_path (fp_run_dir ps))) (fst child) (snd child) = Inr r \<and>
        entry_digest (en_host en) f (child_path (fp_run_dir ps)) = Inr x \<and> fi_child s4 = Some x"
    and "map_of (fi_checks s4) ''endpoint'' \<noteq> None"
proof -
  let ?i = "read_inputs (en_host en) f (fp_run_dir ps) (fa_pin a)"
  from run obtain d s3 f2 where e: "check_endpoint en f (child_path (fp_run_dir ps)) (fst child) (snd child)
      (let s1 = add_inputs ?i (outer_exit (fa_exit a) (start_final en d)) in
        s1\<lparr>fi_evidence := dict_set ''entry-reporter'' (en_script en) (fi_evidence s1)\<rparr>) = Inr s3"
    and p: "publish en f2 ps a child (s3\<lparr>fi_evidence := entry_evidence f (fp_run_dir ps) (fp_result ps) (fi_evidence s3)\<rparr>)
      (in_expected ?i) (if all_passed (fi_checks s3) then 0 else outer_failure (fa_exit a)) = Inr (report, f')"
    by (auto simp: finalize_in_def Let_def)
  note er = endpoint_run [OF e]
  have named: "map_of (fi_checks (outer_exit rc (start_final en d))) ''endpoint'' \<noteq> None" for rc
    unfolding map_of_eq_None_iff by (simp add: outer_exit_def start_final_def entry_checks_def image_image)
  show thesis
    by (rule that [OF p]) (use er merged_other [OF not_inputs(1)]
      start_endpoint [of "fa_exit a" en d] named [of "fa_exit a"] in \<open>auto simp: add_inputs_def Let_def\<close>)
qed

lemma finalize_passed:
  assumes "finalize_in en f ps a child = Inr (report, f')" and "child = (stage, scope)" and "map_of stages (fa_mode a) = Some child"
    and "field ''status'' report \<noteq> JStr ''FAIL''"
  shows "fa_exit a = JInt 0 \<and> inputs_bound (en_host en) f (fp_run_dir ps) (fa_pin a) report \<and>
    endpoint_bound (en_host en) f (fp_run_dir ps) (fa_mode a) report"
  using assms(1)
proof (cases rule: finalize_in_cases)
  case (1 d s4 f2 rc)
  let ?i = "read_inputs (en_host en) f (fp_run_dir ps) (fa_pin a)"
  from 1(1) assms(4) obtain c where zero: "rc = 0" and late: "late_changes report (in_expected ?i) s4 = (c, [])"
    by (cases rule: published_report) auto
  from zero 1(2) outer_failure_not_zero have all: "all_passed (fi_checks s4)" by (metis (full_types))
  note same = no_late_changes [OF late]
  have "map_of (fi_checks s4) ''outer-exit'' = map_of (fi_checks (outer_exit (fa_exit a) (start_final en d))) ''outer-exit''"
    using 1(3) [of "''outer-exit''"] by (simp add: merged_other [OF not_inputs(2)])
  moreover have "map_of (fi_checks (outer_exit (fa_exit a) (start_final en d))) ''outer-exit'' \<noteq> None"
    by (simp add: outer_exit_def start_final_def entry_checks_def)
  ultimately have "map_of (fi_checks (outer_exit (fa_exit a) (start_final en d))) ''outer-exit'' = Some ''PASS''"
    using all_passed_lookup [OF all] by fastforce
  then have exit: "fa_exit a = JInt 0" by (simp add: outer_exit_check)
  have "map_of (in_checks ?i) n = Some ''PASS''" if "n \<in> input_names" for n
    by (rule passed_inputs [OF all _ refl that]) (simp add: 1(3))
  then have inputs: "inputs_bound (en_host en) f (fp_run_dir ps) (fa_pin a) report"
    by (rule inputs_bound_intro [OF refl _ same(1)])
  from 1(5) all_passed_lookup [OF all] have "map_of (fi_checks s4) ''endpoint'' = Some ''PASS''" by fastforce
  from 1(4) [OF this] obtain r x where
    "validate_report (en_host en) f (path_text (child_path (fp_run_dir ps))) stage scope = Inr r"
    "entry_digest (en_host en) f (child_path (fp_run_dir ps)) = Inr x" "fi_child s4 = Some x"
    using assms(2) by auto
  with same(2) assms(2,3) have "endpoint_bound (en_host en) f (fp_run_dir ps) (fa_mode a) report"
    by (auto simp: endpoint_bound_def)
  with exit inputs show ?thesis by blast
qed

lemma finalize_failed:
  assumes "finalize_in en f ps a child = Inr (report, f')" and "fa_exit a \<noteq> JInt 0"
  shows "field ''status'' report = JStr ''FAIL'' \<and> field ''exit_code'' report = JInt (outer_failure (fa_exit a))"
  using assms(1)
proof (cases rule: finalize_in_cases)
  case (1 d s4 f2 rc)
  have "map_of (fi_checks s4) ''outer-exit'' = map_of (fi_checks (outer_exit (fa_exit a) (start_final en d))) ''outer-exit''"
    using 1(3) [of "''outer-exit''"] by (simp add: merged_other [OF not_inputs(2)])
  also have "\<dots> = Some ''FAIL''" using assms(2) by (simp add: outer_exit_def start_final_def entry_checks_def)
  finally have "\<not> all_passed (fi_checks s4)" using all_passed_lookup by fastforce
  with 1(2) have rc: "rc = outer_failure (fa_exit a)" by simp
  from 1(1) show ?thesis
    by (cases rule: published_report) (use rc outer_failure_not_zero in auto)
qed

text \<open>C12: a report of a runtime invocation either fails, or binds the invocation: the process ended with
  exit code 0, the manifest has the pinned digest and lists the digests the six inputs had when they were
  read and had again when the report was written, and the report names the digest of an endpoint report
  that validates.\<close>

theorem passed_invocation_is_bound:
  "case (finalize_open en f (fa_run_dir a), finalize en f a) of
     (Inr (d, f1), Inr (report, f')) \<Rightarrow>
       field ''status'' report = JStr ''FAIL'' \<or>
       fa_exit a = JInt 0 \<and> inputs_bound (en_host en) f1 d (fa_pin a) report \<and>
       endpoint_bound (en_host en) f1 d (fa_mode a) report
   | _ \<Rightarrow> True"
proof (cases "finalize_open en f (fa_run_dir a)")
  case (Inr df)
  show ?thesis
  proof (cases "finalize en f a")
    case (Inr rf)
    obtain report f' where rf: "rf = (report, f')" by fastforce
    obtain d f1 where df: "df = (d, f1)" by fastforce
    from Inr rf df \<open>finalize_open en f (fa_run_dir a) = Inr df\<close> obtain child where
      "map_of stages (fa_mode a) = Some child" "finalize_in en f1 (paths_in en d) a child = Inr (report, f')"
      by (auto simp: finalize_def child_identity_def split: option.splits)
    then show ?thesis using finalize_passed [of en f1 "paths_in en d" a child report f' "fst child" "snd child"]
        Inr rf df \<open>finalize_open en f (fa_run_dir a) = Inr df\<close> by (auto simp: paths_in_def)
  qed (simp add: Inr split: prod.split)
qed simp

text \<open>When the process of the invocation did not end with the integer 0, the report fails, and its exit
  code is the exit code of the process, or 1 where that is no integer.\<close>

theorem failed_process_is_reported:
  "case finalize en f a of
     Inr (report, f') \<Rightarrow>
       fa_exit a = JInt 0 \<or>
       field ''status'' report = JStr ''FAIL'' \<and>
       field ''exit_code'' report = (case fa_exit a of JInt n \<Rightarrow> JInt n | _ \<Rightarrow> JInt 1)
   | Inl e \<Rightarrow> True"
proof (cases "finalize en f a")
  case (Inr rf)
  obtain report f' where rf: "rf = (report, f')" by fastforce
  with Inr obtain f1 d child where "finalize_in en f1 (paths_in en d) a child = Inr (report, f')"
    by (auto simp: finalize_def)
  then show ?thesis using finalize_failed [of en f1 "paths_in en d" a child report f'] Inr rf
    by (cases "fa_exit a") (auto simp: outer_failure_def)
qed simp

end
