(* ===== verification/FaultSnapshot.thy ===== *)
theory FaultSnapshot
  imports JsonForms StageChecker
begin

text \<open>
  \<open>vulkan_fault_snapshot.py\<close>: the analysis of a captured fault. The capture is a dynamic value, so every access
  keeps the exception it may raise. \<open>trace_analysis\<close> correlates the fault with the last parameter event of the
  graphics trace that matches it and with the last pipeline bind before that event.
\<close>

section \<open>Dynamic values\<close>

definition get :: "string \<Rightarrow> json \<Rightarrow> json result" where
  "get k v = py_get k JNull v"

text \<open>\<open>a or b\<close>, \<open>a + b\<close> on the values of a capture, and iteration.\<close>

definition py_or :: "json \<Rightarrow> json \<Rightarrow> json" where
  "py_or a b = (if truthy a then a else b)"

definition py_add :: "json \<Rightarrow> json \<Rightarrow> json result" where
  "py_add a b =
     (case (a, b) of
        (JList xs, JList ys) \<Rightarrow> Inr (JList (xs @ ys))
      | (JStr s, JStr t) \<Rightarrow> Inr (JStr (s @ t))
      | _ \<Rightarrow>
          if as_number a = None \<or> as_number b = None then Inl (TypeError ''unsupported operand type(s) for +'')
          else if (is_int a \<or> is_bool a) \<and> (is_int b \<or> is_bool b) then
            Inr (JInt ((if is_bool a then of_bool (bool_of a) else int_of a) + (if is_bool b then of_bool (bool_of b) else int_of b)))
          else Inr (JFloat (float_add (num_float a) (num_float b))))"

fun py_sum :: "json result \<Rightarrow> json result list \<Rightarrow> json result" where
  "py_sum a [] = a"
| "py_sum a (b # bs) = py_sum (bind_result a (\<lambda>x. bind_result b (py_add x))) bs"

definition iterate :: "json \<Rightarrow> json list result" where
  "iterate v =
     (case v of
        JList xs \<Rightarrow> Inr xs
      | JObj d \<Rightarrow> Inr (map (\<lambda>(k, _). JStr k) d)
      | JStr s \<Rightarrow> Inr (map (\<lambda>c. JStr [c]) s)
      | _ \<Rightarrow> Inl (TypeError ''object is not iterable''))"

fun any_result :: "('a \<Rightarrow> bool result) \<Rightarrow> 'a list \<Rightarrow> bool result" where
  "any_result p [] = Inr False"
| "any_result p (x # xs) = bind_result (p x) (\<lambda>b. if b then Inr True else any_result p xs)"

fun filter_result :: "('a \<Rightarrow> bool result) \<Rightarrow> 'a list \<Rightarrow> 'a list result" where
  "filter_result p [] = Inr []"
| "filter_result p (x # xs) =
     bind_result (p x) (\<lambda>b. bind_result (filter_result p xs) (\<lambda>ys. Inr (if b then x # ys else ys)))"

text \<open>\<open>a and b\<close>, where \<open>b\<close> is evaluated only when needed.\<close>

definition and_result :: "bool \<Rightarrow> bool result \<Rightarrow> bool result" where
  "and_result a b = (if a then b else Inr False)"

definition int_range :: "json \<Rightarrow> int \<Rightarrow> bool" where
  "int_range v n \<longleftrightarrow> is_int v \<and> 0 \<le> int_of v \<and> int_of v < n"

section \<open>The graphics trace\<close>

definition empty_obj :: json where "empty_obj = JObj []"

definition not_enabled :: json where "not_enabled = JObj [(''status'', JStr ''not-enabled'')]"

definition trace_budget_ok :: "json \<Rightarrow> json \<Rightarrow> json \<Rightarrow> bool" where
  "trace_budget_ok events count dropped \<longleftrightarrow>
     is_list events \<and> length (list_items events) \<le> 256 \<and> is_int count \<and> is_int dropped \<and>
     0 \<le> int_of count \<and> int_of count \<le> 1000000 \<and> 0 \<le> int_of dropped \<and>
     int_of count = int (length (list_items events)) + int_of dropped"

definition event_kinds :: "string list" where
  "event_kinds = [''gfx-bind-applied'', ''gfx-parameters'']"

definition event_ok :: "int \<times> json \<Rightarrow> bool" where
  "event_ok = (\<lambda>(offset, event).
     is_obj event \<and> field ''sequence'' event = JInt offset \<and>
     is_str (field ''kind'' event) \<and> str_of (field ''kind'' event) \<in> set event_kinds)"

definition numbered_events :: "int \<Rightarrow> json list \<Rightarrow> (int \<times> json) list" where
  "numbered_events dropped events = map (\<lambda>(i, e). (dropped + 1 + int i, e)) (enumerate 0 events)"

definition uncorrelated :: "json \<Rightarrow> json \<Rightarrow> json \<Rightarrow> json list \<Rightarrow> json" where
  "uncorrelated trace count dropped events =
     JObj [(''status'', JStr ''not-correlated''), (''event_count'', count),
       (''retained_events'', JInt (int (length events))), (''dropped_events'', dropped),
       (''errors'', field_or ''errors'' (JList []) trace)]"

record fault_keys =
  fk_context :: json
  fk_shader :: json
  fk_address :: json
  fk_list :: json
  fk_thread :: json

definition address_ok :: "json \<Rightarrow> bool" where
  "address_ok v \<longleftrightarrow> is_str v \<and> str_of v \<noteq> ''0x0''"

definition keys_ok :: "fault_keys \<Rightarrow> bool" where
  "keys_ok k \<longleftrightarrow> address_ok (fk_context k) \<and> address_ok (fk_shader k) \<and> address_ok (fk_list k)"

definition fault_keys_of :: "json \<Rightarrow> json \<Rightarrow> json \<Rightarrow> fault_keys result" where
  "fault_keys_of state command binding =
     bind_result (get ''context_address'' binding) (\<lambda>context.
     bind_result (get ''requested_shader_rhi_address'' binding) (\<lambda>shader.
     bind_result (get ''address'' command) (\<lambda>address.
     bind_result (get ''list_address'' command) (\<lambda>list_address.
     bind_result (get ''num'' (field_or ''fault_thread'' empty_obj state)) (\<lambda>thread.
       Inr \<lparr>fk_context = context, fk_shader = shader, fk_address = address, fk_list = list_address, fk_thread = thread\<rparr>)))))"

text \<open>\<open>event.get("command", {}).get(name)\<close>.\<close>

definition command_field :: "string \<Rightarrow> json \<Rightarrow> json result" where
  "command_field name event = get name (field_or ''command'' empty_obj event)"

definition same_command :: "json \<Rightarrow> json \<Rightarrow> bool result" where
  "same_command address event =
     (if \<not> truthy address then Inr True
      else bind_result (command_field ''address'' event) (\<lambda>a. Inr (\<not> truthy a \<or> py_eq a address)))"

definition is_parameter :: "fault_keys \<Rightarrow> json \<Rightarrow> bool result" where
  "is_parameter k event =
     and_result
       (field ''kind'' event = JStr ''gfx-parameters'' \<and>
        py_eq (field ''context_address'' event) (fk_context k) \<and>
        py_eq (field ''shader_rhi_address'' event) (fk_shader k))
       (bind_result (command_field ''list_address'' event) (\<lambda>l.
        and_result (py_eq l (fk_list k) \<and> py_eq (field ''thread_num'' event) (fk_thread k))
          (same_command (fk_address k) event)))"

definition is_bind :: "fault_keys \<Rightarrow> json \<Rightarrow> json \<Rightarrow> bool" where
  "is_bind k parameter event \<longleftrightarrow>
     field ''kind'' event = JStr ''gfx-bind-applied'' \<and>
     int_of (field ''sequence'' event) < int_of (field ''sequence'' parameter) \<and>
     py_eq (field ''context_address'' event) (fk_context k)"

definition pipeline_keys_ok :: "json \<Rightarrow> bool result" where
  "pipeline_keys_ok event =
     bind_result (get ''keys'' (field_or ''pipeline'' empty_obj event)) (\<lambda>keys.
       Inr (is_list keys \<and> length (list_items keys) = 5 \<and> list_all is_int (list_items keys)))"

definition matches_fault :: "json \<Rightarrow> json \<Rightarrow> json \<Rightarrow> bool" where
  "matches_fault binding pipeline address \<longleftrightarrow>
     py_eq address (field ''pipeline_address'' binding) \<and> py_eq (field ''keys'' pipeline) (field ''pipeline_keys'' binding)"

definition errors_of :: "json \<Rightarrow> json result" where
  "errors_of v = py_get ''read_errors'' (JList []) v"

definition correlation_errors :: "json \<Rightarrow> json \<Rightarrow> json \<Rightarrow> json result" where
  "correlation_errors bind parameter command =
     py_sum (errors_of bind)
       (map errors_of [field_or ''command'' empty_obj bind, parameter, field_or ''command'' empty_obj parameter, command])"

text \<open>The entries \<open>result.update\<close> adds, in their order of evaluation.\<close>

definition correlation ::
  "json \<Rightarrow> fault_keys \<Rightarrow> json \<Rightarrow> json \<Rightarrow> json \<Rightarrow> json \<Rightarrow> (string \<times> json) list result"
where
  "correlation binding k command stage bind parameter =
     (let pipeline = field ''pipeline'' bind; other = field ''pipeline'' parameter; i = nat (int_of stage);
          seq = field ''sequence'' in
      bind_result (command_field ''list_address'' bind) (\<lambda>bind_list.
      bind_result (if truthy (fk_address k) then
          bind_result (command_field ''address'' parameter) (\<lambda>a. Inr (py_eq a (fk_address k))) else Inr False) (\<lambda>observed.
      bind_result (py_item ''address'' pipeline) (\<lambda>address.
      bind_result (py_item ''address'' other) (\<lambda>other_address.
      bind_result (correlation_errors bind parameter command) (\<lambda>errs.
        Inr [(''status'', JStr ''correlated''), (''parameter_sequence'', seq parameter), (''bind_sequence'', seq bind),
          (''command_identity_observed'', JBool observed),
          (''correlation_scope'', JStr ''context-thread-command-list-shader; command node only when explicitly observed''),
          (''bind_pipeline_address'', address), (''bind_stage_key'', list_items (field ''keys'' pipeline) ! i),
          (''parameter_stage_key'', list_items (field ''keys'' other) ! i),
          (''bind_applied_matches_submitted'', JBool (py_eq pipeline (field ''submitted_pipeline'' bind))),
          (''bind_pipeline_matches_fault'', JBool (matches_fault binding pipeline address)),
          (''parameter_pipeline_matches_fault'', JBool (matches_fault binding other other_address)),
          (''bind_command_list'', bind_list), (''parameter_command_list'', fk_list k),
          (''same_command_list'', if truthy bind_list then JBool (py_eq bind_list (fk_list k)) else JNull),
          (''same_thread'', JBool (py_eq (field ''thread_num'' bind) (field ''thread_num'' parameter))),
          (''read_errors'', errs)]))))))"

definition update :: "json \<Rightarrow> (string \<times> json) list \<Rightarrow> json" where
  "update v kvs = JObj (fold (\<lambda>(k, w). dict_set k w) kvs (obj_items v))"

definition correlate ::
  "json \<Rightarrow> fault_keys \<Rightarrow> json \<Rightarrow> json \<Rightarrow> json list \<Rightarrow> json list \<Rightarrow> json result"
where
  "correlate binding k command result events parameters =
     (let parameter = last parameters; binds = filter (is_bind k parameter) events; stage = field ''stage'' binding in
      if parameters = [] \<or> binds = [] \<or> \<not> int_range stage 5 then Inr result
      else
        bind_result (pipeline_keys_ok (last binds)) (\<lambda>bind_ok.
        if \<not> bind_ok then Inr result
        else bind_result (pipeline_keys_ok parameter) (\<lambda>parameter_ok.
          if \<not> parameter_ok then Inr result
          else bind_result (correlation binding k command stage (last binds) parameter) (\<lambda>kvs.
            Inr (update result kvs)))))"

definition correlate_keys :: "json \<Rightarrow> json \<Rightarrow> json \<Rightarrow> json list \<Rightarrow> fault_keys \<Rightarrow> json result" where
  "correlate_keys binding command result events k =
     (if keys_ok k then bind_result (filter_result (is_parameter k) events) (correlate binding k command result events)
      else Inr result)"

definition enabled_trace :: "json \<Rightarrow> json \<Rightarrow> json \<Rightarrow> json result" where
  "enabled_trace state binding trace =
     (let count = field ''event_count'' trace; dropped = field ''dropped_events'' trace;
          events = list_items (field ''events'' trace); result = uncorrelated trace count dropped events;
          command = py_or (field ''graphics_command'' state) empty_obj in
      req (list_all event_ok (numbered_events (int_of dropped) events)) ''invalid graphics trace chronology''
        (bind_result (fault_keys_of state command binding) (correlate_keys binding command result events)))"

definition trace_analysis :: "json \<Rightarrow> json \<Rightarrow> json result" where
  "trace_analysis state binding =
     (let trace = field ''graphics_trace'' state in
      if trace = JNull then Inr not_enabled
      else bind_result (get ''enabled'' trace) (\<lambda>enabled.
        req (is_bool enabled) ''invalid graphics trace policy''
        (req (trace_budget_ok (field ''events'' trace) (field ''event_count'' trace) (field ''dropped_events'' trace))
          ''invalid graphics trace budget/accounting''
        (if bool_of enabled then enabled_trace state binding trace
         else req (\<not> truthy (field ''events'' trace) \<and> \<not> truthy (field ''event_count'' trace) \<and>
             \<not> truthy (field ''errors'' trace)) ''disabled graphics trace contains events'' (Inr not_enabled)))))"

section \<open>The fault\<close>

definition check_capture :: "json \<Rightarrow> unit result" where
  "check_capture state =
     bind_result (get ''schema_version'' state) (\<lambda>version.
     req (py_eq version (JInt 1) \<and> field ''capture_complete'' state = JBool True) ''no complete fault capture''
     (bind_result (each (\<lambda>key. require (field key state = JBool False) (''unexpected '' @ key))
         [''runtime_acceptance'', ''creation_api_hooks'', ''inferior_function_calls'']) (\<lambda>_.
      require (field ''stop_reason'' state \<in> set [JStr ''vulkan-check'', JStr ''fatal-signal''])
        ''not a Vulkan check or fatal signal'')))"

definition fault_frames :: "json \<Rightarrow> json result" where
  "fault_frames state =
     (let thread = field ''fault_thread'' state; threads = field ''threads'' state in
      req (is_obj thread \<and> is_list threads) ''missing fault thread''
      (bind_result (filter_result (\<lambda>item. bind_result (get ''num'' item) (\<lambda>n. Inr (py_eq n (field ''num'' thread))))
         (list_items threads)) (\<lambda>samples.
       req (length samples = 1 \<and> truthy (field ''frames'' (hd samples))) ''fault thread stack not observed''
         (Inr (field ''frames'' (hd samples))))))"

definition check_reason :: "json \<Rightarrow> unit result" where
  "check_reason state =
     (if field ''stop_reason'' state = JStr ''vulkan-check'' then
        (let assertion = field ''assertion'' state in
         req (is_obj assertion) ''ungrounded Vulkan check''
         (bind_result (py_in ''/VulkanRHI/'' (field_or ''file'' (JStr []) assertion)) (\<lambda>grounded.
          req grounded ''ungrounded Vulkan check''
            (require (truthy (field ''expression'' assertion)) ''missing failed expression''))))
      else
        require (field ''signal'' state \<in> set [JStr ''SIGSEGV'', JStr ''SIGBUS'', JStr ''SIGABRT'']) ''not a fatal signal'')"

definition entry :: "string \<Rightarrow> json \<Rightarrow> json \<Rightarrow> json" where
  "entry k v result = update result [(k, v)]"

definition key_conclusion :: "json \<Rightarrow> json \<Rightarrow> json result" where
  "key_conclusion binding result =
     (let stage = field ''stage'' binding; requested = field_or ''requested_shader'' empty_obj binding;
          keys = field ''pipeline_keys'' binding in
      if int_range stage 5 \<and> is_list keys \<and> length (list_items keys) = 5 then
        bind_result (get ''key'' requested) (\<lambda>key.
          if is_int key \<and> list_all is_int (list_items keys) then
            (let pending = list_items keys ! nat (int_of stage); matches = JBool (key = pending) in
             req (field ''shader_key_matches'' binding = matches) ''inconsistent shader-key conclusion''
               (Inr (update result [(''typed_graphics_contract'', JBool True), (''shader_key_matches'', matches),
                  (''requested_key'', key), (''pending_key'', pending)])))
          else Inr result)
      else Inr result)"

definition index_in_bounds :: "json list \<Rightarrow> nat \<Rightarrow> nat \<Rightarrow> bool" where
  "index_in_bounds sets stage index \<longleftrightarrow> stage < length sets \<and> index < length (list_items (sets ! stage))"

definition index_conclusion :: "json \<Rightarrow> json \<Rightarrow> json result" where
  "index_conclusion binding result =
     (let stage = field ''stage'' binding; sets = field ''descriptor_sets'' binding; index = field ''buffer_index'' binding in
      if int_range stage 5 \<and> is_int index \<and> 0 \<le> int_of index \<and> is_list sets then
        req (list_all is_list (list_items sets)) ''invalid descriptor sets''
        (let inside = JBool (index_in_bounds (list_items sets) (nat (int_of stage)) (nat (int_of index))) in
         req (field ''descriptor_index_in_bounds'' binding = inside) ''inconsistent descriptor-index conclusion''
           (Inr (entry ''descriptor_index_in_bounds'' inside result)))
      else Inr result)"

definition descriptor_pairs :: "(string \<times> string \<times> string) list" where
  "descriptor_pairs =
     [(''pipeline'', ''pipeline_address'', ''descriptor_pipeline_address''),
      (''layout'', ''pipeline_descriptor_layout_address'', ''descriptor_layout_address'')]"

definition descriptor_conclusion :: "json \<Rightarrow> string \<times> string \<times> string \<Rightarrow> json \<Rightarrow> json result" where
  "descriptor_conclusion binding = (\<lambda>(kind, left, right) result.
     if has_field left binding \<and> has_field right binding then
       (let name = ''descriptor_'' @ kind @ ''_matches''; matches = JBool (py_eq (field left binding) (field right binding)) in
        req (field name binding = matches) (''inconsistent descriptor-'' @ kind @ '' conclusion'')
          (Inr (entry name matches result)))
     else Inr result)"

definition binding_conclusions :: "json \<Rightarrow> json \<Rightarrow> json result" where
  "binding_conclusions binding result =
     (if is_obj binding then
        bind_result (key_conclusion binding result) (\<lambda>r1.
        bind_result (index_conclusion binding (entry ''fault_bucket'' (JStr ''ue-graphics-binding'') r1)) (\<lambda>r2.
          fold_result (descriptor_conclusion binding) descriptor_pairs r2))
      else Inl (no_attribute ''get''))"

definition in_compiler :: "json \<Rightarrow> bool result" where
  "in_compiler frames =
     bind_result (iterate frames) (any_result (\<lambda>frame.
       bind_result (get ''library'' frame) (\<lambda>library. py_in ''libnvidia-glvkspirv'' (py_or library (JStr [])))))"

definition start_result :: json where
  "start_result =
     JObj [(''fault_bucket'', JStr ''unclassified''), (''runtime_acceptance'', JBool False),
       (''exact_compute_api_inputs'', JBool False), (''typed_graphics_contract'', JBool False)]"

definition classify :: "json \<Rightarrow> json \<Rightarrow> json \<Rightarrow> json result" where
  "classify binding compute frames =
     (if truthy binding then binding_conclusions binding start_result
      else if truthy compute then
        bind_result (in_compiler frames) (\<lambda>found.
          Inr (if found then entry ''fault_bucket'' (JStr ''nvidia-compute-compiler'') start_result else start_result))
      else Inr start_result)"

definition check_compute :: "json \<Rightarrow> unit result" where
  "check_compute compute =
     (if truthy compute then
        bind_result (get ''exact_api_inputs'' compute) (\<lambda>v.
          require (v = JBool False) ''passive state capture cannot claim exact API module provenance'')
      else Inr ())"

definition all_read_errors :: "json \<Rightarrow> json \<Rightarrow> json \<Rightarrow> json result" where
  "all_read_errors state binding compute =
     py_sum (Inr (field_or ''errors'' (JList []) state))
       [errors_of (py_or binding (py_or compute empty_obj)),
        errors_of (py_or (field ''graphics_command'' state) empty_obj)]"

definition analyze :: "json \<Rightarrow> json result" where
  "analyze state =
     (let binding = field ''graphics_binding'' state; compute = field ''compute_creation'' state in
      bind_result (check_capture state) (\<lambda>_.
      bind_result (fault_frames state) (\<lambda>frames.
      bind_result (check_reason state) (\<lambda>_.
      bind_result (classify binding compute frames) (\<lambda>result.
      bind_result (check_compute compute) (\<lambda>_.
      bind_result (trace_analysis state (py_or binding empty_obj)) (\<lambda>trace.
      bind_result (all_read_errors state binding compute) (\<lambda>errs.
        Inr (update result [(''graphics_trace'', trace), (''read_errors'', errs)])))))))))"

section \<open>The command\<close>

definition fault_errors :: "py_error \<Rightarrow> bool" where
  "fault_errors e \<longleftrightarrow>
     os_or_value e \<or> (case e of TypeError _ \<Rightarrow> True | KeyError _ \<Rightarrow> True | _ \<Rightarrow> False)"

definition write_analysis :: "fs \<Rightarrow> path \<Rightarrow> (json \<times> fs) result" where
  "write_analysis f run =
     bind_result (load_text dict_hook float_hook f (run @ [''fault-capture.json''])) (\<lambda>state.
     bind_result (analyze state) (\<lambda>result.
     bind_result (write_text_file f (run @ [''fault-analysis.json'']) (indented True result)) (\<lambda>f'.
       Inr (result, f'))))"

definition main :: "fs \<Rightarrow> path \<Rightarrow> (int \<times> fs) result" where
  "main f run =
     (case write_analysis f run of
        Inr (_, f') \<Rightarrow> Inr (0, f')
      | Inl e \<Rightarrow> if fault_errors e then Inr (2, f) else Inl e)"

end
