(* ===== verification/FaultFacts.thy ===== *)
theory FaultFacts
  imports FaultSnapshot
begin

text \<open>
  What a correlated fault says, in terms of the captured values and of the order of the events: the parameter event
  is the last one of the trace that matches the fault, and the bind event is the last bind of the same context
  before it.
\<close>

lemma filter_result_Inr:
  "filter_result p xs = Inr ys \<Longrightarrow> ys = filter (\<lambda>x. p x = Inr True) xs \<and> (\<forall>x\<in>set xs. p x = Inr True \<or> p x = Inr False)"
  by (induction xs arbitrary: ys) auto

text \<open>The last element a filter keeps, in its place.\<close>

lemma last_kept:
  assumes "filter p xs \<noteq> []"
  shows "\<exists>us vs. xs = us @ last (filter p xs) # vs \<and> p (last (filter p xs)) \<and> list_all (\<lambda>v. \<not> p v) vs"
proof -
  from assms have "\<exists>x\<in>set xs. p x" by (simp add: filter_empty_conv)
  from split_list_last_prop [OF this] obtain us x vs where x: "xs = us @ x # vs" "p x" "\<forall>v\<in>set vs. \<not> p v" by blast
  then have "filter p vs = []" by (simp add: filter_empty_conv)
  with x have "last (filter p xs) = x" by simp
  with x show ?thesis by (auto simp: list_all_iff)
qed

text \<open>
  The events that matter, in terms of the capture: the parameter events of the faulting context, shader, command
  list and thread, whose command is the faulting one when both are known, and the binds of that context.
\<close>

definition faulting :: "json \<Rightarrow> json \<Rightarrow> json \<Rightarrow> bool" where
  "faulting state binding event \<longleftrightarrow>
     field ''kind'' event = JStr ''gfx-parameters'' \<and>
     field ''context_address'' event = field ''context_address'' binding \<and>
     field ''shader_rhi_address'' event = field ''requested_shader_rhi_address'' binding \<and>
     field ''list_address'' (field ''command'' event) = field ''list_address'' (field ''graphics_command'' state) \<and>
     py_eq (field ''thread_num'' event) (field ''num'' (field ''fault_thread'' state)) \<and>
     (let known = field ''address'' (field ''graphics_command'' state); seen = field ''address'' (field ''command'' event)
      in truthy known \<and> truthy seen \<longrightarrow> py_eq seen known)"

definition binds_context :: "json \<Rightarrow> json \<Rightarrow> bool" where
  "binds_context binding event \<longleftrightarrow>
     field ''kind'' event = JStr ''gfx-bind-applied'' \<and>
     field ''context_address'' event = field ''context_address'' binding"

text \<open>The latest faulting parameter event, and the latest bind before it; events are numbered from \<open>first\<close>.\<close>

definition latest_pair :: "json \<Rightarrow> json \<Rightarrow> int \<Rightarrow> json list \<Rightarrow> json \<Rightarrow> bool" where
  "latest_pair state binding first events r \<longleftrightarrow>
     (\<exists>us bind vs parameter ws. events = us @ bind # vs @ parameter # ws \<and>
        faulting state binding parameter \<and> list_all (\<lambda>e. \<not> faulting state binding e) ws \<and>
        binds_context binding bind \<and> list_all (\<lambda>e. \<not> binds_context binding e) vs \<and>
        field ''bind_sequence'' r = JInt (first + int (length us)) \<and>
        field ''parameter_sequence'' r = JInt (first + int (length (us @ bind # vs))))"

lemma get_field: "get k v = Inr w \<Longrightarrow> is_obj v \<and> w = field k v"
  by (cases v) (auto simp: get_def py_get_def field_def split: option.splits)

lemma field_default: "get k (field_or m empty_obj v) = Inr w \<Longrightarrow> w = field k (field m v)"
  by (auto dest!: get_field simp: field_or_def field_def empty_obj_def split: option.splits json.splits)

lemma field_falsy: "\<not> truthy v \<Longrightarrow> field k v = JNull"
  by (cases v) (auto simp: field_def)

lemma get_command: "get k (py_or v empty_obj) = Inr w \<Longrightarrow> w = field k v"
  using field_falsy [of v k] get_field [of k v w] by (cases "truthy v") (auto simp: py_or_def empty_obj_def get_def)

lemma fault_keys_Inr:
  assumes "fault_keys_of state (py_or (field ''graphics_command'' state) empty_obj) binding = Inr k"
  shows "fk_context k = field ''context_address'' binding"
    and "fk_shader k = field ''requested_shader_rhi_address'' binding"
    and "fk_address k = field ''address'' (field ''graphics_command'' state)"
    and "fk_list k = field ''list_address'' (field ''graphics_command'' state)"
    and "fk_thread k = field ''num'' (field ''fault_thread'' state)"
  using assms by (auto simp: fault_keys_of_def dest: get_field get_command field_default)

lemma address_eq: "address_ok v \<Longrightarrow> py_eq w v \<longleftrightarrow> w = v"
  by (cases v; cases w) (auto simp: address_ok_def)

lemma same_command_Inr:
  "same_command a e = Inr b \<Longrightarrow>
   b \<longleftrightarrow> (truthy a \<and> truthy (field ''address'' (field ''command'' e)) \<longrightarrow> py_eq (field ''address'' (field ''command'' e)) a)"
  by (auto simp: same_command_def command_field_def dest!: field_default split: if_splits)

lemma parameter_Inr:
  assumes k: "fault_keys_of state (py_or (field ''graphics_command'' state) empty_obj) binding = Inr k" "keys_ok k"
    and "is_parameter k e = Inr b"
  shows "b \<longleftrightarrow> faulting state binding e"
proof -
  from k(2) have ok: "address_ok (fk_context k)" "address_ok (fk_shader k)" "address_ok (fk_list k)"
    by (simp_all add: keys_ok_def)
  note eqs = address_eq [OF ok(1)] address_eq [OF ok(2)] address_eq [OF ok(3)]
  from assms(3) show ?thesis
    by (auto simp: is_parameter_def and_result_def eqs faulting_def Let_def command_field_def fault_keys_Inr [OF k(1), symmetric]
        split: if_splits dest!: field_default same_command_Inr)
qed

lemma bind_iff:
  assumes k: "fault_keys_of state (py_or (field ''graphics_command'' state) empty_obj) binding = Inr k" "keys_ok k"
  shows "is_bind k p e \<longleftrightarrow> binds_context binding e \<and> int_of (field ''sequence'' e) < int_of (field ''sequence'' p)"
  using address_eq [of "fk_context k"] k(2) fault_keys_Inr(1) [OF k(1)]
  by (auto simp: is_bind_def binds_context_def keys_ok_def)

lemma sequence_at:
  assumes "list_all event_ok (numbered_events dropped (us @ e # vs))"
  shows "field ''sequence'' e = JInt (dropped + 1 + int (length us))"
  using assms by (simp add: numbered_events_def enumerate_append_eq event_ok_def)

lemma earlier_binds:
  assumes k: "fault_keys_of state (py_or (field ''graphics_command'' state) empty_obj) binding = Inr k" "keys_ok k"
    and ok: "list_all event_ok (numbered_events dropped (us @ p # vs))"
  shows "filter (is_bind k p) (us @ p # vs) = filter (binds_context binding) us"
proof -
  note at = sequence_at [OF ok]
  have "is_bind k p e \<longleftrightarrow> binds_context binding e" if "e \<in> set us" for e
  proof -
    from split_list [OF that] obtain xs ys where us: "us = xs @ e # ys" by blast
    with sequence_at [of dropped xs e "ys @ p # vs"] ok at show ?thesis by (simp add: bind_iff [OF k])
  qed
  moreover have "\<not> is_bind k p e" if "e \<in> set vs" for e
  proof -
    from split_list [OF that] obtain xs ys where vs: "vs = xs @ e # ys" by blast
    with sequence_at [of dropped "us @ p # xs" e ys] ok at show ?thesis by (simp add: bind_iff [OF k])
  qed
  moreover have "\<not> is_bind k p p" by (simp add: bind_iff [OF k])
  ultimately have "filter (is_bind k p) us = filter (binds_context binding) us" "filter (is_bind k p) (p # vs) = []"
    by (auto intro: filter_cong simp: filter_empty_conv)
  then show ?thesis by (simp only: filter_append append_Nil2)
qed

lemma correlation_sequences:
  assumes "correlation binding k command stage bind parameter = Inr kvs"
  shows "field ''parameter_sequence'' (update result kvs) = field ''sequence'' parameter"
    and "field ''bind_sequence'' (update result kvs) = field ''sequence'' bind"
  using assms by (auto simp: correlation_def update_def Let_def)

lemma correlate_latest:
  assumes run: "correlate binding k command result events ps = Inr r" and new: "r \<noteq> result"
    and ps: "filter_result (is_parameter k) events = Inr ps"
    and k: "fault_keys_of state (py_or (field ''graphics_command'' state) empty_obj) binding = Inr k" "keys_ok k"
    and ok: "list_all event_ok (numbered_events dropped events)"
  shows "latest_pair state binding (dropped + 1) events r"
proof -
  let ?p = "last ps" and ?b = "last (filter (is_bind k (last ps)) events)"
  from run new obtain kvs where ne: "ps \<noteq> []" "filter (is_bind k ?p) events \<noteq> []"
    and kvs: "correlation binding k command (field ''stage'' binding) ?b ?p = Inr kvs" and r: "r = update result kvs"
    by (auto simp: correlate_def Let_def split: if_splits)
  have spec: "is_parameter k e = Inr True \<longleftrightarrow> faulting state binding e" if "e \<in> set events" for e
    using conjunct2 [OF filter_result_Inr [OF ps]] that parameter_Inr [OF k] by blast
  have "ps = filter (faulting state binding) events"
    using conjunct1 [OF filter_result_Inr [OF ps]] spec by (auto intro: filter_cong)
  with last_kept [of "faulting state binding" events] ne(1) obtain us ws where ev: "events = us @ ?p # ws"
    and p: "faulting state binding ?p" "list_all (\<lambda>e. \<not> faulting state binding e) ws" by auto
  have "filter (is_bind k ?p) (us @ ?p # ws) = filter (binds_context binding) us"
    using earlier_binds [OF k, of dropped us ?p ws] ok ev by simp
  then have binds: "filter (is_bind k ?p) events = filter (binds_context binding) us" using ev by simp
  with last_kept [of "binds_context binding" us] ne(2) obtain xs ys where us: "us = xs @ ?b # ys"
    and b: "binds_context binding ?b" "list_all (\<lambda>e. \<not> binds_context binding e) ys" by auto
  from ev us have split: "events = xs @ ?b # ys @ ?p # ws" by simp
  have "field ''sequence'' ?b = JInt (dropped + 1 + int (length xs))"
    by (rule sequence_at [of dropped xs ?b "ys @ ?p # ws"]) (use ok split in simp)
  moreover have "field ''sequence'' ?p = JInt (dropped + 1 + int (length (xs @ ?b # ys)))"
    by (rule sequence_at [of dropped "xs @ ?b # ys" ?p ws]) (use ok split in simp)
  ultimately have "field ''bind_sequence'' r = JInt (dropped + 1 + int (length xs))"
    "field ''parameter_sequence'' r = JInt (dropped + 1 + int (length (xs @ ?b # ys)))"
    by (simp_all only: r correlation_sequences [OF kvs])
  with split p b show ?thesis unfolding latest_pair_def by blast
qed

lemma trace_analysis_Inr:
  assumes "trace_analysis state binding = Inr r"
  shows "r = not_enabled \<or> enabled_trace state binding (field ''graphics_trace'' state) = Inr r"
proof (cases "field ''graphics_trace'' state = JNull")
  case True
  with assms show ?thesis by (simp add: trace_analysis_def)
next
  case False
  with assms show ?thesis
    by (simp only: trace_analysis_def Let_def if_False bind_result_Inr_iff req_Inr split: if_split_asm) blast
qed

lemma enabled_trace_Inr:
  assumes "enabled_trace state binding trace = Inr r"
  obtains k where "fault_keys_of state (py_or (field ''graphics_command'' state) empty_obj) binding = Inr k"
    and "list_all event_ok (numbered_events (int_of (field ''dropped_events'' trace)) (list_items (field ''events'' trace)))"
    and "correlate_keys binding (py_or (field ''graphics_command'' state) empty_obj)
       (uncorrelated trace (field ''event_count'' trace) (field ''dropped_events'' trace) (list_items (field ''events'' trace)))
       (list_items (field ''events'' trace)) k = Inr r"
  using assms by (simp only: enabled_trace_def Let_def bind_result_Inr_iff req_Inr) blast

text \<open>C23: the analysis of a graphics trace either stays uncorrelated or names the last event of the trace that
  set parameters for the faulting context, shader, command list and thread, and the last bind of that context
  before it; the two sequence numbers are the positions of these events.\<close>

theorem correlation_is_the_latest:
  "case trace_analysis state binding of
     Inl e \<Rightarrow> True
   | Inr r \<Rightarrow>
       field ''status'' r = JStr ''not-enabled'' \<or> field ''status'' r = JStr ''not-correlated'' \<or>
       latest_pair state binding (int_of (field ''dropped_events'' (field ''graphics_trace'' state)) + 1)
         (list_items (field ''events'' (field ''graphics_trace'' state))) r"
proof (cases "trace_analysis state binding")
  case (Inr r)
  let ?trace = "field ''graphics_trace'' state"
  let ?events = "list_items (field ''events'' ?trace)" and ?command = "py_or (field ''graphics_command'' state) empty_obj"
  let ?result = "uncorrelated ?trace (field ''event_count'' ?trace) (field ''dropped_events'' ?trace) ?events"
  have start: "field ''status'' ?result = JStr ''not-correlated''" by (simp add: uncorrelated_def)
  from trace_analysis_Inr [OF Inr] show ?thesis
  proof
    assume "r = not_enabled"
    with Inr show ?thesis by (simp add: not_enabled_def)
  next
    assume "enabled_trace state binding ?trace = Inr r"
    then obtain k where k: "fault_keys_of state ?command binding = Inr k"
      and ok: "list_all event_ok (numbered_events (int_of (field ''dropped_events'' ?trace)) ?events)"
      and rest: "correlate_keys binding ?command ?result ?events k = Inr r"
      by (rule enabled_trace_Inr)
    show ?thesis
    proof (cases "keys_ok k \<and> r \<noteq> ?result")
      case False
      with rest start Inr show ?thesis by (auto simp: correlate_keys_def)
    next
      case True
      with rest obtain ps where "filter_result (is_parameter k) ?events = Inr ps"
        and "correlate binding k ?command ?result ?events ps = Inr r" by (auto simp: correlate_keys_def)
      with correlate_latest [OF _ _ _ k _ ok] True Inr show ?thesis by simp
    qed
  qed
qed simp

end
