(* ===== verification/HierarchyStage.thy ===== *)
theory HierarchyStage
  imports NativeRun
begin

text \<open>
  \<open>check_legacy_hierarchy.py\<close>: the evaluator of the shared factory hierarchy test, which must report its
  checks and the four nodes of the fixture with their identities, parents and instances.
\<close>

definition hierarchy_stage :: string where "hierarchy_stage = ''ue-ufbx-legacy-hierarchy''"

definition hierarchy_scope :: string where
  "hierarchy_scope = ''ufbx to shared Legacy factory hierarchy; not asset import, save/reimport, Editor or Cook''"

definition hierarchy_expected :: expected_checks where
  "hierarchy_expected =
     [(''shared factory skeleton and LOD policy'', 1), (''malformed hierarchy rejected atomically'', 6),
      (''synthetic root and full width IDs'', 1), (''deep hierarchy without recursive traversal'', 1),
      (''real ufbx IDs and shared factory hierarchy'', 1), (''instance transform material and native payload'', 2),
      (''corrupt adapter input rejected atomically'', 11), (''real nonzero pivot metadata rejected'', 1),
      (''real camera metadata rejected'', 1),
      (''real shared mesh mirrored instance and geometry transforms'', 1)]"

definition node_shape :: "nat \<times> json \<times> string \<times> string \<times> int \<Rightarrow> unit result" where
  "node_shape item =
     (case item of (i, node, identity, upper, upper_index) \<Rightarrow>
       require (is_obj node \<and> field ''id'' node = JStr identity \<and> field ''parent_id'' node = JStr upper \<and>
           field ''source_index'' node = JInt (int i) \<and> field ''parent_index'' node = JInt upper_index \<and>
           field ''import'' node = JBool True)
         ''changed source identity, order or parent index'')"

definition expected_nodes :: "(string \<times> string \<times> int) list" where
  "expected_nodes =
     [(''0'', ''0'', - 1), (''100'', ''0'', 0), (''101'', ''100'', 1), (''102'', ''100'', 1)]"

definition mesh_of :: "json list \<Rightarrow> nat \<times> string \<times> string \<Rightarrow> unit result" where
  "mesh_of nodes item =
     (case item of (i, attribute, name) \<Rightarrow>
       require (field ''attribute_id'' (nodes ! i) = JStr attribute \<and> field ''name'' (nodes ! i) = JStr name)
         ''changed mesh instance association'')"

definition check_nodes :: "json list \<Rightarrow> unit result" where
  "check_nodes nodes =
     bind_result (each node_shape (zip [0..<4] (zip nodes expected_nodes))) (\<lambda>_.
       each (mesh_of nodes) [(2, ''200'', ''MeshA''), (3, ''201'', ''MeshB'')])"

definition validate_native :: "host \<Rightarrow> fs \<Rightarrow> json \<Rightarrow> path \<Rightarrow> unit result" where
  "validate_native h f data fixture =
     bind_result (check_identity h f hierarchy_stage hierarchy_scope data fixture
       ''native hierarchy identity, source or result mismatch'') (\<lambda>_.
     bind_result (check_names hierarchy_expected data ''incomplete native hierarchy checks'') (\<lambda>_.
     let nodes = field ''nodes'' data in
     req (is_list nodes \<and> length (list_items nodes) = 4 \<and> field ''instances'' data = JInt 2)
       ''incomplete native hierarchy or instances'' (check_nodes (list_items nodes))))"

definition hierarchy_checks :: "string list" where
  "hierarchy_checks = [''build'', ''architecture'', ''native'', ''sources'', ''prerequisite'']"

definition hierarchy_section :: "checker_host \<Rightarrow> native_args \<Rightarrow> path \<Rightarrow> unit ck" where
  "hierarchy_section ch a base =
     then_do (check_exit ''native process exit='' (na_exit_code a))
     (then_do (check_regular (base @ [''build.log'']) ''missing UBT build log'')
     (then_do (pass ''build'')
     (then_do (check_elf (program_of ch a) ''not an ARM64 Program'')
     (then_do (pass ''architecture'')
     (then_do (with_files (\<lambda>f. bind_result (read_json f (base @ [''native.json'']))
         (\<lambda>data. validate_native (ch_host ch) f data (fixture_of ch a))))
     (then_do (pass ''native'')
     (then_do (check_sources ch base)
     (pass ''sources''))))))))"

definition run_in :: "checker_host \<Rightarrow> native_args \<Rightarrow> path \<Rightarrow> json ck" where
  "run_in ch a base =
     (let report = base @ [''stage-report.json''] in
      then_do (guarded_section tool_errors (hierarchy_section ch a base))
      (then_do (ufbx_prerequisite ch (na_ufbx_report a))
      (then_do (write_diagnostic (base @ [''hierarchy-diagnostic.json'']) ''process_exit_code'' (na_exit_code a))
      (then_do (cite_run_files base report (\<lambda>f. ch_below ch f base))
      (then_do (cite_program ch a ''evaluator'')
      (and_then (with_files (\<lambda>f. revision_of f (base @ [''ue-commit.txt'']))) (\<lambda>revision.
       checker_report ch report (\<lambda>s.
         checker_args hierarchy_stage hierarchy_scope
           (native_command a [''-legacy-hierarchy-test'', input_flag a]) (errors_code s)
           [ue_source (na_ue_root a) revision] s))))))))"

definition run :: "checker_host \<Rightarrow> fs \<Rightarrow> native_args \<Rightarrow> json result \<times> fs" where
  "run ch f a =
     run_opened hierarchy_checks (run_in ch a) f
       (open_run ch f (na_run_dir a) make_none vacant ''refusing to overwrite hierarchy stage report'')"

definition main :: "checker_host \<Rightarrow> fs \<Rightarrow> native_args \<Rightarrow> int result" where
  "main ch f a = bind_result (fst (run ch f a)) (\<lambda>report. Inr (exit_status report))"

end
