(* ===== verification/InterchangeStage.thy ===== *)
theory InterchangeStage
  imports StageChecker
begin

text \<open>
  \<open>check_ue_interchange.py\<close>: the evaluator of the native Interchange scene test. \<open>validate_payloads\<close>
  checks that the payload records cover every mesh with the three transforms, agree with the files of the
  output directory and with the requests and results of the dispatcher; \<open>run\<close> starts the program, unless
  its exit code is given, and writes the stage report.
\<close>

section \<open>Payload records\<close>

definition payload_metrics :: "string list" where
  "payload_metrics = [''bytes'', ''vertices'', ''triangles'', ''materials'']"

definition transforms :: "string list" where
  "transforms = [''identity'', ''translated'', ''mirrored'']"

record payload_state =
  ps_groups :: "(string \<times> string list) list"
  ps_names :: "string list"
  ps_keys :: "string list"
  ps_totals :: "(string \<times> int) list"
  ps_result :: "json list"

definition no_payloads :: payload_state where
  "no_payloads = \<lparr>ps_groups = [], ps_names = [], ps_keys = [], ps_totals = [], ps_result = []\<rparr>"

definition sha256_json :: "json \<Rightarrow> bool" where
  "sha256_json v \<longleftrightarrow> is_str v \<and> sha256_shape (str_of v)"

definition payload_key :: "string \<Rightarrow> string \<Rightarrow> string" where
  "payload_key source uid = ''ufbx-static-ue-cm-v1/'' @ source @ ''/'' @ uid"

definition payload_identity :: "string \<Rightarrow> json \<Rightarrow> bool" where
  "payload_identity source entry \<longleftrightarrow>
     is_str (field ''mesh_uid'' entry) \<and> str_of (field ''mesh_uid'' entry) \<noteq> [] \<and>
     field ''payload_key'' entry = JStr (payload_key source (str_of (field ''mesh_uid'' entry))) \<and>
     sha256_json (field ''request_uid'' entry)"

definition payload_name :: "json \<Rightarrow> string" where
  "payload_name entry = str_of (field ''request_uid'' entry) @ ''.payload''"

definition modes_of :: "string \<Rightarrow> payload_state \<Rightarrow> string list" where
  "modes_of uid s = (case map_of (ps_groups s) uid of None \<Rightarrow> [] | Some ms \<Rightarrow> ms)"

definition add_mode :: "string \<Rightarrow> string \<Rightarrow> payload_state \<Rightarrow> payload_state" where
  "add_mode uid mode s = s\<lparr>ps_groups := dict_set uid (modes_of uid s @ [mode]) (ps_groups s)\<rparr>"

definition new_mode :: "json \<Rightarrow> string \<Rightarrow> payload_state \<Rightarrow> bool" where
  "new_mode mode uid s \<longleftrightarrow>
     is_str mode \<and> str_of mode \<in> set transforms \<and> str_of mode \<notin> set (modes_of uid s)"

definition add_member :: "'a \<Rightarrow> 'a list \<Rightarrow> 'a list" where
  "add_member x xs = (if x \<in> set xs then xs else xs @ [x])"

definition add_metric :: "json \<Rightarrow> string \<Rightarrow> (string \<times> int) list \<Rightarrow> (string \<times> int) list result" where
  "add_metric entry metric totals =
     req (is_int (field metric entry) \<and> 0 < int_of (field metric entry))
       (''invalid per-payload metric: '' @ metric)
     (Inr (dict_set metric ((case map_of totals metric of None \<Rightarrow> 0 | Some n \<Rightarrow> n) + int_of (field metric entry)) totals))"

definition dispatcher_object :: "json \<Rightarrow> string \<Rightarrow> json result" where
  "dispatcher_object entry name =
     req (is_str (field name entry)) ''missing Dispatcher JSON''
     (bind_result (loads checker_object checker_constant (str_of (field name entry))) (\<lambda>v.
      req (is_obj v) ''invalid Dispatcher object'' (Inr v)))"

definition dispatcher_matches :: "json \<Rightarrow> json \<Rightarrow> json \<Rightarrow> path \<Rightarrow> bool" where
  "dispatcher_matches request response key p \<longleftrightarrow>
     (let command = field ''CmdData'' request in
      field ''CmdID'' request = JStr ''Payload'' \<and> field ''TranslatorID'' request = JStr ''FBX'' \<and>
      is_obj command \<and> field ''PayloadKey'' command = key \<and>
      is_str (field ''GlobalMeshTransform'' command) \<and> str_of (field ''GlobalMeshTransform'' command) \<noteq> [] \<and>
      field ''ResultFile'' response = JStr (path_text p))"

definition check_dispatcher :: "json \<Rightarrow> path \<Rightarrow> unit result" where
  "check_dispatcher entry p =
     bind_result (dispatcher_object entry ''request_json'') (\<lambda>request.
     bind_result (dispatcher_object entry ''result_json'') (\<lambda>response.
       require (dispatcher_matches request response (field ''payload_key'' entry) p)
         ''Dispatcher request/result does not match the payload record''))"

definition payload_file_ok :: "fs \<Rightarrow> path \<Rightarrow> bool" where
  "payload_file_ok f p \<longleftrightarrow> \<not> is_link f p \<and> is_file f p \<and> file_size f p \<noteq> 0"

definition check_size :: "fs \<Rightarrow> json \<Rightarrow> path \<Rightarrow> bool" where
  "check_size f entry p \<longleftrightarrow>
     int_of (field ''bytes'' entry) = file_size f p \<and> field ''roundtrip'' entry = JBool True"

definition payload_file :: "host \<Rightarrow> fs \<Rightarrow> json \<Rightarrow> path \<Rightarrow> payload_state \<Rightarrow> payload_state result" where
  "payload_file h f entry p s =
     req (payload_file_ok f p) ''payload must be a nonempty regular file''
     (bind_result (fold_result (add_metric entry) payload_metrics (ps_totals s)) (\<lambda>totals.
      req (check_size f entry p) ''payload size or round-trip mismatch''
      (req (field ''dispatcher_roundtrip'' entry = JBool True) ''missing native Dispatcher round-trip''
       (bind_result (check_dispatcher entry p) (\<lambda>_.
        bind_result (sha256_file h f p) (\<lambda>d.
          Inr (s\<lparr>ps_totals := totals,
                 ps_result := ps_result s @ [JObj (dict_set ''sha256'' (JStr d) (obj_items entry))]\<rparr>)))))))"

definition take_payload :: "host \<Rightarrow> fs \<Rightarrow> string \<Rightarrow> path \<Rightarrow> json \<Rightarrow> payload_state \<Rightarrow> payload_state result" where
  "take_payload h f source dir entry s =
     req (is_obj entry) ''invalid payload record''
     (req (payload_identity source entry) ''invalid source/key/request identity''
     (let uid = str_of (field ''mesh_uid'' entry); name = payload_name entry; mode = field ''transform'' entry in
      req (field ''filename'' entry = JStr name \<and> name \<notin> set (ps_names s))
        ''duplicate or unsafe payload filename''
      (req (new_mode mode uid s) ''duplicate or missing transform query''
       (payload_file h f entry (dir @ [name])
         (add_mode uid (str_of mode)
           (s\<lparr>ps_names := ps_names s @ [name],
              ps_keys := add_member (str_of (field ''payload_key'' entry)) (ps_keys s)\<rparr>))))))"

section \<open>The whole set\<close>

definition check_contract :: "fs \<Rightarrow> json \<Rightarrow> path \<Rightarrow> unit result" where
  "check_contract f data dir =
     req (sha256_json (field ''source_sha256'' data) \<and> \<not> is_link f dir)
       ''invalid source digest or output directory''
     (require (field ''payload_contract_version'' data = JInt 2)
       ''missing transform-aware payload contract version 2'')"

definition check_counts :: "json \<Rightarrow> unit result" where
  "check_counts data =
     require (is_int (field ''mesh_nodes'' data) \<and> 0 < int_of (field ''mesh_nodes'' data) \<and>
         field ''payload_count'' data = JInt (3 * int_of (field ''mesh_nodes'' data)) \<and>
         is_list (field ''payloads'' data) \<and>
         int (length (list_items (field ''payloads'' data))) = int_of (field ''payload_count'' data))
       ''payload count must cover all meshes and three transforms''"

definition check_self_tests :: "json \<Rightarrow> string \<times> int \<Rightarrow> unit result" where
  "check_self_tests data limit =
     (case limit of (name, least) \<Rightarrow>
       require (is_int (field name data) \<and> least \<le> int_of (field name data))
         (''missing native self-tests: '' @ name))"

definition covered :: "int \<Rightarrow> payload_state \<Rightarrow> bool" where
  "covered n s \<longleftrightarrow>
     int (length (ps_groups s)) = n \<and> int (length (ps_keys s)) = n \<and>
     list_all (\<lambda>(_, modes). length modes = 3) (ps_groups s)"

definition aggregate_names :: "(string \<times> string) list" where
  "aggregate_names =
     [(''bytes'', ''serialized_bytes''), (''vertices'', ''payload_vertices''),
      (''triangles'', ''payload_triangles''), (''materials'', ''payload_materials'')]"

definition check_aggregate :: "json \<Rightarrow> (string \<times> int) list \<Rightarrow> string \<times> string \<Rightarrow> unit result" where
  "check_aggregate data totals names =
     (case names of (metric, name) \<Rightarrow>
       if \<not> is_int (field name data) then Inl (ValueError (''aggregate payload metric mismatch: '' @ name))
       else case map_of totals metric of
          None \<Rightarrow> Inl (KeyError (repr_str metric))
        | Some n \<Rightarrow> require (int_of (field name data) = n) (''aggregate payload metric mismatch: '' @ name))"

text \<open>The names the glob \<open>*.payload\<close> finds in the directory are an argument.\<close>

definition check_coverage :: "json \<Rightarrow> string list \<Rightarrow> payload_state \<Rightarrow> json list result" where
  "check_coverage data present s =
     req (covered (int_of (field ''mesh_nodes'' data)) s) ''payloads do not cover every mesh and transform''
     (req (same_set present (ps_names s)) ''payload files do not match the request records''
      (bind_result (each (check_aggregate data (ps_totals s)) aggregate_names) (\<lambda>_. Inr (ps_result s))))"

definition validate_payloads :: "host \<Rightarrow> fs \<Rightarrow> json \<Rightarrow> path \<Rightarrow> string list \<Rightarrow> json list result" where
  "validate_payloads h f data dir present =
     bind_result (check_contract f data dir) (\<lambda>_.
     bind_result (check_counts data) (\<lambda>_.
     bind_result (each (check_self_tests data) [(''source_scene_self_tests'', 20),
         (''payload_self_tests'', 4 * int_of (field ''mesh_nodes'' data) + 19)]) (\<lambda>_.
     bind_result (fold_result (take_payload h f (str_of (field ''source_sha256'' data)) dir)
         (list_items (field ''payloads'' data)) no_payloads)
       (check_coverage data present))))"

section \<open>The scene report\<close>

definition interchange_stage :: string where "interchange_stage = ''ue-ufbx-interchange-static''"

definition interchange_scope :: string where
  "interchange_scope =
     ''ufbx to UE Interchange static nodes and mesh payloads; not translator/worker, ''
     @ ''material shading, factory assets, Editor or Cook''"

definition interchange_checks :: "string list" where
  "interchange_checks = [''build'', ''architecture'', ''process'', ''graph'', ''payload'', ''geometry'']"

definition scene_metrics :: "string list" where
  "scene_metrics = [''nodes'', ''scene_nodes'', ''mesh_nodes'', ''material_nodes'', ''serialized_bytes'',
     ''payload_vertices'', ''payload_triangles'', ''payload_materials'']"

record interchange_args =
  ia_program :: string
  ia_input :: string
  ia_run_dir :: string
  ia_ue_root :: string
  ia_ufbx_report :: string
  ia_runner :: string
  ia_timeout :: int
  ia_exit_code :: "int option"
  ia_meshes :: "int option"

definition scene_metric :: "json \<Rightarrow> string \<Rightarrow> unit result" where
  "scene_metric data name =
     require (is_int (field name data) \<and> 0 < int_of (field name data)) (''invalid scene metric: '' @ name)"

definition scene_identity :: "json \<Rightarrow> bool" where
  "scene_identity data \<longleftrightarrow> has_identity interchange_stage interchange_scope data"

definition mesh_count_ok :: "int option \<Rightarrow> json \<Rightarrow> bool" where
  "mesh_count_ok meshes data \<longleftrightarrow>
     (case meshes of None \<Rightarrow> True | Some n \<Rightarrow> int_of (field ''mesh_nodes'' data) = n)"

definition node_counts_ok :: "json \<Rightarrow> bool" where
  "node_counts_ok data \<longleftrightarrow>
     int_of (field ''nodes'' data) =
       int_of (field ''scene_nodes'' data) + int_of (field ''mesh_nodes'' data) + int_of (field ''material_nodes'' data)"

definition roundtrips_ok :: "string \<Rightarrow> json \<Rightarrow> bool" where
  "roundtrips_ok d data \<longleftrightarrow>
     field ''source_sha256'' data = JStr d \<and> field ''graph_roundtrip'' data = JBool True \<and>
     field ''payload_roundtrip'' data = JBool True"

definition check_scene :: "host \<Rightarrow> fs \<Rightarrow> path \<Rightarrow> int option \<Rightarrow> json \<Rightarrow> unit result" where
  "check_scene h f fixture meshes data =
     (if \<not> is_obj data then Inl (no_attribute ''get'')
      else req (scene_identity data) ''scene report identity or status is invalid''
        (bind_result (each (scene_metric data) scene_metrics) (\<lambda>_.
         req (mesh_count_ok meshes data) ''scene does not contain the required independent mesh count''
         (req (node_counts_ok data) ''node counts do not add up''
          (bind_result (sha256_file h f fixture) (\<lambda>d.
           require (roundtrips_ok d data) ''source digest or round-trip markers are invalid''))))))"

definition geometry_json :: "host \<Rightarrow> fs \<Rightarrow> json \<Rightarrow> json list \<Rightarrow> path list \<Rightarrow> json result" where
  "geometry_json h f data records payloads =
     bind_result (map_result (sha256_file h f) payloads) (\<lambda>ds.
       Inr (JObj (map (\<lambda>k. (k, field k data)) [''payload_vertices'', ''payload_triangles'', ''payload_materials'']
         @ [(''source_sha256'', field ''source_sha256'' data), (''payload_sha256'', JStr (hd ds)),
            (''payload_sha256s'', JList (map JStr ds)), (''payloads'', JList records)])))"

section \<open>The run\<close>

record interchange_paths =
  ip_root :: path
  ip_work :: path
  ip_program :: path
  ip_fixture :: path

definition outputs_of :: "interchange_paths \<Rightarrow> path" where
  "outputs_of ps = ip_root ps @ [''outputs'']"

definition graph_of :: "interchange_paths \<Rightarrow> path" where
  "graph_of ps = outputs_of ps @ [''nodes.bin'']"

definition scene_of :: "interchange_paths \<Rightarrow> path" where
  "scene_of ps = ip_root ps @ [''scene.json'']"

definition log_of :: "interchange_paths \<Rightarrow> path" where
  "log_of ps = ip_root ps @ [''bootstrap.log'']"

definition scene_command :: "interchange_paths \<Rightarrow> string list" where
  "scene_command ps =
     [path_text (ip_program ps), ''-scene-test'', ''-input='' @ path_text (ip_fixture ps),
      ''-output='' @ path_text (scene_of ps), ''-result-dir='' @ path_text (outputs_of ps)]"

definition first_evidence :: "checker_host \<Rightarrow> interchange_args \<Rightarrow> interchange_paths \<Rightarrow> (string \<times> path) list" where
  "first_evidence ch a ps =
     [(''architecture'', ip_root ps @ [''architecture.txt'']), (''process'', log_of ps), (''graph'', graph_of ps),
      (''payload'', ip_work ps @ [''payload.bin'']), (''geometry'', ip_work ps @ [''geometry.json'']),
      (''input'', ip_fixture ps), (''program'', ip_program ps),
      (''source-files'', ip_root ps @ [''source-files.sha256'']),
      (''build-command'', ip_root ps @ [''build-command.json'']), (''evaluator'', ch_script ch),
      (''stage-writer'', parent (ch_script ch) @ [''stage_report.py'']),
      (''runner'', absolute (ch_host ch) (ia_runner a)), (''ue-commit'', ip_root ps @ [''ue-commit.txt'']),
      (''ue-tracked-patch'', ip_root ps @ [''ue-tracked.patch'']), (''result'', ip_work ps @ [''result.json''])]"

definition start_program :: "checker_host \<Rightarrow> interchange_args \<Rightarrow> interchange_paths \<Rightarrow> int ck" where
  "start_program ch a ps =
     handle
       (and_then (run_tool ch (scene_command ps) (log_of ps)) (\<lambda>ending.
          case ending of
            Exited n \<Rightarrow> ret n
          | TimedOut \<Rightarrow> then_do (complain (''process exceeded '' @ show_int (ia_timeout a) @ '' seconds'')) (ret 124)
          | NotStarted m \<Rightarrow> raise (OSError m)))
       (\<lambda>e. case e of
          OSError m \<Rightarrow> then_do (complain (''process could not start: '' @ m)) (ret 1)
        | _ \<Rightarrow> raise e)"

definition process_code :: "checker_host \<Rightarrow> interchange_args \<Rightarrow> interchange_paths \<Rightarrow> int ck" where
  "process_code ch a ps = (case ia_exit_code a of Some n \<Rightarrow> ret n | None \<Rightarrow> start_program ch a ps)"

text \<open>\<open>except OSError: is_native = False\<close>.\<close>

definition native_or_false :: "fs \<Rightarrow> path \<Rightarrow> bool result" where
  "native_or_false f p =
     catch_result (native_elf f p) (\<lambda>e. case e of OSError _ \<Rightarrow> Inr False | _ \<Rightarrow> Inl e)"

definition architecture_ok :: "fs \<Rightarrow> interchange_paths \<Rightarrow> bool result" where
  "architecture_ok f ps =
     bind_result (native_or_false f (ip_program ps)) (\<lambda>native.
       let p = ip_root ps @ [''architecture.txt''] in
       if is_file f p \<and> native then bind_result (read_text f p) (\<lambda>t. Inr (contains_text ''ARM aarch64'' t))
       else Inr False)"

definition check_platform :: "interchange_paths \<Rightarrow> unit ck" where
  "check_platform ps =
     and_then (get_state ck_files) (\<lambda>f.
     then_do (set_status ''build'' (is_file f (ip_root ps @ [''build.log''])))
     (and_then (lift (architecture_ok f ps)) (set_status ''architecture'')))"

definition check_graph_file :: "interchange_paths \<Rightarrow> unit ck" where
  "check_graph_file ps =
     and_then (get_state ck_files) (\<lambda>f.
       set_status ''graph'' (nonempty_file f (graph_of ps) \<and> \<not> is_link f (graph_of ps)))"

definition cite_payloads :: "interchange_paths \<Rightarrow> path list \<Rightarrow> unit ck" where
  "cite_payloads ps payloads =
     (case payloads of
        [] \<Rightarrow> raise (IndexError ''list index out of range'')
      | p # _ \<Rightarrow>
          then_do (cite ''payload'' p)
          (then_do (cite_all (map (\<lambda>(i, q). (''payload-'' @ show_nat i, q)) (enumerate 0 payloads)))
          (then_do (cite ''payload-directory'' (graph_of ps))
          (pass ''payload''))))"

definition present_payloads :: "checker_host \<Rightarrow> fs \<Rightarrow> interchange_paths \<Rightarrow> string list" where
  "present_payloads ch f ps = map base_name (with_ending ''.payload'' (children ch f (outputs_of ps)))"

definition payload_paths :: "interchange_paths \<Rightarrow> json list \<Rightarrow> path list" where
  "payload_paths ps records = map (\<lambda>r. outputs_of ps @ [str_of (field ''filename'' r)]) records"

definition scene_section :: "checker_host \<Rightarrow> interchange_args \<Rightarrow> interchange_paths \<Rightarrow> unit ck" where
  "scene_section ch a ps =
     and_then (with_files (\<lambda>f. read_json f (scene_of ps))) (\<lambda>data.
     then_do (with_files (\<lambda>f. check_scene (ch_host ch) f (ip_fixture ps) (ia_meshes a) data))
     (then_do (check_graph_file ps)
     (and_then (with_files (\<lambda>f. validate_payloads (ch_host ch) f data (outputs_of ps) (present_payloads ch f ps)))
       (\<lambda>records.
       then_do (cite_payloads ps (payload_paths ps records))
       (and_then (with_files (\<lambda>f. geometry_json (ch_host ch) f data records (payload_paths ps records))) (\<lambda>g.
        then_do (on_files (\<lambda>f. write_text_file f (ip_work ps @ [''geometry.json'']) (one_line True g)))
        (pass ''geometry'')))))))"

definition check_process :: "checker_host \<Rightarrow> interchange_args \<Rightarrow> interchange_paths \<Rightarrow> int \<Rightarrow> unit ck" where
  "check_process ch a ps rc =
     (if rc = 0 then then_do (pass ''process'') (guarded_section os_or_value (scene_section ch a ps))
      else complain (''scene process exit code: '' @ show_int rc))"

definition summary_json :: "int \<Rightarrow> checker \<Rightarrow> json" where
  "summary_json rc s =
     JObj [(''process_exit_code'', JInt rc), (''errors'', JList (map JStr (ck_errors s))),
       (''checks'', JObj (map (\<lambda>(n, v). (n, JStr v)) (ck_checks s)))]"

definition write_summary :: "path \<Rightarrow> int \<Rightarrow> unit ck" where
  "write_summary p rc =
     and_then (get_state (summary_json rc)) (\<lambda>v. on_files (\<lambda>f. write_text_file f p (one_line True v)))"

text \<open>A check without evidence, and evidence that is no file, fall back to the diagnostic.\<close>

definition default_evidence :: "path \<Rightarrow> fs \<Rightarrow> (string \<times> path) list \<Rightarrow> (string \<times> path) list" where
  "default_evidence diagnostic f ev =
     map (\<lambda>(n, p). (n, if is_file f p then p else diagnostic))
       (ev @ [(n, diagnostic). n \<leftarrow> interchange_checks, n \<notin> set (map fst ev)])"

definition settle_evidence :: "interchange_paths \<Rightarrow> int \<Rightarrow> unit ck" where
  "settle_evidence ps rc =
     then_do (cite_present [(''process-log'', log_of ps), (''scene-report'', scene_of ps)])
     (then_do (write_summary (ip_work ps @ [''diagnostic.json'']) rc)
     (then_do (put_state (\<lambda>s. s\<lparr>ck_evidence :=
         default_evidence (ip_work ps @ [''diagnostic.json'']) (ck_files s) (ck_evidence s)\<rparr>))
     (then_do (write_summary (ip_work ps @ [''result.json'']) rc)
     (cite ''result'' (ip_work ps @ [''result.json''])))))"

text \<open>A validated prerequisite is listed even when it does not name the source of ufbx.\<close>

definition ufbx_source :: "checker_host \<Rightarrow> interchange_args \<Rightarrow> (string \<times> json) list ck" where
  "ufbx_source ch a =
     (let report = pure_path_text (ia_ufbx_report a) in
      handle
        (and_then (with_files (\<lambda>f. validate_report (ch_host ch) f report ufbx_stage ufbx_scope)) (\<lambda>r.
         then_do (put_state (\<lambda>s. s\<lparr>ck_prerequisites := [(ufbx_stage, ufbx_scope, report)]\<rparr>))
         (let source = field ''ufbx'' (field ''sources'' r) in
          if is_obj source then ret [(''ufbx'', source)]
          else raise (ValueError ''ufbx prerequisite does not contain ufbx source identity''))))
        (\<lambda>e. if os_or_value e then
           then_do (complain (''ufbx prerequisite: '' @ error_text e)) (then_do (set_status ''build'' False) (ret []))
         else raise e))"

definition interchange_code :: "checker \<Rightarrow> int" where
  "interchange_code s = (if all_checks_pass (ck_checks s) \<and> ck_errors s = [] then 0 else 1)"

definition interchange_ue :: "interchange_args \<Rightarrow> string \<Rightarrow> string \<times> json" where
  "interchange_ue a revision =
     (''ue'', JObj [(''location'', JStr (ia_ue_root a)), (''revision'', JStr revision)])"

definition run_in :: "checker_host \<Rightarrow> interchange_args \<Rightarrow> interchange_paths \<Rightarrow> json ck" where
  "run_in ch a ps =
     then_do (cite_present [(''build-log'', ip_root ps @ [''build.log''])])
     (then_do (cite_all (first_evidence ch a ps))
     (and_then (process_code ch a ps) (\<lambda>rc.
      then_do (check_platform ps)
      (then_do (check_process ch a ps rc)
      (then_do (settle_evidence ps rc)
      (and_then (with_files (\<lambda>f. revision_of f (ip_root ps @ [''ue-commit.txt'']))) (\<lambda>revision.
      (and_then (ufbx_source ch a) (\<lambda>ufbx.
       checker_report ch (ip_root ps @ [''stage-report.json'']) (\<lambda>s.
         checker_args interchange_stage interchange_scope (scene_command ps) (interchange_code s)
           (interchange_ue a revision # ufbx) s))))))))))"

definition interchange_start ::
  "checker_host \<Rightarrow> fs \<Rightarrow> interchange_args \<Rightarrow> string \<Rightarrow> (interchange_paths \<times> fs) result"
where
  "interchange_start ch f a temp =
     (let h = ch_host ch in
      bind_result (resolve f (cwd h) (ia_run_dir a)) (\<lambda>base.
      bind_result (make_dirs f [] base) (\<lambda>f1.
      let report = base @ [''stage-report.json'']; work = base @ [''interchange-checks-'' @ temp] in
      req (vacant f1 report) (''refusing to overwrite '' @ path_text report)
      (bind_result (make_work_dir f1 work) (\<lambda>f2.
       bind_result (resolve f2 (cwd h) (ia_program a)) (\<lambda>program.
       bind_result (resolve f2 (cwd h) (ia_input a)) (\<lambda>fixture.
         Inr (\<lparr>ip_root = base, ip_work = work, ip_program = program, ip_fixture = fixture\<rparr>, f2))))))))"

definition run :: "checker_host \<Rightarrow> fs \<Rightarrow> interchange_args \<Rightarrow> string \<Rightarrow> json result \<times> fs" where
  "run ch f a temp =
     (case interchange_start ch f a temp of
        Inl e \<Rightarrow> (Inl e, f)
      | Inr (ps, f1) \<Rightarrow>
          (case run_in ch a ps (start_checker interchange_checks f1) of (r, s) \<Rightarrow> (r, ck_files s)))"

text \<open>The exit code: 2 for what \<open>run\<close> raises as \<open>OSError\<close> or \<open>ValueError\<close>.\<close>

definition main :: "checker_host \<Rightarrow> fs \<Rightarrow> interchange_args \<Rightarrow> string \<Rightarrow> int result" where
  "main ch f a temp =
     (case fst (run ch f a temp) of
        Inl e \<Rightarrow> if os_or_value e then Inr 2 else Inl e
      | Inr report \<Rightarrow> Inr (exit_status report))"

end
