(* ===== verification/InterchangeFacts.thy ===== *)
theory InterchangeFacts
  imports InterchangeStage
begin

text \<open>
  Accepted payload records cover the scene: every mesh three times, once with each transform, with distinct
  file names that are the files of the directory, with the digests those files have and with the sums the
  scene report gives.
\<close>

section \<open>The specification\<close>

definition uid_of :: "json \<Rightarrow> string" where
  "uid_of r = str_of (field ''mesh_uid'' r)"

definition mode_of :: "json \<Rightarrow> string" where
  "mode_of r = str_of (field ''transform'' r)"

definition modes_in :: "json list \<Rightarrow> string \<Rightarrow> string list" where
  "modes_in rs u = map mode_of (filter (\<lambda>r. uid_of r = u) rs)"

definition metric_sum :: "string \<Rightarrow> json list \<Rightarrow> int" where
  "metric_sum m rs = sum_list (map (\<lambda>r. int_of (field m r)) rs)"

definition every_mesh_thrice :: "int \<Rightarrow> json list \<Rightarrow> bool" where
  "every_mesh_thrice n rs \<longleftrightarrow>
     int (card (uid_of ` set rs)) = n \<and>
     (\<forall>u\<in>uid_of ` set rs. distinct (modes_in rs u) \<and> set (modes_in rs u) = set transforms)"

definition digests_recorded :: "host \<Rightarrow> fs \<Rightarrow> path \<Rightarrow> json list \<Rightarrow> bool" where
  "digests_recorded h f dir rs \<longleftrightarrow>
     (\<forall>r\<in>set rs. \<exists>d. sha256_file h f (dir @ [payload_name r]) = Inr d \<and> field ''sha256'' r = JStr d)"

definition sums_match :: "json \<Rightarrow> json list \<Rightarrow> bool" where
  "sums_match data rs \<longleftrightarrow> (\<forall>(metric, name)\<in>set aggregate_names. field name data = JInt (metric_sum metric rs))"

section \<open>One record\<close>

definition with_digest :: "string \<Rightarrow> json \<Rightarrow> json" where
  "with_digest d entry = JObj (dict_set ''sha256'' (JStr d) (obj_items entry))"

lemma field_with_digest [simp]:
  "field ''sha256'' (with_digest d e) = JStr d" "k \<noteq> ''sha256'' \<Longrightarrow> field k (with_digest d e) = field k e"
  by (simp_all add: with_digest_def field_def)

lemma parts_with_digest [simp]:
  "uid_of (with_digest d e) = uid_of e" "mode_of (with_digest d e) = mode_of e"
  "payload_name (with_digest d e) = payload_name e"
  by (simp_all add: uid_of_def mode_of_def payload_name_def)

definition total_of :: "(string \<times> int) list \<Rightarrow> string \<Rightarrow> int" where
  "total_of t m = (case map_of t m of None \<Rightarrow> 0 | Some n \<Rightarrow> n)"

lemma add_metric_total:
  "add_metric entry m t = Inr t' \<Longrightarrow>
   total_of t' k = total_of t k + (if k = m then int_of (field m entry) else 0)"
  by (auto simp: add_metric_def total_of_def)

lemma add_metrics_total:
  "fold_result (add_metric entry) ms t = Inr t' \<Longrightarrow> distinct ms \<Longrightarrow>
   total_of t' k = total_of t k + (if k \<in> set ms then int_of (field k entry) else 0)"
proof (induction ms arbitrary: t)
  case (Cons m ms)
  then obtain t1 where "add_metric entry m t = Inr t1" "fold_result (add_metric entry) ms t1 = Inr t'" by auto
  with Cons show ?case by (auto simp: add_metric_total)
qed simp

text \<open>What the loop keeps: the state is a function of the records taken so far.\<close>

definition payload_books :: "host \<Rightarrow> fs \<Rightarrow> path \<Rightarrow> payload_state \<Rightarrow> bool" where
  "payload_books h f dir s \<longleftrightarrow>
     (\<forall>u. modes_of u s = modes_in (ps_result s) u) \<and>
     (\<forall>u. distinct (modes_of u s) \<and> set (modes_of u s) \<subseteq> set transforms) \<and>
     fst ` set (ps_groups s) = uid_of ` set (ps_result s) \<and> distinct (map fst (ps_groups s)) \<and>
     ps_names s = map payload_name (ps_result s) \<and> distinct (map payload_name (ps_result s)) \<and>
     (\<forall>m\<in>set payload_metrics. total_of (ps_totals s) m = metric_sum m (ps_result s)) \<and>
     digests_recorded h f dir (ps_result s)"

lemma books_modes: "payload_books h f dir s \<Longrightarrow> distinct (modes_of u s)" "payload_books h f dir s \<Longrightarrow> set (modes_of u s) \<subseteq> set transforms"
  unfolding payload_books_def by blast+

lemma books_names: "payload_books h f dir s \<Longrightarrow> distinct (map payload_name (ps_result s))"
  unfolding payload_books_def by blast

lemma payload_books_start: "payload_books h f dir no_payloads"
  by (simp add: payload_books_def no_payloads_def modes_of_def modes_in_def total_of_def metric_sum_def digests_recorded_def)

lemma take_payload_run:
  assumes "take_payload h f source dir entry s = Inr t"
  obtains d totals where
    "t = add_mode (uid_of entry) (mode_of entry) s \<lparr>ps_names := ps_names s @ [payload_name entry],
       ps_keys := add_member (str_of (field ''payload_key'' entry)) (ps_keys s), ps_totals := totals,
       ps_result := ps_result s @ [with_digest d entry]\<rparr>"
    and "new_mode (field ''transform'' entry) (uid_of entry) s" and "payload_name entry \<notin> set (ps_names s)"
    and "fold_result (add_metric entry) payload_metrics (ps_totals s) = Inr totals"
    and "sha256_file h f (dir @ [payload_name entry]) = Inr d"
  using assms
  by (auto simp: take_payload_def Let_def payload_file_def uid_of_def mode_of_def add_mode_def new_mode_def modes_of_def
      with_digest_def)

lemma take_payload_books:
  assumes "take_payload h f source dir entry s = Inr t" and b: "payload_books h f dir s"
  shows "payload_books h f dir t"
  using assms(1)
proof (cases rule: take_payload_run)
  case (1 d totals)
  have u: "modes_of u t = modes_of u s @ (if u = uid_of entry then [mode_of entry] else [])" for u
    by (simp add: 1(1) add_mode_def modes_of_def)
  have groups: "fst ` set (ps_groups t) = insert (uid_of entry) (fst ` set (ps_groups s))" "distinct (map fst (ps_groups t))"
    using b by (simp_all add: 1(1) add_mode_def payload_books_def distinct_dict_set)
  have new: "mode_of entry \<in> set transforms" "mode_of entry \<notin> set (modes_of (uid_of entry) s)"
    using 1(2) by (simp_all add: new_mode_def mode_of_def)
  have sums: "total_of (ps_totals t) m = metric_sum m (ps_result t)" if "m \<in> set payload_metrics" for m
  proof -
    have "distinct payload_metrics" "m \<noteq> ''sha256''" using that by (auto simp: payload_metrics_def)
    then show ?thesis using that b add_metrics_total [OF 1(4)]
      by (simp add: 1(1) payload_books_def metric_sum_def)
  qed
  have modes: "\<forall>u. distinct (modes_of u t) \<and> set (modes_of u t) \<subseteq> set transforms"
  proof
    fix v
    have "distinct (modes_of v s)" "set (modes_of v s) \<subseteq> set transforms" using books_modes [OF b] by blast+
    with u [of v] new show "distinct (modes_of v t) \<and> set (modes_of v t) \<subseteq> set transforms"
      by (cases "v = uid_of entry") auto
  qed
  have result: "ps_result t = ps_result s @ [with_digest d entry]" "ps_names t = ps_names s @ [payload_name entry]"
    by (simp_all add: 1(1))
  have "modes_of v t = modes_in (ps_result t) v" for v
    using b u [of v] by (simp add: payload_books_def result modes_in_def)
  moreover have "fst ` set (ps_groups t) = uid_of ` set (ps_result t)" using b groups(1) by (simp add: payload_books_def result)
  moreover have "ps_names t = map payload_name (ps_result t)" "distinct (map payload_name (ps_result t))"
    using b 1(3) by (simp_all add: payload_books_def result)
  moreover have "digests_recorded h f dir (ps_result t)" using b 1(5) by (auto simp: payload_books_def result digests_recorded_def)
  ultimately show ?thesis using modes groups(2) sums by (simp add: payload_books_def)
qed

text \<open>Three distinct transforms are all of them.\<close>

lemma all_transforms: "distinct ms \<Longrightarrow> set ms \<subseteq> set transforms \<Longrightarrow> length ms = 3 \<Longrightarrow> set ms = set transforms"
  by (rule card_subset_eq) (simp_all add: distinct_card transforms_def)

lemma covered_meshes:
  assumes b: "payload_books h f dir s" and c: "covered n s"
  shows "every_mesh_thrice n (ps_result s)"
proof -
  have "card (uid_of ` set (ps_result s)) = length (ps_groups s)"
    using b by (metis payload_books_def distinct_card length_map list.set_map)
  moreover have "distinct (modes_in (ps_result s) u) \<and> set (modes_in (ps_result s) u) = set transforms"
    if "u \<in> uid_of ` set (ps_result s)" for u
  proof -
    from that b obtain ms where ms: "(u, ms) \<in> set (ps_groups s)" by (force simp: payload_books_def)
    then have "modes_of u s = ms" using b by (simp add: modes_of_def payload_books_def)
    moreover have "length ms = 3" using c ms by (auto simp: covered_def list_all_iff)
    ultimately show ?thesis using b all_transforms [of ms] by (metis payload_books_def)
  qed
  ultimately show ?thesis using c by (simp add: every_mesh_thrice_def covered_def)
qed

section \<open>Property\<close>

text \<open>C25: accepted payloads cover the scene: as many meshes as it reports, each with exactly the three
  transforms; the file names are distinct and are exactly the payload files of the directory; every record
  carries the digest of its file; and the totals of the report are the sums over the records.\<close>

theorem payloads_cover_every_mesh:
  "case validate_payloads h f data dir present of
     Inr rs \<Rightarrow>
       every_mesh_thrice (int_of (field ''mesh_nodes'' data)) rs \<and>
       distinct (map payload_name rs) \<and> set present = set (map payload_name rs) \<and>
       digests_recorded h f dir rs \<and> sums_match data rs
   | Inl e \<Rightarrow> True"
proof (cases "validate_payloads h f data dir present")
  case (Inr rs)
  then obtain s where run: "fold_result (take_payload h f (str_of (field ''source_sha256'' data)) dir)
      (list_items (field ''payloads'' data)) no_payloads = Inr s"
    and c: "covered (int_of (field ''mesh_nodes'' data)) s" "same_set present (ps_names s)"
    and agg: "\<forall>x\<in>set aggregate_names. check_aggregate data (ps_totals s) x = Inr ()" and rs: "rs = ps_result s"
    by (auto simp: validate_payloads_def check_coverage_def)
  have b: "payload_books h f dir s"
    using fold_result_invariant [OF run, of "payload_books h f dir"] payload_books_start take_payload_books by blast
  have "sums_match data rs"
    unfolding sums_match_def
  proof clarify
    fix metric name assume m: "(metric, name) \<in> set aggregate_names"
    then have "metric \<in> set payload_metrics" by (auto simp: aggregate_names_def payload_metrics_def)
    with b have "total_of (ps_totals s) metric = metric_sum metric rs" by (simp add: payload_books_def rs)
    moreover have "check_aggregate data (ps_totals s) (metric, name) = Inr ()" using agg m by blast
    ultimately show "field name data = JInt (metric_sum metric rs)"
      by (cases "field name data") (auto simp: check_aggregate_def total_of_def split: option.splits)
  qed
  with Inr b c covered_meshes [OF b c(1)] books_names [OF b] show ?thesis by (simp add: rs payload_books_def same_set_def)
qed simp

end
