(* ===== verification/MemoryTrace.thy ===== *)
theory MemoryTrace
  imports TextRecords JsonForms
begin

text \<open>
  \<open>vulkan_graphics_memory_trace.py\<close>: the diagnostic trace of one uniform-buffer mismatch, a header and
  at most 4096 events in the order of the ring, and the pipeline and parameter events that match it.
\<close>

text \<open>\<open>integer\<close>: a missing key and a malformed number are the same error.\<close>

definition trace_int :: "string \<Rightarrow> tags \<Rightarrow> int result" where
  "trace_int key d =
     (case bind_result (need_tag key d) (py_int 0) of
        Inl e \<Rightarrow> Inl (ValueError (''invalid integer field: '' @ key))
      | Inr i \<Rightarrow> Inr i)"

definition header_keys :: "string list" where
  "header_keys = [''context'', ''pending_state'', ''pipeline'', ''shader'', ''frequency'',
     ''buffer_index'', ''shader_key'', ''pending_key'']"

definition line_at :: "nat \<Rightarrow> string list \<Rightarrow> tags" where
  "line_at n lines = (if n < length lines then parse_line (lines ! n) else [])"

definition check_trace_header :: "string list \<Rightarrow> tags result" where
  "check_trace_header lines =
     req (lines \<noteq> [] \<and> hd lines = ''schema=1'') ''invalid trace schema''
     (let h = line_at 1 lines in
      req (tag ''kind'' h = Some ''uniform_buffer_mismatch'') ''missing mismatch header''
      (req (list_all (\<lambda>k. k \<in> set (map fst h)) header_keys) ''incomplete mismatch header'' (Inr h)))"

definition max_events :: int where "max_events = 4096"

definition event_count :: "string list \<Rightarrow> int result" where
  "event_count lines =
     bind_result (if 2 < length lines then trace_int ''event_count'' (line_at 2 lines) else Inr (- 1)) (\<lambda>n.
       req (0 \<le> n \<and> n \<le> max_events) ''event count outside fixed ring bound'' (Inr n))"

definition event_kinds :: "string list" where
  "event_kinds = [''pipeline'', ''graphics_parameters'', ''uniform_buffer_mismatch'']"

definition event_keys :: "tags \<Rightarrow> string list" where
  "event_keys e = split_on (CHR '','') (case tag ''keys'' e of Some v \<Rightarrow> v | None \<Rightarrow> [])"

definition all_digits :: "string \<Rightarrow> bool" where
  "all_digits s \<longleftrightarrow> s \<noteq> [] \<and> list_all is_digit s"

definition check_event :: "nat \<times> tags \<Rightarrow> unit result" where
  "check_event ie =
     (case ie of (i, e) \<Rightarrow>
       bind_result (trace_int ''event'' e) (\<lambda>n.
       req (n = int i) ''event order is not monotonic''
       (req (case tag ''kind'' e of Some k \<Rightarrow> k \<in> set event_kinds | None \<Rightarrow> False) ''unknown event kind''
       (require (length (event_keys e) = 5 \<and> list_all all_digits (event_keys e))
          ''pipeline key vector is incomplete''))))"

definition read_events :: "string list \<Rightarrow> int \<Rightarrow> tags list result" where
  "read_events lines n =
     (let found = filter (starts_with ''event='') lines; events = map parse_line found in
      req (int (length found) = n) ''event count does not match trace''
      (bind_result (each check_event (enumerate 0 events)) (\<lambda>_. Inr events)))"

definition pipeline_matches :: "tags \<Rightarrow> int \<Rightarrow> tags \<Rightarrow> bool" where
  "pipeline_matches header pending e \<longleftrightarrow>
     tag ''kind'' e = Some ''pipeline'' \<and> tag ''context'' e = tag ''context'' header \<and>
     tag ''pipeline'' e = tag ''pipeline'' header \<and> event_keys e ! 1 = show_int pending"

definition parameter_matches :: "tags \<Rightarrow> int \<Rightarrow> tags \<Rightarrow> bool result" where
  "parameter_matches header mismatch e =
     (if tag ''kind'' e = Some ''graphics_parameters'' \<and> tag ''context'' e = tag ''context'' header \<and>
         tag ''shader'' e = tag ''shader'' header
      then bind_result (trace_int ''shader_key'' e) (\<lambda>k. Inr (k = mismatch))
      else Inr False)"

fun count_result :: "('a \<Rightarrow> bool result) \<Rightarrow> 'a list \<Rightarrow> int result" where
  "count_result f [] = Inr 0"
| "count_result f (x # xs) =
     bind_result (f x) (\<lambda>b. bind_result (count_result f xs) (\<lambda>n. Inr (if b then n + 1 else n)))"

definition last_eight :: "'a list \<Rightarrow> 'a list" where
  "last_eight xs = drop (length xs - 8) xs"

definition tags_json :: "tags \<Rightarrow> json" where
  "tags_json e = JObj (map (\<lambda>(k, v). (k, JStr v)) e)"

definition trace_report :: "int \<Rightarrow> int \<Rightarrow> int \<Rightarrow> int \<Rightarrow> int \<Rightarrow> tags list \<Rightarrow> json" where
  "trace_report n mismatch pending pipelines parameters events =
     JObj [(''status'', JStr ''PASS''), (''runtime_acceptance'', JBool False), (''trace_events'', JInt n),
       (''mismatch_shader_key'', JInt mismatch), (''mismatch_pending_key'', JInt pending),
       (''matching_pipeline_events'', JInt pipelines), (''matching_parameter_events'', JInt parameters),
       (''last_events'', JList (map tags_json (last_eight events))),
       (''scope'', JStr ''direct diagnostic memory trace only; no Town10/tick/sensor acceptance'')]"

definition validate_lines :: "string list \<Rightarrow> json result" where
  "validate_lines lines =
     bind_result (check_trace_header lines) (\<lambda>header.
     bind_result (event_count lines) (\<lambda>n.
     bind_result (read_events lines n) (\<lambda>events.
     bind_result (trace_int ''shader_key'' header) (\<lambda>mismatch.
     bind_result (trace_int ''pending_key'' header) (\<lambda>pending.
     req (mismatch \<noteq> pending) ''trace does not contain a mismatch''
     (bind_result (count_result (parameter_matches header mismatch) events) (\<lambda>parameters.
       Inr (trace_report n mismatch pending
         (int (length (filter (pipeline_matches header pending) events))) parameters events))))))))"

definition validate_trace :: "fs \<Rightarrow> path \<Rightarrow> json result" where
  "validate_trace f p = bind_result (read_lines f p) validate_lines"

definition trace_caught :: "py_error \<Rightarrow> bool" where
  "trace_caught e \<longleftrightarrow> os_or_value e \<or> (case e of TypeError _ \<Rightarrow> True | KeyError _ \<Rightarrow> True | _ \<Rightarrow> False)"

definition main :: "fs \<Rightarrow> path \<Rightarrow> path \<Rightarrow> (int \<times> fs) result" where
  "main f trace output =
     (case bind_result (validate_trace f trace) (\<lambda>r. write_text_file f output (indented True r)) of
        Inl e \<Rightarrow> if trace_caught e then Inr (2, f) else Inl e
      | Inr f' \<Rightarrow> Inr (0, f'))"

end
