(* ===== verification/ParserStage.thy ===== *)
theory ParserStage
  imports NativeRun ParserDeployment
begin

text \<open>
  \<open>check_ue_parser.py\<close>: the evaluator of the native parser test. The test must report every lifecycle
  check the expected number of times and eleven outputs, and the engine must still hold the sources the
  deployment record describes.
\<close>

definition parser_stage :: string where "parser_stage = ''ue-ufbx-parser-static''"

definition parser_scope :: string where
  "parser_scope =
     ''Real FInterchangeFbxParser with static ufbx session; not worker process, factory assets, full FBX, Editor or Cook''"

definition parser_expected :: expected_checks where
  "parser_expected =
     [(''missing provider is a real parser error'', 1),
      (''real parser loads graph without clearing caller messages'', 1),
      (''real parser mesh key/transform and consumer readback'', 6),
      (''repeat query reuses verified bytes'', 1),
      (''same request in another result directory'', 1),
      (''query failure reports to owned and external containers'', 1),
      (''write failure never publishes cached path'', 1),
      (''missing cached file is rejected'', 1),
      (''conflicting cached bytes are rejected'', 1),
      (''graph write failure invalidates loaded state'', 1),
      (''failed reload invalidates old graph and scene'', 1),
      (''load succeeds again after prior failure'', 1),
      (''reset invalidates session'', 1),
      (''repeated release is safe'', 1),
      (''unsupported conversion policy is rejected at load'', 4),
      (''real parser memory graph overload'', 1),
      (''nonempty caller graph is preserved and rejected'', 1),
      (''generic non-static payload is rejected'', 1),
      (''animation query is explicitly unsupported'', 1),
      (''parser instances do not share session state'', 1),
      (''ambiguous providers are rejected'', 1),
      (''real animated/morph FBX rejected'', 2)]"

definition validate_native :: "host \<Rightarrow> fs \<Rightarrow> json \<Rightarrow> path \<Rightarrow> path \<Rightarrow> path list result" where
  "validate_native h f data base fixture =
     bind_result (check_identity h f parser_stage parser_scope data fixture
       ''native parser identity, result or source mismatch'') (\<lambda>_.
     bind_result (check_names parser_expected data ''incomplete native parser lifecycle checks'') (\<lambda>_.
       check_outputs f base (base @ [''outputs'']) (field ''files'' data) 3 8
         ''expected eleven graph/payload outputs'' ''missing or unsafe parser output''
         ''symlink directory in parser output'' ''duplicate or incorrect graph/payload outputs''))"

section \<open>The deployed sources\<close>

definition deployment_shape :: "json \<Rightarrow> bool" where
  "deployment_shape d \<longleftrightarrow>
     is_obj d \<and> field ''kind'' d = JStr parser_kind \<and>
     field ''default_sdk_path_preserved'' d = JBool True \<and>
     is_obj (field ''engine_files'' d) \<and> obj_items (field ''engine_files'' d) \<noteq> []"

text \<open>The engine's file lies in the engine and has the recorded digest, and so has the retained copy.\<close>

definition in_engine :: "host \<Rightarrow> fs \<Rightarrow> string \<Rightarrow> string \<Rightarrow> bool result" where
  "in_engine h f ue relative =
     bind_result (resolve f (join_path (cwd h) ue) relative) (\<lambda>p.
     bind_result (resolve f (cwd h) ue) (\<lambda>u. Inr (is_under p u)))"

definition engine_current :: "host \<Rightarrow> fs \<Rightarrow> string \<Rightarrow> string \<Rightarrow> json \<Rightarrow> bool result" where
  "engine_current h f ue relative d =
     bind_result (in_engine h f ue relative) (\<lambda>inside.
       if inside then bind_result (sha256_file h f (join_path (join_path (cwd h) ue) relative)) (\<lambda>x. Inr (d = JStr x))
       else Inr False)"

definition deployed_source :: "host \<Rightarrow> fs \<Rightarrow> string \<Rightarrow> path \<Rightarrow> string \<times> json \<Rightarrow> path result" where
  "deployed_source h f ue folder item =
     (case item of (relative, d) \<Rightarrow>
       bind_result (engine_current h f ue relative d) (\<lambda>ok.
       req ok ''engine parser source differs from deployment''
       (let retained = join_path (folder @ [''after'']) relative in
        bind_result (sha256_file h f retained) (\<lambda>x.
        req (d = JStr x) ''retained engine source differs from deployment'' (Inr retained)))))"

definition cite_sources :: "host \<Rightarrow> string \<Rightarrow> path \<Rightarrow> json \<Rightarrow> unit ck" where
  "cite_sources h ue folder d =
     do_each (\<lambda>item. and_then (with_files (\<lambda>f. deployed_source h f ue folder item)) (cite (''engine.'' @ fst item)))
       (obj_items (field ''engine_files'' d))"

definition deployment_section :: "host \<Rightarrow> path \<Rightarrow> string \<Rightarrow> unit ck" where
  "deployment_section h base ue =
     and_then (with_files (deployed_folder h base ''prepare-dir.txt'')) (\<lambda>folder.
     and_then (with_files (\<lambda>f. read_json f (folder @ [''deployment.json'']))) (\<lambda>d.
     then_do (check (deployment_shape d) ''invalid engine source deployment'')
     (then_do (check (same_set (obj_keys (field ''engine_files'' d)) deployed_sources)
         ''incomplete engine parser deployment file set'')
     (then_do (cite_sources h ue folder d)
     (then_do (cite ''deployment-record'' (folder @ [''deployment.json'']))
     (then_do (cite ''deployment-patch'' (folder @ [''changes.patch'']))
     (pass ''deployment'')))))))"

section \<open>The run\<close>

definition parser_checks :: "string list" where
  "parser_checks = [''build'', ''architecture'', ''native'', ''outputs'', ''prerequisite'', ''deployment'']"

definition native_section :: "checker_host \<Rightarrow> native_args \<Rightarrow> path \<Rightarrow> unit ck" where
  "native_section ch a base =
     then_do (check_exit ''native process exit='' (na_exit_code a))
     (then_do (and_then (is_regular (base @ [''build.log''])) (set_status ''build''))
     (then_do (check_elf (program_of ch a) ''not an ARM64 parser Program'')
     (then_do (pass ''architecture'')
     (and_then (with_files (\<lambda>f. read_json f (base @ [''native.json'']))) (\<lambda>data.
      and_then (with_files (\<lambda>f. validate_native (ch_host ch) f data base (fixture_of ch a))) (\<lambda>files.
      then_do (pass ''native'') (then_do (pass ''outputs'') (cite_outputs files))))))))"

definition run_in :: "checker_host \<Rightarrow> native_args \<Rightarrow> path \<Rightarrow> json ck" where
  "run_in ch a base =
     (let report = base @ [''stage-report.json''] in
      then_do (guarded_section os_or_value (native_section ch a base))
      (then_do (guarded_section section_errors (deployment_section (ch_host ch) base (na_ue_root a)))
      (then_do (ufbx_prerequisite ch (na_ufbx_report a))
      (then_do (write_diagnostic (base @ [''parser-diagnostic.json'']) ''process_exit_code'' (na_exit_code a))
      (then_do (cite_run_files base report (\<lambda>f. children ch f base))
      (then_do (cite_program ch a ''evaluator'')
      (and_then (with_files (\<lambda>f. revision_of f (base @ [''ue-commit.txt'']))) (\<lambda>revision.
      (and_then (checker_report ch report (\<lambda>s.
         checker_args parser_stage parser_scope (native_command a [''-native-parser-test'', input_flag a])
           (strict_code s) [ue_source (na_ue_root a) revision] s))
       (confirmed ch report parser_stage parser_scope))))))))))"

definition run :: "checker_host \<Rightarrow> fs \<Rightarrow> native_args \<Rightarrow> json result \<times> fs" where
  "run ch f a =
     run_opened parser_checks (run_in ch a) f
       (open_run ch f (na_run_dir a) make_all (\<lambda>f1 p. \<not> exists_path f1 p) ''refusing to overwrite parser stage report'')"

definition main :: "checker_host \<Rightarrow> fs \<Rightarrow> native_args \<Rightarrow> int result" where
  "main ch f a = bind_result (fst (run ch f a)) (\<lambda>report. Inr (exit_status report))"

end
