(* ===== verification/PipelineHistory.thy ===== *)
theory PipelineHistory
  imports TextRecords FileOps
begin

text \<open>
  \<open>scripts/carla/analyze_vulkan_pipeline_history.py\<close>: the history of pipeline creations written just
  before a compute pipeline is created, and the report of the graphics pipelines whose creation had
  begun and not returned. An event is the dictionary the code builds: the fields of its line, all
  strings, and the list \<open>stages\<close>.
\<close>

section \<open>Events\<close>

text \<open>\<open>v.split(c, n)\<close>: at most \<open>n\<close> cuts.\<close>

fun split_limit :: "char \<Rightarrow> nat \<Rightarrow> string \<Rightarrow> string list" where
  "split_limit d 0 s = [s]"
| "split_limit d (Suc n) s =
     (case partition_at d s of (k, found, v) \<Rightarrow> if found then k # split_limit d n v else [s])"

definition comma :: char where "comma = CHR '',''"

definition all_digits :: "string \<Rightarrow> bool" where
  "all_digits s \<longleftrightarrow> s \<noteq> [] \<and> list_all is_digit s"

definition is_stage_key :: "string \<Rightarrow> bool" where
  "is_stage_key k \<longleftrightarrow> starts_with ''stage'' k \<and> all_digits (drop 5 k)"

definition stage_value :: "string \<times> string \<Rightarrow> json result" where
  "stage_value = (\<lambda>(k, v).
     case split_limit comma 2 v of
       [a, m, e] \<Rightarrow>
         bind_result (py_int 10 (drop 5 k)) (\<lambda>index.
         bind_result (py_int 10 a) (\<lambda>stage.
           Inr (JObj [(''index'', JInt index), (''stage'', JInt stage), (''module'', JStr m),
                      (''entry'', JStr e)])))
     | _ \<Rightarrow> Inl (ValueError ''invalid stage record''))"

definition index_of :: "json \<Rightarrow> int" where
  "index_of stage = int_of (field ''index'' stage)"

definition stage_values :: "tags \<Rightarrow> json list result" where
  "stage_values event =
     bind_result (map_result stage_value [(k, v) \<leftarrow> event. is_stage_key k])
       (\<lambda>stages. Inr (sort_key index_of stages))"

definition text_object :: "tags \<Rightarrow> (string \<times> json) list" where
  "text_object d = map (\<lambda>(k, v). (k, JStr v)) d"

definition with_stages :: "tags \<Rightarrow> json result" where
  "with_stages event =
     bind_result (stage_values event) (\<lambda>stages.
       Inr (JObj (dict_set ''stages'' (JList stages) (text_object event))))"

definition read_event :: "string \<Rightarrow> json result" where
  "read_event line = with_stages (parse_line line)"

text \<open>\<open>event[k]\<close> and \<open>int(event[k])\<close> on the string fields of an event.\<close>

definition text_field :: "string \<Rightarrow> json \<Rightarrow> string result" where
  "text_field k event =
     (if has_field k event then Inr (str_of (field k event)) else Inl (KeyError (repr_str k)))"

definition number_field :: "string \<Rightarrow> json \<Rightarrow> int result" where
  "number_field k event = bind_result (text_field k event) (py_int 10)"

definition event_stages :: "json \<Rightarrow> json list" where
  "event_stages event = list_items (field ''stages'' event)"

section \<open>The header and the lines\<close>

fun header_lines_of :: "string list \<Rightarrow> string list" where
  "header_lines_of [] = []"
| "header_lines_of (l # ls) = (if starts_with ''event='' l then [] else l # header_lines_of ls)"

definition read_header :: "string list \<Rightarrow> tags" where
  "read_header ls =
     fold (\<lambda>l d. fold (\<lambda>(k, v). dict_set k v) (parse_line l) d) (header_lines_of (tl ls)) []"

record history =
  hist_events :: "json list"
  hist_modules :: "tags"
  hist_states :: "(string \<times> json) list"

definition empty_history :: history where
  "empty_history = \<lparr>hist_events = [], hist_modules = [], hist_states = []\<rparr>"

definition text_or_empty :: "string \<Rightarrow> tags \<Rightarrow> string" where
  "text_or_empty k d = (case tag k d of None \<Rightarrow> [] | Some v \<Rightarrow> v)"

definition add_state :: "tags \<Rightarrow> history \<Rightarrow> history result" where
  "add_state state h =
     (let call = text_or_empty ''call'' state in
      if call = [] \<or> map_of (hist_states h) call \<noteq> None \<or> tag ''replay_ready'' state \<noteq> Some ''0'' then
        Inl (ValueError ''invalid or duplicated graphics fixed-state record'')
      else Inr (h\<lparr>hist_states := dict_set call (JObj (text_object state)) (hist_states h)\<rparr>))"

definition add_module :: "tags \<Rightarrow> history \<Rightarrow> history result" where
  "add_module record h =
     (let name = text_or_empty ''module'' record; checksum = text_or_empty ''hash'' record in
      if name = [] \<or> checksum = [] then Inl (ValueError ''invalid module mapping'')
      else Inr (h\<lparr>hist_modules := dict_set name checksum (hist_modules h)\<rparr>))"

definition read_history_line :: "string \<Rightarrow> history \<Rightarrow> history result" where
  "read_history_line line h =
     (if starts_with ''event='' line then
        bind_result (read_event line) (\<lambda>event. Inr (h\<lparr>hist_events := hist_events h @ [event]\<rparr>))
      else if starts_with ''graphics_state '' line then add_state (parse_line line) h
      else if starts_with ''module='' line then add_module (parse_line line) h
      else Inr h)"

text \<open>\<open>any(int(event["event"]) != sequence ...)\<close> stops at the first event out of order.\<close>

fun in_sequence :: "int \<Rightarrow> json list \<Rightarrow> bool result" where
  "in_sequence n [] = Inr True"
| "in_sequence n (e # es) =
     bind_result (number_field ''event'' e) (\<lambda>i. if i \<noteq> n then Inr False else in_sequence (n + 1) es)"

section \<open>Begins and results\<close>

definition has_phase :: "string \<Rightarrow> json \<Rightarrow> bool" where
  "has_phase p event \<longleftrightarrow> field ''phase'' event = JStr p"

definition has_kind :: "string \<Rightarrow> json \<Rightarrow> bool" where
  "has_kind k event \<longleftrightarrow> field ''kind'' event = JStr k"

type_synonym calls = "(string \<times> json) list"

definition phase_step :: "json \<Rightarrow> calls \<times> json list \<Rightarrow> (calls \<times> json list) result" where
  "phase_step event = (\<lambda>(begins, results).
     if has_phase ''begin'' event then
       bind_result (text_field ''call'' event) (\<lambda>c. Inr (dict_set c event begins, results))
     else if has_phase ''result'' event then Inr (begins, results @ [event])
     else Inl (ValueError ''unknown pipeline event phase''))"

definition pop_result :: "json \<Rightarrow> calls \<Rightarrow> calls result" where
  "pop_result event begins =
     bind_result (text_field ''call'' event) (\<lambda>c. Inr (filter (\<lambda>(k, _). k \<noteq> c) begins))"

definition open_calls :: "json list \<Rightarrow> (calls \<times> json list) result" where
  "open_calls events =
     bind_result (fold_result phase_step events ([], [])) (\<lambda>(begins, results).
     bind_result (fold_result pop_result results begins) (\<lambda>rest. Inr (rest, results)))"

section \<open>The report\<close>

definition hashed_stage :: "tags \<Rightarrow> json \<Rightarrow> json" where
  "hashed_stage modules stage =
     JObj (dict_set ''shader_hash''
       (case map_of modules (str_of (field ''module'' stage)) of None \<Rightarrow> JNull | Some s \<Rightarrow> JStr s)
       (obj_items stage))"

definition unmatched_item :: "history \<Rightarrow> json \<Rightarrow> json result" where
  "unmatched_item h event =
     bind_result (number_field ''event'' event) (\<lambda>number.
     bind_result (number_field ''call'' event) (\<lambda>call.
     bind_result (number_field ''thread'' event) (\<lambda>thread.
     bind_result (text_field ''cache'' event) (\<lambda>cache.
     bind_result (text_field ''layout'' event) (\<lambda>layout.
     bind_result (text_field ''render_pass'' event) (\<lambda>render_pass.
     bind_result (number_field ''flags'' event) (\<lambda>flags.
     bind_result (text_field ''call'' event) (\<lambda>c.
       Inr (JObj
         [(''event'', JInt number), (''call'', JInt call), (''thread'', JInt thread),
          (''cache'', JStr cache), (''layout'', JStr layout), (''render_pass'', JStr render_pass),
          (''flags'', JInt flags),
          (''stages'', JList (map (hashed_stage (hist_modules h)) (event_stages event))),
          (''fixed_state'', case map_of (hist_states h) c of None \<Rightarrow> JNull | Some s \<Rightarrow> s)])))))))))"

definition event_number :: "json \<Rightarrow> int" where
  "event_number item = int_of (field ''event'' item)"

text \<open>
  The counts by thread and by cache: \<open>sorted\<close> raises when some events have the field and others do
  not; the key \<open>None\<close> of the remaining case is written as \<open>null\<close>.
\<close>

definition key_text :: "json \<Rightarrow> string" where
  "key_text v = (if v = JNull then ''null'' else str_of v)"

definition field_counts :: "string \<Rightarrow> json list \<Rightarrow> json result" where
  "field_counts k events =
     (let vs = map (field k) events in
      if JNull \<in> set vs \<and> list_ex (\<lambda>v. v \<noteq> JNull) vs then
        Inl (TypeError ''not supported between instances'')
      else Inr (JObj (map (\<lambda>v. (key_text v, JInt (int (length (filter (\<lambda>w. w = v) vs)))))
             (sort_key key_text (remdups vs)))))"

definition is_target :: "string \<Rightarrow> json \<Rightarrow> bool" where
  "is_target target event \<longleftrightarrow>
     has_kind ''compute'' event \<and>
     list_ex (\<lambda>stage. field ''entry'' stage = JStr target) (event_stages event)"

definition history_report :: "history \<Rightarrow> string \<Rightarrow> string \<Rightarrow> json result" where
  "history_report h target trigger =
     (let events = hist_events h; targets = filter (is_target target) events;
          graphics = [field ''call'' e. e \<leftarrow> events, has_phase ''begin'' e \<and> has_kind ''graphics'' e] in
      bind_result (open_calls events) (\<lambda>(begins, results).
      if \<not> list_all (\<lambda>(c, _). JStr c \<in> set graphics) (hist_states h) then
        Inl (ValueError ''graphics fixed-state lacks a graphics begin'')
      else if trigger = ''checkpoint'' \<and> \<not> list_ex (has_phase ''begin'') targets then
        Inl (ValueError ''checkpoint target has no compute begin'')
      else
        bind_result (map_result (unmatched_item h) (filter (has_kind ''graphics'') (map snd begins)))
          (\<lambda>unmatched.
        bind_result (field_counts ''thread'' events) (\<lambda>threads.
        bind_result (field_counts ''cache'' events) (\<lambda>caches.
          Inr (JObj
            [(''schema_version'', JInt 1),
             (''status'', JStr (if trigger = ''checkpoint'' then ''CAPTURED_CHECKPOINT'' else ''CAPTURED_HISTORY'')),
             (''event_count'', JInt (int (length events))),
             (''result_count'', JInt (int (length results))),
             (''module_count'', JInt (int (length (hist_modules h)))),
             (''fixed_state_count'', JInt (int (length (hist_states h)))),
             (''unmatched_graphics_count'', JInt (int (length unmatched))),
             (''target'', JStr target), (''trigger'', JStr trigger), (''replay_ready'', JBool False),
             (''target_events'', JList targets),
             (''unmatched_graphics'', JList (sort_key event_number unmatched)),
             (''thread_event_counts'', threads), (''cache_event_counts'', caches),
             (''scope'', JStr ''same-run Vulkan create history only; not a runtime or sensor acceptance'')]))))))"

definition max_events :: int where "max_events = 4096"

definition check_header :: "tags \<Rightarrow> string \<Rightarrow> (string \<times> int \<times> int) result" where
  "check_header header target =
     (let trigger = (case tag ''trigger'' header of None \<Rightarrow> ''selected_target'' | Some t \<Rightarrow> t) in
      if tag ''phase'' header \<noteq> Some ''before_compute_create'' then
        Inl (ValueError ''history is not a pre-compute snapshot'')
      else if tag ''target'' header \<noteq> Some target then
        Inl (ValueError ''snapshot target differs from requested shader'')
      else if trigger \<notin> {''selected_target'', ''checkpoint''} then
        Inl (ValueError ''invalid snapshot trigger'')
      else
        bind_result (int_field ''first_sequence'' header) (\<lambda>first.
        bind_result (int_field ''last_sequence'' header) (\<lambda>final.
        bind_result (int_field ''dropped'' header) (\<lambda>dropped.
        if first < 1 \<or> final < first \<or> dropped \<noteq> first - 1 then
          Inl (ValueError ''invalid sequence bounds'')
        else Inr (trigger, first, final)))))"

definition check_sequence :: "history \<Rightarrow> int \<Rightarrow> int \<Rightarrow> unit result" where
  "check_sequence h first final =
     (if max_events < int (length (hist_events h)) then
        Inl (ValueError ''history exceeds bounded event capacity'')
      else if int (length (hist_events h)) \<noteq> final - first + 1 then
        Inl (ValueError ''history sequence is incomplete'')
      else
        bind_result (in_sequence first (hist_events h)) (\<lambda>ok.
          require ok ''history sequence is incomplete''))"

definition analyze_lines :: "string list \<Rightarrow> string \<Rightarrow> json result" where
  "analyze_lines ls target =
     (if length ls < 4 \<or> hd ls \<noteq> ''schema=1'' \<or> last ls \<noteq> ''end=1'' then
        Inl (ValueError ''invalid pipeline history schema'')
      else
        bind_result (check_header (read_header ls) target) (\<lambda>(trigger, first, final).
        bind_result (fold_result read_history_line ls empty_history) (\<lambda>h.
        bind_result (check_sequence h first final) (\<lambda>_.
          history_report h target trigger))))"

definition analyze :: "fs \<Rightarrow> path \<Rightarrow> string \<Rightarrow> json result" where
  "analyze f p target = bind_result (read_lines f p) (\<lambda>ls. analyze_lines ls target)"

text \<open>\<open>main\<close>: the errors it catches give exit code 2.\<close>

definition caught :: "py_error \<Rightarrow> bool" where
  "caught e \<longleftrightarrow>
     (case e of OSError _ \<Rightarrow> True | ValueError _ \<Rightarrow> True | TypeError _ \<Rightarrow> True | KeyError _ \<Rightarrow> True | _ \<Rightarrow> False)"

definition main :: "fs \<Rightarrow> path \<Rightarrow> string \<Rightarrow> path \<Rightarrow> (int \<times> fs) result" where
  "main f p target output =
     (case bind_result (analyze f p target) (\<lambda>r. write_bytes f output (encode 0 r @ [CHR 0x0A])) of
        Inr f' \<Rightarrow> Inr (0, f')
      | Inl e \<Rightarrow> if caught e then Inr (2, f) else Inl e)"

end
