(* ===== verification/PipelineHistoryFacts.thy ===== *)
theory PipelineHistoryFacts
  imports PipelineHistory
begin

text \<open>
  The reported graphics pipelines are exactly those whose creation was still running: the dictionary
  of open calls is related to a declarative reading of the event sequence.
\<close>

section \<open>Open calls\<close>

definition begins_call :: "string \<Rightarrow> json \<Rightarrow> bool" where
  "begins_call c e \<longleftrightarrow> has_phase ''begin'' e \<and> field ''call'' e = JStr c"

definition last_begin :: "string \<Rightarrow> json list \<Rightarrow> json option" where
  "last_begin c es = find (begins_call c) (rev es)"

definition answers :: "string \<Rightarrow> json \<Rightarrow> bool" where
  "answers c e \<longleftrightarrow> has_phase ''result'' e \<and> field ''call'' e = JStr c"

definition text_event :: "json \<Rightarrow> bool" where
  "text_event e \<longleftrightarrow> is_str (field ''call'' e) \<or> \<not> has_field ''call'' e"

lemma last_begin_Cons:
  "last_begin c (e # es) =
     (case last_begin c es of Some b \<Rightarrow> Some b | None \<Rightarrow> if begins_call c e then Some e else None)"
proof -
  have "find P (xs @ [y]) = (case find P xs of Some x \<Rightarrow> Some x | None \<Rightarrow> if P y then Some y else None)"
    for P :: "json \<Rightarrow> bool" and xs y by (induction xs) auto
  then show ?thesis by (simp add: last_begin_def)
qed

lemma text_field_Inr: "text_event e \<Longrightarrow> text_field ''call'' e = Inr c \<longleftrightarrow> field ''call'' e = JStr c"
  by (cases "field ''call'' e")
    (auto simp: text_field_def text_event_def has_field_def field_def split: option.splits)

lemma phase_step_Inr:
  assumes "phase_step e (b, rs) = Inr (b', rs')" and "text_event e"
  shows "map_of b' c = (if begins_call c e then Some e else map_of b c)"
    and "rs' = rs @ (if has_phase ''result'' e then [e] else [])"
    and "has_phase ''begin'' e \<or> has_phase ''result'' e"
    and "distinct (map fst b) \<Longrightarrow> distinct (map fst b')"
  using assms
  by (auto simp: phase_step_def text_field_Inr begins_call_def has_phase_def distinct_dict_set
      split: if_splits)

lemma phase_steps:
  assumes "fold_result phase_step es (b, rs) = Inr (b', rs')" and "list_all text_event es"
  shows "map_of b' c = (case last_begin c es of Some e \<Rightarrow> Some e | None \<Rightarrow> map_of b c)"
    and "rs' = rs @ filter (has_phase ''result'') es"
    and "distinct (map fst b) \<Longrightarrow> distinct (map fst b')"
  using assms
proof (induction es arbitrary: b rs)
  case Nil
  { case 1 then show ?case by (simp add: last_begin_def) }
  { case 2 then show ?case by simp }
  { case 3 then show ?case by simp }
next
  case (Cons e es)
  { case 1
    then obtain b1 rs1 where s: "phase_step e (b, rs) = Inr (b1, rs1)"
        "fold_result phase_step es (b1, rs1) = Inr (b', rs')" and t: "text_event e" "list_all text_event es"
      by auto
    show ?case
      using Cons.IH(1) [OF s(2) t(2)] phase_step_Inr(1) [OF s(1) t(1), of c]
      by (simp add: last_begin_Cons split: option.splits) }
  { case 2
    then obtain b1 rs1 where s: "phase_step e (b, rs) = Inr (b1, rs1)"
        "fold_result phase_step es (b1, rs1) = Inr (b', rs')" and t: "text_event e" "list_all text_event es"
      by auto
    show ?case using Cons.IH(2) [OF s(2) t(2)] phase_step_Inr(2) [OF s(1) t(1)] by simp }
  { case 3
    then obtain b1 rs1 where s: "phase_step e (b, rs) = Inr (b1, rs1)"
        "fold_result phase_step es (b1, rs1) = Inr (b', rs')" and t: "text_event e" "list_all text_event es"
      by auto
    show ?case using Cons.IH(3) [OF _ s(2) t(2)] phase_step_Inr(4) [OF s(1) t(1) "3"(1)] by simp }
qed

lemma pop_results:
  assumes "fold_result pop_result rs b = Inr b'" and "list_all text_event rs"
    and "\<forall>e\<in>set rs. has_phase ''result'' e"
  shows "b' = filter (\<lambda>(k, _). \<not> list_ex (answers k) rs) b"
  using assms
proof (induction rs arbitrary: b)
  case (Cons e rs)
  then obtain d where d: "field ''call'' e = JStr d"
      "fold_result pop_result rs (filter (\<lambda>(k, _). k \<noteq> d) b) = Inr b'"
    by (auto simp: pop_result_def [of e] text_field_Inr)
  from Cons.prems have "has_phase ''result'' e" by simp
  with Cons.IH [OF d(2)] Cons.prems show ?case
    by (auto simp: answers_def d(1) intro!: filter_cong)
qed simp

text \<open>The open calls of a history, read declaratively.\<close>

lemma open_calls_Inr:
  assumes "open_calls es = Inr (rest, rs)" and "list_all text_event es"
  shows "distinct (map fst rest)"
    and "map_of rest c = Some e \<longleftrightarrow> last_begin c es = Some e \<and> \<not> list_ex (answers c) es"
    and "rs = filter (has_phase ''result'') es"
proof -
  from assms(1) obtain b where b: "fold_result phase_step es ([], []) = Inr (b, rs)"
      "fold_result pop_result rs b = Inr rest"
    by (auto simp: open_calls_def)
  note steps = phase_steps [OF b(1) assms(2)]
  show rs: "rs = filter (has_phase ''result'') es" using steps(2) by simp
  have "list_all text_event rs" using assms(2) by (auto simp: rs list_all_iff)
  from pop_results [OF b(2) this] have rest: "rest = filter (\<lambda>(k, _). \<not> list_ex (answers k) rs) b"
    by (simp add: rs)
  have d: "distinct (map fst b)" using steps(3) by simp
  then show "distinct (map fst rest)" by (simp add: rest distinct_map_filter)
  have "list_ex (answers c) rs = list_ex (answers c) es"
    by (auto simp: rs list_ex_iff answers_def)
  moreover have "map_of rest c = Some e \<longleftrightarrow> map_of b c = Some e \<and> \<not> list_ex (answers c) rs"
  proof -
    have "distinct (map fst rest)" using d by (simp add: rest distinct_map_filter)
    then have "map_of rest c = Some e \<longleftrightarrow> (c, e) \<in> set rest" by simp
    also have "\<dots> \<longleftrightarrow> map_of b c = Some e \<and> \<not> list_ex (answers c) rs" using d by (auto simp: rest)
    finally show ?thesis .
  qed
  ultimately show "map_of rest c = Some e \<longleftrightarrow> last_begin c es = Some e \<and> \<not> list_ex (answers c) es"
    using steps(1) [of c] by (auto split: option.splits)
qed

text \<open>An event whose creation had begun and was not answered: no later begin of the same call, no
  result of it at all.\<close>

definition open_graphics :: "json list \<Rightarrow> nat \<Rightarrow> bool" where
  "open_graphics es i \<longleftrightarrow>
     i < length es \<and> has_phase ''begin'' (es ! i) \<and> has_kind ''graphics'' (es ! i) \<and>
     (\<forall>j. i < j \<and> j < length es \<and> has_phase ''begin'' (es ! j) \<longrightarrow> field ''call'' (es ! j) \<noteq> field ''call'' (es ! i)) \<and>
     (\<forall>j<length es. has_phase ''result'' (es ! j) \<longrightarrow> field ''call'' (es ! j) \<noteq> field ''call'' (es ! i))"

lemma last_begin_Some:
  "last_begin c es = Some e \<longleftrightarrow>
     (\<exists>i<length es. es ! i = e \<and> begins_call c e \<and> (\<forall>j. i < j \<and> j < length es \<longrightarrow> \<not> begins_call c (es ! j)))"
proof (induction es)
  case (Cons a es)
  show ?case
  proof (cases "last_begin c es")
    case None
    then have none: "\<not> begins_call c x" if "x \<in> set es" for x
      using that by (auto simp: last_begin_def find_None_iff)
    have "last_begin c (a # es) = Some e \<longleftrightarrow> begins_call c a \<and> a = e"
      by (simp add: last_begin_Cons None)
    also have "\<dots> \<longleftrightarrow> (\<exists>i<length (a # es). (a # es) ! i = e \<and> begins_call c e \<and>
        (\<forall>j. i < j \<and> j < length (a # es) \<longrightarrow> \<not> begins_call c ((a # es) ! j)))" (is "_ \<longleftrightarrow> ?R")
    proof
      assume "begins_call c a \<and> a = e"
      then show ?R using none by (intro exI [of _ 0]) (auto simp: nth_Cons split: nat.splits)
    next
      assume ?R
      then obtain i where "i < length (a # es)" "(a # es) ! i = e" "begins_call c e" by blast
      then show "begins_call c a \<and> a = e" using none by (cases i) auto
    qed
    finally show ?thesis .
  next
    case (Some b)
    with Cons.IH have "b = e \<longleftrightarrow> (\<exists>i<length es. es ! i = e \<and> begins_call c e \<and>
        (\<forall>j. i < j \<and> j < length es \<longrightarrow> \<not> begins_call c (es ! j)))" by simp
    moreover obtain k where "k < length es" "begins_call c (es ! k)"
      using Some that by (auto simp: last_begin_def find_Some_iff rev_nth) (metis diff_less length_greater_0_conv list.size(3) not_less0 zero_less_Suc)
    moreover have "(\<exists>i<length (a # es). (a # es) ! i = e \<and> begins_call c e \<and>
          (\<forall>j. i < j \<and> j < length (a # es) \<longrightarrow> \<not> begins_call c ((a # es) ! j))) \<longleftrightarrow>
        (\<exists>i<length es. es ! i = e \<and> begins_call c e \<and>
          (\<forall>j. i < j \<and> j < length es \<longrightarrow> \<not> begins_call c (es ! j)))" (is "?L \<longleftrightarrow> ?R")
    proof
      assume ?L
      then obtain i where i: "i < length (a # es)" "(a # es) ! i = e" "begins_call c e"
        and later: "\<forall>j. i < j \<and> j < length (a # es) \<longrightarrow> \<not> begins_call c ((a # es) ! j)" by blast
      have "i \<noteq> 0" using later [rule_format, of "Suc k"] \<open>k < length es\<close> \<open>begins_call c (es ! k)\<close>
        by (cases "i = 0") auto
      then obtain i' where "i = Suc i'" by (cases i) auto
      moreover have "\<not> begins_call c (es ! j)" if "i' < j" "j < length es" for j
        using later [rule_format, of "Suc j"] that \<open>i = Suc i'\<close> by simp
      ultimately show ?R using i by (intro exI [of _ i']) auto
    next
      assume ?R
      then obtain i where "i < length es" "es ! i = e" "begins_call c e"
        and later: "\<forall>j. i < j \<and> j < length es \<longrightarrow> \<not> begins_call c (es ! j)" by blast
      moreover have "\<not> begins_call c ((a # es) ! j)" if "Suc i < j" "j < length (a # es)" for j
        using later that by (cases j) auto
      ultimately show ?L by (intro exI [of _ "Suc i"]) auto
    qed
    ultimately show ?thesis by (simp only: last_begin_Cons Some option.case option.inject)
  qed
qed (simp add: last_begin_def)

lemma begins_have_calls:
  "fold_result phase_step es s = Inr t \<Longrightarrow> list_all text_event es \<Longrightarrow>
   \<forall>e\<in>set es. has_phase ''begin'' e \<longrightarrow> (\<exists>c. field ''call'' e = JStr c)"
proof (induction es arbitrary: s)
  case (Cons e es)
  then obtain u where "phase_step e s = Inr u" "fold_result phase_step es u = Inr t" by auto
  with Cons show ?case
    by (cases s) (auto simp: phase_step_def text_field_Inr split: if_splits)
qed simp

lemma open_calls_graphics:
  assumes "open_calls es = Inr (rest, rs)" and "list_all text_event es"
  shows "e \<in> set (filter (has_kind ''graphics'') (map snd rest)) \<longleftrightarrow> (\<exists>i. open_graphics es i \<and> es ! i = e)"
proof -
  note rest = open_calls_Inr [OF assms]
  from assms(1) have calls: "\<forall>e\<in>set es. has_phase ''begin'' e \<longrightarrow> (\<exists>c. field ''call'' e = JStr c)"
    by (auto simp: open_calls_def dest: begins_have_calls [OF _ assms(2)])
  have "e \<in> set (map snd rest) \<longleftrightarrow> (\<exists>c. map_of rest c = Some e)"
    using rest(1) by force
  also have "\<dots> \<longleftrightarrow> (\<exists>c. last_begin c es = Some e \<and> \<not> list_ex (answers c) es)"
    by (simp only: rest(2))
  finally have mem: "e \<in> set (map snd rest) \<longleftrightarrow> (\<exists>c. last_begin c es = Some e \<and> \<not> list_ex (answers c) es)" .
  show ?thesis
  proof
    assume "e \<in> set (filter (has_kind ''graphics'') (map snd rest))"
    then obtain c i where "i < length es" "es ! i = e" "begins_call c e"
      "\<forall>j. i < j \<and> j < length es \<longrightarrow> \<not> begins_call c (es ! j)" "\<not> list_ex (answers c) es"
      "has_kind ''graphics'' e"
      using mem by (auto simp: last_begin_Some)
    then have "open_graphics es i"
      by (auto simp: open_graphics_def begins_call_def answers_def list_ex_iff)
    with \<open>es ! i = e\<close> show "\<exists>i. open_graphics es i \<and> es ! i = e" by blast
  next
    assume "\<exists>i. open_graphics es i \<and> es ! i = e"
    then obtain i where i: "open_graphics es i" "es ! i = e" by blast
    then obtain c where c: "field ''call'' e = JStr c"
      using calls by (auto simp: open_graphics_def)
    have "last_begin c es = Some e"
      using i c by (auto simp: last_begin_Some open_graphics_def begins_call_def)
    moreover have "\<not> list_ex (answers c) es"
      using i c by (auto simp: open_graphics_def answers_def list_ex_iff in_set_conv_nth)
    ultimately show "e \<in> set (filter (has_kind ''graphics'') (map snd rest))"
      using i mem by (auto simp: open_graphics_def)
  qed
qed

section \<open>Reading\<close>

lemma map_of_text_object: "map_of (text_object d) k = map_option JStr (map_of d k)"
  by (simp add: text_object_def map_of_map)

lemma read_event_text: "read_event l = Inr e \<Longrightarrow> text_event e"
  by (auto simp: read_event_def with_stages_def text_event_def has_field_def map_of_text_object)

lemma read_history_text:
  "fold_result read_history_line ls h = Inr h' \<Longrightarrow> list_all text_event (hist_events h) \<Longrightarrow>
   list_all text_event (hist_events h')"
proof (induction ls arbitrary: h)
  case (Cons l ls)
  then obtain u where u: "read_history_line l h = Inr u" "fold_result read_history_line ls u = Inr h'"
    by auto
  from u(1) Cons.prems(2) have "list_all text_event (hist_events u)"
    by (auto simp: read_history_line_def add_state_def add_module_def Let_def read_event_text split: if_splits)
  with Cons.IH u(2) show ?case by blast
qed simp

lemma in_sequence_nth:
  "in_sequence n es = Inr True \<Longrightarrow> i < length es \<Longrightarrow> number_field ''event'' (es ! i) = Inr (n + int i)"
proof (induction n es arbitrary: i rule: in_sequence.induct)
  case (2 n e es)
  then show ?case by (cases i) (auto split: if_splits)
qed simp

lemma unmatched_item_number:
  "unmatched_item h e = Inr u \<Longrightarrow> \<exists>n. number_field ''event'' e = Inr n \<and> field ''event'' u = JInt n"
  by (auto simp: unmatched_item_def)

section \<open>Properties\<close>

text \<open>C28: the analysis reports exactly the graphics pipelines whose creation was still running: the
  retained events are numbered without a gap, and an event is listed as unmatched if and only if it
  begins a graphics pipeline, its call is not begun again later and has no result.\<close>

theorem unmatched_graphics_are_unanswered:
  assumes "analyze_lines ls target = Inr r"
  shows "\<exists>h first. fold_result read_history_line ls empty_history = Inr h \<and>
    (\<forall>i<length (hist_events h). number_field ''event'' (hist_events h ! i) = Inr (first + int i)) \<and>
    field ''event_count'' r = JInt (int (length (hist_events h))) \<and>
    int (length (hist_events h)) \<le> max_events \<and>
    field ''event'' ` set (list_items (field ''unmatched_graphics'' r))
      = {JInt (first + int i) | i. open_graphics (hist_events h) i}"
proof -
  from assms obtain first h trigger where h: "fold_result read_history_line ls empty_history = Inr h"
      "in_sequence first (hist_events h) = Inr True" "int (length (hist_events h)) \<le> max_events"
    and r: "history_report h target trigger = Inr r"
    by (auto simp: analyze_lines_def check_sequence_def split: if_splits)
  from r obtain rest rs us where rest: "open_calls (hist_events h) = Inr (rest, rs)"
    and us: "map_result (unmatched_item h) (filter (has_kind ''graphics'') (map snd rest)) = Inr us"
    and items: "field ''unmatched_graphics'' r = JList (sort_key event_number us)"
      "field ''event_count'' r = JInt (int (length (hist_events h)))"
    by (auto simp: history_report_def Let_def split: if_splits)
  have plain: "list_all text_event (hist_events h)"
    using read_history_text [OF h(1)] by (simp add: empty_history_def)
  note numbers = in_sequence_nth [OF h(2)]
  let ?es = "filter (has_kind ''graphics'') (map snd rest)"
  have "field ''event'' ` set us = {JInt n | n. \<exists>e\<in>set ?es. number_field ''event'' e = Inr n}"
    using us [unfolded map_result_Inr_iff]
  proof (induction rule: list_all2_induct)
    case (Cons e es u us)
    then show ?case using unmatched_item_number [OF Cons(1)] by auto
  qed simp
  also have "\<dots> = {JInt (first + int i) | i. open_graphics (hist_events h) i}"
    unfolding Bex_def open_calls_graphics [OF rest plain]
    using numbers by (auto simp: open_graphics_def)
  finally show ?thesis using h items numbers by auto
qed

definition small_history :: "string list" where
  "small_history =
     [''schema=1'', ''phase=before_compute_create target=t first_sequence=3 last_sequence=5 dropped=2'',
      ''event=3 phase=begin kind=graphics call=7 thread=1 cache=c layout=l render_pass=p flags=0 stage0=1,m,e'',
      ''event=4 phase=begin kind=graphics call=8 thread=1 cache=c layout=l render_pass=p flags=0 stage0=1,m,e'',
      ''event=5 phase=result call=7 thread=1 cache=c'', ''module=m hash=x'', ''end=1'']"

lemma small_history_accepted:
  "\<exists>r. analyze_lines small_history ''t'' = Inr r \<and>
     map (field ''event'') (list_items (field ''unmatched_graphics'' r)) = [JInt 4]"
proof -
  have "(case analyze_lines small_history ''t'' of
      Inl _ \<Rightarrow> False
    | Inr r \<Rightarrow> map (field ''event'') (list_items (field ''unmatched_graphics'' r)) = [JInt 4])"
    by code_simp
  then show ?thesis by (cases "analyze_lines small_history ''t''") auto
qed

lemma unmatched_graphics_are_unanswered_witness:
  "\<exists>r (h :: history) first. analyze_lines small_history ''t'' = Inr r \<and>
     map (field ''event'') (list_items (field ''unmatched_graphics'' r)) = [JInt 4] \<and>
     {JInt 4} = {JInt (first + int i) | i. open_graphics (hist_events h) i}"
proof -
  from small_history_accepted obtain r where r: "analyze_lines small_history ''t'' = Inr r"
    and items: "map (field ''event'') (list_items (field ''unmatched_graphics'' r)) = [JInt 4]"
    by (elim exE conjE)
  obtain h :: history and first where
    "fold_result read_history_line small_history empty_history = Inr h"
    "\<forall>i<length (hist_events h). number_field ''event'' (hist_events h ! i) = Inr (first + int i)"
    "field ''event_count'' r = JInt (int (length (hist_events h)))"
    "int (length (hist_events h)) \<le> max_events"
    and numbers: "field ''event'' ` set (list_items (field ''unmatched_graphics'' r))
        = {JInt (first + int i) | i. open_graphics (hist_events h) i}"
    using unmatched_graphics_are_unanswered [OF r] by (elim exE conjE)
  have "{JInt 4} = set (map (field ''event'') (list_items (field ''unmatched_graphics'' r)))"
    unfolding items by simp
  then have "{JInt 4} = {JInt (first + int i) | i. open_graphics (hist_events h) i}"
    by (simp only: set_map numbers)
  with r items show ?thesis by (intro exI conjI)
qed

end
