(* ===== verification/DeviceSnapshotFacts.thy ===== *)
theory DeviceSnapshotFacts
  imports DeviceSnapshot JsonRoundtrip
begin

text \<open>
  What the device validator promises: \<open>device_ok\<close> on every input, nothing else. The locale
  \<open>strict_validator\<close> is the contract the other tools rely on when they call a validator on a loaded
  file; the device validator is interpreted in it.
\<close>

section \<open>The declarative reading\<close>

definition extension_list_ok :: "json \<Rightarrow> json \<Rightarrow> bool" where
  "extension_list_ok v count \<longleftrightarrow>
     (\<exists>names. v = JList (map JStr names) \<and> count = JInt (int (length names)) \<and> length names \<le> 128 \<and>
        list_all vk_name names \<and> distinct names)"

definition flags_ok :: "json \<Rightarrow> string list \<Rightarrow> bool" where
  "flags_ok v names \<longleftrightarrow>
     (\<exists>d. v = JObj d \<and> set (map fst d) = set names \<and> list_all (\<lambda>(_, flag). is_bool flag) d)"

definition instance_ok :: "json \<Rightarrow> bool" where
  "instance_ok instance \<longleftrightarrow>
     (\<exists>version. field ''api_version'' instance = JInt version \<and> 4206592 \<le> version \<and> version < 8388608) \<and>
     field ''flags'' instance = JInt 0 \<and> field ''pnext_empty'' instance = JBool True \<and>
     field ''layer_count'' instance = JInt 0 \<and>
     extension_list_ok (field ''extensions'' instance) (field ''extension_count'' instance)"

definition stype_of :: "json \<Rightarrow> int" where
  "stype_of node = int_of (field ''sType'' node)"

definition node_ok :: "json \<Rightarrow> bool" where
  "node_ok node \<longleftrightarrow>
     (\<exists>stype name names. field ''sType'' node = JInt stype \<and> lookup_struct stype = Some (name, names) \<and>
        field ''type'' node = JStr name \<and> flags_ok (field ''features'' node) names)"

definition priority_in_range :: "json \<Rightarrow> bool" where
  "priority_in_range p \<longleftrightarrow>
     is_number p \<and> float_val (num_float p) \<noteq> None \<and> num_le (JInt 0) p \<and> num_le p (JInt 1)"

definition family_of :: "json \<Rightarrow> int" where
  "family_of queue = int_of (field ''queueFamilyIndex'' queue)"

definition queue_ok :: "json \<Rightarrow> bool" where
  "queue_ok queue \<longleftrightarrow>
     (\<exists>family ps. field ''queueFamilyIndex'' queue = JInt family \<and> 0 \<le> family \<and> family < 64 \<and>
        field ''priorities'' queue = JList ps \<and> field ''queueCount'' queue = JInt (int (length ps)) \<and>
        1 \<le> length ps \<and> length ps \<le> 64 \<and> list_all priority_in_range ps) \<and>
     field ''flags'' queue = JInt 0 \<and> field ''pnext_empty'' queue = JBool True"

definition device_ok :: "json \<Rightarrow> bool" where
  "device_ok s \<longleftrightarrow>
     field ''schema_version'' s = JInt 2 \<and> field ''capture_complete'' s = JBool True \<and>
     field ''capture_errors'' s = JList [] \<and>
     field ''capture_point'' s = JStr ''vkCreateDevice:entry'' \<and>
     instance_ok (field ''instance'' s) \<and>
     field ''flags'' s = JInt 0 \<and> field ''layer_count'' s = JInt 0 \<and>
     extension_list_ok (field ''device_extensions'' s) (field ''device_extension_count'' s) \<and>
     flags_ok (field ''enabled_core_features'' s) core_fields \<and>
     (\<exists>chain. field ''feature_chain'' s = JList chain \<and> length chain \<le> 64 \<and>
        list_all node_ok chain \<and> distinct (map stype_of chain)) \<and>
     field ''pnext_terminated'' s = JBool True \<and>
     (\<exists>queues. field ''queue_create_infos'' s = JList queues \<and> 1 \<le> length queues \<and> length queues \<le> 16 \<and>
        list_all queue_ok queues \<and> distinct (map family_of queues))"

lemma field_is_obj: "field k v \<noteq> JNull \<Longrightarrow> is_obj v"
  by (cases v) (simp_all add: field_def)

lemma map_JStr: "list_all (\<lambda>v. is_str v \<and> P (str_of v)) xs \<longleftrightarrow>
    (\<exists>names. xs = map JStr names \<and> list_all P names)"
proof
  assume "list_all (\<lambda>v. is_str v \<and> P (str_of v)) xs"
  then have "xs = map JStr (map str_of xs) \<and> list_all P (map str_of xs)"
    by (induction xs) (auto simp: is_str_iff)
  then show "\<exists>names. xs = map JStr names \<and> list_all P names" by blast
qed (auto simp: list_all_iff)

lemma extensions_Inr: "extensions v count label = Inr () \<longleftrightarrow> extension_list_ok v count"
proof
  assume "extensions v count label = Inr ()"
  then obtain xs where v: "v = JList xs" and n: "count = JInt (int (length xs))" "length xs \<le> 128"
    and names: "list_all (\<lambda>name. is_str name \<and> vk_name (str_of name)) xs" "distinct (map str_of xs)"
    by (auto simp: extensions_def int_in_iff is_list_iff)
  from names(1) [unfolded map_JStr] obtain ns where "xs = map JStr ns" "list_all vk_name ns" by blast
  with v n names(2) show "extension_list_ok v count"
    by (auto simp: extension_list_ok_def comp_def)
next
  assume "extension_list_ok v count"
  then show "extensions v count label = Inr ()"
    by (auto simp: extension_list_ok_def extensions_def int_in_iff list_all_iff comp_def)
qed

lemma bool_fields_Inr: "bool_fields v names label = Inr () \<longleftrightarrow> flags_ok v names"
  by (cases v) (simp_all add: bool_fields_def flags_ok_def same_set_def obj_keys_def)

lemma check_instance_Inr: "check_instance instance = Inr () \<longleftrightarrow> instance_ok instance"
proof -
  have "is_obj instance" if "field ''flags'' instance = JInt 0"
    using field_is_obj [of "''flags''" "instance"] that by simp
  then show ?thesis
    by (auto simp: check_instance_def instance_ok_def int_in_iff extensions_Inr)
qed

lemma chain_node_Inr:
  "chain_node node seen = Inr t \<longleftrightarrow>
     node_ok node \<and> stype_of node \<notin> set seen \<and> t = stype_of node # seen"
proof -
  have "is_obj node" if "is_int (field ''sType'' node)"
    using field_is_obj [of "''sType''" node] that by (force simp: is_int_iff)
  then show ?thesis
    by (auto simp: chain_node_def node_ok_def stype_of_def Let_def bool_fields_Inr is_int_iff
        split: option.splits)
qed

lemma priority_ok_True: "priority_ok p = Inr True \<longleftrightarrow> priority_in_range p"
  by (cases p)
    (auto simp: priority_ok_def priority_in_range_def is_number_def is_finite_number_def is_finite_def)

lemma priorities_Inr:
  "(if is_list ps \<and> int (length (list_items ps)) = n then all_result priority_ok (list_items ps)
      else Inr False) = Inr True \<longleftrightarrow>
   (\<exists>xs. ps = JList xs \<and> int (length xs) = n \<and> list_all priority_in_range xs)"
  by (cases ps) (simp_all add: all_result_True priority_ok_True list_all_iff)

lemma check_queue_Inr:
  "check_queue queue seen = Inr t \<longleftrightarrow>
     queue_ok queue \<and> family_of queue \<notin> set seen \<and> t = family_of queue # seen"
proof -
  have obj: "is_obj queue" if "field ''flags'' queue = JInt 0"
    using field_is_obj [of "''flags''" queue] that by simp
  define F where "F = field ''queueFamilyIndex'' queue"
  define N where "N = field ''queueCount'' queue"
  define P where "P = field ''priorities'' queue"
  have step: "check_queue queue seen = Inr t \<longleftrightarrow>
    int_in F 0 63 \<and> int_of F \<notin> set seen \<and> int_in N 1 64 \<and> field ''flags'' queue = JInt 0 \<and>
    field ''pnext_empty'' queue = JBool True \<and>
    (\<exists>xs. P = JList xs \<and> int (length xs) = int_of N \<and> list_all priority_in_range xs) \<and>
    t = int_of F # seen"
    unfolding check_queue_def Let_def F_def [symmetric] N_def [symmetric] P_def [symmetric]
      priorities_Inr [symmetric]
    using obj by auto
  show ?thesis
  proof
    assume "check_queue queue seen = Inr t"
    with step obtain f xs where "F = JInt f" "0 \<le> f" "f < 64" "f \<notin> set seen" "P = JList xs"
      "N = JInt (int (length xs))" "1 \<le> length xs" "length xs \<le> 64" "list_all priority_in_range xs"
      "field ''flags'' queue = JInt 0" "field ''pnext_empty'' queue = JBool True" "t = f # seen"
      by (auto simp: int_in_iff)
    then show "queue_ok queue \<and> family_of queue \<notin> set seen \<and> t = family_of queue # seen"
      by (auto simp: queue_ok_def family_of_def F_def N_def P_def)
  next
    assume "queue_ok queue \<and> family_of queue \<notin> set seen \<and> t = family_of queue # seen"
    then show "check_queue queue seen = Inr t"
      unfolding step queue_ok_def family_of_def F_def [symmetric] N_def [symmetric] P_def [symmetric]
      by (auto simp: int_in_iff)
  qed
qed

lemma validate_Inr: "validate state = Inr s \<longleftrightarrow> s = state \<and> device_ok state"
proof -
  have obj: "is_obj state" if "field ''flags'' state = JInt 0"
    using field_is_obj [of "''flags''" state] that by simp
  have chain: "(\<exists>t. fold_result chain_node xs [] = Inr t) \<longleftrightarrow> list_all node_ok xs \<and> distinct (map stype_of xs)"
    for xs using fold_seen [of chain_node node_ok stype_of xs "[]"] chain_node_Inr by simp
  have queues: "(\<exists>t. fold_result check_queue xs [] = Inr t) \<longleftrightarrow> list_all queue_ok xs \<and> distinct (map family_of xs)"
    for xs using fold_seen [of check_queue queue_ok family_of xs "[]"] check_queue_Inr by simp
  have lists: "is_list v \<and> P (list_items v) \<longleftrightarrow> (\<exists>xs. v = JList xs \<and> P xs)" for v P
    by (cases v) auto
  define C where "C = field ''feature_chain'' state"
  define Q where "Q = field ''queue_create_infos'' state"
  have "validate state = Inr s \<longleftrightarrow>
    s = state \<and> is_obj state \<and> field ''schema_version'' state = JInt 2 \<and>
    field ''capture_complete'' state = JBool True \<and> field ''capture_errors'' state = JList [] \<and>
    field ''capture_point'' state = JStr ''vkCreateDevice:entry'' \<and>
    instance_ok (field ''instance'' state) \<and> field ''flags'' state = JInt 0 \<and>
    field ''layer_count'' state = JInt 0 \<and>
    extension_list_ok (field ''device_extensions'' state) (field ''device_extension_count'' state) \<and>
    flags_ok (field ''enabled_core_features'' state) core_fields \<and>
    (is_list C \<and> length (list_items C) \<le> 64 \<and> (\<exists>t. fold_result chain_node (list_items C) [] = Inr t)) \<and>
    field ''pnext_terminated'' state = JBool True \<and>
    (is_list Q \<and> 1 \<le> length (list_items Q) \<and> length (list_items Q) \<le> 16 \<and>
      (\<exists>t. fold_result check_queue (list_items Q) [] = Inr t))"
    unfolding validate_def Let_def C_def [symmetric] Q_def [symmetric]
    by (auto simp: check_instance_Inr extensions_Inr bool_fields_Inr)
  also have "\<dots> \<longleftrightarrow> s = state \<and> device_ok state"
    unfolding device_ok_def C_def [symmetric] Q_def [symmetric] chain queues
    using obj lists [of C "\<lambda>xs. length xs \<le> 64 \<and> list_all node_ok xs \<and> distinct (map stype_of xs)"]
      lists [of Q "\<lambda>xs. 1 \<le> length xs \<and> length xs \<le> 16 \<and> list_all queue_ok xs \<and> distinct (map family_of xs)"]
    by blast
  finally show ?thesis .
qed

section \<open>The contract of a validator\<close>

locale strict_validator =
  fixes check :: "json \<Rightarrow> json result" and good :: "json \<Rightarrow> bool"
  assumes check_iff: "check v = Inr w \<longleftrightarrow> w = v \<and> good v"
begin

lemma accepts_iff: "(\<exists>w. check v = Inr w) \<longleftrightarrow> good v"
  by (auto simp: check_iff)

lemma idempotent: "check v = Inr w \<Longrightarrow> check w = Inr w"
  by (simp add: check_iff)

lemma loaded_iff:
  "bind_result r check = Inr w \<longleftrightarrow> r = Inr w \<and> good w"
  by (auto simp: check_iff)

lemma rejects: "\<not> good v \<Longrightarrow> \<exists>e. check v = Inl e"
  by (cases "check v") (auto simp: check_iff)

end

interpretation device: strict_validator validate device_ok
  by unfold_locales (rule validate_Inr)

section \<open>The header\<close>

lemma escape_vk: "vk_name s \<Longrightarrow> encode_str s = quote_mark @ s @ quote_mark"
  using vk_name_chars plain_escape by (simp add: encode_str_def quote_mark_def)

lemma strings_plain:
  assumes "extension_list_ok v count"
  shows "strings v = (case list_items v of [] \<Rightarrow> ''NULL''
    | xs \<Rightarrow> join_with '', '' (map (\<lambda>n. quote_mark @ str_of n @ quote_mark) xs))"
proof -
  from assms obtain names where v: "v = JList (map JStr names)" and vk: "list_all vk_name names"
    by (auto simp: extension_list_ok_def)
  have eq: "map (\<lambda>n. encode_str (str_of n)) (map JStr names)
      = map (\<lambda>n. quote_mark @ str_of n @ quote_mark) (map JStr names)"
    using vk by (induction names) (auto simp: escape_vk)
  have ne: "join_with '', '' (map (\<lambda>n. quote_mark @ str_of n @ quote_mark) (x # xs)) \<noteq> []" for x xs
    by (cases xs) (simp_all add: quote_mark_def)
  show ?thesis
  proof (cases names)
    case Nil then show ?thesis by (simp add: strings_def v)
  next
    case (Cons a names')
    with ne [of "JStr a" "map JStr names'"] show ?thesis
      unfolding strings_def v list_items.simps eq by (simp add: Let_def)
  qed
qed

lemma generate_header_Inr:
  "generate_header h state c = Inr out \<longleftrightarrow>
     device_ok state \<and>
     (\<exists>d. (if c = JNull then d = sha256 h (compact state) else c = JStr d) \<and> sha256_shape d \<and>
        out = text_lines (header_lines state d) @ [newline_char])"
  by (cases c) (auto simp: generate_header_def Let_def validate_Inr)

lemma check_line_in_header:
  "x \<in> set (feature_checks state) \<Longrightarrow> check_line x \<in> set (header_lines state d)"
  by (simp add: header_lines_def Let_def)

section \<open>Properties\<close>

text \<open>C6: the device validator returns its input unchanged, exactly when the input satisfies the
  declarative schema: typed capture flags, distinct well-formed extension names in the counted number,
  known feature structures met at most once with every field a boolean, and distinct queue families
  with as many priorities in the unit interval as queues.\<close>

theorem device_validator_decides: "validate state = Inr s \<longleftrightarrow> s = state \<and> device_ok state"
  by (rule validate_Inr)

text \<open>Every feature the captured device had enabled is tested for in the generated header, the
  core ones and those of each structure of the chain, and extension names are written between quotes
  without any escape: no captured name can leave its C string.\<close>

theorem header_checks_every_feature:
  assumes "generate_header h state c = Inr out"
  shows "\<exists>ls. out = text_lines ls @ [newline_char] \<and>
    (\<forall>k\<in>set (enabled (field ''enabled_core_features'' state)).
       check_line (''supported.features.'' @ k, k) \<in> set ls) \<and>
    (\<forall>i<length (list_items (field ''feature_chain'' state)).
       let node = list_items (field ''feature_chain'' state) ! i in
       \<forall>k\<in>set (enabled (field ''features'' node)).
         check_line (''supported_node_'' @ show_nat i @ ''.'' @ k,
           str_json (field ''type'' node) @ ''.'' @ k) \<in> set ls) \<and>
    strings (field ''device_extensions'' state) =
      (case list_items (field ''device_extensions'' state) of [] \<Rightarrow> ''NULL''
       | xs \<Rightarrow> join_with '', '' (map (\<lambda>n. quote_mark @ str_of n @ quote_mark) xs))"
proof -
  from assms obtain d where ok: "device_ok state" and out: "out = text_lines (header_lines state d) @ [newline_char]"
    by (auto simp: generate_header_Inr)
  let ?chain = "list_items (field ''feature_chain'' state)"
  have core: "check_line (''supported.features.'' @ k, k) \<in> set (header_lines state d)"
    if "k \<in> set (enabled (field ''enabled_core_features'' state))" for k
    by (rule check_line_in_header) (use that in \<open>simp add: feature_checks_def\<close>)
  have node: "check_line (''supported_node_'' @ show_nat i @ ''.'' @ k,
      str_json (field ''type'' (?chain ! i)) @ ''.'' @ k) \<in> set (header_lines state d)"
    if "i < length ?chain" "k \<in> set (enabled (field ''features'' (?chain ! i)))" for i k
  proof (rule check_line_in_header)
    have "(i, ?chain ! i) \<in> set (enumerate 0 ?chain)"
      using that(1) by (simp add: in_set_enumerate_eq)
    with that(2) show "(''supported_node_'' @ show_nat i @ ''.'' @ k,
        str_json (field ''type'' (?chain ! i)) @ ''.'' @ k) \<in> set (feature_checks state)"
      unfolding feature_checks_def by fastforce
  qed
  have "strings (field ''device_extensions'' state) =
      (case list_items (field ''device_extensions'' state) of [] \<Rightarrow> ''NULL''
       | xs \<Rightarrow> join_with '', '' (map (\<lambda>n. quote_mark @ str_of n @ quote_mark) xs))"
    by (rule strings_plain [where count = "field ''device_extension_count'' state"])
      (use ok in \<open>simp add: device_ok_def\<close>)
  with core node out show ?thesis by (intro exI [of _ "header_lines state d"]) (simp add: Let_def)
qed

definition plain_host :: host where
  "plain_host = \<lparr>sha256 = (\<lambda>_. replicate 64 (CHR ''a'')), iso_offset = (\<lambda>_. None), cwd = []\<rparr>"

definition small_device :: json where
  "small_device = JObj
     [(''schema_version'', JInt 2), (''capture_complete'', JBool True), (''capture_errors'', JList []),
      (''capture_point'', JStr ''vkCreateDevice:entry''),
      (''instance'', JObj [(''api_version'', JInt 4206592), (''flags'', JInt 0), (''pnext_empty'', JBool True),
         (''layer_count'', JInt 0), (''extensions'', JList []), (''extension_count'', JInt 0)]),
      (''flags'', JInt 0), (''layer_count'', JInt 0),
      (''device_extensions'', JList [JStr ''VK_KHR_swapchain'']), (''device_extension_count'', JInt 1),
      (''enabled_core_features'', JObj (map (\<lambda>k. (k, JBool True)) core_fields)),
      (''feature_chain'', JList [JObj [(''sType'', JInt 1000207000),
         (''type'', JStr ''VkPhysicalDeviceTimelineSemaphoreFeatures''),
         (''features'', JObj [(''timelineSemaphore'', JBool True)])]]),
      (''pnext_terminated'', JBool True),
      (''queue_create_infos'', JList [JObj [(''queueFamilyIndex'', JInt 0), (''queueCount'', JInt 1),
         (''flags'', JInt 0), (''pnext_empty'', JBool True), (''priorities'', JList [JFloat (Fin 1)])]])]"

lemma small_device_valid: "validate small_device = Inr small_device"
  by code_simp

lemma header_checks_every_feature_witness:
  "\<exists>ls. generate_header plain_host small_device (JStr (replicate 64 (CHR ''a'')))
      = Inr (text_lines ls @ [newline_char]) \<and>
    check_line (''supported_node_0.timelineSemaphore'',
      ''VkPhysicalDeviceTimelineSemaphoreFeatures.timelineSemaphore'') \<in> set ls"
proof -
  let ?d = "replicate 64 (CHR ''a'')"
  have "device_ok small_device" using small_device_valid by (simp add: validate_Inr)
  moreover have "sha256_shape ?d" by code_simp
  ultimately have run: "generate_header plain_host small_device (JStr ?d)
      = Inr (text_lines (header_lines small_device ?d) @ [newline_char])"
    by (simp add: generate_header_Inr)
  have chain: "list_items (field ''feature_chain'' small_device) = [JObj [(''sType'', JInt 1000207000),
         (''type'', JStr ''VkPhysicalDeviceTimelineSemaphoreFeatures''),
         (''features'', JObj [(''timelineSemaphore'', JBool True)])]]"
    by (simp add: small_device_def)
  have zero: "show_nat 0 = ''0''" by code_simp
  from header_checks_every_feature [OF run] obtain ls where
    eq: "text_lines (header_lines small_device ?d) @ [newline_char] = text_lines ls @ [newline_char]"
    and all: "\<forall>i<1. let node = list_items (field ''feature_chain'' small_device) ! i in
       \<forall>k\<in>set (enabled (field ''features'' node)).
         check_line (''supported_node_'' @ show_nat i @ ''.'' @ k,
           str_json (field ''type'' node) @ ''.'' @ k) \<in> set ls"
    by (auto simp: chain)
  from all have "check_line (''supported_node_0.timelineSemaphore'',
      ''VkPhysicalDeviceTimelineSemaphoreFeatures.timelineSemaphore'') \<in> set ls"
    by (simp add: chain enabled_def zero)
  with run eq show ?thesis by auto
qed

end
