(* ===== verification/PipelineSnapshot.thy ===== *)
theory PipelineSnapshot
  imports DeviceSnapshotFacts Effects
begin

text \<open>
  \<open>scripts/carla/vulkan_pipeline_snapshot.py\<close>: the validator of a captured compute pipeline call, of
  the files it refers to and of the intervention it records, and the layout text made from it. The
  device snapshot beside it is checked through the contract of the device validator.
\<close>

unbundle bit_operations_syntax

section \<open>Pieces\<close>

definition descriptors :: "(int \<times> string) list" where
  "descriptors =
     [(0, ''sampler''), (1, ''combined_image_sampler''), (2, ''sampled_image''), (3, ''storage_image''),
      (4, ''uniform_texel_buffer''), (5, ''storage_texel_buffer''), (6, ''uniform_buffer''),
      (7, ''storage_buffer''), (8, ''uniform_buffer_dynamic''), (9, ''storage_buffer_dynamic''),
      (10, ''input_attachment'')]"

definition allocator_fields :: "string list" where
  "allocator_fields =
     [''pfnAllocation'', ''pfnReallocation'', ''pfnFree'', ''pfnInternalAllocation'', ''pfnInternalFree'']"

definition integer_in :: "json \<Rightarrow> int \<Rightarrow> int \<Rightarrow> string \<Rightarrow> unit result" where
  "integer_in v lo hi label = require (int_in v lo hi) (''invalid '' @ label)"

definition address_ok :: "json \<Rightarrow> bool" where
  "address_ok v \<longleftrightarrow> is_str v \<and> is_address (str_of v)"

definition address :: "json \<Rightarrow> int result" where
  "address v = req (address_ok v) ''invalid pointer address'' (Inr (address_value (str_of v)))"

definition callback_address :: "json \<Rightarrow> string \<Rightarrow> int result" where
  "callback_address functions name =
     (let function = field name functions in
      req (is_obj function \<and> (field ''symbol'' function = JNull \<or> is_str (field ''symbol'' function)))
        ''invalid allocation callback symbol'' (address (field ''address'' function)))"

definition validate_allocator :: "json \<Rightarrow> unit result" where
  "validate_allocator v =
     req (is_obj v \<and> is_bool (field ''is_null'' v)) ''incomplete allocation callbacks''
     (bind_result (address (field ''address'' v)) (\<lambda>pointer.
        if bool_of (field ''is_null'' v) then
          require (pointer = 0 \<and> same_set (obj_keys v) [''is_null'', ''address''])
            ''nonempty null allocation callbacks''
        else
          req (0 < pointer) ''null allocation callback structure''
          (bind_result (address (field ''user_data'' v)) (\<lambda>_.
           let functions = field ''functions'' v in
           req (is_obj functions \<and> same_set (obj_keys functions) allocator_fields)
             ''incomplete allocation callback functions''
           (bind_result (map_result (callback_address functions) allocator_fields) (\<lambda>ps.
              require (list_all (\<lambda>p. p \<noteq> 0) (take 3 ps) \<and> (ps ! 3 \<noteq> 0) = (ps ! 4 \<noteq> 0))
                ''missing required allocation callbacks or mismatched notification pair''))))))"

section \<open>Interventions\<close>

definition intervention_of :: "json \<Rightarrow> json" where
  "intervention_of state = field_or ''intervention'' (JStr ''none'') state"

definition is_null_of :: "json \<Rightarrow> bool" where
  "is_null_of allocator = bool_of (field ''is_null'' allocator)"

definition same_allocator :: "json \<Rightarrow> bool" where
  "same_allocator call \<longleftrightarrow> py_eq (field ''submitted_allocator'' call) (field ''allocator'' call)"

definition same_cache :: "json \<Rightarrow> bool" where
  "same_cache call \<longleftrightarrow> py_eq (field ''submitted_cache_handle'' call) (field ''cache_handle'' call)"

definition applied :: "json \<Rightarrow> bool" where
  "applied call = bool_of (field ''intervention_applied'' call)"

definition validate_intervention :: "json \<Rightarrow> json \<Rightarrow> bool \<Rightarrow> unit result" where
  "validate_intervention state call allow =
     (let intervention = intervention_of state in
      req (intervention \<in> {JStr ''none'', JStr ''allocator-null'', JStr ''cache-null''})
        ''unknown target intervention''
      (req (intervention = JStr ''none'' \<or> allow) ''intervened captures are not unmodified replay inputs''
      (if \<not> has_field ''allocator'' call then
         require (intervention = JStr ''none'') ''intervention lacks original allocator capture''
       else
         bind_result (validate_allocator (field ''allocator'' call)) (\<lambda>_.
         req (py_eq (field ''intervention'' call) intervention) ''target intervention differs from run''
         (bind_result (validate_allocator (field ''submitted_allocator'' call)) (\<lambda>_.
         req (is_bool (field ''intervention_applied'' call)) ''missing applied intervention state''
         (if intervention = JStr ''allocator-null'' then
            require (field ''mode'' state = JStr ''observe'' \<and> is_null_of (field ''submitted_allocator'' call) \<and>
                same_cache call \<and> applied call = (\<not> is_null_of (field ''allocator'' call)))
              ''allocator intervention changed unexpected inputs''
          else if intervention = JStr ''cache-null'' then
            require (field ''mode'' state = JStr ''observe'' \<and>
                field ''submitted_cache_handle'' call = JStr ''0x0'' \<and> same_allocator call \<and> applied call)
              ''cache intervention changed unexpected inputs''
          else
            require (same_cache call \<and> same_allocator call \<and> \<not> applied call)
              ''unmodified capture contains changed inputs'')))))))"

section \<open>Files\<close>

definition checked_blob ::
  "host \<Rightarrow> fs \<Rightarrow> path \<Rightarrow> json \<Rightarrow> int \<Rightarrow> string \<Rightarrow> path result"
where
  "checked_blob h f dir blob maximum label =
     req (is_obj blob) (''missing '' @ label)
     (req (is_str (field ''file'' blob) \<and> file_name_ok (str_of (field ''file'' blob)))
       (''unsafe '' @ label @ '' filename'')
     (bind_result (integer_in (field ''bytes'' blob) 0 maximum (label @ '' byte count'')) (\<lambda>_.
      let p = dir @ [str_of (field ''file'' blob)]; n = int_of (field ''bytes'' blob) in
      req (is_file f p \<and> \<not> is_link f p) (''missing regular '' @ label @ '' file'')
      (req (file_size f p = n) (label @ '' size/hash mismatch'')
      (bind_result (read_bytes f p) (\<lambda>b.
       req (int (length b) = n \<and> field ''sha256'' blob = JStr (sha256 h b)) (label @ '' size/hash mismatch'')
         (Inr p)))))))"

section \<open>The call\<close>

definition max_shader :: int where "max_shader = 16777216"
definition max_cache :: int where "max_cache = 67108864"

definition binding_step :: "json \<Rightarrow> int list \<Rightarrow> int list result" where
  "binding_step binding seen =
     (let number = field ''binding'' binding in
      req (is_obj binding) ''invalid binding''
      (bind_result (integer_in number 0 63 ''binding number'') (\<lambda>_.
      req (int_of number \<notin> set seen) ''duplicate binding''
      (bind_result (integer_in (field ''descriptor_type'' binding) 0 10 ''descriptor type'') (\<lambda>_.
      bind_result (integer_in (field ''count'' binding) 1 1024 ''descriptor count'') (\<lambda>_.
      req (py_eq (field ''stage_flags'' binding) (JInt 32) \<and> field ''immutable_samplers'' binding = JList [])
        ''unsupported stage visibility or immutable sampler'' (Inr (int_of number # seen))))))))"

definition check_set :: "json \<Rightarrow> unit result" where
  "check_set item =
     (let bindings = field ''bindings'' item in
      req (is_obj item \<and> field ''flags'' item = JInt 0) ''unsupported descriptor layout flags''
      (req (is_list bindings \<and> 1 \<le> length (list_items bindings) \<and> length (list_items bindings) \<le> 64)
        ''invalid binding count''
      (bind_result (fold_result binding_step (list_items bindings) []) (\<lambda>_. Inr ()))))"

definition handle_ok :: "json \<Rightarrow> string \<Rightarrow> unit result" where
  "handle_ok call name =
     require (address_ok (field name call) \<and> 0 < address_value (str_of (field name call)))
       (''unobserved '' @ name)"

definition grounded :: "json \<Rightarrow> json \<Rightarrow> bool" where
  "grounded target call \<longleftrightarrow>
     (let stack = field ''stack'' call in
      is_list stack \<and> list_all is_str (list_items stack) \<and>
      list_ex (\<lambda>name. contains_text (str_of target) (str_of name)) (list_items stack))"

definition check_call :: "json \<Rightarrow> json \<Rightarrow> unit result" where
  "check_call state call =
     req (is_str (field ''target'' state) \<and> str_of (field ''target'' state) \<noteq> [] \<and> is_obj call)
       ''missing target call''
     (req (grounded (field ''target'' state) call) ''target not grounded in captured stack''
     (req (is_list (field ''calls'' state) \<and> list_ex (\<lambda>c. py_eq c call) (list_items (field ''calls'' state)))
       ''target is not a recorded compute call''
     (req (is_str (field ''entry'' call) \<and> is_identifier (str_of (field ''entry'' call))) ''unsafe entry name''
     (bind_result (integer_in (field ''flags'' call) 0 4294967295 ''pipeline flags'') (\<lambda>_.
     req (int_of (field ''flags'' call) AND 4 = 0) ''derivative pipeline replay is unsupported''
     (req (field ''stage_flags'' call = JInt 0) ''unsupported stage flags''
     (bind_result (integer_in (field ''required_subgroup_size'' call) 0 128 ''required subgroup size'') (\<lambda>_.
     req (field ''base_pipeline_handle'' call = JInt 0 \<and>
          field ''base_pipeline_index'' call \<in> {JInt 0, JInt (- 1)}) ''unsupported base pipeline''
     (bind_result (integer_in (field ''graphics_calls_before'' call) 0 100000 ''prior graphics call count'') (\<lambda>_.
     each (handle_ok call) [''module_handle'', ''layout_handle'', ''cache_handle'']))))))))))"

definition check_layout :: "json \<Rightarrow> unit result" where
  "check_layout layout =
     (let sets = field ''sets'' layout in
      req (is_obj layout \<and> field ''flags'' layout = JInt 0 \<and> field ''push_constants'' layout = JList [])
        ''unsupported layout flags/push constants''
      (req (is_list sets \<and> 1 \<le> length (list_items sets) \<and> length (list_items sets) \<le> 8)
        ''invalid descriptor set count'' (each check_set (list_items sets))))"

definition validate :: "host \<Rightarrow> fs \<Rightarrow> json \<Rightarrow> path \<Rightarrow> bool \<Rightarrow> (json \<times> path \<times> path) result" where
  "validate h f state dir allow =
     (let call = field ''target_call'' state; module = field ''module'' call;
          initial = field ''cache_initial'' call in
      req (is_obj state \<and> field ''schema_version'' state = JInt 1) ''pipeline capture schema 1 required''
      (req (field ''capture_complete'' state = JBool True \<and> field ''errors'' state = JList [])
        ''pipeline capture is incomplete''
      (req (field ''capture_point'' state = JStr ''vkCreateComputePipelines:entry'') ''wrong capture point''
      (bind_result (check_call state call) (\<lambda>_.
      bind_result (validate_intervention state call allow) (\<lambda>_.
      bind_result (checked_blob h f dir module max_shader ''shader'') (\<lambda>shader.
      req (field ''flags'' module = JInt 0 \<and> 20 \<le> int_of (field ''bytes'' module) \<and>
           int_of (field ''bytes'' module) mod 4 = 0) ''unsupported shader module''
      (bind_result (checked_blob h f dir initial max_cache ''cache initial data'') (\<lambda>cache.
      bind_result (integer_in (field ''flags'' initial) 0 1 ''cache flags'') (\<lambda>_.
      bind_result (check_layout (field ''layout'' call)) (\<lambda>_.
      bind_result (bind_result (load f (dir @ [''device-create.json''])) DeviceSnapshot.validate) (\<lambda>_.
        Inr (call, shader, cache)))))))))))))"

section \<open>The layout text and the command\<close>

definition descriptor_name :: "json \<Rightarrow> string result" where
  "descriptor_name v =
     (case map_of descriptors (int_of v) of
        None \<Rightarrow> Inl (KeyError (repr_json v))
      | Some n \<Rightarrow> Inr n)"

definition binding_line :: "nat \<times> json \<Rightarrow> string result" where
  "binding_line = (\<lambda>(index, binding).
     bind_result (descriptor_name (field ''descriptor_type'' binding)) (\<lambda>kind.
       Inr (''binding '' @ show_nat index @ '' '' @ str_json (field ''binding'' binding) @ '' '' @ kind @
            '' '' @ str_json (field ''count'' binding) @ '' compute'')))"

definition set_bindings :: "json \<Rightarrow> (nat \<times> json) list" where
  "set_bindings call =
     concat (map (\<lambda>(i, item). map (Pair i) (list_items (field ''bindings'' item)))
       (enumerate 0 (list_items (field ''sets'' (field ''layout'' call)))))"

definition layout_text :: "json \<Rightarrow> string result" where
  "layout_text call =
     bind_result (map_result binding_line (set_bindings call)) (\<lambda>ls.
       Inr (text_lines ([''# Captured at the actual vkCreateComputePipelines call.'',
             ''set_count='' @ amount (field ''sets'' (field ''layout'' call)), ''push_constants=0'',
             ''pipeline_flags='' @ str_json (field ''flags'' call),
             ''required_subgroup_size='' @ str_json (field ''required_subgroup_size'' call)] @ ls)
           @ [newline_char]))"

text \<open>A writing operation as an effect on the file system; a failing one changes nothing.\<close>

definition on_files :: "(fs \<Rightarrow> fs result) \<Rightarrow> (fs, unit) effect" where
  "on_files g = (\<lambda>f. case g f of Inl e \<Rightarrow> (Inl e, f) | Inr f' \<Rightarrow> (Inr (), f'))"

definition prepare :: "host \<Rightarrow> path \<Rightarrow> bool \<Rightarrow> (fs, json) effect" where
  "prepare h dir allow =
     and_then (\<lambda>f. (bind_result (load f (dir @ [''pipeline-capture.json'']))
                     (\<lambda>state. validate h f state dir allow), f))
       (\<lambda>(call, shader, cache).
     and_then (on_files (\<lambda>f. copy_file f shader (dir @ [''shader.spv'']))) (\<lambda>_.
     and_then (on_files (\<lambda>f. copy_file f cache (dir @ [''pipeline-cache-initial.bin'']))) (\<lambda>_.
     and_then (lift (layout_text call)) (\<lambda>t.
     and_then (on_files (\<lambda>f. write_bytes f (dir @ [''ue-layout.txt'']) t)) (\<lambda>_.
       ret call)))))"

definition driver_returned :: "json \<Rightarrow> bool" where
  "driver_returned call \<longleftrightarrow>
     field ''driver_return_observed'' call = JBool True \<and> field ''result'' call = JInt 0"

definition main :: "host \<Rightarrow> path \<Rightarrow> bool \<Rightarrow> bool \<Rightarrow> (fs, int) effect" where
  "main h dir require_driver_return allow =
     (\<lambda>f. case prepare h dir allow f of
        (Inl e, f') \<Rightarrow> (if os_or_value e then Inr 2 else Inl e, f')
      | (Inr call, f') \<Rightarrow> (Inr (if require_driver_return \<and> \<not> driver_returned call then 3 else 0), f'))"

end
