(* ===== verification/DeviceRoundtrip.thy ===== *)
theory DeviceRoundtrip
  imports DeviceSnapshotFacts
begin

text \<open>
  A valid device snapshot stays valid when it is written as JSON and loaded again: \<open>load\<close> returns the
  value with its keys in order, and the schema does not depend on the order of keys.
\<close>

lemma extension_list_ok_canon: "extension_list_ok v c \<Longrightarrow> extension_list_ok (canon v) (canon c)"
  by (auto simp: extension_list_ok_def comp_def)

lemma flags_ok_canon: "flags_ok v names \<Longrightarrow> flags_ok (canon v) names"
proof -
  assume "flags_ok v names"
  then obtain d where v: "v = JObj d" "set (map fst d) = set names" "list_all (\<lambda>(_, flag). is_bool flag) d"
    by (auto simp: flags_ok_def)
  let ?d = "map (\<lambda>(k, v). (k, canon v)) d"
  have keys: "map fst ?d = map fst d" by (induction d) auto
  have "set (map fst (sort_key fst ?d)) = set (map fst ?d)" by (simp only: set_map set_sort)
  then have "set (map fst (sort_key fst ?d)) = set names" using v(2) by (simp only: keys)
  moreover have "list_all (\<lambda>(_, flag). is_bool flag) (sort_key fst ?d)"
    using v(3) by (auto simp: list_all_iff)
  ultimately show ?thesis by (simp add: flags_ok_def v(1))
qed

lemma instance_ok_canon: "wf_json v \<Longrightarrow> instance_ok v \<Longrightarrow> instance_ok (canon v)"
  using extension_list_ok_canon by (auto simp: instance_ok_def field_canon)

lemma stype_canon: "wf_json v \<Longrightarrow> node_ok v \<Longrightarrow> node_ok (canon v) \<and> stype_of (canon v) = stype_of v"
  using flags_ok_canon by (fastforce simp: node_ok_def field_canon stype_of_def)

lemma priority_canon: "priority_in_range p \<Longrightarrow> canon p = p"
  by (cases p) (auto simp: priority_in_range_def is_number_def)

lemma family_canon: "wf_json v \<Longrightarrow> queue_ok v \<Longrightarrow> queue_ok (canon v) \<and> family_of (canon v) = family_of v"
proof -
  assume wf: "wf_json v" and ok: "queue_ok v"
  then obtain ps where ps: "field ''priorities'' v = JList ps" "list_all priority_in_range ps"
    by (auto simp: queue_ok_def)
  have "map canon ps = ps" using ps(2) by (induction ps) (simp_all add: priority_canon)
  with wf ok ps show ?thesis by (auto simp: queue_ok_def field_canon family_of_def)
qed

lemma list_canon:
  assumes "\<And>x. wf_json x \<Longrightarrow> ok x \<Longrightarrow> ok (canon x) \<and> key (canon x) = key x"
  shows "list_all wf_json xs \<Longrightarrow> list_all ok xs \<Longrightarrow>
    list_all ok (map canon xs) \<and> map key (map canon xs) = map key xs"
  by (induction xs) (simp_all add: assms)

lemma device_ok_canon:
  assumes "wf_json s" and "device_ok s"
  shows "device_ok (canon s)"
proof -
  from assms(2) obtain chain queues where c: "field ''feature_chain'' s = JList chain" "list_all node_ok chain"
      "distinct (map stype_of chain)" "length chain \<le> 64"
    and q: "field ''queue_create_infos'' s = JList queues" "list_all queue_ok queues"
      "distinct (map family_of queues)" "1 \<le> length queues" "length queues \<le> 16"
    unfolding device_ok_def by blast
  have wf: "list_all wf_json chain" "list_all wf_json queues" "wf_json (field ''instance'' s)"
    using wf_field [OF assms(1), of "''feature_chain''"] wf_field [OF assms(1), of "''queue_create_infos''"]
      wf_field [OF assms(1), of "''instance''"] c(1) q(1) by simp_all
  have chain: "list_all node_ok (map canon chain)" "distinct (map stype_of (map canon chain))"
    using list_canon [of node_ok stype_of, OF stype_canon wf(1) c(2)] c(3) by (simp_all only:)
  have queues: "list_all queue_ok (map canon queues)" "distinct (map family_of (map canon queues))"
    using list_canon [of queue_ok family_of, OF family_canon wf(2) q(2)] q(3) by (simp_all only:)
  note rest = assms(2) [unfolded device_ok_def]
  have ext: "extension_list_ok (canon (field ''device_extensions'' s)) (canon (field ''device_extension_count'' s))"
    and flags: "flags_ok (canon (field ''enabled_core_features'' s)) core_fields"
    and inst: "instance_ok (canon (field ''instance'' s))"
    using rest extension_list_ok_canon flags_ok_canon instance_ok_canon [OF wf(3)] by blast+
  show ?thesis
    unfolding device_ok_def field_canon [OF assms(1)] c(1) q(1) canon.simps
    using rest ext flags inst chain queues c(4) q(4,5) by auto
qed

lemma load_stored:
  assumes "plain_json v" and "read_bytes f p = Inr (encode 0 v @ [CHR 0x0A])"
  shows "load f p = Inr (canon v)"
proof -
  let ?t = "encode 0 v @ [CHR 0x0A]"
  have wf: "wf_json v" "exact_floats v" "ascii_json v" using assms(1) by (simp_all add: plain_json_def)
  have "ascii ?t" using ascii_encode [of v 0] wf by simp
  then have "valid_utf8 ?t" by (rule ascii_valid_utf8)
  moreover have "loads unique_object invalid_constant (encode 0 (canon v) @ [CHR 0x0A]) = Inr (canon v)"
    unfolding unique_object_def invalid_constant_def
    by (rule distinct_dict.loads_encode_sorted) (simp_all add: wf canon_preserves sorted_canon)
  ultimately show ?thesis
    using assms(2) wf by (simp add: load_def load_text_def decode_utf8_def encode_canon del: valid_utf8.simps)
qed

section \<open>Properties\<close>

text \<open>C37: a valid snapshot with ASCII strings, whose floats read back from their \<open>repr\<close>, that is stored as JSON
  passes the validator again when it is loaded from the file, with the same content up to the order of keys.\<close>

theorem stored_snapshot_validates:
  assumes "DeviceSnapshot.validate s = Inr s" and "plain_json s"
    and "read_bytes f p = Inr (encode 0 s @ [CHR 0x0A])"
  shows "bind_result (load f p) DeviceSnapshot.validate = Inr (canon s)"
proof -
  have "wf_json s" using assms(2) by (simp add: plain_json_def)
  moreover have "device_ok s" using assms(1) by (simp add: device.check_iff)
  ultimately have "device_ok (canon s)" by (rule device_ok_canon)
  with load_stored [OF assms(2,3)] show ?thesis by (simp add: device.check_iff)
qed

lemma small_device_plain: "plain_json small_device"
proof -
  have "wf_json small_device \<and> ascii_json small_device" by code_simp
  moreover have "exact_floats small_device"
    by (simp add: small_device_def one_reads_back list_all_iff)
  ultimately show ?thesis by (simp add: plain_json_def)
qed

definition device_text :: bytes where
  "device_text = encode 0 small_device @ [CHR 0x0A]"

definition device_files :: fs where
  "device_files p = (if p = [''d''] then Some (Regular device_text) else None)"

lemma device_files_read: "read_bytes device_files [''d''] = Inr (encode 0 small_device @ [CHR 0x0A])"
proof -
  have "canonical device_files [''d'']"
    using canonical_snoc [of device_files "[]" "''d''"]
    by (simp add: device_files_def link_target_def plain_name_def)
  then have "read_bytes device_files [''d''] = Inr device_text"
    by (simp add: read_bytes_canonical) (simp add: device_files_def)
  then show ?thesis by (simp only: device_text_def)
qed

lemma stored_snapshot_validates_witness:
  "bind_result (load device_files [''d'']) DeviceSnapshot.validate = Inr (canon small_device)"
  by (rule stored_snapshot_validates [OF small_device_valid small_device_plain device_files_read])

end
