(* ===== verification/PipelineSnapshotFacts.thy ===== *)
theory PipelineSnapshotFacts
  imports PipelineSnapshot DeviceRoundtrip
begin

text \<open>
  What an accepted pipeline capture guarantees to the replay: the layout text can always be written,
  the shader and cache files are the captured ones, the device snapshot beside them is valid, and
  without permission for an intervention the captured call was submitted unchanged.
\<close>

section \<open>Bindings\<close>

definition binding_ok :: "json \<Rightarrow> bool" where
  "binding_ok b \<longleftrightarrow>
     int_in (field ''binding'' b) 0 63 \<and> int_in (field ''descriptor_type'' b) 0 10 \<and>
     int_in (field ''count'' b) 1 1024 \<and> py_eq (field ''stage_flags'' b) (JInt 32) \<and>
     field ''immutable_samplers'' b = JList []"

definition number_of :: "json \<Rightarrow> int" where "number_of b = int_of (field ''binding'' b)"

definition set_ok :: "json \<Rightarrow> bool" where
  "set_ok item \<longleftrightarrow>
     field ''flags'' item = JInt 0 \<and>
     (\<exists>bs. field ''bindings'' item = JList bs \<and> 1 \<le> length bs \<and> length bs \<le> 64 \<and>
        list_all binding_ok bs \<and> distinct (map number_of bs))"

lemma binding_step_Inr:
  "binding_step b seen = Inr t \<longleftrightarrow> binding_ok b \<and> number_of b \<notin> set seen \<and> t = number_of b # seen"
proof -
  have "is_obj b" if "field ''immutable_samplers'' b = JList []"
    using field_is_obj [of "''immutable_samplers''" b] that by simp
  then show ?thesis
    by (auto simp: binding_step_def binding_ok_def number_of_def integer_in_def Let_def)
qed

lemma check_set_Inr: "check_set item = Inr () \<longleftrightarrow> set_ok item"
proof -
  have obj: "is_obj item" if "field ''flags'' item = JInt 0"
    using field_is_obj [of "''flags''" item] that by simp
  have seen: "(\<exists>t. fold_result binding_step bs [] = Inr t) \<longleftrightarrow>
      list_all binding_ok bs \<and> distinct (map number_of bs)" for bs
    using fold_seen [of binding_step binding_ok number_of bs "[]"] binding_step_Inr by simp
  have "check_set item = Inr () \<longleftrightarrow>
    field ''flags'' item = JInt 0 \<and> is_list (field ''bindings'' item) \<and>
    1 \<le> length (list_items (field ''bindings'' item)) \<and> length (list_items (field ''bindings'' item)) \<le> 64 \<and>
    (\<exists>t. fold_result binding_step (list_items (field ''bindings'' item)) [] = Inr t)"
    unfolding check_set_def Let_def using obj by auto
  also have "\<dots> \<longleftrightarrow> set_ok item"
    unfolding set_ok_def seen by (cases "field ''bindings'' item") auto
  finally show ?thesis .
qed

definition layout_ok :: "json \<Rightarrow> bool" where
  "layout_ok layout \<longleftrightarrow>
     field ''flags'' layout = JInt 0 \<and> field ''push_constants'' layout = JList [] \<and>
     (\<exists>sets. field ''sets'' layout = JList sets \<and> 1 \<le> length sets \<and> length sets \<le> 8 \<and> list_all set_ok sets)"

lemma check_layout_Inr: "check_layout layout = Inr () \<longleftrightarrow> layout_ok layout"
proof -
  have "is_obj layout" if "field ''flags'' layout = JInt 0"
    using field_is_obj [of "''flags''" layout] that by simp
  then show ?thesis
    unfolding check_layout_def layout_ok_def Let_def
    by (cases "field ''sets'' layout") (auto simp: check_set_Inr list_all_iff)
qed

lemma descriptor_known: "int_in v 0 10 \<Longrightarrow> \<exists>n. descriptor_name v = Inr n"
proof -
  assume "int_in v 0 10"
  then have "0 \<le> int_of v" "int_of v \<le> 10" by (simp_all add: int_in_def)
  then have "int_of v \<in> {0, 1, 2, 3, 4, 5, 6, 7, 8, 9, 10}" unfolding insert_iff empty_iff by presburger
  then have "int_of v \<in> set (map fst descriptors)" by (simp add: descriptors_def)
  then obtain n where "map_of descriptors (int_of v) = Some n"
    by (metis in_set_conv_decomp list.set_map map_of_eq_None_iff not_None_eq)
  then show ?thesis by (simp add: descriptor_name_def)
qed

lemma map_result_total: "(\<And>x. x \<in> set xs \<Longrightarrow> \<exists>y. g x = Inr y) \<Longrightarrow> \<exists>ys. map_result g xs = Inr ys"
proof (induction xs)
  case (Cons x xs)
  then obtain y ys where "g x = Inr y" "map_result g xs = Inr ys" by fastforce
  then show ?case by simp
qed simp

lemma layout_text_total:
  assumes "layout_ok (field ''layout'' call)"
  shows "\<exists>t. layout_text call = Inr t"
proof -
  have "\<exists>y. binding_line x = Inr y" if x: "x \<in> set (set_bindings call)" for x
  proof -
    from assms obtain sets where s: "field ''sets'' (field ''layout'' call) = JList sets" "list_all set_ok sets"
      by (auto simp: layout_ok_def)
    from x obtain i b where xi: "x = (i, b)" "i < length sets"
      "b \<in> set (list_items (field ''bindings'' (sets ! i)))"
      by (auto simp: set_bindings_def s(1) in_set_enumerate_eq)
    have "set_ok (sets ! i)" using s(2) xi(2) by (simp add: list_all_length)
    with xi(3) have "binding_ok b" by (auto simp: list_all_iff set_ok_def)
    then obtain n where "descriptor_name (field ''descriptor_type'' b) = Inr n"
      using descriptor_known by (auto simp: binding_ok_def)
    then show ?thesis by (simp add: binding_line_def xi)
  qed
  then obtain ls where "map_result binding_line (set_bindings call) = Inr ls"
    using map_result_total by blast
  then show ?thesis by (simp add: layout_text_def)
qed

section \<open>Files\<close>

definition blob_ok :: "host \<Rightarrow> fs \<Rightarrow> path \<Rightarrow> json \<Rightarrow> int \<Rightarrow> path \<Rightarrow> bytes \<Rightarrow> bool" where
  "blob_ok h f dir blob maximum p b \<longleftrightarrow>
     (\<exists>name. field ''file'' blob = JStr name \<and> file_name_ok name \<and> p = dir @ [name]) \<and>
     is_file f p \<and> \<not> is_link f p \<and> read_bytes f p = Inr b \<and>
     field ''bytes'' blob = JInt (int (length b)) \<and> int (length b) \<le> maximum \<and>
     field ''sha256'' blob = JStr (sha256 h b)"

lemma file_size_read: "read_bytes f p = Inr b \<Longrightarrow> file_size f p = int (length b)"
  by (auto simp: read_bytes_def file_size_def split: option.splits node.splits)

lemma checked_blob_Inr:
  "checked_blob h f dir blob maximum label = Inr p \<longleftrightarrow> (\<exists>b. blob_ok h f dir blob maximum p b)"
proof
  assume "checked_blob h f dir blob maximum label = Inr p"
  then obtain b where "is_str (field ''file'' blob)" "file_name_ok (str_of (field ''file'' blob))"
    "int_in (field ''bytes'' blob) 0 maximum" "p = dir @ [str_of (field ''file'' blob)]"
    "is_file f p" "\<not> is_link f p" "read_bytes f p = Inr b"
    "int (length b) = int_of (field ''bytes'' blob)" "field ''sha256'' blob = JStr (sha256 h b)"
    by (auto simp: checked_blob_def integer_in_def Let_def)
  then show "\<exists>b. blob_ok h f dir blob maximum p b"
    by (intro exI [of _ b]) (auto simp: blob_ok_def is_str_iff int_in_iff)
next
  assume "\<exists>b. blob_ok h f dir blob maximum p b"
  then obtain b where ok: "blob_ok h f dir blob maximum p b" by blast
  then have "is_obj blob" using field_is_obj [of "''sha256''" blob] by (auto simp: blob_ok_def)
  with ok show "checked_blob h f dir blob maximum label = Inr p"
    by (auto simp: checked_blob_def integer_in_def Let_def blob_ok_def int_in_def file_size_read)
qed

section \<open>The whole capture\<close>

definition unmodified :: "json \<Rightarrow> json \<Rightarrow> bool" where
  "unmodified state call \<longleftrightarrow>
     intervention_of state = JStr ''none'' \<and>
     (\<not> has_field ''allocator'' call \<or> same_cache call \<and> same_allocator call \<and> \<not> applied call)"

lemma intervention_unmodified:
  "validate_intervention state call False = Inr () \<Longrightarrow> unmodified state call"
  by (cases "has_field ''allocator'' call")
    (auto simp: validate_intervention_def unmodified_def Let_def)

lemma validate_facts:
  assumes "validate h f state dir allow = Inr (call, shader, cache)"
  shows "call = field ''target_call'' state" and "check_call state call = Inr ()"
    and "validate_intervention state call allow = Inr ()"
    and "checked_blob h f dir (field ''module'' call) max_shader ''shader'' = Inr shader"
    and "20 \<le> int_of (field ''bytes'' (field ''module'' call))"
    and "int_of (field ''bytes'' (field ''module'' call)) mod 4 = 0"
    and "checked_blob h f dir (field ''cache_initial'' call) max_cache ''cache initial data'' = Inr cache"
    and "layout_ok (field ''layout'' call)"
    and "\<exists>d. load f (dir @ [''device-create.json'']) = Inr d \<and> device_ok d"
  using assms
  by (auto simp: validate_def Let_def device.check_iff check_layout_Inr)

section \<open>A concrete capture\<close>

definition capture_call :: json where
  "capture_call = JObj
     [(''stack'', JList [JStr ''FTarget::Create'']), (''entry'', JStr ''main''), (''flags'', JInt 0),
      (''stage_flags'', JInt 0), (''required_subgroup_size'', JInt 32), (''base_pipeline_handle'', JInt 0),
      (''base_pipeline_index'', JInt (- 1)), (''graphics_calls_before'', JInt 0),
      (''module_handle'', JStr ''0x1''), (''layout_handle'', JStr ''0x2''), (''cache_handle'', JStr ''0x3''),
      (''module'', JObj [(''file'', JStr ''s.spv''), (''bytes'', JInt 20), (''flags'', JInt 0),
         (''sha256'', JStr (replicate 64 (CHR ''a'')))]),
      (''cache_initial'', JObj [(''file'', JStr ''c.bin''), (''bytes'', JInt 0), (''flags'', JInt 0),
         (''sha256'', JStr (replicate 64 (CHR ''a'')))]),
      (''layout'', JObj [(''flags'', JInt 0), (''push_constants'', JList []),
         (''sets'', JList [JObj [(''flags'', JInt 0), (''bindings'', JList [JObj [(''binding'', JInt 0),
            (''descriptor_type'', JInt 7), (''count'', JInt 1), (''stage_flags'', JInt 32),
            (''immutable_samplers'', JList [])]])]])])]"

definition capture :: json where
  "capture = JObj
     [(''schema_version'', JInt 1), (''capture_complete'', JBool True), (''errors'', JList []),
      (''capture_point'', JStr ''vkCreateComputePipelines:entry''), (''target'', JStr ''FTarget''),
      (''target_call'', capture_call), (''calls'', JList [capture_call])]"

definition capture_files :: fs where
  "capture_files p =
     (if p = [''r''] then Some Directory
      else if p = [''r'', ''s.spv''] then Some (Regular (replicate 20 (CHR ''x'')))
      else if p = [''r'', ''c.bin''] then Some (Regular [])
      else if p = [''r'', ''device-create.json''] then Some (Regular device_text)
      else None)"

lemma capture_device: "load capture_files [''r'', ''device-create.json''] = Inr (canon small_device)"
proof (rule load_stored [OF small_device_plain])
  have "canonical capture_files [''r'', ''device-create.json'']"
    using canonical_snoc [of capture_files "[''r'']" "''device-create.json''"]
      canonical_snoc [of capture_files "[]" "''r''"]
    by (simp add: capture_files_def link_target_def plain_name_def)
  moreover have "capture_files [''r'', ''device-create.json''] = Some (Regular device_text)"
    by (simp add: capture_files_def)
  ultimately have "read_bytes capture_files [''r'', ''device-create.json''] = Inr device_text"
    by (simp add: read_bytes_canonical)
  then show "read_bytes capture_files [''r'', ''device-create.json''] = Inr (encode 0 small_device @ [CHR 0x0A])"
    by (simp only: device_text_def)
qed

lemma canon_device_ok: "device_ok (canon small_device)"
proof -
  have "device_ok small_device" using small_device_valid by (simp add: device.check_iff)
  then show ?thesis using small_device_plain by (intro device_ok_canon) (simp_all add: plain_json_def)
qed

lemma capture_blobs:
  "checked_blob plain_host capture_files [''r''] (field ''module'' capture_call) max_shader ''shader''
     = Inr [''r'', ''s.spv'']"
  "checked_blob plain_host capture_files [''r''] (field ''cache_initial'' capture_call) max_cache
     ''cache initial data'' = Inr [''r'', ''c.bin'']"
  by code_simp+

lemma capture_valid:
  "validate plain_host capture_files capture [''r''] False
     = Inr (capture_call, [''r'', ''s.spv''], [''r'', ''c.bin''])"
proof -
  have call: "field ''target_call'' capture = capture_call" by (simp add: capture_def)
  have "check_call capture capture_call = Inr ()" by code_simp
  moreover have "validate_intervention capture capture_call False = Inr ()" by code_simp
  moreover have "check_layout (field ''layout'' capture_call) = Inr ()" by code_simp
  moreover have "integer_in (field ''flags'' (field ''cache_initial'' capture_call)) 0 1 ''cache flags'' = Inr ()"
    by code_simp
  moreover have "field ''flags'' (field ''module'' capture_call) = JInt 0"
    "int_of (field ''bytes'' (field ''module'' capture_call)) = 20"
    by (simp_all add: capture_call_def)
  moreover have "DeviceSnapshot.validate (canon small_device) = Inr (canon small_device)"
    using canon_device_ok by (simp add: device.check_iff)
  ultimately show ?thesis
    using capture_blobs capture_device
    unfolding validate_def Let_def call
    by (simp add: req_simps) (simp add: capture_def)
qed

section \<open>Properties\<close>

text \<open>C19: an accepted capture can be replayed: the layout text is always defined, the shader and cache
  are regular files of the run directory with the recorded sizes and digests, the shader has whole
  words, and the device snapshot beside them satisfies the device schema.\<close>

theorem accepted_pipeline_is_replayable:
  assumes "validate h f state dir allow = Inr (call, shader, cache)"
  shows "(\<exists>t. layout_text call = Inr t) \<and>
    (\<exists>b. blob_ok h f dir (field ''module'' call) max_shader shader b \<and> 20 \<le> length b \<and> length b mod 4 = 0) \<and>
    (\<exists>b. blob_ok h f dir (field ''cache_initial'' call) max_cache cache b) \<and>
    (\<exists>d. load f (dir @ [''device-create.json'']) = Inr d \<and> device_ok d)"
proof -
  note facts = validate_facts [OF assms]
  from facts(4) obtain b where b: "blob_ok h f dir (field ''module'' call) max_shader shader b"
    by (auto simp: checked_blob_Inr)
  then have "int_of (field ''bytes'' (field ''module'' call)) = int (length b)" by (simp add: blob_ok_def)
  with facts(5,6) have "20 \<le> length b" "int (length b) mod 4 = 0" by simp_all
  moreover from this(2) have "length b mod 4 = 0" by presburger
  ultimately show ?thesis
    using b facts(7,9) layout_text_total [OF facts(8)] by (auto simp: checked_blob_Inr)
qed

lemma accepted_pipeline_is_replayable_witness:
  "\<exists>t. layout_text capture_call = Inr t \<and>
     validate plain_host capture_files capture [''r''] False
       = Inr (capture_call, [''r'', ''s.spv''], [''r'', ''c.bin''])"
  using accepted_pipeline_is_replayable [OF capture_valid] capture_valid by blast

text \<open>Without \<open>--allow-intervention\<close> an accepted capture was submitted to the driver unchanged: the
  same cache and allocation callbacks were passed on and no intervention was applied.\<close>

theorem accepted_pipeline_is_unmodified:
  assumes "validate h f state dir False = Inr (call, shader, cache)"
  shows "unmodified state call"
  using intervention_unmodified [OF validate_facts(3) [OF assms]] .

lemma accepted_pipeline_is_unmodified_witness: "unmodified capture capture_call"
  by (rule accepted_pipeline_is_unmodified [OF capture_valid])

end
