(* ===== verification/PngImage.thy ===== *)
theory PngImage
  imports Bytes
begin

text \<open>
  \<open>check_vulkan_readback.py\<close>, \<open>write_png\<close>: an RGBA image as a PNG file with one data chunk, every row with filter
  type 0. \<open>zlib.compress\<close> is an argument; \<open>zlib.crc32\<close> is the CRC of the PNG standard. A reader of such files,
  which the repository does not have, states what the file means.
\<close>

unbundle bit_operations_syntax

section \<open>Big-endian words and the CRC\<close>

definition be_bytes :: "32 word \<Rightarrow> bytes" where
  "be_bytes w = rev (le_bytes w)"

definition crc_bit :: "32 word \<Rightarrow> 32 word" where
  "crc_bit w = (if bit w 0 then drop_bit 1 w XOR 0xEDB88320 else drop_bit 1 w)"

definition crc_byte :: "32 word \<Rightarrow> char \<Rightarrow> 32 word" where
  "crc_byte w c = (crc_bit ^^ 8) (w XOR byte_val c)"

definition crc32 :: "bytes \<Rightarrow> 32 word" where
  "crc32 b = NOT (foldl crc_byte (NOT 0) b)"

section \<open>Writing\<close>

text \<open>\<open>struct.pack(">I", n)\<close> raises for a number of more than 32 bits.\<close>

definition pack_u32 :: "nat \<Rightarrow> bytes result" where
  "pack_u32 n =
     (if n < 2 ^ 32 then Inr (be_bytes (of_nat n))
      else Inl (StructError ''argument out of range''))"

definition png_chunk :: "bytes \<Rightarrow> bytes \<Rightarrow> bytes result" where
  "png_chunk kind data =
     bind_result (pack_u32 (length data)) (\<lambda>len. Inr (len @ kind @ data @ be_bytes (crc32 (kind @ data))))"

definition signature :: bytes where
  "signature = [CHR 0x89, CHR ''P'', CHR ''N'', CHR ''G'', CHR 0x0D, CHR 0x0A, CHR 0x1A, CHR 0x0A]"

definition header_data :: "nat \<Rightarrow> nat \<Rightarrow> bytes" where
  "header_data w h =
     be_bytes (of_nat w) @ be_bytes (of_nat h) @ [CHR 0x08, CHR 0x06, CHR 0x00, CHR 0x00, CHR 0x00]"

fun png_rows :: "nat \<Rightarrow> nat \<Rightarrow> bytes \<Rightarrow> bytes" where
  "png_rows w 0 b = []"
| "png_rows w (Suc h) b = CHR 0x00 # take (4 * w) b @ png_rows w h (drop (4 * w) b)"

definition png_file :: "(bytes \<Rightarrow> bytes) \<Rightarrow> nat \<Rightarrow> nat \<Rightarrow> bytes \<Rightarrow> bytes result" where
  "png_file compress w h rgba =
     bind_result (png_chunk ''IHDR'' (header_data w h)) (\<lambda>ihdr.
     bind_result (png_chunk ''IDAT'' (compress (png_rows w h rgba))) (\<lambda>idat.
     bind_result (png_chunk ''IEND'' []) (\<lambda>iend. Inr (signature @ ihdr @ idat @ iend))))"

section \<open>Reading\<close>

definition be_word :: "bytes \<Rightarrow> 32 word" where
  "be_word b = le_word (b ! 3) (b ! 2) (b ! 1) (b ! 0)"

text \<open>One chunk: its kind, its data and what follows; \<open>None\<close> when it is cut short or its CRC is wrong.\<close>

definition read_chunk :: "bytes \<Rightarrow> (bytes \<times> bytes \<times> bytes) option" where
  "read_chunk b =
     (let n = unat (be_word (take 4 b)); kind = take 4 (drop 4 b); data = take n (drop 8 b);
          crc = take 4 (drop (8 + n) b) in
      if 12 + n \<le> length b \<and> be_word crc = crc32 (kind @ data) then Some (kind, data, drop (12 + n) b) else None)"

fun unfilter :: "nat \<Rightarrow> nat \<Rightarrow> bytes \<Rightarrow> bytes option" where
  "unfilter w 0 b = (if b = [] then Some [] else None)"
| "unfilter w (Suc h) b =
     (case b of
        [] \<Rightarrow> None
      | c # s \<Rightarrow>
          if c = CHR 0x00 \<and> 4 * w \<le> length s then map_option ((@) (take (4 * w) s)) (unfilter w h (drop (4 * w) s))
          else None)"

definition expect_chunk :: "bytes \<Rightarrow> bytes \<Rightarrow> (bytes \<times> bytes) option" where
  "expect_chunk kind b =
     (case read_chunk b of None \<Rightarrow> None | Some (k, data, r) \<Rightarrow> if k = kind then Some (data, r) else None)"

definition rgba_header :: "bytes \<Rightarrow> (nat \<times> nat) option" where
  "rgba_header d =
     (if length d = 13 \<and> drop 8 d = [CHR 0x08, CHR 0x06, CHR 0x00, CHR 0x00, CHR 0x00]
      then Some (unat (be_word (take 4 d)), unat (be_word (take 4 (drop 4 d)))) else None)"

text \<open>Width, height and pixels of an RGBA image with one data chunk.\<close>

definition read_png :: "(bytes \<Rightarrow> bytes option) \<Rightarrow> bytes \<Rightarrow> (nat \<times> nat \<times> bytes) option" where
  "read_png decompress b =
     (if take 8 b \<noteq> signature then None
      else
        (case expect_chunk ''IHDR'' (drop 8 b) of
           None \<Rightarrow> None
         | Some (d, r) \<Rightarrow>
             (case (rgba_header d, expect_chunk ''IDAT'' r) of
                (Some (w, h), Some (packed, r')) \<Rightarrow>
                  (case (decompress packed, expect_chunk ''IEND'' r') of
                     (Some rows, Some ([], [])) \<Rightarrow> map_option (\<lambda>p. (w, h, p)) (unfilter w h rows)
                   | _ \<Rightarrow> None)
              | _ \<Rightarrow> None)))"

section \<open>Round trip\<close>

lemma length_be_bytes [simp]: "length (be_bytes w) = 4"
  by (simp add: be_bytes_def le_bytes_def)

lemma be_word_bytes [simp]: "be_word (be_bytes w) = w"
  by (simp add: be_word_def be_bytes_def le_bytes_def le_word_bytes [simplified])

lemma be_word_nat: "n < 2 ^ 32 \<Longrightarrow> unat (be_word (be_bytes (of_nat n))) = n"
  by (simp add: unat_of_nat take_bit_eq_mod)

lemma chunk_reads:
  assumes "png_chunk kind data = Inr c" and kind: "length kind = 4"
  shows "read_chunk (c @ r) = Some (kind, data, r)"
proof -
  from assms(1) have n: "length data < 2 ^ 32"
    and c: "c = be_bytes (of_nat (length data)) @ kind @ data @ be_bytes (crc32 (kind @ data))"
    by (auto simp: png_chunk_def pack_u32_def split: if_splits)
  show ?thesis
    by (simp add: read_chunk_def c be_word_nat [OF n] kind Let_def del: be_word_bytes)
      (simp add: be_word_bytes)
qed

lemma chunk_expected:
  "png_chunk kind data = Inr c \<Longrightarrow> length kind = 4 \<Longrightarrow> expect_chunk kind (c @ r) = Some (data, r)"
  by (simp add: expect_chunk_def chunk_reads)

lemma unfilter_rows: "length b = 4 * w * h \<Longrightarrow> unfilter w h (png_rows w h b) = Some b"
proof (induction h arbitrary: b)
  case (Suc h)
  then have "length (drop (4 * w) b) = 4 * w * h" and len: "4 * w \<le> length b" by simp_all
  from Suc.IH [OF this(1)] len show ?case by simp
qed simp

lemma header_reads: "w < 2 ^ 32 \<Longrightarrow> h < 2 ^ 32 \<Longrightarrow> rgba_header (header_data w h) = Some (w, h)"
  by (simp add: rgba_header_def header_data_def be_word_nat del: be_word_bytes)

text \<open>C27: whatever compression is used, a PNG file written from the pixels of an image reads back as the same
  width, height and pixels, with every CRC correct.\<close>

theorem written_png_reads_back:
  assumes "png_file compress w h rgba = Inr b" and "length rgba = 4 * w * h" and "w < 2 ^ 32" "h < 2 ^ 32"
    and "decompress (compress (png_rows w h rgba)) = Some (png_rows w h rgba)"
  shows "read_png decompress b = Some (w, h, rgba)"
proof -
  from assms(1) obtain ihdr idat iend where chunks: "png_chunk ''IHDR'' (header_data w h) = Inr ihdr"
      "png_chunk ''IDAT'' (compress (png_rows w h rgba)) = Inr idat" "png_chunk ''IEND'' [] = Inr iend"
    and b: "b = signature @ ihdr @ idat @ iend" by (auto simp: png_file_def)
  have "expect_chunk ''IEND'' iend = Some ([], [])" using chunk_expected [OF chunks(3), of "[]"] by simp
  with chunks assms(2-) show ?thesis
    by (simp add: read_png_def b signature_def chunk_expected header_reads unfilter_rows)
qed

theorem written_png_reads_back_witness:
  "\<exists>b. png_file id 1 1 ''RGBA'' = Inr b \<and> read_png Some b = Some (1, 1, ''RGBA'')"
proof -
  obtain b where b: "png_file id 1 1 ''RGBA'' = Inr b"
    by (simp add: png_file_def png_chunk_def pack_u32_def header_data_def)
  then have "read_png Some b = Some (1, 1, ''RGBA'')" by (rule written_png_reads_back) simp_all
  with b show ?thesis by blast
qed

end
