(* ===== verification/BridgeReport.thy ===== *)
theory BridgeReport
  imports NativeRun JsonBytes
begin

text \<open>
  \<open>check_ue_meshbridge.py\<close>, the part without effects: the cases of the MeshDescription bridge, the readers,
  and \<open>evaluate_report\<close>, which decides whether the report of the native probe and its exit code agree with
  the requested case. A rejection of an unsupported or truncated file is a successful check.
\<close>

section \<open>Cases\<close>

definition bridge_stage :: string where "bridge_stage = ''ue-meshdescription-static''"

definition bridge_scope :: string where
  "bridge_scope = ''UE FMeshDescription in-memory bridge; not UStaticMesh, Editor or Cook''"

definition assimp_stage :: string where "assimp_stage = ''assimp-fbx-backend''"

definition assimp_scope :: string where
  "assimp_scope = ''Assimp FBX backend only; not Autodesk SDK ABI or Unreal Editor/Cook''"

definition coordinate_policy :: string where
  "coordinate_policy = ''FBX Front/Coord/Up to UE X/Y/Z, centimeters, UV V flip''"

text \<open>Name, fixture and kind.\<close>

type_synonym bridge_case = "string \<times> string option \<times> string"

definition bridge_cases :: "bridge_case list" where
  "bridge_cases =
     [(''self-test'', None, ''self-test''),
      (''blender-cube'', Some ''BlenderCube.fbx'', ''static''),
      (''multi-material'', Some ''MultiMatId.fbx'', ''materials''),
      (''unsupported-animation'', Some ''AnimatedCharacter.fbx'', ''unsupported''),
      (''unsupported-morph'', Some ''MorphTargets.fbx'', ''unsupported''),
      (''truncated-input'', None, ''truncated'')]"

definition required_cases :: "string list" where
  "required_cases = ''preflight'' # map fst bridge_cases"

definition runtime_flags :: "string list" where
  "runtime_flags = [''-unattended'', ''-stdout'', ''-notraceserver'', ''-traceautostart=0'']"

definition max_timeout_seconds :: int where "max_timeout_seconds = 300"

section \<open>Readers\<close>

text \<open>\<open>json.loads\<close> on the bytes of a regular file, which detects their encoding.\<close>

definition read_json_bytes :: "fs \<Rightarrow> path \<Rightarrow> json result" where
  "read_json_bytes f p =
     req (is_file f p) (''missing JSON file: '' @ path_text p)
       (bind_result (read_bytes f p) (loads_bytes checker_object checker_constant))"

definition write_json :: "fs \<Rightarrow> path \<Rightarrow> json \<Rightarrow> fs result" where
  "write_json f p v = bind_result (dumps v) (write_text_file f p)"

definition verify_runtime_library :: "host \<Rightarrow> fs \<Rightarrow> path \<Rightarrow> string \<Rightarrow> string result" where
  "verify_runtime_library h f p expected =
     req (is_file f p) (''runtime Assimp library is missing or not a regular file: '' @ path_text p)
       (bind_result (sha256_file h f p) (\<lambda>actual.
        req (actual = expected)
          (''runtime Assimp library SHA256 mismatch: '' @ path_text p @ ''; expected '' @ expected @ '', got '' @ actual)
          (Inr actual)))"

section \<open>The report of a probe\<close>

definition max_count :: int where "max_count = 9223372036854775807"

text \<open>An integer, or a float with an integral value, of at least \<open>least\<close>.\<close>

definition count_ok :: "int \<Rightarrow> json \<Rightarrow> bool" where
  "count_ok least v \<longleftrightarrow>
     (case v of
        JInt i \<Rightarrow> least \<le> i \<and> i \<le> max_count
      | JFloat x \<Rightarrow>
          (case float_val x of
             None \<Rightarrow> False
           | Some q \<Rightarrow> of_int least \<le> q \<and> q \<le> of_int max_count \<and> of_int \<lfloor>q\<rfloor> = q)
      | _ \<Rightarrow> False)"

definition check_count :: "json \<Rightarrow> string \<Rightarrow> int \<Rightarrow> unit result" where
  "check_count report name least =
     require (count_ok least (field name report))
       (name @ '' must be an integer count >= '' @ show_int least @ '', got '' @ repr_json (field name report))"

definition known_kinds :: "string list" where
  "known_kinds = [''self-test'', ''static'', ''materials'', ''unsupported'', ''truncated'']"

definition negative_kind :: "string \<Rightarrow> bool" where
  "negative_kind kind \<longleftrightarrow> kind \<in> set [''unsupported'', ''truncated'']"

definition expected_exit :: "string \<Rightarrow> int" where
  "expected_exit kind = (if negative_kind kind then 2 else 0)"

definition expected_fields :: "string \<Rightarrow> string option \<Rightarrow> (string \<times> string) list" where
  "expected_fields kind input =
     [(''stage'', bridge_stage), (''scope'', bridge_scope), (''coordinate_policy'', coordinate_policy),
      (''status'', if negative_kind kind then ''FAIL'' else ''PASS''),
      (''input'', case input of None \<Rightarrow> [] | Some p \<Rightarrow> p)]"

definition exact_field :: "json \<Rightarrow> string \<times> string \<Rightarrow> unit result" where
  "exact_field report = (\<lambda>(name, expected).
     require (field name report = JStr expected) (name @ '' must exactly match '' @ repr_str expected))"

definition error_field_ok :: "string \<Rightarrow> json \<Rightarrow> bool" where
  "error_field_ok kind v \<longleftrightarrow>
     is_str v \<and> (if negative_kind kind then strip (str_of v) \<noteq> [] else str_of v = [])"

definition mesh_counts :: "string list" where
  "mesh_counts = [''vertices'', ''triangles'', ''material_slots'', ''serialized_bytes'']"

definition finite_item :: "json \<Rightarrow> bool result" where
  "finite_item v = (if is_number v then is_finite_number v else Inr False)"

definition ordered_bounds :: "json list \<Rightarrow> bool" where
  "ordered_bounds xs \<longleftrightarrow> list_all (\<lambda>i. \<not> num_less (xs ! (i + 3)) (xs ! i)) [0, 1, 2]"

definition bounds_ok :: "json \<Rightarrow> bool result" where
  "bounds_ok v =
     (if is_list v \<and> length (list_items v) = 6 then
        bind_result (all_result finite_item (list_items v)) (\<lambda>ok. Inr (ok \<and> ordered_bounds (list_items v)))
      else Inr False)"

definition check_bounds :: "json \<Rightarrow> unit result" where
  "check_bounds report =
     bind_result (bounds_ok (field ''bounds_cm'' report)) (\<lambda>ok.
       require ok ''bounds_cm must contain six finite, ordered coordinates'')"

definition empty_output :: "json \<Rightarrow> string \<Rightarrow> unit result" where
  "empty_output report name =
     require (py_eq (field name report) (JInt 0)) (''rejected input left partial output: '' @ name)"

definition least_count :: "string \<Rightarrow> string \<Rightarrow> int" where
  "least_count kind name = (if kind = ''materials'' \<and> name = ''material_slots'' then 2 else 1)"

definition lower_text :: "string \<Rightarrow> string" where
  "lower_text s = map lower_char s"

definition check_rejection :: "string \<Rightarrow> json \<Rightarrow> unit result" where
  "check_rejection kind report =
     req (kind = ''unsupported'' \<longrightarrow> contains_text ''unsupported'' (lower_text (str_of (field ''error'' report))))
       ''unsupported fixture must report an unsupported error''
       (each (empty_output report) mesh_counts)"

definition check_import :: "string \<Rightarrow> json \<Rightarrow> unit result" where
  "check_import kind report =
     bind_result (each (\<lambda>name. check_count report name (least_count kind name)) mesh_counts)
       (\<lambda>_. check_bounds report)"

definition check_kind :: "string \<Rightarrow> json \<Rightarrow> unit result" where
  "check_kind kind report =
     (if kind = ''self-test'' then check_count report ''self_tests'' 25
      else if negative_kind kind then check_rejection kind report
      else check_import kind report)"

definition evaluate_report :: "json \<Rightarrow> int \<Rightarrow> string \<Rightarrow> string option \<Rightarrow> json result" where
  "evaluate_report report rc kind input =
     req (kind \<in> set known_kinds) (''unknown case kind: '' @ kind)
     (req (rc = expected_exit kind)
       (''expected clean exit '' @ show_int (expected_exit kind) @ '', got '' @ show_int rc)
     (req (is_obj report) ''probe report must be a JSON object''
     (bind_result (each (exact_field report) (expected_fields kind input)) (\<lambda>_.
      req (error_field_ok kind (field ''error'' report)) ''FAIL needs a nonempty error; PASS needs an empty error''
      (bind_result (each (\<lambda>name. check_count report name 0) (''self_tests'' # mesh_counts)) (\<lambda>_.
       bind_result (check_kind kind report) (\<lambda>_. Inr report)))))))"

end
