(* ===== verification/Readback.thy ===== *)
theory Readback
  imports PngImage ComputeBatch BridgeReport
begin

text \<open>
  \<open>check_vulkan_readback.py\<close>: two frames a native Vulkan program cleared and read back are compared with the
  rectangles it was told to draw, byte by byte, and written as PNG evidence. The program, the machine, the
  compression and the fresh directory are arguments. The state is what \<open>run\<close> keeps in its variables.
\<close>

section \<open>The device and the frames\<close>

definition readback_stage :: string where "readback_stage = ''dgx-vulkan-readback''"

definition readback_scope :: string where
  "readback_scope = ''Native GB10 Vulkan render-pass clear/readback; not UE shaders or CARLA sensors''"

definition readback_checks :: "string list" where
  "readback_checks = [''native'', ''device'', ''frame-0'', ''frame-1'', ''changing-frames'']"

definition frame_width :: nat where "frame_width = 64"

definition frame_height :: nat where "frame_height = 48"

definition expected_device :: "(string \<times> json) list" where
  "expected_device =
     [(''schema_version'', JInt 1), (''device_name'', JStr ''NVIDIA GB10''), (''vendor_id'', JInt 4318),
      (''graphics_queue'', JBool True), (''width'', JInt (int frame_width)), (''height'', JInt (int frame_height)),
      (''frames'', JInt 2)]"

text \<open>Equal values of exactly the same type.\<close>

definition check_expected :: "json \<Rightarrow> string \<times> json \<Rightarrow> unit result" where
  "check_expected v = (\<lambda>(key, item).
     require (field key v = item) (''unexpected '' @ key @ '': '' @ repr_json (field key v)))"

definition check_word :: "json \<Rightarrow> string \<Rightarrow> unit result" where
  "check_word v key =
     require (is_int (field key v) \<and> 0 \<le> int_of (field key v) \<and> int_of (field key v) \<le> 4294967295) (''invalid '' @ key)"

definition check_feature :: "json \<Rightarrow> string \<Rightarrow> unit result" where
  "check_feature v key = require (is_bool (field key v)) (''missing feature observation: '' @ key)"

definition validate_device :: "json \<Rightarrow> unit result" where
  "validate_device v =
     req (is_obj v) ''device report is not an object''
     (bind_result (each (check_expected v) expected_device) (\<lambda>_.
      bind_result (each (check_word v) [''api_version'', ''driver_version'', ''device_id'', ''queue_family'']) (\<lambda>_.
      req (4202496 \<le> int_of (field ''api_version'' v) \<and> int_of (field ''driver_version'' v) \<noteq> 0)
        ''Vulkan 1.2+ and a nonzero driver version are required''
        (each (check_feature v) [''runtime_descriptor_array'', ''descriptor_binding_partially_bound'',
           ''sampled_image_update_after_bind'']))))"

definition frame_colors :: "nat \<Rightarrow> bytes \<times> bytes" where
  "frame_colors n =
     (if n = 0 then ([CHR 0xFF, CHR 0x00, CHR 0x00, CHR 0xFF], [CHR 0x00, CHR 0x00, CHR 0xFF, CHR 0xFF])
      else ([CHR 0x00, CHR 0xFF, CHR 0x00, CHR 0xFF], [CHR 0xFF, CHR 0xFF, CHR 0xFF, CHR 0xFF]))"

definition repeat_bytes :: "nat \<Rightarrow> bytes \<Rightarrow> bytes" where
  "repeat_bytes n b = concat (replicate n b)"

definition expected_frame :: "nat \<Rightarrow> bytes" where
  "expected_frame n =
     (case frame_colors n of (left, right) \<Rightarrow>
        repeat_bytes frame_height
          (repeat_bytes (frame_width div 2) left @ repeat_bytes (frame_width div 2) right))"

definition different_bytes :: "bytes \<Rightarrow> bytes \<Rightarrow> nat" where
  "different_bytes a b = length (filter (\<lambda>(x, y). x \<noteq> y) (zip a b))"

definition frame_info :: "host \<Rightarrow> bytes \<Rightarrow> json" where
  "frame_info h raw =
     JObj [(''width'', JInt (int frame_width)), (''height'', JInt (int frame_height)),
       (''pixels_checked'', JInt (int (frame_width * frame_height))), (''sha256'', JStr (sha256 h raw))]"

definition validate_frame :: "host \<Rightarrow> bytes \<Rightarrow> nat \<Rightarrow> json result" where
  "validate_frame h raw n =
     req (n \<in> {0, 1}) ''unexpected frame index''
     (req (length raw = frame_width * frame_height * 4) ''readback dimensions/byte count mismatch''
     (req (raw = expected_frame n)
       (''GPU readback differs from clear rectangles in '' @ show_nat (different_bytes raw (expected_frame n)) @ '' bytes'')
       (Inr (frame_info h raw))))"

text \<open>\<open>sum(frames[0][i:i+4] != frames[1][i:i+4] for i in range(0, len(frames[0]), 4))\<close>.\<close>

fun changed_pixels :: "nat \<Rightarrow> bytes \<Rightarrow> bytes \<Rightarrow> nat" where
  "changed_pixels 0 a b = 0"
| "changed_pixels (Suc n) a b =
     (if a = [] then 0 else of_bool (take 4 a \<noteq> take 4 b) + changed_pixels n (drop 4 a) (drop 4 b))"

section \<open>The run\<close>

record readback =
  rb_files :: fs
  rb_checks :: "(string \<times> string) list"
  rb_evidence :: "(string \<times> path) list"
  rb_code :: int
  rb_error :: string
  rb_frames :: "bytes list"

type_synonym 'a rb = "(readback, 'a) effect"

record readback_host =
  rh_host :: host
  rh_now :: string
  rh_script :: path
  rh_machine :: string
  rh_uname :: "string list"
  rh_tool :: "string list \<Rightarrow> fs \<Rightarrow> fs \<times> bytes \<times> bytes \<times> tool_end"
  rh_compress :: "bytes \<Rightarrow> bytes"
  rh_temp :: string

record readback_paths =
  rp_program :: path
  rp_run :: path
  rp_work :: path
  rp_source :: path
  rp_source_digest :: string
  rp_timeout :: int

definition rb_fs :: "(fs \<Rightarrow> 'a result) \<Rightarrow> 'a rb" where
  "rb_fs g = and_then (get_state rb_files) (\<lambda>f. lift (g f))"

definition rb_update :: "(fs \<Rightarrow> fs result) \<Rightarrow> unit rb" where
  "rb_update g = (\<lambda>s. case g (rb_files s) of Inl e \<Rightarrow> (Inl e, s) | Inr f \<Rightarrow> (Inr (), s\<lparr>rb_files := f\<rparr>))"

definition rb_cite :: "(string \<times> path) list \<Rightarrow> unit rb" where
  "rb_cite xs = put_state (\<lambda>s. s\<lparr>rb_evidence := fold (\<lambda>(n, p). dict_set n p) xs (rb_evidence s)\<rparr>)"

definition rb_check :: "string \<Rightarrow> string \<Rightarrow> unit rb" where
  "rb_check n v = put_state (\<lambda>s. s\<lparr>rb_checks := dict_set n v (rb_checks s)\<rparr>)"

definition rb_set_code :: "int \<Rightarrow> unit rb" where
  "rb_set_code n = put_state (\<lambda>s. s\<lparr>rb_code := n\<rparr>)"

definition evidence_file :: "readback_paths \<Rightarrow> string \<Rightarrow> path" where
  "evidence_file ps n = rp_work ps @ [n @ ''.json'']"

definition readback_command :: "readback_paths \<Rightarrow> string list" where
  "readback_command ps = [path_text (rp_program ps), path_text (rp_work ps)]"

definition snapshot_json :: "readback_host \<Rightarrow> readback_paths \<Rightarrow> fs \<Rightarrow> bool \<Rightarrow> string \<Rightarrow> json" where
  "snapshot_json rh ps f elf d =
     JObj [(''machine'', JStr (rh_machine rh)), (''docker'', JBool (is_file f [''.dockerenv''])),
       (''program'', JStr (path_text (rp_program ps))), (''aarch64_elf'', JBool elf), (''program_sha256'', JStr d),
       (''uname'', JList (map JStr (rh_uname rh)))]"

text \<open>The digest of the program, which is compared again at the end.\<close>

definition native_phase :: "readback_host \<Rightarrow> readback_paths \<Rightarrow> string rb" where
  "native_phase rh ps =
     and_then (get_state rb_files) (\<lambda>f.
     and_then (lift (native_elf f (rp_program ps))) (\<lambda>elf.
     and_then (lift (sha256_file (rh_host rh) f (rp_program ps))) (\<lambda>d.
     then_do (rb_update (\<lambda>g. write_json g (evidence_file ps ''native'') (snapshot_json rh ps f elf d)))
     (then_do (check (rh_machine rh \<in> set [''aarch64'', ''arm64''] \<and> is_file f [''.dockerenv''] \<and> elf)
         ''native ARM64 Docker and an AArch64 ELF are required'')
     (then_do (rb_check ''native'' ''PASS'')
     (then_do (rb_cite [(''program'', rp_program ps)]) (ret d)))))))"

definition raw_device :: "readback_paths \<Rightarrow> path" where
  "raw_device ps = rp_work ps @ [''device.raw.json'']"

definition process_log :: "readback_paths \<Rightarrow> path" where
  "process_log ps = rp_work ps @ [''process.log'']"

definition run_program :: "readback_host \<Rightarrow> readback_paths \<Rightarrow> tool_end rb" where
  "run_program rh ps =
     then_do (rb_update (\<lambda>f. write_bytes f (raw_device ps) []))
     (then_do (rb_update (\<lambda>f. write_bytes f (process_log ps) []))
     (and_then (get_state (\<lambda>s. rh_tool rh (readback_command ps) (rb_files s))) (\<lambda>(f, out, err, ending).
      then_do (put_state (\<lambda>s. s\<lparr>rb_files := f\<rparr>))
      (then_do (rb_update (\<lambda>f. write_bytes f (raw_device ps) out))
      (then_do (rb_update (\<lambda>f. write_bytes f (process_log ps) err)) (ret ending))))))"

definition process_phase :: "readback_host \<Rightarrow> readback_paths \<Rightarrow> unit rb" where
  "process_phase rh ps =
     and_then (run_program rh ps) (\<lambda>ending.
       case ending of
         NotStarted m \<Rightarrow> raise (OSError m)
       | TimedOut \<Rightarrow> raise (SubprocessError ''timed out'')
       | Exited n \<Rightarrow>
           then_do (rb_cite [(''device.raw'', raw_device ps), (''process.log'', process_log ps)])
           (if n = 0 then ret ()
            else then_do (rb_set_code n)
              (raise (ValueError (''Vulkan process failed with exit code '' @ show_int n)))))"

definition device_phase :: "readback_paths \<Rightarrow> unit rb" where
  "device_phase ps =
     and_then (rb_fs (\<lambda>f. load_text checker_object invalid_number f (raw_device ps))) (\<lambda>v.
     then_do (lift (validate_device v))
     (then_do (rb_update (\<lambda>f. write_json f (evidence_file ps ''device'') v)) (rb_check ''device'' ''PASS'')))"

definition frame_name :: "nat \<Rightarrow> string" where
  "frame_name n = ''frame-'' @ show_nat n"

definition frame_phase :: "readback_host \<Rightarrow> readback_paths \<Rightarrow> nat \<Rightarrow> unit rb" where
  "frame_phase rh ps n =
     (let raw_path = rp_work ps @ [frame_name n @ ''.rgba'']; png = rp_work ps @ [frame_name n @ ''.png''] in
      and_then (rb_fs (\<lambda>f. read_bytes f raw_path)) (\<lambda>raw.
      then_do (rb_cite [(frame_name n @ ''.raw'', raw_path)])
      (and_then (lift (validate_frame (rh_host rh) raw n)) (\<lambda>info.
       then_do (rb_update (\<lambda>f. write_json f (evidence_file ps (frame_name n)) info))
       (then_do (rb_update (\<lambda>f. bind_result (png_file (rh_compress rh) frame_width frame_height raw) (write_bytes f png)))
       (then_do (rb_cite [(frame_name n @ ''.png'', png)])
       (then_do (rb_check (frame_name n) ''PASS'')
       (put_state (\<lambda>s. s\<lparr>rb_frames := rb_frames s @ [raw]\<rparr>)))))))))"

definition frames_changed :: "bytes list \<Rightarrow> nat" where
  "frames_changed fr = changed_pixels (length (fr ! 0)) (fr ! 0) (fr ! 1)"

definition changing_phase :: "readback_paths \<Rightarrow> unit rb" where
  "changing_phase ps =
     and_then (get_state (\<lambda>s. frames_changed (rb_frames s))) (\<lambda>n.
     then_do (rb_update (\<lambda>f. write_json f (evidence_file ps ''changing-frames'') (JObj [(''changed_pixels'', JInt (int n))])))
     (then_do (check (n = frame_width * frame_height) ''readback frames did not change as specified'')
     (rb_check ''changing-frames'' ''PASS'')))"

text \<open>The second digest is computed only when the first is unchanged.\<close>

definition inputs_unchanged :: "readback_host \<Rightarrow> readback_paths \<Rightarrow> string \<Rightarrow> fs \<Rightarrow> bool result" where
  "inputs_unchanged rh ps d f =
     bind_result (sha256_file (rh_host rh) f (rp_program ps)) (\<lambda>d'.
       if d' \<noteq> d then Inr False
       else bind_result (sha256_file (rh_host rh) f (rp_source ps)) (\<lambda>e. Inr (e = rp_source_digest ps)))"

definition unchanged_phase :: "readback_host \<Rightarrow> readback_paths \<Rightarrow> string \<Rightarrow> unit rb" where
  "unchanged_phase rh ps d =
     and_then (rb_fs (inputs_unchanged rh ps d)) (\<lambda>same.
       if same then ret ()
       else then_do (rb_check ''native'' ''FAIL'') (raise (ValueError ''probe inputs changed during execution'')))"

definition readback_body :: "readback_host \<Rightarrow> readback_paths \<Rightarrow> unit rb" where
  "readback_body rh ps =
     and_then (native_phase rh ps) (\<lambda>d.
     then_do (process_phase rh ps)
     (then_do (device_phase ps)
     (then_do (do_each (frame_phase rh ps) [0, 1])
     (then_do (changing_phase ps)
     (then_do (unchanged_phase rh ps d) (rb_set_code 0))))))"

definition note_failure :: "readback_paths \<Rightarrow> py_error \<Rightarrow> unit rb" where
  "note_failure ps e =
     (case e of
        SubprocessError _ \<Rightarrow>
          put_state (\<lambda>s. s\<lparr>rb_code := 124,
            rb_error := ''Vulkan process exceeded '' @ show_int (rp_timeout ps) @ '' seconds''\<rparr>)
      | _ \<Rightarrow> if os_or_value e then put_state (\<lambda>s. s\<lparr>rb_error := error_text e\<rparr>) else raise e)"

section \<open>The report\<close>

definition fill_evidence :: "string \<times> path \<Rightarrow> unit rb" where
  "fill_evidence = (\<lambda>(name, p).
     and_then (get_state (\<lambda>s. (exists_path (rb_files s) p, rb_error s))) (\<lambda>(present, err).
       if name \<in> set readback_checks \<and> \<not> present then
         rb_update (\<lambda>f. write_json f p (JObj [(''error'', JStr (if err = [] then ''check did not run'' else err))]))
       else ret ()))"

definition cite_if :: "(fs \<Rightarrow> path \<Rightarrow> bool) \<Rightarrow> string \<times> path \<Rightarrow> unit rb" where
  "cite_if present x =
     and_then (get_state (\<lambda>s. present (rb_files s) (snd x))) (\<lambda>ok. if ok then rb_cite [x] else ret ())"

definition result_json :: "readback \<Rightarrow> json" where
  "result_json s =
     JObj [(''exit_code'', JInt (rb_code s)), (''error'', JStr (rb_error s)),
       (''checks'', JObj (map (\<lambda>(n, v). (n, JStr v)) (rb_checks s)))]"

definition build_names :: "string list" where
  "build_names = [''build.log'', ''build-command.json'', ''inputs.sha256'']"

definition readback_args :: "readback_paths \<Rightarrow> readback \<Rightarrow> write_args" where
  "readback_args ps s =
     \<lparr>wa_stage_id = readback_stage, wa_scope = readback_scope, wa_exit_code = JInt (rb_code s),
      wa_required = JList (map JStr readback_checks),
      wa_checks = JObj (map (\<lambda>(n, v). (n, JStr v)) (rb_checks s)),
      wa_evidence = map (\<lambda>(n, p). (n, path_text p)) (rb_evidence s),
      wa_sources = JObj [(''probe'', JObj [(''location'', JStr (path_text (rp_source ps))),
        (''revision'', JStr (''sha256:'' @ rp_source_digest ps))])],
      wa_command = JList (map JStr (readback_command ps)), wa_prerequisites = []\<rparr>"

definition readback_report :: "readback_host \<Rightarrow> readback_paths \<Rightarrow> json rb" where
  "readback_report rh ps = (\<lambda>s.
     case write_report (rh_host rh) (rb_files s) (rh_now rh) (path_text (rp_run ps @ [''stage-report.json'']))
         (readback_args ps s) of
       Inl e \<Rightarrow> (Inl e, s)
     | Inr (report, f) \<Rightarrow> (Inr report, s\<lparr>rb_files := f\<rparr>))"

definition close_evidence :: "readback_paths \<Rightarrow> unit rb" where
  "close_evidence ps =
     and_then (get_state rb_evidence) (\<lambda>evidence.
     then_do (do_each fill_evidence evidence)
     (then_do (do_each (cite_if exists_path) [(''process.log'', process_log ps), (''device.raw.json'', raw_device ps)])
     (and_then (get_state result_json) (\<lambda>v.
      then_do (rb_update (\<lambda>f. write_json f (evidence_file ps ''result'') v))
      (then_do (rb_cite [(''result'', evidence_file ps ''result'')])
      (do_each (cite_if is_file) (map (\<lambda>n. (''build.'' @ n, rp_run ps @ [n])) build_names)))))))"

definition finish_readback :: "readback_host \<Rightarrow> readback_paths \<Rightarrow> json rb" where
  "finish_readback rh ps = then_do (close_evidence ps) (readback_report rh ps)"

definition start_readback :: "readback_host \<Rightarrow> readback_paths \<Rightarrow> fs \<Rightarrow> readback" where
  "start_readback rh ps f =
     \<lparr>rb_files = f, rb_checks = map (\<lambda>n. (n, ''FAIL'')) readback_checks,
      rb_evidence = map (\<lambda>n. (n, evidence_file ps n)) readback_checks @
        [(''command'', evidence_file ps ''command''), (''source'', rp_source ps), (''evaluator'', rh_script rh),
         (''stage-writer'', parent (rh_script rh) @ [''stage_report.py''])],
      rb_code = 1, rb_error = [], rb_frames = []\<rparr>"

definition readback_in :: "readback_host \<Rightarrow> readback_paths \<Rightarrow> json rb" where
  "readback_in rh ps =
     then_do (handle (readback_body rh ps) (note_failure ps)) (finish_readback rh ps)"

text \<open>What happens before the \<open>try\<close> block.\<close>

definition prepare :: "readback_host \<Rightarrow> fs \<Rightarrow> string \<Rightarrow> string \<Rightarrow> int \<Rightarrow> (readback_paths \<times> fs) result" where
  "prepare rh f program run_dir timeout =
     bind_result (resolve f (cwd (rh_host rh)) run_dir) (\<lambda>base.
     bind_result (make_dirs f [] base) (\<lambda>f1.
     req (vacant f1 (base @ [''stage-report.json''])) ''refusing to overwrite an existing stage report''
     (let work = base @ [''readback-'' @ rh_temp rh]; source = parent (rh_script rh) @ [''vulkan-readback.c''] in
      bind_result (make_work_dir f1 work) (\<lambda>f2.
      bind_result (resolve f2 (cwd (rh_host rh)) program) (\<lambda>p.
      bind_result (sha256_file (rh_host rh) f2 source) (\<lambda>d.
      let ps = \<lparr>rp_program = p, rp_run = base, rp_work = work, rp_source = source, rp_source_digest = d,
          rp_timeout = timeout\<rparr> in
      bind_result (write_json f2 (evidence_file ps ''command'') (JList (map JStr (readback_command ps)))) (\<lambda>f3.
        Inr (ps, f3))))))))"

definition run_readback :: "readback_host \<Rightarrow> fs \<Rightarrow> string \<Rightarrow> string \<Rightarrow> int \<Rightarrow> (json \<times> readback) result" where
  "run_readback rh f program run_dir timeout =
     bind_result (prepare rh f program run_dir timeout) (\<lambda>(ps, f1).
       case readback_in rh ps (start_readback rh ps f1) of
         (Inl e, s) \<Rightarrow> Inl e
       | (Inr report, s) \<Rightarrow> Inr (report, s))"

definition main :: "readback_host \<Rightarrow> fs \<Rightarrow> string \<Rightarrow> string \<Rightarrow> int \<Rightarrow> int result" where
  "main rh f program run_dir timeout =
     (if timeout \<le> 0 then Inl (SystemExit ''must be a positive integer'')
      else
        (case run_readback rh f program run_dir timeout of
           Inr (report, _) \<Rightarrow> Inr (exit_status report)
         | Inl e \<Rightarrow> if os_or_value e then Inr 2 else Inl e))"

end
