(* ===== verification/MeshBridge.thy ===== *)
theory MeshBridge
  imports BridgeReport
begin

text \<open>
  \<open>check_ue_meshbridge.py\<close>: six probes of the native MeshDescription bridge, run with core dumps disabled and
  the runtime library verified before each, and their stage report. The state is the file system, the core
  limit of the process, the local dictionaries of \<open>run_checks\<close>, and \<open>br_started\<close>, which the code does not
  keep: the commands of the probes that were started, with the core limit and the files each was started with.
  The native program, the listings of directories, \<open>setrlimit\<close>, the clock and the names \<open>mkdtemp\<close> chooses
  are arguments.
\<close>

section \<open>State\<close>

record case_result =
  cr_name :: string
  cr_status :: string
  cr_returncode :: "int option"
  cr_timed_out :: bool
  cr_expected :: int
  cr_seconds :: json
  cr_errors :: "string list"

record bridge =
  br_files :: fs
  br_limit :: "int \<times> int"
  br_errors :: "string list"
  br_disabled :: bool
  br_library :: "json option"
  br_evidence :: "(string \<times> path) list"
  br_sources :: "(string \<times> json) list"
  br_results :: "(string \<times> case_result) list"
  br_started :: "(string list \<times> (int \<times> int) \<times> fs) list"

type_synonym 'a br = "(bridge, 'a) effect"

text \<open>
  \<open>bh_tool argv\<close> is a probe: the files it leaves, its output and how it ends. \<open>bh_core now wanted\<close> is
  \<open>setrlimit\<close>, and \<open>bh_temp\<close> completes a prefix to a fresh name. \<open>bh_break argv\<close> is an exception that
  reaches the runner while the probe runs, such as \<open>KeyboardInterrupt\<close>; \<open>subprocess.run\<close> kills the
  probe and raises it again.
\<close>

record bridge_host =
  bh_host :: host
  bh_now :: string
  bh_python :: string
  bh_script :: path
  bh_below :: "fs \<Rightarrow> path \<Rightarrow> path list"
  bh_executable :: "fs \<Rightarrow> path \<Rightarrow> bool"
  bh_tool :: "string list \<Rightarrow> fs \<Rightarrow> fs \<times> bytes \<times> tool_end"
  bh_break :: "string list \<Rightarrow> py_error option"
  bh_core :: "int \<times> int \<Rightarrow> int \<times> int \<Rightarrow> unit result"
  bh_seconds :: "string \<Rightarrow> pyfloat"
  bh_temp :: "string \<Rightarrow> string"

record bridge_args =
  ba_program :: string
  ba_fixtures :: string
  ba_run_dir :: string
  ba_ue_root :: string
  ba_ue_commit :: string
  ba_assimp_report :: string
  ba_build_command :: string
  ba_timeout :: json

record bridge_paths =
  bp_program :: path
  bp_fixtures :: path
  bp_run :: path
  bp_ue :: path
  bp_assimp :: path
  bp_build :: path
  bp_work :: path

definition br_fs :: "(fs \<Rightarrow> 'a result) \<Rightarrow> 'a br" where
  "br_fs g = and_then (get_state br_files) (\<lambda>f. lift (g f))"

definition br_update :: "(fs \<Rightarrow> fs result) \<Rightarrow> unit br" where
  "br_update g = (\<lambda>s. case g (br_files s) of Inl e \<Rightarrow> (Inl e, s) | Inr f \<Rightarrow> (Inr (), s\<lparr>br_files := f\<rparr>))"

definition br_cite :: "(string \<times> path) list \<Rightarrow> unit br" where
  "br_cite xs = put_state (\<lambda>s. s\<lparr>br_evidence := fold (\<lambda>(n, p). dict_set n p) xs (br_evidence s)\<rparr>)"

definition br_complain :: "string \<Rightarrow> unit br" where
  "br_complain m = put_state (\<lambda>s. s\<lparr>br_errors := br_errors s @ [m]\<rparr>)"

definition br_require :: "bool \<Rightarrow> string \<Rightarrow> unit br" where
  "br_require ok m = (if ok then ret () else br_complain m)"

text \<open>\<open>except (...) as error: preflight["errors"].append(f"label: {error}")\<close>.\<close>

definition br_section :: "(py_error \<Rightarrow> bool) \<Rightarrow> string \<Rightarrow> unit br \<Rightarrow> unit br" where
  "br_section caught label m =
     handle m (\<lambda>e. if caught e then br_complain (label @ error_text e) else raise e)"

definition os_value_recursion :: "py_error \<Rightarrow> bool" where
  "os_value_recursion e \<longleftrightarrow> os_or_value e \<or> (case e of RecursionError _ \<Rightarrow> True | _ \<Rightarrow> False)"

section \<open>One probe\<close>

text \<open>\<open>open("ab")\<close> and a write: the file is made when it is missing.\<close>

definition append_bytes :: "fs \<Rightarrow> path \<Rightarrow> bytes \<Rightarrow> fs result" where
  "append_bytes f p b =
     bind_result (if exists_path f p then read_bytes f p else Inr []) (\<lambda>old. write_bytes f p (old @ b))"

definition probe_errors :: "py_error \<Rightarrow> bool" where
  "probe_errors e \<longleftrightarrow> os_value_recursion e \<or> (case e of OverflowError _ \<Rightarrow> True | _ \<Rightarrow> False)"

definition probe_argv :: "path \<Rightarrow> path option \<Rightarrow> path \<Rightarrow> string list" where
  "probe_argv program input raw =
     [path_text program, case input of None \<Rightarrow> ''-self-test'' | Some p \<Rightarrow> ''-input='' @ path_text p,
      ''-output='' @ path_text raw] @ runtime_flags"

definition case_result_json :: "case_result \<Rightarrow> json" where
  "case_result_json r =
     JObj [(''name'', JStr (cr_name r)), (''status'', JStr (cr_status r)),
       (''returncode'', case cr_returncode r of None \<Rightarrow> JNull | Some n \<Rightarrow> JInt n),
       (''timed_out'', JBool (cr_timed_out r)), (''expected_exit_code'', JInt (cr_expected r)),
       (''errors'', JList (map JStr (cr_errors r))), (''duration_seconds'', cr_seconds r)]"

definition new_result :: "string \<Rightarrow> string \<Rightarrow> case_result" where
  "new_result name kind =
     \<lparr>cr_name = name, cr_status = ''FAIL'', cr_returncode = None, cr_timed_out = False,
      cr_expected = expected_exit kind, cr_seconds = JNull, cr_errors = []\<rparr>"

definition run_probe :: "bridge_host \<Rightarrow> string list \<Rightarrow> path \<Rightarrow> tool_end br" where
  "run_probe bh argv out =
     then_do (br_update (\<lambda>f. create_new f out []))
     (then_do (put_state (\<lambda>s. s\<lparr>br_started := br_started s @ [(argv, br_limit s, br_files s)]\<rparr>))
     (and_then (get_state (\<lambda>s. bh_tool bh argv (br_files s))) (\<lambda>(f, output, ending).
      then_do (put_state (\<lambda>s. s\<lparr>br_files := f\<rparr>))
      (then_do (br_update (\<lambda>f. write_bytes f out output))
      (case bh_break bh argv of Some e \<Rightarrow> raise e | None \<Rightarrow> ret ending)))))"

text \<open>The body of the \<open>try\<close> block: what \<open>result\<close> holds when it ends, by an exception or not.\<close>

definition judge :: "fs \<Rightarrow> path \<Rightarrow> string \<Rightarrow> path option \<Rightarrow> int \<Rightarrow> json result" where
  "judge f raw kind input rc =
     bind_result (read_json_bytes f raw) (\<lambda>v. evaluate_report v rc kind (map_option path_text input))"

definition note_error :: "string \<Rightarrow> case_result \<Rightarrow> case_result" where
  "note_error m r = r\<lparr>cr_errors := cr_errors r @ [m]\<rparr>"

definition settle :: "(fs \<Rightarrow> path \<Rightarrow> string \<Rightarrow> path option \<Rightarrow> int \<Rightarrow> json result) \<Rightarrow>
    json \<Rightarrow> fs \<Rightarrow> path \<Rightarrow> string \<Rightarrow> path option \<Rightarrow> case_result \<Rightarrow> tool_end \<Rightarrow> case_result result" where
  "settle verdict timeout f raw kind input r ending =
     (case ending of
        Exited n \<Rightarrow>
          (case verdict f raw kind input n of
             Inr _ \<Rightarrow> Inr (r\<lparr>cr_returncode := Some n\<rparr>)
           | Inl e \<Rightarrow>
               if probe_errors e then Inr (note_error (error_text e) (r\<lparr>cr_returncode := Some n\<rparr>)) else Inl e)
      | TimedOut \<Rightarrow>
          Inr (note_error (''probe timed out after '' @ str_json timeout @ '' seconds'') (r\<lparr>cr_timed_out := True\<rparr>))
      | NotStarted m \<Rightarrow> Inr (note_error m r))"

definition probe_outcome ::
  "bridge_host \<Rightarrow> bridge_args \<Rightarrow> path \<Rightarrow> string \<Rightarrow> string \<Rightarrow> path option \<Rightarrow> path \<Rightarrow> case_result br"
where
  "probe_outcome bh a program name kind input dir =
     handle
       (and_then (run_probe bh (probe_argv program input (dir @ [''raw.json''])) (dir @ [''process.log''])) (\<lambda>ending.
        br_fs (\<lambda>f. settle judge (ba_timeout a) f (dir @ [''raw.json'']) kind input (new_result name kind) ending)))
       (\<lambda>e. if probe_errors e then ret (note_error (error_text e) (new_result name kind)) else raise e)"

definition runner_note :: "case_result \<Rightarrow> bytes" where
  "runner_note r = [newline_char] @ ''runner: '' @ join_with ''; '' (cr_errors r) @ [newline_char]"

definition close_result :: "path \<Rightarrow> case_result \<Rightarrow> case_result br" where
  "close_result dir r =
     (if cr_errors r = [] then ret (r\<lparr>cr_status := ''PASS''\<rparr>)
      else then_do (br_update (\<lambda>f. append_bytes f (dir @ [''process.log'']) (runner_note r))) (ret r))"

definition probe_files :: "string \<Rightarrow> path \<Rightarrow> (string \<times> path) list" where
  "probe_files name dir =
     [(name, dir @ [''result.json'']), (name @ ''.raw'', dir @ [''raw.json'']),
      (name @ ''.command'', dir @ [''command.json'']), (name @ ''.log'', dir @ [''process.log''])]"

definition invoke ::
  "bridge_host \<Rightarrow> bridge_args \<Rightarrow> path \<Rightarrow> path \<Rightarrow> string \<Rightarrow> string \<Rightarrow> path option \<Rightarrow> case_result br"
where
  "invoke bh a program work name kind input =
     (let dir = work @ [name @ ''-'' @ bh_temp bh name] in
      then_do (br_update (\<lambda>f. make_work_dir f dir))
      (then_do (br_update (\<lambda>f. write_json f (dir @ [''command.json''])
          (JList (map JStr (probe_argv program input (dir @ [''raw.json'']))))))
      (and_then (probe_outcome bh a program name kind input dir) (\<lambda>r.
       and_then (close_result dir (r\<lparr>cr_seconds := JFloat (bh_seconds bh name)\<rparr>)) (\<lambda>r'.
       then_do (br_update (\<lambda>f. write_json f (dir @ [''result.json'']) (case_result_json r'))) (ret r'))))))"

section \<open>Preflight\<close>

definition artifact_names :: "string list" where
  "artifact_names =
     [''build.log'', ''ubt.log'', ''architecture.txt'', ''linkage.log'', ''unchanged-sources.log'',
      ''prerequisite.log'', ''ue-commit.txt'']"

definition artifact_endings :: "string list" where
  "artifact_endings = [''.sha256'', ''.patch'', ''.diff'']"

definition artifacts_in :: "bridge_host \<Rightarrow> fs \<Rightarrow> path \<Rightarrow> path list" where
  "artifacts_in bh f dir =
     [p \<leftarrow> map (\<lambda>n. dir @ [n]) artifact_names. exists_path f p]
     @ concat (map (\<lambda>ending. with_ending ending [p \<leftarrow> bh_below bh f dir. length p = Suc (length dir)]) artifact_endings)"

text \<open>\<open>sorted\<close> of the set of paths, numbered.\<close>

definition build_evidence :: "bridge_host \<Rightarrow> fs \<Rightarrow> path \<Rightarrow> path \<Rightarrow> (string \<times> path) list" where
  "build_evidence bh f run build =
     map (\<lambda>(i, p). (''build-artifact.'' @ show_nat i @ ''.'' @ base_name p, p))
       (enumerate 0 (sort (remdups (build # artifacts_in bh f run @ artifacts_in bh f (parent build)))))"

definition full_commit :: "string \<Rightarrow> bool" where
  "full_commit s \<longleftrightarrow> (length s = 40 \<or> length s = 64) \<and> list_all is_any_hex s"

definition check_inputs :: "bridge_host \<Rightarrow> bridge_args \<Rightarrow> bridge_paths \<Rightarrow> unit br" where
  "check_inputs bh a ps =
     and_then (get_state br_files) (\<lambda>f.
     then_do (br_require (is_file f (bp_program ps) \<and> bh_executable bh f (bp_program ps))
       (''program is not an executable file: '' @ path_text (bp_program ps)))
     (then_do (br_require (is_dir f (bp_ue ps)) (''UE root is not a directory: '' @ path_text (bp_ue ps)))
     (br_require (full_commit (ba_ue_commit a)) ''ue_commit must be the full actual UE git commit'')))"

definition argv_ok :: "json \<Rightarrow> bool" where
  "argv_ok v \<longleftrightarrow>
     is_list v \<and> list_items v \<noteq> [] \<and> is_str (hd (list_items v)) \<and> strip (str_of (hd (list_items v))) \<noteq> [] \<and>
     all_str (list_items v)"

definition check_provenance :: "fs \<Rightarrow> bridge_args \<Rightarrow> bridge_paths \<Rightarrow> unit result" where
  "check_provenance f a ps =
     bind_result (read_json_bytes f (bp_build ps)) (\<lambda>v.
     req (argv_ok v) ''build-command must be a nonempty JSON argv list''
     (let commit = bp_run ps @ [''ue-commit.txt''] in
      if exists_path f commit then
        bind_result (read_text f commit) (\<lambda>t.
          require (strip t = ba_ue_commit a) ''ue-commit.txt disagrees with --ue-commit'')
      else Inr ()))"

text \<open>\<open>sources["assimp"]\<close> is set before the library is examined.\<close>

definition runtime_library :: "bridge_paths \<Rightarrow> path" where
  "runtime_library ps = parent (bp_program ps) @ [''libassimp.so.6'']"

definition library_json :: "bridge_paths \<Rightarrow> string \<Rightarrow> string \<Rightarrow> json" where
  "library_json ps actual expected =
     JObj [(''path'', JStr (path_text (runtime_library ps))), (''sha256'', JStr actual),
       (''prerequisite_sha256'', JStr expected)]"

definition expected_library :: "json \<Rightarrow> string" where
  "expected_library report = str_of (field ''sha256'' (field ''library'' (field ''evidence'' report)))"

definition check_assimp :: "bridge_host \<Rightarrow> bridge_paths \<Rightarrow> string br" where
  "check_assimp bh ps =
     and_then (br_fs (\<lambda>f. validate_report (bh_host bh) f (path_text (bp_assimp ps)) assimp_stage assimp_scope)) (\<lambda>report.
     then_do (check (has_field ''assimp'' (field ''sources'' report))
       ''Assimp prerequisite is missing named assimp source provenance'')
     (then_do (put_state (\<lambda>s. s\<lparr>br_sources := dict_set ''assimp'' (field ''assimp'' (field ''sources'' report)) (br_sources s)\<rparr>))
     (then_do (check (has_field ''library'' (field ''evidence'' report))
       ''Assimp prerequisite is missing named library evidence'')
     (and_then (br_fs (\<lambda>f. verify_runtime_library (bh_host bh) f (runtime_library ps) (expected_library report))) (\<lambda>actual.
      then_do (put_state (\<lambda>s. s\<lparr>br_library := Some (library_json ps actual (expected_library report))\<rparr>))
      (ret (expected_library report)))))))"

text \<open>The expected digest stays \<open>None\<close> after an error; it is not used then.\<close>

definition assimp_section :: "bridge_host \<Rightarrow> bridge_paths \<Rightarrow> string option br" where
  "assimp_section bh ps =
     handle (and_then (check_assimp bh ps) (\<lambda>d. ret (Some d)))
       (\<lambda>e. if os_value_recursion e then then_do (br_complain (''Assimp prerequisite: '' @ error_text e)) (ret None)
         else raise e)"

definition check_fixture :: "bridge_paths \<Rightarrow> string \<Rightarrow> unit br" where
  "check_fixture ps name =
     (let p = bp_fixtures ps @ [name] in
      then_do (br_cite [(''fixture.'' @ name, p)])
      (and_then (get_state br_files) (\<lambda>f.
        br_require (nonempty_file f p) (''missing or empty fixture: '' @ path_text p))))"

definition fixture_names :: "string list" where
  "fixture_names = concat (map (\<lambda>(_, file, _). case file of None \<Rightarrow> [] | Some n \<Rightarrow> [n]) bridge_cases)"

definition truncated_path :: "bridge_paths \<Rightarrow> path" where
  "truncated_path ps = bp_work ps @ [''truncated.fbx'']"

definition make_truncated :: "bridge_paths \<Rightarrow> unit br" where
  "make_truncated ps =
     and_then (br_fs (\<lambda>f. read_bytes f (bp_fixtures ps @ [''BlenderCube.fbx'']))) (\<lambda>b.
     then_do (check (32 < length (take 33 b)) ''BlenderCube must exceed 32 bytes for the truncation case'')
     (then_do (br_update (\<lambda>f. write_bytes f (truncated_path ps) (take 32 b)))
     (br_cite [(''fixture.truncated'', truncated_path ps)])))"

definition preflight :: "bridge_host \<Rightarrow> bridge_args \<Rightarrow> bridge_paths \<Rightarrow> string option br" where
  "preflight bh a ps =
     then_do (check_inputs bh a ps)
     (then_do (br_section os_value_recursion ''build provenance: '' (br_fs (\<lambda>f. check_provenance f a ps)))
     (and_then (assimp_section bh ps) (\<lambda>expected.
      then_do (do_each (check_fixture ps) fixture_names)
      (then_do (br_section os_or_value ''truncated fixture: '' (make_truncated ps)) (ret expected)))))"

section \<open>The run\<close>

definition set_limit :: "bridge_host \<Rightarrow> int \<times> int \<Rightarrow> unit br" where
  "set_limit bh wanted = (\<lambda>s.
     case bh_core bh (br_limit s) wanted of
       Inl e \<Rightarrow> (Inl e, s)
     | Inr _ \<Rightarrow> (Inr (), s\<lparr>br_limit := wanted\<rparr>))"

definition record_result :: "string \<Rightarrow> case_result \<Rightarrow> unit br" where
  "record_result name r = put_state (\<lambda>s. s\<lparr>br_results := dict_set name r (br_results s)\<rparr>)"

definition verify_library :: "bridge_host \<Rightarrow> bridge_paths \<Rightarrow> string \<Rightarrow> unit br" where
  "verify_library bh ps expected =
     and_then (br_fs (\<lambda>f. verify_runtime_library (bh_host bh) f (runtime_library ps) expected)) (\<lambda>_. ret ())"

definition case_input :: "bridge_paths \<Rightarrow> bridge_case \<Rightarrow> path option" where
  "case_input ps c =
     (case c of (name, file, kind) \<Rightarrow>
        if kind = ''truncated'' then Some (truncated_path ps)
        else map_option (\<lambda>n. bp_fixtures ps @ [n]) file)"

text \<open>The loop over the cases: \<open>before\<close> verifies the files, \<open>call\<close> runs one probe.\<close>

definition probe_case ::
  "unit br \<Rightarrow> (string \<Rightarrow> string \<Rightarrow> path option \<Rightarrow> case_result br) \<Rightarrow> (bridge_case \<Rightarrow> path option) \<Rightarrow>
   (string \<Rightarrow> (string \<times> path) list) \<Rightarrow> bridge_case \<Rightarrow> unit br"
where
  "probe_case before call inp files c =
     (case c of (name, fixture, kind) \<Rightarrow>
        then_do before
        (and_then (call name kind (inp c)) (\<lambda>r.
         then_do (record_result name r) (br_cite (files name)))))"

definition probe_all ::
  "unit br \<Rightarrow> (string \<Rightarrow> string \<Rightarrow> path option \<Rightarrow> case_result br) \<Rightarrow> (bridge_case \<Rightarrow> path option) \<Rightarrow>
   (string \<Rightarrow> (string \<times> path) list) \<Rightarrow> unit br"
where
  "probe_all before call inp files = then_do (do_each (probe_case before call inp files) bridge_cases) before"

definition run_cases :: "bridge_host \<Rightarrow> bridge_args \<Rightarrow> bridge_paths \<Rightarrow> string \<Rightarrow> unit br" where
  "run_cases bh a ps expected =
     probe_all (verify_library bh ps expected) (invoke bh a (bp_program ps) (bp_work ps)) (case_input ps)
       (\<lambda>name. probe_files name (bp_work ps @ [name @ ''-'' @ bh_temp bh name]))"

text \<open>\<open>getrlimit\<close> of the core size does not fail; the saved limit is the one the process had.\<close>

definition without_cores :: "bridge_host \<Rightarrow> unit br \<Rightarrow> unit br" where
  "without_cores bh body =
     and_then (get_state br_limit) (\<lambda>saved.
     then_do (set_limit bh (0, snd saved))
     (then_do (put_state (\<lambda>s. s\<lparr>br_disabled := True\<rparr>)) body))"

text \<open>\<open>finally\<close>: what the block raised is raised again after the limit is restored.\<close>

definition restore_limit :: "bridge_host \<Rightarrow> string \<Rightarrow> int \<times> int \<Rightarrow> unit br" where
  "restore_limit bh label saved =
     and_then (get_state br_disabled) (\<lambda>disabled.
       if disabled then br_section os_or_value label (set_limit bh saved) else ret ())"

definition guarded_run ::
  "bridge_host \<Rightarrow> (py_error \<Rightarrow> bool) \<Rightarrow> string \<Rightarrow> string \<Rightarrow> unit br \<Rightarrow> unit br"
where
  "guarded_run bh caught setup restoring body =
     and_then (get_state br_limit) (\<lambda>saved.
       and_then
         (handle (br_section caught setup (without_cores bh body))
           (\<lambda>e. then_do (restore_limit bh restoring saved) (raise e)))
         (\<lambda>_. restore_limit bh restoring saved))"

definition run_all :: "bridge_host \<Rightarrow> bridge_args \<Rightarrow> bridge_paths \<Rightarrow> string option \<Rightarrow> unit br" where
  "run_all bh a ps expected =
     and_then (get_state br_errors) (\<lambda>errs.
       if errs = [] then
         (case expected of
            Some d \<Rightarrow> guarded_run bh os_or_value ''runner setup: '' ''restoring core limit: '' (run_cases bh a ps d)
          | None \<Rightarrow> ret ())
       else ret ())"

section \<open>The report\<close>

definition preflight_status :: "bridge \<Rightarrow> string" where
  "preflight_status s = (if br_errors s = [] then ''PASS'' else ''FAIL'')"

definition preflight_json :: "bridge \<Rightarrow> json" where
  "preflight_json s =
     JObj ([(''status'', JStr (preflight_status s)), (''errors'', JList (map JStr (br_errors s))),
       (''core_dumps_disabled'', JBool (br_disabled s))]
       @ (case br_library s of None \<Rightarrow> [] | Some v \<Rightarrow> [(''runtime_library'', v)]))"

definition not_run_json :: "string \<Rightarrow> json" where
  "not_run_json name =
     JObj [(''name'', JStr name), (''status'', JStr ''MISSING''), (''returncode'', JNull),
       (''errors'', JList [JStr ''not run because preflight/setup failed''])]"

definition missing_result :: "string \<Rightarrow> case_result" where
  "missing_result name =
     \<lparr>cr_name = name, cr_status = ''MISSING'', cr_returncode = None, cr_timed_out = False, cr_expected = 0,
      cr_seconds = JNull, cr_errors = [''not run because preflight/setup failed'']\<rparr>"

definition fill_result :: "(string \<Rightarrow> json) \<Rightarrow> path \<Rightarrow> string \<Rightarrow> unit br" where
  "fill_result not_run work name =
     and_then (get_state br_results) (\<lambda>rs.
       if name \<in> set (map fst rs) then ret ()
       else
         (let p = work @ [name @ ''.not-run.json''] in
          then_do (record_result name (missing_result name))
          (then_do (br_update (\<lambda>f. write_json f p (not_run name))) (br_cite [(name, p)]))))"

definition write_preflight :: "path \<Rightarrow> unit br" where
  "write_preflight work =
     (let p = work @ [''preflight.json''] in
      and_then (get_state preflight_json) (\<lambda>v.
      then_do (br_update (\<lambda>f. write_json f p v)) (br_cite [(''preflight'', p)])))"

definition bridge_checks :: "bridge \<Rightarrow> (string \<times> string) list" where
  "bridge_checks s = (''preflight'', preflight_status s) # map (\<lambda>(n, r). (n, cr_status r)) (br_results s)"

definition bridge_command :: "bridge_host \<Rightarrow> bridge_args \<Rightarrow> bridge_paths \<Rightarrow> string list" where
  "bridge_command bh a ps =
     [bh_python bh, path_text (bh_script bh)]
     @ concat (map (\<lambda>(n, v). [''--'' @ n, v])
         [(''program'', path_text (bp_program ps)), (''fixtures'', path_text (bp_fixtures ps)),
          (''run-dir'', path_text (bp_run ps)), (''ue-root'', path_text (bp_ue ps)),
          (''ue-commit'', ba_ue_commit a), (''assimp-report'', path_text (bp_assimp ps)),
          (''build-command'', path_text (bp_build ps)), (''timeout-seconds'', str_json (ba_timeout a))])"

definition bridge_code :: "bridge \<Rightarrow> int" where
  "bridge_code s = (if all_checks_pass (bridge_checks s) then 0 else 1)"

definition report_args ::
  "string \<Rightarrow> string \<Rightarrow> string list \<Rightarrow> (string \<times> string \<times> string) list \<Rightarrow> bridge \<Rightarrow> write_args"
where
  "report_args stage scope command prerequisites s =
     \<lparr>wa_stage_id = stage, wa_scope = scope, wa_exit_code = JInt (bridge_code s),
      wa_required = JList (map JStr required_cases),
      wa_checks = JObj (map (\<lambda>(n, v). (n, JStr v)) (bridge_checks s)),
      wa_evidence = map (\<lambda>(n, p). (n, path_text p)) (br_evidence s),
      wa_sources = JObj (br_sources s), wa_command = JList (map JStr command),
      wa_prerequisites = prerequisites\<rparr>"

definition bridge_report :: "bridge_host \<Rightarrow> path \<Rightarrow> (bridge \<Rightarrow> write_args) \<Rightarrow> json br" where
  "bridge_report bh p args = (\<lambda>s.
     case write_report (bh_host bh) (br_files s) (bh_now bh) (path_text p) (args s) of
       Inl e \<Rightarrow> (Inl e, s)
     | Inr (report, f) \<Rightarrow> (Inr report, s\<lparr>br_files := f\<rparr>))"

definition finish_run ::
  "bridge_host \<Rightarrow> (string \<Rightarrow> json) \<Rightarrow> path \<Rightarrow> path \<Rightarrow> (bridge \<Rightarrow> write_args) \<Rightarrow> json br"
where
  "finish_run bh not_run run work args =
     then_do (write_preflight work)
     (then_do (do_each (fill_result not_run work) (map fst bridge_cases))
     (bridge_report bh (run @ [''stage-report.json'']) args))"

definition own_evidence :: "bridge_host \<Rightarrow> bridge_paths \<Rightarrow> (string \<times> path) list" where
  "own_evidence bh ps =
     [(''program'', bp_program ps), (''runtime-library'', runtime_library ps), (''evaluator'', bh_script bh),
      (''stage-report-writer'', parent (bh_script bh) @ [''stage_report.py''])]"

definition ue_entry :: "bridge_args \<Rightarrow> bridge_paths \<Rightarrow> string \<times> json" where
  "ue_entry a ps =
     (''ue'', JObj [(''location'', JStr (path_text (bp_ue ps))), (''revision'', JStr (ba_ue_commit a))])"

definition prologue :: "bridge_host \<Rightarrow> bridge_args \<Rightarrow> bridge_paths \<Rightarrow> string option br" where
  "prologue bh a ps =
     then_do (put_state (\<lambda>s. s\<lparr>br_sources := [ue_entry a ps],
       br_evidence := build_evidence bh (br_files s) (bp_run ps) (bp_build ps)\<rparr>))
     (then_do (br_cite (own_evidence bh ps)) (preflight bh a ps))"

definition run_in :: "bridge_host \<Rightarrow> bridge_args \<Rightarrow> bridge_paths \<Rightarrow> json br" where
  "run_in bh a ps =
     and_then (prologue bh a ps) (\<lambda>expected.
     then_do (run_all bh a ps expected)
     (finish_run bh not_run_json (bp_run ps) (bp_work ps)
       (report_args bridge_stage bridge_scope (bridge_command bh a ps)
         [(assimp_stage, assimp_scope, path_text (bp_assimp ps))])))"

definition timeout_ok :: "json \<Rightarrow> bool" where
  "timeout_ok v \<longleftrightarrow> is_number v \<and> num_less (JInt 0) v \<and> num_le v (JInt max_timeout_seconds)"

definition resolve_args :: "bridge_host \<Rightarrow> fs \<Rightarrow> bridge_args \<Rightarrow> bridge_paths result" where
  "resolve_args bh f a =
     (let r = resolve f (cwd (bh_host bh)) in
      bind_result (r (ba_program a)) (\<lambda>program. bind_result (r (ba_fixtures a)) (\<lambda>fixtures.
      bind_result (r (ba_run_dir a)) (\<lambda>run. bind_result (r (ba_ue_root a)) (\<lambda>ue.
      bind_result (r (ba_assimp_report a)) (\<lambda>assimp. bind_result (r (ba_build_command a)) (\<lambda>build.
        Inr \<lparr>bp_program = program, bp_fixtures = fixtures, bp_run = run, bp_ue = ue, bp_assimp = assimp,
          bp_build = build, bp_work = run @ [''meshbridge-checks-'' @ bh_temp bh ''meshbridge-checks'']\<rparr>)))))))"

definition start_bridge :: "int \<times> int \<Rightarrow> fs \<Rightarrow> bridge" where
  "start_bridge limit f =
     \<lparr>br_files = f, br_limit = limit, br_errors = [], br_disabled = False, br_library = None, br_evidence = [],
      br_sources = [], br_results = [], br_started = []\<rparr>"

definition open_work :: "string \<Rightarrow> fs \<Rightarrow> path \<Rightarrow> path \<Rightarrow> fs result" where
  "open_work label f run work =
     bind_result (make_dirs f [] run) (\<lambda>f1.
     req (vacant f1 (run @ [''stage-report.json'']))
       (label @ path_text (run @ [''stage-report.json''])) (make_work_dir f1 work))"

definition run_checks :: "bridge_host \<Rightarrow> bridge_args \<Rightarrow> int \<times> int \<Rightarrow> fs \<Rightarrow> json result \<times> bridge" where
  "run_checks bh a limit f =
     (case req (timeout_ok (ba_timeout a)) ''timeout_seconds must be in (0, 300]''
         (bind_result (resolve_args bh f a) (\<lambda>ps.
          bind_result (open_work ''refusing to overwrite an existing stage report: '' f (bp_run ps) (bp_work ps)) (\<lambda>f1.
            Inr (ps, f1)))) of
        Inl e \<Rightarrow> (Inl e, start_bridge limit f)
      | Inr (ps, f1) \<Rightarrow> run_in bh a ps (start_bridge limit f1))"

definition main :: "bridge_host \<Rightarrow> bridge_args \<Rightarrow> int \<times> int \<Rightarrow> fs \<Rightarrow> int result" where
  "main bh a limit f =
     (case fst (run_checks bh a limit f) of
        Inl e \<Rightarrow> if os_or_value e then Inr 1 else Inl e
      | Inr report \<Rightarrow> Inr (exit_status report))"

end
