(* ===== verification/BridgeFacts.thy ===== *)
theory BridgeFacts
  imports MeshBridge StageReportRoundtrip
begin

text \<open>
  Facts about the runs of the bridge checkers: \<open>steady I m\<close> says that \<open>m\<close> keeps \<open>I\<close>, whether it returns or
  raises. The locale \<open>kept\<close> states which invariants only depend on the core limit, the started probes and the
  results, and shows once that the steps around the probes keep them. What a report has to say in each case is
  stated apart from the checks, in \<open>mesh_report\<close>.
\<close>

section \<open>Invariants of effects\<close>

definition steady :: "('s \<Rightarrow> bool) \<Rightarrow> ('s, 'a) effect \<Rightarrow> bool" where
  "steady I m \<longleftrightarrow> keeps I m (\<lambda>_. I) (\<lambda>_. I)"

lemma steadyI: "(\<And>s. I s \<Longrightarrow> I (snd (m s))) \<Longrightarrow> steady I m"
  by (force simp: steady_def keeps_def split: prod.splits sum.splits)

lemma steadyD: "steady I m \<Longrightarrow> I s \<Longrightarrow> I (snd (m s))"
  by (cases "m s"; cases "fst (m s)") (auto simp: steady_def keeps_def)

lemma steady_step: "steady I m \<Longrightarrow> m s = (r, t) \<Longrightarrow> I s \<Longrightarrow> I t"
  using steadyD [of I m s] by simp

lemma steady_and_then: "steady I m \<Longrightarrow> (\<And>x. steady I (k x)) \<Longrightarrow> steady I (and_then m k)"
  unfolding steady_def by (rule keeps_and_then)

lemma steady_then_do: "steady I m \<Longrightarrow> steady I k \<Longrightarrow> steady I (then_do m k)"
  by (simp add: then_do_def steady_and_then)

lemma steady_handle: "steady I m \<Longrightarrow> (\<And>e. steady I (k e)) \<Longrightarrow> steady I (handle m k)"
  unfolding steady_def by (rule keeps_handle)

lemma steady_do_each: "(\<And>x. x \<in> set xs \<Longrightarrow> steady I (f x)) \<Longrightarrow> steady I (do_each f xs)"
  unfolding steady_def by (rule keeps_do_each)

lemma steady_basic [intro, simp]:
  "steady I (ret x)" "steady I (raise e)" "steady I (lift r)" "steady I (get_state f)" "steady I (check c msg)"
  by (simp_all add: steady_def keeps_basic split: sum.split)

lemmas steady_intros = steady_and_then steady_then_do steady_handle steady_do_each

section \<open>The steps around the probes\<close>

definition untouched :: "bridge \<Rightarrow> bridge \<Rightarrow> bool" where
  "untouched s t \<longleftrightarrow>
     br_limit t = br_limit s \<and> br_started t = br_started s \<and> br_results t = br_results s \<and>
     br_disabled t = br_disabled s \<and> set (br_errors s) \<subseteq> set (br_errors t)"

locale kept =
  fixes I :: "bridge \<Rightarrow> bool"
  assumes kept: "I s \<Longrightarrow> untouched s t \<Longrightarrow> I t"
begin

lemma steady_put: "(\<And>s. untouched s (g s)) \<Longrightarrow> steady I (put_state g)"
  by (rule steadyI) (simp add: kept)

lemma steady_files [simp]: "steady I (br_fs g)"
  by (simp add: br_fs_def steady_and_then)

lemma steady_update [simp]: "steady I (br_update g)"
  by (rule steadyI) (auto simp: br_update_def untouched_def split: sum.split intro: kept)

lemma steady_cite [simp]: "steady I (br_cite xs)"
  unfolding br_cite_def by (rule steady_put) (simp add: untouched_def)

lemma steady_complain [simp]: "steady I (br_complain m)"
  unfolding br_complain_def by (rule steady_put) (auto simp: untouched_def)

lemma steady_require [simp]: "steady I (br_require ok m)"
  by (simp add: br_require_def)

lemma steady_section: "steady I m \<Longrightarrow> steady I (br_section caught label m)"
  by (simp add: br_section_def steady_handle)

lemma steady_check_inputs: "steady I (check_inputs bh a ps)"
  unfolding check_inputs_def by (intro steady_intros) auto

lemma steady_check_assimp: "steady I (check_assimp bh ps)"
  unfolding check_assimp_def by (intro steady_intros steady_put) (auto simp: untouched_def)

lemma steady_fixture: "steady I (check_fixture ps name)"
  unfolding check_fixture_def Let_def by (intro steady_intros) auto

lemma steady_truncated: "steady I (make_truncated ps)"
  unfolding make_truncated_def by (intro steady_intros) auto

lemma steady_assimp_section: "steady I (assimp_section bh ps)"
  unfolding assimp_section_def by (intro steady_intros steady_check_assimp) (auto intro: steady_then_do)

lemma steady_preflight: "steady I (preflight bh a ps)"
  unfolding preflight_def
  by (intro steady_intros steady_check_inputs steady_assimp_section steady_section steady_fixture steady_truncated) auto

lemma steady_verify: "steady I (verify_library bh ps d)"
  unfolding verify_library_def by (intro steady_intros) auto

lemma steady_write_preflight: "steady I (write_preflight work)"
  unfolding write_preflight_def Let_def by (intro steady_intros) auto

lemma steady_report: "steady I (bridge_report bh p args)"
  by (rule steadyI) (auto simp: bridge_report_def untouched_def split: sum.split intro: kept)

lemma steady_close: "steady I (close_result dir r)"
  unfolding close_result_def by (auto intro: steady_then_do)

end

section \<open>The reports of the cases\<close>

text \<open>
  What a report has to say in each case, independently of the order and form of the checks of
  \<open>evaluate_report\<close>: numbers are compared by the rational they denote.
\<close>

definition number_value :: "json \<Rightarrow> rat option" where
  "number_value v = (case v of JInt i \<Rightarrow> Some (of_int i) | JFloat x \<Rightarrow> float_val x | _ \<Rightarrow> None)"

definition counts :: "int \<Rightarrow> json \<Rightarrow> bool" where
  "counts least v \<longleftrightarrow> (\<exists>n. number_value v = Some (of_int n) \<and> least \<le> n \<and> n < 2 ^ 63)"

definition rejected :: "string \<Rightarrow> bool" where
  "rejected kind \<longleftrightarrow> kind = ''unsupported'' \<or> kind = ''truncated''"

definition exit_of :: "string \<Rightarrow> int" where
  "exit_of kind = (if rejected kind then 2 else 0)"

definition box_of :: "json \<Rightarrow> bool" where
  "box_of v \<longleftrightarrow>
     (\<exists>x0 y0 z0 x1 y1 z1. map number_value (list_items v) = [Some x0, Some y0, Some z0, Some x1, Some y1, Some z1] \<and>
        x0 \<le> x1 \<and> y0 \<le> y1 \<and> z0 \<le> z1)"

text \<open>The part that is the same for both backends.\<close>

definition outcome_report :: "string \<Rightarrow> string option \<Rightarrow> json \<Rightarrow> bool" where
  "outcome_report kind input v \<longleftrightarrow>
     field ''status'' v = JStr (if rejected kind then ''FAIL'' else ''PASS'') \<and>
     field ''input'' v = JStr (case input of None \<Rightarrow> [] | Some p \<Rightarrow> p) \<and>
     (\<exists>e. field ''error'' v = JStr e \<and> (if rejected kind then strip e \<noteq> [] else e = []) \<and>
        (kind = ''unsupported'' \<longrightarrow> contains_text ''unsupported'' (lower_text e))) \<and>
     (rejected kind \<longrightarrow>
        list_all (\<lambda>n. number_value (field n v) = Some 0) [''vertices'', ''triangles'', ''material_slots'', ''serialized_bytes'']) \<and>
     (kind = ''self-test'' \<longrightarrow> counts 25 (field ''self_tests'' v)) \<and>
     (kind = ''static'' \<or> kind = ''materials'' \<longrightarrow>
        counts 1 (field ''vertices'' v) \<and> counts 1 (field ''triangles'' v) \<and> counts 1 (field ''serialized_bytes'' v) \<and>
        counts (if kind = ''materials'' then 2 else 1) (field ''material_slots'' v) \<and>
        box_of (field ''bounds_cm'' v))"

definition mesh_report :: "string \<Rightarrow> string option \<Rightarrow> json \<Rightarrow> bool" where
  "mesh_report kind input v \<longleftrightarrow>
     is_obj v \<and> field ''stage'' v = JStr ''ue-meshdescription-static'' \<and>
     field ''scope'' v = JStr ''UE FMeshDescription in-memory bridge; not UStaticMesh, Editor or Cook'' \<and>
     field ''coordinate_policy'' v = JStr ''FBX Front/Coord/Up to UE X/Y/Z, centimeters, UV V flip'' \<and>
     outcome_report kind input v"

lemma exit_of_kind: "expected_exit kind = exit_of kind" "negative_kind kind = rejected kind"
  by (auto simp: expected_exit_def exit_of_def negative_kind_def rejected_def)

lemma count_ok_counts: "count_ok least v \<Longrightarrow> counts least v"
proof (cases v)
  case (JFloat x)
  assume "count_ok least v"
  with JFloat obtain q where q: "float_val x = Some q" "of_int least \<le> q" "q \<le> of_int max_count" "of_int \<lfloor>q\<rfloor> = q"
    by (auto simp: count_ok_def split: option.splits)
  define n where "n = \<lfloor>q\<rfloor>"
  have n: "q = of_int n" unfolding n_def by (rule q(4) [symmetric])
  from q(2,3) have "least \<le> n" "n \<le> max_count" by (simp_all only: n of_int_le_iff)
  with q(1) n JFloat show ?thesis by (auto simp: counts_def number_value_def max_count_def)
qed (auto simp: count_ok_def counts_def number_value_def max_count_def)

lemma check_count_Inr: "check_count v name least = Inr () \<Longrightarrow> counts least (field name v)"
  by (auto simp: check_count_def intro: count_ok_counts)

lemma zero_value: "counts least v \<Longrightarrow> py_eq v (JInt 0) \<Longrightarrow> number_value v = Some 0"
  by (cases v) (auto simp: counts_def number_value_def float_eq_def)

lemma finite_number_value: "finite_item v = Inr True \<Longrightarrow> \<exists>q. number_value v = Some q"
  by (cases v) (auto simp: finite_item_def is_number_def is_finite_number_def is_finite_iff number_value_def)

lemma value_order:
  assumes "number_value v = Some a" and "number_value w = Some b"
  shows "num_less v w \<longleftrightarrow> a < b"
proof -
  have "float_less x y \<longleftrightarrow> a < b" if "float_val x = Some a" "float_val y = Some b" for x y
    using that by (cases x; cases y) auto
  with assms show ?thesis by (cases v; cases w) (auto simp: num_less_def number_value_def)
qed

lemma bounds_box: "bounds_ok v = Inr True \<Longrightarrow> box_of v"
proof -
  assume ok: "bounds_ok v = Inr True"
  then have len: "length (list_items v) = 6" and fin: "all_result finite_item (list_items v) = Inr True"
    and ord: "ordered_bounds (list_items v)" by (auto simp: bounds_ok_def split: if_splits)
  obtain a b c d e f where xs: "list_items v = [a, b, c, d, e, f]"
    using len by (auto simp: numeral_eq_Suc length_Suc_conv)
  from fin have items: "finite_item x = Inr True" if "x \<in> set (list_items v)" for x
    using that by (auto simp: all_result_True)
  obtain qa qb qc qd qe qf where q: "number_value a = Some qa" "number_value b = Some qb" "number_value c = Some qc"
      "number_value d = Some qd" "number_value e = Some qe" "number_value f = Some qf"
    using items finite_number_value unfolding xs by (meson list.set_intros)
  from ord have "qa \<le> qd" "qb \<le> qe" "qc \<le> qf"
    using value_order [OF q(4) q(1)] value_order [OF q(5) q(2)] value_order [OF q(6) q(3)]
    by (auto simp: ordered_bounds_def xs)
  with q show ?thesis by (simp add: box_of_def xs)
qed

lemma check_kind_outcome:
  assumes "check_kind kind v = Inr ()" and "kind \<in> set known_kinds"
    and "field ''status'' v = JStr (if rejected kind then ''FAIL'' else ''PASS'')"
    and "field ''input'' v = JStr (case input of None \<Rightarrow> [] | Some p \<Rightarrow> p)"
    and "error_field_ok kind (field ''error'' v)"
    and base: "list_all (\<lambda>n. counts 0 (field n v)) mesh_counts"
  shows "outcome_report kind input v"
proof -
  from assms(5) obtain e where e: "field ''error'' v = JStr e" "if rejected kind then strip e \<noteq> [] else e = []"
    by (cases "field ''error'' v") (auto simp: error_field_ok_def exit_of_kind split: if_splits)
  have "rejected kind \<or> kind = ''self-test'' \<or> kind = ''static'' \<or> kind = ''materials''"
    using assms(2) by (auto simp: known_kinds_def rejected_def)
  then consider "rejected kind" | "kind = ''self-test''" | "kind = ''static'' \<or> kind = ''materials''" by argo
  then show ?thesis
  proof cases
    case 1
    then have "kind \<noteq> ''self-test''" "kind \<noteq> ''static''" "kind \<noteq> ''materials''" by (auto simp: rejected_def)
    with 1 assms(1) have "check_rejection kind v = Inr ()" by (simp add: check_kind_def exit_of_kind)
    then have "kind = ''unsupported'' \<longrightarrow> contains_text ''unsupported'' (lower_text e)"
      and zero: "\<forall>n\<in>set mesh_counts. py_eq (field n v) (JInt 0)"
      using e(1) by (auto simp: check_rejection_def empty_output_def each_Inr_iff)
    moreover have "list_all (\<lambda>n. number_value (field n v) = Some 0) mesh_counts"
      using zero base zero_value by (fastforce simp: list_all_iff)
    ultimately show ?thesis using 1 assms(3,4) e \<open>kind \<noteq> ''self-test''\<close> \<open>kind \<noteq> ''static''\<close> \<open>kind \<noteq> ''materials''\<close>
      by (simp add: outcome_report_def mesh_counts_def)
  next
    case 2
    with assms(1) have "counts 25 (field ''self_tests'' v)" by (auto simp: check_kind_def dest: check_count_Inr)
    with 2 assms(3,4) e show ?thesis by (simp add: outcome_report_def rejected_def)
  next
    case 3
    then have "\<not> rejected kind" "kind \<noteq> ''self-test''" "kind \<noteq> ''unsupported''" by (auto simp: rejected_def)
    with assms(1) have "check_import kind v = Inr ()" by (simp add: check_kind_def exit_of_kind)
    then have "\<forall>n\<in>set mesh_counts. counts (least_count kind n) (field n v)" and "bounds_ok (field ''bounds_cm'' v) = Inr True"
      by (auto simp: check_import_def check_bounds_def each_Inr_iff dest: check_count_Inr)
    with bounds_box show ?thesis
      using 3 \<open>\<not> rejected kind\<close> \<open>kind \<noteq> ''self-test''\<close> \<open>kind \<noteq> ''unsupported''\<close> assms(3,4) e
      by (auto simp: outcome_report_def mesh_counts_def least_count_def)
  qed
qed

lemma evaluate_report_Inr:
  assumes "evaluate_report v n kind input = Inr w"
  shows "n = exit_of kind \<and> w = v \<and> mesh_report kind input v"
proof -
  from assms have known: "kind \<in> set known_kinds" and n: "n = exit_of kind" and obj: "is_obj v" and w: "w = v"
    and fs: "\<forall>x\<in>set (expected_fields kind input). exact_field v x = Inr ()"
    and err: "error_field_ok kind (field ''error'' v)"
    and base: "\<forall>m\<in>set (''self_tests'' # mesh_counts). check_count v m 0 = Inr ()"
    and last: "check_kind kind v = Inr ()"
    by (auto simp: evaluate_report_def exit_of_kind each_Inr_iff)
  from fs have id: "field ''stage'' v = JStr bridge_stage" "field ''scope'' v = JStr bridge_scope"
      "field ''coordinate_policy'' v = JStr coordinate_policy"
      "field ''status'' v = JStr (if rejected kind then ''FAIL'' else ''PASS'')"
      "field ''input'' v = JStr (case input of None \<Rightarrow> [] | Some p \<Rightarrow> p)"
    by (auto simp: expected_fields_def exact_field_def exit_of_kind)
  have "list_all (\<lambda>m. counts 0 (field m v)) mesh_counts"
    using base by (auto simp: list_all_iff dest: check_count_Inr)
  from check_kind_outcome [OF last known id(4,5) err this] n w obj id(1-3) show ?thesis
    by (simp add: mesh_report_def bridge_stage_def bridge_scope_def coordinate_policy_def)
qed

section \<open>One probe\<close>

text \<open>
  How the checks of a bridge call their probes: the command of a case, what its report has to say, the directory
  of the run and the input of a case.
\<close>

record case_setup =
  cs_host :: bridge_host
  cs_argv :: "path option \<Rightarrow> path \<Rightarrow> string list"
  cs_report :: "string \<Rightarrow> string option \<Rightarrow> json \<Rightarrow> bool"
  cs_work :: path
  cs_input :: "bridge_case \<Rightarrow> path option"

definition case_dir :: "case_setup \<Rightarrow> string \<Rightarrow> path" where
  "case_dir cs name = cs_work cs @ [name @ ''-'' @ bh_temp (cs_host cs) name]"

text \<open>
  One of the started probes had this command, ended with the exit code of the case, and left in the directory of
  the case a report that says what the case asks for.
\<close>

definition reported ::
  "bridge_host \<Rightarrow> (json \<Rightarrow> bool) \<Rightarrow> string list \<Rightarrow> path \<Rightarrow> int \<Rightarrow> bridge \<Rightarrow> bool"
where
  "reported bh ok argv dir n s \<longleftrightarrow>
     (\<exists>l g f out f' b v. (argv, l, g) \<in> set (br_started s) \<and> bh_tool bh argv g = (f, out, Exited n) \<and>
        write_bytes f (dir @ [''process.log'']) out = Inr f' \<and> is_file f' (dir @ [''raw.json'']) \<and>
        read_bytes f' (dir @ [''raw.json'']) = Inr b \<and>
        loads_bytes checker_object checker_constant b = Inr v \<and> ok v)"

definition ended_well :: "case_setup \<Rightarrow> string \<Rightarrow> string \<Rightarrow> path option \<Rightarrow> case_result \<Rightarrow> bridge \<Rightarrow> bool" where
  "ended_well cs name kind input r s \<longleftrightarrow>
     cr_errors r = [] \<and> cr_returncode r = Some (exit_of kind) \<and>
     reported (cs_host cs) (cs_report cs kind (map_option path_text input))
       (cs_argv cs input (case_dir cs name @ [''raw.json''])) (case_dir cs name) (exit_of kind) s"

definition passed_case :: "case_setup \<Rightarrow> bridge_case \<Rightarrow> case_result \<Rightarrow> bridge \<Rightarrow> bool" where
  "passed_case cs c r s \<longleftrightarrow> ended_well cs (fst c) (snd (snd c)) (cs_input cs c) r s"

lemma reported_more: "reported bh ok argv dir n s \<Longrightarrow> set (br_started s) \<subseteq> set (br_started t) \<Longrightarrow> reported bh ok argv dir n t"
  unfolding reported_def by blast

lemma ended_well_more:
  "ended_well cs name kind input r s \<Longrightarrow> set (br_started s) \<subseteq> set (br_started t) \<Longrightarrow> ended_well cs name kind input r t"
  unfolding ended_well_def by (blast intro: reported_more)

interpretation reported: kept "reported bh ok argv dir n"
  by unfold_locales (auto simp: untouched_def intro: reported_more)

type_synonym evaluation = "json \<Rightarrow> int \<Rightarrow> string \<Rightarrow> string option \<Rightarrow> json result"

definition verdict_of :: "evaluation \<Rightarrow> fs \<Rightarrow> path \<Rightarrow> string \<Rightarrow> path option \<Rightarrow> int \<Rightarrow> json result" where
  "verdict_of ev f raw kind input rc =
     bind_result (read_json_bytes f raw) (\<lambda>v. ev v rc kind (map_option path_text input))"

lemma new_result_fields [simp]: "cr_status (new_result name kind) = ''FAIL''" "cr_errors (new_result name kind) = []"
  by (simp_all add: new_result_def)

lemma note_error_fields [simp]:
  "cr_status (note_error m r) = cr_status r" "cr_errors (note_error m r) = cr_errors r @ [m]"
  by (simp_all add: note_error_def)

lemma settle_status:
  "settle verdict t f raw kind input r ending = Inr r' \<Longrightarrow> cr_status r' = cr_status r"
  by (auto simp: settle_def split: tool_end.splits sum.splits if_splits)

lemma settle_clean:
  assumes "settle verdict t f raw kind input (new_result name kind) ending = Inr r" and "cr_errors r = []"
  shows "\<exists>n v. ending = Exited n \<and> cr_returncode r = Some n \<and> verdict f raw kind input n = Inr v"
  using assms by (cases ending) (auto simp: settle_def split: sum.splits if_splits)

text \<open>A probe that ends is among the started ones, with the files it left.\<close>

lemma run_probe_Inr:
  assumes "run_probe bh argv out s = (Inr ending, t)"
  shows "\<exists>g f y. (argv, br_limit s, g) \<in> set (br_started t) \<and> bh_tool bh argv g = (f, y, ending) \<and>
    write_bytes f out y = Inr (br_files t)"
proof -
  from assms obtain g where made: "create_new (br_files s) out [] = Inr g"
    by (auto simp: run_probe_def then_do_Inr br_update_def split: sum.splits)
  obtain f y n where tool: "bh_tool bh argv g = (f, y, n)" by (cases "bh_tool bh argv g") auto
  from assms made tool show ?thesis
    by (auto simp: run_probe_def then_do_Inr and_then_Inr br_update_def split: sum.splits option.splits)
qed

text \<open>An evaluation of reports accepts only the exit code of the case and what the report of the case has to say.\<close>

locale evaluator =
  fixes ev :: evaluation and ok :: "string \<Rightarrow> string option \<Rightarrow> json \<Rightarrow> bool"
  assumes evaluated: "ev v n kind input = Inr w \<Longrightarrow> n = exit_of kind \<and> ok kind input v"
begin

lemma verdict_Inr:
  assumes "verdict_of ev f raw kind input n = Inr w"
  shows "n = exit_of kind \<and> is_file f raw \<and>
    (\<exists>b v. read_bytes f raw = Inr b \<and> loads_bytes checker_object checker_constant b = Inr v \<and>
       ok kind (map_option path_text input) v)"
  using assms evaluated by (auto simp: verdict_of_def read_json_bytes_def)

lemma outcome_returns:
  assumes "handle
      (and_then (run_probe bh argv (dir @ [''process.log''])) (\<lambda>ending.
       br_fs (\<lambda>f. settle (verdict_of ev) t f (dir @ [''raw.json'']) kind input (new_result name kind) ending)))
      (\<lambda>e. if probe_errors e then ret (note_error (error_text e) (new_result name kind)) else raise e) s = (Inr r, u)"
  shows "cr_status r = ''FAIL'' \<and> (cr_errors r = [] \<longrightarrow>
    cr_returncode r = Some (exit_of kind) \<and>
    reported bh (ok kind (map_option path_text input)) argv dir (exit_of kind) u)"
proof -
  from assms consider
      e where "r = note_error (error_text e) (new_result name kind)"
    | ending where "run_probe bh argv (dir @ [''process.log'']) s = (Inr ending, u)"
        "settle (verdict_of ev) t (br_files u) (dir @ [''raw.json'']) kind input (new_result name kind) ending = Inr r"
    by (auto simp: handle_run and_then_run br_fs_def split: prod.splits sum.splits if_splits)
  then show ?thesis
  proof cases
    case (2 ending)
    have "cr_returncode r = Some (exit_of kind) \<and>
        reported bh (ok kind (map_option path_text input)) argv dir (exit_of kind) u" if clean: "cr_errors r = []"
    proof -
      from settle_clean [OF 2(2) clean] obtain n w where n: "ending = Exited n" "cr_returncode r = Some n"
        and v: "verdict_of ev (br_files u) (dir @ [''raw.json'']) kind input n = Inr w" by blast
      from verdict_Inr [OF v] run_probe_Inr [OF 2(1)] n show ?thesis unfolding reported_def by blast
    qed
    with settle_status [OF 2(2)] show ?thesis by simp
  qed simp
qed

end

interpretation assimp: evaluator evaluate_report mesh_report
  by unfold_locales (use evaluate_report_Inr in blast)

lemma judge_verdict: "judge = verdict_of evaluate_report"
  by (simp add: judge_def verdict_of_def fun_eq_iff)

context kept
begin

lemma steady_outcome:
  assumes "\<And>argv out. steady I (run_probe bh argv out)"
  shows "steady I (probe_outcome bh a program name kind input dir)"
  unfolding probe_outcome_def by (intro steady_intros assms) auto

lemma steady_invoke:
  assumes "\<And>argv out. steady I (run_probe bh argv out)"
  shows "steady I (invoke bh a program work name kind input)"
  unfolding invoke_def Let_def by (intro steady_intros steady_close steady_outcome assms) auto

end

definition mesh_cases :: "bridge_host \<Rightarrow> bridge_paths \<Rightarrow> case_setup" where
  "mesh_cases bh ps =
     \<lparr>cs_host = bh, cs_argv = probe_argv (bp_program ps), cs_report = mesh_report, cs_work = bp_work ps,
      cs_input = case_input ps\<rparr>"

lemma invoke_returns:
  assumes "invoke bh a (bp_program ps) (bp_work ps) name kind input s = (Inr r, t)" and pass: "cr_status r = ''PASS''"
  shows "ended_well (mesh_cases bh ps) name kind input r t"
proof -
  let ?dir = "bp_work ps @ [name @ ''-'' @ bh_temp bh name]"
  let ?argv = "probe_argv (bp_program ps) input (?dir @ [''raw.json''])"
  let ?I = "reported bh (mesh_report kind (map_option path_text input)) ?argv ?dir (exit_of kind)"
  from assms(1) obtain q u v w where out: "probe_outcome bh a (bp_program ps) name kind input ?dir u = (Inr q, v)"
    and close: "close_result ?dir (q\<lparr>cr_seconds := JFloat (bh_seconds bh name)\<rparr>) v = (Inr r, w)"
    and last: "br_update (\<lambda>f. write_json f (?dir @ [''result.json'']) (case_result_json r)) w = (Inr (), t)"
    by (auto simp: invoke_def Let_def then_do_Inr and_then_Inr)
  note q = assimp.outcome_returns [OF out [unfolded probe_outcome_def judge_verdict]]
  have clean: "cr_errors q = []"
  proof (rule ccontr)
    assume "cr_errors q \<noteq> []"
    with close have "cr_status r = cr_status q" by (auto simp: close_result_def then_do_Inr)
    with q pass show False by simp
  qed
  with q have v: "cr_returncode q = Some (exit_of kind)" "?I v" by blast+
  from v(2) have "?I w" by (rule steady_step [OF reported.steady_close close])
  then have "?I t" by (rule steady_step [OF reported.steady_update last])
  moreover have "cr_errors r = []" "cr_returncode r = Some (exit_of kind)"
    using close clean v(1) by (auto simp: close_result_def)
  ultimately show ?thesis by (simp add: ended_well_def mesh_cases_def case_dir_def)
qed

section \<open>Core dumps\<close>

definition quiet :: "int \<times> int \<Rightarrow> bridge \<Rightarrow> bool" where
  "quiet saved s \<longleftrightarrow> br_disabled s \<and> br_limit s = (0, snd saved) \<and> list_all (\<lambda>(_, l, _). l = (0, snd saved)) (br_started s)"

definition unlimited :: "int \<times> int \<Rightarrow> bridge \<Rightarrow> bool" where
  "unlimited saved s \<longleftrightarrow> \<not> br_disabled s \<and> br_limit s = saved \<and> br_started s = []"

definition restore_noted :: "bridge \<Rightarrow> bool" where
  "restore_noted s \<longleftrightarrow> (\<exists>m. ''restoring core limit: '' @ m \<in> set (br_errors s))"

definition restored :: "int \<times> int \<Rightarrow> bridge \<Rightarrow> bool" where
  "restored saved s \<longleftrightarrow>
     (br_limit s = saved \<or> restore_noted s) \<and> list_all (\<lambda>(_, l, _). l = (0, snd saved)) (br_started s)"

interpretation quiet: kept "quiet saved"
  by unfold_locales (auto simp: quiet_def untouched_def)

interpretation unlimited: kept "unlimited saved"
  by unfold_locales (auto simp: unlimited_def untouched_def)

interpretation restored: kept "restored saved"
  by unfold_locales (auto simp: restored_def restore_noted_def untouched_def)

lemma quiet_probe: "steady (quiet saved) (run_probe bh argv out)"
proof -
  have "steady (quiet saved) (put_state (\<lambda>s. s\<lparr>br_started := br_started s @ [(argv, br_limit s, br_files s)]\<rparr>))"
    by (rule steadyI) (simp add: quiet_def)
  moreover have "steady (quiet saved) (put_state (\<lambda>s. s\<lparr>br_files := f\<rparr>))" for f
    by (rule quiet.steady_put) (simp add: untouched_def)
  ultimately show ?thesis unfolding run_probe_def by (intro steady_intros) (auto split: prod.split option.split intro!: steady_intros)
qed

lemma quiet_record: "steady (quiet saved) (record_result name r)"
  unfolding record_result_def by (rule steadyI) (simp add: quiet_def)

text \<open>After the block: the limit is as before, or core dumps are still disabled and say so.\<close>

definition paused :: "int \<times> int \<Rightarrow> bridge \<Rightarrow> bool" where
  "paused saved s \<longleftrightarrow> unlimited saved s \<or> quiet saved s"

interpretation paused: kept "paused saved"
  by unfold_locales (auto simp: paused_def quiet_def unlimited_def untouched_def)

lemma paused_block:
  assumes "unlimited saved s" and "steady (quiet saved) body"
  shows "paused saved (snd (without_cores bh body s))"
proof -
  from assms(1) have lim: "br_limit s = saved" by (simp add: unlimited_def)
  show ?thesis
  proof (cases "bh_core bh saved (0, snd saved)")
    case (Inl e)
    with assms(1) lim show ?thesis
      by (simp add: without_cores_def then_do_def and_then_run set_limit_def paused_def)
  next
    case (Inr u)
    have "quiet saved (s\<lparr>br_limit := (0, snd saved), br_disabled := True\<rparr>)"
      using assms(1) by (simp add: quiet_def unlimited_def)
    then have "quiet saved (snd (body (s\<lparr>br_limit := (0, snd saved), br_disabled := True\<rparr>)))"
      by (rule steadyD [OF assms(2)])
    with Inr lim show ?thesis
      by (simp add: without_cores_def then_do_def and_then_run set_limit_def paused_def)
  qed
qed

lemma section_snd: "kept I \<Longrightarrow> I (snd (m s)) \<Longrightarrow> I (snd (br_section caught label m s))"
  by (auto simp: br_section_def handle_run split: prod.splits sum.splits intro: steadyD [OF kept.steady_complain])

text \<open>\<open>setrlimit\<close> is documented to raise \<open>ValueError\<close> or \<open>OSError\<close> only.\<close>

definition setrlimit_errors :: "bridge_host \<Rightarrow> bool" where
  "setrlimit_errors bh \<longleftrightarrow>
     (\<forall>old wanted. case bh_core bh old wanted of Inl e \<Rightarrow> os_or_value e | Inr _ \<Rightarrow> True)"

lemma restore_restores:
  assumes "paused saved s" and "setrlimit_errors bh"
  shows "restored saved (snd (restore_limit bh ''restoring core limit: '' saved s))"
proof (cases "br_disabled s")
  case False
  with assms show ?thesis
    by (auto simp: restore_limit_def and_then_run restored_def paused_def quiet_def unlimited_def)
next
  case True
  with assms have q: "list_all (\<lambda>(_, l, _). l = (0, snd saved)) (br_started s)"
    by (auto simp: paused_def quiet_def unlimited_def)
  show ?thesis
  proof (cases "bh_core bh (br_limit s) saved")
    case (Inl e)
    have "case bh_core bh (br_limit s) saved of Inl e \<Rightarrow> os_or_value e | Inr _ \<Rightarrow> True"
      using assms(2) unfolding setrlimit_errors_def by blast
    with Inl have "os_or_value e" by simp
    with Inl True q show ?thesis
      by (auto simp: restore_limit_def and_then_run br_section_def handle_run set_limit_def br_complain_def
          restored_def restore_noted_def)
  next
    case (Inr u)
    with True q show ?thesis
      by (simp add: restore_limit_def and_then_run br_section_def handle_run set_limit_def restored_def)
  qed
qed

text \<open>Whatever leaves the block, by returning or by raising, the limit is restored on the way.\<close>

lemma guarded_restores:
  assumes "unlimited saved s" and "steady (quiet saved) body" and "setrlimit_errors bh"
  shows "restored saved (snd (guarded_run bh os_or_value ''runner setup: '' ''restoring core limit: '' body s))"
proof -
  let ?block = "br_section os_or_value ''runner setup: '' (without_cores bh body)"
  obtain r t where run: "?block s = (r, t)" by fastforce
  from assms(1) have lim: "br_limit s = saved" by (simp add: unlimited_def)
  have "paused saved (snd (?block s))"
    by (rule section_snd [where I = "paused saved"]) (rule paused.kept_axioms, rule paused_block [OF assms(1,2)])
  with run have "paused saved t" by simp
  then have fin: "restored saved (snd (restore_limit bh ''restoring core limit: '' saved t))"
    by (rule restore_restores [OF _ assms(3)])
  obtain q u where restore: "restore_limit bh ''restoring core limit: '' saved t = (q, u)" by fastforce
  show ?thesis
    using fin run lim restore
    by (cases r; cases q) (simp_all add: guarded_run_def and_then_run handle_run then_do_def)
qed

section \<open>The meaning of a PASS\<close>

definition results_sound :: "case_setup \<Rightarrow> bridge \<Rightarrow> bool" where
  "results_sound cs s \<longleftrightarrow>
     (\<forall>c\<in>set bridge_cases. \<forall>r. map_of (br_results s) (fst c) = Some r \<longrightarrow> cr_status r = ''PASS'' \<longrightarrow> passed_case cs c r s)"

lemma sound_more:
  "results_sound cs s \<Longrightarrow> br_results t = br_results s \<Longrightarrow> set (br_started s) \<subseteq> set (br_started t) \<Longrightarrow> results_sound cs t"
  unfolding results_sound_def passed_case_def by (auto intro: ended_well_more)

interpretation sound: kept "results_sound cs"
  by unfold_locales (auto simp: untouched_def intro: sound_more)

lemma case_names: "distinct (map fst bridge_cases)"
  by (simp add: bridge_cases_def)

lemma case_of_name: "c \<in> set bridge_cases \<Longrightarrow> c' \<in> set bridge_cases \<Longrightarrow> fst c = fst c' \<Longrightarrow> c = c'"
  using case_names by (metis distinct_map inj_on_eq_iff)

lemma sound_record:
  assumes "results_sound cs s"
    and "\<And>c. c \<in> set bridge_cases \<Longrightarrow> fst c = name \<Longrightarrow> cr_status r = ''PASS'' \<Longrightarrow> passed_case cs c r s"
  shows "results_sound cs (snd (record_result name r s))"
proof -
  have "passed_case cs c q s \<Longrightarrow> passed_case cs c q (s\<lparr>br_results := x\<rparr>)" for c q x
    unfolding passed_case_def by (erule ended_well_more) simp
  with assms show ?thesis by (auto simp: record_result_def results_sound_def)
qed

lemma sound_probe: "steady (results_sound cs) (run_probe bh argv out)"
proof -
  have "steady (results_sound cs) (put_state (\<lambda>s. s\<lparr>br_started := br_started s @ [(argv, br_limit s, br_files s)]\<rparr>))"
    by (rule steadyI) (auto intro: sound_more)
  moreover have "steady (results_sound cs) (put_state (\<lambda>s. s\<lparr>br_files := f\<rparr>))" for f
    by (rule sound.steady_put) (simp add: untouched_def)
  ultimately show ?thesis unfolding run_probe_def
    by (intro steady_intros) (auto split: prod.split option.split intro!: steady_intros)
qed

section \<open>The loop over the cases\<close>

text \<open>
  What a bridge checker has to provide: a step before each probe and a call of a probe that only touch what
  \<open>kept\<close> invariants allow, and whose PASS means that the case ended well.
\<close>

locale probing =
  fixes cs :: case_setup
    and before :: "unit br"
    and call :: "string \<Rightarrow> string \<Rightarrow> path option \<Rightarrow> case_result br"
    and files :: "string \<Rightarrow> (string \<times> path) list"
  assumes before_steady: "kept I \<Longrightarrow> steady I before"
    and call_steady: "kept I \<Longrightarrow> (\<And>argv out. steady I (run_probe (cs_host cs) argv out)) \<Longrightarrow> steady I (call name kind input)"
    and call_returns: "call name kind input s = (Inr r, t) \<Longrightarrow> cr_status r = ''PASS'' \<Longrightarrow> ended_well cs name kind input r t"
begin

lemma quiet_all: "steady (quiet saved) (probe_all before call (cs_input cs) files)"
proof -
  have "steady (quiet saved) before" by (rule before_steady [OF quiet.kept_axioms])
  moreover have "steady (quiet saved) (call name kind input)" for name kind input
    by (rule call_steady [OF quiet.kept_axioms quiet_probe])
  ultimately show ?thesis
    unfolding probe_all_def probe_case_def
    by (intro steady_then_do steady_do_each) (auto split: prod.split intro!: steady_intros quiet_record)
qed

lemma sound_after_call:
  assumes s: "results_sound cs s" and c: "(name, fixture, kind) \<in> set bridge_cases"
  shows "results_sound cs (snd (and_then (call name kind (cs_input cs (name, fixture, kind)))
    (\<lambda>r. then_do (record_result name r) (br_cite xs)) s))"
proof -
  let ?m = "call name kind (cs_input cs (name, fixture, kind))"
  obtain q t where run: "?m s = (q, t)" by fastforce
  have t: "results_sound cs t"
    by (rule steady_step [OF call_steady [OF sound.kept_axioms sound_probe] run s])
  show ?thesis
  proof (cases q)
    case (Inl e)
    with run t show ?thesis by (simp add: and_then_run)
  next
    case (Inr r)
    have "passed_case cs c' r t" if "c' \<in> set bridge_cases" "fst c' = name" "cr_status r = ''PASS''" for c'
    proof -
      have "c' = (name, fixture, kind)" using case_of_name [OF that(1) c] that(2) by simp
      then show ?thesis using call_returns [OF run [unfolded Inr] that(3)] by (simp add: passed_case_def)
    qed
    then have "results_sound cs (snd (record_result name r t))" by (rule sound_record [OF t])
    with run Inr show ?thesis
      by (simp add: and_then_run then_do_def record_result_def steadyD [OF sound.steady_cite])
  qed
qed

lemma sound_case: "c \<in> set bridge_cases \<Longrightarrow> steady (results_sound cs) (probe_case before call (cs_input cs) files c)"
proof -
  assume c: "c \<in> set bridge_cases"
  obtain name fixture kind where eq: "c = (name, fixture, kind)" by (cases c) auto
  show ?thesis
    unfolding eq probe_case_def prod.case
    by (intro steady_then_do before_steady sound.kept_axioms steadyI sound_after_call c [unfolded eq])
qed

lemma sound_guarded:
  "steady (results_sound cs) (guarded_run bh caught setup restoring (probe_all before call (cs_input cs) files))"
proof -
  have limit: "steady (results_sound cs) (set_limit bh l)" for l
    by (rule steadyI) (auto simp: set_limit_def split: sum.split intro: sound_more)
  have flag: "steady (results_sound cs) (put_state (br_disabled_update (\<lambda>_. True)))"
    by (rule steadyI) (auto intro: sound_more)
  have "steady (results_sound cs) (restore_limit bh label l)" for label l
    unfolding restore_limit_def by (intro steady_intros) (auto intro: sound.steady_section limit)
  with limit flag show ?thesis
    unfolding guarded_run_def without_cores_def probe_all_def
    by (intro steady_intros sound.steady_section sound_case before_steady sound.kept_axioms) auto
qed

end

lemma mesh_simps: "cs_host (mesh_cases bh ps) = bh" "cs_input (mesh_cases bh ps) = case_input ps"
  by (simp_all add: mesh_cases_def)

lemma mesh_probing:
  "probing (mesh_cases bh ps) (verify_library bh ps d) (invoke bh a (bp_program ps) (bp_work ps))"
  by unfold_locales (auto simp: mesh_simps intro: kept.steady_verify kept.steady_invoke invoke_returns)

interpretation mesh: probing "mesh_cases bh ps" "verify_library bh ps d" "invoke bh a (bp_program ps) (bp_work ps)"
    "\<lambda>name. probe_files name (bp_work ps @ [name @ ''-'' @ bh_temp bh name])"
  for bh ps d a
  by (rule mesh_probing)

lemma run_all_restores:
  assumes "unlimited saved s" and "setrlimit_errors bh"
  shows "restored saved (snd (run_all bh a ps d s))"
  using guarded_restores [OF assms(1) mesh.quiet_all assms(2), unfolded mesh_simps] assms(1)
  by (auto simp: run_all_def run_cases_def and_then_run restored_def unlimited_def split: option.split)

lemma restored_finish: "steady (restored saved) (finish_run bh nr base work args)"
proof -
  have "steady (restored saved) (record_result name r)" for name r
    unfolding record_result_def by (rule steadyI) (simp add: restored_def restore_noted_def)
  then have "steady (restored saved) (fill_result nr work name)" for name
    unfolding fill_result_def Let_def by (intro steady_intros) (auto intro!: steady_intros)
  then show ?thesis
    unfolding finish_run_def by (intro steady_intros restored.steady_write_preflight restored.steady_report)
qed

lemma run_in_restores:
  assumes "unlimited saved s" and "setrlimit_errors bh"
  shows "restored saved (snd (run_in bh a ps s))"
proof -
  have steady: "steady (unlimited saved) (prologue bh a ps)"
    unfolding prologue_def
    by (intro steady_intros unlimited.steady_put unlimited.steady_preflight) (auto simp: untouched_def)
  obtain r t where pro: "prologue bh a ps s = (r, t)" by fastforce
  with steadyD [OF steady assms(1)] have t: "unlimited saved t" by simp
  show ?thesis
  proof (cases r)
    case (Inl e)
    with pro t show ?thesis by (simp add: run_in_def and_then_run restored_def unlimited_def)
  next
    case (Inr d)
    obtain q u where run: "run_all bh a ps d t = (q, u)" by fastforce
    with run_all_restores [OF t assms(2), of a ps d] have "restored saved u" by simp
    with pro Inr run steadyD [OF restored_finish] show ?thesis
      by (cases q) (simp_all add: run_in_def and_then_run then_do_def)
  qed
qed

lemma sound_run_all: "steady (results_sound (mesh_cases bh ps)) (run_all bh a ps d)"
  unfolding run_all_def run_cases_def
  by (intro steady_intros) (auto intro: mesh.sound_guarded [unfolded mesh_simps, simplified] split: option.split)

lemma sound_fill: "steady (results_sound cs) (fill_result nr w name)"
proof -
  have "steady (results_sound cs) (record_result name (missing_result name))"
    by (rule steadyI) (rule sound_record, simp_all add: missing_result_def)
  then show ?thesis
    unfolding fill_result_def Let_def by (intro steady_intros) (auto intro!: steady_intros)
qed

text \<open>Every case has a result when the report is written.\<close>

lemma kept_results: "kept (\<lambda>t. br_results t = rs)"
  by unfold_locales (simp add: untouched_def)

lemma fill_keys:
  assumes "fill_result nr w name s = (Inr u, t)"
  shows "insert name (fst ` set (br_results s)) \<subseteq> fst ` set (br_results t)"
proof (cases "name \<in> set (map fst (br_results s))")
  case True
  with assms show ?thesis by (auto simp: fill_result_def and_then_run)
next
  case False
  let ?rs = "dict_set name (missing_result name) (br_results s)"
  obtain p v where "fill_result nr w name s =
      then_do (br_update (\<lambda>f. write_json f p v)) (br_cite [(name, p)]) (s\<lparr>br_results := ?rs\<rparr>)"
    using False by (simp add: fill_result_def and_then_run then_do_def record_result_def Let_def)
  moreover have "steady (\<lambda>t. br_results t = ?rs) (then_do (br_update (\<lambda>f. write_json f p v)) (br_cite [(name, p)]))"
    by (intro steady_then_do kept.steady_update kept.steady_cite kept_results)
  ultimately have "br_results (snd (fill_result nr w name s)) = ?rs" using steadyD by fastforce
  with assms show ?thesis by simp
qed

lemma fill_all_keys:
  "do_each (fill_result nr w) names s = (Inr u, t) \<Longrightarrow>
   fst ` set (br_results s) \<union> set names \<subseteq> fst ` set (br_results t)"
proof (induction names arbitrary: s)
  case (Cons n names)
  then obtain v z where one: "fill_result nr w n s = (Inr v, z)" and rest: "do_each (fill_result nr w) names z = (Inr u, t)"
    by (auto simp: and_then_run split: prod.splits sum.splits)
  show ?case using fill_keys [OF one] Cons.IH [OF rest] by (simp, blast)
qed simp

section \<open>The properties\<close>

text \<open>C13: no probe starts while the process may write a core file, and when the checks end, by a report or by
  any exception, an interrupt of a probe included, the core limit of the process is the one it had, or the failure
  to restore it is among the errors. \<open>setrlimit\<close> raises only what it is documented to raise.\<close>

theorem probes_run_without_cores:
  assumes "setrlimit_errors bh"
  shows "case run_checks bh a limit f of (r, s) \<Rightarrow>
     list_all (\<lambda>(argv, l, g). l = (0, snd limit)) (br_started s) \<and> (br_limit s = limit \<or> restore_noted s)"
proof -
  have start: "unlimited limit (start_bridge limit g)" for g
    by (simp add: unlimited_def start_bridge_def)
  have "restored limit (snd (run_checks bh a limit f))"
    using run_in_restores [OF start assms] start
    by (auto simp: run_checks_def restored_def unlimited_def split: sum.split)
  then show ?thesis by (auto simp: restored_def split: prod.split)
qed

text \<open>A host whose probes are interrupted, and whose \<open>setrlimit\<close> only refuses to raise the hard limit.\<close>

definition interrupting_host :: bridge_host where
  "interrupting_host =
     \<lparr>bh_host = \<lparr>sha256 = (\<lambda>_. []), iso_offset = (\<lambda>_. None), cwd = []\<rparr>, bh_now = [], bh_python = ''python3'',
      bh_script = [''s'', ''check.py''], bh_below = (\<lambda>_ _. []), bh_executable = (\<lambda>_ _. True),
      bh_tool = (\<lambda>_ f. (f, [], NotStarted [])), bh_break = (\<lambda>_. Some KeyboardInterrupt),
      bh_core = (\<lambda>old wanted. if snd old < snd wanted then Inl (ValueError ''not allowed to raise maximum limit'') else Inr ()),
      bh_seconds = (\<lambda>_. Fin 0), bh_temp = (\<lambda>_. ''1'')\<rparr>"

definition interrupted_args :: bridge_args where
  "interrupted_args =
     \<lparr>ba_program = ''/b/probe'', ba_fixtures = ''/f'', ba_run_dir = ''/r'', ba_ue_root = ''/u'', ba_ue_commit = ''c'',
      ba_assimp_report = ''/a.json'', ba_build_command = ''/c.json'', ba_timeout = JInt 5\<rparr>"

text \<open>The block around the probes, interrupted in the first probe: the exception passes, and the limit is back.\<close>

lemma interrupted_block:
  "case guarded_run interrupting_host os_or_value ''runner setup: '' ''restoring core limit: ''
      (and_then (run_probe interrupting_host [''probe''] [''log'']) (\<lambda>_. ret ())) (start_bridge (7, 9) Map.empty) of
     (r, s) \<Rightarrow> r = Inl KeyboardInterrupt \<and> br_limit s = (7, 9) \<and> br_disabled s \<and> map (fst \<circ> snd) (br_started s) = [(0, 9)]"
  by (simp add: guarded_run_def and_then_run handle_run then_do_def br_section_def without_cores_def set_limit_def
      run_probe_def br_update_def restore_limit_def interrupting_host_def start_bridge_def create_new_def write_bytes_def
      entry_path_def has_parent_def link_target_def is_dir_def follow_def parent_def)

lemma probes_run_without_cores_witness:
  "case run_checks interrupting_host interrupted_args (7, 9) Map.empty of (r, s) \<Rightarrow>
     list_all (\<lambda>(argv, l, g). l = (0, 9)) (br_started s) \<and> (br_limit s = (7, 9) \<or> restore_noted s)"
proof -
  have "setrlimit_errors interrupting_host"
    by (simp add: setrlimit_errors_def interrupting_host_def)
  from probes_run_without_cores [OF this, where a = interrupted_args and limit = "(7, 9)" and f = Map.empty] show ?thesis by simp
qed

definition clean_run :: "case_setup \<Rightarrow> bridge \<Rightarrow> bool" where
  "clean_run cs s \<longleftrightarrow>
     br_errors s = [] \<and>
     list_all (\<lambda>c. case map_of (br_results s) (fst c) of None \<Rightarrow> False | Some r \<Rightarrow> passed_case cs c r s) bridge_cases"

lemma all_checks_pass_iff:
  "all_checks_pass (bridge_checks s) \<longleftrightarrow> br_errors s = [] \<and> list_all (\<lambda>(_, r). cr_status r = ''PASS'') (br_results s)"
  by (auto simp: all_checks_pass_def bridge_checks_def preflight_status_def list_all_iff)

lemma passed_run_is_clean:
  assumes "results_sound cs s" and "set (map fst bridge_cases) \<subseteq> fst ` set (br_results s)"
    and pass: "all_checks_pass (bridge_checks s)"
  shows "clean_run cs s"
proof -
  have "\<exists>r. map_of (br_results s) (fst c) = Some r \<and> passed_case cs c r s" if c: "c \<in> set bridge_cases" for c
  proof -
    from c assms(2) have "fst c \<in> fst ` set (br_results s)" by auto
    then obtain r where r: "map_of (br_results s) (fst c) = Some r" by (metis map_of_eq_None_iff not_None_eq)
    then have "cr_status r = ''PASS''" using pass by (auto simp: all_checks_pass_iff list_all_iff dest!: map_of_SomeD)
    with assms(1) c r show ?thesis by (auto simp: results_sound_def)
  qed
  then show ?thesis using pass by (fastforce simp: clean_run_def all_checks_pass_iff list_all_iff split: option.split)
qed

lemma clean_run_files: "clean_run cs v \<Longrightarrow> clean_run cs (v\<lparr>br_files := g\<rparr>)"
proof -
  have "passed_case cs c r v \<Longrightarrow> passed_case cs c r (v\<lparr>br_files := g\<rparr>)" for c r
    unfolding passed_case_def by (erule ended_well_more) simp
  then show "clean_run cs v \<Longrightarrow> clean_run cs (v\<lparr>br_files := g\<rparr>)"
    by (auto simp: clean_run_def list_all_iff split: option.splits)
qed

lemma finish_clean:
  assumes "finish_run bh nr base w (report_args st sc cmd pre) s = (Inr report, t)" and "results_sound cs s"
  shows "field ''status'' report = JStr ''FAIL'' \<or> clean_run cs t"
proof -
  from assms(1) obtain u v x y where pre: "write_preflight w s = (Inr x, u)"
    and fill: "do_each (fill_result nr w) (map fst bridge_cases) u = (Inr y, v)"
    and rep: "bridge_report bh (base @ [''stage-report.json'']) (report_args st sc cmd pre) v = (Inr report, t)"
    by (auto simp: finish_run_def then_do_Inr)
  from rep obtain g where w: "write_report (bh_host bh) (br_files v) (bh_now bh)
      (path_text (base @ [''stage-report.json''])) (report_args st sc cmd pre v) = Inr (report, g)"
    and t: "t = v\<lparr>br_files := g\<rparr>"
    by (auto simp: bridge_report_def split: sum.splits prod.splits)
  have "results_sound cs u" by (rule steady_step [OF sound.steady_write_preflight pre assms(2)])
  then have "results_sound cs v" by (rule steady_step [OF steady_do_each [OF sound_fill] fill])
  moreover have "set (map fst bridge_cases) \<subseteq> fst ` set (br_results v)" using fill_all_keys [OF fill] by blast
  ultimately have "clean_run cs t" if "all_checks_pass (bridge_checks v)"
    using passed_run_is_clean that unfolding t by (blast intro: clean_run_files)
  then have "clean_run cs t" if "bridge_code v = 0" using that by (simp add: bridge_code_def split: if_splits)
  with written_report(2) [OF w] show ?thesis by (auto simp: report_args_def)
qed

lemma prologue_sound: "steady (results_sound cs) (prologue bh a ps)"
  unfolding prologue_def
  by (intro steady_intros sound.steady_put sound.steady_preflight) (auto simp: untouched_def)

lemma run_in_clean:
  assumes "run_in bh a ps s = (Inr report, t)" and "results_sound (mesh_cases bh ps) s"
  shows "field ''status'' report = JStr ''FAIL'' \<or> clean_run (mesh_cases bh ps) t"
proof -
  from assms(1) obtain d u v x where pro: "prologue bh a ps s = (Inr d, u)" and run: "run_all bh a ps d u = (Inr x, v)"
    and fin: "finish_run bh not_run_json (bp_run ps) (bp_work ps) (report_args bridge_stage bridge_scope (bridge_command bh a ps)
         [(assimp_stage, assimp_scope, path_text (bp_assimp ps))]) v = (Inr report, t)"
    by (auto simp: run_in_def and_then_Inr then_do_Inr)
  have "results_sound (mesh_cases bh ps) u" by (rule steady_step [OF prologue_sound pro assms(2)])
  then have "results_sound (mesh_cases bh ps) v" by (rule steady_step [OF sound_run_all run])
  with fin show ?thesis by (rule finish_clean)
qed

text \<open>C14: a bridge report that is not a FAIL was written after a run without a preflight error in which, for each of
  the six cases, a probe was started with the command of the case, ended with the exit code of the case, and left in
  the directory of the case a report with the identity of the bridge and the input, the status, the error, the
  counts and the bounds that the kind of the case asks for.\<close>

theorem passed_bridge_ran_every_case:
  "case run_checks bh a limit f of (r, s) \<Rightarrow>
     (case r of
        Inl e \<Rightarrow> True
      | Inr report \<Rightarrow>
          field ''status'' report = JStr ''FAIL'' \<or> (\<exists>ps. resolve_args bh f a = Inr ps \<and> clean_run (mesh_cases bh ps) s))"
proof -
  have start: "results_sound cs (start_bridge limit g)" for cs g
    by (simp add: results_sound_def start_bridge_def)
  show ?thesis
    using run_in_clean [OF _ start]
    by (fastforce simp: run_checks_def split: sum.splits prod.split)
qed

end
