(* ===== verification/ReadbackFacts.thy ===== *)
theory ReadbackFacts
  imports Readback BridgeFacts
begin

text \<open>
  A report of the readback check that is not a FAIL: every check passed and both frames were exactly the
  rectangles the program was told to draw. The locale \<open>verdict_kept\<close> collects the invariants that depend only
  on the exit code, the checks and the frames; the steps that touch files and evidence keep them.
\<close>

section \<open>Steps that leave the verdict alone\<close>

definition same_verdict :: "readback \<Rightarrow> readback \<Rightarrow> bool" where
  "same_verdict s t \<longleftrightarrow> rb_code t = rb_code s \<and> rb_checks t = rb_checks s \<and> rb_frames t = rb_frames s"

locale verdict_kept =
  fixes I :: "readback \<Rightarrow> bool"
  assumes kept: "I s \<Longrightarrow> same_verdict s t \<Longrightarrow> I t"
begin

lemma steady_files [simp, intro]: "steady I (rb_fs g)"
  by (simp add: rb_fs_def steady_and_then)

lemma steady_update [simp, intro]: "steady I (rb_update u)"
  by (rule steadyI) (auto simp: rb_update_def same_verdict_def split: sum.split intro: kept)

lemma steady_cite [simp, intro]: "steady I (rb_cite xs)"
  by (rule steadyI) (auto simp: rb_cite_def same_verdict_def intro: kept)

lemma steady_new_files [simp, intro]: "steady I (put_state (\<lambda>s. s\<lparr>rb_files := f\<rparr>))"
  by (rule steadyI) (auto simp: same_verdict_def intro: kept)

lemma steady_program [simp, intro]: "steady I (run_program rh ps)"
  unfolding run_program_def case_prod_unfold by (intro steady_intros) auto

lemma steady_fill: "steady I (fill_evidence x)"
  unfolding fill_evidence_def case_prod_unfold by (intro steady_intros) auto

lemma steady_cite_if: "steady I (cite_if p x)"
  unfolding cite_if_def by (intro steady_intros) auto

lemma steady_close: "steady I (close_evidence ps)"
  unfolding close_evidence_def by (intro steady_intros steady_fill steady_cite_if) auto

end

definition verdict_is :: "int \<Rightarrow> (string \<times> string) list \<Rightarrow> bytes list \<Rightarrow> readback \<Rightarrow> bool" where
  "verdict_is c checks fr s \<longleftrightarrow> rb_code s = c \<and> rb_checks s = checks \<and> rb_frames s = fr"

definition not_done :: "readback \<Rightarrow> bool" where
  "not_done s \<longleftrightarrow> rb_code s \<noteq> 0"

interpretation verdict: verdict_kept "verdict_is c checks fr"
  by unfold_locales (simp add: verdict_is_def same_verdict_def)

interpretation unfinished: verdict_kept not_done
  by unfold_locales (simp add: not_done_def same_verdict_def)

section \<open>A body that raises\<close>

lemma not_done_check: "steady not_done (rb_check n v)"
  by (rule steadyI) (simp add: rb_check_def not_done_def)

lemma not_done_code: "c \<noteq> 0 \<Longrightarrow> steady not_done (rb_set_code c)"
  by (rule steadyI) (simp add: rb_set_code_def not_done_def)

lemma not_done_frame: "steady not_done (put_state (\<lambda>s. s\<lparr>rb_frames := rb_frames s @ [raw]\<rparr>))"
  by (rule steadyI) (simp add: not_done_def)

lemma not_done_native: "steady not_done (native_phase rh ps)"
  unfolding native_phase_def by (intro steady_intros not_done_check) auto

lemma not_done_process: "steady not_done (process_phase rh ps)"
  unfolding process_phase_def
  by (intro steady_intros) (auto split: tool_end.split intro!: steady_intros not_done_code)

lemma not_done_device: "steady not_done (device_phase ps)"
  unfolding device_phase_def by (intro steady_intros not_done_check) auto

lemma not_done_one_frame: "steady not_done (frame_phase rh ps n)"
  unfolding frame_phase_def Let_def by (intro steady_intros not_done_check not_done_frame) auto

lemma not_done_changing: "steady not_done (changing_phase ps)"
  unfolding changing_phase_def by (intro steady_intros not_done_check) auto

lemma not_done_unchanged: "steady not_done (unchanged_phase rh ps d)"
  unfolding unchanged_phase_def by (intro steady_intros) (auto intro!: steady_intros not_done_check)

lemmas not_done_phases = not_done_native not_done_process not_done_device not_done_one_frame not_done_changing
  not_done_unchanged

lemma keeps_after:
  "steady I m \<Longrightarrow> (\<And>x. keeps I (k x) Q (\<lambda>_. I)) \<Longrightarrow> keeps I (and_then m k) Q (\<lambda>_. I)"
  unfolding steady_def by (rule keeps_and_then)

lemma body_raises:
  assumes "readback_body rh ps s = (Inl e, t)" and "not_done s"
  shows "not_done t"
proof -
  have "keeps not_done (rb_set_code 0) (\<lambda>_ _. True) (\<lambda>_. not_done)"
    by (rule keepsI) (simp_all add: rb_set_code_def)
  then have "keeps not_done (readback_body rh ps) (\<lambda>_ _. True) (\<lambda>_. not_done)"
    unfolding readback_body_def then_do_def
    by (intro keeps_after not_done_phases steady_do_each)
  from keepsD_raise [OF this assms(2,1)] show ?thesis .
qed

lemma note_failure_keeps: "steady not_done (note_failure ps e)"
  by (rule steadyI) (auto simp: note_failure_def not_done_def split: py_error.split)

section \<open>A body that returns\<close>

definition adds :: "string \<Rightarrow> readback \<Rightarrow> readback \<Rightarrow> bool" where
  "adds n s t \<longleftrightarrow> rb_checks t = dict_set n ''PASS'' (rb_checks s)"

lemma quiet_step:
  assumes "m s = (Inr x, t)" and "\<And>c checks fr. steady (verdict_is c checks fr) m"
  shows "rb_checks t = rb_checks s \<and> rb_frames t = rb_frames s"
  using steady_step [OF assms(2) assms(1), of "rb_code s" "rb_checks s" "rb_frames s"] by (simp add: verdict_is_def)

lemma rb_update_Inr: "rb_update g s = (Inr x, t) \<longleftrightarrow> (\<exists>f. g (rb_files s) = Inr f \<and> t = s\<lparr>rb_files := f\<rparr>)"
  by (auto simp: rb_update_def split: sum.splits)

lemma rb_fs_run: "rb_fs g s = (g (rb_files s), s)"
  by (simp add: rb_fs_def and_then_run)

lemma rb_check_run: "rb_check n v s = (Inr (), s\<lparr>rb_checks := dict_set n v (rb_checks s)\<rparr>)"
  by (simp add: rb_check_def)

lemma native_returns: "native_phase rh ps s = (Inr d, t) \<Longrightarrow> adds ''native'' s t \<and> rb_frames t = rb_frames s"
  by (auto simp: native_phase_def and_then_Inr then_do_Inr rb_check_run adds_def rb_update_Inr rb_cite_def
      split: if_splits)

lemma process_returns:
  assumes "process_phase rh ps s = (Inr x, t)"
  shows "rb_checks t = rb_checks s \<and> rb_frames t = rb_frames s"
proof -
  from assms obtain ending u where run: "run_program rh ps s = (Inr ending, u)"
    and rest: "(case ending of
         NotStarted m \<Rightarrow> raise (OSError m)
       | TimedOut \<Rightarrow> raise (SubprocessError ''timed out'')
       | Exited n \<Rightarrow>
           then_do (rb_cite [(''device.raw'', raw_device ps), (''process.log'', process_log ps)])
           (if n = 0 then ret ()
            else then_do (rb_set_code n)
              (raise (ValueError (''Vulkan process failed with exit code '' @ show_int n))))) u = (Inr x, t)"
    by (auto simp: process_phase_def and_then_Inr)
  from rest have "rb_checks t = rb_checks u \<and> rb_frames t = rb_frames u"
    by (cases ending) (auto simp: then_do_Inr rb_cite_def split: if_splits)
  with quiet_step [OF run verdict.steady_program] show ?thesis by simp
qed

lemma device_returns: "device_phase ps s = (Inr x, t) \<Longrightarrow> adds ''device'' s t \<and> rb_frames t = rb_frames s"
  by (auto simp: device_phase_def and_then_Inr then_do_Inr rb_fs_run rb_check_run adds_def rb_update_Inr)

lemma frame_returns:
  "frame_phase rh ps n s = (Inr x, t) \<Longrightarrow>
   adds (frame_name n) s t \<and> rb_frames t = rb_frames s @ [expected_frame n]"
  by (auto simp: frame_phase_def Let_def and_then_Inr then_do_Inr rb_fs_run rb_check_run adds_def rb_update_Inr
      rb_cite_def validate_frame_def)

lemma changing_returns:
  "changing_phase ps s = (Inr x, t) \<Longrightarrow> adds ''changing-frames'' s t \<and> rb_frames t = rb_frames s"
  by (auto simp: changing_phase_def and_then_Inr then_do_Inr rb_check_run adds_def rb_update_Inr split: if_splits)

lemma unchanged_returns:
  "unchanged_phase rh ps d s = (Inr x, t) \<Longrightarrow> rb_checks t = rb_checks s \<and> rb_frames t = rb_frames s"
  by (auto simp: unchanged_phase_def and_then_Inr then_do_Inr rb_fs_run split: if_splits)

definition all_seen :: "readback \<Rightarrow> bool" where
  "all_seen s \<longleftrightarrow>
     rb_checks s = map (\<lambda>n. (n, ''PASS'')) readback_checks \<and> rb_frames s = [expected_frame 0, expected_frame 1]"

lemma body_returns:
  assumes "readback_body rh ps s = (Inr x, t)"
    and start: "rb_checks s = map (\<lambda>n. (n, ''FAIL'')) readback_checks" "rb_frames s = []"
  shows "all_seen t"
proof -
  from assms(1) obtain d s1 s2 s3 s4 s5 s6 s7 y where steps: "native_phase rh ps s = (Inr d, s1)"
      "process_phase rh ps s1 = (Inr y, s2)" "device_phase ps s2 = (Inr y, s3)"
      "frame_phase rh ps 0 s3 = (Inr y, s4)" "frame_phase rh ps 1 s4 = (Inr y, s5)"
      "changing_phase ps s5 = (Inr y, s6)" "unchanged_phase rh ps d s6 = (Inr y, s7)"
    and t: "t = s7\<lparr>rb_code := 0\<rparr>"
    by (auto simp: readback_body_def and_then_Inr then_do_Inr rb_set_code_def)
  have names: "frame_name 0 = ''frame-0''" "frame_name 1 = ''frame-1''" by (code_simp, code_simp)
  note returned = native_returns [OF steps(1)] process_returns [OF steps(2)] device_returns [OF steps(3)]
    frame_returns [OF steps(4)] frame_returns [OF steps(5)] changing_returns [OF steps(6)] unchanged_returns [OF steps(7)]
  have "rb_frames t = [expected_frame 0, expected_frame 1]" using returned start(2) t by simp
  moreover have "rb_checks t = dict_set ''changing-frames'' ''PASS'' (dict_set ''frame-1'' ''PASS'' (dict_set ''frame-0'' ''PASS''
      (dict_set ''device'' ''PASS'' (dict_set ''native'' ''PASS'' (map (\<lambda>n. (n, ''FAIL'')) readback_checks)))))"
    using returned start(1) t by (simp add: adds_def names [simplified])
  moreover have "dict_set ''changing-frames'' ''PASS'' (dict_set ''frame-1'' ''PASS'' (dict_set ''frame-0'' ''PASS''
      (dict_set ''device'' ''PASS'' (dict_set ''native'' ''PASS'' (map (\<lambda>n. (n, ''FAIL'')) readback_checks)))))
      = map (\<lambda>n. (n, ''PASS'')) readback_checks" by code_simp
  ultimately show ?thesis by (simp add: all_seen_def)
qed

lemma finish_passes:
  assumes "finish_readback rh ps s = (Inr report, t)"
  shows "field ''status'' report = JStr ''FAIL'' \<or> rb_code s = 0"
    and "rb_checks t = rb_checks s \<and> rb_frames t = rb_frames s"
proof -
  from assms obtain u x where closed: "close_evidence ps s = (Inr x, u)" and rep: "readback_report rh ps u = (Inr report, t)"
    by (auto simp: finish_readback_def then_do_Inr)
  have same: "verdict_is (rb_code s) (rb_checks s) (rb_frames s) u"
    by (rule steady_step [OF verdict.steady_close closed]) (simp add: verdict_is_def)
  from rep obtain g where w: "write_report (rh_host rh) (rb_files u) (rh_now rh)
      (path_text (rp_run ps @ [''stage-report.json''])) (readback_args ps u) = Inr (report, g)"
    and t: "t = u\<lparr>rb_files := g\<rparr>"
    by (auto simp: readback_report_def split: sum.splits)
  from written_report(2) [OF w] same show "field ''status'' report = JStr ''FAIL'' \<or> rb_code s = 0"
    by (auto simp: readback_args_def verdict_is_def)
  from same t show "rb_checks t = rb_checks s \<and> rb_frames t = rb_frames s" by (simp add: verdict_is_def)
qed

lemma readback_passes:
  assumes run: "readback_in rh ps (start_readback rh ps f) = (Inr report, t)"
  shows "field ''status'' report = JStr ''FAIL'' \<or> all_seen t"
proof -
  let ?s = "start_readback rh ps f"
  have start: "rb_checks ?s = map (\<lambda>n. (n, ''FAIL'')) readback_checks" "rb_frames ?s = []" "not_done ?s"
    by (simp_all add: start_readback_def not_done_def)
  from run obtain u x where body: "handle (readback_body rh ps) (note_failure ps) ?s = (Inr x, u)"
    and fin: "finish_readback rh ps u = (Inr report, t)" by (auto simp: readback_in_def then_do_Inr)
  show ?thesis
  proof (cases "readback_body rh ps ?s")
    case (Pair r v)
    show ?thesis
    proof (cases r)
      case (Inl e)
      with Pair have "not_done v" using body_raises start(3) by blast
      moreover from body Pair Inl have "note_failure ps e v = (Inr x, u)" by (simp add: handle_run)
      ultimately have "not_done u" using steady_step [OF note_failure_keeps] by blast
      with finish_passes(1) [OF fin] show ?thesis by (simp add: not_done_def)
    next
      case (Inr y)
      with body Pair have "u = v" by (simp add: handle_run)
      with Pair Inr have "all_seen u" using body_returns start(1,2) by blast
      with finish_passes(2) [OF fin] show ?thesis by (simp add: all_seen_def)
    qed
  qed
qed

section \<open>The last comparison\<close>

text \<open>Frames that were accepted differ in every pixel, so the comparison of the two frames cannot fail.\<close>

definition frame_pixels :: "nat \<Rightarrow> bytes list" where
  "frame_pixels n =
     concat (replicate frame_height (replicate 32 (fst (frame_colors n)) @ replicate 32 (snd (frame_colors n))))"

lemma concat_repeated: "concat (concat (replicate k xs)) = concat (replicate k (concat xs))"
  by (induction k) simp_all

lemma expected_frame_pixels: "expected_frame n = concat (frame_pixels n)"
  by (simp add: expected_frame_def frame_pixels_def case_prod_unfold repeat_bytes_def frame_width_def concat_repeated)

lemma changed_concat:
  "list_all2 (\<lambda>x y. length x = 4 \<and> length y = 4 \<and> x \<noteq> y) xs ys \<Longrightarrow> length xs \<le> n \<Longrightarrow>
   changed_pixels n (concat xs) (concat ys) = length xs"
proof (induction xs ys arbitrary: n rule: list_all2_induct)
  case Nil
  then show ?case by (cases n) simp_all
next
  case (Cons x xs y ys)
  then obtain m where n: "n = Suc m" by (cases n) auto
  from Cons.hyps have "x \<noteq> []" by auto
  with Cons n show ?case by simp
qed

lemma list_all2_repeated: "list_all2 P xs ys \<Longrightarrow> list_all2 P (concat (replicate k xs)) (concat (replicate k ys))"
  by (induction k) (simp_all add: list_all2_appendI)

lemma expected_frames_differ: "frames_changed [expected_frame 0, expected_frame 1] = frame_width * frame_height"
proof -
  let ?differ = "\<lambda>x y. length x = 4 \<and> length y = 4 \<and> x \<noteq> (y :: bytes)"
  have "list_all2 ?differ (replicate 32 (fst (frame_colors 0)) @ replicate 32 (snd (frame_colors 0)))
      (replicate 32 (fst (frame_colors 1)) @ replicate 32 (snd (frame_colors 1)))"
    by (intro list_all2_appendI) (simp_all add: list_all2_conv_all_nth frame_colors_def)
  then have "list_all2 ?differ (frame_pixels 0) (frame_pixels 1)"
    unfolding frame_pixels_def by (rule list_all2_repeated)
  moreover have "length (frame_pixels 0) = frame_width * frame_height"
    by (simp add: frame_pixels_def length_concat map_replicate sum_list_replicate frame_width_def frame_height_def)
  moreover have "length (expected_frame 0) = 4 * (frame_width * frame_height)"
    by (simp add: expected_frame_def frame_colors_def repeat_bytes_def length_concat map_replicate sum_list_replicate
        frame_width_def frame_height_def)
  ultimately show ?thesis
    by (simp add: frames_changed_def) (simp add: expected_frame_pixels changed_concat)
qed

text \<open>A readback report that is not a FAIL was written after a run in which every check passed and the two
  frames the program left were exactly the rectangles it was told to clear.\<close>

theorem passed_readback_saw_both_frames:
  "case run_readback rh f program run_dir timeout of
     Inl e \<Rightarrow> True
   | Inr (report, s) \<Rightarrow> field ''status'' report = JStr ''FAIL'' \<or> all_seen s"
proof (cases "run_readback rh f program run_dir timeout")
  case (Inr y)
  then obtain ps g where "(case readback_in rh ps (start_readback rh ps g) of
      (Inl e, s) \<Rightarrow> Inl e | (Inr report, s) \<Rightarrow> Inr (report, s)) = Inr y"
    by (auto simp: run_readback_def)
  then have "readback_in rh ps (start_readback rh ps g) = (Inr (fst y), snd y)"
    by (auto split: prod.splits sum.splits)
  from readback_passes [OF this] Inr show ?thesis by (simp add: case_prod_unfold)
qed simp

end
