(* ===== verification/RuntimeConfig.thy ===== *)
theory RuntimeConfig
  imports JsonForms
begin

text \<open>
  \<open>normalize-runtime-config.py\<close>: every string value of two generated configuration files that names a removed
  asset is replaced by the name of its successor; keys stay. Both files are read and rewritten in memory before
  the first is written. \<open>write_text\<close> opens the file before it encodes the text, so a text with a lone surrogate
  leaves an empty file.
\<close>

section \<open>References\<close>

definition old_reference :: string where
  "old_reference = ''/Game/Carla/Static/Dynamic/Construction/Sm_ConstructionDebrie.Sm_ConstructionDebrie''"

definition new_reference :: string where
  "new_reference = ''/Game/Carla/Static/Dynamic/Construction/SM_DebrisContainer.SM_DebrisContainer''"

definition config_names :: "string list" where
  "config_names = [''PropParameters.json'', ''Default.Package.json'']"

definition target_asset :: path where
  "target_asset =
     [''Content'', ''Carla'', ''Static'', ''Dynamic'', ''Construction'', ''SM_DebrisContainer.uasset'']"

fun replace_reference :: "json \<Rightarrow> json \<times> nat" where
  "replace_reference (JStr s) = (if s = old_reference then (JStr new_reference, 1) else (JStr s, 0))"
| "replace_reference (JList xs) =
     (let items = map replace_reference xs in (JList (map fst items), sum_list (map snd items)))"
| "replace_reference (JObj d) =
     (let items = map (\<lambda>(k, v). (k, replace_reference v)) d in
      (JObj (map (\<lambda>(k, p). (k, fst p)) items), sum_list (map (\<lambda>(k, p). snd p) items)))"
| "replace_reference v = (v, 0)"

section \<open>JSON with its characters as they are\<close>

text \<open>\<open>json.dumps(..., indent=2, ensure_ascii=False)\<close>.\<close>

definition raw_escape :: "char \<Rightarrow> string" where
  "raw_escape c = (if code c < 32 \<or> c = CHR 0x22 \<or> c = CHR 0x5C then ascii_escape c else [c])"

definition raw_str :: "string \<Rightarrow> string" where
  "raw_str s = CHR 0x22 # concat (map raw_escape s) @ [CHR 0x22]"

fun raw_json :: "nat \<Rightarrow> json \<Rightarrow> string" where
  "raw_json k JNull = ''null''"
| "raw_json k (JBool b) = (if b then ''true'' else ''false'')"
| "raw_json k (JInt i) = show_int i"
| "raw_json k (JFloat x) = json_float x"
| "raw_json k (JStr s) = raw_str s"
| "raw_json k (JList xs) = bracket (CHR ''['') (CHR '']'') k (map (raw_json (Suc k)) xs)"
| "raw_json k (JObj d) =
     bracket (CHR ''{'') (CHR ''}'') k (map (\<lambda>(key, v). raw_str key @ '': '' @ raw_json (Suc k) v) d)"

section \<open>Files\<close>

type_synonym 'a on_fs = "fs \<Rightarrow> 'a result \<times> fs"

definition config_path :: "path \<Rightarrow> string \<Rightarrow> path" where
  "config_path stage name = stage @ [''Content'', ''Carla'', ''Config'', name]"

text \<open>The changes to write and the number of references found so far.\<close>

type_synonym changes = "(path \<times> json) list \<times> nat"

definition read_config :: "fs \<Rightarrow> path \<Rightarrow> json result" where
  "read_config f p =
     (if is_file f p then load_text dict_hook float_hook f p
      else Inl (RuntimeError (''runtime config is missing: '' @ path_text p)))"

definition take_config :: "fs \<Rightarrow> path \<Rightarrow> string \<Rightarrow> changes \<Rightarrow> changes result" where
  "take_config f stage name = (\<lambda>(found, count).
     bind_result (read_config f (config_path stage name)) (\<lambda>v.
       case replace_reference v of (updated, n) \<Rightarrow>
         Inr (if n = 0 then found else found @ [(config_path stage name, updated)], count + n)))"

definition collect_changes :: "fs \<Rightarrow> path \<Rightarrow> changes result" where
  "collect_changes f stage =
     (if is_file f (stage @ target_asset) then fold_result (take_config f stage) config_names ([], 0)
      else Inl (RuntimeError (''replacement cooked asset is missing: '' @ path_text (stage @ target_asset))))"

definition encode_error :: "'a result" where
  "encode_error = Inl (ValueError ''utf-8 codec can't encode surrogates'')"

definition write_text_raw :: "path \<Rightarrow> string \<Rightarrow> unit on_fs" where
  "write_text_raw p t f =
     (case write_bytes f p [] of
        Inl e \<Rightarrow> (Inl e, f)
      | Inr f0 \<Rightarrow>
          if valid_utf8 t then
            (case write_bytes f0 p t of Inl e \<Rightarrow> (Inl e, f0) | Inr f1 \<Rightarrow> (Inr (), f1))
          else (encode_error, f0))"

fun write_changes :: "(path \<times> json) list \<Rightarrow> unit on_fs" where
  "write_changes [] f = (Inr (), f)"
| "write_changes ((p, v) # cs) f =
     (case write_text_raw p (raw_json 0 v @ [newline_char]) f of
        (Inl e, g) \<Rightarrow> (Inl e, g)
      | (Inr _, g) \<Rightarrow> write_changes cs g)"

definition normalize :: "path \<Rightarrow> nat on_fs" where
  "normalize stage f =
     (case collect_changes f stage of
        Inl e \<Rightarrow> (Inl e, f)
      | Inr (found, count) \<Rightarrow>
          (case write_changes found f of (Inl e, g) \<Rightarrow> (Inl e, g) | (Inr _, g) \<Rightarrow> (Inr count, g)))"

text \<open>\<open>main\<close> lets every exception pass and prints the number of references.\<close>

definition main :: "path \<Rightarrow> int on_fs" where
  "main stage f = (case normalize stage f of (Inl e, g) \<Rightarrow> (Inl e, g) | (Inr _, g) \<Rightarrow> (Inr 0, g))"

section \<open>What changes\<close>

text \<open>A position in a JSON value, and the value there.\<close>

datatype step = Key string | Index nat

fun value_at :: "json \<Rightarrow> step list \<Rightarrow> json option" where
  "value_at v [] = Some v"
| "value_at v (Key k # ps) = (case v of JObj d \<Rightarrow> (case map_of d k of Some w \<Rightarrow> value_at w ps | None \<Rightarrow> None) | _ \<Rightarrow> None)"
| "value_at v (Index i # ps) =
     (case v of JList xs \<Rightarrow> if i < length xs then value_at (xs ! i) ps else None | _ \<Rightarrow> None)"

text \<open>The scalar that replaces a scalar; lists and dictionaries are not scalars.\<close>

definition renamed :: "json \<Rightarrow> json" where
  "renamed v = (if v = JStr old_reference then JStr new_reference else v)"

definition scalar :: "json \<Rightarrow> bool" where
  "scalar v \<longleftrightarrow> \<not> is_list v \<and> \<not> is_obj v"

fun occurrences :: "json \<Rightarrow> nat" where
  "occurrences (JStr s) = (if s = old_reference then 1 else 0)"
| "occurrences (JList xs) = sum_list (map occurrences xs)"
| "occurrences (JObj d) = sum_list (map (\<lambda>(_, v). occurrences v) d)"
| "occurrences _ = 0"

lemma references_differ [simp]: "new_reference \<noteq> old_reference" "old_reference \<noteq> new_reference"
  by (simp_all add: new_reference_def old_reference_def)

lemma replace_count: "snd (replace_reference v) = occurrences v"
proof (induction v rule: occurrences.induct)
  case (2 xs)
  then show ?case by (simp add: Let_def comp_def cong: map_cong)
next
  case (3 d)
  then have "sum_list (map (\<lambda>kv. snd (replace_reference (snd kv))) d) = sum_list (map (\<lambda>kv. occurrences (snd kv)) d)"
    by (intro arg_cong [of _ _ sum_list] map_cong) auto
  then show ?case by (simp add: Let_def comp_def case_prod_unfold)
qed simp_all

lemma replace_none_left: "occurrences (fst (replace_reference v)) = 0"
proof (induction v rule: occurrences.induct)
  case (2 xs)
  then show ?case by (simp add: Let_def comp_def)
next
  case (3 d)
  then show ?case by (auto simp: Let_def comp_def case_prod_unfold)
qed simp_all

lemma replace_unchanged: "occurrences v = 0 \<Longrightarrow> fst (replace_reference v) = v"
proof (induction v rule: occurrences.induct)
  case (2 xs)
  then show ?case by (simp add: Let_def comp_def map_idI)
next
  case (3 d)
  then have "(fst kv, fst (replace_reference (snd kv))) = kv" if "kv \<in> set d" for kv
    using that by (cases kv) force
  then have "map (\<lambda>kv. (fst kv, fst (replace_reference (snd kv)))) d = d" by (rule map_idI)
  then show ?case by (simp add: Let_def comp_def case_prod_unfold)
qed (auto split: if_splits)

lemma map_of_replaced:
  "map_of (map (\<lambda>kv. (fst kv, fst (replace_reference (snd kv)))) d) k
     = map_option (\<lambda>v. fst (replace_reference v)) (map_of d k)"
  by (induction d) auto

lemma value_at_replaced:
  "value_at (fst (replace_reference v)) ps = map_option (\<lambda>w. fst (replace_reference w)) (value_at v ps)"
proof (induction v ps rule: value_at.induct)
  case (2 v k ps)
  show ?case
  proof (cases v)
    case (JObj d)
    with 2 show ?thesis by (cases "map_of d k") (simp_all add: Let_def comp_def case_prod_unfold map_of_replaced)
  qed (simp_all add: Let_def)
next
  case (3 v i ps)
  then show ?case by (cases v) (simp_all add: Let_def)
qed simp

lemma replace_scalar: "scalar v \<Longrightarrow> fst (replace_reference v) = renamed v"
  by (cases v) (auto simp: scalar_def renamed_def)

lemma replace_kind: "is_list (fst (replace_reference v)) = is_list v" "is_obj (fst (replace_reference v)) = is_obj v"
  by (cases v; simp add: Let_def)+

definition renamed_at :: "json \<Rightarrow> json \<Rightarrow> step list \<Rightarrow> bool" where
  "renamed_at v w ps \<longleftrightarrow>
     (case value_at v ps of
        None \<Rightarrow> value_at w ps = None
      | Some x \<Rightarrow>
          (case value_at w ps of
             None \<Rightarrow> False
           | Some y \<Rightarrow> if scalar x then y = renamed x else is_list y = is_list x \<and> is_obj y = is_obj x))"

text \<open>C21: the normalisation of a configuration keeps its shape, replaces the old reference at every position by
  the new one and no other scalar, counts the replacements, and finds nothing to do the second time.\<close>

theorem normalisation_renames_exactly_the_references:
  "renamed_at v (fst (replace_reference v)) ps \<and>
   snd (replace_reference v) = occurrences v \<and>
   replace_reference (fst (replace_reference v)) = (fst (replace_reference v), 0)"
proof -
  have "renamed_at v (fst (replace_reference v)) ps"
    by (simp add: renamed_at_def value_at_replaced replace_scalar replace_kind split: option.split)
  moreover have "replace_reference (fst (replace_reference v)) = (fst (replace_reference v), 0)"
    by (intro prod_eqI) (simp_all add: replace_count replace_none_left replace_unchanged)
  ultimately show ?thesis by (simp add: replace_count)
qed

lemma take_config_value:
  "take_config f stage name c = bind_result (read_config f (config_path stage name)) (\<lambda>v.
     Inr (if occurrences v = 0 then fst c else fst c @ [(config_path stage name, fst (replace_reference v))],
          snd c + occurrences v))"
  by (simp add: take_config_def case_prod_unfold replace_count)

text \<open>Without an error in the two files the total counts the references of both; an error leaves them alone.\<close>

lemma collected_changes:
  "case collect_changes f stage of
     Inl e \<Rightarrow> normalize stage f = (Inl e, f)
   | Inr (found, n) \<Rightarrow>
       \<exists>v w. read_config f (config_path stage ''PropParameters.json'') = Inr v \<and>
         read_config f (config_path stage ''Default.Package.json'') = Inr w \<and> n = occurrences v + occurrences w"
proof (cases "collect_changes f stage")
  case (Inl e)
  then show ?thesis by (simp add: normalize_def)
next
  case (Inr c)
  then show ?thesis
    by (cases c) (auto simp: collect_changes_def config_names_def take_config_value split: if_splits)
qed

end
