(* ===== verification/RuntimeTicks.thy ===== *)
theory RuntimeTicks
  imports RuntimeGate
begin

text \<open>
  The measured part of \<open>run_gate\<close>: the tick loop with its sensor and actor samples, the checks after
  it, the exception handler, the \<open>finally\<close> block, the re-checks of the evidence and the report.
  \<open>track\<close> holds the locals that only the loop uses.
\<close>

record track =
  tk_previous :: json
  tk_hashes :: "string list"
  tk_start :: "(location \<times> location) option"
  tk_vehicle_max :: pyfloat
  tk_walker_max :: pyfloat

definition start_track :: "json \<Rightarrow> track" where
  "start_track baseline =
     \<lparr>tk_previous = baseline, tk_hashes = [], tk_start = None, tk_vehicle_max = Fin 0, tk_walker_max = Fin 0\<rparr>"

definition warmup_of :: "string \<Rightarrow> int" where
  "warmup_of mode =
     (if mode = ''sensors'' then warmup_ticks else if mode = ''actors'' then actor_warmup_ticks else 0)"

section \<open>One tick\<close>

definition sweep_yaw :: "math_library \<Rightarrow> int \<Rightarrow> pyfloat" where
  "sweep_yaw m measured = float_mul (Fin 30) (math_sin m (decimal measured 10))"

definition base_of :: "transform option \<Rightarrow> transform result" where
  "base_of b = (case b of Some t \<Rightarrow> Inr t | None \<Rightarrow> Inl (TypeError ''base is None''))"

definition sweep :: "platform \<Rightarrow> 'w carla_api \<Rightarrow> transform option \<Rightarrow> int \<Rightarrow> ('w, unit) step" where
  "sweep pl api base measured =
     and_then (lift (base_of base)) (\<lambda>b.
     and_then (get_state g_owned) (\<lambda>owned.
       case owned of
         camera # lidar # _ \<Rightarrow>
           then_do (sim (api_set_transform api camera (pose b (sweep_yaw (pl_math pl) measured) (Fin (- 15)))))
             (sim (api_set_transform api lidar (pose b (sweep_yaw (pl_math pl) measured) (Fin 0))))
       | _ \<Rightarrow> raise (IndexError ''list index out of range'')))"

text \<open>\<open>AlignedQueue.frame(None, ...)\<close>: no comparison with the expected frame is possible.\<close>

definition frame_none :: "turn list \<Rightarrow> aligned_queue \<Rightarrow> packet result \<times> aligned_queue" where
  "frame_none turns q0 =
     (case check_failure q0 of
        Inl e \<Rightarrow> (Inl e, q0)
      | Inr _ \<Rightarrow>
          let (t, rest) = (case turns of t # _ \<Rightarrow> (t, True) | [] \<Rightarrow> (\<lparr>before_get = [], expired = True, during_get = []\<rparr>, False));
              q = deliver_all (before_get t) q0 in
          if aq_overflow q then (Inl (ValueError ''sensor queue overflow''), q)
          else if expired t then (Inl (ValueError ''sensor timeout waiting for frame None''), q)
          else
            (case get_packet (during_get t) q of
               (None, q') \<Rightarrow> (Inl (ValueError ''sensor timeout waiting for frame None''), q')
             | (Some p, q') \<Rightarrow>
                 (case integer (pk_frame p) ''sensor frame'' 0 of
                    Inl e \<Rightarrow> (Inl e, q')
                  | Inr _ \<Rightarrow> (Inl (TypeError ''unsupported comparison with NoneType''), q'))))"

definition frame_of :: "json \<Rightarrow> turn list \<Rightarrow> aligned_queue \<Rightarrow> packet result \<times> aligned_queue" where
  "frame_of expected turns q =
     (if expected = JNull then frame_none turns q else frame (int_of expected) turns q)"

definition next_packet :: "'w carla_api \<Rightarrow> string \<Rightarrow> json \<Rightarrow> ('w, packet) step" where
  "next_packet api name expected =
     then_do (receive api name)
     (and_then (observe (api_turns api name)) (\<lambda>turns. \<lambda>s.
        case map_of (g_streams s) name of
          None \<Rightarrow> (Inl (KeyError (repr_str name)), s)
        | Some q \<Rightarrow>
            (case frame_of expected turns q of
               (r, q') \<Rightarrow> (r, s\<lparr>g_streams := dict_set name q' (g_streams s)\<rparr>))))"

definition write_sample :: "gate_context \<Rightarrow> string \<Rightarrow> string \<Rightarrow> bytes \<Rightarrow> ('w, unit) step" where
  "write_sample c name suffix b =
     then_do (write_file (gc_work c @ [name @ ''-first.'' @ suffix]) b)
       (set_evidence (name @ ''-raw'') (gc_work c @ [name @ ''-first.'' @ suffix]))"

definition first_sample :: "gate_context \<Rightarrow> json \<Rightarrow> bytes \<Rightarrow> bytes \<Rightarrow> ('w, unit) step" where
  "first_sample c tick camera lidar =
     and_then (get_state g_samples) (\<lambda>samples.
       do_when (samples = [])
         (then_do (write_sample c ''camera'' ''bgra'' camera)
         (then_do (write_sample c ''lidar'' ''xyzi'' lidar)
         (set_raw ''raw_sample_frame'' tick))))"

definition add_sample :: "json \<Rightarrow> ('w, unit) step" where
  "add_sample v = put_state (\<lambda>s. s\<lparr>g_samples := g_samples s @ [v]\<rparr>)"

definition sample_metrics ::
  "platform \<Rightarrow> json \<Rightarrow> json \<Rightarrow> packet \<Rightarrow> bytes \<Rightarrow> bytes \<Rightarrow> track \<Rightarrow> ('w, track) step"
where
  "sample_metrics pl tick current camera camera_data lidar_data t =
     then_do (set_active ''camera'')
     (and_then (lift (validate_image (pl_host pl) camera_data (pk_width camera) (pk_height camera))) (\<lambda>image.
      then_do (set_active ''lidar'')
      (and_then (lift (validate_lidar (pl_host pl) lidar_data)) (\<lambda>cloud.
       then_do (add_sample (JObj [(''frame'', tick), (''timestamp'', field ''elapsed_seconds'' current),
         (''camera'', image), (''lidar'', cloud)]))
       (ret (t\<lparr>tk_hashes := List.insert (str_of (field ''rgb_sha256'' image)) (tk_hashes t)\<rparr>))))))"

definition sensor_sample ::
  "platform \<Rightarrow> gate_context \<Rightarrow> 'w carla_api \<Rightarrow> json \<Rightarrow> json \<Rightarrow> track \<Rightarrow> ('w, track) step"
where
  "sensor_sample pl c api tick current t =
     then_do (set_active ''alignment'')
     (and_then (next_packet api ''camera'' tick) (\<lambda>camera.
      and_then (next_packet api ''lidar'' tick) (\<lambda>lidar.
      then_do (lift (packet_frame camera current))
      (then_do (lift (packet_frame lidar current))
      (and_then (lift (payload camera)) (\<lambda>camera_data.
       and_then (lift (payload lidar)) (\<lambda>lidar_data.
       then_do (first_sample c tick camera_data lidar_data)
         (sample_metrics pl tick current camera camera_data lidar_data t))))))))"

definition the_actor :: "actor option \<Rightarrow> actor result" where
  "the_actor v = (case v of Some x \<Rightarrow> Inr x | None \<Rightarrow> Inl (AttributeError ''NoneType''))"

definition actor_record :: "json \<Rightarrow> location \<Rightarrow> pyfloat \<Rightarrow> location \<Rightarrow> pyfloat \<Rightarrow> json" where
  "actor_record tick vl vs wl ws =
     JObj [(''frame'', tick), (''vehicle_location'', location_xyz vl), (''vehicle_speed'', JFloat vs),
       (''walker_location'', location_xyz wl), (''walker_speed'', JFloat ws)]"

definition actor_track :: "location \<Rightarrow> pyfloat \<Rightarrow> location \<Rightarrow> pyfloat \<Rightarrow> track \<Rightarrow> track" where
  "actor_track vl vs wl ws t =
     t\<lparr>tk_start := (case tk_start t of None \<Rightarrow> Some (vl, wl) | Some p \<Rightarrow> Some p),
       tk_vehicle_max := float_max (tk_vehicle_max t) vs, tk_walker_max := float_max (tk_walker_max t) ws\<rparr>"

definition actor_sample :: "platform \<Rightarrow> 'w carla_api \<Rightarrow> json \<Rightarrow> track \<Rightarrow> ('w, track) step" where
  "actor_sample pl api tick t =
     and_then (get_state g_vehicle) (\<lambda>v. and_then (lift (the_actor v)) (\<lambda>vehicle.
     and_then (get_state g_walker) (\<lambda>w. and_then (sim (api_location api vehicle)) (\<lambda>vl.
     and_then (lift (the_actor w)) (\<lambda>walker. and_then (sim (api_location api walker)) (\<lambda>wl.
     and_then (sim (api_velocity api vehicle)) (\<lambda>vv. and_then (lift (speed (pl_math pl) vv)) (\<lambda>vs.
     and_then (sim (api_velocity api walker)) (\<lambda>wv. and_then (lift (speed (pl_math pl) wv)) (\<lambda>ws.
     then_do (raw_append ''actor_samples'' (actor_record tick vl vs wl ws))
       (ret (actor_track vl vs wl ws t))))))))))))"

definition measure_tick ::
  "platform \<Rightarrow> gate_context \<Rightarrow> 'w carla_api \<Rightarrow> json \<Rightarrow> json \<Rightarrow> track \<Rightarrow> ('w, track) step"
where
  "measure_tick pl c api tick current t =
     (if ga_mode (gc_args c) = ''rpc'' then ret t
      else if ga_mode (gc_args c) = ''actors'' then actor_sample pl api tick t
      else sensor_sample pl c api tick current t)"

definition add_tick :: "json \<Rightarrow> ('w, unit) step" where
  "add_tick v = put_state (\<lambda>s. s\<lparr>g_ticks := g_ticks s @ [v]\<rparr>)"

definition add_warmup :: "json \<Rightarrow> ('w, unit) step" where
  "add_warmup v = put_state (\<lambda>s. s\<lparr>g_warmup := g_warmup s @ [v]\<rparr>)"

definition record_tick ::
  "platform \<Rightarrow> gate_context \<Rightarrow> 'w carla_api \<Rightarrow> int \<Rightarrow> json \<Rightarrow> json \<Rightarrow> track \<Rightarrow> ('w, track) step"
where
  "record_tick pl c api index tick current t =
     (if index < warmup_of (ga_mode (gc_args c)) then then_do (add_warmup current) (ret t)
      else then_do (add_tick current) (measure_tick pl c api tick current t))"

definition tick_step ::
  "platform \<Rightarrow> gate_context \<Rightarrow> 'w carla_api \<Rightarrow> transform option \<Rightarrow> int \<Rightarrow> track \<Rightarrow> ('w, track) step"
where
  "tick_step pl c api base index t =
     then_do (set_active ''ticks'')
     (then_do (check_streams api)
     (then_do (do_when (ga_mode (gc_args c) = ''sensors'' \<and> warmup_of (ga_mode (gc_args c)) \<le> index)
        (sweep pl api base (index - warmup_of (ga_mode (gc_args c)) + 1)))
     (and_then (sim (api_tick api (ga_timeout (gc_args c)))) (\<lambda>tick.
      and_then (take_snapshot api (Some (tk_previous t)) tick) (\<lambda>current.
        record_tick pl c api index tick current (t\<lparr>tk_previous := current\<rparr>))))))"

fun tick_loop ::
  "platform \<Rightarrow> gate_context \<Rightarrow> 'w carla_api \<Rightarrow> transform option \<Rightarrow> int list \<Rightarrow> track \<Rightarrow> ('w, track) step"
where
  "tick_loop pl c api base [] t = ret t"
| "tick_loop pl c api base (i # is) t =
     and_then (tick_step pl c api base i t) (tick_loop pl c api base is)"

section \<open>After the ticks\<close>

definition update_raw :: "string \<Rightarrow> (string \<times> json) list \<Rightarrow> ('w, unit) step" where
  "update_raw key new = put_state (\<lambda>s.
     s\<lparr>g_raw := dict_set key
       (JObj (fold (\<lambda>(k, v). dict_set k v) new (obj_items (field key (JObj (g_raw s)))))) (g_raw s)\<rparr>)"

definition travelled_from :: "platform \<Rightarrow> 'w carla_api \<Rightarrow> location option \<Rightarrow> actor option \<Rightarrow> ('w, pyfloat) step" where
  "travelled_from pl api origin who =
     and_then (lift (the_actor who)) (\<lambda>x. and_then (sim (api_location api x)) (\<lambda>stop.
       lift (case origin of None \<Rightarrow> Inl (AttributeError ''NoneType'')
             | Some l \<Rightarrow> travelled_meters (pl_math pl) l stop)))"

definition motion_record :: "pyfloat \<Rightarrow> pyfloat \<Rightarrow> track \<Rightarrow> (string \<times> json) list" where
  "motion_record vehicle walker t =
     [(''vehicle_travelled_meters'', JFloat vehicle), (''vehicle_max_speed_mps'', JFloat (tk_vehicle_max t)),
      (''walker_travelled_meters'', JFloat walker), (''walker_max_speed_mps'', JFloat (tk_walker_max t)),
      (''minimum_required_travel_meters'', JFloat min_travelled_meters)]"

definition motion_checks :: "pyfloat \<Rightarrow> pyfloat \<Rightarrow> track \<Rightarrow> ('w, unit) step" where
  "motion_checks vehicle walker t =
     then_do (set_active ''vehicle-motion'')
     (then_do (check (float_le min_travelled_meters vehicle) ''Traffic Manager vehicle did not move'')
     (then_do (check (float_less (Fin 0) (tk_vehicle_max t)) ''Traffic Manager vehicle velocity remained zero'')
     (then_do pass_active
     (then_do (set_active ''walker-motion'')
     (then_do (check (float_le min_travelled_meters walker) ''AI walker did not move'')
      pass_active)))))"

definition motion_phase :: "platform \<Rightarrow> 'w carla_api \<Rightarrow> track \<Rightarrow> ('w, unit) step" where
  "motion_phase pl api t =
     and_then (get_state g_vehicle) (\<lambda>v. and_then (get_state g_walker) (\<lambda>w.
     and_then (travelled_from pl api (map_option fst (tk_start t)) v) (\<lambda>vehicle.
     and_then (travelled_from pl api (map_option snd (tk_start t)) w) (\<lambda>walker.
     then_do (update_raw ''actors'' (motion_record vehicle walker t))
       (motion_checks vehicle walker t)))))"

definition alignment_phase :: "'w carla_api \<Rightarrow> track \<Rightarrow> ('w, unit) step" where
  "alignment_phase api t =
     then_do (set_active ''alignment'')
     (then_do (receive_all api)
     (and_then (get_state g_streams) (\<lambda>qs.
      then_do (check (\<not> list_ex (\<lambda>(_, q). aq_overflow q) qs) ''sensor queue overflow'')
      (then_do (set_check ''alignment'' ''PASS'')
      (then_do (set_check ''lidar'' ''PASS'')
      (then_do (set_active ''camera'')
      (then_do (check (2 \<le> length (tk_hashes t)) ''RGB images do not change across measured frames'')
      (then_do (set_raw ''distinct_rgb_frames'' (JInt (int (length (tk_hashes t)))))
      (set_check ''camera'' ''PASS'')))))))))"

definition final_phase :: "platform \<Rightarrow> gate_context \<Rightarrow> 'w carla_api \<Rightarrow> track \<Rightarrow> ('w, unit) step" where
  "final_phase pl c api t =
     then_do (set_check ''ticks'' ''PASS'')
     (then_do (do_when (ga_mode (gc_args c) = ''actors'') (motion_phase pl api t))
     (do_when (ga_mode (gc_args c) = ''sensors'') (alignment_phase api t)))"

definition tick_indices :: "gate_context \<Rightarrow> int list" where
  "tick_indices c = [0..warmup_of (ga_mode (gc_args c)) + int_of (ga_ticks (gc_args c)) - 1]"

definition measure_phase ::
  "platform \<Rightarrow> gate_context \<Rightarrow> 'w carla_api \<Rightarrow> transform option \<Rightarrow> ('w, unit) step"
where
  "measure_phase pl c api base =
     and_then (take_snapshot api None JNull) (\<lambda>baseline.
     then_do (set_raw ''tick_baseline'' baseline)
     (and_then (tick_loop pl c api base (tick_indices c) (start_track baseline))
       (final_phase pl c api)))"

text \<open>The \<open>try\<close> block.\<close>

definition gate_body :: "platform \<Rightarrow> gate_context \<Rightarrow> 'w carla_api \<Rightarrow> ('w, unit) step" where
  "gate_body pl c api =
     then_do (environment_phase pl c)
     (then_do (provenance_phase pl c)
     (then_do (permission_phase c)
     (then_do (handshake_phase pl c api)
     (then_do (world_phase api)
     (then_do (settings_phase c api)
     (and_then (setup_phase pl c api) (measure_phase pl c api)))))))"

section \<open>Handler and cleanup\<close>

definition record_failure :: "py_error \<Rightarrow> ('w, unit) step" where
  "record_failure e =
     and_then (get_state g_active) (\<lambda>name.
     then_do (set_check name ''FAIL'')
       (add_error (name @ '': '' @ error_class e @ '': '' @ error_text e)))"

definition caught :: "py_error \<Rightarrow> bool" where
  "caught e \<longleftrightarrow> is_exception e \<or> e = KeyboardInterrupt"

definition guarded_body :: "platform \<Rightarrow> gate_context \<Rightarrow> 'w carla_api \<Rightarrow> ('w, unit) step" where
  "guarded_body pl c api =
     handle (gate_body pl c api) (\<lambda>e. if caught e then record_failure e else raise e)"

definition stop_controller :: "'w carla_api \<Rightarrow> actor \<Rightarrow> ('w, unit) step" where
  "stop_controller api x =
     attempt (''stop controller '' @ str_json (actor_id x)) (sim (api_controller_stop api x))"

definition release_traffic :: "'w carla_api \<Rightarrow> ('w, unit) step" where
  "release_traffic api =
     and_then (get_state g_traffic) (\<lambda>tm.
       case tm of
         None \<Rightarrow> ret ()
       | Some n \<Rightarrow> attempt ''stop Traffic Manager synchronous mode'' (sim (api_tm_synchronous api n False)))"

definition traffic_port :: "'w carla_api \<Rightarrow> nat option \<Rightarrow> ('w, json) step" where
  "traffic_port api tm =
     (case tm of Some n \<Rightarrow> sim (api_tm_port api n) | None \<Rightarrow> raise (AttributeError ''NoneType''))"

definition release_vehicle :: "'w carla_api \<Rightarrow> ('w, unit) step" where
  "release_vehicle api =
     and_then (get_state g_vehicle) (\<lambda>v. and_then (get_state g_traffic) (\<lambda>tm.
       case v of
         None \<Rightarrow> ret ()
       | Some x \<Rightarrow>
           attempt ''disable vehicle autopilot''
             (and_then (traffic_port api tm) (\<lambda>port.
              and_then (sim (api_autopilot api x False port)) (\<lambda>_. ret ())))))"

definition close_streams :: "('w, unit) step" where
  "close_streams = put_state (\<lambda>s. s\<lparr>g_streams := map (\<lambda>(n, q). (n, close_queue q)) (g_streams s)\<rparr>)"

definition stop_actor :: "'w carla_api \<Rightarrow> actor \<Rightarrow> ('w, unit) step" where
  "stop_actor api x =
     attempt (''stop actor '' @ str_json (actor_id x))
       (and_then (sim (api_is_listening api x)) (\<lambda>on. do_when on (sim (api_stop api x))))"

definition destroyed_note :: "actor \<Rightarrow> string" where
  "destroyed_note x = ''destroyed owned actor '' @ str_json (actor_id x)"

definition destroy_label :: "actor \<Rightarrow> string" where
  "destroy_label x = ''destroy actor '' @ str_json (actor_id x)"

definition destroy_actor :: "'w carla_api \<Rightarrow> actor \<Rightarrow> ('w, unit) step" where
  "destroy_actor api x =
     attempt (destroy_label x)
       (and_then (sim (api_destroy api x)) (\<lambda>r.
        then_do (check (r = JBool True) (destroy_label x @ '' was not acknowledged''))
          (add_cleanup (destroyed_note x))))"

definition dispose :: "'w carla_api \<Rightarrow> actor \<Rightarrow> ('w, unit) step" where
  "dispose api x = then_do (stop_actor api x) (destroy_actor api x)"

definition dispose_all :: "'w carla_api \<Rightarrow> ('w, unit) step" where
  "dispose_all api = and_then (get_state g_owned) (\<lambda>xs. do_each (dispose api) (rev xs))"

definition restored_note :: string where "restored_note = ''restored original world settings''"

definition restore_original :: "gate_context \<Rightarrow> 'w carla_api \<Rightarrow> settings \<Rightarrow> ('w, unit) step" where
  "restore_original c api original =
     then_do (sim (api_apply_settings api original (ga_timeout (gc_args c))))
     (and_then (sim (api_get_settings api)) (\<lambda>current.
      then_do (check (api_same_settings api current original) ''restored world settings differ from original'')
      (and_then (sim (api_get_settings api)) (\<lambda>now.
       and_then (lift (settings_view now)) (\<lambda>view.
       then_do (set_raw ''restored_settings'' view) (add_cleanup restored_note))))))"

definition restore_settings :: "gate_context \<Rightarrow> 'w carla_api \<Rightarrow> ('w, unit) step" where
  "restore_settings c api =
     and_then (get_state g_attempted) (\<lambda>tried. and_then (get_state g_original) (\<lambda>original.
       do_when tried
         (attempt ''restore settings''
           (case original of
              Some st \<Rightarrow> restore_original c api st
            | None \<Rightarrow> raise (TypeError ''original settings are None'')))))"

definition stale_counts :: "(string \<times> aligned_queue) list \<Rightarrow> json" where
  "stale_counts qs = JObj (map (\<lambda>(n, q). (n, JInt (int (aq_stale q)))) qs)"

definition close_cleanup :: "('w, unit) step" where
  "close_cleanup =
     then_do (put_state (\<lambda>s. s\<lparr>g_errors := g_errors s @ g_failures s\<rparr>))
     (and_then (get_state g_failures) (\<lambda>fs.
      then_do (set_check ''cleanup'' (if fs = [] then ''PASS'' else ''FAIL''))
      (and_then (get_state g_streams) (\<lambda>qs. set_raw ''queue_stale_packets'' (stale_counts qs)))))"

text \<open>The \<open>finally\<close> block.\<close>

definition cleanup :: "gate_context \<Rightarrow> 'w carla_api \<Rightarrow> ('w, unit) step" where
  "cleanup c api =
     then_do (and_then (get_state g_controllers) (do_each (stop_controller api)))
     (then_do (release_traffic api)
     (then_do (release_vehicle api)
     (then_do close_streams
     (then_do (dispose_all api)
     (then_do (restore_settings c api) close_cleanup)))))"

section \<open>Evidence and report\<close>

text \<open>\<open>except (OSError, ValueError)\<close> around one re-check.\<close>

definition recheck :: "string \<Rightarrow> string \<Rightarrow> ('w, unit) step \<Rightarrow> ('w, unit) step" where
  "recheck name label m =
     handle m (\<lambda>e.
       if os_or_value e then
         then_do (set_check name ''FAIL'') (add_error (label @ '' evidence: '' @ error_text e))
       else raise e)"

definition same_digest :: "platform \<Rightarrow> path \<Rightarrow> string \<Rightarrow> string \<Rightarrow> ('w, unit) step" where
  "same_digest pl p expected msg =
     and_then (get_state g_files) (\<lambda>f.
     and_then (lift (sha256_file (pl_host pl) f p)) (\<lambda>d. check (d = expected) msg))"

definition recheck_provenance :: "platform \<Rightarrow> gate_context \<Rightarrow> ('w, unit) step" where
  "recheck_provenance pl c =
     and_then (get_state g_provenance) (\<lambda>expected.
       case expected of
         None \<Rightarrow> ret ()
       | Some d \<Rightarrow>
           do_each (\<lambda>(label, p).
             recheck ''provenance'' (''provenance '' @ label)
               (same_digest pl p d (''provenance '' @ label @ '' changed during gate'')))
             [(''source'', gc_provenance c), (''snapshot'', provenance_copy c)])"

definition recheck_client :: "platform \<Rightarrow> ('w, unit) step" where
  "recheck_client pl =
     and_then (get_state g_evidence) (\<lambda>ev. and_then (get_state g_raw) (\<lambda>raw.
       do_when (''client-libcarla'' \<in> set (map fst ev))
         (let binary = field ''client_libcarla'' (JObj raw) in
          recheck ''handshake'' ''client extension''
            (same_digest pl (join_path [] (str_of (field ''loaded_path'' binary)))
               (str_of (field ''sha256'' binary)) ''client extension changed during gate''))))"

definition raw_report :: "'w gate \<Rightarrow> json" where
  "raw_report s =
     JObj (g_raw s @
       [(''errors'', JList (map JStr (g_errors s))), (''ticks'', JList (g_ticks s)),
        (''warmup'', JList (g_warmup s)), (''samples'', JList (g_samples s)),
        (''cleanup'', JList (map JStr (g_cleanup s))),
        (''checks'', text_dict (g_checks s))])"

definition result_path :: "gate_context \<Rightarrow> path" where
  "result_path c = gc_work c @ [''runtime-result.json'']"

definition write_result :: "gate_context \<Rightarrow> ('w, unit) step" where
  "write_result c =
     and_then (get_state raw_report) (\<lambda>raw.
     and_then (lift (dumps raw)) (\<lambda>text. write_file (result_path c) (text @ [CHR 0x0A])))"

definition all_pass :: "(string \<times> string) list \<Rightarrow> bool" where
  "all_pass checks \<longleftrightarrow> list_all (\<lambda>(_, v). v = ''PASS'') checks"

definition report_args :: "platform \<Rightarrow> gate_context \<Rightarrow> 'w gate \<Rightarrow> write_args" where
  "report_args pl c s =
     \<lparr>wa_stage_id = gc_stage c, wa_scope = gc_scope c,
      wa_exit_code = JInt (if all_pass (g_checks s) then 0 else 1),
      wa_required = JList (map JStr (required_checks (ga_mode (gc_args c)))),
      wa_checks = text_dict (g_checks s),
      wa_evidence = map (\<lambda>(n, p). (n, path_text p))
        (fold (\<lambda>n. dict_set n (result_path c)) (required_checks (ga_mode (gc_args c))) (g_evidence s)),
      wa_sources = g_sources s,
      wa_command = JList (map JStr (gate_command pl c)),
      wa_prerequisites = []\<rparr>"

definition write_gate_report :: "platform \<Rightarrow> gate_context \<Rightarrow> ('w, json) step" where
  "write_gate_report pl c = (\<lambda>s.
     case write_report (pl_host pl) (g_files s) (pl_now pl) (path_text (report_path (gc_run_dir c)))
         (report_args pl c s) of
       Inl e \<Rightarrow> (Inl e, s)
     | Inr (report, f) \<Rightarrow> (Inr report, s\<lparr>g_files := f\<rparr>))"

definition interfere :: "platform \<Rightarrow> ('w, unit) step" where
  "interfere pl = put_state (\<lambda>s. s\<lparr>g_files := pl_interference pl (g_files s)\<rparr>)"

definition gate_steps :: "platform \<Rightarrow> gate_context \<Rightarrow> 'w carla_api \<Rightarrow> ('w, json) step" where
  "gate_steps pl c api =
     then_do (finally_do (guarded_body pl c api) (cleanup c api))
     (then_do (interfere pl)
     (then_do (recheck_provenance pl c)
     (then_do (recheck_client pl)
     (then_do (write_result c)
     (write_gate_report pl c)))))"

definition run_gate ::
  "platform \<Rightarrow> 'w carla_api \<Rightarrow> gate_args \<Rightarrow> fs \<Rightarrow> 'w \<Rightarrow> json result \<times> 'w \<times> fs"
where
  "run_gate pl api a f w =
     (case prepare pl f a of
        Inl e \<Rightarrow> (Inl e, w, f)
      | Inr (c, f') \<Rightarrow>
          (case gate_steps pl c api (start_gate pl c f' w) of
             (r, s) \<Rightarrow> (r, g_world s, g_files s)))"

text \<open>\<open>main\<close> after the arguments are parsed: the exit code.\<close>

definition main :: "platform \<Rightarrow> 'w carla_api \<Rightarrow> gate_args \<Rightarrow> fs \<Rightarrow> 'w \<Rightarrow> int result \<times> 'w \<times> fs" where
  "main pl api a f w =
     (case run_gate pl api (a\<lparr>ga_injected := False\<rparr>) f w of
        (Inl e, rest) \<Rightarrow> (if os_or_value e then Inr 1 else Inl e, rest)
      | (Inr report, rest) \<Rightarrow>
          (Inr (if field ''status'' report = JStr ''PASS'' then 0 else 1), rest))"

end
