(* ===== verification/RuntimeGateFacts.thy ===== *)
theory RuntimeGateFacts
  imports RuntimeTicks
begin

text \<open>
  What the runtime gate does to the world it is given. \<open>logged\<close> turns any simulator into one that also
  keeps a log of the calls that matter (actors handed out, destroy requests, settings applied, Traffic
  Manager modes); it changes no answer. The invariant \<open>books\<close> relates the log to the gate's locals at
  every point of the \<open>try\<close> block, whatever the simulator answers or raises; the lemmas on the
  \<open>finally\<close> block start from it.
\<close>

section \<open>A simulator with a log\<close>

datatype call = Spawned actor | Asked actor | Applied settings | TrafficMode bool

type_synonym 'w logged_world = "'w \<times> call list"

definition quiet :: "('w, 'a) effect \<Rightarrow> ('w logged_world, 'a) effect" where
  "quiet m = (\<lambda>(w, l). case m w of (r, w') \<Rightarrow> (r, (w', l)))"

definition noting :: "call \<Rightarrow> ('w, 'a) effect \<Rightarrow> ('w logged_world, 'a) effect" where
  "noting e m = (\<lambda>(w, l). case m w of (r, w') \<Rightarrow> (r, (w', l @ [e])))"

definition noting_spawn :: "('w, actor option) effect \<Rightarrow> ('w logged_world, actor option) effect" where
  "noting_spawn m = (\<lambda>(w, l). case m w of (r, w') \<Rightarrow>
     (r, (w', case r of Inr (Some x) \<Rightarrow> l @ [Spawned x] | _ \<Rightarrow> l)))"

definition quietly :: "('w \<Rightarrow> 'a \<times> 'w) \<Rightarrow> 'w logged_world \<Rightarrow> 'a \<times> 'w logged_world" where
  "quietly m = (\<lambda>(w, l). case m w of (x, w') \<Rightarrow> (x, (w', l)))"

definition logged :: "'w carla_api \<Rightarrow> 'w logged_world carla_api" where
  "logged a =
     \<lparr>api_connect = \<lambda>h p. quiet (api_connect a h p),
      api_set_timeout = \<lambda>t. quiet (api_set_timeout a t),
      api_client_version = quiet (api_client_version a),
      api_server_version = quiet (api_server_version a),
      api_get_world = quiet (api_get_world a),
      api_map_name = quiet (api_map_name a),
      api_snapshot = quiet (api_snapshot a),
      api_get_settings = quiet (api_get_settings a),
      api_apply_settings = \<lambda>s t. noting (Applied s) (api_apply_settings a s t),
      api_same_settings = api_same_settings a,
      api_tick = \<lambda>t. quiet (api_tick a t),
      api_spawn_points = quiet (api_spawn_points a),
      api_find = \<lambda>n. quiet (api_find a n),
      api_filter = \<lambda>n. quiet (api_filter a n),
      api_has_attribute = \<lambda>b n. quiet (api_has_attribute a b n),
      api_set_attribute = \<lambda>b n v. quiet (api_set_attribute a b n v),
      api_spawn = \<lambda>b t x. noting_spawn (api_spawn a b t x),
      api_random_location = quiet (api_random_location a),
      api_traffic_manager = quiet (api_traffic_manager a),
      api_tm_port = \<lambda>n. quiet (api_tm_port a n),
      api_tm_synchronous = \<lambda>n b. noting (TrafficMode b) (api_tm_synchronous a n b),
      api_tm_seed = \<lambda>n i. quiet (api_tm_seed a n i),
      api_autopilot = \<lambda>x b p. quiet (api_autopilot a x b p),
      api_listen = \<lambda>x. quiet (api_listen a x),
      api_set_transform = \<lambda>x t. quiet (api_set_transform a x t),
      api_location = \<lambda>x. quiet (api_location a x),
      api_velocity = \<lambda>x. quiet (api_velocity a x),
      api_is_listening = \<lambda>x. quiet (api_is_listening a x),
      api_stop = \<lambda>x. quiet (api_stop a x),
      api_destroy = \<lambda>x. noting (Asked x) (api_destroy a x),
      api_controller_start = \<lambda>x. quiet (api_controller_start a x),
      api_controller_go = \<lambda>x l. quiet (api_controller_go a x l),
      api_controller_speed = \<lambda>x v. quiet (api_controller_speed a x v),
      api_controller_stop = \<lambda>x. quiet (api_controller_stop a x),
      api_arrivals = \<lambda>n. quietly (api_arrivals a n),
      api_turns = \<lambda>n. quietly (api_turns a n)\<rparr>"

lemmas logged_simps = logged_def carla_api.simps

abbreviation log_of :: "'w logged_world gate \<Rightarrow> call list" where
  "log_of s \<equiv> snd (g_world s)"

fun spawned :: "call list \<Rightarrow> actor list" where
  "spawned [] = []"
| "spawned (Spawned x # l) = x # spawned l"
| "spawned (_ # l) = spawned l"

fun asked :: "call list \<Rightarrow> actor list" where
  "asked [] = []"
| "asked (Asked x # l) = x # asked l"
| "asked (_ # l) = asked l"

fun applied :: "call list \<Rightarrow> settings list" where
  "applied [] = []"
| "applied (Applied x # l) = x # applied l"
| "applied (_ # l) = applied l"

lemma spawned_append [simp]: "spawned (l @ k) = spawned l @ spawned k"
  by (induction l rule: spawned.induct) simp_all

lemma asked_append [simp]: "asked (l @ k) = asked l @ asked k"
  by (induction l rule: asked.induct) simp_all

lemma applied_append [simp]: "applied (l @ k) = applied l @ applied k"
  by (induction l rule: applied.induct) simp_all

section \<open>Invariants\<close>

definition preserves :: "('s \<Rightarrow> bool) \<Rightarrow> ('s, 'a) effect \<Rightarrow> bool" where
  "preserves P m \<longleftrightarrow> keeps P m (\<lambda>_. P) (\<lambda>_. P)"

named_theorems steps_keep \<open>operations that keep the invariant of the try block\<close>

lemma preserves_iff: "preserves P m \<longleftrightarrow> (\<forall>s. P s \<longrightarrow> P (snd (m s)))"
  by (auto simp: preserves_def keeps_def split: prod.splits sum.splits)
    (metis eq_snd_iff obj_sumE)+

lemma preservesD: "preserves P m \<Longrightarrow> P s \<Longrightarrow> m s = (r, t) \<Longrightarrow> P t"
  by (auto simp: preserves_iff)

lemma preserves_and_then [steps_keep]:
  "preserves P m \<Longrightarrow> (\<And>x. preserves P (k x)) \<Longrightarrow> preserves P (and_then m k)"
  unfolding preserves_def by (rule keeps_and_then)

lemma preserves_then_do [steps_keep]:
  "preserves P m \<Longrightarrow> preserves P k \<Longrightarrow> preserves P (then_do m k)"
  unfolding then_do_def by (rule preserves_and_then)

lemma preserves_handle:
  "preserves P m \<Longrightarrow> (\<And>e. preserves P (k e)) \<Longrightarrow> preserves P (handle m k)"
  unfolding preserves_def by (rule keeps_handle)

lemma preserves_basic [steps_keep]:
  "preserves P (ret x)" "preserves P (raise e)" "preserves P (lift r)" "preserves P (get_state f)"
  "preserves P (check c msg)"
  by (simp_all add: preserves_iff)

lemma preserves_do_each [steps_keep]: "(\<And>x. preserves P (f x)) \<Longrightarrow> preserves P (do_each f xs)"
  unfolding preserves_def by (rule keeps_do_each)

lemma preserves_do_when [steps_keep]: "preserves P m \<Longrightarrow> preserves P (do_when c m)"
  by (simp add: do_when_def preserves_iff)

lemma preserves_cases [steps_keep]:
  "preserves P m \<Longrightarrow> preserves P n \<Longrightarrow> preserves P (if c then m else n)"
  "(\<And>x y. preserves P (f x y)) \<Longrightarrow> preserves P (case p of (x, y) \<Rightarrow> f x y)"
  by (simp_all add: preserves_iff split: prod.splits)

lemma preserves_option: "preserves P m \<Longrightarrow> (\<And>x. preserves P (k x)) \<Longrightarrow>
    preserves P (case v of None \<Rightarrow> m | Some x \<Rightarrow> k x)"
  by (cases v) simp_all

lemma preserves_put: "preserves P (put_state f) \<longleftrightarrow> (\<forall>s. P s \<longrightarrow> P (f s))"
  by (simp add: preserves_iff)

text \<open>The books of the \<open>try\<close> block.\<close>

definition settled :: "'w logged_world gate \<Rightarrow> bool" where
  "settled s \<longleftrightarrow>
     spawned (log_of s) = g_owned s \<and> asked (log_of s) = [] \<and>
     g_failures s = [] \<and> g_cleanup s = [] \<and> g_active s \<noteq> ''cleanup''"

text \<open>Stage 0 is before the settings are read, stage 1 before they are changed, stage 2 any time.\<close>

definition books :: "nat \<Rightarrow> 'w logged_world gate \<Rightarrow> bool" where
  "books k s \<longleftrightarrow> settled s \<and>
     (if g_attempted s then g_original s \<noteq> None \<and> (\<exists>d. applied (log_of s) = [d])
      else applied (log_of s) = []) \<and>
     (k < 2 \<longrightarrow> \<not> g_attempted s) \<and> (k = 1 \<longrightarrow> g_original s \<noteq> None)"

lemma sim_quiet: "sim (quiet m) s =
    (case m (fst (g_world s)) of (r, w) \<Rightarrow> (r, s\<lparr>g_world := (w, log_of s)\<rparr>))"
  by (auto simp: sim_def quiet_def split: prod.splits)

lemma sim_noting: "sim (noting e m) s =
    (case m (fst (g_world s)) of (r, w) \<Rightarrow> (r, s\<lparr>g_world := (w, log_of s @ [e])\<rparr>))"
  by (auto simp: sim_def noting_def split: prod.splits)

lemma observe_quietly: "observe (quietly m) s =
    (case m (fst (g_world s)) of (x, w) \<Rightarrow> (Inr x, s\<lparr>g_world := (w, log_of s)\<rparr>))"
  by (auto simp: observe_def quietly_def split: prod.splits)

lemma books_sim [steps_keep]: "preserves (books k) (sim (quiet m))" "preserves (books k) (observe (quietly m'))"
  by (auto simp: preserves_iff sim_quiet observe_quietly books_def settled_def split: prod.splits)

lemma books_traffic [steps_keep]: "preserves (books k) (sim (noting (TrafficMode b) m))"
  by (auto simp: preserves_iff sim_noting books_def settled_def split: prod.splits)

lemma books_puts [steps_keep]:
  "n \<noteq> ''cleanup'' \<Longrightarrow> preserves (books k) (set_active n)"
  "preserves (books k) (set_check n v)" "preserves (books k) pass_active" "preserves (books k) (set_raw key j)"
  "preserves (books k) (raw_append key j)" "preserves (books k) (add_error e)" "preserves (books k) (set_evidence key p)"
  "preserves (books k) (open_stream n)" "preserves (books k) (add_sample j)" "preserves (books k) (add_tick j)"
  "preserves (books k) (add_warmup j)" "preserves (books k) (update_raw key js)"
  by (simp_all add: preserves_put set_active_def set_check_def pass_active_def set_raw_def raw_append_def
      add_error_def set_evidence_def open_stream_def add_sample_def add_tick_def add_warmup_def
      update_raw_def books_def settled_def)

lemma books_locals [steps_keep]:
  "preserves (books k) (put_state (\<lambda>s. s\<lparr>g_provenance := p\<rparr>))"
  "preserves (books k) (put_state (\<lambda>s. s\<lparr>g_sources := j\<rparr>))"
  "preserves (books k) (put_state (\<lambda>s. s\<lparr>g_files := f\<rparr>))"
  "preserves (books k) (put_state (\<lambda>s. s\<lparr>g_original := Some o1\<rparr>))"
  "preserves (books k) (put_state (\<lambda>s. s\<lparr>g_vehicle := v, g_walker := w, g_traffic := tm\<rparr>))"
  "preserves (books k) (put_state (\<lambda>s. s\<lparr>g_controllers := g s\<rparr>))"
  "preserves (books k) (put_state (\<lambda>s. s\<lparr>g_streams := q s\<rparr>))"
  by (auto simp: preserves_put books_def settled_def)

lemma books_write [steps_keep]: "preserves (books k) (write_file p b)"
  by (auto simp: preserves_iff write_file_def books_def settled_def split: sum.splits)

lemma books_spawn [steps_keep]: "preserves (books k) (spawn_owned (logged a) b t x msg)"
  unfolding preserves_iff
  by (auto simp: spawn_owned_def logged_simps noting_spawn_def sim_def and_then_run then_do_def present_def
      own_def raw_append_def books_def settled_def split: prod.splits sum.splits option.splits)


lemma books_release: "books k s \<Longrightarrow> books 2 s"
  by (simp add: books_def)

lemmas gate_steps_defs =
  take_snapshot_def blueprint_attribute_def spawn_sensor_def spawn_sensors_def pick_blueprint_def
  pick_vehicle_blueprint_def pick_walker_blueprint_def set_if_present_def spawn_vehicle_def not_refused_def
  register_vehicle_def walker_route_def spawn_walker_def spawn_controller_def spawn_actors_def
  receive_def receive_all_def check_streams_def Let_def

lemma books_api [steps_keep]:
  "preserves (books k) (sim (api_connect (logged a) h p))"
  "preserves (books k) (sim (api_set_timeout (logged a) t))"
  "preserves (books k) (sim (api_client_version (logged a)))"
  "preserves (books k) (sim (api_server_version (logged a)))"
  "preserves (books k) (sim (api_get_world (logged a)))"
  "preserves (books k) (sim (api_map_name (logged a)))"
  "preserves (books k) (sim (api_snapshot (logged a)))"
  "preserves (books k) (sim (api_get_settings (logged a)))"
  "preserves (books k) (sim (api_tick (logged a) t))"
  "preserves (books k) (sim (api_spawn_points (logged a)))"
  "preserves (books k) (sim (api_find (logged a) n))"
  "preserves (books k) (sim (api_filter (logged a) n))"
  "preserves (books k) (sim (api_has_attribute (logged a) b n))"
  "preserves (books k) (sim (api_set_attribute (logged a) b n v))"
  "preserves (books k) (sim (api_random_location (logged a)))"
  "preserves (books k) (sim (api_traffic_manager (logged a)))"
  "preserves (books k) (sim (api_tm_port (logged a) tm))"
  "preserves (books k) (sim (api_tm_synchronous (logged a) tm on))"
  "preserves (books k) (sim (api_tm_seed (logged a) tm seed))"
  "preserves (books k) (sim (api_autopilot (logged a) x on p))"
  "preserves (books k) (sim (api_listen (logged a) x))"
  "preserves (books k) (sim (api_set_transform (logged a) x tr))"
  "preserves (books k) (sim (api_location (logged a) x))"
  "preserves (books k) (sim (api_velocity (logged a) x))"
  "preserves (books k) (sim (api_controller_start (logged a) x))"
  "preserves (books k) (sim (api_controller_go (logged a) x l))"
  "preserves (books k) (sim (api_controller_speed (logged a) x sp))"
  "preserves (books k) (observe (api_arrivals (logged a) n))"
  "preserves (books k) (observe (api_turns (logged a) n))"
  by (simp_all add: logged_simps books_sim books_traffic)

lemma books_find [steps_keep]: "preserves (books k) (find_destination (logged a) m origin n)"
proof (induction n)
  case 0
  show ?case unfolding find_destination.simps by (intro steps_keep)
next
  case (Suc n)
  show ?case unfolding find_destination.simps by (intro steps_keep Suc.IH)
qed

lemma books_receive [steps_keep]: "preserves (books k) (receive (logged a) name)"
  unfolding receive_def by (intro steps_keep)

lemma books_streams [steps_keep]:
  "preserves (books k) (receive_all (logged a))" "preserves (books k) (check_streams (logged a))"
  unfolding receive_all_def check_streams_def by (intro steps_keep)+

lemma books_snapshot [steps_keep]: "preserves (books k) (take_snapshot (logged a) prev tick)"
  unfolding take_snapshot_def by (intro steps_keep)

lemma books_blueprints [steps_keep]:
  "preserves (books k) (blueprint_attribute (logged a) b n v ty)"
  "preserves (books k) (set_if_present (logged a) b n v)"
  "preserves (books k) (pick_blueprint (logged a) pat pre msg)"
  unfolding blueprint_attribute_def set_if_present_def pick_blueprint_def Let_def
  by (intro steps_keep)+

lemma books_sensors [steps_keep]: "preserves (books k) (spawn_sensors (logged a))"
  unfolding spawn_sensors_def spawn_sensor_def by (intro steps_keep)

lemma books_actors [steps_keep]: "preserves (books k) (spawn_actors (logged a) m)"
  unfolding spawn_actors_def spawn_vehicle_def register_vehicle_def walker_route_def spawn_walker_def
    spawn_controller_def not_refused_def pick_vehicle_blueprint_def pick_walker_blueprint_def
  by (intro steps_keep)


lemma books_phases [steps_keep]:
  "preserves (books k) (environment_phase pl c)" "preserves (books k) (provenance_phase pl c)"
  "preserves (books k) (permission_phase c)" "preserves (books k) (handshake_phase pl c (logged a))"
  "preserves (books k) (world_phase (logged a))" "preserves (books k) (setup_phase pl c (logged a))"
  unfolding environment_phase_def provenance_phase_def permission_phase_def handshake_phase_def
    client_binary_def world_phase_def setup_phase_def sensors_phase_def actors_phase_def
  by (intro steps_keep; simp)+

lemma books_packet [steps_keep]: "preserves (books k) (next_packet (logged a) name tick)"
proof -
  have "preserves (books k) (\<lambda>s. case map_of (g_streams s) name of
          None \<Rightarrow> (Inl (KeyError (repr_str name)), s)
        | Some q \<Rightarrow> (case frame_of tick turns q of
              (r, q') \<Rightarrow> (r, s\<lparr>g_streams := dict_set name q' (g_streams s)\<rparr>)))"
    for turns :: "turn list" and k :: nat
    by (auto simp: preserves_iff books_def settled_def split: option.splits prod.splits)
  then show ?thesis unfolding next_packet_def by (intro steps_keep) auto
qed

lemma books_sample [steps_keep]:
  "preserves (books k) (sensor_sample pl c (logged a) tick current t)"
  "preserves (books k) (actor_sample pl (logged a) tick t)"
  unfolding sensor_sample_def first_sample_def write_sample_def sample_metrics_def actor_sample_def
  by (intro steps_keep; simp)+

lemma books_sweep [steps_keep]: "preserves (books k) (sweep pl (logged a) base n)"
  unfolding sweep_def by (intro steps_keep) (auto split: list.splits intro!: steps_keep)

lemma books_tick [steps_keep]: "preserves (books k) (tick_step pl c (logged a) base i t)"
  unfolding tick_step_def record_tick_def measure_tick_def by (intro steps_keep; simp)

lemma books_loop [steps_keep]: "preserves (books k) (tick_loop pl c (logged a) base is t)"
proof (induction "is" arbitrary: t)
  case Nil
  show ?case unfolding tick_loop.simps by (intro steps_keep)
next
  case (Cons i "is")
  show ?case unfolding tick_loop.simps by (intro steps_keep Cons.IH)
qed

lemma books_final [steps_keep]: "preserves (books k) (final_phase pl c (logged a) t)"
  unfolding final_phase_def motion_phase_def alignment_phase_def motion_checks_def travelled_from_def
  by (intro steps_keep; simp)

lemma books_measure [steps_keep]: "preserves (books k) (measure_phase pl c (logged a) base)"
  unfolding measure_phase_def by (intro steps_keep)

section \<open>The try block\<close>

lemma keeps_raise:
  "preserves (books k) m \<Longrightarrow> (\<And>x. keeps (books k) (f x) (\<lambda>_. books 2) (\<lambda>_. books 2)) \<Longrightarrow>
   keeps (books k) (and_then m f) (\<lambda>_. books 2) (\<lambda>_. books 2)"
  by (rule keeps_and_then [where R = "\<lambda>_. books k"])
    (auto simp: preserves_def intro: keeps_weaken books_release)

lemma keeps_raise_do:
  "preserves (books k) m \<Longrightarrow> keeps (books k) f (\<lambda>_. books 2) (\<lambda>_. books 2) \<Longrightarrow>
   keeps (books k) (then_do m f) (\<lambda>_. books 2) (\<lambda>_. books 2)"
  unfolding then_do_def by (rule keeps_raise)

lemma keeps_stage:
  "keeps P m (\<lambda>_. Q) (\<lambda>_. books 2) \<Longrightarrow> keeps Q f (\<lambda>_. books 2) (\<lambda>_. books 2) \<Longrightarrow>
   keeps P (then_do m f) (\<lambda>_. books 2) (\<lambda>_. books 2)"
  unfolding then_do_def by (rule keeps_and_then)

text \<open>Between the flag and the call the books are not balanced.\<close>

definition pending :: "'w logged_world gate \<Rightarrow> bool" where
  "pending s \<longleftrightarrow> settled s \<and> g_original s \<noteq> None \<and> applied (log_of s) = [] \<and> g_attempted s"

lemma pending_call:
  "keeps (books 1) (put_state (\<lambda>s. s\<lparr>g_attempted := True\<rparr>)) (\<lambda>_. pending) (\<lambda>_. books 2)"
  "keeps pending (sim (api_apply_settings (logged a) d t)) (\<lambda>_. books 2) (\<lambda>_. books 2)"
  by (auto simp: keeps_def logged_simps sim_noting books_def settled_def pending_def
      split: prod.splits sum.splits)

lemma keeps_late: "preserves (books 2) m \<Longrightarrow> keeps (books 2) m (\<lambda>_. books 2) (\<lambda>_. books 2)"
  by (simp add: preserves_def)

lemma books_apply:
  "keeps (books 1) (apply_desired c (logged a) d) (\<lambda>_. books 2) (\<lambda>_. books 2)"
  unfolding apply_desired_def
  by (intro keeps_stage [OF pending_call(1)] keeps_stage [OF pending_call(2)] keeps_late steps_keep)

lemma books_original:
  "keeps (books 0) (put_state (\<lambda>s. s\<lparr>g_original := Some o1\<rparr>)) (\<lambda>_. books 1) (\<lambda>_. books 2)"
  by (auto simp: keeps_basic books_def settled_def)

lemma books_settings:
  "keeps (books 0) (settings_phase c (logged a)) (\<lambda>_. books 2) (\<lambda>_. books 2)"
  unfolding settings_phase_def
  by (intro keeps_raise_do [where k = 0] keeps_raise [where k = 0] keeps_stage [OF books_original]
      keeps_raise_do [where k = 1] keeps_raise [where k = 1] books_apply steps_keep) simp_all

lemma books_body: "keeps (books 0) (gate_body pl c (logged a)) (\<lambda>_. books 2) (\<lambda>_. books 2)"
  unfolding gate_body_def
  by (intro keeps_raise_do [where k = 0] keeps_stage [OF books_settings] keeps_late steps_keep)

lemma books_guarded: "keeps (books 0) (guarded_body pl c (logged a)) (\<lambda>_. books 2) (\<lambda>_. books 2)"
  unfolding guarded_body_def record_failure_def
  by (intro keeps_handle [OF books_body] keeps_late steps_keep)

lemma books_start: "books 0 (start_gate pl c f (w, []))"
  by (simp add: books_def settled_def start_gate_def)

section \<open>The finally block\<close>

text \<open>What the cleanup has done, when it has disposed of \<open>done\<close> so far.\<close>

definition accounted :: "'w gate \<Rightarrow> actor \<Rightarrow> bool" where
  "accounted s x \<longleftrightarrow> destroyed_note x \<in> set (g_cleanup s) \<or>
     (\<exists>m. destroy_label x @ '': '' @ m \<in> set (g_failures s))"

definition applied_once :: "'w logged_world gate \<Rightarrow> bool" where
  "applied_once s \<longleftrightarrow>
     (if g_attempted s then g_original s \<noteq> None \<and> (\<exists>d. applied (log_of s) = [d])
      else applied (log_of s) = [])"

definition disposed :: "actor list \<Rightarrow> actor list \<Rightarrow> 'w logged_world gate \<Rightarrow> bool" where
  "disposed mine gone s \<longleftrightarrow>
     spawned (log_of s) = mine \<and> g_owned s = mine \<and> asked (log_of s) = gone \<and>
     (\<forall>x\<in>set gone. accounted s x) \<and> applied_once s"

lemma books_disposed: "books k s \<Longrightarrow> disposed (g_owned s) [] s"
  by (simp add: books_def settled_def disposed_def applied_once_def)

lemma accounted_more:
  "accounted s x \<Longrightarrow> accounted (s\<lparr>g_failures := g_failures s @ fs\<rparr>) x"
  "accounted s x \<Longrightarrow> accounted (s\<lparr>g_cleanup := g_cleanup s @ cs\<rparr>) x"
  by (auto simp: accounted_def)

lemma accounted_world [simp]: "accounted (s\<lparr>g_world := w\<rparr>) x = accounted s x"
  by (simp add: accounted_def)

lemma disposed_attempt:
  assumes "preserves (disposed mine gone) m"
  shows "preserves (disposed mine gone) (attempt label m)"
  unfolding attempt_def
proof (intro preserves_handle assms preserves_cases preserves_basic)
  fix e
  show "preserves (disposed mine gone)
      (put_state (\<lambda>s. s\<lparr>g_failures := g_failures s @ [label @ '': '' @ error_text e]\<rparr>))"
    by (auto simp: preserves_put disposed_def applied_once_def accounted_more)
qed

lemma disposed_sim:
  "preserves (disposed mine gone) (sim (quiet m))"
  "preserves (disposed mine gone) (sim (noting (TrafficMode b) m'))"
  by (auto simp: preserves_iff sim_quiet sim_noting disposed_def applied_once_def split: prod.splits)

lemma disposed_streams: "preserves (disposed mine gone) close_streams"
  by (auto simp: close_streams_def preserves_put disposed_def applied_once_def accounted_def)

lemma disposed_api:
  "preserves (disposed mine gone) (sim (api_controller_stop (logged a) x))"
  "preserves (disposed mine gone) (sim (api_tm_synchronous (logged a) n on))"
  "preserves (disposed mine gone) (sim (api_tm_port (logged a) n))"
  "preserves (disposed mine gone) (sim (api_autopilot (logged a) x on p))"
  "preserves (disposed mine gone) (sim (api_is_listening (logged a) x))"
  "preserves (disposed mine gone) (sim (api_stop (logged a) x))"
  by (simp_all add: logged_simps disposed_sim)

lemmas disposed_rules = preserves_and_then preserves_basic preserves_option preserves_do_when
  disposed_attempt disposed_api

lemma disposed_port: "preserves (disposed mine gone) (traffic_port (logged a) tm)"
  unfolding traffic_port_def by (cases tm) (simp_all add: disposed_api preserves_basic)

lemma disposed_controller: "preserves (disposed mine gone) (stop_controller (logged a) x)"
  unfolding stop_controller_def by (rule disposed_attempt) (rule disposed_api)

lemma disposed_traffic: "preserves (disposed mine gone) (release_traffic (logged a))"
  unfolding release_traffic_def
proof (rule preserves_and_then [OF preserves_basic(4)])
  fix tm
  show "preserves (disposed mine gone) (case tm of None \<Rightarrow> ret ()
      | Some n \<Rightarrow> attempt ''stop Traffic Manager synchronous mode'' (sim (api_tm_synchronous (logged a) n False)))"
    by (cases tm) (simp_all add: preserves_basic disposed_attempt disposed_api)
qed

lemma disposed_vehicle: "preserves (disposed mine gone) (release_vehicle (logged a))"
  unfolding release_vehicle_def
proof (rule preserves_and_then [OF preserves_basic(4)], rule preserves_and_then [OF preserves_basic(4)])
  fix v tm
  show "preserves (disposed mine gone) (case v of None \<Rightarrow> ret () | Some x \<Rightarrow>
      attempt ''disable vehicle autopilot'' (and_then (traffic_port (logged a) tm) (\<lambda>port.
        and_then (sim (api_autopilot (logged a) x False port)) (\<lambda>_. ret ()))))"
    by (cases v) (simp_all add: preserves_basic disposed_attempt disposed_api disposed_port preserves_and_then)
qed

lemma disposed_stop: "preserves (disposed mine gone) (stop_actor (logged a) x)"
  unfolding stop_actor_def
  by (rule disposed_attempt) (simp add: disposed_api preserves_and_then preserves_do_when)

text \<open>One destroy request, whatever comes back.\<close>

definition any_end :: "py_error \<Rightarrow> 's \<Rightarrow> bool" where
  "any_end e s \<longleftrightarrow> True"

lemma keeps_any: "preserves P m \<Longrightarrow> keeps P m (\<lambda>_. P) any_end"
  unfolding preserves_def by (erule keeps_weaken) (simp_all add: any_end_def)

lemma keeps_do:
  "keeps P m (\<lambda>_. Q) E \<Longrightarrow> keeps Q k R E \<Longrightarrow> keeps P (then_do m k) R E"
  unfolding then_do_def by (rule keeps_and_then)

lemma logged_destroy: "api_destroy (logged a) x = noting (Asked x) (api_destroy a x)"
  by (simp add: logged_simps)

lemma keeps_attempt:
  assumes "keeps P m (\<lambda>_. Q) R"
    and "\<And>e s. R e s \<Longrightarrow> Q (s\<lparr>g_failures := g_failures s @ [label @ '': '' @ error_text e]\<rparr>)"
  shows "keeps P (attempt label m) (\<lambda>_. Q) any_end"
  unfolding attempt_def
proof (rule keeps_handle [OF assms(1)])
  fix e
  show "keeps (R e) (if is_exception e then
      put_state (\<lambda>s. s\<lparr>g_failures := g_failures s @ [label @ '': '' @ error_text e]\<rparr>) else raise e)
      (\<lambda>_. Q) any_end"
    using assms(2) by (simp add: keeps_basic any_end_def)
qed

definition asking :: "actor list \<Rightarrow> actor list \<Rightarrow> actor \<Rightarrow> 'w logged_world gate \<Rightarrow> bool" where
  "asking mine gone x s \<longleftrightarrow>
     spawned (log_of s) = mine \<and> g_owned s = mine \<and> asked (log_of s) = gone @ [x] \<and>
     (\<forall>y\<in>set gone. accounted s y) \<and> applied_once s"

lemma asking_noted:
  "asking mine gone x s \<Longrightarrow>
   disposed mine (gone @ [x]) (s\<lparr>g_failures := g_failures s @ [destroy_label x @ '': '' @ m]\<rparr>)"
  "asking mine gone x s \<Longrightarrow>
   disposed mine (gone @ [x]) (s\<lparr>g_cleanup := g_cleanup s @ [destroyed_note x]\<rparr>)"
  using accounted_more [of s] by (auto simp: asking_def disposed_def applied_once_def accounted_def)

lemma asking_sim:
  "keeps (disposed mine gone) (sim (noting (Asked x) m)) (\<lambda>_. asking mine gone x) (\<lambda>_. asking mine gone x)"
  by (auto simp: keeps_def sim_noting asking_def disposed_def applied_once_def split: prod.splits sum.splits)

lemma destroy_keeps:
  "keeps (disposed mine gone) (destroy_actor (logged a) x) (\<lambda>_. disposed mine (gone @ [x])) any_end"
  unfolding destroy_actor_def logged_destroy
proof (rule keeps_attempt [where R = "\<lambda>_. asking mine gone x"])
  show "keeps (disposed mine gone) (and_then (sim (noting (Asked x) (api_destroy a x))) (\<lambda>r.
      then_do (check (r = JBool True) (destroy_label x @ '' was not acknowledged'')) (add_cleanup (destroyed_note x))))
      (\<lambda>_. disposed mine (gone @ [x])) (\<lambda>_. asking mine gone x)"
    unfolding then_do_def add_cleanup_def
    by (intro keeps_and_then [OF asking_sim] keeps_and_then [where R = "\<lambda>_. asking mine gone x"])
      (auto simp: keeps_basic asking_noted)
qed (rule asking_noted)

lemma dispose_keeps:
  "keeps (disposed mine gone) (dispose (logged a) x) (\<lambda>_. disposed mine (gone @ [x])) any_end"
  unfolding dispose_def by (rule keeps_do [OF keeps_any destroy_keeps]) (rule disposed_stop)

lemma dispose_each_keeps:
  "keeps (disposed mine gone) (do_each (dispose (logged a)) xs) (\<lambda>_. disposed mine (gone @ xs)) any_end"
proof (induction xs arbitrary: gone)
  case Nil
  show ?case unfolding do_each.simps keeps_basic by simp
next
  case (Cons x xs)
  have "keeps (disposed mine (gone @ [x])) (do_each (dispose (logged a)) xs)
      (\<lambda>_. disposed mine (gone @ x # xs)) any_end"
    using Cons.IH [of "gone @ [x]"] by simp
  then show ?case
    unfolding do_each.simps by (rule keeps_and_then [OF dispose_keeps])
qed

lemma dispose_all_keeps:
  "keeps (disposed mine []) (dispose_all (logged a)) (\<lambda>_. disposed mine (rev mine)) any_end"
proof -
  have "keeps (disposed mine []) (get_state g_owned) (\<lambda>xs s. xs = mine \<and> disposed mine [] s) any_end"
    by (simp add: keeps_basic disposed_def)
  then show ?thesis
    unfolding dispose_all_def
  proof (rule keeps_and_then)
    fix xs
    show "keeps (\<lambda>s. xs = mine \<and> disposed mine [] s) (do_each (dispose (logged a)) (rev xs))
        (\<lambda>_. disposed mine (rev mine)) any_end"
      using dispose_each_keeps [of mine "[]" a "rev mine"] by (auto simp: keeps_def)
  qed
qed


text \<open>The end of the \<open>finally\<close> block.\<close>

definition restored :: "'w logged_world gate \<Rightarrow> bool" where
  "restored s \<longleftrightarrow>
     (if g_attempted s then
        (\<exists>d st. g_original s = Some st \<and> applied (log_of s) = [d, st]) \<and>
        (restored_note \<in> set (g_cleanup s) \<or> (\<exists>m. ''restore settings: '' @ m \<in> set (g_failures s)))
      else applied (log_of s) = [])"

definition cleaned :: "actor list \<Rightarrow> 'w logged_world gate \<Rightarrow> bool" where
  "cleaned mine s \<longleftrightarrow>
     spawned (log_of s) = mine \<and> asked (log_of s) = rev mine \<and> (\<forall>x\<in>set mine. accounted s x) \<and> restored s"

text \<open>After the call that restores the settings and before its result is noted.\<close>

definition restoring :: "actor list \<Rightarrow> 'w logged_world gate \<Rightarrow> bool" where
  "restoring mine s \<longleftrightarrow>
     spawned (log_of s) = mine \<and> asked (log_of s) = rev mine \<and> (\<forall>x\<in>set mine. accounted s x) \<and>
     g_attempted s \<and> (\<exists>d st. g_original s = Some st \<and> applied (log_of s) = [d, st])"

lemma restoring_noted:
  "restoring mine s \<Longrightarrow> cleaned mine (s\<lparr>g_failures := g_failures s @ [''restore settings'' @ '': '' @ m]\<rparr>)"
  "restoring mine s \<Longrightarrow> cleaned mine (s\<lparr>g_cleanup := g_cleanup s @ [restored_note]\<rparr>)"
  using accounted_more [of s] by (auto simp: restoring_def cleaned_def restored_def)

lemma restoring_steps:
  "preserves (restoring mine) (sim (api_get_settings (logged a)))"
  "preserves (restoring mine) (set_raw key v)"
  by (auto simp: preserves_iff logged_simps sim_quiet restoring_def set_raw_def accounted_def
      split: prod.splits)

lemma restoring_apply:
  "keeps (\<lambda>s. disposed mine (rev mine) s \<and> g_attempted s \<and> g_original s = Some st)
     (sim (api_apply_settings (logged a) st t)) (\<lambda>_. restoring mine) (\<lambda>_. restoring mine)"
  by (auto simp: keeps_def logged_simps sim_noting restoring_def disposed_def applied_once_def
      split: prod.splits sum.splits)


lemma restored_original:
  "keeps (\<lambda>s. disposed mine (rev mine) s \<and> g_attempted s \<and> g_original s = Some st)
     (restore_original c (logged a) st) (\<lambda>_. cleaned mine) (\<lambda>_. restoring mine)"
proof -
  have late: "preserves (restoring mine) m \<Longrightarrow> keeps (restoring mine) m (\<lambda>_. restoring mine) (\<lambda>_. restoring mine)"
    for m :: "('a logged_world, 'c) step" by (simp add: preserves_def)
  have noted: "keeps (restoring mine) (add_cleanup restored_note) (\<lambda>_. cleaned mine) (\<lambda>_. restoring mine)"
    by (simp add: add_cleanup_def keeps_basic restoring_noted)
  show ?thesis
    unfolding restore_original_def then_do_def
    by (intro keeps_and_then [OF restoring_apply] keeps_and_then [OF late] noted restoring_steps
        preserves_basic)
qed

lemma restore_keeps:
  "keeps (disposed mine (rev mine)) (restore_settings c (logged a)) (\<lambda>_. cleaned mine) any_end"
proof (rule keepsI)
  fix s u t
  assume s: "disposed mine (rev mine) s" and run: "restore_settings c (logged a) s = (Inr u, t)"
  show "cleaned mine t"
  proof (cases "g_attempted s")
    case False
    with s run show ?thesis
      by (auto simp: restore_settings_def and_then_run do_when_def disposed_def applied_once_def
          cleaned_def restored_def)
  next
    case True
    with s obtain st where st: "g_original s = Some st" by (auto simp: disposed_def applied_once_def)
    have "keeps (\<lambda>s. disposed mine (rev mine) s \<and> g_attempted s \<and> g_original s = Some st)
        (attempt ''restore settings'' (restore_original c (logged a) st)) (\<lambda>_. cleaned mine) any_end"
      by (rule keeps_attempt [OF restored_original]) (rule restoring_noted)
    moreover from run True st have "attempt ''restore settings'' (restore_original c (logged a) st) s = (Inr u, t)"
      by (simp add: restore_settings_def and_then_run do_when_def)
    ultimately show ?thesis using s True st by (blast dest: keepsD_return)
  qed
qed (simp add: any_end_def)

text \<open>What holds from the end of the \<open>finally\<close> block to the end of the gate.\<close>

definition reported :: "'w gate \<Rightarrow> actor \<Rightarrow> bool" where
  "reported s x \<longleftrightarrow> destroyed_note x \<in> set (g_cleanup s) \<or>
     (\<exists>m. destroy_label x @ '': '' @ m \<in> set (g_errors s))"

definition settings_handled :: "'w logged_world gate \<Rightarrow> bool" where
  "settings_handled s \<longleftrightarrow>
     applied (log_of s) = [] \<or>
     (\<exists>d st. g_original s = Some st \<and> applied (log_of s) = [d, st]) \<and>
     (restored_note \<in> set (g_cleanup s) \<or> (\<exists>m. ''restore settings: '' @ m \<in> set (g_errors s)))"

definition closed :: "'w logged_world gate \<Rightarrow> bool" where
  "closed s \<longleftrightarrow>
     asked (log_of s) = rev (spawned (log_of s)) \<and> (\<forall>x\<in>set (spawned (log_of s)). reported s x) \<and>
     settings_handled s"

lemma close_keeps: "keeps (cleaned mine) close_cleanup (\<lambda>_. closed) any_end"
proof (rule keepsI)
  fix s u t
  assume s: "cleaned mine s" and run: "close_cleanup s = (Inr u, t)"
  from run have t: "g_world t = g_world s" "g_cleanup t = g_cleanup s" "g_original t = g_original s"
    "g_errors t = g_errors s @ g_failures s"
    by (auto simp: close_cleanup_def then_do_def and_then_run set_check_def set_raw_def)
  from s have "reported t x" if "x \<in> set mine" for x
    using that by (auto simp: cleaned_def accounted_def reported_def t)
  moreover from s have "settings_handled t"
    by (auto simp: cleaned_def restored_def settings_handled_def t split: if_splits)
  ultimately show "closed t" using s by (simp add: closed_def cleaned_def t)
qed (simp add: any_end_def)

lemma disposed_do_each:
  "(\<And>x. preserves (disposed mine gone) (f x)) \<Longrightarrow>
   preserves (disposed mine gone) (and_then (get_state g) (do_each f))"
  by (intro preserves_and_then preserves_basic preserves_do_each)

lemma cleanup_keeps: "keeps (disposed mine []) (cleanup c (logged a)) (\<lambda>_. closed) any_end"
  unfolding cleanup_def
  by (intro keeps_do [OF keeps_any] keeps_do [OF dispose_all_keeps] keeps_do [OF restore_keeps] close_keeps
      disposed_do_each disposed_controller disposed_traffic disposed_vehicle disposed_streams)

lemma finally_closed:
  assumes "books 0 s" and "finally_do (guarded_body pl c (logged a)) (cleanup c (logged a)) s = (Inr u, t)"
  shows "closed t"
proof -
  obtain r v where body: "guarded_body pl c (logged a) s = (r, v)" by fastforce
  then have "books 2 v"
    using assms(1) keepsD_return [OF books_guarded] keepsD_raise [OF books_guarded] by (cases r) blast+
  moreover from assms(2) body have "cleanup c (logged a) v = (Inr (), t)"
    by (auto simp: finally_do_def split: prod.splits sum.splits)
  ultimately show ?thesis using keepsD_return [OF cleanup_keeps books_disposed] by blast
qed

lemma closed_steps:
  "preserves closed (interfere pl)" "preserves closed (set_check n v)" "preserves closed (add_error e)"
  "preserves closed (write_file p b)" "preserves closed (write_gate_report pl c)"
  by (auto simp: preserves_iff interfere_def set_check_def add_error_def write_file_def write_gate_report_def
      closed_def reported_def settings_handled_def split: sum.splits prod.splits)

lemma closed_recheck: "preserves closed m \<Longrightarrow> preserves closed (recheck name label m)"
  unfolding recheck_def then_do_def
  by (intro preserves_handle preserves_cases preserves_and_then preserves_basic closed_steps)

lemma closed_digest: "preserves closed (same_digest pl p d msg)"
  unfolding same_digest_def by (intro preserves_and_then preserves_basic)

lemma closed_rechecks:
  "preserves closed (recheck_provenance pl c)" "preserves closed (recheck_client pl)"
  unfolding recheck_provenance_def recheck_client_def Let_def
  by (intro preserves_and_then preserves_basic preserves_option preserves_do_each preserves_cases
      preserves_do_when closed_recheck closed_digest)+

lemma closed_after:
  "preserves closed (then_do (interfere pl) (then_do (recheck_provenance pl c) (then_do (recheck_client pl)
     (then_do (write_result c) (write_gate_report pl c)))))"
  unfolding write_result_def
  by (intro preserves_then_do preserves_and_then preserves_basic closed_steps closed_rechecks)

lemma gate_closed:
  assumes "gate_steps pl c (logged a) (start_gate pl c f (w, [])) = (Inr report, t)"
  shows "closed t"
proof -
  from assms obtain u v where
    "finally_do (guarded_body pl c (logged a)) (cleanup c (logged a)) (start_gate pl c f (w, [])) = (Inr u, v)"
    and rest: "then_do (interfere pl) (then_do (recheck_provenance pl c) (then_do (recheck_client pl)
     (then_do (write_result c) (write_gate_report pl c)))) v = (Inr report, t)"
    by (auto simp: gate_steps_def then_do_def [of "finally_do _ _"] and_then_run split: prod.splits sum.splits)
  from finally_closed [OF books_start this(1)] rest show ?thesis by (blast intro: preservesD [OF closed_after])
qed

end
