(* ===== verification/RuntimeChecksFacts.thy ===== *)
theory RuntimeChecksFacts
  imports RuntimeChecks JsonRoundtrip
begin

text \<open>
  What the pure runtime checks accept. Each check is characterised on every input: the provenance,
  a world snapshot (alone, and after a previous one), an image, a point cloud.
\<close>

section \<open>Numbers\<close>

lemma integer_Inr: "integer v name least = Inr w \<longleftrightarrow> w = v \<and> is_int v \<and> least \<le> int_of v"
  by (auto simp: integer_def)

lemma finite_number_Inr:
  "finite_number v name = Inr w \<longleftrightarrow>
     w = v \<and> is_number v \<and> (\<exists>r. float_val (num_float v) = Some r)"
  by (cases v) (auto simp: finite_number_def is_number_def is_finite_number_def is_finite_def)

lemma is_int_eq: "is_int v \<Longrightarrow> is_int w \<Longrightarrow> v = w \<longleftrightarrow> int_of v = int_of w"
  by (auto simp: is_int_iff)

lemma num_less_trans: "num_less a b \<Longrightarrow> num_less b c \<Longrightarrow> num_less a c"
  by (auto simp: num_less_def split: option.splits intro: float_less_trans)

section \<open>Snapshots\<close>

definition frame_of :: "json \<Rightarrow> int" where "frame_of r = int_of (field ''frame'' r)"

definition snapshot_ok :: "world_snapshot \<Rightarrow> json \<Rightarrow> bool" where
  "snapshot_ok s tick \<longleftrightarrow>
     is_int (ws_frame s) \<and> 0 \<le> int_of (ws_frame s) \<and> ws_stamp_frame s = ws_frame s \<and>
     (\<forall>v\<in>{ws_elapsed s, ws_delta s}. is_number v \<and> float_val (num_float v) \<noteq> None \<and> num_le (JInt 0) v) \<and>
     (tick = JNull \<or> tick = ws_frame s)"

definition snapshot_record :: "world_snapshot \<Rightarrow> json" where
  "snapshot_record s =
     JObj [(''frame'', ws_frame s), (''elapsed_seconds'', ws_elapsed s), (''delta_seconds'', ws_delta s)]"

definition steps_on :: "json \<Rightarrow> world_snapshot \<Rightarrow> bool" where
  "steps_on p s \<longleftrightarrow>
     int_of (ws_frame s) = frame_of p + 1 \<and>
     num_less (field ''elapsed_seconds'' p) (ws_elapsed s) \<and>
     close_to_step (num_sub (ws_elapsed s) (field ''elapsed_seconds'' p)) \<and>
     close_to_step (ws_delta s)"

lemma follows_Inr:
  "follows p (ws_frame s) (ws_elapsed s) (ws_delta s) = Inr () \<longleftrightarrow> steps_on p s"
  by (auto simp: follows_def steps_on_def frame_of_def Let_def)

lemma validate_snapshot_Inr:
  "validate_snapshot s previous tick = Inr r \<longleftrightarrow>
     r = snapshot_record s \<and> snapshot_ok s tick \<and>
     (case previous of None \<Rightarrow> True | Some p \<Rightarrow> steps_on p s)"
  by (cases previous)
    (auto simp: validate_snapshot_def snapshot_record_def snapshot_ok_def integer_Inr
      finite_number_Inr follows_Inr)

text \<open>The loop of ticks: every snapshot is validated against the one before.\<close>

fun snapshot_run :: "json \<Rightarrow> (world_snapshot \<times> json) list \<Rightarrow> json list result" where
  "snapshot_run p [] = Inr []"
| "snapshot_run p ((s, tick) # rest) =
     bind_result (validate_snapshot s (Some p) tick) (\<lambda>r.
     bind_result (snapshot_run r rest) (\<lambda>rs. Inr (r # rs)))"

lemma snapshot_run_frames:
  "snapshot_run p ss = Inr rs \<Longrightarrow>
     length rs = length ss \<and> (\<forall>i<length rs. frame_of (rs ! i) = frame_of p + 1 + int i)"
proof (induction ss arbitrary: p rs)
  case (Cons x ss)
  obtain s t where x: "x = (s, t)" by (cases x)
  from Cons.prems obtain r rs' where r: "validate_snapshot s (Some p) t = Inr r"
    and run: "snapshot_run r ss = Inr rs'" and rs: "rs = r # rs'" by (auto simp: x)
  have "frame_of r = frame_of p + 1"
    using r by (auto simp: validate_snapshot_Inr steps_on_def snapshot_record_def frame_of_def)
  with Cons.IH [OF run] rs show ?case by (auto simp: nth_Cons split: nat.splits)
qed simp

lemma snapshot_run_increases:
  "snapshot_run p ss = Inr rs \<Longrightarrow> r \<in> set rs \<Longrightarrow>
     num_less (field ''elapsed_seconds'' p) (field ''elapsed_seconds'' r)"
proof (induction ss arbitrary: p rs)
  case (Cons x ss)
  obtain s t where x: "x = (s, t)" by (cases x)
  from Cons.prems obtain r' rs' where r: "validate_snapshot s (Some p) t = Inr r'"
    and run: "snapshot_run r' ss = Inr rs'" and rs: "rs = r' # rs'" by (auto simp: x)
  have step: "num_less (field ''elapsed_seconds'' p) (field ''elapsed_seconds'' r')"
    using r by (auto simp: validate_snapshot_Inr steps_on_def snapshot_record_def)
  show ?case
  proof (cases "r = r'")
    case False
    with Cons.prems(2) rs have "r \<in> set rs'" by simp
    from num_less_trans [OF step Cons.IH [OF run this]] show ?thesis .
  qed (simp add: step)
qed simp

section \<open>Provenance\<close>

definition provenance_ok :: "json \<Rightarrow> bool" where
  "provenance_ok data \<longleftrightarrow>
     field ''schema_version'' data = JInt 1 \<and> is_obj (field ''sources'' data) \<and>
     (\<forall>n\<in>{''carla'', ''ue''}. \<forall>k\<in>{''location'', ''revision''}.
        text_value (field k (field n (field ''sources'' data))))"

lemma field_obj: "field k v \<noteq> JNull \<Longrightarrow> is_obj v"
  by (cases v) (simp_all add: field_def)

lemma text_value_obj: "text_value (field k v) \<Longrightarrow> is_obj v"
  by (rule field_obj [of k]) (auto simp: text_value_def split: json.splits)

lemma check_provenance_Inr:
  "check_provenance data = Inr sources \<longleftrightarrow>
     provenance_ok data \<and>
     sources = JObj [(''carla'', field ''carla'' (field ''sources'' data)),
                     (''ue'', field ''ue'' (field ''sources'' data))]"
proof -
  have "is_obj data" if "is_obj (field ''sources'' data)"
    using that by (intro field_obj [of "''sources''"]) auto
  then show ?thesis
    using text_value_obj
    by (auto simp: check_provenance_def provenance_ok_def check_source_def provenance_names_def Let_def)
qed

section \<open>Images\<close>

lemma uniform_iff: "uniform xs \<longleftrightarrow> (\<forall>x\<in>set xs. \<forall>y\<in>set xs. x = y)"
proof (cases xs)
  case (Cons a ys)
  have "uniform xs \<longleftrightarrow> (\<forall>y\<in>set xs. y = a)" by (auto simp: Cons list_all_iff)
  moreover have "a \<in> set xs" by (simp add: Cons)
  ultimately show ?thesis by metis
qed simp

lemma Suc_mod_4: "Suc j mod (4::nat) = Suc k mod 4 \<longleftrightarrow> j mod 4 = k mod (4::nat)"
  unfolding mod_Suc by (auto split: if_splits)

lemma every_fourth_nth:
  "set (every_fourth k xs) = {xs ! i | i. i < length xs \<and> i mod 4 = k mod 4}" if "k < 4"
  using that
proof (induction k xs rule: every_fourth.induct)
  case (2 x xs)
  have "{(x # xs) ! i | i. i < length (x # xs) \<and> i mod 4 = 0 mod 4}
    = insert x {xs ! i | i. i < length xs \<and> i mod 4 = 3}"
  proof (intro set_eqI iffI)
    fix y assume "y \<in> {(x # xs) ! i | i. i < length (x # xs) \<and> i mod 4 = 0 mod 4}"
    then obtain i where i: "y = (x # xs) ! i" "i < length (x # xs)" "i mod 4 = 0" by auto
    show "y \<in> insert x {xs ! i | i. i < length xs \<and> i mod 4 = 3}"
    proof (cases i)
      case (Suc j)
      then have "j mod 4 = 3" using i(3) by presburger
      with Suc i show ?thesis by auto
    qed (simp add: i)
  next
    fix y assume "y \<in> insert x {xs ! i | i. i < length xs \<and> i mod 4 = 3}"
    then consider "y = x" | i where "y = xs ! i" "i < length xs" "i mod 4 = 3" by auto
    then show "y \<in> {(x # xs) ! i | i. i < length (x # xs) \<and> i mod 4 = 0 mod 4}"
    proof cases
      case 2
      then have "Suc i mod 4 = 0" by presburger
      with 2 show ?thesis by (intro CollectI exI [of _ "Suc i"]) simp
    qed (auto intro: exI [of _ 0])
  qed
  with 2 show ?case by simp
next
  case (3 k x xs)
  have "{(x # xs) ! i | i. i < length (x # xs) \<and> i mod 4 = Suc k mod 4}
    = {xs ! i | i. i < length xs \<and> i mod 4 = k mod 4}"
  proof (intro set_eqI iffI)
    fix y assume "y \<in> {(x # xs) ! i | i. i < length (x # xs) \<and> i mod 4 = Suc k mod 4}"
    then obtain i where i: "y = (x # xs) ! i" "i < length (x # xs)" "i mod 4 = Suc k mod 4" by auto
    then obtain j where "i = Suc j" using "3.prems" by (cases i) auto
    moreover from this i(3) have "j mod 4 = k mod 4" by (simp only: Suc_mod_4)
    ultimately show "y \<in> {xs ! i | i. i < length xs \<and> i mod 4 = k mod 4}" using i by auto
  next
    fix y assume "y \<in> {xs ! i | i. i < length xs \<and> i mod 4 = k mod 4}"
    then obtain i where i: "y = xs ! i" "i < length xs" "i mod 4 = k mod 4" by auto
    then have "Suc i mod 4 = Suc k mod 4" by (simp only: Suc_mod_4)
    with i show "y \<in> {(x # xs) ! i | i. i < length (x # xs) \<and> i mod 4 = Suc k mod 4}"
      by (intro CollectI exI [of _ "Suc i"]) simp
  qed
  with 3 show ?case by simp
qed simp

definition varied :: "bytes \<Rightarrow> bool" where
  "varied b \<longleftrightarrow>
     (\<exists>i j. i < length b \<and> j < length b \<and> i mod 4 = j mod 4 \<and> i mod 4 < 3 \<and> b ! i \<noteq> b ! j)"

lemma not_uniform_channel:
  "k < 4 \<Longrightarrow> \<not> uniform (every_fourth k b) \<longleftrightarrow>
     (\<exists>i j. i < length b \<and> j < length b \<and> i mod 4 = k \<and> j mod 4 = k \<and> b ! i \<noteq> b ! j)"
  by (auto simp: uniform_iff every_fourth_nth)

lemma varied_iff: "list_ex (\<lambda>c. \<not> uniform c) [every_fourth 0 b, every_fourth 1 b, every_fourth 2 b] \<longleftrightarrow> varied b"
proof -
  have "(\<exists>k<3. P k) \<longleftrightarrow> P 0 \<or> P 1 \<or> P (2::nat)" for P
    by (metis less_Suc_eq less_one numeral_2_eq_2 numeral_3_eq_3 One_nat_def)
  then have "list_ex (\<lambda>c. \<not> uniform c) [every_fourth 0 b, every_fourth 1 b, every_fourth 2 b] \<longleftrightarrow>
      (\<exists>k<3. \<not> uniform (every_fourth k b))" by simp
  also have "\<dots> \<longleftrightarrow> (\<exists>k<3. \<exists>i j. i < length b \<and> j < length b \<and> i mod 4 = k \<and> j mod 4 = k \<and> b ! i \<noteq> b ! j)"
    by (rule ex_cong1, rule conj_cong [OF refl], rule not_uniform_channel) simp
  also have "\<dots> \<longleftrightarrow> varied b"
  proof
    assume "varied b"
    then obtain i j where "i < length b" "j < length b" "i mod 4 = j mod 4" "i mod 4 < 3" "b ! i \<noteq> b ! j"
      unfolding varied_def by (elim exE conjE)
    then show "\<exists>k<3. \<exists>i j. i < length b \<and> j < length b \<and> i mod 4 = k \<and> j mod 4 = k \<and> b ! i \<noteq> b ! j"
      by (intro exI [of _ "i mod 4"] conjI exI [of _ i] exI [of _ j]) simp_all
  next
    assume "\<exists>k<3. \<exists>i j. i < length b \<and> j < length b \<and> i mod 4 = k \<and> j mod 4 = k \<and> b ! i \<noteq> b ! j"
    then obtain k i j where "k < 3" "i < length b" "j < length b" "i mod 4 = k" "j mod 4 = k" "b ! i \<noteq> b ! j"
      by (elim exE conjE)
    then show "varied b"
      unfolding varied_def by (intro exI [of _ i] exI [of _ j]) simp
  qed
  finally show ?thesis .
qed

lemma validate_image_Inr:
  "(\<exists>r. validate_image h b width height = Inr r) \<longleftrightarrow>
     width = JInt 320 \<and> height = JInt 240 \<and> length b = 307200 \<and> varied b"
proof -
  have "int (length b) = 307200 \<longleftrightarrow> length b = 307200" by auto
  then show ?thesis
    by (auto simp: validate_image_def integer_Inr image_width_def image_height_def Let_def
        varied_iff [symmetric])
qed

section \<open>Point clouds\<close>

definition point_finite :: "32 word \<times> 32 word \<times> 32 word \<times> 32 word \<Rightarrow> bool" where
  "point_finite p \<longleftrightarrow>
     (case p of (a, b, c, d) \<Rightarrow> list_all (\<lambda>w. is_finite (float32_val w)) [a, b, c, d])"

definition point_radius :: "32 word \<times> 32 word \<times> 32 word \<times> 32 word \<Rightarrow> pyfloat" where
  "point_radius p =
     (case p of (a, b, c, d) \<Rightarrow> radius_squared (float32_val a) (float32_val b) (float32_val c))"

lemma lidar_point_Inr:
  "lidar_point p best = Inr b \<longleftrightarrow> point_finite p \<and> b = float_max best (point_radius p)"
  by (cases p) (auto simp: lidar_point_def point_finite_def point_radius_def Let_def)

text \<open>Squares and their sums are never negative and never NaN.\<close>

definition not_negative :: "pyfloat \<Rightarrow> bool" where
  "not_negative x \<longleftrightarrow> x = PosInf \<or> (\<exists>q\<ge>0. x = Fin q)"

lemma pow2_pos: "0 < pow2 e"
  by (simp add: pow2_def)

lemma round_half_even_nonneg: "0 \<le> q \<Longrightarrow> 0 \<le> round_half_even q"
  by (simp add: round_half_even_def Let_def)

lemma round_float_nonneg: "0 \<le> q \<Longrightarrow> not_negative (round_float q)"
proof -
  assume q: "0 \<le> q"
  define e where "e = max (- 1074) (log2_floor \<bar>q\<bar> - 52)"
  have "0 \<le> round_half_even (\<bar>q\<bar> / pow2 e)"
    using pow2_pos [of e] by (intro round_half_even_nonneg) simp
  then have "0 \<le> of_int (round_half_even (\<bar>q\<bar> / pow2 e)) * pow2 e"
    using pow2_pos [of e] by simp
  with q show ?thesis
    by (auto simp: round_float_def Let_def not_negative_def e_def)
qed

lemma square_not_negative:
  assumes "is_finite x"
  shows "not_negative (float_mul x x)"
proof -
  from assms obtain a where "float_val x = Some a" by (auto simp: is_finite_def)
  then show ?thesis
    using round_float_nonneg [of "a * a"]
    by (auto simp: float_mul_def Let_def not_negative_def)
qed

lemma sum_not_negative:
  assumes "not_negative x" and "not_negative y"
  shows "not_negative (float_add x y)"
proof (cases "x = PosInf \<or> y = PosInf")
  case True
  with assms show ?thesis by (auto simp: not_negative_def float_add_def)
next
  case False
  with assms obtain p q where "0 \<le> p" "x = Fin p" "0 \<le> q" "y = Fin q" by (auto simp: not_negative_def)
  with round_float_nonneg [of "p + q"] show ?thesis by (simp add: float_add_def)
qed

lemma not_negative_not_NaN: "not_negative x \<Longrightarrow> x \<noteq> NaN"
  by (auto simp: not_negative_def)

lemma point_radius_not_negative: "point_finite p \<Longrightarrow> not_negative (point_radius p)"
  by (cases p)
    (auto simp: point_finite_def point_radius_def radius_squared_def
      intro!: sum_not_negative square_not_negative)

lemma float_max_not_NaN: "a \<noteq> NaN \<Longrightarrow> b \<noteq> NaN \<Longrightarrow> float_max a b \<noteq> NaN"
  by (simp add: float_max_def)

lemma lidar_fold:
  "best \<noteq> NaN \<Longrightarrow>
   (\<exists>r. fold_result lidar_point ps best = Inr r \<and> float_less t r) \<longleftrightarrow>
     (\<forall>p\<in>set ps. point_finite p) \<and> (float_less t best \<or> (\<exists>p\<in>set ps. float_less t (point_radius p)))"
proof (induction ps arbitrary: best)
  case (Cons p ps)
  show ?case
  proof (cases "point_finite p")
    case True
    then have nn: "point_radius p \<noteq> NaN" using point_radius_not_negative not_negative_not_NaN by blast
    have "lidar_point p best = Inr (float_max best (point_radius p))" using True by (simp add: lidar_point_Inr)
    with Cons.IH [OF float_max_not_NaN [OF Cons.prems nn]] True show ?thesis
      using float_max_less [OF Cons.prems nn, of t] by simp
  qed (simp add: lidar_point_Inr)
qed simp

lemma validate_lidar_Inr:
  "(\<exists>r. validate_lidar h b = Inr r) \<longleftrightarrow>
     b \<noteq> [] \<and> length b mod 16 = 0 \<and> (\<forall>p\<in>set (quads (words_of b)). point_finite p) \<and>
     (\<exists>p\<in>set (quads (words_of b)). float_less (decimal 1 1000000000000) (point_radius p))"
proof -
  let ?t = "decimal 1 1000000000000"
  have "\<not> float_less ?t (Fin 0)"
  proof -
    have "not_negative ?t" unfolding decimal_def by (rule round_float_nonneg) simp
    then show ?thesis by (auto simp: not_negative_def)
  qed
  then have fold: "(\<exists>r. fold_result lidar_point ps (Fin 0) = Inr r \<and> float_less ?t r) \<longleftrightarrow>
      (\<forall>p\<in>set ps. point_finite p) \<and> (\<exists>p\<in>set ps. float_less ?t (point_radius p))" for ps
    using lidar_fold [of "Fin 0" ps ?t] by simp
  show ?thesis unfolding validate_lidar_def fold [symmetric] by auto
qed

section \<open>Properties\<close>

text \<open>C35: along a run of accepted world ticks the frame numbers are consecutive from the baseline,
  none missing and none repeated, and every tick is strictly later than the baseline.\<close>

theorem accepted_ticks_are_consecutive:
  assumes "snapshot_run baseline ticks = Inr rs"
  shows "length rs = length ticks \<and>
    (\<forall>i<length rs. frame_of (rs ! i) = frame_of baseline + 1 + int i \<and>
       num_less (field ''elapsed_seconds'' baseline) (field ''elapsed_seconds'' (rs ! i)))"
  using snapshot_run_frames [OF assms] snapshot_run_increases [OF assms] by simp

definition tick0 :: json where
  "tick0 = JObj [(''frame'', JInt 7), (''elapsed_seconds'', JInt 0), (''delta_seconds'', JInt 0)]"

definition snap1 :: world_snapshot where
  "snap1 = \<lparr>ws_frame = JInt 8, ws_stamp_frame = JInt 8, ws_elapsed = JFloat step_seconds,
            ws_delta = JFloat step_seconds\<rparr>"

lemma step_evaluation:
  "num_sub (JFloat step_seconds) (JInt 0) = JFloat step_seconds"
  "num_sub (JFloat step_seconds) (JFloat step_seconds) = JFloat (Fin 0)"
  "num_abs (JFloat (Fin 0)) = JFloat (Fin 0)"
  "num_le (JFloat (Fin 0)) (JFloat tolerance)"
  "float_val step_seconds \<noteq> None" "float_le (Fin 0) step_seconds" "float_less (Fin 0) step_seconds"
proof -
  have "not_negative tolerance" unfolding tolerance_def decimal_def by (rule round_float_nonneg) simp
  then consider "tolerance = PosInf" | q where "0 \<le> q" "tolerance = Fin q"
    unfolding not_negative_def by blast
  then show "num_le (JFloat (Fin 0)) (JFloat tolerance)"
  proof cases
    case 2
    then have "float_le (Fin 0) tolerance" unfolding 2(2) by (simp only: float_le_Fin)
    then show ?thesis by (simp add: num_le_def)
  qed (simp add: num_le_def float_le_def)
qed (simp_all add: step_seconds_def decimal_step float_sub_def float_of_int_def round_float_step
    float_abs_def)

lemma accepted_ticks_are_consecutive_witness:
  "\<exists>rs. snapshot_run tick0 [(snap1, JInt 8)] = Inr rs \<and> length rs = 1 \<and> frame_of (rs ! 0) = 8"
proof -
  have run: "snapshot_run tick0 [(snap1, JInt 8)] = Inr [snapshot_record snap1]"
    by (simp add: validate_snapshot_Inr snapshot_ok_def steps_on_def snap1_def tick0_def frame_of_def
        close_to_step_def step_evaluation is_number_def num_less_def float_le_def del: num_sub.simps num_abs.simps)
      (simp add: num_le_def step_evaluation)
  from accepted_ticks_are_consecutive [OF run] run show ?thesis
    by (auto simp: tick0_def frame_of_def)
qed

text \<open>A camera image is accepted exactly when it has the requested size, its payload is four
  bytes per pixel, and one of the three colour channels differs between two pixels.\<close>

theorem image_check_decides:
  "(\<exists>r. validate_image h b width height = Inr r) \<longleftrightarrow>
     width = JInt 320 \<and> height = JInt 240 \<and> length b = 307200 \<and> varied b"
  by (rule validate_image_Inr)

text \<open>A point cloud is accepted exactly when it is nonempty, made of whole XYZI points, every
  coordinate is finite, and some point has a squared range above the threshold; the rounding of the
  sums cannot make the check miss a NaN.\<close>

theorem lidar_check_decides:
  "(\<exists>r. validate_lidar h b = Inr r) \<longleftrightarrow>
     b \<noteq> [] \<and> length b mod 16 = 0 \<and> list_all point_finite (quads (words_of b)) \<and>
     list_ex (\<lambda>p. float_less (decimal 1 1000000000000) (point_radius p)) (quads (words_of b))"
  unfolding validate_lidar_Inr by (simp add: list_all_iff list_ex_iff)

text \<open>The provenance check returns exactly the two required sources, and only when both have
  a nonempty location and revision.\<close>

theorem provenance_check_decides:
  "check_provenance data = Inr sources \<longleftrightarrow>
     provenance_ok data \<and>
     sources = JObj [(''carla'', field ''carla'' (field ''sources'' data)),
                     (''ue'', field ''ue'' (field ''sources'' data))]"
  by (rule check_provenance_Inr)

end
