(* ===== verification/StageReportProperties.thy ===== *)
theory StageReportProperties
  imports StageReportRoundtrip
begin

text \<open>
  The contract of \<open>stage_report.py\<close>: the validator decides the specification, a written PASS report
  validates, a report whose evidence was changed does not, and the exit codes say so. The concrete
  host, file system and arguments at the end carry the witnesses.
\<close>

section \<open>Lemmas\<close>

lemma os_error_cases:
  "(case x of Inl (OSError m) \<Rightarrow> Inl (ValueError m) | y \<Rightarrow> y) = Inr r \<longleftrightarrow> x = Inr r"
  by (auto split: sum.splits py_error.splits)

lemma validate_report_Inr:
  "validate_report h f path stage scope = Inr r \<longleftrightarrow>
     (\<exists>p. resolve_checked f (cwd h) (JStr path) = Inr p \<and>
          validate_file h f [] None p stage scope = Inr r)"
  by (simp add: validate_report_def os_error_cases)

lemma validate_file_iff:
  "validate_file h f [] None p stage scope = Inr r \<longleftrightarrow>
     genuine h f max_prerequisite_depth p stage scope r"
  using validate_file_genuine [of h f "[]" None p stage scope r]
    genuine_validates [of h f max_prerequisite_depth p stage scope r "[]" None]
  by auto

lemma genuine_content: "genuine h f n p stage scope r \<Longrightarrow> content_ok h f r p stage scope"
  by (erule genuineE) blast

lemma genuine_report: "genuine h f n p stage scope r \<Longrightarrow> \<exists>raw. report_at f p raw r"
  by (erule genuineE) blast

lemma genuine_passes: "genuine h f n p stage scope r \<Longrightarrow> field ''status'' r = JStr ''PASS''"
  by (erule genuineE) blast

text \<open>Replacing the content of a regular file at a canonical path touches nothing else.\<close>

lemma update_differs:
  "f q = Some (Regular b) \<Longrightarrow> differs_at f (f(q \<mapsto> Regular b')) q"
  by (auto simp: differs_at_def link_target_def)

lemma changed_evidence_fails:
  assumes gen: "genuine h f n p stage scope r" and can: "canonical f p"
    and rec: "(name, rec) \<in> set (entries_of ''evidence'' r)"
    and q: "file_identity f (parent p) rec = Inr (q, d)"
    and new: "sha256 h b \<noteq> d"
  shows "\<not> genuine h (f(q \<mapsto> Regular b)) m p stage scope r'"
proof
  let ?f = "f(q \<mapsto> Regular b)"
  assume gen': "genuine h ?f m p stage scope r'"
  have par: "canonical f (parent p)" using can by (simp add: parent_def canonical_butlast)
  from genuine_content [OF gen] rec have "evidence_matches h f p rec"
    by (auto simp: content_ok_def evidence_ok_def)
  with q obtain b0 where "q \<noteq> p" "read_bytes f q = Inr b0" by (auto simp: evidence_matches_def)
  moreover have can_q: "canonical f q" using file_identity_canonical [OF q par] .
  ultimately have node: "f q = Some (Regular b0)" and ne: "q \<noteq> []" "q \<noteq> p"
    by (auto simp: read_bytes_canonical)
  note diff = update_differs [of f q b0 b, OF node]
  have can_q': "canonical ?f q" "canonical ?f p"
    using can_q can canonical_links [of ?f f] diff by (simp_all add: differs_at_def)
  from genuine_report [OF gen] genuine_report [OF gen'] obtain raw raw' where
    at: "report_at f p raw r" "report_at ?f p raw' r'" by blast
  with can can_q'(2) ne(2) have "r' = r" by (auto simp: report_at_def read_bytes_canonical)
  with genuine_content [OF gen'] rec have "evidence_matches h ?f p rec"
    by (auto simp: content_ok_def evidence_ok_def)
  then have "d = sha256 h b"
    using differs_file_identity [OF diff] q can_q'(1) ne
    by (auto simp: evidence_matches_def read_bytes_canonical)
  with new show False by simp
qed

section \<open>A concrete run\<close>

text \<open>One check with one evidence file; \<open>h0\<close> gives the evidence content a digest of its own.\<close>

definition h0 :: host where
  "h0 = \<lparr>sha256 = (\<lambda>b. replicate 64 (if b = ''ok'' then CHR ''a'' else CHR ''0'')),
         iso_offset = (\<lambda>s. Some (s = ''now'')), cwd = [''w'']\<rparr>"

definition f0 :: fs where
  "f0 = [[''w''] \<mapsto> Directory, [''w'', ''e''] \<mapsto> Regular ''ok'']"

definition a0 :: write_args where
  "a0 = \<lparr>wa_stage_id = ''s'', wa_scope = ''t'', wa_exit_code = JInt 0,
         wa_required = JList [JStr ''c''], wa_checks = JObj [(''c'', JStr ''PASS'')],
         wa_evidence = [(''c'', ''e'')],
         wa_sources = JObj [(''r'', JObj [(''location'', JStr ''l''), (''revision'', JStr ''v'')])],
         wa_command = JList [JStr ''run''], wa_prerequisites = []\<rparr>"

definition r0 :: json where
  "r0 = report_of h0 f0 [''w'', ''p''] ''now'' a0 ''PASS'' []"

definition f1 :: fs where
  "f1 = f0([''w'', ''p''] \<mapsto> Regular (encode 0 r0 @ [CHR 0x0A]))"

definition e0 :: json where
  "e0 = JObj [(''path'', JStr ''e''), (''sha256'', JStr (replicate 64 (CHR ''a'')))]"

definition yields :: "'a result \<Rightarrow> ('a \<Rightarrow> bool) \<Rightarrow> bool" where
  "yields r P \<longleftrightarrow> (case r of Inl _ \<Rightarrow> False | Inr x \<Rightarrow> P x)"

lemma yields_iff: "yields r P \<longleftrightarrow> (\<exists>x. r = Inr x \<and> P x)"
  by (simp add: yields_def split: sum.splits)

lemma write_run: "map_sum id fst (write_report h0 f0 ''now'' ''p'' a0) = Inr r0"
  by code_simp

lemma validate_run: "validate_report h0 f1 ''p'' ''s'' ''t'' = Inr (canon r0)"
  by code_simp

lemma r0_plain: "plain_json r0"
  by code_simp

lemma r0_status: "field ''status'' r0 = JStr ''PASS''"
  by (simp add: r0_def report_fields)

lemma cwd_canonical: "canonical f0 (cwd h0)" "canonical f1 (cwd h0)"
  by (simp_all add: h0_def f0_def f1_def canonical_def plain_name_def link_target_def)

lemma output_resolves:
  "resolve_checked f0 (cwd h0) (JStr ''p'') = Inr [''w'', ''p'']"
  "resolve_checked f1 (cwd h0) (JStr ''p'') = Inr [''w'', ''p'']"
  by code_simp+

lemma e0_identity:
  "file_identity f1 (parent [''w'', ''p'']) e0 = Inr ([''w'', ''e''], replicate 64 (CHR ''a''))"
  by code_simp

lemma e0_entry: "(''c'', e0) \<in> set (entries_of ''evidence'' (canon r0))"
  by code_simp

lemma h0_digest: "sha256 h0 ''changed'' \<noteq> replicate 64 (CHR ''a'')"
  by (simp add: h0_def)

lemma write_run_obtain:
  obtains f' where "write_report h0 f0 ''now'' ''p'' a0 = Inr (r0, f')"
  using write_run by (cases "write_report h0 f0 ''now'' ''p'' a0") auto

section \<open>Properties\<close>

text \<open>C1: the validator accepts a file with a report exactly when the specification holds of it,
  the specification being the least fixed point over prerequisite reports up to the code's depth.\<close>

theorem validator_decides_genuine:
  "validate_file h f [] None p stage scope = Inr r \<longleftrightarrow>
     genuine h f max_prerequisite_depth p stage scope r"
  by (rule validate_file_iff)

text \<open>C4: a validated report has exactly the requested identity, exit code zero, every required
  check reported and PASS, and an evidence file for every check, each with the recorded digest.\<close>

theorem validated_report_is_sound:
  assumes "validate_report h f path stage scope = Inr r"
  shows "field ''stage_id'' r = JStr stage \<and> field ''scope'' r = JStr scope \<and>
    field ''exit_code'' r = JInt 0 \<and> field ''status'' r = JStr ''PASS'' \<and>
    required_of r \<noteq> [] \<and>
    (\<forall>n\<in>set (required_of r). (n, JStr ''PASS'') \<in> set (entries_of ''checks'' r) \<and>
       (\<exists>rec p q b. (n, rec) \<in> set (entries_of ''evidence'' r) \<and>
          resolve_checked f (cwd h) (JStr path) = Inr p \<and> q \<noteq> p \<and>
          file_identity f (parent p) rec = Inr (q, sha256 h b) \<and> read_bytes f q = Inr b))"
proof -
  from assms obtain p where p: "resolve_checked f (cwd h) (JStr path) = Inr p"
    and gen: "genuine h f max_prerequisite_depth p stage scope r"
    by (auto simp: validate_report_Inr validate_file_iff)
  from genuine_content [OF gen] have ok: "identity_ok h r stage scope" "checks_ok r" "evidence_ok h f r p"
    by (simp_all add: content_ok_def)
  have names: "required_of r \<noteq> []"
    using ok(2) required_names_nonempty(1) [of r] by (auto simp: checks_ok_def required_of_def)
  have passed: "(n, JStr ''PASS'') \<in> set (entries_of ''checks'' r) \<and>
      (\<exists>rec q b. (n, rec) \<in> set (entries_of ''evidence'' r) \<and> q \<noteq> p \<and>
        file_identity f (parent p) rec = Inr (q, sha256 h b) \<and> read_bytes f q = Inr b)"
    if "n \<in> set (required_of r)" for n
  proof -
    from ok(2) that have "n \<in> fst ` set (entries_of ''checks'' r)" by (simp add: checks_ok_def)
    then obtain status where "(n, status) \<in> set (entries_of ''checks'' r)" by auto
    moreover from this ok(2) have "status = JStr ''PASS''" by (auto simp: checks_ok_def)
    ultimately have "(n, JStr ''PASS'') \<in> set (entries_of ''checks'' r)" by simp
    moreover from ok(3) that have "n \<in> fst ` set (entries_of ''evidence'' r)"
      unfolding evidence_ok_def by blast
    then obtain rec where rec: "(n, rec) \<in> set (entries_of ''evidence'' r)" by auto
    moreover from rec ok(3) have "evidence_matches h f p rec" by (auto simp: evidence_ok_def)
    ultimately show ?thesis unfolding evidence_matches_def by blast
  qed
  have "resolve_checked f (cwd h) (JStr path) = Inr p' \<longleftrightarrow> p' = p" for p' using p by auto
  with ok(1) genuine_passes [OF gen] names passed show ?thesis
    by (simp add: identity_ok_def)
qed

lemma validated_report_is_sound_witness:
  "\<exists>r. validate_report h0 f1 ''p'' ''s'' ''t'' = Inr r \<and> required_of r \<noteq> [] \<and>
       field ''stage_id'' r = JStr ''s''"
  using validated_report_is_sound [OF validate_run] validate_run by blast

text \<open>C31: no report that validates depends on itself, through any chain of prerequisites.\<close>

theorem validated_report_has_no_cycle:
  assumes "validate_file h f [] None p stage scope = Inr r"
  shows "\<not> (depends f)\<^sup>+\<^sup>+ p p"
  using assms unfolding validate_file_iff by (intro accessible_irreflexive genuine_accessible)

lemma validated_report_has_no_cycle_witness: "\<not> (depends f1)\<^sup>+\<^sup>+ [''w'', ''p''] [''w'', ''p'']"
proof -
  have "validate_file h0 f1 [] None [''w'', ''p''] ''s'' ''t'' = Inr (canon r0)"
    using validate_run output_resolves(2) by (simp add: validate_report_Inr)
  from validated_report_has_no_cycle [OF this] show ?thesis .
qed

text \<open>C2: a report written as PASS validates from its file, in the file system the write left, up to the order of its
  keys. The working directory is free of links, the strings of the report are ASCII and its floats read back from
  their \<open>repr\<close>; and the output is a new file or the report has no prerequisites, since a prerequisite may cite
  the very file that is overwritten.\<close>

theorem written_pass_report_validates:
  assumes "write_report h f now output a = Inr (r, f')"
    and "field ''status'' r = JStr ''PASS''"
    and "canonical f (cwd h)" and "plain_json r"
    and "\<And>p. resolve_checked f (cwd h) (JStr output) = Inr p \<Longrightarrow> f p = None \<or> wa_prerequisites a = []"
  shows "validate_report h f' output (wa_stage_id a) (wa_scope a) = Inr (canon r)"
proof -
  from assms(1) obtain p where p: "resolve_checked f (cwd h) (JStr output) = Inr p"
    by (auto elim: write_report_Inr)
  note written = written_is_genuine [OF assms(1-4) p assms(5) [OF p]]
  with p differs_resolve_checked [OF written(2)] show ?thesis
    by (auto simp: validate_report_Inr validate_file_iff)
qed

lemma written_pass_report_validates_witness:
  "\<exists>f'. write_report h0 f0 ''now'' ''p'' a0 = Inr (r0, f') \<and>
        validate_report h0 f' ''p'' ''s'' ''t'' = Inr (canon r0)"
proof -
  obtain f' where w: "write_report h0 f0 ''now'' ''p'' a0 = Inr (r0, f')"
    by (rule write_run_obtain)
  have "validate_report h0 f' ''p'' (wa_stage_id a0) (wa_scope a0) = Inr (canon r0)"
    by (rule written_pass_report_validates [OF w r0_status cwd_canonical(1) r0_plain])
      (simp add: a0_def)
  with w show ?thesis by (auto simp: a0_def)
qed

text \<open>C29: PASS is written only when the content check found nothing, the stored errors are the ones
  it found, and the file at the target is the canonical JSON text of the returned report.\<close>

theorem write_is_fail_closed:
  assumes "write_report h f now output a = Inr (r, f')"
  shows "\<exists>p errs enc.
    resolve_checked f (cwd h) (JStr output) = Inr p \<and>
    content_errors h f (\<lambda>q s t d. validate_file h f [p] (Some d) q s t)
      (report_of h f p now a ''FAIL'' []) p (wa_stage_id a) (wa_scope a) = Inr errs \<and>
    (field ''status'' r = JStr ''PASS'' \<longleftrightarrow> errs = []) \<and>
    (field ''status'' r = JStr ''FAIL'' \<longleftrightarrow> errs \<noteq> []) \<and>
    field ''errors'' r = JList (map JStr errs) \<and>
    dumps r = Inr enc \<and> f' p = Some (Regular (enc @ [CHR 0x0A]))"
proof -
  from assms obtain p errs enc where p: "resolve_checked f (cwd h) (JStr output) = Inr p"
    and errs: "content_errors h f (\<lambda>q s t d. validate_file h f [p] (Some d) q s t)
      (report_of h f p now a ''FAIL'' []) p (wa_stage_id a) (wa_scope a) = Inr errs"
    and r: "r = report_of h f p now a (if errs = [] then ''PASS'' else ''FAIL'') errs"
    and enc: "dumps r = Inr enc" and w: "write_atomic f p (enc @ [CHR 0x0A]) = Inr f'"
    by (auto elim: write_report_Inr)
  from w have "f' p = Some (Regular (enc @ [CHR 0x0A]))"
    by (auto simp: write_atomic_def split: if_splits)
  with p errs enc show ?thesis by (auto simp: r report_fields)
qed

lemma write_is_fail_closed_witness:
  "\<exists>p enc f'. write_report h0 f0 ''now'' ''p'' a0 = Inr (r0, f') \<and>
     dumps r0 = Inr enc \<and> f' p = Some (Regular (enc @ [CHR 0x0A]))"
proof -
  obtain f' where w: "write_report h0 f0 ''now'' ''p'' a0 = Inr (r0, f')"
    by (rule write_run_obtain)
  from write_is_fail_closed [OF this] w show ?thesis by blast
qed

text \<open>C3: when one evidence file of a validated report is replaced by content with another digest,
  the report no longer validates.\<close>

theorem changed_evidence_is_detected:
  assumes "validate_report h f path stage scope = Inr r" and "canonical f (cwd h)"
    and "resolve_checked f (cwd h) (JStr path) = Inr p"
    and "(name, rec) \<in> set (entries_of ''evidence'' r)"
    and "file_identity f (parent p) rec = Inr (q, d)"
    and "sha256 h b \<noteq> d"
  shows "validate_report h (f(q \<mapsto> Regular b)) path stage scope \<noteq> Inr r'"
proof
  assume new: "validate_report h (f(q \<mapsto> Regular b)) path stage scope = Inr r'"
  from assms(1,3) have gen: "genuine h f max_prerequisite_depth p stage scope r"
    by (auto simp: validate_report_Inr validate_file_iff)
  have can: "canonical f p" using resolve_checked_canonical [OF assms(3,2)] .
  have par: "canonical f (parent p)" using can by (simp add: parent_def canonical_butlast)
  from genuine_content [OF gen] assms(4) have "evidence_matches h f p rec"
    by (auto simp: content_ok_def evidence_ok_def)
  then obtain b0 where b0: "f q = Some (Regular b0)"
    using file_identity_canonical [OF assms(5) par] assms(5)
    by (auto simp: evidence_matches_def read_bytes_canonical)
  note same = differs_resolve_checked [OF update_differs [of f q b0 b, OF b0]]
  from new assms(3) have "genuine h (f(q \<mapsto> Regular b)) max_prerequisite_depth p stage scope r'"
    by (auto simp: validate_report_Inr validate_file_iff same)
  with changed_evidence_fails [OF gen can assms(4,5,6)] show False by blast
qed

lemma changed_evidence_is_detected_witness:
  "validate_report h0 (f1([''w'', ''e''] \<mapsto> Regular ''changed'')) ''p'' ''s'' ''t'' \<noteq> Inr (canon r0)"
  by (rule changed_evidence_is_detected [OF validate_run cwd_canonical(2) output_resolves(2)
        e0_entry e0_identity h0_digest])

text \<open>The exit code of \<open>validate\<close> is 0 exactly for a report that satisfies the specification,
  and validating changes no file.\<close>

theorem validate_exit_code:
  "main h f now (ValidateAction path stage scope) = Inr (0, f') \<longleftrightarrow>
     f' = f \<and> (\<exists>p r. resolve_checked f (cwd h) (JStr path) = Inr p \<and>
       genuine h f max_prerequisite_depth p stage scope r)"
proof -
  have "field ''status'' r = JStr ''PASS''" if "validate_report h f path stage scope = Inr r" for r
    using that genuine_passes by (auto simp: validate_report_Inr validate_file_iff)
  moreover have "(\<exists>r. validate_report h f path stage scope = Inr r) \<longleftrightarrow>
      (\<exists>p r. resolve_checked f (cwd h) (JStr path) = Inr p \<and>
        genuine h f max_prerequisite_depth p stage scope r)"
    by (auto simp: validate_report_Inr validate_file_iff)
  ultimately show ?thesis
    by (cases "validate_report h f path stage scope") (auto simp: main_def split: py_error.splits)
qed

end
