(* ===== verification/RuntimeGatePass.thy ===== *)
theory RuntimeGatePass
  imports RuntimeGateFacts RuntimeChecksFacts StageReportProperties
begin

text \<open>
  What a PASS of the runtime gate means. Every operation outside the tick loop and the handlers leaves
  the recorded errors, ticks and warm-up ticks alone (\<open>same_record\<close>); so the report's verdict, computed
  from the checks alone at the very end, determines that the \<open>try\<close> block ran to its end, that the
  cleanup had no error, and which ticks were recorded. 
\<close>

section \<open>Operations that record nothing\<close>

definition same_record :: "'w gate \<Rightarrow> 'w gate \<Rightarrow> bool" where
  "same_record s0 s \<longleftrightarrow>
     g_errors s = g_errors s0 \<and> g_ticks s = g_ticks s0 \<and> g_warmup s = g_warmup s0"

named_theorems silent_steps \<open>operations that record nothing\<close>

lemma silent_sim [silent_steps]:
  "preserves (same_record s0) (sim m)" "preserves (same_record s0) (observe m')"
  by (auto simp: preserves_iff sim_def observe_def same_record_def split: prod.splits)

lemma silent_puts [silent_steps]:
  "preserves (same_record s0) (set_active n)" "preserves (same_record s0) (set_check n v)"
  "preserves (same_record s0) pass_active" "preserves (same_record s0) (set_raw key j)"
  "preserves (same_record s0) (raw_append key j)" "preserves (same_record s0) (set_evidence key p)"
  "preserves (same_record s0) (open_stream n)" "preserves (same_record s0) (add_sample j)"
  "preserves (same_record s0) (update_raw key js)" "preserves (same_record s0) (add_cleanup msg)"
  "preserves (same_record s0) close_streams"
  by (simp_all add: preserves_put set_active_def set_check_def pass_active_def set_raw_def raw_append_def
      set_evidence_def open_stream_def add_sample_def update_raw_def add_cleanup_def close_streams_def
      same_record_def)

lemma silent_locals [silent_steps]:
  "preserves (same_record s0) (put_state (\<lambda>s. s\<lparr>g_provenance := p\<rparr>))"
  "preserves (same_record s0) (put_state (\<lambda>s. s\<lparr>g_sources := j\<rparr>))"
  "preserves (same_record s0) (put_state (\<lambda>s. s\<lparr>g_files := f\<rparr>))"
  "preserves (same_record s0) (put_state (\<lambda>s. s\<lparr>g_original := Some o1\<rparr>))"
  "preserves (same_record s0) (put_state (\<lambda>s. s\<lparr>g_attempted := True\<rparr>))"
  "preserves (same_record s0) (put_state (\<lambda>s. s\<lparr>g_vehicle := v, g_walker := w, g_traffic := tm\<rparr>))"
  "preserves (same_record s0) (put_state (\<lambda>s. s\<lparr>g_controllers := g s\<rparr>))"
  "preserves (same_record s0) (put_state (\<lambda>s. s\<lparr>g_streams := q s\<rparr>))"
  "preserves (same_record s0) (put_state (\<lambda>s. s\<lparr>g_owned := xs s\<rparr>))"
  "preserves (same_record s0) (put_state (\<lambda>s. s\<lparr>g_failures := fs s\<rparr>))"
  by (simp_all add: preserves_put same_record_def)

lemma silent_write [silent_steps]: "preserves (same_record s0) (write_file p b)"
  by (auto simp: preserves_iff write_file_def same_record_def split: sum.splits)

lemma silent_own [silent_steps]: "preserves (same_record s0) (own x)"
  unfolding own_def by (intro preserves_then_do silent_steps)

lemma silent_spawn [silent_steps]: "preserves (same_record s0) (spawn_owned a b t x msg)"
  unfolding spawn_owned_def by (intro preserves_and_then preserves_then_do preserves_basic silent_steps)

lemma silent_find [silent_steps]: "preserves (same_record s0) (find_destination a m origin n)"
proof (induction n)
  case 0
  show ?case unfolding find_destination.simps by (intro preserves_basic)
next
  case (Suc n)
  show ?case unfolding find_destination.simps
    by (intro preserves_and_then preserves_cases preserves_basic silent_steps Suc.IH)
qed

lemmas quiet_rules = preserves_and_then preserves_then_do preserves_basic preserves_do_each
  preserves_do_when preserves_cases

lemma silent_streams [silent_steps]:
  "preserves (same_record s0) (receive a name)" "preserves (same_record s0) (receive_all a)"
  "preserves (same_record s0) (check_streams a)" "preserves (same_record s0) (take_snapshot a prev tick)"
  unfolding receive_def receive_all_def check_streams_def take_snapshot_def
  by (intro quiet_rules silent_steps)+

lemma silent_blueprints [silent_steps]:
  "preserves (same_record s0) (blueprint_attribute a b n v ty)"
  "preserves (same_record s0) (set_if_present a b n v)"
  "preserves (same_record s0) (pick_blueprint a pat pre msg)"
  unfolding blueprint_attribute_def set_if_present_def pick_blueprint_def Let_def
  by (intro quiet_rules silent_steps)+

lemma silent_setup [silent_steps]: "preserves (same_record s0) (setup_phase pl c a)"
  unfolding setup_phase_def sensors_phase_def actors_phase_def spawn_sensors_def spawn_sensor_def
    spawn_actors_def spawn_vehicle_def register_vehicle_def walker_route_def spawn_walker_def
    spawn_controller_def not_refused_def pick_vehicle_blueprint_def pick_walker_blueprint_def
  by (intro quiet_rules silent_steps)

lemma silent_phases [silent_steps]:
  "preserves (same_record s0) (environment_phase pl c)" "preserves (same_record s0) (provenance_phase pl c)"
  "preserves (same_record s0) (permission_phase c)" "preserves (same_record s0) (handshake_phase pl c a)"
  "preserves (same_record s0) (world_phase a)" "preserves (same_record s0) (settings_phase c a)"
  unfolding environment_phase_def provenance_phase_def permission_phase_def handshake_phase_def
    client_binary_def world_phase_def settings_phase_def apply_desired_def
  by (intro quiet_rules silent_steps)+

lemma silent_packet [silent_steps]: "preserves (same_record s0) (next_packet a name tick)"
proof -
  have "preserves (same_record s0) (\<lambda>s. case map_of (g_streams s) name of
          None \<Rightarrow> (Inl (KeyError (repr_str name)), s)
        | Some q \<Rightarrow> (case RuntimeTicks.frame_of tick turns q of
              (r, q') \<Rightarrow> (r, s\<lparr>g_streams := dict_set name q' (g_streams s)\<rparr>)))"
    for turns :: "turn list"
    by (auto simp: preserves_iff same_record_def split: option.splits prod.splits)
  then show ?thesis unfolding next_packet_def by (intro quiet_rules silent_steps)
qed

lemma silent_sweep [silent_steps]: "preserves (same_record s0) (sweep pl a base n)"
  unfolding sweep_def
  by (intro quiet_rules) (auto split: list.splits intro!: quiet_rules silent_steps)

lemma silent_measure [silent_steps]: "preserves (same_record s0) (measure_tick pl c a tick current t)"
  unfolding measure_tick_def sensor_sample_def first_sample_def write_sample_def sample_metrics_def
    actor_sample_def
  by (intro quiet_rules silent_steps)

lemma silent_final [silent_steps]: "preserves (same_record s0) (final_phase pl c a t)"
  unfolding final_phase_def motion_phase_def alignment_phase_def motion_checks_def travelled_from_def
  by (intro quiet_rules silent_steps)

lemma silentD: "(\<And>s0. preserves (same_record s0) m) \<Longrightarrow> m s = (r, t) \<Longrightarrow> same_record s t"
  using preservesD [of "same_record s" m s r t] by (simp add: same_record_def)


section \<open>The tick loop\<close>

definition returns :: "('s, 'a) effect \<Rightarrow> ('a \<Rightarrow> bool) \<Rightarrow> bool" where
  "returns m R \<longleftrightarrow> (\<forall>s x t. m s = (Inr x, t) \<longrightarrow> R x)"

lemma returns_and_then: "(\<And>x. returns (k x) R) \<Longrightarrow> returns (and_then m k) R"
  by (auto simp: returns_def and_then_run split: prod.splits sum.splits)

lemma returns_then_do: "returns k R \<Longrightarrow> returns (then_do m k) R"
  unfolding then_do_def by (rule returns_and_then)

lemma returns_ret: "R x \<Longrightarrow> returns (ret x) R"
  by (simp add: returns_def)

lemma measure_keeps_previous:
  "returns (measure_tick pl c a tick current t) (\<lambda>t'. tk_previous t' = tk_previous t)"
  unfolding measure_tick_def sensor_sample_def sample_metrics_def actor_sample_def
  by (auto intro!: returns_and_then returns_then_do returns_ret simp: actor_track_def)

definition frame_number :: "json \<Rightarrow> int" where
  "frame_number v = int_of (field ''frame'' v)"

fun numbered :: "json \<Rightarrow> json list \<Rightarrow> bool" where
  "numbered prev [] = True"
| "numbered prev (c # cs) = (frame_number c = frame_number prev + 1 \<and> numbered c cs)"

lemma numbered_nth: "numbered prev cs \<Longrightarrow> i < length cs \<Longrightarrow> frame_number (cs ! i) = frame_number prev + 1 + int i"
proof (induction cs arbitrary: prev i)
  case (Cons c cs)
  then show ?case by (cases i) auto
qed simp

lemma snapshot_follows:
  "validate_snapshot ws (Some prev) tick = Inr cur \<Longrightarrow> frame_number cur = frame_number prev + 1"
  by (auto simp: validate_snapshot_def follows_def integer_def frame_number_def Let_def split: if_splits)

lemma take_snapshot_run:
  assumes "take_snapshot a (Some prev) tick s = (Inr cur, s')"
  shows "frame_number cur = frame_number prev + 1"
  using assms unfolding take_snapshot_def
  by (auto simp: and_then_run intro!: snapshot_follows split: prod.splits sum.splits)

lemma then_doE:
  assumes "then_do m k s = (Inr x, t)"
  obtains y u where "m s = (Inr y, u)" "k u = (Inr x, t)"
  using assms by (auto simp: then_do_def and_then_run split: prod.splits sum.splits)

lemma and_thenE:
  assumes "and_then m k s = (Inr x, t)"
  obtains y u where "m s = (Inr y, u)" "k y u = (Inr x, t)"
  using assms by (auto simp: and_then_run split: prod.splits sum.splits)

definition recorded :: "bool \<Rightarrow> json \<Rightarrow> 'w gate \<Rightarrow> 'w gate \<Rightarrow> bool" where
  "recorded warm cur s s' \<longleftrightarrow>
     g_errors s' = g_errors s \<and> g_warmup s' = g_warmup s @ (if warm then [cur] else []) \<and>
     g_ticks s' = g_ticks s @ (if warm then [] else [cur])"

lemma record_run:
  assumes "record_tick pl c a i tick cur t s = (Inr t', s')"
  shows "recorded (i < warmup_of (ga_mode (gc_args c))) cur s s' \<and> tk_previous t' = tk_previous t"
proof (cases "i < warmup_of (ga_mode (gc_args c))")
  case True
  with assms show ?thesis
    by (auto simp: record_tick_def add_warmup_def then_do_def and_then_run recorded_def)
next
  case False
  with assms obtain u where u: "measure_tick pl c a tick cur t (s\<lparr>g_ticks := g_ticks s @ [cur]\<rparr>) = (Inr t', s')"
    by (auto simp: record_tick_def add_tick_def then_do_def and_then_run)
  from silentD [OF silent_measure u] have "same_record (s\<lparr>g_ticks := g_ticks s @ [cur]\<rparr>) s'" .
  moreover from measure_keeps_previous u have "tk_previous t' = tk_previous t"
    unfolding returns_def by blast
  ultimately show ?thesis using False by (simp add: recorded_def same_record_def)
qed

lemma tick_run:
  assumes "tick_step pl c a base i t s = (Inr t', s')"
  shows "\<exists>cur. frame_number cur = frame_number (tk_previous t) + 1 \<and> tk_previous t' = cur \<and>
    recorded (i < warmup_of (ga_mode (gc_args c))) cur s s'"
proof -
  from assms obtain r1 u1 r2 u2 r3 u3 tick u4 cur u where
    run: "set_active ''ticks'' s = (Inr r1, u1)" "check_streams a u1 = (Inr r2, u2)"
      "do_when (ga_mode (gc_args c) = ''sensors'' \<and> warmup_of (ga_mode (gc_args c)) \<le> i)
        (sweep pl a base (i - warmup_of (ga_mode (gc_args c)) + 1)) u2 = (Inr r3, u3)"
      "sim (api_tick a (ga_timeout (gc_args c))) u3 = (Inr tick, u4)"
      "take_snapshot a (Some (tk_previous t)) tick u4 = (Inr cur, u)"
    and step: "record_tick pl c a i tick cur (t\<lparr>tk_previous := cur\<rparr>) u = (Inr t', s')"
    unfolding tick_step_def by (elim then_doE and_thenE)
  have quiet: "same_record s u"
    using silentD [OF silent_puts(1) run(1)] silentD [OF silent_streams(3) run(2)]
      silentD [OF preserves_do_when [OF silent_sweep] run(3)] silentD [OF silent_sim(1) run(4)]
      silentD [OF silent_streams(4) run(5)]
    by (simp add: same_record_def)
  have snap: "frame_number cur = frame_number (tk_previous t) + 1"
    by (rule take_snapshot_run [OF run(5)])
  from record_run [OF step] quiet have "recorded (i < warmup_of (ga_mode (gc_args c))) cur s s'" "tk_previous t' = cur"
    by (auto simp: recorded_def same_record_def)
  with snap show ?thesis by blast
qed


lemma loop_run:
  assumes "tick_loop pl c a base is t s = (Inr t', s')"
  shows "\<exists>cs. length cs = length is \<and> numbered (tk_previous t) cs \<and> g_errors s' = g_errors s \<and>
    g_warmup s' = g_warmup s @ [v. (i, v) \<leftarrow> zip is cs, i < warmup_of (ga_mode (gc_args c))] \<and>
    g_ticks s' = g_ticks s @ [v. (i, v) \<leftarrow> zip is cs, \<not> i < warmup_of (ga_mode (gc_args c))]"
  using assms
proof (induction "is" arbitrary: t s)
  case Nil
  then show ?case by simp
next
  case (Cons i "is")
  then obtain t1 s1 where step: "tick_step pl c a base i t s = (Inr t1, s1)"
    and rest: "tick_loop pl c a base is t1 s1 = (Inr t', s')"
    by (auto elim: and_thenE)
  from tick_run [OF step] obtain cur where cur: "frame_number cur = frame_number (tk_previous t) + 1"
    "tk_previous t1 = cur" "recorded (i < warmup_of (ga_mode (gc_args c))) cur s s1" by blast
  from Cons.IH [OF rest] obtain cs where cs: "length cs = length is" "numbered cur cs"
    "g_errors s' = g_errors s1"
    "g_warmup s' = g_warmup s1 @ [v. (i, v) \<leftarrow> zip is cs, i < warmup_of (ga_mode (gc_args c))]"
    "g_ticks s' = g_ticks s1 @ [v. (i, v) \<leftarrow> zip is cs, \<not> i < warmup_of (ga_mode (gc_args c))]"
    unfolding cur(2) by blast
  show ?case
    by (rule exI [of _ "cur # cs"]) (use cs cur in \<open>auto simp: recorded_def\<close>)
qed

lemma zip_upto_split:
  assumes "length cs = length [0..W + N - 1]" and "0 \<le> W" and "0 \<le> N"
  shows "[v. (i, v) \<leftarrow> zip [0..W + N - 1] cs, \<not> i < W] = drop (nat W) cs"
proof -
  have split: "[0..W + N - 1] = [0..W - 1] @ [W..W + N - 1]"
    using assms(2,3) upto_split1 [of 0 W "W + N - 1"] upto_split2 [of 0 "W - 1" "W + N - 1"] by (cases "N = 0") auto
  have low: "[v. (i, v) \<leftarrow> zip [0..W - 1] xs, \<not> i < W] = []" for xs :: "'a list"
    by (auto simp: concat_eq_Nil_conv set_zip split: if_splits)
  have high: "[v. (i, v) \<leftarrow> zip ks xs, \<not> i < W] = xs"
    if "length xs = length ks" "\<forall>i\<in>set ks. W \<le> i" for xs :: "'a list" and ks
    using that by (induction ks xs rule: list_induct2') auto
  have "zip [0..W + N - 1] cs = zip [0..W - 1] (take (nat W) cs) @ zip [W..W + N - 1] (drop (nat W) cs)"
    unfolding split by (simp add: zip_append1)
  then show ?thesis using low high [of "drop (nat W) cs" "[W..W + N - 1]"] assms by simp
qed


section \<open>The try block, when it returns\<close>

lemma arguments_ticks:
  assumes "environment_phase pl c s = (Inr u, t)"
  shows "\<exists>n. ga_ticks (gc_args c) = JInt n \<and> least_ticks (ga_mode (gc_args c)) \<le> n \<and> n \<le> 10000"
  using assms unfolding environment_phase_def
  by (elim then_doE) (auto simp: check_arguments_def int_in_iff)

lemma warmup_nonneg: "0 \<le> warmup_of mode"
  by (simp add: warmup_of_def warmup_ticks_def actor_warmup_ticks_def)

definition ticks_complete :: "gate_args \<Rightarrow> json list \<Rightarrow> bool" where
  "ticks_complete a ticks \<longleftrightarrow>
     ga_ticks a = JInt (int (length ticks)) \<and> ticks \<noteq> [] \<and>
     (\<forall>i<length ticks. frame_number (ticks ! i) = frame_number (ticks ! 0) + int i)"

lemma measure_run:
  assumes run: "measure_phase pl c a base s = (Inr u, t)" and fresh: "g_ticks s = []"
    and args: "ga_ticks (gc_args c) = JInt n" "1 \<le> n"
  shows "ticks_complete (gc_args c) (g_ticks t) \<and> g_errors t = g_errors s"
proof -
  let ?W = "warmup_of (ga_mode (gc_args c))"
  from run obtain baseline s1 r2 s2 t3 s3 where
    a: "take_snapshot a None JNull s = (Inr baseline, s1)" "set_raw ''tick_baseline'' baseline s1 = (Inr r2, s2)"
    and loop: "tick_loop pl c a base (tick_indices c) (start_track baseline) s2 = (Inr t3, s3)"
    and last: "final_phase pl c a t3 s3 = (Inr u, t)"
    unfolding measure_phase_def by (elim and_thenE then_doE)
  have before: "same_record s s2"
    using silentD [OF silent_streams(4) a(1)] silentD [OF silent_puts(4) a(2)] by (simp add: same_record_def)
  have after: "same_record s3 t" by (rule silentD [OF silent_final last])
  have idx: "tick_indices c = [0..?W + n - 1]" by (simp add: tick_indices_def args(1))
  from loop_run [OF loop [unfolded idx]] obtain cs where cs: "length cs = length [0..?W + n - 1]"
    "numbered baseline cs" "g_errors s3 = g_errors s2"
    "g_ticks s3 = g_ticks s2 @ [v. (i, v) \<leftarrow> zip [0..?W + n - 1] cs, \<not> i < ?W]"
    by (auto simp: start_track_def)
  have "g_ticks t = drop (nat ?W) cs"
    using cs(4) zip_upto_split [OF cs(1) warmup_nonneg] args(2) before after fresh
    by (simp add: same_record_def)
  moreover have "length cs = nat (?W + n)" using cs(1) by simp
  ultimately have len: "length (g_ticks t) = nat n" and nth: "\<And>i. i < nat n \<Longrightarrow> g_ticks t ! i = cs ! (nat ?W + i)"
    using warmup_nonneg [of "ga_mode (gc_args c)"] args(2) by (auto simp: nat_add_distrib)
  have num: "frame_number (g_ticks t ! i) = frame_number baseline + 1 + ?W + int i" if "i < nat n" for i
    using numbered_nth [OF cs(2), of "nat ?W + i"] nth [OF that] that \<open>length cs = nat (?W + n)\<close>
      warmup_nonneg [of "ga_mode (gc_args c)"] by simp
  have "ticks_complete (gc_args c) (g_ticks t)"
    unfolding ticks_complete_def
  proof (intro conjI allI impI)
    show "ga_ticks (gc_args c) = JInt (int (length (g_ticks t)))" using args len by simp
    show "g_ticks t \<noteq> []" using args(2) len by auto
    show "frame_number (g_ticks t ! i) = frame_number (g_ticks t ! 0) + int i"
      if "i < length (g_ticks t)" for i
      using num [of i] num [of 0] that len args(2) by simp
  qed
  moreover have "g_errors t = g_errors s" using before after cs(3) by (simp add: same_record_def)
  ultimately show ?thesis by simp
qed

lemma body_run:
  assumes "gate_body pl c a s = (Inr u, t)" and "g_ticks s = []"
  shows "ticks_complete (gc_args c) (g_ticks t) \<and> g_errors t = g_errors s"
proof -
  from assms(1) obtain r1 s1 r2 s2 r3 s3 r4 s4 r5 s5 r6 s6 base s7 where
    p: "environment_phase pl c s = (Inr r1, s1)" "provenance_phase pl c s1 = (Inr r2, s2)"
      "permission_phase c s2 = (Inr r3, s3)" "handshake_phase pl c a s3 = (Inr r4, s4)"
      "world_phase a s4 = (Inr r5, s5)" "settings_phase c a s5 = (Inr r6, s6)"
      "setup_phase pl c a s6 = (Inr base, s7)"
    and m: "measure_phase pl c a base s7 = (Inr u, t)"
    unfolding gate_body_def by (elim then_doE and_thenE)
  have quiet: "same_record s s7"
    using silentD [OF silent_phases(1) p(1)] silentD [OF silent_phases(2) p(2)]
      silentD [OF silent_phases(3) p(3)] silentD [OF silent_phases(4) p(4)]
      silentD [OF silent_phases(5) p(5)] silentD [OF silent_phases(6) p(6)]
      silentD [OF silent_setup p(7)]
    by (simp add: same_record_def)
  from arguments_ticks [OF p(1)] obtain n where "ga_ticks (gc_args c) = JInt n" "1 \<le> n"
    by (auto simp: least_ticks_def split: if_splits)
  from measure_run [OF m _ this] quiet assms(2) show ?thesis by (simp add: same_record_def)
qed

section \<open>A failure stays visible\<close>

text \<open>Some check other than the cleanup's is FAIL: no later operation takes that back.\<close>

definition flawed :: "'w gate \<Rightarrow> bool" where
  "flawed s \<longleftrightarrow> (\<exists>n. n \<noteq> ''cleanup'' \<and> map_of (g_checks s) n = Some ''FAIL'')"

lemma flawed_not_pass: "flawed s \<Longrightarrow> \<not> all_pass (g_checks s)"
  by (force simp: flawed_def all_pass_def list_all_iff dest!: map_of_SomeD)

lemma flawed_basic:
  "preserves flawed (sim m)" "preserves flawed (set_raw key j)" "preserves flawed (add_error e)"
  "preserves flawed (add_cleanup n)" "preserves flawed close_streams" "preserves flawed (interfere pl)"
  "preserves flawed (write_file p b)" "preserves flawed (write_gate_report pl c)"
  "preserves flawed (set_check ''cleanup'' v)" "preserves flawed (set_check n ''FAIL'')"
  "preserves flawed (put_state (\<lambda>s. s\<lparr>g_failures := g_failures s @ fs\<rparr>))"
  "preserves flawed (put_state (\<lambda>s. s\<lparr>g_errors := g_errors s @ g_failures s\<rparr>))"
  by (auto simp: preserves_iff sim_def set_raw_def add_error_def add_cleanup_def close_streams_def
      interfere_def write_file_def write_gate_report_def set_check_def flawed_def
      split: prod.splits sum.splits)

lemma flawed_attempt: "preserves flawed m \<Longrightarrow> preserves flawed (attempt label m)"
  unfolding attempt_def by (intro preserves_handle preserves_cases preserves_basic flawed_basic)

lemma preserves_option_case:
  "preserves P m \<Longrightarrow> (\<And>x. preserves P (k x)) \<Longrightarrow> preserves P (case_option m k v)"
  by (cases v) simp_all

lemma flawed_cleanup: "preserves flawed (cleanup c a)"
  unfolding cleanup_def stop_controller_def release_traffic_def release_vehicle_def traffic_port_def
    dispose_all_def dispose_def stop_actor_def destroy_actor_def restore_settings_def restore_original_def
    close_cleanup_def
  by (intro quiet_rules preserves_option_case flawed_attempt flawed_basic)


lemma flawed_recheck: "preserves flawed m \<Longrightarrow> preserves flawed (recheck name label m)"
  unfolding recheck_def by (intro preserves_handle quiet_rules flawed_basic)

definition after_cleanup :: "platform \<Rightarrow> gate_context \<Rightarrow> ('w, json) step" where
  "after_cleanup pl c =
     then_do (interfere pl) (then_do (recheck_provenance pl c) (then_do (recheck_client pl)
       (then_do (write_result c) (write_gate_report pl c))))"

lemma flawed_after: "preserves flawed (after_cleanup pl c)"
  unfolding after_cleanup_def recheck_provenance_def recheck_client_def same_digest_def write_result_def Let_def
  by (intro quiet_rules preserves_option_case flawed_recheck flawed_basic)

lemma guarded_flawed:
  assumes "books 0 s" and "guarded_body pl c (logged a) s = (Inr u, v)"
  shows "gate_body pl c (logged a) s = (Inr (), v) \<or> flawed v"
proof (cases "gate_body pl c (logged a) s")
  case (Pair r w)
  show ?thesis
  proof (cases r)
    case (Inr x)
    with Pair assms(2) show ?thesis by (simp add: guarded_body_def handle_run)
  next
    case (Inl e)
    with Pair have "books 2 w" using keepsD_raise [OF books_body assms(1)] by blast
    then have "g_active w \<noteq> ''cleanup''" by (simp add: books_def settled_def)
    with Pair Inl assms(2) have "flawed v"
      by (auto simp: guarded_body_def handle_run record_failure_def then_do_def and_then_run set_check_def
          add_error_def flawed_def split: if_splits)
    then show ?thesis ..
  qed
qed

text \<open>Errors are shown by a failing check, the cleanup's included.\<close>

definition honest :: "json list \<Rightarrow> 'w gate \<Rightarrow> bool" where
  "honest ticks s \<longleftrightarrow> g_ticks s = ticks \<and>
     (g_errors s = [] \<or> (\<exists>n. map_of (g_checks s) n = Some ''FAIL''))"

lemma honest_basic:
  "preserves (honest ts) (interfere pl)" "preserves (honest ts) (write_file p b)"
  "preserves (honest ts) (write_gate_report pl c)"
  by (auto simp: preserves_iff interfere_def write_file_def write_gate_report_def honest_def
      split: prod.splits sum.splits)

lemma honest_recheck: "preserves (honest ts) m \<Longrightarrow> preserves (honest ts) (recheck name label m)"
  unfolding recheck_def
proof (intro preserves_handle preserves_cases preserves_basic)
  fix e
  show "preserves (honest ts) (then_do (set_check name ''FAIL'') (add_error (label @ '' evidence: '' @ error_text e)))"
    by (auto simp: preserves_iff then_do_def and_then_run set_check_def add_error_def honest_def)
qed

lemma honest_after: "preserves (honest ts) (after_cleanup pl c)"
  unfolding after_cleanup_def recheck_provenance_def recheck_client_def same_digest_def write_result_def Let_def
  by (intro quiet_rules preserves_option_case honest_recheck honest_basic)

lemma silent_attempt: "preserves (same_record s0) m \<Longrightarrow> preserves (same_record s0) (attempt label m)"
  unfolding attempt_def by (intro preserves_handle preserves_cases preserves_basic silent_steps)

definition cleanup_steps :: "gate_context \<Rightarrow> 'w carla_api \<Rightarrow> ('w, unit) step" where
  "cleanup_steps c api =
     then_do (and_then (get_state g_controllers) (do_each (stop_controller api)))
     (then_do (release_traffic api)
     (then_do (release_vehicle api)
     (then_do close_streams
     (then_do (dispose_all api) (restore_settings c api)))))"

lemma then_do_assoc: "then_do (then_do x y) z = then_do x (then_do y z)"
  by (auto simp: then_do_def and_then_def fun_eq_iff split: prod.splits sum.splits)

lemma cleanup_split: "cleanup c api = then_do (cleanup_steps c api) close_cleanup"
  by (simp add: cleanup_def cleanup_steps_def then_do_assoc)

lemma silent_cleanup: "preserves (same_record s0) (cleanup_steps c a)"
  unfolding cleanup_steps_def stop_controller_def release_traffic_def release_vehicle_def traffic_port_def
    dispose_all_def dispose_def stop_actor_def destroy_actor_def restore_settings_def restore_original_def
  by (intro quiet_rules preserves_option_case silent_attempt silent_steps)

lemma cleanup_honest:
  assumes "cleanup c a s = (Inr u, t)" and "g_errors s = []"
  shows "honest (g_ticks s) t"
proof -
  from assms(1) obtain r v where v: "cleanup_steps c a s = (Inr r, v)" and last: "close_cleanup v = (Inr u, t)"
    unfolding cleanup_split by (elim then_doE)
  from silentD [OF silent_cleanup v] have v': "g_errors v = []" "g_ticks v = g_ticks s"
    using assms(2) by (simp_all add: same_record_def)
  from last have "g_errors t = g_failures v" "g_ticks t = g_ticks v"
    "map_of (g_checks t) ''cleanup'' = Some (if g_failures v = [] then ''PASS'' else ''FAIL'')"
    using v' by (auto simp: close_cleanup_def then_do_def and_then_run set_check_def set_raw_def)
  with v' show ?thesis by (auto simp: honest_def)
qed

lemma written_exit_code:
  assumes "write_gate_report pl c s = (Inr report, t)" and "field ''status'' report = JStr ''PASS''"
  shows "all_pass (g_checks t)"
proof -
  from assms(1) obtain f' where w: "write_report (pl_host pl) (g_files s) (pl_now pl)
      (path_text (report_path (gc_run_dir c))) (report_args pl c s) = Inr (report, f')" "g_checks t = g_checks s"
    by (auto simp: write_gate_report_def split: sum.splits prod.splits)
  from write_report_Inr [OF w(1)] obtain p errs where
    e: "content_errors (pl_host pl) (g_files s)
      (\<lambda>q stage scope d. validate_file (pl_host pl) (g_files s) [p] (Some d) q stage scope)
      (report_of (pl_host pl) (g_files s) p (pl_now pl) (report_args pl c s) ''FAIL'' []) p
      (wa_stage_id (report_args pl c s)) (wa_scope (report_args pl c s)) = Inr errs"
    and r: "report = report_of (pl_host pl) (g_files s) p (pl_now pl) (report_args pl c s)
      (if errs = [] then ''PASS'' else ''FAIL'') errs" by metis
  from assms(2) r have "errs = []" by (auto simp: report_fields split: if_splits)
  with e have "identity_ok (pl_host pl) (report_of (pl_host pl) (g_files s) p (pl_now pl)
      (report_args pl c s) ''FAIL'' []) (wa_stage_id (report_args pl c s)) (wa_scope (report_args pl c s))"
    by (simp add: content_errors_Nil content_ok_def)
  then have "wa_exit_code (report_args pl c s) = JInt 0" by (simp add: identity_ok_def report_of_def)
  with w(2) show ?thesis by (simp add: report_args_def split: if_splits)
qed


lemma gate_splits:
  assumes "gate_steps pl c a s = (Inr report, t)"
  obtains u where "finally_do (guarded_body pl c a) (cleanup c a) s = (Inr (), u)"
    and "after_cleanup pl c u = (Inr report, t)"
  using assms unfolding gate_steps_def after_cleanup_def [symmetric] by (elim then_doE) auto

lemma passed_gate:
  assumes run: "gate_steps pl c (logged a) (start_gate pl c f (w, [])) = (Inr report, t)"
    and pass: "field ''status'' report = JStr ''PASS''"
  shows "all_pass (g_checks t) \<and> g_errors t = [] \<and> ticks_complete (gc_args c) (g_ticks t)"
proof -
  let ?s = "start_gate pl c f (w, [])"
  from gate_splits [OF run] obtain u
    where fin: "finally_do (guarded_body pl c (logged a)) (cleanup c (logged a)) ?s = (Inr (), u)"
    and after: "after_cleanup pl c u = (Inr report, t)" .
  from after obtain v where "write_gate_report pl c v = (Inr report, t)"
    unfolding after_cleanup_def by (elim then_doE)
  from written_exit_code [OF this pass] have ok: "all_pass (g_checks t)" .
  from fin obtain r v where body: "guarded_body pl c (logged a) ?s = (Inr r, v)"
    and clean: "cleanup c (logged a) v = (Inr (), u)"
    by (auto simp: finally_do_def split: prod.splits sum.splits)
  have "\<not> flawed v"
    using preservesD [OF flawed_after _ after] preservesD [OF flawed_cleanup _ clean] flawed_not_pass ok by blast
  with guarded_flawed [OF books_start body] have "gate_body pl c (logged a) ?s = (Inr (), v)" by blast
  from body_run [OF this] have v: "ticks_complete (gc_args c) (g_ticks v)" "g_errors v = []"
    by (simp_all add: start_gate_def)
  have "honest (g_ticks v) t"
    using preservesD [OF honest_after cleanup_honest [OF clean v(2)] after] .
  moreover from ok have "map_of (g_checks t) n \<noteq> Some ''FAIL''" for n
    by (force simp: all_pass_def list_all_iff dest!: map_of_SomeD)
  ultimately show ?thesis using ok v by (auto simp: honest_def)
qed


lemma closed_finally:
  assumes "finally_do (guarded_body pl c (logged a)) (cleanup c (logged a)) (start_gate pl c f (w, [])) = (Inr u, t)"
  shows "closed t"
  by (rule finally_closed [OF books_start assms])

lemma passed_finally:
  assumes fin: "finally_do (guarded_body pl c (logged a)) (cleanup c (logged a))
      (start_gate pl c f (w, [])) = (Inr (), t)"
    and ok: "all_pass (g_checks t)"
  shows "g_errors t = [] \<and> ticks_complete (gc_args c) (g_ticks t)"
proof -
  let ?s = "start_gate pl c f (w, [])"
  from fin obtain r v where body: "guarded_body pl c (logged a) ?s = (Inr r, v)"
    and clean: "cleanup c (logged a) v = (Inr (), t)"
    by (auto simp: finally_do_def split: prod.splits sum.splits)
  have "\<not> flawed v"
    using preservesD [OF flawed_cleanup _ clean] flawed_not_pass ok by blast
  with guarded_flawed [OF books_start body] have "gate_body pl c (logged a) ?s = (Inr (), v)" by blast
  from body_run [OF this] have v: "ticks_complete (gc_args c) (g_ticks v)" "g_errors v = []"
    by (simp_all add: start_gate_def)
  moreover from ok have "map_of (g_checks t) n \<noteq> Some ''FAIL''" for n
    by (force simp: all_pass_def list_all_iff dest!: map_of_SomeD)
  ultimately show ?thesis using cleanup_honest [OF clean v(2)] by (auto simp: honest_def)
qed

section \<open>Interrupts\<close>

text \<open>The cleanup raises only what \<open>except Exception\<close> lets through.\<close>

definition uninterrupted :: "('s, 'a) effect \<Rightarrow> bool" where
  "uninterrupted m \<longleftrightarrow> (\<forall>s e t. m s = (Inl e, t) \<longrightarrow> \<not> is_exception e)"

lemma uninterrupted_attempt: "uninterrupted (attempt label m)"
  by (auto simp: uninterrupted_def attempt_def handle_run split: prod.splits sum.splits if_splits)

lemma uninterrupted_and_then:
  "uninterrupted m \<Longrightarrow> (\<And>x. uninterrupted (k x)) \<Longrightarrow> uninterrupted (and_then m k)"
  unfolding uninterrupted_def and_then_run by (auto split: prod.splits sum.splits)

lemma uninterrupted_then_do: "uninterrupted m \<Longrightarrow> uninterrupted k \<Longrightarrow> uninterrupted (then_do m k)"
  unfolding then_do_def by (rule uninterrupted_and_then)

lemma uninterrupted_basic:
  "uninterrupted (ret x)" "uninterrupted (get_state f)" "uninterrupted (put_state g)"
  by (simp_all add: uninterrupted_def)

lemma uninterrupted_do_each:
  assumes "\<And>x. uninterrupted (f x)"
  shows "uninterrupted (do_each f xs)"
proof (induction xs)
  case Nil
  show ?case unfolding do_each.simps by (rule uninterrupted_basic)
next
  case (Cons x xs)
  show ?case unfolding do_each.simps by (rule uninterrupted_and_then [OF assms Cons.IH])
qed

lemma uninterrupted_cases:
  "uninterrupted m \<Longrightarrow> uninterrupted (do_when b m)"
  "uninterrupted m \<Longrightarrow> (\<And>x. uninterrupted (k x)) \<Longrightarrow> uninterrupted (case_option m k v)"
  by (auto simp: do_when_def uninterrupted_basic split: option.splits)

lemma uninterrupted_cleanup: "uninterrupted (cleanup c a)"
  unfolding cleanup_def stop_controller_def release_traffic_def release_vehicle_def dispose_all_def
    dispose_def stop_actor_def destroy_actor_def restore_settings_def close_cleanup_def close_streams_def
    set_check_def set_raw_def
  by (intro uninterrupted_and_then uninterrupted_then_do uninterrupted_basic uninterrupted_do_each
      uninterrupted_cases uninterrupted_attempt)

definition interrupted :: "'a result \<Rightarrow> bool" where
  "interrupted r \<longleftrightarrow> (case r of Inl e \<Rightarrow> \<not> is_exception e | Inr _ \<Rightarrow> False)"

lemma finally_outcome:
  assumes "finally_do (guarded_body pl c a) (cleanup c a) s = (Inl e, t)"
  shows "\<not> is_exception e"
proof -
  obtain r v where body: "guarded_body pl c a s = (r, v)" by fastforce
  have guarded: "\<not> is_exception e'" if "r = Inl e'" for e'
    using body that by (auto simp: guarded_body_def handle_run record_failure_def then_do_def and_then_run
        set_check_def add_error_def caught_def split: prod.splits sum.splits if_splits)
  from assms body consider w where "cleanup c a v = (Inl e, w)" | "r = Inl e"
    by (auto simp: finally_do_def split: prod.splits sum.splits)
  then show ?thesis
    using guarded uninterrupted_cleanup [of c a] by cases (auto simp: uninterrupted_def)
qed

lemma gate_outcome:
  assumes "gate_steps pl c (logged a) (start_gate pl c f (w, [])) = (r, t)"
  shows "interrupted r \<or> closed t"
proof -
  obtain q u where fin: "finally_do (guarded_body pl c (logged a)) (cleanup c (logged a))
      (start_gate pl c f (w, [])) = (q, u)" by fastforce
  show ?thesis
  proof (cases q)
    case (Inl e)
    with fin assms have "r = Inl e"
      by (simp add: gate_steps_def then_do_def [of "finally_do _ _"] and_then_run)
    with finally_outcome [OF fin [unfolded Inl]] show ?thesis by (simp add: interrupted_def)
  next
    case (Inr x)
    with fin assms have "after_cleanup pl c u = (r, t)"
      by (simp add: gate_steps_def after_cleanup_def then_do_def [of "finally_do _ _"] and_then_run)
    then have "closed t"
      using preservesD [OF closed_after [folded after_cleanup_def] closed_finally [OF fin [unfolded Inr]]] by blast
    then show ?thesis ..
  qed
qed

section \<open>A failed set-up\<close>

definition unmanaged :: "'w gate \<Rightarrow> bool" where
  "unmanaged s \<longleftrightarrow> g_traffic s = None \<and> g_vehicle s = None"

lemma unmanaged_basic:
  "preserves unmanaged (sim m)" "preserves unmanaged (set_raw key j)" "preserves unmanaged (raw_append key j)"
  "preserves unmanaged (put_state (\<lambda>s. s\<lparr>g_owned := xs s\<rparr>))" "preserves unmanaged (set_active n)"
  by (auto simp: preserves_iff sim_def set_raw_def raw_append_def set_active_def unmanaged_def
      split: prod.splits)

lemma unmanaged_find: "preserves unmanaged (find_destination a m origin n)"
proof (induction n)
  case 0
  show ?case unfolding find_destination.simps by (intro preserves_basic)
next
  case (Suc n)
  show ?case unfolding find_destination.simps
    by (intro preserves_and_then preserves_cases preserves_basic unmanaged_basic Suc.IH)
qed

lemma unmanaged_spawn: "preserves unmanaged (spawn_actors a m)"
  unfolding spawn_actors_def spawn_vehicle_def register_vehicle_def walker_route_def spawn_walker_def
    spawn_controller_def not_refused_def pick_vehicle_blueprint_def pick_walker_blueprint_def
    pick_blueprint_def set_if_present_def spawn_owned_def own_def Let_def
  by (intro quiet_rules unmanaged_basic unmanaged_find)

lemma unmanaged_setup:
  assumes "actors_phase pl a s = (Inl e, t)" and "unmanaged s"
  shows "unmanaged t"
proof -
  from assms(1) obtain u where act: "set_active ''actor-setup'' s = (Inr (), u)"
    and "spawn_actors a (pl_math pl) u = (Inl e, t)"
    by (auto simp: actors_phase_def then_do_def and_then_run set_active_def pass_active_def
        split: prod.splits sum.splits)
  then show ?thesis
    using preservesD [OF unmanaged_basic(5) assms(2) act] preservesD [OF unmanaged_spawn] by blast
qed

end
