(* ===== verification/RuntimeGateSample.thy ===== *)
theory RuntimeGateSample
  imports RuntimeGateFacts
begin

text \<open>
  A small simulator that answers every call, and two evaluations of the gate on it: a run in mode \<open>rpc\<close> that
  passes, and a set-up of the actors that fails. The witnesses of the gate's properties rest on them.
\<close>

section \<open>A simulator for the witnesses\<close>

lemma step_seconds_code [code]: "step_seconds = Fin (3602879701896397 / 72057594037927936)"
  by (simp add: step_seconds_def decimal_step)

definition fake_settings :: "nat \<Rightarrow> settings" where
  "fake_settings n = \<lparr>set_ref = n, set_value = (\<lambda>_. JNull)\<rparr>"

definition point :: location where "point = \<lparr>loc_x = Fin 0, loc_y = Fin 0, loc_z = Fin 0\<rparr>"

definition shot :: "int \<Rightarrow> world_snapshot" where
  "shot n = \<lparr>ws_frame = JInt n, ws_stamp_frame = JInt n, ws_elapsed = JFloat (if n = 6 then Fin 0 else step_seconds),
     ws_delta = JFloat step_seconds\<rparr>"

text \<open>A simulator whose state is its frame number and the number of objects it has handed out.\<close>

definition fresh :: "(nat \<Rightarrow> 'a) \<Rightarrow> (int \<times> nat, 'a) effect" where
  "fresh f = (\<lambda>(n, k). (Inr (f k), (n, Suc k)))"

definition fake_api :: "location option \<Rightarrow> (int \<times> nat) carla_api" where
  "fake_api place =
     \<lparr>api_connect = \<lambda>h p. ret (), api_set_timeout = \<lambda>t. ret (), api_client_version = ret (JStr ''0.9''),
      api_server_version = ret (JStr ''0.9''), api_get_world = ret (), api_map_name = ret (JStr ''Town''),
      api_snapshot = get_state (\<lambda>(n, k). shot n), api_get_settings = fresh fake_settings,
      api_apply_settings = \<lambda>s t. ret (), api_same_settings = \<lambda>s t. True,
      api_tick = \<lambda>t. (\<lambda>(n, k). (Inr (JInt (n + 1)), (n + 1, k))),
      api_spawn_points = ret [origin_transform],
      api_find = \<lambda>n. ret \<lparr>bp_ref = 0, bp_id = n\<rparr>,
      api_filter = \<lambda>n. ret [\<lparr>bp_ref = 0, bp_id = n\<rparr>],
      api_has_attribute = \<lambda>b n. ret True,
      api_set_attribute = \<lambda>b n v. ret (),
      api_spawn = \<lambda>b t x. fresh (\<lambda>k. Some \<lparr>actor_ref = k, actor_id = JInt (int k)\<rparr>),
      api_random_location = ret place,
      api_traffic_manager = ret 0, api_tm_port = \<lambda>n. ret (JInt 8000),
      api_tm_synchronous = \<lambda>n b. ret (), api_tm_seed = \<lambda>n i. ret (),
      api_autopilot = \<lambda>x b p. ret JNull, api_listen = \<lambda>x. ret (),
      api_set_transform = \<lambda>x t. ret (), api_location = \<lambda>x. ret point,
      api_velocity = \<lambda>x. ret point, api_is_listening = \<lambda>x. ret False,
      api_stop = \<lambda>x. ret (), api_destroy = \<lambda>x. ret (JBool True),
      api_controller_start = \<lambda>x. ret (), api_controller_go = \<lambda>x l. ret JNull,
      api_controller_speed = \<lambda>x v. ret JNull, api_controller_stop = \<lambda>x. ret (),
      api_arrivals = \<lambda>n w. ([], w), api_turns = \<lambda>n w. ([], w)\<rparr>"

definition gate_host :: host where
  "gate_host = \<lparr>sha256 = (\<lambda>b. replicate 64 (CHR ''a'')), iso_offset = (\<lambda>s. Some True), cwd = []\<rparr>"

definition fake_platform :: platform where
  "fake_platform =
     \<lparr>pl_host = gate_host, pl_machine = ''arm64'', pl_suffixes = [], pl_carla = Inl (ImportError ''''),
      pl_libcarla = Inl (ImportError ''''), pl_executable = ''/py'', pl_script = [''g''], pl_writer = [''w''],
      pl_temp = ''t'', pl_now = ''now'',
      pl_math = \<lparr>math_sin = (\<lambda>x. x), math_sqrt = (\<lambda>x. Fin 1), math_dist = (\<lambda>u v. Fin 20)\<rparr>,
      pl_interference = (\<lambda>f. f)\<rparr>"

definition provenance_text :: string where
  "provenance_text = ''{'' @ [dquote] @ ''schema_version'' @ [dquote] @ '':1,'' @ [dquote] @ ''sources'' @ [dquote] @ '':{''
    @ [dquote] @ ''carla'' @ [dquote] @ '':{'' @ [dquote] @ ''location'' @ [dquote] @ '':'' @ [dquote, CHR ''a'', dquote]
    @ '','' @ [dquote] @ ''revision'' @ [dquote] @ '':'' @ [dquote, CHR ''b'', dquote] @ ''},''
    @ [dquote] @ ''ue'' @ [dquote] @ '':{'' @ [dquote] @ ''location'' @ [dquote] @ '':'' @ [dquote, CHR ''a'', dquote]
    @ '','' @ [dquote] @ ''revision'' @ [dquote] @ '':'' @ [dquote, CHR ''b'', dquote] @ ''}}}''"

definition gate_files :: fs where
  "gate_files = Map.empty([''p''] \<mapsto> Regular provenance_text, [''g''] \<mapsto> Regular ''g'', [''w''] \<mapsto> Regular ''w'')"

definition fake_args :: "string \<Rightarrow> gate_args" where
  "fake_args mode =
     \<lparr>ga_mode = mode, ga_run_dir = ''r'', ga_provenance = ''p'', ga_host = JStr ''h'', ga_port = JInt 2000,
      ga_ticks = JInt 1, ga_timeout = JInt 10, ga_allow = JBool True, ga_injected = True\<rparr>"

definition fake_context :: "string \<Rightarrow> gate_context" where
  "fake_context mode = \<lparr>gc_args = fake_args mode, gc_run_dir = [''r''], gc_provenance = [''p''], gc_work = [''r'', ''t''],
     gc_stage = ''stage'', gc_scope = ''scope''\<rparr>"

definition fake_files :: fs where
  "fake_files = gate_files([''r''] \<mapsto> Directory, [''r'', ''t''] \<mapsto> Directory)"

abbreviation fake_start :: "string \<Rightarrow> (int \<times> nat) logged_world gate" where
  "fake_start mode \<equiv> start_gate fake_platform (fake_context mode) fake_files ((6, 0), [])"

abbreviation fake_try :: "string \<Rightarrow> (unit result \<times> (int \<times> nat) logged_world gate)" where
  "fake_try mode \<equiv>
     finally_do (guarded_body fake_platform (fake_context mode) (logged (fake_api None)))
       (cleanup (fake_context mode) (logged (fake_api None))) (fake_start mode)"

lemma fake_rpc_run:
  "case fake_try ''rpc'' of (Inr u, t) \<Rightarrow> all_pass (g_checks t) | (Inl e, t) \<Rightarrow> False"
  by code_simp

fun switches_on :: "call \<Rightarrow> bool" where
  "switches_on (TrafficMode b) = b"
| "switches_on _ = False"

lemma switches_on_iff: "switches_on k \<longleftrightarrow> k = TrafficMode True"
  by (cases k) simp_all

definition setup_fails :: "(int \<times> nat) logged_world gate \<Rightarrow> bool" where
  "setup_fails s =
     (case actors_phase fake_platform (logged (fake_api None)) s of
        (Inl e, t) \<Rightarrow> list_ex switches_on (log_of t)
      | (Inr u, t) \<Rightarrow> False)"

lemma fake_setup_fails: "setup_fails (fake_start ''actors'')"
  by code_simp

end
