(* ===== verification/RuntimeGateProperties.thy ===== *)
theory RuntimeGateProperties
  imports RuntimeGatePass RuntimeGateSample
begin

text \<open>
  The properties of the runtime gate: the fate of the actors and of the settings for every simulator,
  the meaning of a PASS, and what a failed set-up leaves behind. The witnesses use the simulator
  of \<open>RuntimeGateSample\<close>.
\<close>

section \<open>Properties\<close>

text \<open>C9: whatever the simulator answers or raises, and in every mode, unless an interrupt breaks into
  the gate: every actor it handed out is asked to be destroyed exactly once, in the reverse order of
  creation, no other actor is, and each one is either noted as destroyed or named in an error.\<close>

theorem every_spawned_actor_is_disposed_of:
  "case gate_steps pl c (logged a) (start_gate pl c f (w, [])) of (r, t) \<Rightarrow>
     interrupted r \<or>
     asked (log_of t) = rev (spawned (log_of t)) \<and> list_all (reported t) (spawned (log_of t))"
  using gate_outcome [of pl c a f w] by (auto simp: closed_def list_all_iff split: prod.splits)

text \<open>C10: unless an interrupt breaks into the gate, the world's settings are either never touched, or
  changed once and then given back the settings object that was read first, and the restoration is
  noted or its failure is an error.\<close>

theorem original_settings_are_restored:
  "case gate_steps pl c (logged a) (start_gate pl c f (w, [])) of (r, t) \<Rightarrow>
     interrupted r \<or> applied (log_of t) = [] \<or>
     (\<exists>d st. g_original t = Some st \<and> applied (log_of t) = [d, st]) \<and>
     (restored_note \<in> set (g_cleanup t) \<or> (\<exists>m. ''restore settings: '' @ m \<in> set (g_errors t)))"
  using gate_outcome [of pl c a f w] by (auto simp: closed_def settings_handled_def split: prod.splits)

text \<open>C11: when every check is PASS after the cleanup, nothing went wrong anywhere: no error was
  recorded, exactly the requested number of ticks was recorded with consecutive frame numbers, and
  every actor the simulator handed out is noted as destroyed.\<close>

theorem passed_gate_is_complete:
  assumes "finally_do (guarded_body pl c (logged a)) (cleanup c (logged a))
      (start_gate pl c f (w, [])) = (Inr (), t)" and "all_pass (g_checks t)"
  shows "g_errors t = [] \<and> ticks_complete (gc_args c) (g_ticks t) \<and>
    list_all (\<lambda>x. destroyed_note x \<in> set (g_cleanup t)) (spawned (log_of t))"
  using passed_finally [OF assms] closed_finally [OF assms(1)]
  by (auto simp: closed_def reported_def list_all_iff)

lemma passed_gate_is_complete_witness:
  "\<exists>t. fake_try ''rpc'' = (Inr (), t) \<and> g_errors t = [] \<and> ticks_complete (fake_args ''rpc'') (g_ticks t)"
proof -
  from fake_rpc_run obtain t where "fake_try ''rpc'' = (Inr (), t)" "all_pass (g_checks t)"
    by (auto split: prod.splits sum.splits)
  with passed_gate_is_complete [OF this] show ?thesis by (auto simp: fake_context_def)
qed

text \<open>A report whose status is PASS is written only when every check of the gate is PASS.\<close>

theorem pass_report_needs_every_check:
  "case write_gate_report pl c s of
     (Inr report, t) \<Rightarrow> all_pass (g_checks s) \<or> field ''status'' report = JStr ''FAIL''
   | (Inl e, t) \<Rightarrow> t = s"
proof (cases "write_gate_report pl c s")
  case (Pair r t)
  show ?thesis
  proof (cases r)
    case (Inl e)
    with Pair show ?thesis by (auto simp: write_gate_report_def split: sum.splits prod.splits)
  next
    case (Inr report)
    then have w: "write_gate_report pl c s = (Inr report, t)" using Pair by simp
    then have "g_checks t = g_checks s" by (auto simp: write_gate_report_def split: sum.splits prod.splits)
    moreover from w obtain f' where "write_report (pl_host pl) (g_files s) (pl_now pl)
        (path_text (report_path (gc_run_dir c))) (report_args pl c s) = Inr (report, f')"
      by (auto simp: write_gate_report_def split: sum.splits prod.splits)
    then have "field ''status'' report = JStr ''PASS'' \<or> field ''status'' report = JStr ''FAIL''"
      by (elim write_report_Inr) (auto simp: report_fields)
    ultimately show ?thesis using w Inr written_exit_code [OF w] by auto
  qed
qed

text \<open>C36: when setting up the actors fails, whatever was done before the failure, the cleanup makes no
  call on the Traffic Manager or the vehicle's autopilot: a Traffic Manager that the failed set-up had
  switched to synchronous mode stays so.\<close>

theorem failed_setup_keeps_traffic_mode:
  assumes "actors_phase pl a s = (Inl e, t)" and "g_traffic s = None" and "g_vehicle s = None"
  shows "release_traffic a t = (Inr (), t) \<and> release_vehicle a t = (Inr (), t)"
  using unmanaged_setup [OF assms(1)] assms(2,3)
  by (simp add: unmanaged_def release_traffic_def release_vehicle_def and_then_run)

lemma failed_setup_keeps_traffic_mode_witness:
  "\<exists>e t. actors_phase fake_platform (logged (fake_api None)) (fake_start ''actors'') = (Inl e, t) \<and>
     TrafficMode True \<in> set (log_of t) \<and> release_traffic (logged (fake_api None)) t = (Inr (), t)"
proof -
  from fake_setup_fails obtain e t where
    run: "actors_phase fake_platform (logged (fake_api None)) (fake_start ''actors'') = (Inl e, t)"
    and mode: "TrafficMode True \<in> set (log_of t)"
    by (auto simp: setup_fails_def list_ex_iff switches_on_iff split: prod.splits sum.splits)
  from failed_setup_keeps_traffic_mode [OF run] run mode show ?thesis by (auto simp: start_gate_def)
qed

end
