(* ===== verification/StageReportTypes.thy ===== *)
theory StageReportTypes
  imports StageReportProperties
begin

text \<open>
  The type of a stage report. Callers of \<open>validate_report\<close> index the result without further tests
  (\<open>report["evidence"]["library"]["sha256"]\<close>, \<open>report["sources"]["ufbx"].get("location")\<close>); the types here state
  what every validated report offers them, for all fields of the format.
\<close>

section \<open>Types of JSON values\<close>

datatype ty =
    Number
  | Text
  | Name
  | Checksum
  | Items ty
  | Table ty
  | Fields "(string \<times> ty) list"

fun has_type :: "ty \<Rightarrow> json \<Rightarrow> bool" where
  "has_type Number v = is_int v"
| "has_type Text v = is_str v"
| "has_type Name v = text_value v"
| "has_type Checksum v = (is_str v \<and> sha256_shape (str_of v))"
| "has_type (Items t) v = (is_list v \<and> list_all (has_type t) (list_items v))"
| "has_type (Table t) v = (is_obj v \<and> distinct (obj_keys v) \<and> list_all (\<lambda>(_, w). has_type t w) (obj_items v))"
| "has_type (Fields ts) v = (is_obj v \<and> list_all (\<lambda>(k, t). has_type t (field k v)) ts)"

definition file_type :: ty where
  "file_type = Fields [(''path'', Name), (''sha256'', Checksum)]"

definition report_type :: ty where
  "report_type = Fields
     [(''schema_version'', Number), (''stage_id'', Name), (''scope'', Name), (''created_at'', Text),
      (''exit_code'', Number), (''required_checks'', Items Name), (''checks'', Table Text),
      (''evidence'', Table file_type), (''sources'', Table (Fields [(''location'', Name), (''revision'', Name)])),
      (''command'', Items Text),
      (''prerequisites'', Items (Fields [(''stage_id'', Name), (''scope'', Name), (''path'', Name), (''sha256'', Checksum)])),
      (''status'', Text), (''errors'', Items Text)]"

section \<open>Validated reports\<close>

lemma file_identity_type: "file_identity f base rec = Inr x \<Longrightarrow> has_type file_type rec"
  by (auto simp: file_identity_def file_type_def resolve_checked_def split: if_splits sum.splits)

lemma parsed_report_wf: "parse_report p raw = Inr r \<Longrightarrow> wf_json r \<and> is_obj r"
  by (auto simp: parse_report_def unique_object_def invalid_constant_def
      split: sum.splits if_splits dest: distinct_dict.loads_wf)

lemma wf_table:
  assumes "wf_json r" and "is_obj (field k r)" and "\<And>n w. (n, w) \<in> set (entries_of k r) \<Longrightarrow> has_type t w"
  shows "has_type (Table t) (field k r)"
proof -
  from assms(2) obtain d where d: "field k r = JObj d" by (cases "field k r") auto
  with wf_field [OF assms(1), of k] assms(3) show ?thesis
    by (auto simp: list_all_iff entries_of_def obj_keys_def)
qed

lemma entries_obj: "entries_of k r \<noteq> [] \<Longrightarrow> is_obj (field k r)"
  by (cases "field k r") (auto simp: entries_of_def)

lemma required_type:
  assumes "required_names r \<noteq> None"
  shows "has_type (Items Name) (field ''required_checks'' r)"
  using assms by (auto simp: required_names_def list_all_iff split: json.splits list.splits if_splits)

lemma content_type:
  assumes ok: "content_ok h f r p stage scope" and wf: "wf_json r"
  shows "has_type Number (field ''schema_version'' r)" "has_type Name (field ''stage_id'' r)"
    "has_type Name (field ''scope'' r)" "has_type Text (field ''created_at'' r)" "has_type Number (field ''exit_code'' r)"
    "has_type (Items Name) (field ''required_checks'' r)" "has_type (Table Text) (field ''checks'' r)"
    "has_type (Table file_type) (field ''evidence'' r)"
    "has_type (Table (Fields [(''location'', Name), (''revision'', Name)])) (field ''sources'' r)"
    "has_type (Items Text) (field ''command'' r)"
proof -
  from ok have parts: "identity_ok h r stage scope" "command_ok r" "sources_ok r" "checks_ok r" "evidence_ok h f r p"
    by (simp_all add: content_ok_def)
  from parts(1) show "has_type Number (field ''schema_version'' r)" "has_type Name (field ''stage_id'' r)"
    "has_type Name (field ''scope'' r)" "has_type Text (field ''created_at'' r)" "has_type Number (field ''exit_code'' r)"
    by (auto simp: identity_ok_def)
  show "has_type (Items Name) (field ''required_checks'' r)" using parts(4) required_type by (simp add: checks_ok_def)
  have "required_of r \<noteq> []" using parts(4) required_names_nonempty(1) by (auto simp: checks_ok_def required_of_def)
  with parts(4) have "entries_of ''checks'' r \<noteq> []" by (auto simp: checks_ok_def)
  with parts(4) show "has_type (Table Text) (field ''checks'' r)"
    by (intro wf_table wf entries_obj) (auto simp: checks_ok_def)
  show "has_type (Table file_type) (field ''evidence'' r)"
    using parts(5) by (intro wf_table wf entries_obj)
      (auto simp: evidence_ok_def evidence_matches_def intro: file_identity_type)
  show "has_type (Table (Fields [(''location'', Name), (''revision'', Name)])) (field ''sources'' r)"
    using parts(3) by (intro wf_table wf entries_obj) (auto simp: sources_ok_def)
  show "has_type (Items Text) (field ''command'' r)"
    using parts(2) by (auto simp: command_ok_def list_all_iff text_value_is_str)
qed

lemma prerequisite_type:
  assumes "named_item item" and "file_identity f base item = Inr x"
  shows "has_type (Fields [(''stage_id'', Name), (''scope'', Name), (''path'', Name), (''sha256'', Checksum)]) item"
  using assms(1) file_identity_type [OF assms(2)] by (simp add: named_item_def file_type_def)

lemma genuine_type: "genuine h f n p stage scope r \<Longrightarrow> has_type report_type r"
proof (erule genuineE)
  fix raw items m
  assume at: "report_at f p raw r" and ok: "content_ok h f r p stage scope"
    and rest: "field ''status'' r = JStr ''PASS''" "field ''errors'' r = JList []"
    and items: "field ''prerequisites'' r = JList items"
    and each: "\<And>item. item \<in> set items \<Longrightarrow> named_item item \<and>
        (\<exists>q b. file_identity f (parent p) item = Inr (q, sha256 h b) \<and> read_bytes f q = Inr b \<and>
                (\<exists>r'. genuine h f m q (stage_of item) (scope_of item) r'))"
  from at have wf: "wf_json r \<and> is_obj r" by (auto simp: report_at_def dest: parsed_report_wf)
  have "has_type (Items (Fields [(''stage_id'', Name), (''scope'', Name), (''path'', Name), (''sha256'', Checksum)]))
      (field ''prerequisites'' r)"
    using each prerequisite_type by (fastforce simp: items list_all_iff simp del: has_type.simps(7))
  moreover have "has_type Text (field ''status'' r)" "has_type (Items Text) (field ''errors'' r)"
    by (simp_all add: rest)
  ultimately show "has_type report_type r"
    using content_type [OF ok] wf by (simp add: report_type_def del: has_type.simps(1-6))
qed

text \<open>C5: every validated report has the type of the report format: each field is there with a value of its
  kind, each table has distinct names, and each file record a path and a well-formed digest.\<close>

theorem validated_report_is_well_typed:
  "case validate_report h f p stage scope of Inl e \<Rightarrow> True | Inr r \<Rightarrow> has_type report_type r"
  using genuine_type by (auto simp: validate_report_Inr validate_file_iff split: sum.split)

end
