(* ===== verification/StaticMeshStage.thy ===== *)
theory StaticMeshStage
  imports NativeRun
begin

text \<open>
  \<open>check_staticmesh.py\<close>: the evaluator of the transient static mesh probe. The build graph, the exit codes
  of every step, the linkage of the program and the digests of the sources are checked in order, and the
  first failure leaves the rest unchecked.
\<close>

definition mesh_stage :: string where "mesh_stage = ''ue-ufbx-runtime-staticmesh''"

definition mesh_scope :: string where
  "mesh_scope = ''Transient UStaticMesh fast-build CPU buffers; not saved assets, Editor/Cook or GPU rendering''"

definition graph_ok :: "json \<Rightarrow> unit result" where
  "graph_ok data =
     validate_graph ''CarlaStaticMeshProbe'' ''wrong static mesh target'' ''expected explicit scalar diagnostic profile'' data"

definition validate_native :: "host \<Rightarrow> fs \<Rightarrow> json \<Rightarrow> path \<Rightarrow> unit result" where
  "validate_native h f data fixture =
     bind_result (check_identity h f mesh_stage mesh_scope data fixture
       ''native static mesh source, scope or result mismatch'') (\<lambda>_.
     each (\<lambda>n. require (field n data = JInt 2) (''incomplete two-instance native check: '' @ n))
       [''instances'', ''built_objects'', ''rejected_queries''])"

definition check_step :: "json \<Rightarrow> string \<Rightarrow> unit result" where
  "check_step build step =
     bind_result (int_is step 0 build) (\<lambda>ok. require ok (''missing successful process status: '' @ step))"

definition build_steps :: "string list" where "build_steps = [''graph'', ''build'', ''native'']"

definition mesh_checks :: "string list" where
  "mesh_checks = [''graph'', ''build'', ''architecture'', ''linkage'', ''native'', ''sources'', ''prerequisite'']"

definition mesh_section :: "checker_host \<Rightarrow> native_args \<Rightarrow> path \<Rightarrow> unit ck" where
  "mesh_section ch a base =
     then_do (with_files (\<lambda>f. bind_result (read_json f (base @ [''target.json''])) graph_ok))
     (then_do (pass ''graph'')
     (then_do (check_exit ''native process exit='' (na_exit_code a))
     (then_do (with_files (\<lambda>f. bind_result (read_json f (base @ [''processes.json''])) (\<lambda>b. each (check_step b) build_steps)))
     (then_do (check_regular (base @ [''build.log'']) ''missing actual UBT build log'')
     (then_do (pass ''build'')
     (then_do (check_elf (program_of ch a) ''not a native AArch64 Program'')
     (then_do (pass ''architecture'')
     (then_do (check_linkage ch a base)
     (then_do (pass ''linkage'')
     (then_do (with_files (\<lambda>f. bind_result (read_json f (base @ [''native.json'']))
         (\<lambda>data. validate_native (ch_host ch) f data (fixture_of ch a))))
     (then_do (pass ''native'')
     (then_do (check_sources ch base)
     (pass ''sources'')))))))))))))"

definition mesh_logs :: "path \<Rightarrow> (string \<times> path) list" where
  "mesh_logs base =
     [(''build'', base @ [''build.log'']), (''native'', base @ [''native.log'']),
      (''linkage-validation'', base @ [''linkage-validation.log'']),
      (''source-verification'', base @ [''source-verification.log'']),
      (''layout'', base @ [''layout.txt'']), (''processes'', base @ [''processes''])]"

definition run_in :: "checker_host \<Rightarrow> native_args \<Rightarrow> path \<Rightarrow> json ck" where
  "run_in ch a base =
     (let report = base @ [''stage-report.json''] in
      then_do (guarded_section build_errors (mesh_section ch a base))
      (then_do (ufbx_prerequisite ch (na_ufbx_report a))
      (then_do (write_diagnostic (base @ [''staticmesh-diagnostic.json'']) ''process_exit_code'' (na_exit_code a))
      (then_do (cite_present (mesh_logs base))
      (then_do (cite_run_files base report (\<lambda>f. ch_below ch f base))
      (then_do (cite_program ch a ''checker'')
      (and_then (with_files (\<lambda>f. revision_of f (base @ [''ue-commit.txt'']))) (\<lambda>revision.
       checker_report ch report (\<lambda>s.
         checker_args mesh_stage mesh_scope (native_command a [''-nullrhi'', input_flag a]) (errors_code s)
           [ue_source (na_ue_root a) revision] s)))))))))"

definition run :: "checker_host \<Rightarrow> fs \<Rightarrow> native_args \<Rightarrow> json result \<times> fs" where
  "run ch f a =
     run_opened mesh_checks (run_in ch a) f
       (open_run ch f (na_run_dir a) make_none vacant ''refusing to overwrite static mesh stage report'')"

definition main :: "checker_host \<Rightarrow> fs \<Rightarrow> native_args \<Rightarrow> int result" where
  "main ch f a = bind_result (fst (run ch f a)) (\<lambda>report. Inr (exit_status report))"

end
