(* ===== verification/UfbxReport.thy ===== *)
theory UfbxReport
  imports BridgeReport
begin

text \<open>
  \<open>check_ue_ufbxbridge.py\<close>, the part without effects: the report of the ufbx backend, whose self-test must
  show four coordinate fixtures, and the build manifest that binds the program to its sources and to the
  evidence of the ufbx prerequisite.
\<close>

section \<open>Coordinate fixtures\<close>

definition ufbx_bridge_stage :: string where "ufbx_bridge_stage = ''ue-ufbx-meshdescription-static''"

definition ufbx_bridge_scope :: string where
  "ufbx_bridge_scope =
     ''ufbx to UE FMeshDescription in-memory bridge; dual backend, not SDK replacement, UStaticMesh, Editor or Cook''"

definition ufbx_commit :: string where "ufbx_commit = ''fcc5d6ba444cfd3eb80677dba5e37e493941abe5''"

definition ufbx_coordinate_policy :: string where
  "ufbx_coordinate_policy = ''ufbx right +Y/up +Z/front -X, centimeters, UV V flip''"

definition min_self_tests :: int where "min_self_tests = 32"

definition ufbx_fields :: "(string \<times> string) list" where
  "ufbx_fields =
     [(''stage'', ufbx_bridge_stage), (''scope'', ufbx_bridge_scope), (''backend'', ''ufbx''),
      (''coordinate_policy'', ufbx_coordinate_policy),
      (''equivalence_to_assimp'', ''not asserted; front-vs-forward policies differ'')]"

text \<open>The report with the identity of the Assimp bridge, for the checks the two have in common.\<close>

definition base_identity :: "json \<Rightarrow> json" where
  "base_identity report =
     JObj (fold (\<lambda>(k, v). dict_set k (JStr v))
       [(''stage'', bridge_stage), (''scope'', bridge_scope), (''coordinate_policy'', coordinate_policy)]
       (obj_items report))"

text \<open>\<open>math.isclose(v, e, abs_tol=1e-3)\<close> with the default relative tolerance.\<close>

definition is_close :: "pyfloat \<Rightarrow> pyfloat \<Rightarrow> bool" where
  "is_close a b \<longleftrightarrow>
     float_eq a b \<or>
     is_finite a \<and> is_finite b \<and>
     (let diff = float_abs (float_sub b a); rel = decimal 1 1000000000 in
      float_le diff (float_abs (float_mul rel b)) \<or> float_le diff (float_abs (float_mul rel a)) \<or>
      float_le diff (decimal 1 1000))"

definition close_item :: "json \<times> int \<Rightarrow> bool result" where
  "close_item = (\<lambda>(v, e).
     if is_number v then
       bind_result (is_finite_number v) (\<lambda>ok. Inr (ok \<and> is_close (num_float v) (float_of_int e)))
     else Inr False)"

definition values_close :: "json \<Rightarrow> int list \<Rightarrow> bool result" where
  "values_close v es =
     (if is_list v \<and> length (list_items v) = length es then all_result close_item (zip (list_items v) es)
      else Inr False)"

definition axis_ok :: "json \<Rightarrow> json \<Rightarrow> bool" where
  "axis_ok sign mirrored \<longleftrightarrow>
     is_number sign \<and> (py_eq sign (JInt (- 1)) \<or> py_eq sign (JInt 1)) \<and> is_bool mirrored"

definition sign_value :: "json \<Rightarrow> int" where
  "sign_value sign = (if py_eq sign (JInt 1) then 1 else - 1)"

definition fixture_x :: "int \<Rightarrow> bool \<Rightarrow> int" where
  "fixture_x sign mirrored = - sign * (if mirrored then 700 else 500)"

definition fixture_bounds :: "int \<Rightarrow> bool \<Rightarrow> int list" where
  "fixture_bounds sign mirrored =
     [fixture_x sign mirrored, if mirrored then 100 else 200, 300,
      fixture_x sign mirrored, if mirrored then 200 else 300, if mirrored then 500 else 400]"

definition fixture_values :: "int \<Rightarrow> bool \<Rightarrow> (string \<times> int list) list" where
  "fixture_values sign mirrored =
     [(''bounds_cm'', fixture_bounds sign mirrored), (''normal_world'', [- sign, 0, 0])]"

definition check_fixture_values :: "json \<Rightarrow> string \<times> int list \<Rightarrow> unit result" where
  "check_fixture_values item = (\<lambda>(name, es).
     bind_result (values_close (field name item) es) (\<lambda>ok.
       require ok (''coordinate fixture '' @ name @ '' differs from UE policy'')))"

definition winding_ok :: "json \<Rightarrow> int \<Rightarrow> bool" where
  "winding_ok item sign \<longleftrightarrow>
     field ''ufbx_reversed_winding'' item = JBool (sign = 1) \<and> field ''ue_facing_matches_normals'' item = JBool True"

text \<open>The step of the loop; \<open>seen\<close> holds the fixtures met so far.\<close>

definition take_fixture :: "json \<Rightarrow> (int \<times> bool) list \<Rightarrow> (int \<times> bool) list result" where
  "take_fixture item seen =
     req (is_obj item) ''coordinate check must be an object''
     (let sign = field ''source_front_sign'' item; mirrored = field ''mirrored_instance'' item;
          key = (sign_value sign, bool_of mirrored) in
      req (axis_ok sign mirrored) ''invalid source axis or mirrored instance case''
      (req (key \<notin> set seen) ''duplicate coordinate check''
       (req (winding_ok item (fst key)) ''ufbx/UE winding verification failed''
        (bind_result (each (check_fixture_values item) (fixture_values (fst key) (snd key))) (\<lambda>_.
          Inr (key # seen))))))"

definition check_coordinates :: "json \<Rightarrow> unit result" where
  "check_coordinates report =
     (let details = field ''coordinate_checks'' report in
      req (is_list details \<and> length (list_items details) = 4)
        ''four real FBX coordinate/handedness checks are required''
        (bind_result (fold_result take_fixture (list_items details) []) (\<lambda>_. Inr ())))"

definition expected_geometry :: "string \<Rightarrow> int \<times> int" where
  "expected_geometry kind = (if kind = ''static'' then (12, 6) else (960, 4))"

definition geometry_ok :: "string \<Rightarrow> json \<Rightarrow> bool" where
  "geometry_ok kind report \<longleftrightarrow>
     py_eq (field ''triangles'' report) (JInt (fst (expected_geometry kind))) \<and>
     py_eq (field ''material_slots'' report) (JInt (snd (expected_geometry kind)))"

definition check_ufbx_kind :: "string \<Rightarrow> json \<Rightarrow> unit result" where
  "check_ufbx_kind kind report =
     (if kind = ''self-test'' then
        bind_result (check_count report ''self_tests'' min_self_tests) (\<lambda>_. check_coordinates report)
      else if kind \<in> set [''static'', ''materials''] then
        require (geometry_ok kind report) ''fixture triangle/material-slot counts differ from expected geometry''
      else Inr ())"

definition evaluate_ufbx :: "json \<Rightarrow> int \<Rightarrow> string \<Rightarrow> string option \<Rightarrow> json result" where
  "evaluate_ufbx report rc kind input =
     req (is_obj report) ''probe report must be a JSON object''
     (bind_result (each (exact_field report) ufbx_fields) (\<lambda>_.
      bind_result (evaluate_report (base_identity report) rc kind input) (\<lambda>_.
      bind_result (check_ufbx_kind kind report) (\<lambda>_. Inr report))))"

section \<open>Evidence of the prerequisite\<close>

text \<open>\<open>Path(p).resolve()\<close> on an absolute path.\<close>

definition real_path :: "fs \<Rightarrow> path \<Rightarrow> path result" where
  "real_path f p = resolve f [] (path_text p)"

definition record_path :: "fs \<Rightarrow> path \<Rightarrow> json \<Rightarrow> path result" where
  "record_path f report_path rec = resolve f (parent report_path) (str_of (field_or ''path'' (JStr []) rec))"

fun match_records :: "host \<Rightarrow> fs \<Rightarrow> path \<Rightarrow> path \<Rightarrow> json list \<Rightarrow> unit result" where
  "match_records h f report_path p [] =
     Inl (ValueError (''prerequisite has no evidence for current file: '' @ path_text p))"
| "match_records h f report_path p (rec # recs) =
     bind_result (record_path f report_path rec) (\<lambda>q.
       if q = p then
         bind_result (sha256_file h f p) (\<lambda>d.
           require (field ''sha256'' rec = JStr d) (''prerequisite hash mismatch: '' @ path_text p))
       else match_records h f report_path p recs)"

definition match_evidence :: "host \<Rightarrow> fs \<Rightarrow> json \<Rightarrow> path \<Rightarrow> path \<Rightarrow> unit result" where
  "match_evidence h f report report_path p =
     bind_result (real_path f p) (\<lambda>q.
       match_records h f report_path q (map snd (obj_items (field ''evidence'' report))))"

text \<open>\<open>bytes.splitlines()\<close>; a line feed after a carriage return belongs to the same break.\<close>

definition skip_feed :: "bytes \<Rightarrow> bytes" where
  "skip_feed s = (case s of d # r \<Rightarrow> if d = CHR 0x0A then r else s | [] \<Rightarrow> [])"

lemma skip_feed_length [termination_simp]: "length (skip_feed s) < Suc (length s)"
  by (simp add: skip_feed_def split: list.split)

fun byte_lines :: "bytes \<Rightarrow> bytes \<Rightarrow> bytes list" where
  "byte_lines w [] = (if w = [] then [] else [w])"
| "byte_lines w (c # s) =
     (if c = CHR 0x0A then w # byte_lines [] s
      else if c = CHR 0x0D then w # byte_lines [] (skip_feed s)
      else byte_lines (w @ [c]) s)"

definition manifest_line :: "string \<Rightarrow> path \<Rightarrow> bytes" where
  "manifest_line d p = d @ ''  '' @ path_text p"

definition match_manifest :: "host \<Rightarrow> fs \<Rightarrow> path \<Rightarrow> json \<Rightarrow> path \<Rightarrow> unit result" where
  "match_manifest h f report_path rec p =
     bind_result (record_path f report_path rec) (\<lambda>m.
     bind_result (sha256_file h f p) (\<lambda>d.
     bind_result (read_bytes f m) (\<lambda>b.
       require (manifest_line d p \<in> set (byte_lines [] b))
         (''backend source manifest lacks current SHA256: '' @ path_text p))))"

definition match_source_evidence :: "host \<Rightarrow> fs \<Rightarrow> json \<Rightarrow> path \<Rightarrow> path \<Rightarrow> unit result" where
  "match_source_evidence h f report report_path p =
     catch_result (match_evidence h f report report_path p) (\<lambda>e.
       case e of
         ValueError m \<Rightarrow>
           (let rec = field ''build.source-files.sha256'' (field ''evidence'' report) in
            if truthy rec then match_manifest h f report_path rec p else Inl e)
       | _ \<Rightarrow> Inl e)"

end
