(* ===== verification/UfbxInputs.thy ===== *)
theory UfbxInputs
  imports UfbxReport MeshBridge
begin

text \<open>
  \<open>check_ue_ufbxbridge.py\<close>, the build manifest: \<open>capture_inputs\<close> records the digests of every input before the
  build, \<open>seal_build\<close> adds the digest of the program after it, and \<open>verify_build\<close> compares all of them with the
  files again. Native results are bound to their sources this way.
\<close>

section \<open>Inputs\<close>

definition backend_paths :: "path \<Rightarrow> path \<Rightarrow> path list" where
  "backend_paths install source_root =
     [install @ [''lib'', ''libufbx.a''], install @ [''include'', ''ufbx.h''],
      source_root @ [''ufbx.c''], source_root @ [''ufbx.h'']]"

definition check_source_root :: "fs \<Rightarrow> json \<Rightarrow> path result" where
  "check_source_root f report =
     (let source = field ''ufbx'' (field ''sources'' report); location = str_of (field_or ''location'' (JStr []) source) in
      req (field ''revision'' source = JStr ufbx_commit)
        ''ufbx prerequisite must match the pinned v0.23.0 source commit''
      (req (is_absolute location \<and> is_dir f (components location))
        ''ufbx prerequisite needs an absolute existing source directory''
        (Inr (components location))))"

definition check_static_library :: "host \<Rightarrow> fs \<Rightarrow> json \<Rightarrow> path \<Rightarrow> path \<Rightarrow> unit result" where
  "check_static_library h f report report_path library =
     bind_result (record_path f report_path (field_or ''static-library'' (JObj []) (field ''evidence'' report))) (\<lambda>recorded.
     bind_result (real_path f library) (\<lambda>current.
     req (recorded = current) ''ufbx prerequisite must name the current static-library evidence''
       (match_evidence h f report report_path library)))"

definition check_header :: "host \<Rightarrow> fs \<Rightarrow> path list \<Rightarrow> unit result" where
  "check_header h f paths =
     bind_result (sha256_file h f (paths ! 1)) (\<lambda>installed.
     bind_result (sha256_file h f (paths ! 3)) (\<lambda>pinned.
       require (installed = pinned) ''installed ufbx.h differs from pinned source''))"

definition backend_inputs :: "host \<Rightarrow> fs \<Rightarrow> string \<Rightarrow> string \<Rightarrow> (json \<times> path list) result" where
  "backend_inputs h f ufbx_report install =
     bind_result (resolve f (cwd h) ufbx_report) (\<lambda>report_path.
     bind_result (resolve f (cwd h) install) (\<lambda>inst.
     bind_result (validate_report h f (path_text report_path) ufbx_stage ufbx_scope) (\<lambda>report.
     bind_result (check_source_root f report) (\<lambda>source_root.
       let paths = backend_paths inst source_root in
       bind_result (check_static_library h f report report_path (paths ! 0)) (\<lambda>_.
       bind_result (each (match_source_evidence h f report report_path) (drop 2 paths)) (\<lambda>_.
       bind_result (check_header h f paths) (\<lambda>_. Inr (report, report_path # paths))))))))"

definition source_marker :: "string list" where
  "source_marker = [''Source'', ''CarlaUfbxMesh'', ''Private'', ''CarlaUfbxMesh.cpp'']"

definition source_files :: "bridge_host \<Rightarrow> fs \<Rightarrow> string \<Rightarrow> path list result" where
  "source_files bh f base =
     bind_result (resolve f (cwd (bh_host bh)) base) (\<lambda>dir.
     req (is_file f (dir @ source_marker)) ''bridge source root is missing CarlaUfbxMesh''
     (bind_result (map_result (real_path f) [p \<leftarrow> bh_below bh f dir. is_file f p]) (\<lambda>ps.
      req (ps \<noteq> []) ''bridge source root is empty'' (Inr (sort ps)))))"

section \<open>The manifest\<close>

record capture_args =
  ca_output :: string
  ca_program :: string
  ca_source_root :: string
  ca_ufbx_install :: string
  ca_ufbx_report :: string
  ca_assimp_library :: string
  ca_ue_commit :: string

definition tool_paths :: "bridge_host \<Rightarrow> path list" where
  "tool_paths bh =
     bh_script bh # map (\<lambda>n. parent (bh_script bh) @ [n])
       [''check_ue_meshbridge.py'', ''stage_report.py'', ''build-arm64-ue-ufbxbridge.sh'']"

text \<open>A dictionary from the texts of the paths to their digests; a path that occurs twice has one entry.\<close>

definition digest_dict :: "host \<Rightarrow> fs \<Rightarrow> path list \<Rightarrow> (string \<times> json) list result" where
  "digest_dict h f ps =
     bind_result (map_result (\<lambda>p. bind_result (sha256_file h f p) (\<lambda>d. Inr (path_text p, JStr d))) ps) (\<lambda>kvs.
       Inr (fold (\<lambda>(k, v). dict_set k v) kvs []))"

definition path_texts :: "path list \<Rightarrow> json" where
  "path_texts ps = JList (map (\<lambda>p. JStr (path_text p)) ps)"

definition capture_inputs :: "bridge_host \<Rightarrow> fs \<Rightarrow> capture_args \<Rightarrow> (json \<times> fs) result" where
  "capture_inputs bh f a =
     (let h = bh_host bh; full = resolve f (cwd h) in
      bind_result (full (ca_output a)) (\<lambda>output.
      req (vacant f output) (''refusing to overwrite build inputs: '' @ path_text output)
      (bind_result (backend_inputs h f (ca_ufbx_report a) (ca_ufbx_install a)) (\<lambda>(_, backend).
       bind_result (source_files bh f (ca_source_root a)) (\<lambda>sources.
       bind_result (full (ca_assimp_library a)) (\<lambda>assimp.
       bind_result (full (ca_program a)) (\<lambda>program.
       bind_result (full (ca_source_root a)) (\<lambda>source_root.
       bind_result (full (ca_ufbx_install a)) (\<lambda>install.
       bind_result (full (ca_ufbx_report a)) (\<lambda>report.
       bind_result (digest_dict h f (sources @ backend @ [assimp] @ tool_paths bh)) (\<lambda>inputs.
         let manifest =
           JObj [(''schema_version'', JInt 1), (''complete'', JBool False), (''program'', JStr (path_text program)),
             (''source_root'', JStr (path_text source_root)), (''ufbx_install'', JStr (path_text install)),
             (''ufbx_report'', JStr (path_text report)), (''ue_commit'', JStr (ca_ue_commit a)),
             (''source_files'', path_texts sources), (''inputs'', JObj inputs)] in
         bind_result (write_json f output manifest) (\<lambda>f'. Inr (manifest, f')))))))))))))"

text \<open>\<open>Path(v)\<close> of a dynamic value: only a string will do.\<close>

definition as_path_text :: "json \<Rightarrow> string result" where
  "as_path_text v = (if is_str v then Inr (str_of v) else Inl (TypeError ''expected str, bytes or os.PathLike object''))"

definition path_item :: "string \<Rightarrow> json \<Rightarrow> string result" where
  "path_item k v = bind_result (py_item k v) as_path_text"

definition check_schema :: "json \<Rightarrow> unit result" where
  "check_schema manifest =
     req (is_obj manifest \<and> py_eq (field ''schema_version'' manifest) (JInt 1)) ''invalid build input manifest''
     (require (is_obj (field ''inputs'' manifest) \<and> obj_items (field ''inputs'' manifest) \<noteq> [])
       ''missing build input hashes'')"

definition check_input_digest :: "host \<Rightarrow> fs \<Rightarrow> string \<times> json \<Rightarrow> unit result" where
  "check_input_digest h f = (\<lambda>(p, expected).
     req (is_absolute p) (''build input SHA256 mismatch: '' @ p)
       (bind_result (sha256_file h f (components p)) (\<lambda>d.
         require (expected = JStr d) (''build input SHA256 mismatch: '' @ p))))"

definition check_captured :: "json \<Rightarrow> path \<Rightarrow> unit result" where
  "check_captured manifest p =
     require (has_field (path_text p) (field ''inputs'' manifest)) (''missing captured build input: '' @ path_text p)"

definition verify_inputs :: "bridge_host \<Rightarrow> fs \<Rightarrow> json \<Rightarrow> unit result" where
  "verify_inputs bh f manifest =
     (let h = bh_host bh in
      bind_result (check_schema manifest) (\<lambda>_.
      bind_result (path_item ''source_root'' manifest) (\<lambda>source_root.
      bind_result (source_files bh f source_root) (\<lambda>sources.
      req (field ''source_files'' manifest = path_texts sources) ''bridge source file set changed after capture''
      (bind_result (py_item ''ufbx_report'' manifest) (\<lambda>report_value.
       bind_result (py_item ''ufbx_install'' manifest) (\<lambda>install_value.
       bind_result (as_path_text report_value) (\<lambda>report.
       bind_result (as_path_text install_value) (\<lambda>install.
       bind_result (backend_inputs h f report install) (\<lambda>(_, backend).
       bind_result (each (check_captured manifest) (backend @ sources)) (\<lambda>_.
         each (check_input_digest h f) (obj_items (field ''inputs'' manifest)))))))))))))"

definition digest_item :: "bridge_host \<Rightarrow> fs \<Rightarrow> json \<Rightarrow> string \<Rightarrow> string result" where
  "digest_item bh f manifest k =
     bind_result (path_item k manifest) (\<lambda>t. sha256_file (bh_host bh) f (join_path (cwd (bh_host bh)) t))"

definition sealed :: "json \<Rightarrow> string \<Rightarrow> json" where
  "sealed manifest d =
     JObj (dict_set ''program_sha256'' (JStr d) (dict_set ''complete'' (JBool True) (obj_items manifest)))"

definition seal_build :: "bridge_host \<Rightarrow> fs \<Rightarrow> string \<Rightarrow> string \<Rightarrow> (json \<times> fs) result" where
  "seal_build bh f inputs output =
     bind_result (resolve f (cwd (bh_host bh)) output) (\<lambda>out.
     req (vacant f out) (''refusing to overwrite build manifest: '' @ path_text out)
     (bind_result (read_json_bytes f (absolute (bh_host bh) inputs)) (\<lambda>manifest.
      bind_result (py_get ''complete'' JNull manifest) (\<lambda>complete.
      req (complete = JBool False) ''expected unsealed build inputs''
      (bind_result (verify_inputs bh f manifest) (\<lambda>_.
       bind_result (digest_item bh f manifest ''program'') (\<lambda>d.
       bind_result (write_json f out (sealed manifest d)) (\<lambda>f'. Inr (sealed manifest d, f')))))))))"

record build_identity =
  bi_program :: path
  bi_ufbx_report :: path
  bi_ufbx_install :: path
  bi_ue_commit :: string

definition check_named_path :: "fs \<Rightarrow> json \<Rightarrow> string \<times> path \<Rightarrow> unit result" where
  "check_named_path f manifest = (\<lambda>(name, p).
     bind_result (real_path f p) (\<lambda>q.
       require (field name manifest = JStr (path_text q)) (''build manifest disagrees with current '' @ name)))"

definition lower_commit :: "string \<Rightarrow> bool" where
  "lower_commit s \<longleftrightarrow> (length s = 40 \<or> length s = 64) \<and> list_all is_lower_hex s"

definition verify_build :: "bridge_host \<Rightarrow> fs \<Rightarrow> json \<Rightarrow> build_identity \<Rightarrow> unit result" where
  "verify_build bh f manifest i =
     bind_result (verify_inputs bh f manifest) (\<lambda>_.
     req (field ''complete'' manifest = JBool True) ''build manifest is not sealed''
     (bind_result (each (check_named_path f manifest)
        [(''program'', bi_program i), (''ufbx_report'', bi_ufbx_report i), (''ufbx_install'', bi_ufbx_install i)]) (\<lambda>_.
      req (lower_commit (bi_ue_commit i) \<and> field ''ue_commit'' manifest = JStr (bi_ue_commit i))
        ''build manifest disagrees with actual UE commit''
      (bind_result (sha256_file (bh_host bh) f (bi_program i)) (\<lambda>d.
       req (field ''program_sha256'' manifest = JStr d) ''current program SHA256 differs from completed build''
       (bind_result (native_elf f (bi_program i)) (\<lambda>ok.
         require ok ''program is not a little-endian ARM64 ELF'')))))))"

end
