(* ===== verification/UfbxBridge.thy ===== *)
theory UfbxBridge
  imports UfbxInputs
begin

text \<open>
  \<open>check_ue_ufbxbridge.py\<close>, the run: the same six probes as the Assimp bridge with the ufbx backend, after a
  preflight that ties the program to its build manifest, to the ufbx and Assimp prerequisites and to the
  regression report of the same binary; the build is verified again before every probe.
\<close>

section \<open>One probe\<close>

definition ufbx_argv :: "path \<Rightarrow> path option \<Rightarrow> path \<Rightarrow> string list" where
  "ufbx_argv program input raw =
     [path_text program, ''-backend=ufbx'', case input of None \<Rightarrow> ''-self-test'' | Some p \<Rightarrow> ''-input='' @ path_text p,
      ''-output='' @ path_text raw] @ runtime_flags"

definition judge_ufbx :: "fs \<Rightarrow> path \<Rightarrow> string \<Rightarrow> path option \<Rightarrow> int \<Rightarrow> json result" where
  "judge_ufbx f raw kind input rc =
     bind_result (read_json_bytes f raw) (\<lambda>v. evaluate_ufbx v rc kind (map_option path_text input))"

definition ufbx_result_json :: "case_result \<Rightarrow> json" where
  "ufbx_result_json r = JObj [kv \<leftarrow> obj_items (case_result_json r). fst kv \<noteq> ''name'']"

definition ufbx_outcome ::
  "bridge_host \<Rightarrow> json \<Rightarrow> path \<Rightarrow> string \<Rightarrow> string \<Rightarrow> path option \<Rightarrow> path \<Rightarrow> case_result br"
where
  "ufbx_outcome bh timeout program name kind input dir =
     handle
       (and_then (run_probe bh (ufbx_argv program input (dir @ [''raw.json''])) (dir @ [''process.log''])) (\<lambda>ending.
        br_fs (\<lambda>f. settle judge_ufbx timeout f (dir @ [''raw.json'']) kind input (new_result name kind) ending)))
       (\<lambda>e. if probe_errors e then ret (note_error (error_text e) (new_result name kind)) else raise e)"

definition mark_passed :: "case_result \<Rightarrow> case_result" where
  "mark_passed r = (if cr_errors r = [] then r\<lparr>cr_status := ''PASS''\<rparr> else r)"

definition invoke_ufbx ::
  "bridge_host \<Rightarrow> json \<Rightarrow> path \<Rightarrow> path \<Rightarrow> string \<Rightarrow> string \<Rightarrow> path option \<Rightarrow> case_result br"
where
  "invoke_ufbx bh timeout program work name kind input =
     (let dir = work @ [name @ ''-'' @ bh_temp bh name] in
      then_do (br_update (\<lambda>f. make_work_dir f dir))
      (then_do (br_update (\<lambda>f. write_json f (dir @ [''command.json''])
          (JList (map JStr (ufbx_argv program input (dir @ [''raw.json'']))))))
      (and_then (ufbx_outcome bh timeout program name kind input dir) (\<lambda>r.
       let r' = (mark_passed r)\<lparr>cr_seconds := JFloat (bh_seconds bh name)\<rparr> in
       then_do (br_update (\<lambda>f. write_json f (dir @ [''result.json'']) (ufbx_result_json r'))) (ret r')))))"

section \<open>Preflight\<close>

record ufbx_args =
  ub_program :: string
  ub_fixtures :: string
  ub_run_dir :: string
  ub_ue_root :: string
  ub_ue_commit :: string
  ub_ufbx_report :: string
  ub_ufbx_install :: string
  ub_assimp_report :: string
  ub_bridge_report :: string
  ub_build_manifest :: string
  ub_build_command :: string
  ub_timeout :: json
  ub_argv :: "string list"

record ufbx_paths =
  up_program :: path
  up_fixtures :: path
  up_run :: path
  up_ue :: path
  up_ufbx :: path
  up_install :: path
  up_assimp :: path
  up_bridge :: path
  up_manifest :: path
  up_build :: path
  up_work :: path

definition build_errors_caught :: "py_error \<Rightarrow> bool" where
  "build_errors_caught e \<longleftrightarrow>
     os_or_value e \<or> (case e of KeyError _ \<Rightarrow> True | TypeError _ \<Rightarrow> True | _ \<Rightarrow> False)"

definition preflight_errors :: "py_error \<Rightarrow> bool" where
  "preflight_errors e \<longleftrightarrow> build_errors_caught e \<or> (case e of RecursionError _ \<Rightarrow> True | _ \<Rightarrow> False)"

definition verification :: "ufbx_args \<Rightarrow> ufbx_paths \<Rightarrow> build_identity" where
  "verification a ps =
     \<lparr>bi_program = up_program ps, bi_ufbx_report = up_ufbx ps, bi_ufbx_install = up_install ps,
      bi_ue_commit = ub_ue_commit a\<rparr>"

definition ufbx_prerequisites :: "ufbx_paths \<Rightarrow> (string \<times> string \<times> string) list" where
  "ufbx_prerequisites ps =
     [(ufbx_stage, ufbx_scope, path_text (up_ufbx ps)), (assimp_stage, assimp_scope, path_text (up_assimp ps)),
      (bridge_stage, bridge_scope, path_text (up_bridge ps))]"

definition string_list :: "json \<Rightarrow> bool" where
  "string_list v \<longleftrightarrow> is_list v \<and> list_items v \<noteq> [] \<and> all_str (list_items v)"

definition check_program :: "bridge_host \<Rightarrow> ufbx_paths \<Rightarrow> fs \<Rightarrow> unit result" where
  "check_program bh ps f =
     req (is_file f (up_program ps) \<and> bh_executable bh f (up_program ps) \<and> is_dir f (up_ue ps))
       ''missing executable or UE root''
       (bind_result (read_json_bytes f (up_build ps)) (\<lambda>argv.
         require (string_list argv) ''build command must be a nonempty argv list''))"

text \<open>\<open>report["evidence"][name]["sha256"]\<close>.\<close>

definition evidence_digest :: "string \<Rightarrow> json \<Rightarrow> json result" where
  "evidence_digest name report =
     bind_result (py_item ''evidence'' report) (\<lambda>ev. bind_result (py_item name ev) (py_item ''sha256''))"

definition check_regression :: "fs \<Rightarrow> ufbx_paths \<Rightarrow> json \<Rightarrow> unit result" where
  "check_regression f ps manifest =
     bind_result (read_json_bytes f (up_bridge ps)) (\<lambda>regression.
     bind_result (evidence_digest ''program'' regression) (\<lambda>tested.
     bind_result (py_item ''program_sha256'' manifest) (\<lambda>built.
       require (py_eq tested built) ''Assimp regression did not test the current dual-backend binary'')))"

definition ufbx_library :: "ufbx_paths \<Rightarrow> path" where
  "ufbx_library ps = parent (up_program ps) @ [''libassimp.so.6'']"

text \<open>A digest that is no string never equals the one of the library.\<close>

definition verify_library_json :: "host \<Rightarrow> ufbx_paths \<Rightarrow> json \<Rightarrow> fs \<Rightarrow> unit result" where
  "verify_library_json h ps expected f =
     (if is_str expected then
        bind_result (verify_runtime_library h f (ufbx_library ps) (str_of expected)) (\<lambda>_. Inr ())
      else
        req (is_file f (ufbx_library ps))
          (''runtime Assimp library is missing or not a regular file: '' @ path_text (ufbx_library ps))
        (bind_result (sha256_file h f (ufbx_library ps)) (\<lambda>actual.
          Inl (ValueError (''runtime Assimp library SHA256 mismatch: '' @ path_text (ufbx_library ps) @
            ''; expected '' @ str_json expected @ '', got '' @ actual)))))"

definition check_ufbx_fixture :: "bridge_host \<Rightarrow> ufbx_paths \<Rightarrow> json \<Rightarrow> string \<Rightarrow> unit br" where
  "check_ufbx_fixture bh ps backend name =
     (let p = up_fixtures ps @ [name] in
      then_do (br_fs (\<lambda>f. require (nonempty_file f p) (''missing fixture: '' @ path_text p)))
      (then_do (br_fs (\<lambda>f. match_evidence (bh_host bh) f backend (up_ufbx ps) p))
      (br_cite [(''fixture.'' @ name, p)])))"

definition ufbx_truncated :: "ufbx_paths \<Rightarrow> path" where
  "ufbx_truncated ps = up_work ps @ [''truncated.fbx'']"

definition make_ufbx_truncated :: "ufbx_paths \<Rightarrow> unit br" where
  "make_ufbx_truncated ps =
     and_then (br_fs (\<lambda>f. read_bytes f (up_fixtures ps @ [''BlenderCube.fbx'']))) (\<lambda>b.
     then_do (check (length (take 33 b) = 33) ''cube fixture is too short for truncation test'')
     (then_do (br_update (\<lambda>f. write_bytes f (ufbx_truncated ps) (take 32 b)))
     (br_cite [(''fixture.truncated'', ufbx_truncated ps)])))"

definition cite_inputs :: "json \<Rightarrow> unit br" where
  "cite_inputs manifest =
     br_cite (map (\<lambda>(i, k). (''build-input.'' @ show_nat i, components k))
       (enumerate 0 (obj_keys (field ''inputs'' manifest))))"

definition check_build :: "bridge_host \<Rightarrow> ufbx_args \<Rightarrow> ufbx_paths \<Rightarrow> (json \<times> json) br" where
  "check_build bh a ps =
     then_do (br_fs (check_program bh ps))
     (and_then (br_fs (\<lambda>f. read_json_bytes f (up_manifest ps))) (\<lambda>manifest.
      then_do (br_fs (\<lambda>f. verify_build bh f manifest (verification a ps)))
      (and_then (br_fs (\<lambda>f. backend_inputs (bh_host bh) f (path_text (up_ufbx ps)) (path_text (up_install ps)))) (\<lambda>(backend, _).
       then_do (put_state (\<lambda>s. s\<lparr>br_sources :=
           dict_set ''ufbx'' (field ''ufbx'' (field ''sources'' backend)) (br_sources s)\<rparr>))
       (then_do (cite_inputs manifest) (ret (manifest, backend)))))))"

definition check_prerequisites :: "bridge_host \<Rightarrow> ufbx_paths \<Rightarrow> json \<Rightarrow> json br" where
  "check_prerequisites bh ps manifest =
     then_do (br_fs (\<lambda>f. each (\<lambda>(stage, scope, p).
         bind_result (validate_report (bh_host bh) f p stage scope) (\<lambda>_. Inr ())) (drop 1 (ufbx_prerequisites ps))))
     (then_do (br_fs (\<lambda>f. check_regression f ps manifest))
     (and_then (br_fs (\<lambda>f. bind_result (read_json_bytes f (up_assimp ps)) (evidence_digest ''library''))) (\<lambda>expected.
      then_do (br_fs (verify_library_json (bh_host bh) ps expected))
      (then_do (br_cite [(''assimp-runtime'', ufbx_library ps)]) (ret expected)))))"

text \<open>The manifest and the expected digest of the library, when nothing was raised.\<close>

definition ufbx_preflight :: "bridge_host \<Rightarrow> ufbx_args \<Rightarrow> ufbx_paths \<Rightarrow> (json \<times> json) option br" where
  "ufbx_preflight bh a ps =
     handle
       (and_then (check_build bh a ps) (\<lambda>(manifest, backend).
        and_then (check_prerequisites bh ps manifest) (\<lambda>expected.
        then_do (do_each (check_ufbx_fixture bh ps backend) fixture_names)
        (then_do (make_ufbx_truncated ps) (ret (Some (manifest, expected)))))))
       (\<lambda>e. if preflight_errors e then then_do (br_complain (error_text e)) (ret None) else raise e)"

section \<open>The run\<close>

definition ufbx_input :: "ufbx_paths \<Rightarrow> bridge_case \<Rightarrow> path option" where
  "ufbx_input ps c =
     (case c of (name, file, kind) \<Rightarrow>
        if kind = ''truncated'' then Some (ufbx_truncated ps)
        else map_option (\<lambda>n. up_fixtures ps @ [n]) file)"

definition verify_before :: "bridge_host \<Rightarrow> ufbx_args \<Rightarrow> ufbx_paths \<Rightarrow> json \<Rightarrow> json \<Rightarrow> unit br" where
  "verify_before bh a ps manifest expected =
     then_do (br_fs (\<lambda>f. verify_build bh f manifest (verification a ps)))
     (br_fs (verify_library_json (bh_host bh) ps expected))"

definition run_ufbx_cases :: "bridge_host \<Rightarrow> ufbx_args \<Rightarrow> ufbx_paths \<Rightarrow> json \<Rightarrow> json \<Rightarrow> unit br" where
  "run_ufbx_cases bh a ps manifest expected =
     probe_all (verify_before bh a ps manifest expected)
       (invoke_ufbx bh (ub_timeout a) (up_program ps) (up_work ps)) (ufbx_input ps)
       (\<lambda>name. probe_files name (up_work ps @ [name @ ''-'' @ bh_temp bh name]))"

definition run_ufbx_all :: "bridge_host \<Rightarrow> ufbx_args \<Rightarrow> ufbx_paths \<Rightarrow> (json \<times> json) option \<Rightarrow> unit br" where
  "run_ufbx_all bh a ps found =
     and_then (get_state br_errors) (\<lambda>errs.
       if errs = [] then
         (case found of
            Some (manifest, expected) \<Rightarrow>
              guarded_run bh build_errors_caught [] [] (run_ufbx_cases bh a ps manifest expected)
          | None \<Rightarrow> ret ())
       else ret ())"

definition ufbx_not_run :: "string \<Rightarrow> json" where
  "ufbx_not_run name =
     JObj [(''status'', JStr ''MISSING''), (''errors'', JList [JStr ''preflight/setup failed''])]"

definition ufbx_own_evidence :: "bridge_host \<Rightarrow> ufbx_paths \<Rightarrow> (string \<times> path) list" where
  "ufbx_own_evidence bh ps =
     [(''program'', up_program ps), (''build-manifest'', up_manifest ps), (''evaluator'', bh_script bh)]"

definition ufbx_ue :: "ufbx_args \<Rightarrow> ufbx_paths \<Rightarrow> string \<times> json" where
  "ufbx_ue a ps =
     (''ue'', JObj [(''location'', JStr (path_text (up_ue ps))), (''revision'', JStr (ub_ue_commit a))])"

definition ufbx_prologue :: "bridge_host \<Rightarrow> ufbx_args \<Rightarrow> ufbx_paths \<Rightarrow> (json \<times> json) option br" where
  "ufbx_prologue bh a ps =
     then_do (put_state (\<lambda>s. s\<lparr>br_sources := [ufbx_ue a ps],
       br_evidence := build_evidence bh (br_files s) (up_run ps) (up_build ps)\<rparr>))
     (then_do (br_cite (ufbx_own_evidence bh ps)) (ufbx_preflight bh a ps))"

definition run_ufbx_in :: "bridge_host \<Rightarrow> ufbx_args \<Rightarrow> ufbx_paths \<Rightarrow> json br" where
  "run_ufbx_in bh a ps =
     and_then (ufbx_prologue bh a ps) (\<lambda>found.
     then_do (run_ufbx_all bh a ps found)
     (finish_run bh ufbx_not_run (up_run ps) (up_work ps)
       (report_args ufbx_bridge_stage ufbx_bridge_scope
         ([bh_python bh, path_text (bh_script bh)] @ ub_argv a) (ufbx_prerequisites ps))))"

definition resolve_inputs :: "bridge_host \<Rightarrow> fs \<Rightarrow> ufbx_args \<Rightarrow> path list result" where
  "resolve_inputs bh f a =
     map_result (resolve f (cwd (bh_host bh)))
       [ub_program a, ub_fixtures a, ub_run_dir a, ub_ue_root a, ub_ufbx_report a, ub_ufbx_install a,
        ub_assimp_report a, ub_bridge_report a, ub_build_manifest a, ub_build_command a]"

definition ufbx_paths_of :: "bridge_host \<Rightarrow> path list \<Rightarrow> ufbx_paths" where
  "ufbx_paths_of bh rs =
     \<lparr>up_program = rs ! 0, up_fixtures = rs ! 1, up_run = rs ! 2, up_ue = rs ! 3, up_ufbx = rs ! 4,
      up_install = rs ! 5, up_assimp = rs ! 6, up_bridge = rs ! 7, up_manifest = rs ! 8, up_build = rs ! 9,
      up_work = rs ! 2 @ [''ufbxbridge-checks-'' @ bh_temp bh ''ufbxbridge-checks'']\<rparr>"

definition run_ufbx :: "bridge_host \<Rightarrow> ufbx_args \<Rightarrow> int \<times> int \<Rightarrow> fs \<Rightarrow> json result \<times> bridge" where
  "run_ufbx bh a limit f =
     (case req (timeout_ok (ub_timeout a)) ''timeout_seconds must be in (0, 300]''
         (bind_result (resolve_inputs bh f a) (\<lambda>rs.
          let ps = ufbx_paths_of bh rs in
          bind_result (open_work ''refusing to overwrite stage report: '' f (up_run ps) (up_work ps)) (\<lambda>f1.
            Inr (ps, f1)))) of
        Inl e \<Rightarrow> (Inl e, start_bridge limit f)
      | Inr (ps, f1) \<Rightarrow> run_ufbx_in bh a ps (start_bridge limit f1))"

datatype ufbx_action = CaptureInputs capture_args | SealBuild string string | RunUfbx ufbx_args

text \<open>\<open>main\<close>: the exit code and the files afterwards.\<close>

definition main :: "bridge_host \<Rightarrow> ufbx_action \<Rightarrow> int \<times> int \<Rightarrow> fs \<Rightarrow> (int \<times> fs) result" where
  "main bh act limit f =
     (let (outcome, f') =
        (case act of
           CaptureInputs a \<Rightarrow> (case capture_inputs bh f a of Inl e \<Rightarrow> (Inl e, f) | Inr (_, g) \<Rightarrow> (Inr 0, g))
         | SealBuild i o' \<Rightarrow> (case seal_build bh f i o' of Inl e \<Rightarrow> (Inl e, f) | Inr (_, g) \<Rightarrow> (Inr 0, g))
         | RunUfbx a \<Rightarrow>
             (case run_ufbx bh a limit f of (r, s) \<Rightarrow> (bind_result r (\<lambda>report. Inr (exit_status report)), br_files s)))
      in case outcome of
           Inl e \<Rightarrow> if preflight_errors e then Inr (1, f') else Inl e
         | Inr n \<Rightarrow> Inr (n, f'))"

end
