(* ===== verification/UfbxFacts.thy ===== *)
theory UfbxFacts
  imports UfbxBridge BridgeFacts
begin

text \<open>
  Facts about the ufbx bridge checker: its probes are an instance of the same loop as those of the Assimp bridge,
  and its self-test covers every orientation. What its reports have to say is stated in \<open>ufbx_report\<close>.
\<close>

section \<open>The self-test\<close>

definition orientation_ok :: "json \<Rightarrow> int \<times> bool \<Rightarrow> bool" where
  "orientation_ok item = (\<lambda>(sign, mirrored).
     py_eq (field ''source_front_sign'' item) (JInt sign) \<and> field ''mirrored_instance'' item = JBool mirrored \<and>
     winding_ok item sign \<and>
     list_all (\<lambda>(name, es). values_close (field name item) es = Inr True) (fixture_values sign mirrored))"

lemma values_checked:
  "check_fixture_values item x = Inr u \<longleftrightarrow> values_close (field (fst x) item) (snd x) = Inr True"
  by (cases x) (auto simp: check_fixture_values_def)

lemma take_fixture_Inr:
  assumes "take_fixture item seen = Inr t"
  shows "\<exists>key. t = key # seen \<and> key \<notin> set seen \<and> fst key \<in> {1, - 1} \<and> orientation_ok item key"
  using assms
  by (auto simp: take_fixture_def Let_def orientation_ok_def values_checked list_all_iff case_prod_unfold sign_value_def
      axis_ok_def is_bool_iff)

definition orientations :: "(int \<times> bool) list" where
  "orientations = [(1, True), (1, False), (- 1, True), (- 1, False)]"

lemma take_fixtures:
  "fold_result take_fixture items seen = Inr t \<Longrightarrow>
   \<exists>keys. t = rev keys @ seen \<and> list_all2 orientation_ok items keys \<and> set keys \<subseteq> set orientations \<and>
     distinct keys \<and> set keys \<inter> set seen = {}"
proof (induction items arbitrary: seen)
  case (Cons item items)
  then obtain u where u: "take_fixture item seen = Inr u" and rest: "fold_result take_fixture items u = Inr t" by auto
  from take_fixture_Inr [OF u] obtain key where key: "u = key # seen" "key \<notin> set seen" "fst key \<in> {1, - 1}"
      "orientation_ok item key" by blast
  from key(3) have "key \<in> set orientations" by (cases key; cases "snd key") (auto simp: orientations_def)
  moreover from Cons.IH [OF rest] obtain keys where "t = rev keys @ u" "list_all2 orientation_ok items keys"
    "set keys \<subseteq> set orientations" "distinct keys" "set keys \<inter> set u = {}" by blast
  ultimately show ?case using key by (intro exI [of _ "key # keys"]) auto
qed simp

text \<open>The winding says which way the front axis points, so a fixture shows one orientation only.\<close>

lemma orientation_unique:
  assumes "orientation_ok item k" and "orientation_ok item l" and "k \<in> set orientations" and "l \<in> set orientations"
  shows "k = l"
proof -
  obtain s m s' m' where k: "k = (s, m)" and l: "l = (s', m')" by (cases k, cases l) auto
  from assms(1,2) have "m = m'" "(s = 1) = (s' = 1)" by (auto simp: orientation_ok_def winding_ok_def k l)
  with assms(3,4) show ?thesis by (auto simp: k l orientations_def)
qed

lemma matching_fixtures:
  "list_all2 orientation_ok items keys \<Longrightarrow> set keys \<subseteq> set orientations \<Longrightarrow> key \<in> set orientations \<Longrightarrow>
   length (filter (\<lambda>item. orientation_ok item key) items) = length (filter (\<lambda>k. k = key) keys)"
proof (induction rule: list_all2_induct)
  case (Cons item items k keys)
  then show ?case using orientation_unique [of item k key] by auto
qed simp

definition covers_orientations :: "json \<Rightarrow> bool" where
  "covers_orientations report \<longleftrightarrow>
     (let items = list_items (field ''coordinate_checks'' report) in
      length items = 4 \<and> list_all (\<lambda>key. length (filter (\<lambda>item. orientation_ok item key) items) = 1) orientations)"

lemma check_coordinates_covers:
  assumes "check_coordinates report = Inr ()"
  shows "covers_orientations report"
proof -
  let ?items = "list_items (field ''coordinate_checks'' report)"
  from assms obtain t where four: "length ?items = 4" and t: "fold_result take_fixture ?items [] = Inr t"
    by (auto simp: check_coordinates_def Let_def)
  from take_fixtures [OF t] obtain keys where keys: "list_all2 orientation_ok ?items keys" "set keys \<subseteq> set orientations"
    "distinct keys" by blast
  have "length keys = 4" using list_all2_lengthD [OF keys(1)] four by simp
  then have all: "set keys = set orientations"
    using keys(2,3) by (intro card_subset_eq) (simp_all add: distinct_card orientations_def)
  have "length (filter (\<lambda>item. orientation_ok item key) ?items) = 1" if "key \<in> set orientations" for key
    using matching_fixtures [OF keys(1,2) that] that all keys(3) by (simp add: distinct_length_filter)
  with four show ?thesis by (simp add: covers_orientations_def list_all_iff)
qed

section \<open>Reports\<close>

text \<open>What a report of the ufbx backend has to say: its own identity, and in addition the geometry and orientations.\<close>

definition shape_of :: "string \<Rightarrow> rat \<times> rat" where
  "shape_of kind = (if kind = ''static'' then (12, 6) else (960, 4))"

definition ufbx_report :: "string \<Rightarrow> string option \<Rightarrow> json \<Rightarrow> bool" where
  "ufbx_report kind input v \<longleftrightarrow>
     is_obj v \<and> field ''stage'' v = JStr ''ue-ufbx-meshdescription-static'' \<and>
     field ''scope'' v = JStr
       ''ufbx to UE FMeshDescription in-memory bridge; dual backend, not SDK replacement, UStaticMesh, Editor or Cook'' \<and>
     field ''backend'' v = JStr ''ufbx'' \<and>
     field ''coordinate_policy'' v = JStr ''ufbx right +Y/up +Z/front -X, centimeters, UV V flip'' \<and>
     field ''equivalence_to_assimp'' v = JStr ''not asserted; front-vs-forward policies differ'' \<and>
     outcome_report kind input v \<and>
     (kind = ''self-test'' \<longrightarrow> counts 32 (field ''self_tests'' v) \<and> covers_orientations v) \<and>
     (kind = ''static'' \<or> kind = ''materials'' \<longrightarrow>
        number_value (field ''triangles'' v) = Some (fst (shape_of kind)) \<and>
        number_value (field ''material_slots'' v) = Some (snd (shape_of kind)))"

lemma base_fields:
  "k \<notin> {''stage'', ''scope'', ''coordinate_policy''} \<Longrightarrow> field k (base_identity v) = field k v"
  by (simp add: base_identity_def field_def)

lemma base_outcome: "outcome_report kind input (base_identity v) \<longleftrightarrow> outcome_report kind input v"
  by (simp add: outcome_report_def base_fields)

lemma count_value: "counts least v \<Longrightarrow> py_eq v (JInt n) \<Longrightarrow> number_value v = Some (of_int n)"
  by (cases v) (auto simp: counts_def number_value_def float_eq_def)

lemma geometry_value:
  assumes "geometry_ok kind v" and "kind = ''static'' \<or> kind = ''materials''" and "outcome_report kind input v"
  shows "number_value (field ''triangles'' v) = Some (fst (shape_of kind)) \<and>
    number_value (field ''material_slots'' v) = Some (snd (shape_of kind))"
proof -
  from assms(2,3) have c: "counts 1 (field ''triangles'' v)"
      "counts (if kind = ''materials'' then 2 else 1) (field ''material_slots'' v)"
    by (simp_all only: outcome_report_def simp_thms)
  have num: "py_eq (field ''triangles'' v) (JInt n) \<Longrightarrow> number_value (field ''triangles'' v) = Some (of_int n)"
    "py_eq (field ''material_slots'' v) (JInt n) \<Longrightarrow> number_value (field ''material_slots'' v) = Some (of_int n)" for n
    by (rule count_value [OF c(1)], assumption) (rule count_value [OF c(2)], assumption)
  from assms(2) show ?thesis
  proof
    assume "kind = ''static''"
    with assms(1) num(1) [of 12] num(2) [of 6] show ?thesis
      by (simp add: geometry_ok_def expected_geometry_def shape_of_def)
  next
    assume "kind = ''materials''"
    with assms(1) num(1) [of 960] num(2) [of 4] show ?thesis
      by (simp add: geometry_ok_def expected_geometry_def shape_of_def)
  qed
qed

lemma ufbx_kind_Inr:
  assumes "check_ufbx_kind kind v = Inr ()" and "outcome_report kind input v"
  shows "(kind = ''self-test'' \<longrightarrow> counts 32 (field ''self_tests'' v) \<and> covers_orientations v) \<and>
     (kind = ''static'' \<or> kind = ''materials'' \<longrightarrow>
        number_value (field ''triangles'' v) = Some (fst (shape_of kind)) \<and>
        number_value (field ''material_slots'' v) = Some (snd (shape_of kind)))"
proof (cases "kind = ''self-test''")
  case True
  with assms(1) have "check_count v ''self_tests'' min_self_tests = Inr ()" "check_coordinates v = Inr ()"
    by (auto simp: check_ufbx_kind_def)
  with True check_count_Inr [of v "''self_tests''" 32] check_coordinates_covers show ?thesis
    by (simp add: min_self_tests_def)
next
  case False
  show ?thesis
  proof (cases "kind = ''static'' \<or> kind = ''materials''")
    case True
    with False assms(1) have "geometry_ok kind v" by (auto simp: check_ufbx_kind_def)
    from geometry_value [OF this True assms(2)] False show ?thesis by simp
  qed (use False in simp)
qed

lemma evaluate_ufbx_Inr:
  assumes "evaluate_ufbx v n kind input = Inr w"
  shows "n = exit_of kind \<and> w = v \<and> ufbx_report kind input v"
proof -
  from assms obtain u y where obj: "is_obj v" and fs: "\<forall>x\<in>set ufbx_fields. exact_field v x = Inr ()"
    and base: "evaluate_report (base_identity v) n kind input = Inr u" and "check_ufbx_kind kind v = Inr y" and w: "w = v"
    unfolding evaluate_ufbx_def req_Inr bind_result_Inr_iff each_Inr_iff by blast
  then have own: "check_ufbx_kind kind v = Inr ()" by simp
  from evaluate_report_Inr [OF base] have "n = exit_of kind" and outcome: "outcome_report kind input v"
    by (simp_all add: mesh_report_def base_outcome)
  moreover from fs have "field ''stage'' v = JStr ufbx_bridge_stage" "field ''scope'' v = JStr ufbx_bridge_scope"
      "field ''backend'' v = JStr ''ufbx''" "field ''coordinate_policy'' v = JStr ufbx_coordinate_policy"
      "field ''equivalence_to_assimp'' v = JStr ''not asserted; front-vs-forward policies differ''"
    by (simp_all add: ufbx_fields_def exact_field_def)
  ultimately show ?thesis using obj w ufbx_kind_Inr [OF own outcome]
    by (simp add: ufbx_report_def ufbx_bridge_stage_def ufbx_bridge_scope_def ufbx_coordinate_policy_def)
qed

section \<open>Runs\<close>

interpretation ufbx: evaluator evaluate_ufbx ufbx_report
  by unfold_locales (use evaluate_ufbx_Inr in blast)

lemma judge_ufbx_verdict: "judge_ufbx = verdict_of evaluate_ufbx"
  by (simp add: judge_ufbx_def verdict_of_def fun_eq_iff)

definition ufbx_cases :: "bridge_host \<Rightarrow> ufbx_paths \<Rightarrow> case_setup" where
  "ufbx_cases bh ps =
     \<lparr>cs_host = bh, cs_argv = ufbx_argv (up_program ps), cs_report = ufbx_report, cs_work = up_work ps,
      cs_input = ufbx_input ps\<rparr>"

lemma ufbx_simps: "cs_host (ufbx_cases bh ps) = bh" "cs_input (ufbx_cases bh ps) = ufbx_input ps"
  by (simp_all add: ufbx_cases_def)

lemma invoke_ufbx_returns:
  assumes "invoke_ufbx bh tm (up_program ps) (up_work ps) name kind input s = (Inr r, u)" and pass: "cr_status r = ''PASS''"
  shows "ended_well (ufbx_cases bh ps) name kind input r u"
proof -
  let ?dir = "up_work ps @ [name @ ''-'' @ bh_temp bh name]"
  let ?argv = "ufbx_argv (up_program ps) input (?dir @ [''raw.json''])"
  let ?I = "reported bh (ufbx_report kind (map_option path_text input)) ?argv ?dir (exit_of kind)"
  from assms(1) obtain q v w where out: "ufbx_outcome bh tm (up_program ps) name kind input ?dir v = (Inr q, w)"
    and r: "r = (mark_passed q)\<lparr>cr_seconds := JFloat (bh_seconds bh name)\<rparr>"
    and last: "br_update (\<lambda>f. write_json f (?dir @ [''result.json'']) (ufbx_result_json r)) w = (Inr (), u)"
    by (auto simp: invoke_ufbx_def Let_def then_do_Inr and_then_Inr)
  note q = ufbx.outcome_returns [OF out [unfolded ufbx_outcome_def judge_ufbx_verdict]]
  with pass have clean: "cr_errors q = []" by (auto simp: r mark_passed_def split: if_splits)
  with q have w: "cr_returncode q = Some (exit_of kind)" "?I w" by blast+
  from w(2) have "?I u" by (rule steady_step [OF reported.steady_update last])
  with clean w(1) show ?thesis by (simp add: r mark_passed_def ended_well_def ufbx_cases_def case_dir_def)
qed

context kept
begin

lemma steady_invoke_ufbx:
  assumes "\<And>argv out. steady I (run_probe bh argv out)"
  shows "steady I (invoke_ufbx bh t program work name kind input)"
  unfolding invoke_ufbx_def ufbx_outcome_def Let_def by (intro steady_intros assms) auto

lemma steady_verify_before: "steady I (verify_before bh a ps m e)"
  unfolding verify_before_def by (intro steady_intros) auto

lemma steady_ufbx_preflight: "steady I (ufbx_preflight bh a ps)"
proof -
  have "steady I (check_build bh a ps)"
    unfolding check_build_def cite_inputs_def
    by (auto split: prod.split intro!: steady_intros steady_put simp: untouched_def)
  moreover have "steady I (check_prerequisites bh ps m)" for m
    unfolding check_prerequisites_def by (intro steady_intros) auto
  moreover have "steady I (check_ufbx_fixture bh ps b n)" for b n
    unfolding check_ufbx_fixture_def Let_def by (intro steady_intros) auto
  moreover have "steady I (make_ufbx_truncated ps)"
    unfolding make_ufbx_truncated_def by (intro steady_intros) auto
  ultimately show ?thesis
    unfolding ufbx_preflight_def by (auto split: prod.split intro!: steady_intros)
qed

lemma steady_ufbx_prologue: "steady I (ufbx_prologue bh a ps)"
  unfolding ufbx_prologue_def
  by (intro steady_intros steady_put steady_ufbx_preflight) (auto simp: untouched_def)

end

lemma ufbx_probing:
  "probing (ufbx_cases bh ps) (verify_before bh a ps m e) (invoke_ufbx bh (ub_timeout a) (up_program ps) (up_work ps))"
  by unfold_locales
    (auto simp: ufbx_simps intro: kept.steady_verify_before kept.steady_invoke_ufbx invoke_ufbx_returns)

interpretation ufbx_loop: probing "ufbx_cases bh ps" "verify_before bh a ps m e"
    "invoke_ufbx bh (ub_timeout a) (up_program ps) (up_work ps)"
    "\<lambda>name. probe_files name (up_work ps @ [name @ ''-'' @ bh_temp bh name])"
  for bh a ps m e
  by (rule ufbx_probing)

lemma sound_ufbx_all: "steady (results_sound (ufbx_cases bh ps)) (run_ufbx_all bh a ps d)"
  unfolding run_ufbx_all_def run_ufbx_cases_def
  by (intro steady_intros)
    (auto intro: ufbx_loop.sound_guarded [unfolded ufbx_simps, simplified] split: option.split prod.split)

lemma run_ufbx_clean:
  assumes "run_ufbx_in bh a ps s = (Inr report, t)" and "results_sound (ufbx_cases bh ps) s"
  shows "field ''status'' report = JStr ''FAIL'' \<or> clean_run (ufbx_cases bh ps) t"
proof -
  from assms(1) obtain d u v x where pro: "ufbx_prologue bh a ps s = (Inr d, u)"
    and run: "run_ufbx_all bh a ps d u = (Inr x, v)"
    and fin: "finish_run bh ufbx_not_run (up_run ps) (up_work ps) (report_args ufbx_bridge_stage ufbx_bridge_scope
         ([bh_python bh, path_text (bh_script bh)] @ ub_argv a) (ufbx_prerequisites ps)) v = (Inr report, t)"
    by (auto simp: run_ufbx_in_def and_then_Inr then_do_Inr)
  have "results_sound (ufbx_cases bh ps) u"
    by (rule steady_step [OF sound.steady_ufbx_prologue pro assms(2)])
  then have "results_sound (ufbx_cases bh ps) v" by (rule steady_step [OF sound_ufbx_all run])
  with fin show ?thesis by (rule finish_clean)
qed

text \<open>C15: a report of the ufbx bridge that is not a FAIL was written after a run without a preflight error in which,
  for each of the six cases, a probe was started with the command of the case, ended with the exit code of the case,
  and left in the directory of the case a report with the ufbx backend and identity and the input, the status, the
  error, the counts, the bounds, the geometry and the orientations that the kind of the case asks for.\<close>

theorem passed_ufbx_ran_every_case:
  "case run_ufbx bh a limit f of (r, s) \<Rightarrow>
     (case r of
        Inl e \<Rightarrow> True
      | Inr report \<Rightarrow>
          field ''status'' report = JStr ''FAIL'' \<or>
          (\<exists>rs. resolve_inputs bh f a = Inr rs \<and> clean_run (ufbx_cases bh (ufbx_paths_of bh rs)) s))"
proof -
  have start: "results_sound cs (start_bridge limit g)" for cs g
    by (simp add: results_sound_def start_bridge_def)
  show ?thesis
    using run_ufbx_clean [OF _ start]
    by (fastforce simp: run_ufbx_def Let_def split: sum.splits prod.split)
qed

text \<open>C20: an accepted self-test report of the ufbx backend holds exactly four fixtures, and for each direction of
  the front axis with and without a mirrored instance exactly one of them declares this orientation and has the
  winding and coordinates that the UE policy asks for in it.\<close>

theorem self_test_covers_every_orientation:
  "case evaluate_ufbx report rc ''self-test'' input of
     Inl e \<Rightarrow> True
   | Inr v \<Rightarrow>
       rc = 0 \<and> length (list_items (field ''coordinate_checks'' report)) = 4 \<and>
       list_all
         (\<lambda>key. length (filter (\<lambda>item. orientation_ok item key) (list_items (field ''coordinate_checks'' report))) = 1)
         orientations"
proof (cases "evaluate_ufbx report rc ''self-test'' input")
  case (Inr v)
  from evaluate_ufbx_Inr [OF Inr] have "rc = 0" "covers_orientations report"
    by (simp_all add: ufbx_report_def exit_of_def rejected_def)
  with Inr show ?thesis by (simp add: covers_orientations_def Let_def)
qed simp

end
