(* ===== verification/WorkerStage.thy ===== *)
theory WorkerStage
  imports NativeRun ParserDeployment WorkerDeployment
begin

text \<open>
  \<open>check_ue_worker.py\<close>: the evaluator of the native InterchangeWorker test. Besides the checks of the test
  it compares the processes, the protocol version and the outputs it reports, demands that the negative
  scenarios left no assets, and compares the deployed sources of parser and worker.
\<close>

definition worker_stage :: string where "worker_stage = ''ue-ufbx-worker-static''"

definition worker_scope :: string where
  "worker_scope =
     ''Real InterchangeWorker static ufbx over UE command-queue TCP; not production WorkerHandler, full FBX, Editor or Cook''"

definition worker_expected :: expected_checks where
  "worker_expected =
     [(''valid Worker handshake'', 1), (''IPC load and graph readback'', 1), (''IPC mesh consumer readback'', 6),
      (''queued requests preserve task and error isolation'', 3), (''malformed task explicitly fails'', 1),
      (''unknown translator explicitly fails'', 1), (''unsupported animation task explicitly fails'', 1),
      (''unsupported conversion task explicitly fails'', 1), (''failed reload cannot serve old payload'', 1),
      (''Worker reload recovers after failure'', 1), (''payload recovers after failed tasks'', 1),
      (''normal Terminate exits zero without kill'', 1), (''bad version returns protocol error and nonzero exit'', 2),
      (''lost peer exits nonzero within deadline'', 1), (''connection failure exits nonzero'', 1)]"

section \<open>The native report\<close>

definition worker_identity :: "host \<Rightarrow> fs \<Rightarrow> json \<Rightarrow> path \<Rightarrow> string \<Rightarrow> unit result" where
  "worker_identity h f data fixture worker =
     bind_result (check_identity h f worker_stage worker_scope data fixture
       ''Worker stage/source/program identity or status mismatch'') (\<lambda>_.
       require (field ''worker'' data = JStr (pure_path_text worker))
         ''Worker stage/source/program identity or status mismatch'')"

definition child_pid :: "int \<Rightarrow> json \<Rightarrow> bool" where
  "child_pid upper pid \<longleftrightarrow> is_int pid \<and> 0 < int_of pid \<and> int_of pid \<noteq> upper"

definition check_pids :: "json \<Rightarrow> unit result" where
  "check_pids data =
     (let pids = field ''worker_pids'' data; upper = field ''parent_pid'' data in
      require (is_list pids \<and> length (list_items pids) = 5 \<and> is_int upper \<and> 0 < int_of upper \<and>
          list_all (child_pid (int_of upper)) (list_items pids) \<and> distinct (list_items pids))
        ''expected five distinct Worker child processes'')"

definition version_digits :: "string \<Rightarrow> bool" where
  "version_digits s \<longleftrightarrow> s \<noteq> [] \<and> list_all is_digit s"

definition protocol_version :: "string \<Rightarrow> bool" where
  "protocol_version s \<longleftrightarrow>
     (case split_on (CHR ''.'') s of
        [a, b, c, d] \<Rightarrow> version_digits a \<and> version_digits b \<and> version_digits c \<and> (d = ''0'' \<or> d = ''1'')
      | _ \<Rightarrow> False)"

definition check_version :: "json \<Rightarrow> unit result" where
  "check_version data =
     (let v = field ''protocol_version'' data in
      require (is_str v \<and> protocol_version (str_of v)) ''invalid observed protocol version'')"

definition negative_scenarios :: "string list" where
  "negative_scenarios = [''version-0'', ''version-1'', ''disconnect'', ''no-server'']"

definition no_assets :: "checker_host \<Rightarrow> fs \<Rightarrow> path \<Rightarrow> string \<Rightarrow> unit result" where
  "no_assets ch f base name =
     require (list_all (\<lambda>p. suffix_of (base_name p) \<notin> {''.itc'', ''.payload''})
         (ch_below ch f (base @ [''outputs'', name])))
       ''negative Worker scenario produced assets''"

definition validate_native ::
  "checker_host \<Rightarrow> fs \<Rightarrow> json \<Rightarrow> path \<Rightarrow> path \<Rightarrow> string \<Rightarrow> path list result"
where
  "validate_native ch f data base fixture worker =
     bind_result (worker_identity (ch_host ch) f data fixture worker) (\<lambda>_.
     bind_result (check_names worker_expected data ''incomplete Worker protocol checks'') (\<lambda>_.
     bind_result (check_pids data) (\<lambda>_.
     bind_result (check_version data) (\<lambda>_.
     bind_result (check_outputs f base (base @ [''outputs'', ''valid'']) (field ''files'' data) 2 6
         ''expected eight Worker graph/payload outputs'' ''missing or unsafe Worker output''
         ''symlink output directory'' ''incorrect or duplicate Worker output types'') (\<lambda>ps.
     bind_result (each (no_assets ch f base) negative_scenarios) (\<lambda>_. Inr ps))))))"

section \<open>The deployed sources\<close>

text \<open>\<open>set(v)\<close> takes any iterable of hashable values; \<open>v.items()\<close> only a dictionary.\<close>

definition hashable :: "json \<Rightarrow> bool" where
  "hashable v \<longleftrightarrow> \<not> is_obj v \<and> \<not> is_list v"

definition as_set :: "json \<Rightarrow> json list result" where
  "as_set v =
     (case v of
        JObj d \<Rightarrow> Inr (map (\<lambda>(k, _). JStr k) d)
      | JList xs \<Rightarrow> if list_all hashable xs then Inr xs else Inl (TypeError ''unhashable type'')
      | JStr s \<Rightarrow> Inr (map (\<lambda>c. JStr [c]) s)
      | _ \<Rightarrow> Inl (TypeError ''object is not iterable''))"

definition dict_items :: "json \<Rightarrow> (string \<times> json) list result" where
  "dict_items v = (if is_obj v then Inr (obj_items v) else Inl (no_attribute ''items''))"

definition check_record :: "json \<Rightarrow> string \<Rightarrow> string list \<Rightarrow> unit result" where
  "check_record d kind expected =
     req (is_obj d \<and> field ''kind'' d = JStr kind) ''invalid Worker/parser source deployment''
     (bind_result (as_set (field_or ''engine_files'' (JObj []) d)) (\<lambda>keys.
       require (same_set keys (map JStr expected)) ''invalid Worker/parser source deployment''))"

definition digest_is :: "host \<Rightarrow> fs \<Rightarrow> path \<Rightarrow> json \<Rightarrow> bool result" where
  "digest_is h f p d = bind_result (sha256_file h f p) (\<lambda>x. Inr (d = JStr x))"

definition retained_source :: "host \<Rightarrow> fs \<Rightarrow> path \<Rightarrow> path \<Rightarrow> string \<times> json \<Rightarrow> path result" where
  "retained_source h f ue folder item =
     (case item of (relative, d) \<Rightarrow>
       let retained = join_path (folder @ [''after'']) relative in
       bind_result (all_result (\<lambda>p. digest_is h f p d) [join_path ue relative, retained]) (\<lambda>ok.
         req ok ''deployed/retained source hash mismatch'' (Inr retained)))"

definition deployment ::
  "checker_host \<Rightarrow> path \<Rightarrow> path \<Rightarrow> string \<Rightarrow> string \<Rightarrow> string list \<Rightarrow> unit ck"
where
  "deployment ch base ue name kind expected =
     and_then (with_files (deployed_folder (ch_host ch) base name)) (\<lambda>folder.
     and_then (with_files (\<lambda>f. read_json f (folder @ [''deployment.json'']))) (\<lambda>d.
     then_do (lift (check_record d kind expected))
     (and_then (lift (dict_items (field ''engine_files'' d))) (\<lambda>items.
      then_do (do_each (\<lambda>item. and_then (with_files (\<lambda>f. retained_source (ch_host ch) f ue folder item))
          (cite (name @ ''.'' @ fst item))) items)
      (then_do (cite (name @ ''.deployment'') (folder @ [''deployment.json'']))
      (cite (name @ ''.patch'') (folder @ [''changes.patch''])))))))"

definition worker_files :: "string list" where
  "worker_files = map (\<lambda>p. relative_text (worker_module @ p))
     [[''InterchangeWorker.Build.cs''], [''Private'', ''InterchangeWorker.cpp''],
      [''Private'', ''InterchangeWorkerImpl.cpp''], [''Private'', ''InterchangeWorkerStatic.cpp'']]"

definition deployment_section :: "checker_host \<Rightarrow> path \<Rightarrow> native_args \<Rightarrow> unit ck" where
  "deployment_section ch base a =
     (let ue = absolute (ch_host ch) (na_ue_root a) in
      then_do (deployment ch base ue ''prepare-dir.txt'' parser_kind deployed_sources)
      (then_do (deployment ch base ue ''worker-prepare-dir.txt'' worker_kind worker_files)
      (pass ''deployment'')))"

section \<open>The run\<close>

definition worker_checks :: "string list" where
  "worker_checks = [''build'', ''architecture'', ''native'', ''outputs'', ''deployment'', ''prerequisite'']"

definition both_elf :: "fs \<Rightarrow> path \<Rightarrow> path \<Rightarrow> unit result" where
  "both_elf f program worker =
     bind_result (all_result (native_elf f) [program, worker]) (\<lambda>ok. require ok ''Worker and peer must be ARM64 ELF'')"

definition check_logs :: "path \<Rightarrow> fs \<Rightarrow> unit result" where
  "check_logs base f =
     req (is_file f (base @ [''worker-build.log'']) \<and> is_file f (base @ [''build.log'']))
       ''missing Worker or peer build log''
     (bind_result (read_text f (base @ [''worker-linkage.log''])) (\<lambda>t.
       require (\<not> bad_linkage t) ''Worker linkage is invalid''))"

definition worker_section :: "checker_host \<Rightarrow> native_args \<Rightarrow> string \<Rightarrow> path \<Rightarrow> unit ck" where
  "worker_section ch a worker base =
     then_do (check_exit ''Worker probe exit='' (na_exit_code a))
     (then_do (with_files (\<lambda>f. both_elf f (program_of ch a) (absolute (ch_host ch) worker)))
     (then_do (pass ''architecture'')
     (then_do (with_files (check_logs base))
     (then_do (pass ''build'')
     (and_then (with_files (\<lambda>f. read_json f (base @ [''native.json'']))) (\<lambda>data.
      and_then (with_files (\<lambda>f. validate_native ch f data base (fixture_of ch a) worker)) (\<lambda>files.
      then_do (cite_outputs files) (then_do (pass ''native'') (pass ''outputs'')))))))))"

definition cite_logs :: "checker_host \<Rightarrow> path \<Rightarrow> unit ck" where
  "cite_logs ch base =
     and_then (get_state ck_files) (\<lambda>f.
       cite_all (map (\<lambda>p. (''log.'' @ relative_text (drop (length base) p), p))
         (with_ending ''.log'' (ch_below ch f (base @ [''outputs''])))))"

definition cite_programs :: "checker_host \<Rightarrow> native_args \<Rightarrow> string \<Rightarrow> unit ck" where
  "cite_programs ch a worker =
     cite_present [(''peer'', program_of ch a), (''worker'', absolute (ch_host ch) worker),
       (''fixture'', fixture_of ch a), (''evaluator'', ch_script ch)]"

definition run_in :: "checker_host \<Rightarrow> native_args \<Rightarrow> string \<Rightarrow> path \<Rightarrow> json ck" where
  "run_in ch a worker base =
     (let report = base @ [''stage-report.json''] in
      then_do (guarded_section section_errors (worker_section ch a worker base))
      (then_do (guarded_section section_errors (deployment_section ch base a))
      (then_do (ufbx_prerequisite ch (na_ufbx_report a))
      (then_do (write_diagnostic (base @ [''worker-diagnostic.json'']) ''probe_exit_code'' (na_exit_code a))
      (then_do (cite_run_files base report (\<lambda>f. children ch f base))
      (then_do (cite_logs ch base)
      (then_do (cite_programs ch a worker)
      (and_then (with_files (\<lambda>f. revision_of f (base @ [''ue-commit.txt'']))) (\<lambda>revision.
      (and_then (checker_report ch report (\<lambda>s.
         checker_args worker_stage worker_scope
           (native_command a [''-native-worker-test'', ''-worker='' @ pure_path_text worker])
           (strict_code s) [ue_source (na_ue_root a) revision] s))
       (confirmed ch report worker_stage worker_scope)))))))))))"

definition run :: "checker_host \<Rightarrow> fs \<Rightarrow> native_args \<Rightarrow> string \<Rightarrow> json result \<times> fs" where
  "run ch f a worker =
     run_opened worker_checks (run_in ch a worker) f
       (open_run ch f (na_run_dir a) make_all vacant ''refusing to overwrite Worker stage'')"

definition main :: "checker_host \<Rightarrow> fs \<Rightarrow> native_args \<Rightarrow> string \<Rightarrow> int result" where
  "main ch f a worker = bind_result (fst (run ch f a worker)) (\<lambda>report. Inr (exit_status report))"

end
