(* ===== verification/WorldWait.thy ===== *)
theory WorldWait
  imports Simulator JsonForms
begin

text \<open>
  \<open>wait_carla_world.py\<close>: attempts to reach a CARLA world until one succeeds, the deadline passes or the
  server process is gone. The clock, the pause and the liveness test of the process belong to the
  environment; nothing in the code bounds the number of attempts, so the loop is a partial function,
  whose value \<open>None\<close> is a loop that never ends.
\<close>

record 'w wait_env =
  wt_clock :: "('w, pyfloat) effect"
  wt_alive :: "('w, bool) effect"
  wt_pause :: "pyfloat \<Rightarrow> ('w, unit) effect"

record wait_args =
  wr_host :: json
  wr_port :: json
  wr_suffix :: string
  wr_seconds :: int

definition wait_scope :: string where
  "wait_scope = ''RPC world readiness only; not rendering, sensors or shutdown''"

definition float_min :: "pyfloat \<Rightarrow> pyfloat \<Rightarrow> pyfloat" where
  "float_min x y = (if float_less y x then y else x)"

definition remaining :: "'w wait_env \<Rightarrow> pyfloat \<Rightarrow> ('w, pyfloat) effect" where
  "remaining env deadline = and_then (wt_clock env) (\<lambda>t. ret (float_sub deadline t))"

definition call_timeout :: "pyfloat \<Rightarrow> json" where
  "call_timeout left = JFloat (float_min (Fin 2) (float_max (decimal 1 10) left))"

definition pause_time :: "pyfloat \<Rightarrow> pyfloat" where
  "pause_time left = float_min (Fin 1) (float_max (Fin 0) left)"

text \<open>\<open>name.rsplit("/", 1)[-1]\<close>.\<close>

fun after_slash :: "string \<Rightarrow> string" where
  "after_slash [] = []"
| "after_slash (c # s) = (if CHR ''/'' \<in> set s then after_slash s else if c = CHR ''/'' then s else c # s)"

definition world_report :: "int \<Rightarrow> json \<Rightarrow> json \<Rightarrow> json \<Rightarrow> json" where
  "world_report n versions name snap =
     JObj [(''status'', JStr ''PASS''), (''attempts'', JInt n), (''versions'', versions), (''map'', name),
       (''snapshot'', snap), (''scope'', JStr wait_scope)]"

definition failed_report :: "int \<Rightarrow> string option \<Rightarrow> json" where
  "failed_report n err =
     JObj [(''status'', JStr ''FAIL''), (''attempts'', JInt n),
       (''error'', case err of None \<Rightarrow> JNull | Some m \<Rightarrow> JStr m), (''scope'', JStr wait_scope)]"

text \<open>One pass through the body of the \<open>try\<close> block.\<close>

definition reach_world ::
  "'w wait_env \<Rightarrow> 'w carla_api \<Rightarrow> wait_args \<Rightarrow> pyfloat \<Rightarrow> int \<Rightarrow> ('w, json) effect"
where
  "reach_world env api a deadline n =
     then_do (api_connect api (wr_host a) (wr_port a))
     (and_then (remaining env deadline) (\<lambda>left.
      then_do (api_set_timeout api (call_timeout left))
      (and_then (api_client_version api) (\<lambda>client.
       and_then (api_server_version api) (\<lambda>server.
       and_then (lift (validate_versions client server)) (\<lambda>versions.
       then_do (api_get_world api)
       (and_then (api_map_name api) (\<lambda>name.
        then_do (check (is_str name \<and> after_slash (str_of name) = wr_suffix a)
          (''unexpected world map: '' @ repr_json name))
        (and_then (api_snapshot api) (\<lambda>s.
         and_then (lift (validate_snapshot s None JNull)) (\<lambda>snap.
         ret (world_report n versions name snap))))))))))))"

definition retried :: "py_error \<Rightarrow> bool" where
  "retried e \<longleftrightarrow> (case e of RuntimeError _ \<Rightarrow> True | ValueError _ \<Rightarrow> True | RecursionError _ \<Rightarrow> True | _ \<Rightarrow> False)"

definition goes_on :: "'w wait_env \<Rightarrow> pyfloat \<Rightarrow> ('w, bool) effect" where
  "goes_on env deadline =
     and_then (wt_clock env) (\<lambda>t. if float_less t deadline then wt_alive env else ret False)"

definition rest :: "'w wait_env \<Rightarrow> pyfloat \<Rightarrow> ('w, unit) effect" where
  "rest env deadline = and_then (remaining env deadline) (\<lambda>left. wt_pause env (pause_time left))"

partial_function (option) wait_loop ::
  "'w wait_env \<Rightarrow> 'w carla_api \<Rightarrow> wait_args \<Rightarrow> pyfloat \<Rightarrow> int \<Rightarrow> string option \<Rightarrow> 'w \<Rightarrow> (json result \<times> 'w) option"
where
  "wait_loop env api a deadline n err w =
     (case goes_on env deadline w of
        (Inl e, w1) \<Rightarrow> Some (Inl e, w1)
      | (Inr on, w1) \<Rightarrow>
          if \<not> on then Some (Inr (failed_report n err), w1)
          else
            (case reach_world env api a deadline (n + 1) w1 of
               (Inr report, w2) \<Rightarrow> Some (Inr report, w2)
             | (Inl e, w2) \<Rightarrow>
                 if \<not> retried e then Some (Inl e, w2)
                 else
                   (case rest env deadline w2 of
                      (Inl e', w3) \<Rightarrow> Some (Inl e', w3)
                    | (Inr u, w3) \<Rightarrow> wait_loop env api a deadline (n + 1) (Some (error_text e)) w3)))"

definition wait :: "'w wait_env \<Rightarrow> 'w carla_api \<Rightarrow> wait_args \<Rightarrow> 'w \<Rightarrow> (json result \<times> 'w) option" where
  "wait env api a w =
     (case wt_clock env w of
        (Inl e, w1) \<Rightarrow> Some (Inl e, w1)
      | (Inr t, w1) \<Rightarrow> wait_loop env api a (float_add t (float_of_int (wr_seconds a))) 0 None w1)"

text \<open>\<open>main\<close> after the limits of the arguments are checked: the exit code and the file written.\<close>

definition limits_ok :: "int \<Rightarrow> int \<Rightarrow> int \<Rightarrow> bool" where
  "limits_ok port seconds pid \<longleftrightarrow>
     1024 \<le> port \<and> port \<le> 65532 \<and> 1 \<le> seconds \<and> seconds \<le> 300 \<and> 0 < pid"

definition finish :: "fs \<Rightarrow> path \<Rightarrow> json \<Rightarrow> (int \<times> fs) result" where
  "finish f output report =
     bind_result (write_text_file f output (indented False report)) (\<lambda>f'.
       Inr (if field ''status'' report = JStr ''PASS'' then 0 else 3, f'))"

definition main ::
  "'w wait_env \<Rightarrow> 'w carla_api \<Rightarrow> string \<Rightarrow> int \<Rightarrow> string \<Rightarrow> int \<Rightarrow> int \<Rightarrow> fs \<Rightarrow> path \<Rightarrow> 'w \<Rightarrow> (int \<times> fs) result option"
where
  "main env api host port suffix seconds pid f output w =
     (if \<not> limits_ok port seconds pid then Some (Inl (SystemExit ''invalid readiness limits or server PID''))
      else
        map_option (\<lambda>(r, w'). bind_result r (finish f output))
          (wait env api \<lparr>wr_host = JStr host, wr_port = JInt port, wr_suffix = suffix, wr_seconds = seconds\<rparr> w))"

end
