(* ===== verification/WorldWaitFacts.thy ===== *)
theory WorldWaitFacts
  imports WorldWait
begin

text \<open>
  The wait ends when the clock runs out, after at most as many attempts as pauses are left; and a report
  other than FAIL describes a world of the wanted map that was seen.
\<close>

section \<open>The loop ends\<close>

text \<open>
  A clock that runs out: \<open>\<mu>\<close> bounds the number of pauses still possible before the reading reaches the
  deadline; calls do not set it back and every pause lowers it.
\<close>

definition runs_out ::
  "('w \<Rightarrow> nat) \<Rightarrow> 'w wait_env \<Rightarrow> 'w carla_api \<Rightarrow> wait_args \<Rightarrow> pyfloat \<Rightarrow> bool"
where
  "runs_out \<mu> env api a deadline \<longleftrightarrow>
     (\<forall>w r w1. goes_on env deadline w = (r, w1) \<longrightarrow> \<mu> w1 \<le> \<mu> w \<and> (\<mu> w = 0 \<longrightarrow> r \<noteq> Inr True)) \<and>
     (\<forall>w n r w1. reach_world env api a deadline n w = (r, w1) \<longrightarrow> \<mu> w1 \<le> \<mu> w) \<and>
     (\<forall>w w1. rest env deadline w = (Inr (), w1) \<longrightarrow> \<mu> w1 < \<mu> w \<or> \<mu> w1 = 0)"

definition attempts :: "json \<Rightarrow> int" where
  "attempts report = int_of (field ''attempts'' report)"

definition attempts_within :: "int \<Rightarrow> int \<Rightarrow> json result \<Rightarrow> bool" where
  "attempts_within lo hi r \<longleftrightarrow> (case r of Inr report \<Rightarrow> lo \<le> attempts report \<and> attempts report \<le> hi | Inl e \<Rightarrow> True)"

lemma report_attempts [simp]:
  "attempts (failed_report n err) = n" "attempts (world_report n versions name s) = n"
  by (simp_all add: attempts_def failed_report_def world_report_def)

lemma reach_world_report:
  "reach_world env api a deadline n w = (Inr report, w') \<Longrightarrow> \<exists>versions name s. report = world_report n versions name s"
  unfolding reach_world_def then_do_def
  by (auto simp: and_then_run split: prod.splits sum.splits if_splits)

lemma within_weaken: "attempts_within lo hi r \<Longrightarrow> lo' \<le> lo \<Longrightarrow> hi \<le> hi' \<Longrightarrow> attempts_within lo' hi' r"
  by (auto simp: attempts_within_def split: sum.splits)

lemma loop_ends:
  assumes "runs_out \<mu> env api a deadline"
  shows "\<exists>r w'. wait_loop env api a deadline n err w = Some (r, w') \<and> attempts_within n (n + int (\<mu> w)) r"
proof (induction "\<mu> w" arbitrary: w n err rule: less_induct)
  case less
  note step = wait_loop.simps [of env api a deadline]
  obtain r w1 where go: "goes_on env deadline w = (r, w1)" by fastforce
  obtain q w2 where reach: "reach_world env api a deadline (n + 1) w1 = (q, w2)" by fastforce
  obtain s w3 where slept: "rest env deadline w2 = (s, w3)" by fastforce
  have go1: "\<mu> w1 \<le> \<mu> w" "\<mu> w = 0 \<Longrightarrow> r \<noteq> Inr True" using assms go by (auto simp: runs_out_def)
  have reach1: "\<mu> w2 \<le> \<mu> w1"
    using assms reach by (simp add: runs_out_def)
  have "\<forall>w w1. rest env deadline w = (Inr (), w1) \<longrightarrow> \<mu> w1 < \<mu> w \<or> \<mu> w1 = 0"
    using assms unfolding runs_out_def by (elim conjE)
  then have slept1: "s = Inr () \<Longrightarrow> \<mu> w3 < \<mu> w2 \<or> \<mu> w3 = 0" using slept by auto
  show ?case
  proof (cases "r = Inr True \<and> (\<exists>e. q = Inl e \<and> retried e) \<and> s = Inr ()")
    case False
    show ?thesis
    proof (cases r)
      case (Inl e)
      with go show ?thesis by (simp add: step [of n err w] attempts_within_def)
    next
      case (Inr on)
      show ?thesis
      proof (cases on)
        case False
        with Inr go show ?thesis by (simp add: step [of n err w] attempts_within_def)
      next
        case True
        with Inr go1(2) have pos: "0 < \<mu> w" by (cases "\<mu> w") auto
        show ?thesis
        proof (cases q)
          case (Inr report)
          with reach obtain versions name x where "report = world_report (n + 1) versions name x"
            using reach_world_report [of env api a deadline "n + 1" w1 report w2] by auto
          with \<open>r = Inr on\<close> True Inr go reach pos show ?thesis by (simp add: step [of n err w] attempts_within_def)
        next
          case (Inl e)
          with False \<open>r = Inr on\<close> True have "\<not> retried e \<or> (\<exists>e'. s = Inl e')" by (cases s) auto
          with \<open>r = Inr on\<close> True Inl go reach slept show ?thesis
            by (auto simp: step [of n err w] attempts_within_def)
        qed
      qed
    qed
  next
    case True
    then have "\<mu> w \<noteq> 0" using go1(2) by blast
    then have "\<mu> w3 < \<mu> w" using True slept1 go1(1) reach1 by linarith
    from True obtain e where e: "q = Inl e" "retried e" by blast
    from less [OF \<open>\<mu> w3 < \<mu> w\<close>, of "n + 1" "Some (error_text e)"] obtain r' w' where
      again: "wait_loop env api a deadline (n + 1) (Some (error_text e)) w3 = Some (r', w')"
      and ih: "attempts_within (n + 1) (n + 1 + int (\<mu> w3)) r'" by blast
    have "attempts_within n (n + int (\<mu> w)) r'"
      by (rule within_weaken [OF ih]) (use \<open>\<mu> w3 < \<mu> w\<close> in simp_all)
    moreover have "wait_loop env api a deadline n err w = Some (r', w')"
      using True e go reach slept again by (simp add: step [of n err w])
    ultimately show ?thesis by blast
  qed
qed

section \<open>What a PASS says\<close>

definition ready :: "wait_args \<Rightarrow> json \<Rightarrow> bool" where
  "ready a report \<longleftrightarrow>
     (\<exists>name versions s. field ''map'' report = JStr name \<and> after_slash name = wr_suffix a \<and>
        field ''versions'' report = versions \<and> field ''client'' versions = field ''server'' versions \<and>
        validate_snapshot s None JNull = Inr (field ''snapshot'' report))"

lemma reach_world_ready:
  "reach_world env api a deadline n w = (Inr report, w') \<Longrightarrow> ready a report"
  unfolding reach_world_def then_do_def ready_def
  by (auto simp: and_then_run validate_versions_def world_report_def is_str_iff split: prod.splits sum.splits if_splits)

definition settled_report :: "wait_args \<Rightarrow> json result \<times> 'w \<Rightarrow> bool" where
  "settled_report a y \<longleftrightarrow>
     (case y of (Inr report, w) \<Rightarrow> field ''status'' report = JStr ''FAIL'' \<or> ready a report | (Inl e, w) \<Rightarrow> True)"

lemma failed_report_status [simp]: "field ''status'' (failed_report n err) = JStr ''FAIL''"
  by (simp add: failed_report_def)

lemma wait_loop_ready:
  fixes env :: "'w wait_env"
  assumes "wait_loop env api a deadline n err w = Some y"
  shows "settled_report a y"
proof (rule wait_loop.raw_induct [where P = "\<lambda>env api a deadline n err w y. settled_report a y", OF _ assms])
  fix f and env :: "'w wait_env" and api a deadline n err w y
  assume IH: "\<And>env api a deadline n err w y. f env api a deadline n err w = Some y \<Longrightarrow> settled_report a y"
    and run: "(case goes_on env deadline w of (Inl e, w1) \<Rightarrow> Some (Inl e, w1)
      | (Inr on, w1) \<Rightarrow>
          if \<not> on then Some (Inr (failed_report n err), w1)
          else case reach_world env api a deadline (n + 1) w1 of
               (Inr report, w2) \<Rightarrow> Some (Inr report, w2)
             | (Inl e, w2) \<Rightarrow>
                 if \<not> retried e then Some (Inl e, w2)
                 else case rest env deadline w2 of
                      (Inl e', w3) \<Rightarrow> Some (Inl e', w3)
                    | (Inr u, w3) \<Rightarrow> f env api a deadline (n + 1) (Some (error_text e)) w3) = Some y"
  from run show "settled_report a y"
    by (auto simp: settled_report_def split: prod.splits sum.splits if_splits
        dest: IH reach_world_ready)
qed

section \<open>A server that never answers\<close>

text \<open>The state of the world is the reading of the clock in seconds, which a pause moves by one.\<close>

definition silent :: "nat \<Rightarrow> 'a result \<times> nat" where
  "silent w = (Inl (RuntimeError ''time-out''), w)"

definition silent_api :: "nat carla_api" where
  "silent_api =
     \<lparr>api_connect = \<lambda>h p. silent, api_set_timeout = \<lambda>t. silent, api_client_version = silent,
      api_server_version = silent, api_get_world = silent, api_map_name = silent, api_snapshot = silent,
      api_get_settings = silent, api_apply_settings = \<lambda>s t. silent, api_same_settings = \<lambda>s t. True,
      api_tick = \<lambda>t. silent, api_spawn_points = silent, api_find = \<lambda>n. silent, api_filter = \<lambda>n. silent,
      api_has_attribute = \<lambda>b n. silent, api_set_attribute = \<lambda>b n v. silent, api_spawn = \<lambda>b t x. silent,
      api_random_location = silent, api_traffic_manager = silent, api_tm_port = \<lambda>n. silent,
      api_tm_synchronous = \<lambda>n b. silent, api_tm_seed = \<lambda>n i. silent, api_autopilot = \<lambda>x b p. silent,
      api_listen = \<lambda>x. silent, api_set_transform = \<lambda>x t. silent, api_location = \<lambda>x. silent,
      api_velocity = \<lambda>x. silent, api_is_listening = \<lambda>x. silent, api_stop = \<lambda>x. silent,
      api_destroy = \<lambda>x. silent, api_controller_start = \<lambda>x. silent, api_controller_go = \<lambda>x l. silent,
      api_controller_speed = \<lambda>x v. silent, api_controller_stop = \<lambda>x. silent,
      api_arrivals = \<lambda>n w. ([], w), api_turns = \<lambda>n w. ([], w)\<rparr>"

definition second_clock :: "nat wait_env" where
  "second_clock =
     \<lparr>wt_clock = get_state (\<lambda>w. Fin (of_nat w)), wt_alive = ret True, wt_pause = \<lambda>x. put_state Suc\<rparr>"

definition three_seconds :: wait_args where
  "three_seconds = \<lparr>wr_host = JStr ''h'', wr_port = JInt 2000, wr_suffix = ''Town'', wr_seconds = 3\<rparr>"

lemma deadline_three: "float_add (Fin (of_nat 0)) (float_of_int (wr_seconds three_seconds)) = Fin 3"
proof -
  have "log2_floor 3 = 1" by code_simp
  then have "round_float 3 = Fin 3" by (simp add: round_float_def pow2_def Let_def round_half_even_def)
  then show ?thesis by (simp add: three_seconds_def float_add_def float_of_int_def)
qed

lemma second_clock_runs_out: "runs_out (\<lambda>w. 3 - w) second_clock silent_api three_seconds (Fin 3)"
proof -
  have "goes_on second_clock (Fin 3) w = (Inr (w < 3), w)" for w
    by (simp add: goes_on_def second_clock_def and_then_run)
  moreover have "reach_world second_clock silent_api three_seconds (Fin 3) n w = (Inl (RuntimeError ''time-out''), w)" for n w
    by (simp add: reach_world_def then_do_def and_then_run silent_api_def silent_def)
  moreover have "rest second_clock (Fin 3) w = (Inr (), Suc w)" for w
    by (simp add: rest_def remaining_def second_clock_def and_then_run)
  ultimately show ?thesis by (auto simp: runs_out_def)
qed

section \<open>Properties\<close>

text \<open>C33: when the clock runs out, the wait returns, and a report counts at most as many attempts as pauses
  were left.\<close>

theorem waiting_ends:
  assumes "wt_clock env w = (Inr t, w1)"
    and "runs_out \<mu> env api a (float_add t (float_of_int (wr_seconds a)))"
  shows "\<exists>r w'. wait env api a w = Some (r, w') \<and> attempts_within 0 (int (\<mu> w1)) r"
  using loop_ends [OF assms(2), of 0 None w1] by (simp add: wait_def assms(1))

lemma waiting_ends_witness:
  "\<exists>r w'. wait second_clock silent_api three_seconds 0 = Some (r, w') \<and> attempts_within 0 3 r"
proof -
  have "wt_clock second_clock 0 = (Inr (Fin (of_nat 0)), 0)" by (simp add: second_clock_def)
  from waiting_ends [OF this, of "\<lambda>w. 3 - w" silent_api three_seconds] second_clock_runs_out
  show ?thesis unfolding deadline_three by simp
qed

text \<open>C34: whatever the server answers, a report that is not a FAIL describes a reached world: client and
  server have the same version, the map has the wanted name, and the frame data of its snapshot was
  accepted.\<close>

theorem reported_world_is_ready:
  "case wait env api a w of
     Some (Inr report, w') \<Rightarrow> field ''status'' report = JStr ''FAIL'' \<or> ready a report
   | _ \<Rightarrow> True"
proof -
  have "settled_report a y" if "wait env api a w = Some y" for y
    using that by (auto simp: wait_def settled_report_def [of a "(Inl _, _)"] split: prod.splits sum.splits
        dest: wait_loop_ready)
  then show ?thesis by (auto simp: settled_report_def split: option.split sum.split prod.split)
qed

section \<open>A server that becomes ready\<close>

text \<open>
  \<open>\<mu>\<close> counts the pauses that are left. While some are left, the process is alive and the clock is before the
  deadline; an attempt may fail with a retried error as long as more than \<open>k\<close> pauses are left, and the pause
  after it leaves at least \<open>k\<close>.
\<close>

definition attempt_ok ::
  "nat \<Rightarrow> ('w \<Rightarrow> nat) \<Rightarrow> 'w wait_env \<Rightarrow> pyfloat \<Rightarrow> nat \<Rightarrow> json result \<times> 'w \<Rightarrow> bool"
where
  "attempt_ok k \<mu> env deadline left = (\<lambda>(r, w2).
     case r of
       Inr report \<Rightarrow> True
     | Inl e \<Rightarrow>
         k < left \<and> retried e \<and>
         (case rest env deadline w2 of (Inr u, w3) \<Rightarrow> k \<le> \<mu> w3 \<and> \<mu> w3 < left | (Inl e', w3) \<Rightarrow> False))"

definition becomes_ready ::
  "nat \<Rightarrow> ('w \<Rightarrow> nat) \<Rightarrow> 'w wait_env \<Rightarrow> 'w carla_api \<Rightarrow> wait_args \<Rightarrow> pyfloat \<Rightarrow> bool"
where
  "becomes_ready k \<mu> env api a deadline \<longleftrightarrow>
     (\<forall>w n. 0 < \<mu> w \<longrightarrow>
        (case goes_on env deadline w of
           (Inr on, w1) \<Rightarrow> on \<and> attempt_ok k \<mu> env deadline (\<mu> w) (reach_world env api a deadline n w1)
         | (Inl e, w1) \<Rightarrow> False))"

definition passing :: "wait_args \<Rightarrow> json \<Rightarrow> bool" where
  "passing a report \<longleftrightarrow> field ''status'' report = JStr ''PASS'' \<and> ready a report"

lemma reach_world_passing:
  "reach_world env api a deadline n w = (Inr report, w') \<Longrightarrow> passing a report"
  using reach_world_ready [of env api a deadline n w report w'] reach_world_report [of env api a deadline n w report w']
  by (auto simp: passing_def world_report_def)

lemma ready_loop:
  assumes ready: "becomes_ready k \<mu> env api a deadline" and "0 < k" and "k \<le> \<mu> w"
  shows "\<exists>report w'. wait_loop env api a deadline n err w = Some (Inr report, w') \<and> passing a report"
  using assms(3)
proof (induction "\<mu> w" arbitrary: w n err rule: less_induct)
  case less
  note step = wait_loop.simps [of env api a deadline n err w]
  from less.prems \<open>0 < k\<close> have "0 < \<mu> w" by simp
  with ready have here: "case goes_on env deadline w of
      (Inr on, w1) \<Rightarrow> on \<and> attempt_ok k \<mu> env deadline (\<mu> w) (reach_world env api a deadline (n + 1) w1)
    | (Inl e, w1) \<Rightarrow> False" by (simp add: becomes_ready_def)
  then obtain w1 where go: "goes_on env deadline w = (Inr True, w1)"
    and once: "attempt_ok k \<mu> env deadline (\<mu> w) (reach_world env api a deadline (n + 1) w1)"
    by (auto split: prod.splits sum.splits)
  obtain q w2 where reach: "reach_world env api a deadline (n + 1) w1 = (q, w2)" by fastforce
  show ?case
  proof (cases q)
    case (Inr report)
    with go reach reach_world_passing [of env api a deadline "n + 1" w1 report w2] show ?thesis by (simp add: step)
  next
    case (Inl e)
    with once reach obtain w3 where e: "retried e" and slept: "rest env deadline w2 = (Inr (), w3)"
      and left: "k \<le> \<mu> w3" "\<mu> w3 < \<mu> w"
      by (auto simp: attempt_ok_def split: prod.splits sum.splits)
    from less.hyps [OF left(2,1), of "n + 1" "Some (error_text e)"] Inl e go reach slept show ?thesis
      by (simp add: step)
  qed
qed

text \<open>A server that answers from the third second on.\<close>

definition from_two :: "nat \<Rightarrow> unit result \<times> nat" where
  "from_two w = (if w < 2 then Inl (RuntimeError ''time-out'') else Inr (), w)"

definition still_world :: world_snapshot where
  "still_world = \<lparr>ws_frame = JInt 1, ws_stamp_frame = JInt 1, ws_elapsed = JInt 0, ws_delta = JInt 0\<rparr>"

definition late_api :: "nat carla_api" where
  "late_api = silent_api\<lparr>api_connect := \<lambda>h p. from_two, api_set_timeout := \<lambda>t. ret (),
     api_client_version := ret (JStr ''1''), api_server_version := ret (JStr ''1''), api_get_world := ret (),
     api_map_name := ret (JStr ''Maps/Town''), api_snapshot := ret still_world\<rparr>"

lemma still_world_ok: "\<exists>v. validate_snapshot still_world None JNull = Inr v"
proof -
  have "float_of_int 0 = Fin 0" by code_simp
  then show ?thesis
    by (simp add: validate_snapshot_def still_world_def integer_def finite_number_def is_finite_number_def
        is_number_def num_le_def)
qed

lemma late_becomes_ready: "becomes_ready 1 (\<lambda>w. 3 - w) second_clock late_api three_seconds (Fin 3)"
proof -
  have go: "goes_on second_clock (Fin 3) w = (Inr (w < 3), w)" for w
    by (simp add: goes_on_def second_clock_def and_then_run)
  have slept: "rest second_clock (Fin 3) w = (Inr (), Suc w)" for w
    by (simp add: rest_def remaining_def second_clock_def and_then_run)
  have fails: "reach_world second_clock late_api three_seconds (Fin 3) n w = (Inl (RuntimeError ''time-out''), w)"
    if "w < 2" for n w
    using that by (simp add: reach_world_def then_do_def and_then_run late_api_def from_two_def)
  obtain v where v: "validate_snapshot still_world None JNull = Inr v" using still_world_ok by blast
  have one: "strip ''1'' \<noteq> []" by code_simp
  have works: "fst (reach_world second_clock late_api three_seconds (Fin 3) n w)
      = Inr (world_report n (JObj [(''policy'', JStr ''exact''), (''client'', JStr ''1''), (''server'', JStr ''1'')]) (JStr ''Maps/Town'') v)"
    if "\<not> w < 2" for n w
    using that one by (simp add: reach_world_def then_do_def and_then_run late_api_def from_two_def v
        remaining_def second_clock_def validate_versions_def text_value_def require_def three_seconds_def)
  show ?thesis
    unfolding becomes_ready_def go
  proof (intro allI impI, simp)
    fix w n assume "w < (3::nat)"
    show "attempt_ok (Suc 0) (\<lambda>w. 3 - w) second_clock (Fin 3) (3 - w) (reach_world second_clock late_api three_seconds (Fin 3) n w)"
    proof (cases "w < 2")
      case True
      then show ?thesis by (auto simp: fails attempt_ok_def slept retried_def)
    next
      case False
      with works [OF this, of n] show ?thesis
        by (cases "reach_world second_clock late_api three_seconds (Fin 3) n w") (simp add: attempt_ok_def)
    qed
  qed
qed

text \<open>C16: a server that becomes ready in time is reported. If every failure before is of a kind the loop
  retries, the process stays alive, and the server answers while at least one pause is left, the wait ends with
  a PASS for the wanted world.\<close>

theorem ready_server_is_reported:
  assumes "wt_clock env w = (Inr t, w1)"
    and "becomes_ready k \<mu> env api a (float_add t (float_of_int (wr_seconds a)))" and "0 < k" and "k \<le> \<mu> w1"
  shows "\<exists>report w'. wait env api a w = Some (Inr report, w') \<and> passing a report"
  using ready_loop [OF assms(2-4), of 0 None] by (simp add: wait_def assms(1))

lemma ready_server_is_reported_witness:
  "\<exists>report w'. wait second_clock late_api three_seconds 0 = Some (Inr report, w') \<and> passing three_seconds report"
proof -
  have "wt_clock second_clock 0 = (Inr (Fin (of_nat 0)), 0)" by (simp add: second_clock_def)
  from ready_server_is_reported [OF this, of 1 "\<lambda>w. 3 - w" late_api three_seconds] late_becomes_ready
  show ?thesis unfolding deadline_three by simp
qed

end
