(* ===== verification/Spec2Isabelle.thy ===== *)
theory Spec2Isabelle
  imports AssetStage CacheLifecycleFacts DeploymentFacts DeviceCompareFacts DiagnosticFacts EntryReportFacts FaultFacts HierarchyStage InterchangeFacts MemoryTrace ParserStage PipelineHistoryFacts PipelineSnapshotFacts ReadbackFacts RuntimeConfig RuntimeGateProperties StageReportTypes StaticMeshStage UfbxFacts WorkerStage WorldWaitFacts
begin

text \<open>
  A verification development for the Python tools that bring CARLA and Unreal up on an ARM64 machine with an NVIDIA
  GB10 (\<open>src/scripts/carla\<close>). The tools run a native program, the Unreal client or a simulator, examine what it
  leaves behind, and write a \<^emph>\<open>stage report\<close>: PASS or FAIL for one exact stage and scope, bound by digests to its
  evidence and to the reports of earlier stages. What has to be right is the decision: no run is reported as PASS
  that did not do what the report claims, every resource of a run is given back, and an analysis of a crash names
  what the capture holds.

  \<^bold>\<open>How the program fits together.\<close> \<open>stage_report.py\<close> writes and validates reports. Every checker
  (\<open>check_ue_*.py\<close>, \<open>check_staticmesh.py\<close>, \<open>check_legacy_hierarchy.py\<close>, \<open>check_carla_asset.py\<close>,
  \<open>check_vulkan_readback.py\<close>, \<open>check_carla_runtime.py\<close>) ends in a call of \<open>write_report\<close> and starts from
  \<open>validate_report\<close> on its prerequisites. \<open>prepare_interchange_*.py\<close> edit engine sources before a build.
  \<open>check_carla_runtime.py\<close> drives a CARLA server through the client library; \<open>wait_carla_world.py\<close> waits for it
  and \<open>runtime_entry_report.py\<close> binds an outer shell run to its inputs and to the report of the gate. The Vulkan tools
  (\<open>vulkan_*_snapshot.py\<close>, \<open>analyze_vulkan_*.py\<close>, \<open>compare_*.py\<close>, \<open>batch_vulkan_compute.py\<close>,
  \<open>vulkan_graphics_memory_trace.py\<close>) validate, compare and replay what instrumented runs captured.

  \<^bold>\<open>Foundations.\<close>
  \<^item> \<open>Prelude\<close>: errors as the datatype \<open>py_error\<close>, results \<open>py_error + 'a\<close>, \<open>bind_result\<close>, \<open>each\<close>,
    \<open>fold_result\<close>, text; \<open>Checks\<close>: \<open>require\<close> in front of the rest of a function. \<open>Effects\<close>: actions on a
    state that survives an exception, with the triples \<open>keeps\<close>. \<open>Bytes\<close>: little-endian words at their width.
  \<^item> \<open>PyFloat\<close>, \<open>PyNumber\<close>, \<open>PyValue\<close>: binary64 with rounding to even, dynamic numbers, JSON values with
    Python's equality. \<open>JsonText\<close>, \<open>JsonBytes\<close>, \<open>JsonForms\<close>: \<open>json.loads\<close> with hooks, \<open>json.dumps\<close> in the
    forms the tools use; \<open>JsonRoundtrip\<close>: the codec reads back what it writes, in the locales \<open>object_hook\<close> and
    \<open>strict_hook\<close>, interpreted on the hooks of the code. \<open>TextRecords\<close>: lines, words, \<open>key=value\<close>.
  \<^item> \<open>Files\<close>, \<open>FileOps\<close>: a file system is a map from paths to nodes (regular, unreadable, directory, link) with
    link resolution, and the reading and writing operations the tools use.

  \<^bold>\<open>Stage reports\<close> (\<open>stage_report.py\<close>). \<open>StageReport\<close> holds the content checks, the recursive validator, the
  atomic write and both commands. \<open>StageReportFacts\<close> gives the abstract specification \<open>genuine\<close>, a least fixed point
  over prerequisite reports, and shows that the validator refines it. \<open>StageReportProperties\<close>: equivalence with the
  specification, detection of changed evidence, absence of cycles, fail-closed writing; \<open>StageReportRoundtrip\<close>: a report
  written as PASS validates; \<open>StageReportTypes\<close>: the type every validated report has.

  \<^bold>\<open>Runtime gate\<close> (\<open>check_carla_runtime.py\<close>). \<open>RuntimeChecks\<close>, \<open>RuntimeChecksFacts\<close>: provenance, snapshots,
  images and point clouds. \<open>AlignedQueue\<close>: the sensor queue under every interleaving of the single accesses that the
  callbacks make to it with the takes and the closing of the main thread.
  \<open>Simulator\<close>: the client library as a record of actions (\<open>carla_api\<close>) and the state of the gate. \<open>RuntimeSetup\<close>,
  \<open>RuntimeTicks\<close>, \<open>RuntimeGate\<close>: the phases, the tick loop, the cleanup and the report. \<open>RuntimeGateFacts\<close>,
  \<open>RuntimeGatePass\<close>, \<open>RuntimeGateProperties\<close> (with \<open>RuntimeGateSample\<close> for the witnesses): for every simulator, each spawned actor is disposed of, the settings are
  restored, and a PASS means a complete run. \<open>WorldWait\<close>, \<open>WorldWaitFacts\<close> (\<open>wait_carla_world.py\<close>): termination
  when the clock runs out, a PASS is a ready world, and a server that becomes ready in time is reported.
  \<open>EntryReport\<close>, \<open>EntryReportFacts\<close> (\<open>runtime_entry_report.py\<close>): the invocation and its six pinned inputs.

  \<^bold>\<open>Unreal stages.\<close> \<open>StageChecker\<close>, \<open>NativeRun\<close>: what the checkers share. \<open>InterchangeStage\<close>
  (\<open>InterchangeFacts\<close>), \<open>ParserStage\<close>, \<open>WorkerStage\<close>, \<open>StaticMeshStage\<close>, \<open>HierarchyStage\<close>, \<open>AssetStage\<close>:
  one checker each. \<open>SourceDeployment\<close>, \<open>ParserDeployment\<close>, \<open>WorkerDeployment\<close>, \<open>DeploymentFacts\<close>: the edits of
  engine sources and that a second deployment changes nothing. \<open>BridgeReport\<close>, \<open>MeshBridge\<close> (\<open>check_ue_meshbridge.py\<close>)
  and \<open>UfbxReport\<close>, \<open>UfbxInputs\<close>, \<open>UfbxBridge\<close> (\<open>check_ue_ufbxbridge.py\<close>): the six probes of the mesh bridges;
  \<open>BridgeFacts\<close> states the loop over the probes as the locales \<open>kept\<close>, \<open>evaluator\<close> and \<open>probing\<close>, interpreted for both
  checkers, and says in \<open>mesh_report\<close> what the report of each case has to contain; \<open>UfbxFacts\<close> does so for the other
  backend in \<open>ufbx_report\<close> and adds the coordinate fixtures.

  \<^bold>\<open>Vulkan evidence.\<close> \<open>DeviceSnapshot\<close>, \<open>PipelineSnapshot\<close>, \<open>FaultSnapshot\<close> with their facts (and
  \<open>DeviceRoundtrip\<close>): validators of captured calls and the correlation of a fault with the graphics trace.
  \<open>DriverMarkers\<close>, \<open>DriverEntries\<close>, \<open>PipelineHistory\<close>, \<open>CacheLifecycle\<close>: log analyses whose running state is shown
  to be a declarative reading of the log. \<open>DeviceCompare\<close>, \<open>DiagnosticCompare\<close>: comparisons. \<open>MemoryTrace\<close>: the
  uniform-buffer trace. \<open>ShaderContainers\<close> (\<open>check-shader-output.py\<close>): SPIR-V and DXBC. \<open>ComputeBatch\<close>: replay of
  captured shaders. \<open>Readback\<close>, \<open>ReadbackFacts\<close>, \<open>PngImage\<close>: the two frames of \<open>check_vulkan_readback.py\<close> and their
  PNG files. \<open>RuntimeConfig\<close> (\<open>normalize-runtime-config.py\<close>): the renaming of a reference in configurations.

  \<^bold>\<open>Correspondence.\<close> Definitions keep the names of the functions where Isabelle allows it; a function with several
  early returns or a loop is split along them. Local dictionaries that a function fills are a record
  (\<open>checker\<close>, \<open>bridge\<close>, \<open>gate\<close>, \<open>readback\<close>); an exception is \<open>Inl\<close> of a \<open>py_error\<close>, which a \<open>try\<close> block handles by
  its class; \<open>finally\<close> is an action that runs after both outcomes. \<open>br_started\<close> of \<open>MeshBridge\<close> is a log of the
  started probes, each with its limit on cores and the files it found, that the code does not keep; so is the log of \<open>logged\<close> in \<open>RuntimeGateFacts\<close>.

  \<^bold>\<open>Bounds.\<close> Prerequisite reports are followed 32 levels deep, as in the code, which is also the fuel of the
  validator. Links are followed 40 times, as the kernel does. The JSON parser's fuel is the length of the text, and
  that it is enough is part of the round trip. The wait for a world is a \<open>partial_function\<close>: \<open>None\<close> is a loop that does not
  end, and termination is a property with a hypothesis on the clock. The queue holds 32 packets. All other recursion is
  structural or has a measure.

  \<^bold>\<open>Assumptions.\<close> A Python string is its UTF-8 encoding, with lone surrogates as their three bytes; digits, letters and
  spaces outside ASCII do not count as such. What a directory holds (\<open>glob\<close>, \<open>rglob\<close>), subprocesses, \<open>mkdtemp\<close>,
  \<open>setrlimit\<close>, the clock, \<open>difflib\<close>, \<open>zlib.compress\<close>, SHA-256 and ISO timestamps are arguments. Other processes do
  not write to the files meanwhile, except where a subprocess is called. A file without read permission has no size.
  Integers of more than 4300 digits and nesting beyond the interpreter's limit are not modelled. Messages of the
  interpreter itself are abbreviated, those of the tools are exact. The callbacks of sensors run in
  other threads: between two steps of the main thread a list of arrivals takes effect, each a whole callback, the start of
  one or its next single access, so a callback may stop between any two of them. A probe may be interrupted by any
  exception (\<open>bh_break\<close>); \<open>setrlimit\<close> raises \<open>ValueError\<close> or \<open>OSError\<close> only, a hypothesis of its property. The round
  trips of reports and snapshots hold for ASCII text and for floats whose written form reads back (\<open>reads_back\<close>, which
  computes); that every float does is a fact of the interpreter's conversion that is not proved here.

  \<^bold>\<open>Not modelled.\<close> Argument parsing and printed lines. The \<open>gdb_*.py\<close> scripts, which only exist inside gdb.
  \<open>analyze_ue_shutdown_capture.py\<close>, which reads the free text of one crash. \<open>capture_build_manifest.py\<close>,
  \<open>collect_gb10_driver_report.py\<close>, \<open>symbolize_client_crash.py\<close>, \<open>report_fork_provenance.py\<close> and
  \<open>freeze_fork_delta.py\<close>, which copy the output of other programs. The USD tools and the FBX inventories and
  backend probes, which inspect third-party trees with the conventions modelled here. The preparation of graphics replays for a C
  program. The harness, which needs ROS. Shell scripts, C, gdb and Unreal sources.
\<close>

end
